(* ===== verification/Py_Prelude.thy ===== *)
theory Py_Prelude
  imports Main "HOL-Library.Word" "HOL-Library.AList"
begin

text \<open>
  The vocabulary the component theories share: Python exceptions as values of a sum type, the
  exception monad and the state-and-exception monad in which methods are written, byte strings
  with the little-endian layouts of the \<^verbatim>\<open>struct\<close> module, dictionaries as
  association lists, and the string operations (decimal and hexadecimal formatting, prefix and
  replacement) the sources call.
\<close>

unbundle bit_operations_syntax

named_theorems py_defs \<open>definitions of the monad combinators, for symbolic execution\<close>
named_theorems keeps_rules \<open>methods that leave an observation of the state alone\<close>
named_theorems maintains_rules \<open>methods that maintain an invariant of the state\<close>
named_theorems py_len \<open>lengths of encoded byte strings\<close>

section \<open>Exceptions\<close>

text \<open>
  An exception is represented by its class; message texts are not kept. \<open>StructError\<close> is
  \<^verbatim>\<open>struct.error\<close>, \<open>PlainException\<close> a bare \<^verbatim>\<open>Exception(...)\<close>.
\<close>

datatype py_error =
    TypeError | ValueError | RuntimeError | KeyError | IndexError | AttributeError
  | AssertionError | NotImplementedError | StructError | UnicodeError | OSError
  | GNException | DepsBuilderError | CrocStatError | ParseException | WrongFileVersion | IdRangeOverlap | SystemExit | PlainException

type_synonym 'a res = "py_error + 'a"

definition bind_res :: "'a res \<Rightarrow> ('a \<Rightarrow> 'b res) \<Rightarrow> 'b res" where
  "bind_res r f = (case r of Inl e \<Rightarrow> Inl e | Inr x \<Rightarrow> f x)"

lemma bind_res_simps [simp]:
  "bind_res (Inl e) f = Inl e"
  "bind_res (Inr x) f = f x"
  by (simp_all add: bind_res_def)

lemma bind_res_Inr_iff: "bind_res r f = Inr y \<longleftrightarrow> (\<exists>x. r = Inr x \<and> f x = Inr y)"
  by (cases r) auto

lemma bind_res_Inl_iff:
  "bind_res r f = Inl e \<longleftrightarrow> r = Inl e \<or> (\<exists>x. r = Inr x \<and> f x = Inl e)"
  by (cases r) auto

lemma bind_res_assoc: "bind_res (bind_res r f) g = bind_res r (\<lambda>x. bind_res (f x) g)"
  by (cases r) auto

lemma bind_res_InrE:
  assumes "bind_res r f = Inr y"
  obtains x where "r = Inr x" and "f x = Inr y"
  using assms by (auto simp: bind_res_Inr_iff)

lemma bind_res_cong [fundef_cong]:
  "r = r' \<Longrightarrow> (\<And>x. r' = Inr x \<Longrightarrow> f x = f' x) \<Longrightarrow> bind_res r f = bind_res r' f'"
  by (cases r') auto

text \<open>A list comprehension whose body may raise: the first exception ends it.\<close>

fun map_res :: "('a \<Rightarrow> 'b res) \<Rightarrow> 'a list \<Rightarrow> 'b list res" where
  "map_res f [] = Inr []"
| "map_res f (x # xs) = bind_res (f x) (\<lambda>y. bind_res (map_res f xs) (\<lambda>ys. Inr (y # ys)))"

lemma map_res_cong [fundef_cong]:
  "xs = ys \<Longrightarrow> (\<And>x. x \<in> set ys \<Longrightarrow> f x = g x) \<Longrightarrow> map_res f xs = map_res g ys"
proof (induction xs arbitrary: ys)
  case (Cons x xs)
  from Cons.prems(1) have ys: "ys = x # xs" by simp
  with Cons.prems(2) have "f x = g x" by simp
  moreover have "map_res f xs = map_res g xs"
    using Cons.prems(2) by (intro Cons.IH) (auto simp: ys)
  ultimately show ?case by (simp add: ys)
qed simp

lemma map_res_Inr_iff: "map_res f xs = Inr ys \<longleftrightarrow> list_all2 (\<lambda>x y. f x = Inr y) xs ys"
  by (induction xs arbitrary: ys) (auto simp: bind_res_Inr_iff list_all2_Cons1)

lemma map_res_length: "map_res f xs = Inr ys \<Longrightarrow> length ys = length xs"
  by (auto simp: map_res_Inr_iff dest: list_all2_lengthD)

lemma map_res_append:
  "map_res f (xs @ ys) =
     bind_res (map_res f xs) (\<lambda>as. bind_res (map_res f ys) (\<lambda>bs. Inr (as @ bs)))"
proof (induction xs)
  case (Cons x xs)
  then show ?case by (cases "f x"; cases "map_res f xs"; cases "map_res f ys") auto
next
  case Nil
  show ?case by (cases "map_res f ys") auto
qed

lemma map_res_total: "(\<And>x. x \<in> set xs \<Longrightarrow> f x = Inr (g x)) \<Longrightarrow> map_res f xs = Inr (map g xs)"
  by (induction xs) auto

text \<open>A loop that updates a value by a function that may raise.\<close>

fun fold_res :: "('a \<Rightarrow> 's \<Rightarrow> 's res) \<Rightarrow> 'a list \<Rightarrow> 's \<Rightarrow> 's res" where
  "fold_res f [] s = Inr s"
| "fold_res f (x # xs) s = bind_res (f x s) (fold_res f xs)"

lemma fold_res_append: "fold_res f (xs @ ys) s = bind_res (fold_res f xs s) (fold_res f ys)"
proof (induction xs arbitrary: s)
  case (Cons x xs)
  then show ?case by (cases "f x s") simp_all
qed simp

section \<open>Methods with state\<close>

text \<open>
  A method is a function from the state to a result and a new state. When it raises, the changes
  made so far stay: the state is returned with the exception.
\<close>

type_synonym ('s, 'a) st = "'s \<Rightarrow> 'a res \<times> 's"

definition return_st :: "'a \<Rightarrow> ('s, 'a) st" where
  "return_st x = (\<lambda>s. (Inr x, s))"

definition raise_st :: "py_error \<Rightarrow> ('s, 'a) st" where
  "raise_st e = (\<lambda>s. (Inl e, s))"

definition bind_st :: "('s, 'a) st \<Rightarrow> ('a \<Rightarrow> ('s, 'b) st) \<Rightarrow> ('s, 'b) st" where
  "bind_st m f = (\<lambda>s. case m s of (Inl e, t) \<Rightarrow> (Inl e, t) | (Inr x, t) \<Rightarrow> f x t)"

definition seq_st :: "('s, unit) st \<Rightarrow> ('s, 'b) st \<Rightarrow> ('s, 'b) st" where
  "seq_st m n = bind_st m (\<lambda>_. n)"

definition gets_st :: "('s \<Rightarrow> 'a) \<Rightarrow> ('s, 'a) st" where
  "gets_st f = (\<lambda>s. (Inr (f s), s))"

definition modify_st :: "('s \<Rightarrow> 's) \<Rightarrow> ('s, unit) st" where
  "modify_st f = (\<lambda>s. (Inr (), f s))"

definition lift_res :: "'a res \<Rightarrow> ('s, 'a) st" where
  "lift_res r = (\<lambda>s. (r, s))"

text \<open>\<^verbatim>\<open>assert c\<close>.\<close>

definition assert_st :: "bool \<Rightarrow> ('s, unit) st" where
  "assert_st c = (if c then return_st () else raise_st AssertionError)"

text \<open>\<^verbatim>\<open>for x in xs: body(x)\<close>, ended by the first exception.\<close>

fun for_st :: "'a list \<Rightarrow> ('a \<Rightarrow> ('s, unit) st) \<Rightarrow> ('s, unit) st" where
  "for_st [] f = return_st ()"
| "for_st (x # xs) f = seq_st (f x) (for_st xs f)"

lemmas st_defs [py_defs] =
  return_st_def raise_st_def seq_st_def gets_st_def modify_st_def lift_res_def assert_st_def

lemma bind_st_run [py_defs]:
  "bind_st m f s = (case m s of (Inl e, t) \<Rightarrow> (Inl e, t) | (Inr x, t) \<Rightarrow> f x t)"
  by (simp add: bind_st_def)

lemma st_run:
  "bind_st (gets_st f) k s = k (f s) s"
  "bind_st (lift_res (Inr x)) k s = k x s"
  "bind_st (lift_res (Inl e)) k s = (Inl e, s)"
  "bind_st (bind_st m f') k s = bind_st m (\<lambda>x. bind_st (f' x) k) s"
  "seq_st (modify_st u) n s = n (u s)"
  "modify_st u s = (Inr (), u s)"
  "return_st y s = (Inr y, s)"
  by (simp_all add: py_defs bind_st_run split: prod.splits sum.splits)

lemma bind_st_InrE:
  assumes "bind_st m f s = (Inr y, t)"
  obtains x u where "m s = (Inr x, u)" and "f x u = (Inr y, t)"
  using assms by (auto simp: bind_st_def split: prod.splits sum.splits)

lemma seq_st_InrE:
  assumes "seq_st m n s = (Inr y, t)"
  obtains u where "m s = (Inr (), u)" and "n u = (Inr y, t)"
  using assms by (auto simp: seq_st_def elim!: bind_st_InrE)

lemma for_st_append: "for_st (xs @ ys) f = seq_st (for_st xs f) (for_st ys f)"
proof
  fix s
  show "for_st (xs @ ys) f s = seq_st (for_st xs f) (for_st ys f) s"
    by (induction xs arbitrary: s) (auto simp: py_defs split: prod.splits sum.splits)
qed

text \<open>An invariant of the loop body is an invariant of the loop, also when it is left early.\<close>

lemma for_st_invariant:
  assumes "\<And>x s. x \<in> set xs \<Longrightarrow> P s \<Longrightarrow> P (snd (f x s))" and "P s"
  shows "P (snd (for_st xs f s))"
  using assms
proof (induction xs arbitrary: s)
  case (Cons x xs)
  have step: "P (snd (f x s))" using Cons.prems by simp
  show ?case
  proof (cases "f x s")
    case (Pair r t)
    with step have "P t" by simp
    then have "P (snd (for_st xs f t))" using Cons.prems(1) by (intro Cons.IH) auto
    with Pair \<open>P t\<close> show ?thesis by (cases r) (simp_all add: py_defs)
  qed
qed (simp add: py_defs)

text \<open>A loop whose body always succeeds is a fold.\<close>

lemma for_st_fold:
  assumes "\<And>x s. x \<in> set xs \<Longrightarrow> f x s = (Inr (), g x s)"
  shows "for_st xs f s = (Inr (), fold g xs s)"
  using assms by (induction xs arbitrary: s) (auto simp: py_defs)

text \<open>A loop that ends normally: an invariant over the elements before so far.\<close>

lemma for_st_success:
  assumes "for_st xs f s = (Inr (), t)" and "I [] s"
    and "\<And>before x rest u v. xs = before @ x # rest \<Longrightarrow> I before u \<Longrightarrow> f x u = (Inr (), v) \<Longrightarrow> I (before @ [x]) v"
  shows "I xs t"
proof -
  have "for_st rest f u = (Inr (), t) \<Longrightarrow> xs = before @ rest \<Longrightarrow> I before u \<Longrightarrow> I xs t" for before rest u
  proof (induction rest arbitrary: before u)
    case (Cons x rest)
    from Cons.prems(1) obtain v where v: "f x u = (Inr (), v)" and r: "for_st rest f v = (Inr (), t)"
      by (auto elim: seq_st_InrE)
    from assms(3) [OF Cons.prems(2,3) v] Cons.prems(2) show ?case
      by (intro Cons.IH [OF r, of "before @ [x]"]) auto
  qed (simp add: py_defs)
  with assms(1,2) show ?thesis by force
qed

text \<open>A loop all of whose steps succeed under an invariant succeeds.\<close>

lemma for_st_total:
  assumes "I [] s"
    and "\<And>before x rest u. xs = before @ x # rest \<Longrightarrow> I before u \<Longrightarrow>
      \<exists>v. f x u = (Inr (), v) \<and> I (before @ [x]) v"
  shows "\<exists>t. for_st xs f s = (Inr (), t) \<and> I xs t"
proof -
  have "xs = before @ rest \<Longrightarrow> I before u \<Longrightarrow> \<exists>t. for_st rest f u = (Inr (), t) \<and> I xs t" for before rest u
  proof (induction rest arbitrary: before u)
    case (Cons x rest)
    from assms(2) [OF Cons.prems] obtain v where "f x u = (Inr (), v)" "I (before @ [x]) v" by blast
    with Cons.IH [of "before @ [x]" v] Cons.prems show ?case by (auto simp: py_defs)
  qed (simp add: py_defs)
  with assms(1) show ?thesis by blast
qed

text \<open>\<open>keeps f m\<close>: whatever \<open>m\<close> does, also when it raises, \<open>f\<close> of the state stays the same.\<close>

definition keeps :: "('s \<Rightarrow> 'b) \<Rightarrow> ('s, 'a) st \<Rightarrow> bool" where
  "keeps f m \<longleftrightarrow> (\<forall>s. f (snd (m s)) = f s)"

lemma keepsI: "(\<And>s. f (snd (m s)) = f s) \<Longrightarrow> keeps f m"
  by (simp add: keeps_def)

lemma keeps_run: "keeps f m \<Longrightarrow> f (snd (m s)) = f s"
  by (simp add: keeps_def)

lemma keepsD: "keeps f m \<Longrightarrow> m s = (r, t) \<Longrightarrow> f t = f s"
  by (metis keeps_def snd_conv)

lemma keeps_basic [keeps_rules]:
  "keeps f (return_st x)" "keeps f (raise_st e)" "keeps f (gets_st g)" "keeps f (lift_res r)"
  "keeps f (assert_st c)"
  by (auto simp: keeps_def py_defs)

lemma keeps_modify [keeps_rules]: "(\<And>s. f (u s) = f s) \<Longrightarrow> keeps f (modify_st u)"
  by (simp add: keeps_def py_defs)

lemma keeps_bind [keeps_rules]: "keeps f m \<Longrightarrow> (\<And>x. keeps f (k x)) \<Longrightarrow> keeps f (bind_st m k)"
  unfolding keeps_def bind_st_run
  by (auto split: prod.split sum.split) (metis snd_conv)+

lemma keeps_seq [keeps_rules]: "keeps f m \<Longrightarrow> keeps f n \<Longrightarrow> keeps f (seq_st m n)"
  by (simp add: seq_st_def keeps_bind)

lemma keeps_for [keeps_rules]: "(\<And>x. x \<in> set xs \<Longrightarrow> keeps f (b x)) \<Longrightarrow> keeps f (for_st xs b)"
  by (induction xs) (auto intro!: keeps_rules)

lemma keeps_option [keeps_rules]:
  "keeps f m \<Longrightarrow> (\<And>x. keeps f (n x)) \<Longrightarrow> keeps f (case v of None \<Rightarrow> m | Some x \<Rightarrow> n x)"
  by (cases v) auto

lemma keeps_if [keeps_rules]: "(c \<Longrightarrow> keeps f m) \<Longrightarrow> (\<not> c \<Longrightarrow> keeps f n) \<Longrightarrow> keeps f (if c then m else n)"
  by simp

text \<open>\<open>maintains P m\<close>: \<open>m\<close> leads from a state with \<open>P\<close> to one with \<open>P\<close>, also when it raises.\<close>

definition maintains :: "('s \<Rightarrow> bool) \<Rightarrow> ('s, 'a) st \<Rightarrow> bool" where
  "maintains P m \<longleftrightarrow> (\<forall>s. P s \<longrightarrow> P (snd (m s)))"

lemma maintainsD: "maintains P m \<Longrightarrow> P s \<Longrightarrow> P (snd (m s))"
  by (simp add: maintains_def)

lemma maintains_basic [maintains_rules]:
  "maintains P (return_st x)" "maintains P (raise_st e)" "maintains P (gets_st g)" "maintains P (lift_res r)"
  by (auto simp: maintains_def py_defs)

lemma maintains_modify [maintains_rules]: "(\<And>s. P s \<Longrightarrow> P (u s)) \<Longrightarrow> maintains P (modify_st u)"
  by (simp add: maintains_def py_defs)

lemma maintains_bind: "maintains P m \<Longrightarrow> (\<And>x. maintains P (k x)) \<Longrightarrow> maintains P (bind_st m k)"
  unfolding maintains_def bind_st_run
  by (auto split: prod.split sum.split)

lemma maintains_lift: "(\<And>x. r = Inr x \<Longrightarrow> maintains P (k x)) \<Longrightarrow> maintains P (bind_st (lift_res r) k)"
  by (cases r) (auto simp: maintains_def st_run)

lemma maintains_seq [maintains_rules]: "maintains P m \<Longrightarrow> maintains P n \<Longrightarrow> maintains P (seq_st m n)"
  by (simp add: seq_st_def maintains_bind)

lemma maintains_for [maintains_rules]: "(\<And>x. x \<in> set xs \<Longrightarrow> maintains P (b x)) \<Longrightarrow> maintains P (for_st xs b)"
  by (induction xs) (auto intro!: maintains_rules)

lemma maintains_option [maintains_rules]:
  "maintains P m \<Longrightarrow> (\<And>x. maintains P (n x)) \<Longrightarrow> maintains P (case v of None \<Rightarrow> m | Some x \<Rightarrow> n x)"
  by (cases v) auto

lemma maintains_if [maintains_rules]:
  "(c \<Longrightarrow> maintains P m) \<Longrightarrow> (\<not> c \<Longrightarrow> maintains P n) \<Longrightarrow> maintains P (if c then m else n)"
  by simp

section \<open>Dictionaries, sets and slices\<close>

text \<open>
  A dictionary is an association list with distinct keys; its order is the order in which the
  interpreter happens to iterate. Theorems quantify over the list, hence over every order. A new
  key is put last. A set is a list without repetitions.
\<close>

abbreviation (input) dict_get :: "('k \<times> 'v) list \<Rightarrow> 'k \<Rightarrow> 'v option" where
  "dict_get \<equiv> map_of"

abbreviation (input) dict_set :: "'k \<Rightarrow> 'v \<Rightarrow> ('k \<times> 'v) list \<Rightarrow> ('k \<times> 'v) list" where
  "dict_set \<equiv> AList.update"

abbreviation (input) dict_del :: "'k \<Rightarrow> ('k \<times> 'v) list \<Rightarrow> ('k \<times> 'v) list" where
  "dict_del \<equiv> AList.delete"

text \<open>\<^verbatim>\<open>d.setdefault(k, v)\<close>, as the dictionary it leaves.\<close>

definition dict_setdefault :: "'k \<Rightarrow> 'v \<Rightarrow> ('k \<times> 'v) list \<Rightarrow> ('k \<times> 'v) list" where
  "dict_setdefault k v d = (case dict_get d k of None \<Rightarrow> dict_set k v d | Some _ \<Rightarrow> d)"

text \<open>\<^verbatim>\<open>d.update(other)\<close>.\<close>

definition dict_update :: "('k \<times> 'v) list \<Rightarrow> ('k \<times> 'v) list \<Rightarrow> ('k \<times> 'v) list" where
  "dict_update d other = fold (\<lambda>(k, v). dict_set k v) other d"

definition set_add :: "'a \<Rightarrow> 'a list \<Rightarrow> 'a list" where
  "set_add x xs = (if x \<in> set xs then xs else xs @ [x])"

lemma set_set_add [simp]: "set (set_add x xs) = insert x (set xs)"
  by (auto simp: set_add_def)

lemma distinct_set_add [simp]: "distinct (set_add x xs) \<longleftrightarrow> distinct xs"
  by (auto simp: set_add_def)

lemma dict_get_set [simp]: "dict_get (dict_set k v d) j = (if j = k then Some v else dict_get d j)"
  by (simp add: update_conv')

lemma dict_get_del [simp]: "dict_get (dict_del k d) j = (if j = k then None else dict_get d j)"
  by (simp add: delete_conv')

lemma dict_set_keys: "fst ` set (dict_set k v d) = insert k (fst ` set d)"
  by (simp add: update_conv' flip: dom_map_of_conv_image_fst)

lemma dict_del_keys: "fst ` set (dict_del k d) = fst ` set d - {k}"
  by (auto simp: delete_conv' simp flip: dom_map_of_conv_image_fst split: if_splits)

lemma dict_update_keys: "fst ` set (dict_update d other) = fst ` set d \<union> fst ` set other"
  unfolding dict_update_def
proof (induction other arbitrary: d)
  case (Cons e other)
  obtain k v where e: "e = (k, v)" by (cases e)
  show ?case unfolding e fold_Cons o_apply prod.case Cons.IH dict_set_keys by simp
qed simp

lemma dict_get_update: "dict_get (dict_update d other) k = (case dict_get (rev other) k of Some v \<Rightarrow> Some v | None \<Rightarrow> dict_get d k)"
  unfolding dict_update_def by (induction other arbitrary: d) (auto simp: map_add_def split: option.split)

lemma dict_update_distinct: "distinct (map fst d) \<Longrightarrow> distinct (map fst (dict_update d other))"
  unfolding dict_update_def by (induction other arbitrary: d) (auto simp: distinct_update)

lemma dict_set_fresh: "k \<notin> fst ` set d \<Longrightarrow> dict_set k v d = d @ [(k, v)]"
  by (induction d) auto

lemma dict_del_mem: "(j, v) \<in> set (dict_del k d) \<longleftrightarrow> (j, v) \<in> set d \<and> j \<noteq> k"
  by (auto simp: AList.delete_eq)

lemma dict_get_setdefault [simp]:
  "dict_get (dict_setdefault k v d) j =
     (if j = k then Some (case dict_get d k of None \<Rightarrow> v | Some w \<Rightarrow> w) else dict_get d j)"
  by (auto simp: dict_setdefault_def split: option.splits)

lemma distinct_dict_setdefault [simp]:
  "distinct (map fst d) \<Longrightarrow> distinct (map fst (dict_setdefault k v d))"
  by (auto simp: dict_setdefault_def distinct_update split: option.splits)

lemma dict_set_existing:
  "distinct (map fst d) \<Longrightarrow> k \<in> fst ` set d \<Longrightarrow>
     dict_set k v d = map (\<lambda>(j, w). (j, if j = k then v else w)) d"
proof (induction d)
  case (Cons p d)
  show ?case
  proof (cases "fst p = k")
    case True
    with Cons.prems(1) have "k \<notin> fst ` set d" by auto
    then have "map (\<lambda>(j, w). (j, if j = k then v else w)) d = d"
      by (intro map_idI) (force split: prod.splits)
    with True show ?thesis by (cases p) simp
  next
    case False
    with Cons show ?thesis by (cases p) auto
  qed
qed simp

lemma find_append: "find P (xs @ ys) = (case find P xs of None \<Rightarrow> find P ys | Some x \<Rightarrow> Some x)"
  by (induction xs) auto

text \<open>\<^verbatim>\<open>xs[:n]\<close>; a negative bound counts from the end.\<close>

definition slice_to :: "int \<Rightarrow> 'a list \<Rightarrow> 'a list" where
  "slice_to n xs = (if 0 \<le> n then take (nat n) xs else take (length xs - nat (- n)) xs)"

lemma slice_to_nonneg: "0 \<le> n \<Longrightarrow> slice_to n xs = take (nat n) xs"
  by (simp add: slice_to_def)

lemma length_slice_to: "0 \<le> n \<Longrightarrow> int (length (slice_to n xs)) \<le> n"
  by (simp add: slice_to_def)

lemma slice_to_all: "int (length xs) \<le> n \<Longrightarrow> slice_to n xs = xs"
  by (simp add: slice_to_def)

section \<open>Functions with a memory\<close>

text \<open>A sequence of calls of a function with a memory.\<close>

fun call_all :: "('k \<Rightarrow> 's \<Rightarrow> 'v \<times> 's) \<Rightarrow> 'k list \<Rightarrow> 's \<Rightarrow> 'v list \<times> 's" where
  "call_all call [] s = ([], s)"
| "call_all call (k # ks) s = (case call k s of (v, t) \<Rightarrow> case call_all call ks t of (vs, u) \<Rightarrow> (v # vs, u))"

text \<open>A memory that is good makes the calls return what they are specified to, and stays good.\<close>

locale memo_table =
  fixes call :: "'k \<Rightarrow> 's \<Rightarrow> 'v \<times> 's" and good :: "'s \<Rightarrow> bool" and spec :: "'k \<Rightarrow> 'v"
  assumes call_result: "good s \<Longrightarrow> fst (call k s) = spec k"
    and call_good: "good s \<Longrightarrow> good (snd (call k s))"
begin

lemma calls: "good s \<Longrightarrow> fst (call_all call ks s) = map spec ks"
proof (induction ks arbitrary: s)
  case (Cons k ks)
  from call_result [OF Cons.prems, of k] call_good [OF Cons.prems, of k] Cons.IH [of "snd (call k s)"] show ?case
    by (auto split: prod.split)
qed simp

end

text \<open>A function that may raise, with a dictionary of the results it returned; an exception is not kept.\<close>

definition cached_st :: "('k \<Rightarrow> 'v res) \<Rightarrow> 'k \<Rightarrow> (('k \<times> 'v) list, 'v) st" where
  "cached_st f k =
     bind_st (gets_st (\<lambda>cache. dict_get cache k)) (\<lambda>known.
       case known of
         Some v \<Rightarrow> return_st v
       | None \<Rightarrow> bind_st (lift_res (f k)) (\<lambda>v. bind_st (modify_st (dict_set k v)) (\<lambda>_. return_st v)))"

interpretation cached: memo_table "cached_st f" "\<lambda>cache. \<forall>k v. dict_get cache k = Some v \<longrightarrow> f k = Inr v" f
proof (unfold_locales, goal_cases)
  case (1 s k)
  then show ?case by (cases "dict_get s k"; cases "f k") (simp_all add: cached_st_def py_defs)
next
  case (2 s k)
  then show ?case by (cases "dict_get s k"; cases "f k") (auto simp: cached_st_def py_defs)
qed

end
