(* ===== verification/Py_Struct.thy ===== *)
theory Py_Struct
  imports Py_Prelude
begin

text \<open>
  Byte strings and the part of Python's \<^verbatim>\<open>struct\<close> module the sources use: little-endian
  standard layouts (\<^verbatim>\<open>B b H I Q Ns x\<close>), range checks included. A Python 2
  \<^verbatim>\<open>str\<close> that holds binary data is a list of bytes; one that holds text is a HOL string.
\<close>

section \<open>Little-endian integers\<close>

type_synonym byte = "8 word"
type_synonym bytes = "8 word list"

fun le_pack :: "nat \<Rightarrow> int \<Rightarrow> bytes" where
  "le_pack 0 v = []"
| "le_pack (Suc n) v = word_of_int v # le_pack n (v div 256)"

fun le_unpack :: "bytes \<Rightarrow> int" where
  "le_unpack [] = 0"
| "le_unpack (b # bs) = uint b + 256 * le_unpack bs"

lemma length_le_pack [simp, py_len]: "length (le_pack n v) = n"
  by (induction n arbitrary: v) auto

lemma uint_byte_bound: "0 \<le> uint (b :: byte)" "uint (b :: byte) < 256"
  using uint_lt2p [of b] by simp_all

lemma uint_byte_of_int: "uint (word_of_int v :: byte) = v mod 256"
  by (simp add: uint_word_of_int)

lemma le_unpack_nonneg: "0 \<le> le_unpack bs"
  by (induction bs) (auto simp: uint_byte_bound)

lemma le_unpack_bound: "le_unpack bs < 256 ^ length bs"
proof (induction bs)
  case (Cons b bs)
  have "uint b + 256 * le_unpack bs < 256 + 256 * le_unpack bs"
    using uint_byte_bound(2) [of b] by simp
  also have "\<dots> \<le> 256 * 256 ^ length bs"
    using Cons by simp
  finally show ?case by simp
qed simp

text \<open>Packing keeps exactly the value modulo the width; inside the width nothing is lost.\<close>

lemma le_unpack_pack_mod: "le_unpack (le_pack n v) = v mod 256 ^ n"
proof (induction n arbitrary: v)
  case (Suc n)
  have "v mod (256 * 256 ^ n) = 256 * (v div 256 mod 256 ^ n) + v mod 256"
    by (rule zmod_zmult2_eq) simp
  with Suc show ?case by (simp add: uint_byte_of_int)
qed simp

lemma le_unpack_pack: "0 \<le> v \<Longrightarrow> v < 256 ^ n \<Longrightarrow> le_unpack (le_pack n v) = v"
  by (simp add: le_unpack_pack_mod)

lemma le_pack_unpack: "le_pack (length bs) (le_unpack bs) = bs"
proof (induction bs)
  case (Cons b bs)
  have "(uint b + 256 * le_unpack bs) div 256 = le_unpack bs"
    using uint_byte_bound [of b] by simp
  moreover have "word_of_int (uint b + 256 * le_unpack bs) = b"
  proof -
    have "uint (word_of_int (uint b + 256 * le_unpack bs) :: byte) = uint b"
      using uint_byte_bound [of b] unfolding uint_byte_of_int by simp
    then show ?thesis by (rule word_uint_eqI)
  qed
  ultimately show ?case using Cons by simp
qed simp

lemma le_pack_inj:
  "0 \<le> v \<Longrightarrow> v < 256 ^ n \<Longrightarrow> 0 \<le> w \<Longrightarrow> w < 256 ^ n \<Longrightarrow> le_pack n v = le_pack n w \<Longrightarrow> v = w"
  by (metis le_unpack_pack)

section \<open>Formats\<close>

text \<open>
  A value passed to \<^verbatim>\<open>struct.pack\<close> is an integer or a byte string. One constructor per
  format character; \<open>F_s n\<close> is \<^verbatim>\<open>ns\<close>, \<open>F_x\<close> a pad byte.
\<close>

datatype pyval = PInt int | PBytes bytes

datatype fmt_code = F_B | F_b | F_H | F_I | F_Q | F_s nat | F_x

fun code_size :: "fmt_code \<Rightarrow> nat" where
  "code_size F_B = 1"
| "code_size F_b = 1"
| "code_size F_H = 2"
| "code_size F_I = 4"
| "code_size F_Q = 8"
| "code_size (F_s n) = n"
| "code_size F_x = 1"

definition calcsize :: "fmt_code list \<Rightarrow> nat" where
  "calcsize fs = sum_list (map code_size fs)"

lemma calcsize_simps [simp]:
  "calcsize [] = 0"
  "calcsize (f # fs) = code_size f + calcsize fs"
  by (simp_all add: calcsize_def)

text \<open>The unsigned integer formats check \<open>0 \<le> v < 256 ^ size\<close>; a byte string is cut or padded with zeros.\<close>

definition pack_uint :: "nat \<Rightarrow> pyval \<Rightarrow> bytes res" where
  "pack_uint n v = (case v of
      PInt i \<Rightarrow> if 0 \<le> i \<and> i < 256 ^ n then Inr (le_pack n i) else Inl StructError
    | PBytes _ \<Rightarrow> Inl StructError)"

definition pack_sbyte :: "pyval \<Rightarrow> bytes res" where
  "pack_sbyte v = (case v of
      PInt i \<Rightarrow> if - 128 \<le> i \<and> i < 128 then Inr (le_pack 1 i) else Inl StructError
    | PBytes _ \<Rightarrow> Inl StructError)"

definition pad_to :: "nat \<Rightarrow> bytes \<Rightarrow> bytes" where
  "pad_to n bs = take n bs @ replicate (n - length bs) 0"

definition pack_str :: "nat \<Rightarrow> pyval \<Rightarrow> bytes res" where
  "pack_str n v = (case v of PBytes bs \<Rightarrow> Inr (pad_to n bs) | PInt _ \<Rightarrow> Inl StructError)"

fun pack_code :: "fmt_code \<Rightarrow> pyval \<Rightarrow> bytes res" where
  "pack_code F_b v = pack_sbyte v"
| "pack_code (F_s n) v = pack_str n v"
| "pack_code f v = pack_uint (code_size f) v"

text \<open>Pad bytes take no argument; a wrong number of arguments is an error.\<close>

fun struct_pack :: "fmt_code list \<Rightarrow> pyval list \<Rightarrow> bytes res" where
  "struct_pack [] vs = (if vs = [] then Inr [] else Inl StructError)"
| "struct_pack (f # fs) vs =
     (if f = F_x then bind_res (struct_pack fs vs) (\<lambda>bs. Inr (0 # bs))
      else case vs of
        [] \<Rightarrow> Inl StructError
      | v # vs' \<Rightarrow>
          bind_res (pack_code f v) (\<lambda>b. bind_res (struct_pack fs vs') (\<lambda>bs. Inr (b @ bs))))"

lemma length_pad_to [simp]: "length (pad_to n bs) = n"
  by (simp add: pad_to_def)

lemma pack_code_length: "pack_code f v = Inr bs \<Longrightarrow> length bs = code_size f"
  by (cases f)
    (auto simp: pack_uint_def pack_sbyte_def pack_str_def split: pyval.splits if_splits)

lemma struct_pack_length: "struct_pack fs vs = Inr bs \<Longrightarrow> length bs = calcsize fs"
  by (induction fs arbitrary: vs bs)
    (auto simp: bind_res_Inr_iff pack_code_length split: if_splits list.splits)

text \<open>\<^verbatim>\<open>struct.unpack\<close>: the buffer has to have exactly the format's size.\<close>

fun unpack_code :: "fmt_code \<Rightarrow> bytes \<Rightarrow> pyval" where
  "unpack_code F_b bs = PInt (let v = le_unpack bs in if v < 128 then v else v - 256)"
| "unpack_code (F_s n) bs = PBytes bs"
| "unpack_code f bs = PInt (le_unpack bs)"

fun unpack_all :: "fmt_code list \<Rightarrow> bytes \<Rightarrow> pyval list" where
  "unpack_all [] bs = []"
| "unpack_all (f # fs) bs =
     (if f = F_x then unpack_all fs (drop 1 bs)
      else unpack_code f (take (code_size f) bs) # unpack_all fs (drop (code_size f) bs))"

definition struct_unpack :: "fmt_code list \<Rightarrow> bytes \<Rightarrow> pyval list res" where
  "struct_unpack fs bs =
     (if length bs = calcsize fs then Inr (unpack_all fs bs) else Inl StructError)"

text \<open>
  The value a format hands back for a packed argument: integers come back as they were, a byte
  string comes back cut or zero padded to its width.
\<close>

fun canon_code :: "fmt_code \<Rightarrow> pyval \<Rightarrow> pyval" where
  "canon_code (F_s n) (PBytes bs) = PBytes (pad_to n bs)"
| "canon_code f v = v"

fun canon_args :: "fmt_code list \<Rightarrow> pyval list \<Rightarrow> pyval list" where
  "canon_args [] vs = []"
| "canon_args (f # fs) vs =
     (if f = F_x then canon_args fs vs
      else case vs of [] \<Rightarrow> [] | v # vs' \<Rightarrow> canon_code f v # canon_args fs vs')"

lemma sbyte_roundtrip:
  assumes "- 128 \<le> i" and "i < 128"
  shows "(let v = le_unpack (le_pack 1 i) in if v < 128 then v else v - 256) = i"
proof -
  have "le_unpack (le_pack 1 i) = i mod 256" using le_unpack_pack_mod [of 1 i] by simp
  moreover have "i mod 256 = (if 0 \<le> i then i else i + 256)"
    using assms mod_add_self2 [of i 256] mod_pos_pos_trivial [of "i + 256" 256]
    by (auto simp del: mod_add_self2)
  ultimately show ?thesis using assms by (simp del: le_pack.simps)
qed

lemma unpack_pack_code: "pack_code f v = Inr bs \<Longrightarrow> unpack_code f bs = canon_code f v"
proof (cases "f = F_b")
  case True
  assume "pack_code f v = Inr bs"
  with True obtain i where "v = PInt i" "- 128 \<le> i" "i < 128" "bs = le_pack 1 i"
    by (auto simp: pack_sbyte_def split: pyval.splits if_splits)
  with True show ?thesis using sbyte_roundtrip [of i] by (simp del: le_pack.simps)
next
  case False
  assume "pack_code f v = Inr bs"
  with False show ?thesis
    by (cases f; cases v)
      (auto simp: pack_uint_def pack_str_def le_unpack_pack split: if_splits
        simp del: le_pack.simps)
qed

lemma unpack_all_pack: "struct_pack fs vs = Inr bs \<Longrightarrow> unpack_all fs bs = canon_args fs vs"
proof (induction fs arbitrary: vs bs)
  case (Cons f fs)
  then show ?case
    by (auto simp: bind_res_Inr_iff pack_code_length unpack_pack_code
        split: if_splits list.splits)
qed simp

lemma struct_unpack_pack:
  "struct_pack fs vs = Inr bs \<Longrightarrow> struct_unpack fs bs = Inr (canon_args fs vs)"
  by (simp add: struct_unpack_def struct_pack_length unpack_all_pack)

end
