(* ===== verification/Usb_Constants.thy ===== *)
theory Usb_Constants
  imports Py_Struct
begin

text \<open>
  The numeric constants of usb_constants.py and hid_constants.py, one abbreviation per class
  attribute (those of hid_constants.py carry the prefix \<^verbatim>\<open>Hid\<close>), so that
  statements read like the source and proofs see the numbers.
\<close>

subsection \<open>usb_constants.DescriptorType\<close>

abbreviation (input) DescriptorType_DEVICE :: int where "DescriptorType_DEVICE \<equiv> 1"
abbreviation (input) DescriptorType_CONFIGURATION :: int where "DescriptorType_CONFIGURATION \<equiv> 2"
abbreviation (input) DescriptorType_STRING :: int where "DescriptorType_STRING \<equiv> 3"
abbreviation (input) DescriptorType_INTERFACE :: int where "DescriptorType_INTERFACE \<equiv> 4"
abbreviation (input) DescriptorType_ENDPOINT :: int where "DescriptorType_ENDPOINT \<equiv> 5"
abbreviation (input) DescriptorType_QUALIFIER :: int where "DescriptorType_QUALIFIER \<equiv> 6"
abbreviation (input) DescriptorType_OTHER_SPEED_CONFIGURATION :: int where "DescriptorType_OTHER_SPEED_CONFIGURATION \<equiv> 7"
abbreviation (input) DescriptorType_BOS :: int where "DescriptorType_BOS \<equiv> 15"
abbreviation (input) DescriptorType_DEVICE_CAPABILITY :: int where "DescriptorType_DEVICE_CAPABILITY \<equiv> 16"

subsection \<open>usb_constants.CapabilityType\<close>

abbreviation (input) CapabilityType_WIRELESS_USB :: int where "CapabilityType_WIRELESS_USB \<equiv> 1"
abbreviation (input) CapabilityType_USB_20_EXTENSION :: int where "CapabilityType_USB_20_EXTENSION \<equiv> 2"
abbreviation (input) CapabilityType_SUPERSPEED_USB :: int where "CapabilityType_SUPERSPEED_USB \<equiv> 3"
abbreviation (input) CapabilityType_CONTAINER_ID :: int where "CapabilityType_CONTAINER_ID \<equiv> 4"
abbreviation (input) CapabilityType_PLATFORM :: int where "CapabilityType_PLATFORM \<equiv> 5"
abbreviation (input) CapabilityType_POWER_DELIVERY_CAPABILITY :: int where "CapabilityType_POWER_DELIVERY_CAPABILITY \<equiv> 6"
abbreviation (input) CapabilityType_BATTERY_INFO_CAPABILITY :: int where "CapabilityType_BATTERY_INFO_CAPABILITY \<equiv> 7"
abbreviation (input) CapabilityType_PD_CONSUMER_PORT_CAPABILITY :: int where "CapabilityType_PD_CONSUMER_PORT_CAPABILITY \<equiv> 8"
abbreviation (input) CapabilityType_PD_PROVIDER_PORT_CAPABILITY :: int where "CapabilityType_PD_PROVIDER_PORT_CAPABILITY \<equiv> 9"
abbreviation (input) CapabilityType_SUPERSPEED_PLUS :: int where "CapabilityType_SUPERSPEED_PLUS \<equiv> 10"
abbreviation (input) CapabilityType_PRECISION_TIME_MEASUREMENT :: int where "CapabilityType_PRECISION_TIME_MEASUREMENT \<equiv> 11"
abbreviation (input) CapabilityType_WIRELESS_USB_EXT :: int where "CapabilityType_WIRELESS_USB_EXT \<equiv> 12"

subsection \<open>usb_constants.DeviceClass\<close>

abbreviation (input) DeviceClass_PER_INTERFACE :: int where "DeviceClass_PER_INTERFACE \<equiv> 0"
abbreviation (input) DeviceClass_AUDIO :: int where "DeviceClass_AUDIO \<equiv> 1"
abbreviation (input) DeviceClass_COMM :: int where "DeviceClass_COMM \<equiv> 2"
abbreviation (input) DeviceClass_HID :: int where "DeviceClass_HID \<equiv> 3"
abbreviation (input) DeviceClass_PHYSICAL :: int where "DeviceClass_PHYSICAL \<equiv> 5"
abbreviation (input) DeviceClass_STILL_IMAGE :: int where "DeviceClass_STILL_IMAGE \<equiv> 6"
abbreviation (input) DeviceClass_PRINTER :: int where "DeviceClass_PRINTER \<equiv> 7"
abbreviation (input) DeviceClass_MASS_STORAGE :: int where "DeviceClass_MASS_STORAGE \<equiv> 8"
abbreviation (input) DeviceClass_HUB :: int where "DeviceClass_HUB \<equiv> 9"
abbreviation (input) DeviceClass_CDC_DATA :: int where "DeviceClass_CDC_DATA \<equiv> 10"
abbreviation (input) DeviceClass_CSCID :: int where "DeviceClass_CSCID \<equiv> 11"
abbreviation (input) DeviceClass_CONTENT_SEC :: int where "DeviceClass_CONTENT_SEC \<equiv> 13"
abbreviation (input) DeviceClass_VIDEO :: int where "DeviceClass_VIDEO \<equiv> 14"
abbreviation (input) DeviceClass_VENDOR :: int where "DeviceClass_VENDOR \<equiv> 255"

subsection \<open>usb_constants.DeviceSubClass\<close>

abbreviation (input) DeviceSubClass_PER_INTERFACE :: int where "DeviceSubClass_PER_INTERFACE \<equiv> 0"
abbreviation (input) DeviceSubClass_VENDOR :: int where "DeviceSubClass_VENDOR \<equiv> 255"

subsection \<open>usb_constants.DeviceProtocol\<close>

abbreviation (input) DeviceProtocol_PER_INTERFACE :: int where "DeviceProtocol_PER_INTERFACE \<equiv> 0"
abbreviation (input) DeviceProtocol_VENDOR :: int where "DeviceProtocol_VENDOR \<equiv> 255"

subsection \<open>usb_constants.InterfaceClass\<close>

abbreviation (input) InterfaceClass_VENDOR :: int where "InterfaceClass_VENDOR \<equiv> 255"

subsection \<open>usb_constants.InterfaceSubClass\<close>

abbreviation (input) InterfaceSubClass_VENDOR :: int where "InterfaceSubClass_VENDOR \<equiv> 255"

subsection \<open>usb_constants.InterfaceProtocol\<close>

abbreviation (input) InterfaceProtocol_VENDOR :: int where "InterfaceProtocol_VENDOR \<equiv> 255"

subsection \<open>usb_constants.TransferType\<close>

abbreviation (input) TransferType_MASK :: int where "TransferType_MASK \<equiv> 3"
abbreviation (input) TransferType_CONTROL :: int where "TransferType_CONTROL \<equiv> 0"
abbreviation (input) TransferType_ISOCHRONOUS :: int where "TransferType_ISOCHRONOUS \<equiv> 1"
abbreviation (input) TransferType_BULK :: int where "TransferType_BULK \<equiv> 2"
abbreviation (input) TransferType_INTERRUPT :: int where "TransferType_INTERRUPT \<equiv> 3"

subsection \<open>usb_constants.Dir\<close>

abbreviation (input) Dir_OUT :: int where "Dir_OUT \<equiv> 0"
abbreviation (input) Dir_IN :: int where "Dir_IN \<equiv> 128"

subsection \<open>usb_constants.Type\<close>

abbreviation (input) Type_MASK :: int where "Type_MASK \<equiv> 96"
abbreviation (input) Type_STANDARD :: int where "Type_STANDARD \<equiv> 0"
abbreviation (input) Type_CLASS :: int where "Type_CLASS \<equiv> 32"
abbreviation (input) Type_VENDOR :: int where "Type_VENDOR \<equiv> 64"
abbreviation (input) Type_RESERVED :: int where "Type_RESERVED \<equiv> 96"

subsection \<open>usb_constants.Recipient\<close>

abbreviation (input) Recipient_MASK :: int where "Recipient_MASK \<equiv> 31"
abbreviation (input) Recipient_DEVICE :: int where "Recipient_DEVICE \<equiv> 0"
abbreviation (input) Recipient_INTERFACE :: int where "Recipient_INTERFACE \<equiv> 1"
abbreviation (input) Recipient_ENDPOINT :: int where "Recipient_ENDPOINT \<equiv> 2"
abbreviation (input) Recipient_OTHER :: int where "Recipient_OTHER \<equiv> 3"

subsection \<open>usb_constants.Request\<close>

abbreviation (input) Request_GET_STATUS :: int where "Request_GET_STATUS \<equiv> 0"
abbreviation (input) Request_CLEAR_FEATURE :: int where "Request_CLEAR_FEATURE \<equiv> 1"
abbreviation (input) Request_SET_FEATURE :: int where "Request_SET_FEATURE \<equiv> 3"
abbreviation (input) Request_SET_ADDRESS :: int where "Request_SET_ADDRESS \<equiv> 5"
abbreviation (input) Request_GET_DESCRIPTOR :: int where "Request_GET_DESCRIPTOR \<equiv> 6"
abbreviation (input) Request_SET_DESCRIPTOR :: int where "Request_SET_DESCRIPTOR \<equiv> 7"
abbreviation (input) Request_GET_CONFIGURATION :: int where "Request_GET_CONFIGURATION \<equiv> 8"
abbreviation (input) Request_SET_CONFIGURATION :: int where "Request_SET_CONFIGURATION \<equiv> 9"
abbreviation (input) Request_GET_INTERFACE :: int where "Request_GET_INTERFACE \<equiv> 10"
abbreviation (input) Request_SET_INTERFACE :: int where "Request_SET_INTERFACE \<equiv> 11"
abbreviation (input) Request_SYNCH_FRAME :: int where "Request_SYNCH_FRAME \<equiv> 12"
abbreviation (input) Request_SET_SEL :: int where "Request_SET_SEL \<equiv> 48"
abbreviation (input) Request_SET_ISOCH_DELAY :: int where "Request_SET_ISOCH_DELAY \<equiv> 49"

subsection \<open>usb_constants.Speed\<close>

abbreviation (input) Speed_UNKNOWN :: int where "Speed_UNKNOWN \<equiv> 0"
abbreviation (input) Speed_LOW :: int where "Speed_LOW \<equiv> 1"
abbreviation (input) Speed_FULL :: int where "Speed_FULL \<equiv> 2"
abbreviation (input) Speed_HIGH :: int where "Speed_HIGH \<equiv> 3"
abbreviation (input) Speed_WIRELESS :: int where "Speed_WIRELESS \<equiv> 4"
abbreviation (input) Speed_SUPER :: int where "Speed_SUPER \<equiv> 5"

subsection \<open>usb_constants.VendorID\<close>

abbreviation (input) VendorID_GOOGLE :: int where "VendorID_GOOGLE \<equiv> 6353"

subsection \<open>usb_constants.ProductID\<close>

abbreviation (input) ProductID_GOOGLE_TEST_GADGET :: int where "ProductID_GOOGLE_TEST_GADGET \<equiv> 22768"
abbreviation (input) ProductID_GOOGLE_KEYBOARD_GADGET :: int where "ProductID_GOOGLE_KEYBOARD_GADGET \<equiv> 22769"
abbreviation (input) ProductID_GOOGLE_MOUSE_GADGET :: int where "ProductID_GOOGLE_MOUSE_GADGET \<equiv> 22770"
abbreviation (input) ProductID_GOOGLE_HID_ECHO_GADGET :: int where "ProductID_GOOGLE_HID_ECHO_GADGET \<equiv> 22771"
abbreviation (input) ProductID_GOOGLE_ECHO_GADGET :: int where "ProductID_GOOGLE_ECHO_GADGET \<equiv> 22772"
abbreviation (input) ProductID_GOOGLE_COMPOSITE_ECHO_GADGET :: int where "ProductID_GOOGLE_COMPOSITE_ECHO_GADGET \<equiv> 22773"

subsection \<open>hid_constants.DescriptorType\<close>

abbreviation (input) HidDescriptorType_HID :: int where "HidDescriptorType_HID \<equiv> 33"
abbreviation (input) HidDescriptorType_REPORT :: int where "HidDescriptorType_REPORT \<equiv> 34"
abbreviation (input) HidDescriptorType_PHYSICAL :: int where "HidDescriptorType_PHYSICAL \<equiv> 35"

subsection \<open>hid_constants.Scope\<close>

abbreviation (input) HidScope_MAIN :: int where "HidScope_MAIN \<equiv> 0"
abbreviation (input) HidScope_GLOBAL :: int where "HidScope_GLOBAL \<equiv> 1"
abbreviation (input) HidScope_LOCAL :: int where "HidScope_LOCAL \<equiv> 2"

subsection \<open>hid_constants.CollectionType\<close>

abbreviation (input) HidCollectionType_PHYSICAL :: int where "HidCollectionType_PHYSICAL \<equiv> 0"
abbreviation (input) HidCollectionType_APPLICATION :: int where "HidCollectionType_APPLICATION \<equiv> 1"
abbreviation (input) HidCollectionType_LOGICAL :: int where "HidCollectionType_LOGICAL \<equiv> 2"
abbreviation (input) HidCollectionType_REPORT :: int where "HidCollectionType_REPORT \<equiv> 3"
abbreviation (input) HidCollectionType_NAMED_ARRAY :: int where "HidCollectionType_NAMED_ARRAY \<equiv> 4"
abbreviation (input) HidCollectionType_USAGE_SWITCH :: int where "HidCollectionType_USAGE_SWITCH \<equiv> 5"
abbreviation (input) HidCollectionType_USAGE_MODIFIER :: int where "HidCollectionType_USAGE_MODIFIER \<equiv> 6"

subsection \<open>hid_constants.Request\<close>

abbreviation (input) HidRequest_GET_REPORT :: int where "HidRequest_GET_REPORT \<equiv> 1"
abbreviation (input) HidRequest_GET_IDLE :: int where "HidRequest_GET_IDLE \<equiv> 2"
abbreviation (input) HidRequest_GET_PROTOCOL :: int where "HidRequest_GET_PROTOCOL \<equiv> 3"
abbreviation (input) HidRequest_SET_REPORT :: int where "HidRequest_SET_REPORT \<equiv> 9"
abbreviation (input) HidRequest_SET_IDLE :: int where "HidRequest_SET_IDLE \<equiv> 10"
abbreviation (input) HidRequest_SET_PROTOCOL :: int where "HidRequest_SET_PROTOCOL \<equiv> 11"

subsection \<open>hid_constants.ReportType\<close>

abbreviation (input) HidReportType_INPUT :: int where "HidReportType_INPUT \<equiv> 1"
abbreviation (input) HidReportType_OUTPUT :: int where "HidReportType_OUTPUT \<equiv> 2"
abbreviation (input) HidReportType_FEATURE :: int where "HidReportType_FEATURE \<equiv> 3"

subsection \<open>hid_constants.ModifierKey\<close>

abbreviation (input) HidModifierKey_L_CTRL :: int where "HidModifierKey_L_CTRL \<equiv> 1"
abbreviation (input) HidModifierKey_L_SHIFT :: int where "HidModifierKey_L_SHIFT \<equiv> 2"
abbreviation (input) HidModifierKey_L_ALT :: int where "HidModifierKey_L_ALT \<equiv> 4"
abbreviation (input) HidModifierKey_L_GUI :: int where "HidModifierKey_L_GUI \<equiv> 8"
abbreviation (input) HidModifierKey_R_CTRL :: int where "HidModifierKey_R_CTRL \<equiv> 16"
abbreviation (input) HidModifierKey_R_SHIFT :: int where "HidModifierKey_R_SHIFT \<equiv> 32"
abbreviation (input) HidModifierKey_R_ALT :: int where "HidModifierKey_R_ALT \<equiv> 64"
abbreviation (input) HidModifierKey_R_GUI :: int where "HidModifierKey_R_GUI \<equiv> 128"

subsection \<open>hid_constants.LED\<close>

abbreviation (input) HidLED_NUM_LOCK :: int where "HidLED_NUM_LOCK \<equiv> 1"
abbreviation (input) HidLED_CAPS_LOCK :: int where "HidLED_CAPS_LOCK \<equiv> 2"
abbreviation (input) HidLED_SCROLL_LOCK :: int where "HidLED_SCROLL_LOCK \<equiv> 4"
abbreviation (input) HidLED_COMPOSE :: int where "HidLED_COMPOSE \<equiv> 8"
abbreviation (input) HidLED_KANA :: int where "HidLED_KANA \<equiv> 16"

subsection \<open>hid_constants.Mouse\<close>

abbreviation (input) HidMouse_BUTTON_1 :: int where "HidMouse_BUTTON_1 \<equiv> 1"
abbreviation (input) HidMouse_BUTTON_2 :: int where "HidMouse_BUTTON_2 \<equiv> 2"
abbreviation (input) HidMouse_BUTTON_3 :: int where "HidMouse_BUTTON_3 \<equiv> 4"

end
