(* ===== verification/Usb_Descriptors.thy ===== *)
theory Usb_Descriptors
  imports Usb_Constants
begin

text \<open>
  usb_descriptors.py and msos20_descriptors.py: descriptor classes as lists of fields, descriptor
  objects with their attributes and the descriptors they contain, construction with its checks,
  sizes and the binary encoding. The theorems say that an encoding has the announced size, that the
  length fields inside it tell the truth, and that a host that walks an encoded configuration by
  the length bytes finds exactly the descriptors that were added, in order.
\<close>

section \<open>Descriptor classes\<close>

text \<open>
  A field is what \<^verbatim>\<open>Field\<close> records, together with the property its \<^verbatim>\<open>Add...Field\<close> call
  installs on the class: an attribute with an optional default, a constant, or another property of
  the object.
\<close>

datatype prop_name =
    P_struct_size | P_total_size | P_num_interfaces | P_num_endpoints
  | P_num_descriptors | P_num_device_caps | P_descriptor_set_size

datatype getter = Attr "pyval option" | Fixed pyval | Computed prop_name

record field =
  f_name :: string
  f_str_fmt :: string
  f_struct_fmt :: fmt_code
  f_required :: bool
  f_getter :: getter

definition AddField ::
    "string \<Rightarrow> fmt_code \<Rightarrow> string \<Rightarrow> pyval option \<Rightarrow> field list \<Rightarrow> field list" where
  "AddField name fmt str_fmt dflt fs =
     fs @ [\<lparr>f_name = name, f_str_fmt = str_fmt, f_struct_fmt = fmt,
            f_required = (dflt = None), f_getter = Attr dflt\<rparr>]"

definition AddFixedField ::
    "string \<Rightarrow> fmt_code \<Rightarrow> pyval \<Rightarrow> string \<Rightarrow> field list \<Rightarrow> field list" where
  "AddFixedField name fmt val str_fmt fs =
     fs @ [\<lparr>f_name = name, f_str_fmt = str_fmt, f_struct_fmt = fmt,
            f_required = False, f_getter = Fixed val\<rparr>]"

definition AddComputedField ::
    "string \<Rightarrow> fmt_code \<Rightarrow> prop_name \<Rightarrow> string \<Rightarrow> field list \<Rightarrow> field list" where
  "AddComputedField name fmt prop str_fmt fs =
     fs @ [\<lparr>f_name = name, f_str_fmt = str_fmt, f_struct_fmt = fmt,
            f_required = False, f_getter = Computed prop\<rparr>]"

lemmas add_field_defs = AddField_def AddFixedField_def AddComputedField_def

text \<open>The \<^verbatim>\<open>Add...Field\<close> calls of one class, in the order of the module.\<close>

definition declare_fields :: "(field list \<Rightarrow> field list) list \<Rightarrow> field list" where
  "declare_fields calls = fold (\<lambda>call fs. call fs) calls []"

definition DeviceDescriptor_fields :: "field list" where
  "DeviceDescriptor_fields = declare_fields
    [AddComputedField ''bLength'' F_B P_struct_size ''{}'',
     AddFixedField ''bDescriptorType'' F_B (PInt DescriptorType_DEVICE) ''{}'',
     AddField ''bcdUSB'' F_H ''0x{:04X}'' (Some (PInt 0x0200)),
     AddField ''bDeviceClass'' F_B ''{}'' (Some (PInt DeviceClass_PER_INTERFACE)),
     AddField ''bDeviceSubClass'' F_B ''{}'' (Some (PInt DeviceSubClass_PER_INTERFACE)),
     AddField ''bDeviceProtocol'' F_B ''{}'' (Some (PInt DeviceProtocol_PER_INTERFACE)),
     AddField ''bMaxPacketSize0'' F_B ''{}'' (Some (PInt 64)),
     AddField ''idVendor'' F_H ''0x{:04X}'' None,
     AddField ''idProduct'' F_H ''0x{:04X}'' None,
     AddField ''bcdDevice'' F_H ''0x{:04X}'' None,
     AddField ''iManufacturer'' F_B ''{}'' (Some (PInt 0)),
     AddField ''iProduct'' F_B ''{}'' (Some (PInt 0)),
     AddField ''iSerialNumber'' F_B ''{}'' (Some (PInt 0)),
     AddField ''bNumConfigurations'' F_B ''{}'' (Some (PInt 1))]"

definition StringDescriptor_fields :: "field list" where
  "StringDescriptor_fields = declare_fields
    [AddComputedField ''bLength'' F_B P_total_size ''{}'',
     AddFixedField ''bDescriptorType'' F_B (PInt DescriptorType_STRING) ''{}'']"

definition ConfigurationDescriptor_fields :: "field list" where
  "ConfigurationDescriptor_fields = declare_fields
    [AddComputedField ''bLength'' F_B P_struct_size ''{}'',
     AddFixedField ''bDescriptorType'' F_B (PInt DescriptorType_CONFIGURATION) ''{}'',
     AddComputedField ''wTotalLength'' F_H P_total_size ''{}'',
     AddComputedField ''bNumInterfaces'' F_B P_num_interfaces ''{}'',
     AddField ''bConfigurationValue'' F_B ''{}'' (Some (PInt 1)),
     AddField ''iConfiguration'' F_B ''{}'' (Some (PInt 0)),
     AddField ''bmAttributes'' F_B ''0x{:02X}'' None,
     AddField ''MaxPower'' F_B ''{}'' None]"

definition InterfaceDescriptor_fields :: "field list" where
  "InterfaceDescriptor_fields = declare_fields
    [AddComputedField ''bLength'' F_B P_struct_size ''{}'',
     AddFixedField ''bDescriptorType'' F_B (PInt DescriptorType_INTERFACE) ''{}'',
     AddField ''bInterfaceNumber'' F_B ''{}'' None,
     AddField ''bAlternateSetting'' F_B ''{}'' (Some (PInt 0)),
     AddComputedField ''bNumEndpoints'' F_B P_num_endpoints ''{}'',
     AddField ''bInterfaceClass'' F_B ''{}'' (Some (PInt InterfaceClass_VENDOR)),
     AddField ''bInterfaceSubClass'' F_B ''{}'' (Some (PInt InterfaceSubClass_VENDOR)),
     AddField ''bInterfaceProtocol'' F_B ''{}'' (Some (PInt InterfaceProtocol_VENDOR)),
     AddField ''iInterface'' F_B ''{}'' (Some (PInt 0))]"

definition EndpointDescriptor_fields :: "field list" where
  "EndpointDescriptor_fields = declare_fields
    [AddComputedField ''bLength'' F_B P_struct_size ''{}'',
     AddFixedField ''bDescriptorType'' F_B (PInt DescriptorType_ENDPOINT) ''{}'',
     AddField ''bEndpointAddress'' F_B ''0x{:02X}'' None,
     AddField ''bmAttributes'' F_B ''0x{:02X}'' None,
     AddField ''wMaxPacketSize'' F_H ''{}'' None,
     AddField ''bInterval'' F_B ''{}'' None]"

definition HidDescriptor_fields :: "field list" where
  "HidDescriptor_fields = declare_fields
    [AddComputedField ''bLength'' F_B P_struct_size ''{}'',
     AddFixedField ''bDescriptorType'' F_B (PInt HidDescriptorType_HID) ''{}'',
     AddField ''bcdHID'' F_H ''0x{:04X}'' (Some (PInt 0x0111)),
     AddField ''bCountryCode'' F_B ''{}'' (Some (PInt 0)),
     AddComputedField ''bNumDescriptors'' F_B P_num_descriptors ''{}'']"

definition BosDescriptor_fields :: "field list" where
  "BosDescriptor_fields = declare_fields
    [AddComputedField ''bLength'' F_B P_struct_size ''{}'',
     AddFixedField ''bDescriptorType'' F_B (PInt DescriptorType_BOS) ''{}'',
     AddComputedField ''wTotalLength'' F_H P_total_size ''{}'',
     AddComputedField ''bNumDeviceCaps'' F_B P_num_device_caps ''{}'']"

definition ContainerIdDescriptor_fields :: "field list" where
  "ContainerIdDescriptor_fields = declare_fields
    [AddComputedField ''bLength'' F_B P_struct_size ''{}'',
     AddFixedField ''bDescriptorType'' F_B (PInt DescriptorType_DEVICE_CAPABILITY) ''{}'',
     AddFixedField ''bDevCapabilityType'' F_B (PInt CapabilityType_CONTAINER_ID) ''{}'',
     AddFixedField ''bReserved'' F_B (PInt 0) ''{}'',
     AddField ''ContainerID'' (F_s 16) ''{}'' None]"

subsection \<open>Microsoft OS 2.0 descriptors\<close>

text \<open>
  \<^verbatim>\<open>uuid.UUID('{D8DD60DF-4589-4CC7-9CD2-659D9E648A9F}').bytes_le\<close>: the first three
  groups in little-endian order, the rest as written.
\<close>

definition ms_os20_platform_capability_id :: bytes where
  "ms_os20_platform_capability_id =
     [0xDF, 0x60, 0xDD, 0xD8, 0x89, 0x45, 0xC7, 0x4C, 0x9C, 0xD2, 0x65, 0x9D, 0x9E, 0x64, 0x8A, 0x9F]"

definition PlatformCapabilityDescriptor_fields :: "field list" where
  "PlatformCapabilityDescriptor_fields = declare_fields
    [AddComputedField ''bLength'' F_B P_struct_size ''{}'',
     AddFixedField ''bDescriptorType'' F_B (PInt DescriptorType_DEVICE_CAPABILITY) ''{}'',
     AddFixedField ''bDevCapabilityType'' F_B (PInt CapabilityType_PLATFORM) ''{}'',
     AddFixedField ''bReserved'' F_B (PInt 0) ''{}'',
     AddFixedField ''MS_OS_20_Platform_Capability_ID'' (F_s 16)
       (PBytes ms_os20_platform_capability_id) ''{}'',
     AddField ''dwWindowsVersion'' F_I ''{}'' None,
     AddComputedField ''wMSOSDescriptorSetTotalLength'' F_H P_descriptor_set_size ''{}'',
     AddField ''bMS_VendorCode'' F_B ''{}'' None,
     AddField ''bAltEnumCode'' F_B ''{}'' (Some (PInt 0))]"

definition DescriptorSetHeader_fields :: "field list" where
  "DescriptorSetHeader_fields = declare_fields
    [AddComputedField ''wLength'' F_H P_struct_size ''{}'',
     AddFixedField ''wDescriptorType'' F_H (PInt 0x00) ''{}'',
     AddField ''dwWindowsVersion'' F_I ''{}'' None,
     AddComputedField ''wTotalLength'' F_H P_total_size ''{}'']"

definition ConfigurationSubsetHeader_fields :: "field list" where
  "ConfigurationSubsetHeader_fields = declare_fields
    [AddComputedField ''wLength'' F_H P_struct_size ''{}'',
     AddFixedField ''wDescriptorType'' F_H (PInt 0x01) ''{}'',
     AddField ''bConfigurationValue'' F_B ''{}'' None,
     AddFixedField ''bReserved'' F_B (PInt 0) ''{}'',
     AddComputedField ''wTotalLength'' F_H P_total_size ''{}'']"

definition FunctionSubsetHeader_fields :: "field list" where
  "FunctionSubsetHeader_fields = declare_fields
    [AddComputedField ''wLength'' F_H P_struct_size ''{}'',
     AddFixedField ''wDescriptorType'' F_H (PInt 0x02) ''{}'',
     AddField ''bFirstInterface'' F_B ''{}'' None,
     AddFixedField ''bReserved'' F_B (PInt 0) ''{}'',
     AddComputedField ''wSubsetLength'' F_H P_total_size ''{}'']"

definition CompatibleId_fields :: "field list" where
  "CompatibleId_fields = declare_fields
    [AddComputedField ''wLength'' F_H P_struct_size ''{}'',
     AddFixedField ''wDescriptorType'' F_H (PInt 0x03) ''{}'',
     AddField ''CompatibleID'' (F_s 8) ''{}'' None,
     AddField ''SubCompatibleID'' (F_s 8) ''{}'' (Some (PBytes []))]"

text \<open>The classes, and \<^verbatim>\<open>cls._fields\<close> of each.\<close>

datatype dclass =
    C_Device | C_String | C_Configuration | C_Interface | C_Endpoint | C_Hid | C_Bos
  | C_ContainerId | C_PlatformCapability | C_DescriptorSetHeader
  | C_ConfigurationSubsetHeader | C_FunctionSubsetHeader | C_CompatibleId

fun class_fields :: "dclass \<Rightarrow> field list" where
  "class_fields C_Device = DeviceDescriptor_fields"
| "class_fields C_String = StringDescriptor_fields"
| "class_fields C_Configuration = ConfigurationDescriptor_fields"
| "class_fields C_Interface = InterfaceDescriptor_fields"
| "class_fields C_Endpoint = EndpointDescriptor_fields"
| "class_fields C_Hid = HidDescriptor_fields"
| "class_fields C_Bos = BosDescriptor_fields"
| "class_fields C_ContainerId = ContainerIdDescriptor_fields"
| "class_fields C_PlatformCapability = PlatformCapabilityDescriptor_fields"
| "class_fields C_DescriptorSetHeader = DescriptorSetHeader_fields"
| "class_fields C_ConfigurationSubsetHeader = ConfigurationSubsetHeader_fields"
| "class_fields C_FunctionSubsetHeader = FunctionSubsetHeader_fields"
| "class_fields C_CompatibleId = CompatibleId_fields"

text \<open>The subclasses of \<^verbatim>\<open>DescriptorContainer\<close>.\<close>

fun is_container :: "dclass \<Rightarrow> bool" where
  "is_container C_Configuration = True"
| "is_container C_Interface = True"
| "is_container C_Bos = True"
| "is_container C_DescriptorSetHeader = True"
| "is_container C_ConfigurationSubsetHeader = True"
| "is_container C_FunctionSubsetHeader = True"
| "is_container _ = False"

lemmas fields_defs =
  declare_fields_def add_field_defs DeviceDescriptor_fields_def StringDescriptor_fields_def
  ConfigurationDescriptor_fields_def InterfaceDescriptor_fields_def EndpointDescriptor_fields_def
  HidDescriptor_fields_def BosDescriptor_fields_def ContainerIdDescriptor_fields_def
  PlatformCapabilityDescriptor_fields_def DescriptorSetHeader_fields_def
  ConfigurationSubsetHeader_fields_def FunctionSubsetHeader_fields_def CompatibleId_fields_def

section \<open>Descriptor objects\<close>

text \<open>
  An object holds its class, the attributes set on it, the text of a string descriptor
  (\<^verbatim>\<open>bString\<close>), the \<^verbatim>\<open>(typ, length)\<close> pairs of a HID descriptor, the
  contained descriptors (\<^verbatim>\<open>_descriptors\<close>) and its registry: \<^verbatim>\<open>_interfaces\<close>,
  \<^verbatim>\<open>_endpoints\<close> or \<^verbatim>\<open>_device_caps\<close>. The registry refers to the same objects as
  \<^verbatim>\<open>_descriptors\<close>, so it maps a key to a position there. \<open>d_set\<close> is the address of the
  descriptor set a platform capability refers to (a set that is still being filled when the
  reference is made).
\<close>

type_synonym kwargs = "(string \<times> pyval) list"

datatype descriptor = Desc
  (d_class: dclass)
  (d_attrs: kwargs)
  (d_string: string)
  (d_hid: "(int \<times> int) list")
  (d_subs: "descriptor list")
  (d_index: "(pyval list \<times> nat) list")
  (d_set: "nat option")

definition field_names :: "field list \<Rightarrow> string list" where
  "field_names fs = map f_name fs"

text \<open>The setter a class property runs: only attribute fields may be set.\<close>

definition set_field :: "field list \<Rightarrow> string \<Rightarrow> pyval \<Rightarrow> kwargs \<Rightarrow> kwargs res" where
  "set_field fs name val attrs =
     (case find (\<lambda>f. f_name f = name) fs of
        Some f \<Rightarrow>
          (case f_getter f of
             Attr _ \<Rightarrow> Inr (AList.update name val attrs)
           | Fixed _ \<Rightarrow> Inl RuntimeError
           | Computed _ \<Rightarrow> Inl RuntimeError)
      | None \<Rightarrow> Inr attrs)"

text \<open>\<^verbatim>\<open>Descriptor.__init__\<close>: the loop over the keyword arguments and the final check.\<close>

fun init_args :: "field list \<Rightarrow> kwargs \<Rightarrow> kwargs \<Rightarrow> string list \<Rightarrow> kwargs res" where
  "init_args fs [] attrs required = (if required \<noteq> [] then Inl TypeError else Inr attrs)"
| "init_args fs ((arg, val) # kwargs) attrs required =
     (if arg \<notin> set (field_names fs) then Inl TypeError
      else bind_res (set_field fs arg val attrs)
        (\<lambda>attrs'. init_args fs kwargs attrs' (removeAll arg required)))"

definition new_descriptor :: "dclass \<Rightarrow> kwargs \<Rightarrow> descriptor res" where
  "new_descriptor c kwargs =
     bind_res
       (init_args (class_fields c) kwargs [] (map f_name (filter f_required (class_fields c))))
       (\<lambda>attrs. Inr (Desc c attrs [] [] [] [] None))"

text \<open>\<^verbatim>\<open>StringDescriptor.__init__\<close> takes \<^verbatim>\<open>bString\<close> out of the arguments first.\<close>

definition StringDescriptor :: "string \<Rightarrow> kwargs \<Rightarrow> descriptor res" where
  "StringDescriptor bString kwargs =
     bind_res (new_descriptor C_String kwargs)
       (\<lambda>d. Inr (Desc C_String (d_attrs d) bString [] [] [] None))"

subsection \<open>Sizes\<close>

text \<open>
  \<^verbatim>\<open>s.encode('UTF-16LE')\<close> of a Python 2 \<^verbatim>\<open>str\<close>: the string is first decoded as ASCII,
  which fails on a byte above 127.
\<close>

definition utf16le :: "string \<Rightarrow> bytes res" where
  "utf16le s =
     (if list_all (\<lambda>c. of_char c < (128 :: nat)) s
      then Inr (concat (map (\<lambda>c. [of_char c, 0]) s)) else Inl UnicodeError)"

definition fmt :: "dclass \<Rightarrow> fmt_code list" where
  "fmt c = map f_struct_fmt (class_fields c)"

definition struct_size :: "descriptor \<Rightarrow> nat" where
  "struct_size d =
     calcsize (fmt (d_class d)) + (if d_class d = C_Hid then length (d_hid d) * 3 else 0)"

fun total_size :: "descriptor \<Rightarrow> nat res" where
  "total_size (Desc c attrs str hid subs ix ref) =
     (let d = Desc c attrs str hid subs ix ref in
      if is_container c then
        bind_res (map_res total_size subs) (\<lambda>sizes. Inr (struct_size d + sum_list sizes))
      else if c = C_String then
        bind_res (utf16le str) (\<lambda>u. Inr (struct_size d + length u))
      else Inr (struct_size d))"

definition num_interfaces :: "descriptor \<Rightarrow> nat" where
  "num_interfaces d = length (remdups (map (\<lambda>(key, _). hd key) (d_index d)))"

text \<open>
  The properties computed fields read. \<open>sz\<close> answers \<^verbatim>\<open>len(set.Encode())\<close> for the
  descriptor set at an address.
\<close>

fun prop_value :: "(nat \<Rightarrow> nat res) \<Rightarrow> prop_name \<Rightarrow> descriptor \<Rightarrow> nat res" where
  "prop_value sz P_struct_size d = Inr (struct_size d)"
| "prop_value sz P_total_size d = total_size d"
| "prop_value sz P_num_interfaces d = Inr (num_interfaces d)"
| "prop_value sz P_num_endpoints d = Inr (length (d_index d))"
| "prop_value sz P_num_descriptors d = Inr (length (d_hid d))"
| "prop_value sz P_num_device_caps d = Inr (length (d_index d))"
| "prop_value sz P_descriptor_set_size d =
     (case d_set d of None \<Rightarrow> Inr 0 | Some a \<Rightarrow> sz a)"

text \<open>\<^verbatim>\<open>getattr(self, field.name)\<close>.\<close>

definition get_field :: "(nat \<Rightarrow> nat res) \<Rightarrow> descriptor \<Rightarrow> field \<Rightarrow> pyval res" where
  "get_field sz d f =
     (case f_getter f of
        Attr dflt \<Rightarrow>
          (case map_of (d_attrs d) (f_name f) of
             Some v \<Rightarrow> Inr v
           | None \<Rightarrow> (case dflt of Some v \<Rightarrow> Inr v | None \<Rightarrow> Inl AssertionError))
      | Fixed v \<Rightarrow> Inr v
      | Computed p \<Rightarrow> bind_res (prop_value sz p d) (\<lambda>n. Inr (PInt (int n))))"

text \<open>\<^verbatim>\<open>desc.name\<close> for an integer attribute of an interface or endpoint descriptor.\<close>

definition int_attr :: "descriptor \<Rightarrow> string \<Rightarrow> int" where
  "int_attr d name =
     (case find (\<lambda>f. f_name f = name) (class_fields (d_class d)) of
        Some f \<Rightarrow> (case get_field (\<lambda>_. Inr 0) d f of Inr (PInt i) \<Rightarrow> i | _ \<Rightarrow> 0)
      | None \<Rightarrow> 0)"

subsection \<open>Encoding\<close>

text \<open>\<^verbatim>\<open>Descriptor.Encode\<close>, and on top of it the overriding methods of the subclasses.\<close>

definition Encode_base :: "(nat \<Rightarrow> nat res) \<Rightarrow> descriptor \<Rightarrow> bytes res" where
  "Encode_base sz d =
     bind_res (map_res (get_field sz d) (class_fields (d_class d)))
       (\<lambda>values. struct_pack (fmt (d_class d)) values)"

definition encode_hid_item :: "int \<times> int \<Rightarrow> bytes res" where
  "encode_hid_item p = struct_pack [F_B, F_H] [PInt (fst p), PInt (snd p)]"

fun Encode :: "(nat \<Rightarrow> nat res) \<Rightarrow> descriptor \<Rightarrow> bytes res" where
  "Encode sz (Desc c attrs str hid subs ix ref) =
     bind_res (Encode_base sz (Desc c attrs str hid subs ix ref)) (\<lambda>buf.
       if is_container c then
         bind_res (map_res (Encode sz) subs) (\<lambda>bufs. Inr (buf @ concat bufs))
       else if c = C_String then
         bind_res (utf16le str) (\<lambda>u. Inr (buf @ u))
       else if c = C_Hid then
         bind_res (map_res encode_hid_item hid) (\<lambda>bufs. Inr (buf @ concat bufs))
       else Inr buf)"

declare total_size.simps [simp del] Encode.simps [simp del]

subsection \<open>Adding descriptors\<close>

text \<open>\<^verbatim>\<open>DescriptorContainer.Add\<close>, and \<^verbatim>\<open>HidDescriptor.AddDescriptor\<close>.\<close>

definition Add :: "descriptor \<Rightarrow> descriptor \<Rightarrow> descriptor" where
  "Add d sub =
     Desc (d_class d) (d_attrs d) (d_string d) (d_hid d) (d_subs d @ [sub]) (d_index d) (d_set d)"

definition AddDescriptor :: "descriptor \<Rightarrow> int \<Rightarrow> int \<Rightarrow> descriptor" where
  "AddDescriptor d typ len =
     Desc (d_class d) (d_attrs d) (d_string d) (d_hid d @ [(typ, len)]) (d_subs d) (d_index d)
       (d_set d)"

definition register :: "descriptor \<Rightarrow> pyval list \<Rightarrow> descriptor \<Rightarrow> descriptor" where
  "register d key sub =
     Desc (d_class d) (d_attrs d) (d_string d) (d_hid d) (d_subs d @ [sub])
       (d_index d @ [(key, length (d_subs d))]) (d_set d)"

definition interface_key :: "descriptor \<Rightarrow> pyval list" where
  "interface_key i =
     [PInt (int_attr i ''bInterfaceNumber''), PInt (int_attr i ''bAlternateSetting'')]"

definition AddInterface :: "descriptor \<Rightarrow> descriptor \<Rightarrow> descriptor res" where
  "AddInterface d interface =
     (if interface_key interface \<in> fst ` set (d_index d) then Inl RuntimeError
      else Inr (register d (interface_key interface) interface))"

definition endpoint_key :: "descriptor \<Rightarrow> pyval list" where
  "endpoint_key e = [PInt (int_attr e ''bEndpointAddress'')]"

definition AddEndpoint :: "descriptor \<Rightarrow> descriptor \<Rightarrow> descriptor res" where
  "AddEndpoint d endpoint =
     (if endpoint_key endpoint \<in> fst ` set (d_index d) then Inl RuntimeError
      else Inr (register d (endpoint_key endpoint) endpoint))"

text \<open>\<^verbatim>\<open>_device_caps\<close> is a list: its entries carry no key.\<close>

definition AddDeviceCapability :: "descriptor \<Rightarrow> descriptor \<Rightarrow> descriptor" where
  "AddDeviceCapability d cap = register d [] cap"

text \<open>\<^verbatim>\<open>GetInterfaces\<close>, \<^verbatim>\<open>GetEndpoints\<close>, \<^verbatim>\<open>GetDeviceCapabilities\<close>: the registered objects.\<close>

definition registered :: "descriptor \<Rightarrow> descriptor list" where
  "registered d = map (\<lambda>(_, i). d_subs d ! i) (d_index d)"

definition GetInterfaces :: "descriptor \<Rightarrow> descriptor list" where
  "GetInterfaces d = registered d"

definition GetEndpoints :: "descriptor \<Rightarrow> descriptor list" where
  "GetEndpoints d = registered d"

definition GetDeviceCapabilities :: "descriptor \<Rightarrow> descriptor list" where
  "GetDeviceCapabilities d = registered d"

definition SetDescriptorSet :: "descriptor \<Rightarrow> nat \<Rightarrow> descriptor" where
  "SetDescriptorSet d a =
     Desc (d_class d) (d_attrs d) (d_string d) (d_hid d) (d_subs d) (d_index d) (Some a)"

section \<open>The encoding has the announced size\<close>

lemma fmt_length: "length (fmt c) = length (class_fields c)"
  by (simp add: fmt_def)

lemma Encode_base_length:
  "Encode_base sz d = Inr buf \<Longrightarrow> length buf = calcsize (fmt (d_class d))"
  by (auto simp: Encode_base_def bind_res_Inr_iff struct_pack_length)

lemma encode_hid_items_length:
  "map_res encode_hid_item hid = Inr bufs \<Longrightarrow> length (concat bufs) = length hid * 3"
proof (induction hid arbitrary: bufs)
  case (Cons p hid)
  then obtain b bs where b: "encode_hid_item p = Inr b"
    and bs: "map_res encode_hid_item hid = Inr bs" and "bufs = b # bs"
    by (auto simp: bind_res_Inr_iff)
  moreover from b have "length b = 3"
    unfolding encode_hid_item_def by (drule_tac struct_pack_length) simp
  ultimately show ?case using Cons.IH [OF bs] by simp
qed simp

lemma sizes_of_encodings:
  assumes "map_res (Encode sz) subs = Inr bufs"
    and "\<And>d bs. d \<in> set subs \<Longrightarrow> Encode sz d = Inr bs \<Longrightarrow> total_size d = Inr (length bs)"
  shows "map_res total_size subs = Inr (map length bufs)"
  using assms
proof (induction subs arbitrary: bufs)
  case (Cons d subs)
  then obtain b bs where "Encode sz d = Inr b" and bs: "map_res (Encode sz) subs = Inr bs"
    and "bufs = b # bs"
    by (auto simp: bind_res_Inr_iff)
  with Cons show ?case by simp
qed simp

lemma Encode_total_size:
  "Encode sz d = Inr bs \<Longrightarrow> total_size d = Inr (length bs)"
proof (induction d arbitrary: bs)
  case (Desc c attrs str hid subs ix ref)
  let ?d = "Desc c attrs str hid subs ix ref"
  from Desc.prems obtain buf where buf: "Encode_base sz ?d = Inr buf"
    by (auto simp: Encode.simps bind_res_Inr_iff)
  note len = Encode_base_length [OF buf, simplified]
  consider (sub) "is_container c" | (str) "c = C_String" | (hid) "c = C_Hid"
    | (plain) "\<not> is_container c" "c \<noteq> C_String" "c \<noteq> C_Hid" by blast
  then show ?case
  proof cases
    case sub
    with Desc.prems buf obtain bufs where bufs: "map_res (Encode sz) subs = Inr bufs"
      and bs: "bs = buf @ concat bufs"
      by (auto simp: Encode.simps bind_res_Inr_iff)
    have sizes: "map_res total_size subs = Inr (map length bufs)"
      using bufs by (rule sizes_of_encodings) (rule Desc.IH)
    from sub have "c \<noteq> C_Hid" by auto
    with sub sizes len bs show ?thesis
      by (simp add: total_size.simps struct_size_def length_concat)
  next
    case str
    with Desc.prems buf len show ?thesis
      by (auto simp: Encode.simps total_size.simps struct_size_def bind_res_Inr_iff)
  next
    case hid
    with Desc.prems buf len show ?thesis
      by (auto simp: Encode.simps total_size.simps struct_size_def bind_res_Inr_iff
          dest: encode_hid_items_length)
  next
    case plain
    with Desc.prems buf len show ?thesis
      by (auto simp: Encode.simps total_size.simps struct_size_def)
  qed
qed

section \<open>Reading an encoding back\<close>

lemma Encode_prefix:
  assumes "Encode sz d = Inr bs"
  obtains buf rest where "Encode_base sz d = Inr buf" and "bs = buf @ rest"
  using assms by (cases d) (auto simp: Encode.simps bind_res_Inr_iff split: if_splits)

lemma Encode_unpack:
  assumes "Encode sz d = Inr bs"
  obtains vals where "map_res (get_field sz d) (class_fields (d_class d)) = Inr vals"
    and "struct_unpack (fmt (d_class d)) (take (calcsize (fmt (d_class d))) bs) =
           Inr (canon_args (fmt (d_class d)) vals)"
proof -
  from assms obtain buf rest where buf: "Encode_base sz d = Inr buf" and bs: "bs = buf @ rest"
    by (rule Encode_prefix)
  from buf obtain vals where v: "map_res (get_field sz d) (class_fields (d_class d)) = Inr vals"
    and pack: "struct_pack (fmt (d_class d)) vals = Inr buf"
    by (auto simp: Encode_base_def bind_res_Inr_iff)
  have "take (calcsize (fmt (d_class d))) bs = buf"
    using bs struct_pack_length [OF pack] by simp
  with v struct_unpack_pack [OF pack] that show ?thesis by simp
qed

text \<open>
  Where a class announces the size of the whole encoding, contained descriptors included: offset
  and width of the field.
\<close>

fun total_length_field :: "dclass \<Rightarrow> (nat \<times> nat) option" where
  "total_length_field C_String = Some (0, 1)"
| "total_length_field C_Configuration = Some (2, 2)"
| "total_length_field C_Bos = Some (2, 2)"
| "total_length_field C_DescriptorSetHeader = Some (8, 2)"
| "total_length_field C_ConfigurationSubsetHeader = Some (6, 2)"
| "total_length_field C_FunctionSubsetHeader = Some (6, 2)"
| "total_length_field _ = None"

definition read_uint :: "nat \<Rightarrow> nat \<Rightarrow> bytes \<Rightarrow> int" where
  "read_uint off n bs = le_unpack (take n (drop off bs))"

lemma total_length_field_correct:
  assumes "Encode sz d = Inr bs" and "total_length_field (d_class d) = Some (off, n)"
  shows "read_uint off n bs = int (length bs)"
proof -
  from assms(1) obtain vals
    where v: "map_res (get_field sz d) (class_fields (d_class d)) = Inr vals"
      and u: "struct_unpack (fmt (d_class d)) (take (calcsize (fmt (d_class d))) bs) =
           Inr (canon_args (fmt (d_class d)) vals)"
    by (rule Encode_unpack)
  note size = Encode_total_size [OF assms(1)]
  from assms(2) v u show ?thesis
    by (cases "d_class d")
      (auto simp: fmt_def fields_defs get_field_def size bind_res_Inr_iff struct_unpack_def
        read_uint_def take_drop eval_nat_numeral split: if_splits)
qed

section \<open>Walking an encoding\<close>

text \<open>
  What a USB host does with a configuration: the first byte of each descriptor is its length.
\<close>

function walk :: "bytes \<Rightarrow> bytes list option" where
  "walk bs =
     (if bs = [] then Some []
      else let n = unat (hd bs) in
        if n = 0 \<or> length bs < n then None
        else map_option (\<lambda>ps. take n bs # ps) (walk (drop n bs)))"
  by pat_completeness auto
termination
  by (relation "measure length") auto

declare walk.simps [simp del]

text \<open>The descriptors of an object in depth-first order, and the bytes that belong to one of them.\<close>

fun pieces :: "descriptor \<Rightarrow> descriptor list" where
  "pieces (Desc c attrs str hid subs ix ref) =
     Desc c attrs str hid subs ix ref # (if is_container c then concat (map pieces subs) else [])"

definition own_encoding :: "(nat \<Rightarrow> nat res) \<Rightarrow> descriptor \<Rightarrow> bytes res" where
  "own_encoding sz d = (if is_container (d_class d) then Encode_base sz d else Encode sz d)"

text \<open>The classes whose first field is \<^verbatim>\<open>bLength\<close>.\<close>

definition has_bLength :: "dclass \<Rightarrow> bool" where
  "has_bLength c \<longleftrightarrow> c \<notin> {C_DescriptorSetHeader, C_ConfigurationSubsetHeader,
     C_FunctionSubsetHeader, C_CompatibleId}"

lemma walk_pieces:
  assumes "\<And>p. p \<in> set ps \<Longrightarrow> p \<noteq> [] \<and> unat (hd p) = length p"
  shows "walk (concat ps) = Some ps"
  using assms
proof (induction ps)
  case Nil
  show ?case by (simp add: walk.simps)
next
  case (Cons p ps)
  have p: "p \<noteq> []" "unat (hd p) = length p" using Cons.prems [of p] by simp_all
  moreover have "walk (concat ps) = Some ps" using Cons.prems by (intro Cons.IH) simp
  ultimately show ?case by (subst walk.simps) (simp add: Let_def)
qed

lemma bLength_is_first:
  assumes "Encode_base sz d = Inr buf" and "has_bLength (d_class d)"
  obtains n where "buf \<noteq> []" and "unat (hd buf) = n"
    and "(if d_class d = C_String then total_size d else Inr (struct_size d)) = Inr n"
proof -
  from assms(1) obtain vals
    where v: "map_res (get_field sz d) (class_fields (d_class d)) = Inr vals"
      and p: "struct_pack (fmt (d_class d)) vals = Inr buf"
    by (auto simp: Encode_base_def bind_res_Inr_iff)
  from assms(2) obtain f fs where fs: "class_fields (d_class d) = f # fs"
    and f: "f_struct_fmt f = F_B"
      "f_getter f = Computed (if d_class d = C_String then P_total_size else P_struct_size)"
    by (cases "d_class d") (auto simp: has_bLength_def fields_defs)
  from v fs f obtain n vs where vals: "vals = PInt (int n) # vs"
    and n: "(if d_class d = C_String then total_size d else Inr (struct_size d)) = Inr n"
    by (auto simp: get_field_def bind_res_Inr_iff split: if_splits)
  from p fs f vals obtain rest where buf: "buf = word_of_int (int n) # rest" and bound: "n < 256"
    by (auto simp: fmt_def pack_uint_def bind_res_Inr_iff split: if_splits)
  have "unat (word_of_int (int n) :: byte) = n"
    using bound by (simp add: unat_of_nat)
  with that buf n show ?thesis by simp
qed

lemma own_encoding_bLength:
  assumes "own_encoding sz d = Inr p" and "has_bLength (d_class d)"
  shows "p \<noteq> [] \<and> unat (hd p) = length p"
proof (cases "is_container (d_class d)")
  case True
  with assms(1) have buf: "Encode_base sz d = Inr p" by (simp add: own_encoding_def)
  from buf assms(2) obtain n where "p \<noteq> []" "unat (hd p) = n"
    and n: "(if d_class d = C_String then total_size d else Inr (struct_size d)) = Inr n"
    by (rule bLength_is_first)
  moreover have "d_class d \<noteq> C_String" "d_class d \<noteq> C_Hid" using True by auto
  ultimately show ?thesis
    using Encode_base_length [OF buf] by (simp add: struct_size_def)
next
  case False
  with assms(1) have enc: "Encode sz d = Inr p" by (simp add: own_encoding_def)
  then obtain buf rest where buf: "Encode_base sz d = Inr buf" and p: "p = buf @ rest"
    by (rule Encode_prefix)
  from buf assms(2) obtain n where "buf \<noteq> []" "unat (hd buf) = n"
    and n: "(if d_class d = C_String then total_size d else Inr (struct_size d)) = Inr n"
    by (rule bLength_is_first)
  moreover have "total_size d = Inr n"
    using n False by (cases d) (auto simp: total_size.simps split: if_splits)
  ultimately show ?thesis using p Encode_total_size [OF enc] by simp
qed

lemma Encode_pieces:
  "Encode sz d = Inr bs \<Longrightarrow>
     \<exists>ps. map_res (own_encoding sz) (pieces d) = Inr ps \<and> concat ps = bs"
proof (induction d arbitrary: bs)
  case (Desc c attrs str hid subs ix ref)
  let ?d = "Desc c attrs str hid subs ix ref"
  show ?case
  proof (cases "is_container c")
    case False
    with Desc.prems show ?thesis by (simp add: own_encoding_def)
  next
    case True
    with Desc.prems obtain buf bufs where buf: "Encode_base sz ?d = Inr buf"
      and bufs: "map_res (Encode sz) subs = Inr bufs" and bs: "bs = buf @ concat bufs"
      by (auto simp: Encode.simps bind_res_Inr_iff)
    have "\<exists>ps. map_res (own_encoding sz) (concat (map pieces subs)) = Inr ps
      \<and> concat ps = concat bufs" (is "\<exists>ps. ?P ps")
      using bufs Desc.IH
    proof (induction subs arbitrary: bufs)
      case (Cons a as)
      from Cons.prems(1) obtain b bs' where a: "Encode sz a = Inr b"
        and as: "map_res (Encode sz) as = Inr bs'" and bufs: "bufs = b # bs'"
        by (auto simp: bind_res_Inr_iff)
      from Cons.prems(2) [of a b] a obtain ps
        where "map_res (own_encoding sz) (pieces a) = Inr ps" "concat ps = b" by auto
      moreover from Cons.IH [OF as] Cons.prems(2) obtain qs
        where "map_res (own_encoding sz) (concat (map pieces as)) = Inr qs" "concat qs = concat bs'"
        by auto
      ultimately show ?case by (simp add: map_res_append bufs)
    qed simp
    then obtain ps where "?P ps" by blast
    moreover from True buf have "own_encoding sz ?d = Inr buf" by (simp add: own_encoding_def)
    ultimately show ?thesis using True bs by simp
  qed
qed

lemma Encode_walk:
  assumes enc: "Encode sz d = Inr bs"
    and std: "\<And>e. e \<in> set (pieces d) \<Longrightarrow> has_bLength (d_class e)"
  shows "\<exists>ps. map_res (own_encoding sz) (pieces d) = Inr ps \<and> walk bs = Some ps"
proof -
  from Encode_pieces [OF enc] obtain ps
    where ps: "map_res (own_encoding sz) (pieces d) = Inr ps" and bs: "concat ps = bs" by blast
  have "p \<noteq> [] \<and> unat (hd p) = length p" if "p \<in> set ps" for p
  proof -
    from that obtain i where i: "i < length ps" "p = ps ! i" by (auto simp: in_set_conv_nth)
    with ps have "pieces d ! i \<in> set (pieces d)" "own_encoding sz (pieces d ! i) = Inr p"
      by (auto simp: map_res_Inr_iff list_all2_conv_all_nth)
    with std show ?thesis by (blast dest: own_encoding_bLength)
  qed
  then have "walk bs = Some ps" unfolding bs [symmetric] by (rule walk_pieces)
  with ps show ?thesis by blast
qed

section \<open>Construction\<close>

text \<open>The names a constructor accepts, and those it insists on.\<close>

definition attr_names :: "dclass \<Rightarrow> string set" where
  "attr_names c = {f_name f |f. f \<in> set (class_fields c) \<and> (\<exists>v. f_getter f = Attr v)}"

definition required_names :: "dclass \<Rightarrow> string set" where
  "required_names c = {f_name f |f. f \<in> set (class_fields c) \<and> f_getter f = Attr None}"

lemma class_field_names_distinct: "distinct (map f_name (class_fields c))"
  by (cases c) (simp_all add: fields_defs)

lemma class_fields_required: "f \<in> set (class_fields c) \<Longrightarrow> f_required f \<longleftrightarrow> f_getter f = Attr None"
  by (cases c) (auto simp: fields_defs)

lemma find_field:
  assumes "f \<in> set (class_fields c)"
  shows "find (\<lambda>g. f_name g = f_name f) (class_fields c) = Some f"
proof -
  have "distinct (map f_name fs) \<Longrightarrow> f \<in> set fs \<Longrightarrow> find (\<lambda>g. f_name g = f_name f) fs = Some f" for fs
    by (induction fs) auto
  with class_field_names_distinct assms show ?thesis by blast
qed

lemma set_field_ok:
  assumes "name \<in> attr_names c"
  shows "set_field (class_fields c) name v attrs = Inr (AList.update name v attrs)"
proof -
  from assms obtain f w where f: "f \<in> set (class_fields c)" and w: "f_getter f = Attr w"
    and n: "f_name f = name" by (auto simp: attr_names_def)
  from find_field [OF f] n w show ?thesis by (simp add: set_field_def)
qed

lemma set_field_fixed:
  assumes "name \<in> set (field_names (class_fields c))" and "name \<notin> attr_names c"
  shows "set_field (class_fields c) name v attrs = Inl RuntimeError"
proof -
  from assms(1) obtain f where f: "f \<in> set (class_fields c)" and n: "f_name f = name"
    by (auto simp: field_names_def)
  with assms(2) have "f_getter f \<noteq> Attr w" for w by (auto simp: attr_names_def)
  with find_field [OF f] n show ?thesis by (cases "f_getter f") (auto simp: set_field_def)
qed

lemma attr_names_fields: "attr_names c \<subseteq> set (field_names (class_fields c))"
  by (auto simp: attr_names_def field_names_def)

lemma init_args_result:
  "init_args (class_fields c) kw attrs req =
     (case find (\<lambda>(a, _). a \<notin> attr_names c) kw of
        Some (a, _) \<Rightarrow> Inl (if a \<in> set (field_names (class_fields c)) then RuntimeError else TypeError)
      | None \<Rightarrow>
          if set req \<subseteq> fst ` set kw
          then Inr (fold (\<lambda>(a, v). AList.update a v) kw attrs) else Inl TypeError)"
proof (induction kw arbitrary: attrs req)
  case (Cons p kw)
  obtain a v where p: "p = (a, v)" by (cases p)
  show ?case
  proof (cases "a \<in> attr_names c")
    case True
    then have "a \<in> set (field_names (class_fields c))" using attr_names_fields by blast
    with True Cons.IH [of "AList.update a v attrs" "removeAll a req"] show ?thesis
      by (auto simp: p set_field_ok split: option.splits if_splits)
  next
    case False
    then show ?thesis by (auto simp: p set_field_fixed)
  qed
qed auto

lemma fold_update_map_of:
  "distinct (map fst kw) \<Longrightarrow>
     map_of (fold (\<lambda>(a, v). AList.update a v) kw attrs) = map_of attrs ++ map_of kw"
proof (induction kw arbitrary: attrs)
  case (Cons p kw)
  obtain a v where p: "p = (a, v)" by (cases p)
  with Cons.prems have "map_of kw a = None" by (simp add: map_of_eq_None_iff)
  with Cons p show ?case by (auto simp: update_conv' map_add_def fun_eq_iff split: option.splits)
qed simp

lemma required_list: "set (map f_name (filter f_required (class_fields c))) = required_names c"
  by (auto simp: required_names_def class_fields_required)

text \<open>Every outcome of a constructor call.\<close>

lemma new_descriptor_result:
  "new_descriptor c kw =
     (case find (\<lambda>(a, _). a \<notin> attr_names c) kw of
        Some (a, _) \<Rightarrow> Inl (if a \<in> set (field_names (class_fields c)) then RuntimeError else TypeError)
      | None \<Rightarrow>
          if required_names c \<subseteq> fst ` set kw
          then Inr (Desc c (fold (\<lambda>(a, v). AList.update a v) kw []) [] [] [] [] None)
          else Inl TypeError)"
  by (auto simp: new_descriptor_def init_args_result required_list simp del: set_map
      split: option.splits prod.splits)

lemma new_descriptor_get_field:
  assumes "new_descriptor c kw = Inr d" and "distinct (map fst kw)"
    and "f \<in> set (class_fields c)" and "f_getter f = Attr dflt"
  shows "get_field sz d f =
    (case map_of kw (f_name f) of Some v \<Rightarrow> Inr v | None \<Rightarrow> Inr (the dflt))"
proof -
  from assms(1) have d: "d = Desc c (fold (\<lambda>(a, v). AList.update a v) kw []) [] [] [] [] None"
    and req: "required_names c \<subseteq> fst ` set kw"
    by (auto simp: new_descriptor_result split: option.splits prod.splits if_splits)
  have attrs: "map_of (d_attrs d) = map_of kw"
    using fold_update_map_of [OF assms(2), of "[]"] by (simp add: d)
  have "map_of kw (f_name f) \<noteq> None" if "dflt = None"
  proof -
    from that assms(3,4) have "f_name f \<in> required_names c" by (auto simp: required_names_def)
    with req show ?thesis by (auto simp: map_of_eq_None_iff)
  qed
  with attrs assms(4) show ?thesis by (auto simp: get_field_def split: option.splits)
qed

section \<open>The registry of interfaces, endpoints and capabilities\<close>

text \<open>Every registered key is the key of the object it refers to, and no key occurs twice.\<close>

definition wf_registry :: "(descriptor \<Rightarrow> pyval list) \<Rightarrow> descriptor \<Rightarrow> bool" where
  "wf_registry key d \<longleftrightarrow>
     distinct (map fst (d_index d)) \<and>
     (\<forall>(k, i) \<in> set (d_index d). i < length (d_subs d) \<and> k = key (d_subs d ! i))"

lemma wf_registry_new:
  assumes "new_descriptor c kw = Inr d"
  shows "wf_registry key d" and "registered d = []" and "d_class d = c" and "d_subs d = []"
    and "d_index d = []"
  using assms by (auto simp: new_descriptor_def wf_registry_def registered_def bind_res_Inr_iff)

lemma registered_register:
  assumes "wf_registry key d"
  shows "registered (register d k e) = registered d @ [e]"
proof -
  have "map (\<lambda>(_, i). (d_subs d @ [e]) ! i) (d_index d) = map (\<lambda>(_, i). d_subs d ! i) (d_index d)"
    using assms by (auto simp: wf_registry_def nth_append)
  then show ?thesis by (simp add: registered_def register_def)
qed

lemma wf_registry_register:
  assumes "wf_registry key d" and "key e \<notin> fst ` set (d_index d)"
  shows "wf_registry key (register d (key e) e)"
  using assms by (auto simp: wf_registry_def register_def nth_append less_Suc_eq)

lemma wf_registry_Add: "wf_registry key d \<Longrightarrow> wf_registry key (Add d e)"
  by (auto simp: wf_registry_def Add_def nth_append less_Suc_eq)

lemma registered_Add: "wf_registry key d \<Longrightarrow> registered (Add d e) = registered d"
  by (auto simp: wf_registry_def Add_def registered_def nth_append)

lemma wf_registry_keys: "wf_registry key d \<Longrightarrow> map fst (d_index d) = map key (registered d)"
  by (auto simp: wf_registry_def registered_def)

lemma registered_keys_distinct: "wf_registry key d \<Longrightarrow> distinct (map key (registered d))"
  by (metis wf_registry_def wf_registry_keys)

lemma register_class [simp]:
  "d_class (register d k e) = d_class d" "d_subs (register d k e) = d_subs d @ [e]"
  "d_attrs (register d k e) = d_attrs d"
  by (simp_all add: register_def)

text \<open>The descriptors of a list are added one after the other.\<close>

fun add_all ::
    "(descriptor \<Rightarrow> descriptor \<Rightarrow> descriptor res) \<Rightarrow> descriptor \<Rightarrow> descriptor list \<Rightarrow> descriptor res" where
  "add_all add d [] = Inr d"
| "add_all add d (e # es) = bind_res (add d e) (\<lambda>d'. add_all add d' es)"

text \<open>\<^verbatim>\<open>AddInterface\<close> and \<^verbatim>\<open>AddEndpoint\<close> under their contract.\<close>

locale keyed_container =
  fixes key :: "descriptor \<Rightarrow> pyval list"
    and add :: "descriptor \<Rightarrow> descriptor \<Rightarrow> descriptor res"
    and items :: "descriptor \<Rightarrow> descriptor list"
  assumes add_fresh: "wf_registry key d \<Longrightarrow> key e \<notin> key ` set (items d) \<Longrightarrow>
      add d e = Inr (register d (key e) e)"
    and add_dup: "wf_registry key d \<Longrightarrow> key e \<in> key ` set (items d) \<Longrightarrow> add d e = Inl RuntimeError"
    and items_registered: "items d = registered d"
begin

lemma add_InrD:
  assumes "wf_registry key d" and "add d e = Inr d'"
  shows "d' = register d (key e) e" and "key e \<notin> key ` set (items d)"
    and "wf_registry key d'" and "items d' = items d @ [e]" and "d_class d' = d_class d"
proof -
  show fresh: "key e \<notin> key ` set (items d)" using add_dup assms by fastforce
  show d': "d' = register d (key e) e" using add_fresh [OF assms(1) fresh] assms(2) by simp
  have "key e \<notin> fst ` set (d_index d)"
  proof -
    have "fst ` set (d_index d) = key ` set (items d)"
      using wf_registry_keys [OF assms(1)] by (metis items_registered set_map)
    with fresh show ?thesis by simp
  qed
  with assms(1) d' show "wf_registry key d'" by (simp add: wf_registry_register)
  show "items d' = items d @ [e]"
    using registered_register [OF assms(1)] by (simp add: items_registered d')
  show "d_class d' = d_class d" by (simp add: d')
qed

lemma add_all_ok:
  assumes "wf_registry key d" and "distinct (map key (items d @ es))"
  shows "\<exists>d'. add_all add d es = Inr d' \<and> wf_registry key d' \<and> items d' = items d @ es
    \<and> d_subs d' = d_subs d @ es \<and> d_class d' = d_class d \<and> d_attrs d' = d_attrs d"
  using assms
proof (induction es arbitrary: d)
  case (Cons e es)
  from Cons.prems have "key e \<notin> key ` set (items d)" by auto
  with Cons.prems(1) have add: "add d e = Inr (register d (key e) e)" by (rule add_fresh)
  note d' = add_InrD [OF Cons.prems(1) add]
  from Cons.prems(2) have "distinct (map key (items (register d (key e) e) @ es))"
    by (simp add: d'(4))
  from Cons.IH [OF d'(3) this] add d'(4) show ?case by auto
qed simp

lemma add_all_result:
  assumes "wf_registry key d"
  shows "case add_all add d es of
      Inl e \<Rightarrow> e = RuntimeError \<and> \<not> distinct (map key (items d @ es))
    | Inr d' \<Rightarrow> distinct (map key (items d @ es)) \<and> items d' = items d @ es \<and> d_class d' = d_class d"
  using assms
proof (induction es arbitrary: d)
  case Nil
  then show ?case by (simp add: items_registered registered_keys_distinct)
next
  case (Cons e es)
  show ?case
  proof (cases "key e \<in> key ` set (items d)")
    case True
    with add_dup [OF Cons.prems] show ?thesis by auto
  next
    case False
    note added = add_fresh [OF Cons.prems False]
    note a = add_InrD [OF Cons.prems added]
    from Cons.IH [OF a(3)] a(4,5) added show ?thesis by (auto split: sum.splits)
  qed
qed

lemma add_all_InrD:
  assumes "wf_registry key d" and "add_all add d es = Inr d'"
  shows "wf_registry key d' \<and> items d' = items d @ es \<and> d_class d' = d_class d"
  using assms
proof (induction es arbitrary: d)
  case (Cons e es)
  from Cons.prems(2) obtain d1 where d1: "add d e = Inr d1" and rest: "add_all add d1 es = Inr d'"
    by (auto simp: bind_res_Inr_iff)
  note n = add_InrD [OF Cons.prems(1) d1]
  from Cons.IH [OF n(3) rest] n(4,5) show ?case by simp
qed simp

end

lemma in_keys_registered:
  "wf_registry key d \<Longrightarrow> k \<in> fst ` set (d_index d) \<longleftrightarrow> k \<in> key ` set (registered d)"
  by (metis set_map wf_registry_keys)

interpretation ifaces: keyed_container interface_key AddInterface GetInterfaces
  by unfold_locales (auto simp: AddInterface_def GetInterfaces_def in_keys_registered)

interpretation eps: keyed_container endpoint_key AddEndpoint GetEndpoints
  by unfold_locales (auto simp: AddEndpoint_def GetEndpoints_def in_keys_registered)

end
