(* ===== verification/Gadget.thy ===== *)
theory Gadget
  imports Usb_Descriptors
begin

text \<open>
  gadget.py: the state of a USB device, the standard control requests, string, BOS and Microsoft
  OS descriptors, and the selection of configurations and interfaces, which starts and stops
  endpoints on the peripheral controller the device is connected to. The controller is known here
  only by the four operations the gadget calls.
\<close>

section \<open>State\<close>

text \<open>
  The controller's operations, on a controller state \<open>'c\<close>. Starting an endpoint also reads the
  speed of the gadget the controller is bound to, so the speed is an argument.
\<close>

record 'c chip_ops =
  chip_StartEndpoint :: "int \<Rightarrow> descriptor \<Rightarrow> ('c, unit) st"
  chip_StopEndpoint :: "int \<Rightarrow> ('c, unit) st"
  chip_SendPacket :: "int \<Rightarrow> bytes \<Rightarrow> ('c, unit) st"
  chip_HaltEndpoint :: "int \<Rightarrow> ('c, unit) st"

text \<open>
  The attributes of \<^verbatim>\<open>Gadget\<close>. \<open>g_chip\<close> says whether \<^verbatim>\<open>_chip\<close> is set and \<open>g_hw\<close> is
  the state of the controller object it refers to. Microsoft OS 2.0 descriptor sets are objects
  that are filled after a reference to them was stored, so they live in the store
  \<open>g_ms_os20_sets\<close> and are referred to by position; the configuration subset is the first
  descriptor of its set.
\<close>

record 'c gadget =
  g_speed :: int
  g_chip :: bool
  g_device_desc :: descriptor
  g_fs_config_desc :: descriptor
  g_hs_config_desc :: descriptor
  g_strings :: "(int \<times> (int \<times> string) list) list"
  g_bos_descriptor :: "descriptor option"
  g_active_endpoints :: "(int \<times> int list) list"
  g_endpoint_interface_map :: "(int \<times> int) list"
  g_ms_vendor_code_v1 :: "int option"
  g_ms_vendor_code_v2 :: "int option"
  g_ms_compat_ids :: "(int \<times> (string \<times> string)) list"
  g_ms_os20_sets :: "descriptor list"
  g_ms_os20_descriptor_set :: "nat option"
  g_ms_os20_config_subset :: "nat option"
  g_hw :: 'c

text \<open>\<^verbatim>\<open>Gadget.__init__\<close>.\<close>

definition Gadget_init :: "descriptor \<Rightarrow> descriptor \<Rightarrow> descriptor \<Rightarrow> 'c \<Rightarrow> 'c gadget" where
  "Gadget_init device_desc fs_config_desc hs_config_desc hw =
     \<lparr>g_speed = Speed_UNKNOWN, g_chip = False, g_device_desc = device_desc,
      g_fs_config_desc = fs_config_desc, g_hs_config_desc = hs_config_desc,
      g_strings = [], g_bos_descriptor = None, g_active_endpoints = [],
      g_endpoint_interface_map = [], g_ms_vendor_code_v1 = None, g_ms_vendor_code_v2 = None,
      g_ms_compat_ids = [], g_ms_os20_sets = [], g_ms_os20_descriptor_set = None,
      g_ms_os20_config_subset = None, g_hw = hw\<rparr>"

definition GetConfigurationDescriptor :: "('c, 'z) gadget_scheme \<Rightarrow> descriptor res" where
  "GetConfigurationDescriptor g =
     (if g_speed g = Speed_FULL then Inr (g_fs_config_desc g)
      else if g_speed g = Speed_HIGH then Inr (g_hs_config_desc g)
      else Inl RuntimeError)"

section \<open>Setting a device up\<close>

definition AddStringDescriptor ::
    "int \<Rightarrow> string \<Rightarrow> int \<Rightarrow> (('c, 'z) gadget_scheme, unit) st" where
  "AddStringDescriptor index val lang g =
     (if index < 1 \<or> index > 255 then (Inl ValueError, g)
      else if lang < 0 \<or> lang > 0xffff then (Inl ValueError, g)
      else
        let strings = dict_setdefault lang [] (g_strings g);
            lang_strings = dict_set index val (the (dict_get strings lang))
        in (Inr (), g\<lparr>g_strings := dict_set lang lang_strings strings\<rparr>))"

definition AddDeviceCapabilityDescriptor :: "descriptor \<Rightarrow> (('c, 'z) gadget_scheme, unit) st" where
  "AddDeviceCapabilityDescriptor device_capability g =
     (case (case g_bos_descriptor g of
              None \<Rightarrow> new_descriptor C_Bos []
            | Some bos \<Rightarrow> Inr bos) of
        Inl e \<Rightarrow> (Inl e, g)
      | Inr bos \<Rightarrow>
          (Inr (), g\<lparr>g_bos_descriptor := Some (AddDeviceCapability bos device_capability)\<rparr>))"

definition EnableMicrosoftOSDescriptorsV1 :: "int \<Rightarrow> (('c, 'z) gadget_scheme, unit) st" where
  "EnableMicrosoftOSDescriptorsV1 vendor_code g =
     (if vendor_code < 0 \<or> vendor_code > 255 then (Inl ValueError, g)
      else if Some vendor_code = g_ms_vendor_code_v1 g then (Inl ValueError, g)
      else (Inr (), g\<lparr>g_ms_vendor_code_v1 := Some vendor_code\<rparr>))"

definition EnableMicrosoftOSDescriptorsV2 :: "int \<Rightarrow> (('c, 'z) gadget_scheme, unit) st" where
  "EnableMicrosoftOSDescriptorsV2 vendor_code g =
     (if vendor_code < 0 \<or> vendor_code > 255 then (Inl ValueError, g)
      else if Some vendor_code = g_ms_vendor_code_v1 g then (Inl ValueError, g)
      else
        (seq_st (modify_st (\<lambda>g. g\<lparr>g_ms_vendor_code_v2 := Some vendor_code\<rparr>))
        (bind_st (lift_res (new_descriptor C_DescriptorSetHeader
            [(''dwWindowsVersion'', PInt 0x06030000)])) (\<lambda>descriptor_set.
         bind_st (lift_res (new_descriptor C_ConfigurationSubsetHeader
            [(''bConfigurationValue'', PInt 0)])) (\<lambda>config_subset.
         bind_st (gets_st (\<lambda>g. length (g_ms_os20_sets g))) (\<lambda>addr.
         seq_st (modify_st (\<lambda>g. g\<lparr>g_ms_os20_sets := g_ms_os20_sets g @ [Add descriptor_set config_subset],
                                g_ms_os20_descriptor_set := Some addr,
                                g_ms_os20_config_subset := Some addr\<rparr>))
        (bind_st (lift_res (new_descriptor C_PlatformCapability
            [(''dwWindowsVersion'', PInt 0x06030000), (''bMS_VendorCode'', PInt vendor_code)]))
          (\<lambda>platform. AddDeviceCapabilityDescriptor (SetDescriptorSet platform addr)))))))) g)"

definition str_bytes :: "string \<Rightarrow> bytes" where
  "str_bytes s = map of_char s"

text \<open>Adding to the configuration subset, which is the first descriptor of the set at \<open>a\<close>.\<close>

definition add_to_config_subset :: "descriptor \<Rightarrow> descriptor \<Rightarrow> descriptor" where
  "add_to_config_subset descriptor_set function_header =
     Desc (d_class descriptor_set) (d_attrs descriptor_set) (d_string descriptor_set)
       (d_hid descriptor_set)
       ((d_subs descriptor_set)[0 := Add (d_subs descriptor_set ! 0) function_header])
       (d_index descriptor_set) (d_set descriptor_set)"

definition SetMicrosoftCompatId ::
    "int \<Rightarrow> string \<Rightarrow> string \<Rightarrow> (('c, 'z) gadget_scheme, unit) st" where
  "SetMicrosoftCompatId interface_number compat_id sub_compat_id =
     seq_st (modify_st (\<lambda>g. g\<lparr>g_ms_compat_ids :=
               dict_set interface_number (compat_id, sub_compat_id) (g_ms_compat_ids g)\<rparr>))
     (bind_st (gets_st g_ms_os20_config_subset) (\<lambda>subset.
        case subset of
          None \<Rightarrow> return_st ()
        | Some a \<Rightarrow>
            bind_st (lift_res (new_descriptor C_FunctionSubsetHeader
                [(''bFirstInterface'', PInt interface_number)])) (\<lambda>function_header.
            bind_st (lift_res (new_descriptor C_CompatibleId
                [(''CompatibleID'', PBytes (str_bytes compat_id)),
                 (''SubCompatibleID'', PBytes (str_bytes sub_compat_id))])) (\<lambda>compatible_id.
            modify_st (\<lambda>g. g\<lparr>g_ms_os20_sets := (g_ms_os20_sets g)
              [a := add_to_config_subset (g_ms_os20_sets g ! a)
                     (Add function_header compatible_id)]\<rparr>)))))"

definition Connected :: "int \<Rightarrow> ('c, 'z) gadget_scheme \<Rightarrow> ('c, 'z) gadget_scheme" where
  "Connected speed g = g\<lparr>g_speed := speed, g_chip := True\<rparr>"

definition Disconnected :: "('c, 'z) gadget_scheme \<Rightarrow> ('c, 'z) gadget_scheme" where
  "Disconnected g =
     g\<lparr>g_speed := Speed_UNKNOWN, g_chip := False, g_active_endpoints := [],
       g_endpoint_interface_map := []\<rparr>"

definition IsConnected :: "('c, 'z) gadget_scheme \<Rightarrow> bool" where
  "IsConnected g = g_chip g"

section \<open>Encoding with the gadget's descriptor sets\<close>

text \<open>\<^verbatim>\<open>len(self._descriptor_set.Encode())\<close> of the set at an address.\<close>

definition descriptor_set_size :: "('c, 'z) gadget_scheme \<Rightarrow> nat \<Rightarrow> nat res" where
  "descriptor_set_size g a =
     (if a < length (g_ms_os20_sets g)
      then bind_res (Encode (\<lambda>_. Inr 0) (g_ms_os20_sets g ! a)) (\<lambda>bs. Inr (length bs))
      else Inr 0)"

definition g_Encode :: "('c, 'z) gadget_scheme \<Rightarrow> descriptor \<Rightarrow> bytes res" where
  "g_Encode g d = Encode (descriptor_set_size g) d"

section \<open>Reading descriptors\<close>

text \<open>A reply is a buffer, or \<open>None\<close> to stall the pipe.\<close>

type_synonym reply = "bytes option res"

definition GetStringDescriptor :: "('c, 'z) gadget_scheme \<Rightarrow> int \<Rightarrow> int \<Rightarrow> int \<Rightarrow> reply" where
  "GetStringDescriptor g index lang len =
     (if index = 0 then
        let len' = 2 + int (length (g_strings g)) * 2 in
        bind_res (struct_pack [F_B, F_B] [PInt len', PInt DescriptorType_STRING]) (\<lambda>header.
        bind_res (map_res (\<lambda>(code, _). struct_pack [F_H] [PInt code]) (g_strings g)) (\<lambda>lang_codes.
        let buf = header @ concat lang_codes in
        if int (length buf) = len' then Inr (Some (slice_to len' buf)) else Inl AssertionError))
      else case (if index = 0xEE \<and> lang = 0 then g_ms_vendor_code_v1 g else None) of
        Some vendor_code \<Rightarrow>
          bind_res (struct_pack [F_B, F_B] [PInt 18, PInt DescriptorType_STRING]) (\<lambda>header.
          bind_res (utf16le ''MSFT100'') (\<lambda>sig.
          bind_res (struct_pack [F_B, F_B] [PInt vendor_code, PInt 0]) (\<lambda>code.
          let buf = header @ sig @ code in
          if length buf = 18 then Inr (Some (slice_to len buf)) else Inl AssertionError)))
      | None \<Rightarrow>
          (case dict_get (g_strings g) lang of
             None \<Rightarrow> Inr None
           | Some lang_strings \<Rightarrow>
               (case dict_get lang_strings index of
                  None \<Rightarrow> Inr None
                | Some s \<Rightarrow>
                    bind_res (StringDescriptor s []) (\<lambda>d.
                    bind_res (g_Encode g d) (\<lambda>buf. Inr (Some (slice_to len buf)))))))"

definition GetBosDescriptor :: "('c, 'z) gadget_scheme \<Rightarrow> int \<Rightarrow> reply" where
  "GetBosDescriptor g len =
     (case g_bos_descriptor g of
        None \<Rightarrow> Inr None
      | Some bos \<Rightarrow> bind_res (g_Encode g bos) (\<lambda>buf. Inr (Some (slice_to len buf))))"

definition GetDescriptor ::
    "('c, 'z) gadget_scheme \<Rightarrow> int \<Rightarrow> int \<Rightarrow> int \<Rightarrow> int \<Rightarrow> int \<Rightarrow> reply" where
  "GetDescriptor g recipient typ index lang len =
     (if typ = DescriptorType_STRING then GetStringDescriptor g index lang len
      else if typ = DescriptorType_BOS then GetBosDescriptor g len
      else Inr None)"

text \<open>One entry of the compatible id table, as packed for interface \<open>i\<close>.\<close>

definition compat_id_entry :: "('c, 'z) gadget_scheme \<Rightarrow> int \<Rightarrow> bytes res" where
  "compat_id_entry g i =
     (let (compat_id, sub_compat_id) =
            (case dict_get (g_ms_compat_ids g) i of None \<Rightarrow> ('''', '''') | Some p \<Rightarrow> p)
      in struct_pack [F_B, F_B, F_s 8, F_s 8, F_x, F_x, F_x, F_x, F_x, F_x]
           [PInt i, PInt 0x01, PBytes (str_bytes compat_id), PBytes (str_bytes sub_compat_id)])"

definition GetMicrosoftCompatIds :: "('c, 'z) gadget_scheme \<Rightarrow> int \<Rightarrow> reply" where
  "GetMicrosoftCompatIds g len =
     bind_res (GetConfigurationDescriptor g) (\<lambda>config_desc.
     let interfaces = GetInterfaces config_desc in
     if interfaces = [] then Inl ValueError
     else
       let max_interface = Max (set (map (\<lambda>i. int_attr i ''bInterfaceNumber'') interfaces)) in
       bind_res (struct_pack [F_I, F_H, F_H, F_B, F_x, F_x, F_x, F_x, F_x, F_x, F_x]
           [PInt (16 + 24 * (max_interface + 1)), PInt 0x0100, PInt 0x0004, PInt (max_interface + 1)])
         (\<lambda>header.
            if len \<le> int (length header) then Inr (Some (slice_to len header))
            else bind_res (map_res (compat_id_entry g) [0 .. max_interface])
              (\<lambda>entries. Inr (Some (slice_to len (header @ concat entries))))))"

definition GetMicrosoftOSDescriptorV1 ::
    "('c, 'z) gadget_scheme \<Rightarrow> int \<Rightarrow> int \<Rightarrow> int \<Rightarrow> int \<Rightarrow> reply" where
  "GetMicrosoftOSDescriptorV1 g recipient val index len =
     (if index = 0x0004 then GetMicrosoftCompatIds g len else Inr None)"

definition GetMicrosoftOSDescriptorV2 :: "('c, 'z) gadget_scheme \<Rightarrow> int \<Rightarrow> reply" where
  "GetMicrosoftOSDescriptorV2 g len =
     (case g_ms_os20_descriptor_set g of
        None \<Rightarrow> Inl AttributeError
      | Some a \<Rightarrow>
          bind_res (g_Encode g (g_ms_os20_sets g ! a)) (\<lambda>buf. Inr (Some (slice_to len buf))))"

section \<open>Control reads\<close>

text \<open>
  The handlers have the arguments recipient, request, value, index, length. A subclass overrides
  them, so the dispatcher takes them as arguments.
\<close>

type_synonym read_handler = "int \<Rightarrow> int \<Rightarrow> int \<Rightarrow> int \<Rightarrow> int \<Rightarrow> reply"

definition StandardControlRead :: "('c, 'z) gadget_scheme \<Rightarrow> read_handler" where
  "StandardControlRead g recipient request val index len =
     (if recipient = Recipient_DEVICE then
        if request = Request_GET_DESCRIPTOR then
          let desc_type = drop_bit 8 val; desc_index = val AND 0xff; desc_lang = index in
          GetDescriptor g recipient desc_type desc_index desc_lang len
        else Inr None
      else Inr None)"

definition ClassControlRead :: "('c, 'z) gadget_scheme \<Rightarrow> read_handler" where
  "ClassControlRead g recipient request val index len = Inr None"

definition VendorControlRead :: "('c, 'z) gadget_scheme \<Rightarrow> read_handler" where
  "VendorControlRead g recipient request val index len =
     (if g_ms_vendor_code_v1 g \<noteq> None \<and> Some request = g_ms_vendor_code_v1 g \<and>
         (recipient = Recipient_DEVICE \<or> recipient = Recipient_INTERFACE)
      then GetMicrosoftOSDescriptorV1 g recipient val index len
      else if g_ms_vendor_code_v2 g \<noteq> None \<and> Some request = g_ms_vendor_code_v2 g \<and>
         recipient = Recipient_DEVICE \<and> val = 0x0000 \<and> index = 0x0007
      then GetMicrosoftOSDescriptorV2 g len
      else Inr None)"

definition ControlRead ::
    "read_handler \<Rightarrow> read_handler \<Rightarrow> read_handler \<Rightarrow> int \<Rightarrow> int \<Rightarrow> int \<Rightarrow> int \<Rightarrow> int \<Rightarrow> reply" where
  "ControlRead standard cls vendor request_type request val index len =
     (if request_type AND Dir_IN = 0 then Inl AssertionError
      else
        let typ = request_type AND Type_MASK; recipient = request_type AND Recipient_MASK in
        if typ = Type_STANDARD then standard recipient request val index len
        else if typ = Type_CLASS then cls recipient request val index len
        else if typ = Type_VENDOR then vendor recipient request val index len
        else Inr None)"

definition Gadget_ControlRead ::
    "('c, 'z) gadget_scheme \<Rightarrow> int \<Rightarrow> int \<Rightarrow> int \<Rightarrow> int \<Rightarrow> int \<Rightarrow> reply" where
  "Gadget_ControlRead g =
     ControlRead (StandardControlRead g) (ClassControlRead g) (VendorControlRead g)"

section \<open>Calling the controller\<close>

text \<open>\<^verbatim>\<open>self._chip.method(...)\<close>; without a controller the attribute lookup on None raises.\<close>

definition chip_call :: "('c, 'a) st \<Rightarrow> (('c, 'z) gadget_scheme, 'a) st" where
  "chip_call m g =
     (if g_chip g then (case m (g_hw g) of (r, c) \<Rightarrow> (r, g\<lparr>g_hw := c\<rparr>)) else (Inl AttributeError, g))"

definition SendPacket :: "'c chip_ops \<Rightarrow> int \<Rightarrow> bytes \<Rightarrow> (('c, 'z) gadget_scheme, unit) st" where
  "SendPacket ops endpoint data g =
     (if \<not> g_chip g then (Inl RuntimeError, g)
      else if endpoint AND Dir_IN = 0 then (Inl ValueError, g)
      else chip_call (chip_SendPacket ops endpoint data) g)"

text \<open>\<^verbatim>\<open>Gadget.ReceivePacket\<close> does nothing; subclasses override it.\<close>

definition ReceivePacket :: "int \<Rightarrow> bytes \<Rightarrow> (('c, 'z) gadget_scheme, unit) st" where
  "ReceivePacket endpoint data = return_st ()"

definition HaltEndpoint :: "'c chip_ops \<Rightarrow> int \<Rightarrow> (('c, 'z) gadget_scheme, unit) st" where
  "HaltEndpoint ops endpoint = chip_call (chip_HaltEndpoint ops endpoint)"

definition GetInterfaceForEndpoint :: "('c, 'z) gadget_scheme \<Rightarrow> int \<Rightarrow> int option" where
  "GetInterfaceForEndpoint g endpoint_addr = dict_get (g_endpoint_interface_map g) endpoint_addr"

section \<open>Selecting configurations and interfaces\<close>

text \<open>\<^verbatim>\<open>self._active_endpoints[i]\<close>, the set object of an interface already in the dictionary.\<close>

definition addrs_of :: "('c, 'z) gadget_scheme \<Rightarrow> int \<Rightarrow> int list" where
  "addrs_of g i = (case dict_get (g_active_endpoints g) i of None \<Rightarrow> [] | Some addrs \<Rightarrow> addrs)"

text \<open>
  The body shared by both requests: start an endpoint, put it into the interface's set and into
  the endpoint map.
\<close>

definition start_endpoint ::
    "'c chip_ops \<Rightarrow> int \<Rightarrow> descriptor \<Rightarrow> int \<Rightarrow> (('c, 'z) gadget_scheme, unit) st" where
  "start_endpoint ops set_of endpoint_desc interface_number =
     bind_st (gets_st g_speed) (\<lambda>speed.
     seq_st (chip_call (chip_StartEndpoint ops speed endpoint_desc))
       (modify_st (\<lambda>g.
         let addr = int_attr endpoint_desc ''bEndpointAddress'' in
         g\<lparr>g_active_endpoints := dict_set set_of (set_add addr (addrs_of g set_of)) (g_active_endpoints g),
           g_endpoint_interface_map := dict_set addr interface_number (g_endpoint_interface_map g)\<rparr>)))"

definition stop_all_endpoints :: "'c chip_ops \<Rightarrow> (('c, 'z) gadget_scheme, unit) st" where
  "stop_all_endpoints ops =
     bind_st (gets_st (\<lambda>g. map fst (g_active_endpoints g))) (\<lambda>ifaces.
     seq_st (for_st ifaces (\<lambda>i.
         bind_st (gets_st (\<lambda>g. addrs_of g i)) (\<lambda>endpoint_addrs.
         seq_st (for_st endpoint_addrs (\<lambda>addr. chip_call (chip_StopEndpoint ops addr)))
           (modify_st (\<lambda>g. g\<lparr>g_active_endpoints := dict_set i [] (g_active_endpoints g)\<rparr>)))))
       (modify_st (\<lambda>g. g\<lparr>g_endpoint_interface_map := []\<rparr>)))"

definition start_interface ::
    "'c chip_ops \<Rightarrow> descriptor \<Rightarrow> (('c, 'z) gadget_scheme, unit) st" where
  "start_interface ops interface_desc =
     (let number = int_attr interface_desc ''bInterfaceNumber'' in
      if int_attr interface_desc ''bAlternateSetting'' \<noteq> 0 then return_st ()
      else
        seq_st (modify_st (\<lambda>g. g\<lparr>g_active_endpoints :=
                  dict_setdefault number [] (g_active_endpoints g)\<rparr>))
          (for_st (GetEndpoints interface_desc)
            (\<lambda>endpoint_desc. start_endpoint ops number endpoint_desc number)))"

definition SetConfiguration :: "'c chip_ops \<Rightarrow> int \<Rightarrow> (('c, 'z) gadget_scheme, bool option) st" where
  "SetConfiguration ops index =
     seq_st (stop_all_endpoints ops)
       (if index = 0 then return_st (Some True)
        else if index \<noteq> 1 then return_st None
        else
          bind_st (bind_st (gets_st GetConfigurationDescriptor) lift_res) (\<lambda>config_desc.
          seq_st (for_st (GetInterfaces config_desc) (start_interface ops))
            (return_st (Some True))))"

definition find_interface :: "descriptor \<Rightarrow> int \<Rightarrow> int \<Rightarrow> descriptor option" where
  "find_interface config_desc interface alt_setting =
     fold (\<lambda>opt found.
         if int_attr opt ''bInterfaceNumber'' = interface \<and>
            int_attr opt ''bAlternateSetting'' = alt_setting then Some opt else found)
       (GetInterfaces config_desc) None"

text \<open>\<^verbatim>\<open>del self._endpoint_interface_map[endpoint_addr]\<close>.\<close>

definition del_endpoint :: "int \<Rightarrow> (('c, 'z) gadget_scheme, unit) st" where
  "del_endpoint addr g =
     (if dict_get (g_endpoint_interface_map g) addr = None then (Inl KeyError, g)
      else (Inr (), g\<lparr>g_endpoint_interface_map := dict_del addr (g_endpoint_interface_map g)\<rparr>))"

definition SetInterface ::
    "'c chip_ops \<Rightarrow> int \<Rightarrow> int \<Rightarrow> (('c, 'z) gadget_scheme, bool option) st" where
  "SetInterface ops interface alt_setting =
     bind_st (bind_st (gets_st GetConfigurationDescriptor) lift_res) (\<lambda>config_desc.
     case find_interface config_desc interface alt_setting of
       None \<Rightarrow> return_st None
     | Some interface_desc \<Rightarrow>
         seq_st (modify_st (\<lambda>g. g\<lparr>g_active_endpoints :=
                   dict_setdefault interface [] (g_active_endpoints g)\<rparr>))
         (bind_st (gets_st (\<lambda>g. addrs_of g interface)) (\<lambda>endpoint_addrs.
          seq_st (for_st endpoint_addrs (\<lambda>addr.
              seq_st (chip_call (chip_StopEndpoint ops addr)) (del_endpoint addr)))
         (seq_st (for_st (GetEndpoints interface_desc) (\<lambda>endpoint_desc.
              start_endpoint ops interface endpoint_desc
                (int_attr interface_desc ''bInterfaceNumber'')))
            (return_st (Some True))))))"

section \<open>Control writes\<close>

type_synonym ('s) write_handler = "int \<Rightarrow> int \<Rightarrow> int \<Rightarrow> int \<Rightarrow> bytes \<Rightarrow> ('s, bool option) st"

definition StandardControlWrite :: "'c chip_ops \<Rightarrow> ('c, 'z) gadget_scheme write_handler" where
  "StandardControlWrite ops recipient request val index data =
     (if request = Request_SET_CONFIGURATION then
        if recipient = Recipient_DEVICE then SetConfiguration ops val else return_st None
      else if request = Request_SET_INTERFACE then
        if recipient = Recipient_INTERFACE then SetInterface ops index val else return_st None
      else return_st None)"

definition ClassControlWrite :: "('c, 'z) gadget_scheme write_handler" where
  "ClassControlWrite recipient request val index data = return_st None"

definition VendorControlWrite :: "('c, 'z) gadget_scheme write_handler" where
  "VendorControlWrite recipient request val index data = return_st None"

definition ControlWrite ::
    "'s write_handler \<Rightarrow> 's write_handler \<Rightarrow> 's write_handler \<Rightarrow>
     int \<Rightarrow> int \<Rightarrow> int \<Rightarrow> int \<Rightarrow> bytes \<Rightarrow> ('s, bool option) st" where
  "ControlWrite standard cls vendor request_type request val index data =
     (if request_type AND Dir_IN \<noteq> 0 then raise_st AssertionError
      else
        let typ = request_type AND Type_MASK; recipient = request_type AND Recipient_MASK in
        if typ = Type_STANDARD then standard recipient request val index data
        else if typ = Type_CLASS then cls recipient request val index data
        else if typ = Type_VENDOR then vendor recipient request val index data
        else return_st None)"

definition Gadget_ControlWrite ::
    "'c chip_ops \<Rightarrow> int \<Rightarrow> int \<Rightarrow> int \<Rightarrow> int \<Rightarrow> bytes \<Rightarrow> (('c, 'z) gadget_scheme, bool option) st" where
  "Gadget_ControlWrite ops =
     ControlWrite (StandardControlWrite ops) ClassControlWrite VendorControlWrite"

end
