(* ===== verification/Gadget_Endpoints.thy ===== *)
theory Gadget_Endpoints
  imports Gadget
begin

text \<open>
  What selecting configurations and interfaces does to the endpoints. A controller is any
  implementation of the contract \<open>usb_chip\<close>; the lemmas about \<^verbatim>\<open>SetConfiguration\<close> and
  \<^verbatim>\<open>SetInterface\<close> are proved once for all of them. The book-keeping of the gadget
  (active endpoints per interface, interface per endpoint) is compared with the list of endpoints
  that should be running.
\<close>

section \<open>The controller's contract\<close>

locale usb_chip =
  fixes ops :: "'c chip_ops"
    and running :: "'c \<Rightarrow> int set"
  assumes start_ok: "chip_StartEndpoint ops speed d c = (Inr (), c') \<Longrightarrow>
      running c' = insert (int_attr d ''bEndpointAddress'') (running c)"
    and start_fail: "chip_StartEndpoint ops speed d c = (Inl e, c') \<Longrightarrow> running c' = running c"
    and stop_running: "a \<in> running c \<Longrightarrow>
      \<exists>c'. chip_StopEndpoint ops a c = (Inr (), c') \<and> running c' = running c - {a}"
    and stop_idle: "a \<notin> running c \<Longrightarrow> chip_StopEndpoint ops a c = (Inl KeyError, c)"

section \<open>Book-keeping\<close>

text \<open>
  \<open>tracks running es stale g\<close>: exactly the endpoints of \<open>es\<close> (address and interface) run and are
  in the endpoint map, and the set of an interface holds its endpoints of \<open>es\<close> and the addresses
  \<open>stale\<close> allows.
\<close>

definition tracks ::
    "('c \<Rightarrow> int set) \<Rightarrow> (int \<times> int) list \<Rightarrow> (int \<Rightarrow> int set) \<Rightarrow> ('c, 'z) gadget_scheme \<Rightarrow> bool" where
  "tracks running es stale g \<longleftrightarrow>
     distinct (map fst es) \<and> (es = [] \<or> g_chip g) \<and>
     running (g_hw g) = fst ` set es \<and>
     (\<forall>a. dict_get (g_endpoint_interface_map g) a = map_of es a) \<and>
     distinct (map fst (g_active_endpoints g)) \<and>
     (\<forall>i. distinct (addrs_of g i) \<and> set (addrs_of g i) = {a. (a, i) \<in> set es} \<union> stale i)"

abbreviation clean :: "('c \<Rightarrow> int set) \<Rightarrow> ('c, 'z) gadget_scheme \<Rightarrow> bool" where
  "clean running g \<equiv> \<exists>es. tracks running es (\<lambda>_. {}) g"

text \<open>The endpoints of the default alternate settings of a configuration.\<close>

definition iface_endpoints :: "int \<Rightarrow> descriptor \<Rightarrow> (int \<times> int) list" where
  "iface_endpoints i d = map (\<lambda>e. (int_attr e ''bEndpointAddress'', i)) (GetEndpoints d)"

definition alt0_endpoints :: "descriptor list \<Rightarrow> (int \<times> int) list" where
  "alt0_endpoints ds =
     concat (map (\<lambda>d. iface_endpoints (int_attr d ''bInterfaceNumber'') d)
       (filter (\<lambda>d. int_attr d ''bAlternateSetting'' = 0) ds))"

lemma alt0_endpoints_simps [simp]:
  "alt0_endpoints [] = []"
  "alt0_endpoints (ds @ es) = alt0_endpoints ds @ alt0_endpoints es"
  "alt0_endpoints [d] = (if int_attr d ''bAlternateSetting'' = 0
     then iface_endpoints (int_attr d ''bInterfaceNumber'') d else [])"
  by (simp_all add: alt0_endpoints_def)

text \<open>What selecting endpoints never touches.\<close>

definition same_config :: "('c, 'z) gadget_scheme \<Rightarrow> ('c, 'z) gadget_scheme \<Rightarrow> bool" where
  "same_config g h \<longleftrightarrow>
     g_speed h = g_speed g \<and> g_chip h = g_chip g \<and> g_fs_config_desc h = g_fs_config_desc g \<and>
     g_hs_config_desc h = g_hs_config_desc g"

lemma same_config_refl [simp]: "same_config g g"
  by (simp add: same_config_def)

lemma same_config_trans: "same_config g h \<Longrightarrow> same_config h k \<Longrightarrow> same_config g k"
  by (simp add: same_config_def)

lemma same_config_update [simp]:
  "same_config g (h\<lparr>g_hw := c\<rparr>) = same_config g h"
  "same_config g (h\<lparr>g_active_endpoints := as\<rparr>) = same_config g h"
  "same_config g (h\<lparr>g_endpoint_interface_map := m\<rparr>) = same_config g h"
  by (simp_all add: same_config_def)

lemma same_config_descriptor:
  "same_config g h \<Longrightarrow> GetConfigurationDescriptor h = GetConfigurationDescriptor g"
  by (simp add: same_config_def GetConfigurationDescriptor_def)

lemma addrs_of_simps [simp]:
  "addrs_of (g\<lparr>g_hw := c\<rparr>) = addrs_of g"
  "addrs_of (g\<lparr>g_endpoint_interface_map := m\<rparr>) = addrs_of g"
  by (simp_all add: addrs_of_def fun_eq_iff)

lemma addrs_of_setdefault [simp]:
  "addrs_of (h\<lparr>g_active_endpoints := dict_setdefault i [] (g_active_endpoints g)\<rparr>) = addrs_of g"
  by (auto simp: addrs_of_def fun_eq_iff split: option.splits)

lemma addrs_of_set [simp]:
  "addrs_of (h\<lparr>g_active_endpoints := dict_set i as (g_active_endpoints g)\<rparr>) =
     (addrs_of g)(i := as)"
  by (auto simp: addrs_of_def fun_eq_iff)

lemma tracks_setdefault:
  "tracks running es stale g \<Longrightarrow>
     tracks running es stale (g\<lparr>g_active_endpoints := dict_setdefault i [] (g_active_endpoints g)\<rparr>)"
  by (simp add: tracks_def)

lemma addrs_of_outside: "i \<notin> fst ` set (g_active_endpoints g) \<Longrightarrow> addrs_of g i = []"
  by (simp add: addrs_of_def map_of_eq_None_iff [THEN iffD2])

lemma chip_call_eq: "g_chip g \<Longrightarrow> m (g_hw g) = (r, c) \<Longrightarrow> chip_call m g = (r, g\<lparr>g_hw := c\<rparr>)"
  by (simp add: chip_call_def)

lemma map_of_other:
  assumes "distinct (map fst es)"
  shows "map_of (filter (\<lambda>p. snd p \<noteq> i) es) a = (if (a, i) \<in> set es then None else map_of es a)"
  using assms
proof (induction es)
  case (Cons p es)
  obtain b j where p: "p = (b, j)" by force
  have b: "(b, i) \<notin> set es" "map_of es b = None" using Cons.prems by (force simp: p map_of_eq_None_iff)+
  show ?case using Cons b by (auto simp: p)
qed simp

lemma remove_interface:
  assumes "distinct (map fst es)"
  shows "fst ` {p \<in> set es. snd p \<notin> B} - {a. (a, i) \<in> set es} =
    fst ` {p \<in> set es. snd p \<noteq> i \<and> snd p \<notin> B}"
  using eq_key_imp_eq_value [OF assms] by (auto 4 3 simp: image_iff)

section \<open>Starting and stopping\<close>

context usb_chip
begin

lemma stop_list:
  assumes "distinct as" and "set as \<subseteq> running (g_hw g)" and "g_chip g \<or> as = []"
  shows "\<exists>c. for_st as (\<lambda>a. chip_call (chip_StopEndpoint ops a)) g = (Inr (), g\<lparr>g_hw := c\<rparr>)
    \<and> running c = running (g_hw g) - set as"
  using assms
proof (induction as arbitrary: g)
  case Nil
  show ?case by (rule exI [of _ "g_hw g"]) (simp add: return_st_def)
next
  case (Cons a as)
  from Cons.prems stop_running [of a "g_hw g"] obtain c where
    c: "chip_StopEndpoint ops a (g_hw g) = (Inr (), c)" "running c = running (g_hw g) - {a}" by auto
  with Cons.prems Cons.IH [of "g\<lparr>g_hw := c\<rparr>"] obtain c' where
    c': "for_st as (\<lambda>a. chip_call (chip_StopEndpoint ops a)) (g\<lparr>g_hw := c\<rparr>) = (Inr (), g\<lparr>g_hw := c'\<rparr>)"
    "running c' = running (g_hw g) - {a} - set as"
    by auto
  have "chip_call (chip_StopEndpoint ops a) g = (Inr (), g\<lparr>g_hw := c\<rparr>)"
    using c Cons.prems(3) by (simp add: chip_call_def)
  with c' show ?case by (intro exI [of _ c']) (auto simp: seq_st_def bind_st_run)
qed

lemma start_endpoint_tracks:
  assumes "tracks running es stale g" and "g_chip g"
    and "int_attr e ''bEndpointAddress'' \<notin> fst ` set es"
    and "start_endpoint ops i e i g = (r, g')"
  shows "same_config g g'"
    and "r = Inl x \<Longrightarrow> tracks running es stale g'"
    and "r = Inr () \<Longrightarrow> tracks running (es @ [(int_attr e ''bEndpointAddress'', i)]) stale g'"
proof -
  let ?a = "int_attr e ''bEndpointAddress''"
  obtain q c where qc: "chip_StartEndpoint ops (g_speed g) e (g_hw g) = (q, c)" by force
  have "same_config g g' \<and> (case r of Inl _ \<Rightarrow> tracks running es stale g'
     | Inr _ \<Rightarrow> tracks running (es @ [(?a, i)]) stale g')"
  proof (cases q)
    case (Inl x)
    with assms qc start_fail [of "g_speed g" e "g_hw g" x c] show ?thesis
      by (auto simp: start_endpoint_def py_defs chip_call_def tracks_def)
  next
    case (Inr u)
    with qc start_ok [of "g_speed g" e "g_hw g" c]
    have run: "running c = insert ?a (running (g_hw g))" by simp
    from assms(2,4) qc Inr have r: "r = Inr ()" and g': "g' = g\<lparr>g_hw := c,
        g_active_endpoints := dict_set i (set_add ?a (addrs_of g i)) (g_active_endpoints g),
        g_endpoint_interface_map := dict_set ?a i (g_endpoint_interface_map g)\<rparr>"
      by (auto simp: start_endpoint_def py_defs chip_call_def Let_def)
    have fresh: "map_of es ?a = None" using assms(3) by (simp add: map_of_eq_None_iff)
    have "tracks running (es @ [(?a, i)]) stale g'"
      unfolding tracks_def
    proof (intro conjI allI)
      show "distinct (map fst (es @ [(?a, i)]))"
        using assms(1,3) by (auto simp: tracks_def)
      show "dict_get (g_endpoint_interface_map g') b = map_of (es @ [(?a, i)]) b" for b
        using assms(1) fresh by (auto simp: g' tracks_def map_add_def split: option.splits)
      show "running (g_hw g') = fst ` set (es @ [(?a, i)])"
        using assms(1) by (simp add: g' run tracks_def)
      show "distinct (map fst (g_active_endpoints g'))"
        using assms(1) by (simp add: g' tracks_def distinct_update)
      show "es @ [(?a, i)] = [] \<or> g_chip g'" using assms(2) by (simp add: g')
      show "distinct (addrs_of g' j)" for j
        using assms(1) by (simp add: g' tracks_def)
      show "set (addrs_of g' j) = {b. (b, j) \<in> set (es @ [(?a, i)])} \<union> stale j" for j
        using assms(1) by (auto simp: g' tracks_def)
    qed
    with r show ?thesis by (simp add: g')
  qed
  then show "same_config g g'" "r = Inl x \<Longrightarrow> tracks running es stale g'"
    "r = Inr () \<Longrightarrow> tracks running (es @ [(?a, i)]) stale g'" by simp_all
qed

lemma start_endpoints_tracks:
  assumes "tracks running es stale g" and "g_chip g"
    and "distinct (map fst es @ map (\<lambda>e. int_attr e ''bEndpointAddress'') ds)"
    and "for_st ds (\<lambda>e. start_endpoint ops i e i) g = (r, g')"
  shows "same_config g g' \<and>
    (\<exists>new. tracks running (es @ new) stale g' \<and> set new \<subseteq> (\<lambda>e. (int_attr e ''bEndpointAddress'', i)) ` set ds \<and>
      (r = Inr () \<longrightarrow> new = map (\<lambda>e. (int_attr e ''bEndpointAddress'', i)) ds))"
  using assms
proof (induction ds arbitrary: es g)
  case Nil
  then show ?case by (auto simp: return_st_def intro!: exI [of _ "[]"])
next
  case (Cons e ds)
  let ?p = "(int_attr e ''bEndpointAddress'', i)"
  obtain q h where q: "start_endpoint ops i e i g = (q, h)" by force
  from Cons.prems(3) have fresh: "fst ?p \<notin> fst ` set es" by auto
  note step = start_endpoint_tracks [OF Cons.prems(1,2) _ q, simplified, OF fresh [simplified]]
  show ?case
  proof (cases q)
    case (Inl x)
    with q Cons.prems(4) have "r = Inl x" "g' = h" by (auto simp: seq_st_def bind_st_run)
    with step(1) step(2) [OF Inl] show ?thesis by (auto intro!: exI [of _ "[]"])
  next
    case (Inr u)
    then have ok: "q = Inr ()" by simp
    with q Cons.prems(4) have rest: "for_st ds (\<lambda>e. start_endpoint ops i e i) h = (r, g')"
      by (auto simp: seq_st_def bind_st_run)
    have "g_chip h" using step(1) Cons.prems(2) by (simp add: same_config_def)
    with Cons.IH [OF step(3) [OF ok] _ _ rest] Cons.prems(3) obtain new where
      "same_config h g'" "tracks running (es @ ?p # new) stale g'"
      "set new \<subseteq> (\<lambda>e. (int_attr e ''bEndpointAddress'', i)) ` set ds"
      "r = Inr () \<longrightarrow> new = map (\<lambda>e. (int_attr e ''bEndpointAddress'', i)) ds" by auto
    with same_config_trans [OF step(1)] show ?thesis by (intro conjI exI [of _ "?p # new"]) auto
  qed
qed

lemma stop_interface:
  assumes "distinct (addrs_of g i)" and "set (addrs_of g i) \<subseteq> running (g_hw g)"
    and "g_chip g \<or> addrs_of g i = []"
  shows "\<exists>c. bind_st (gets_st (\<lambda>g. addrs_of g i)) (\<lambda>endpoint_addrs.
         seq_st (for_st endpoint_addrs (\<lambda>addr. chip_call (chip_StopEndpoint ops addr)))
           (modify_st (\<lambda>g. g\<lparr>g_active_endpoints := dict_set i [] (g_active_endpoints g)\<rparr>))) g =
       (Inr (), g\<lparr>g_hw := c, g_active_endpoints := dict_set i [] (g_active_endpoints g)\<rparr>) \<and>
     running c = running (g_hw g) - set (addrs_of g i)"
proof -
  from stop_list [OF assms] obtain c where
    "for_st (addrs_of g i) (\<lambda>a. chip_call (chip_StopEndpoint ops a)) g = (Inr (), g\<lparr>g_hw := c\<rparr>)"
    "running c = running (g_hw g) - set (addrs_of g i)" by auto
  then show ?thesis
    by (intro exI [of _ c]) (simp add: bind_st_run gets_st_def seq_st_def modify_st_def)
qed

text \<open>From a clean state every endpoint can be stopped, and then none is running.\<close>

lemma stop_all_tracks:
  assumes g: "tracks running es (\<lambda>_. {}) g"
  shows "\<exists>h. stop_all_endpoints ops g = (Inr (), h) \<and> same_config g h \<and> tracks running [] (\<lambda>_. {}) h"
proof -
  let ?ks = "map fst (g_active_endpoints g)"
  let ?body = "\<lambda>i. bind_st (gets_st (\<lambda>g. addrs_of g i)) (\<lambda>endpoint_addrs.
         seq_st (for_st endpoint_addrs (\<lambda>addr. chip_call (chip_StopEndpoint ops addr)))
           (modify_st (\<lambda>g. g\<lparr>g_active_endpoints := dict_set i [] (g_active_endpoints g)\<rparr>)))"
  define I where "I before h \<longleftrightarrow> same_config g h \<and> map fst (g_active_endpoints h) = ?ks \<and>
      (\<forall>i. addrs_of h i = (if i \<in> set before then [] else addrs_of g i)) \<and>
      running (g_hw h) = fst ` {p \<in> set es. snd p \<notin> set before}" for before h
  have sets: "distinct (addrs_of g i)" "set (addrs_of g i) = {a. (a, i) \<in> set es}"
    "distinct (map fst es)" "distinct ?ks" "es = [] \<or> g_chip g" for i
    using g by (auto simp: tracks_def)
  have "\<exists>h. for_st ?ks ?body g = (Inr (), h) \<and> I ?ks h"
  proof (rule for_st_total)
    show "I [] g" using g by (auto simp: I_def tracks_def)
  next
    fix before i rest u
    assume ks: "?ks = before @ i # rest" and u: "I before u"
    from ks sets(4) have i: "i \<notin> set before" by auto
    have addrs: "addrs_of u i = addrs_of g i" using u i by (simp add: I_def)
    have sub: "set (addrs_of u i) \<subseteq> running (g_hw u)"
      using u i by (force simp: addrs sets(2) I_def)
    have chip: "g_chip u \<or> addrs_of u i = []"
      using u sets(2) [of i] sets(5) by (auto simp: I_def same_config_def)
    from stop_interface [OF _ sub chip] sets(1) [of i] obtain c where
      c: "?body i u = (Inr (), u\<lparr>g_hw := c, g_active_endpoints := dict_set i [] (g_active_endpoints u)\<rparr>)"
      "running c = running (g_hw u) - set (addrs_of g i)" by (auto simp: addrs)
    have "running c = fst ` {p \<in> set es. snd p \<notin> set (before @ [i])}"
      using u remove_interface [OF sets(3), of "set before" i] by (simp add: c(2) I_def sets(2))
    moreover have "map fst (dict_set i [] (g_active_endpoints u)) = ?ks"
      using u ks by (simp add: I_def update_keys image_iff flip: set_map)
    ultimately have "I (before @ [i]) (u\<lparr>g_hw := c, g_active_endpoints := dict_set i [] (g_active_endpoints u)\<rparr>)"
      using u by (auto simp: I_def)
    with c(1) show "\<exists>v. ?body i u = (Inr (), v) \<and> I (before @ [i]) v" by blast
  qed
  then obtain h where h: "for_st ?ks ?body g = (Inr (), h)" "I ?ks h" by blast
  have outside: "addrs_of g i = []" if "i \<notin> set ?ks" for i
    using that by (simp add: addrs_of_outside)
  have used: "snd p \<in> set ?ks" if "p \<in> set es" for p
  proof (rule ccontr)
    assume "snd p \<notin> set ?ks"
    then have "addrs_of g (snd p) = []" by (rule outside)
    with sets(2) [of "snd p"] have "\<forall>x. (x, snd p) \<notin> set es" by auto
    from this [rule_format, of "fst p"] that show False by simp
  qed
  have "tracks running [] (\<lambda>_. {}) (h\<lparr>g_endpoint_interface_map := []\<rparr>)"
    using h(2) used outside sets(4) by (auto simp: I_def tracks_def)
  moreover have "stop_all_endpoints ops g = (Inr (), h\<lparr>g_endpoint_interface_map := []\<rparr>)"
    using h(1) by (simp add: stop_all_endpoints_def bind_st_run gets_st_def seq_st_def modify_st_def)
  ultimately show ?thesis using h(2) by (auto simp: I_def)
qed

section \<open>SetConfiguration\<close>

lemma start_interfaces_tracks:
  assumes "tracks running es stale g" and "g_chip g"
    and "distinct (map fst (es @ alt0_endpoints ds))"
    and "for_st ds (start_interface ops) g = (r, g')"
  shows "same_config g g' \<and> (\<exists>new. tracks running (es @ new) stale g' \<and>
    set new \<subseteq> set (alt0_endpoints ds) \<and> (r = Inr () \<longrightarrow> new = alt0_endpoints ds))"
  using assms
proof (induction ds arbitrary: es g)
  case Nil
  then show ?case by (auto simp: return_st_def intro!: exI [of _ "[]"])
next
  case (Cons d ds)
  let ?i = "int_attr d ''bInterfaceNumber''"
  let ?one = "alt0_endpoints [d]"
  have split: "alt0_endpoints (d # ds) = ?one @ alt0_endpoints ds"
    by (simp only: append_Cons append_Nil flip: alt0_endpoints_simps(2))
  obtain q h where q: "start_interface ops d g = (q, h)" by force
  have "\<exists>new. same_config g h \<and> tracks running (es @ new) stale h \<and> set new \<subseteq> set ?one \<and>
      (q = Inr () \<longrightarrow> new = ?one)"
  proof (cases "int_attr d ''bAlternateSetting'' = 0")
    case True
    let ?g = "g\<lparr>g_active_endpoints := dict_setdefault ?i [] (g_active_endpoints g)\<rparr>"
    from q True have "for_st (GetEndpoints d) (\<lambda>e. start_endpoint ops ?i e ?i) ?g = (q, h)"
      by (simp add: start_interface_def Let_def seq_st_def bind_st_run modify_st_def)
    moreover have "distinct (map fst es @ map (\<lambda>e. int_attr e ''bEndpointAddress'') (GetEndpoints d))"
      using Cons.prems(3) True by (simp add: split iface_endpoints_def comp_def image_image Int_Un_distrib)
    ultimately have "same_config ?g h \<and> (\<exists>new. tracks running (es @ new) stale h \<and>
        set new \<subseteq> (\<lambda>e. (int_attr e ''bEndpointAddress'', ?i)) ` set (GetEndpoints d) \<and>
        (q = Inr () \<longrightarrow> new = map (\<lambda>e. (int_attr e ''bEndpointAddress'', ?i)) (GetEndpoints d)))"
      using tracks_setdefault [OF Cons.prems(1)] Cons.prems(2)
      by (intro start_endpoints_tracks) simp_all
    with True show ?thesis by (auto simp: iface_endpoints_def same_config_def)
  next
    case False
    with q Cons.prems(1) show ?thesis
      by (auto simp: start_interface_def return_st_def intro!: exI [of _ "[]"])
  qed
  then obtain new where new: "same_config g h" "tracks running (es @ new) stale h"
    "set new \<subseteq> set ?one" "q = Inr () \<longrightarrow> new = ?one" by blast
  show ?case
  proof (cases q)
    case (Inl x)
    with q Cons.prems(4) have "r = Inl x" "g' = h" by (auto simp: seq_st_def bind_st_run)
    with new show ?thesis by (auto simp: split)
  next
    case (Inr u)
    with q Cons.prems(4) have rest: "for_st ds (start_interface ops) h = (r, g')"
      by (auto simp: seq_st_def bind_st_run)
    have one: "new = ?one" using new(4) Inr by simp
    have "g_chip h" using new(1) Cons.prems(2) by (simp add: same_config_def)
    moreover have "distinct (map fst ((es @ ?one) @ alt0_endpoints ds))"
      using Cons.prems(3) by (simp only: split append_assoc)
    ultimately have "same_config h g' \<and> (\<exists>new'. tracks running ((es @ ?one) @ new') stale g' \<and>
        set new' \<subseteq> set (alt0_endpoints ds) \<and> (r = Inr () \<longrightarrow> new' = alt0_endpoints ds))"
      using Cons.IH [OF new(2) [unfolded one] _ _ rest] by blast
    then obtain new' where "same_config h g'" "tracks running (es @ ?one @ new') stale g'"
      "set new' \<subseteq> set (alt0_endpoints ds)" "r = Inr () \<longrightarrow> new' = alt0_endpoints ds" by auto
    with same_config_trans [OF new(1)] show ?thesis
      unfolding split by (intro conjI exI [of _ "?one @ new'"]) auto
  qed
qed

text \<open>
  The configuration request. Whatever happens, the book-keeping stays exact; selecting 0 and
  selecting an unknown configuration both leave no endpoint running; selecting 1 starts exactly
  the endpoints of the default alternate settings.
\<close>

lemma SetConfiguration_tracks:
  assumes g: "clean running g" and "g_chip g"
    and cd: "GetConfigurationDescriptor g = Inr cd"
    and "distinct (map fst (alt0_endpoints (GetInterfaces cd)))"
    and "SetConfiguration ops index g = (r, g')"
  shows "same_config g g' \<and> clean running g' \<and>
    (index = 0 \<longrightarrow> r = Inr (Some True)) \<and> (index \<notin> {0, 1} \<longrightarrow> r = Inr None) \<and>
    (index \<noteq> 1 \<longrightarrow> tracks running [] (\<lambda>_. {}) g') \<and>
    (index = 1 \<longrightarrow> r = Inr (Some True) \<longrightarrow> tracks running (alt0_endpoints (GetInterfaces cd)) (\<lambda>_. {}) g') \<and>
    (index = 1 \<longrightarrow> r \<noteq> Inr None)"
proof -
  from g stop_all_tracks obtain h where h: "stop_all_endpoints ops g = (Inr (), h)"
    "same_config g h" "tracks running [] (\<lambda>_. {}) h" by blast
  have cdh: "GetConfigurationDescriptor h = Inr cd" using same_config_descriptor [OF h(2)] cd by simp
  show ?thesis
  proof (cases "index = 1")
    case False
    with assms(5) h show ?thesis
      by (auto simp: SetConfiguration_def seq_st_def bind_st_run return_st_def split: if_splits)
  next
    case True
    obtain q k where q: "for_st (GetInterfaces cd) (start_interface ops) h = (q, k)" by force
    have "g_chip h" using h(2) assms(2) by (simp add: same_config_def)
    from start_interfaces_tracks [OF h(3) this _ q] assms(4) obtain new where
      new: "same_config h k" "tracks running new (\<lambda>_. {}) k" "q = Inr () \<longrightarrow> new = alt0_endpoints (GetInterfaces cd)"
      by auto
    from assms(5) True h(1) cdh q have "g' = k" "r = (case q of Inl e \<Rightarrow> Inl e | Inr _ \<Rightarrow> Inr (Some True))"
      by (cases q; auto simp: SetConfiguration_def seq_st_def bind_st_run gets_st_def lift_res_def return_st_def)+
    with new True same_config_trans [OF h(2) new(1)] show ?thesis by (cases q) auto
  qed
qed

section \<open>SetInterface\<close>

lemma stop_and_forget:
  assumes "distinct as" and "set as \<subseteq> running (g_hw g)" and "g_chip g \<or> as = []"
    and "\<And>a. a \<in> set as \<Longrightarrow> dict_get (g_endpoint_interface_map g) a \<noteq> None"
  shows "\<exists>h. for_st as (\<lambda>a. seq_st (chip_call (chip_StopEndpoint ops a)) (del_endpoint a)) g = (Inr (), h) \<and>
    same_config g h \<and> running (g_hw h) = running (g_hw g) - set as \<and>
    g_active_endpoints h = g_active_endpoints g \<and>
    (\<forall>a. dict_get (g_endpoint_interface_map h) a =
       (if a \<in> set as then None else dict_get (g_endpoint_interface_map g) a))"
  using assms
proof (induction as arbitrary: g)
  case Nil
  then show ?case by (simp add: return_st_def)
next
  case (Cons a as)
  from Cons.prems(2) stop_running [of a "g_hw g"] obtain c where
    c: "chip_StopEndpoint ops a (g_hw g) = (Inr (), c)" "running c = running (g_hw g) - {a}" by auto
  define k where "k = g\<lparr>g_hw := c, g_endpoint_interface_map := dict_del a (g_endpoint_interface_map g)\<rparr>"
  have k: "seq_st (chip_call (chip_StopEndpoint ops a)) (del_endpoint a) g = (Inr (), k)"
    using c Cons.prems(3,4) by (simp add: chip_call_def seq_st_def bind_st_run del_endpoint_def k_def)
  have "\<exists>h. for_st as (\<lambda>a. seq_st (chip_call (chip_StopEndpoint ops a)) (del_endpoint a)) k = (Inr (), h) \<and>
    same_config k h \<and> running (g_hw h) = running (g_hw k) - set as \<and>
    g_active_endpoints h = g_active_endpoints k \<and>
    (\<forall>a. dict_get (g_endpoint_interface_map h) a =
       (if a \<in> set as then None else dict_get (g_endpoint_interface_map k) a))"
    using Cons.prems c(2) by (intro Cons.IH) (auto simp: k_def)
  then obtain h where h: "for_st as (\<lambda>a. seq_st (chip_call (chip_StopEndpoint ops a)) (del_endpoint a)) k = (Inr (), h)"
    "same_config k h" "running (g_hw h) = running (g_hw k) - set as"
    "g_active_endpoints h = g_active_endpoints k"
    "\<forall>a. dict_get (g_endpoint_interface_map h) a =
       (if a \<in> set as then None else dict_get (g_endpoint_interface_map k) a)" by blast
  have "for_st (a # as) (\<lambda>a. seq_st (chip_call (chip_StopEndpoint ops a)) (del_endpoint a)) g = (Inr (), h)"
    using k h(1) by (simp add: seq_st_def [of "seq_st _ _"] bind_st_run)
  moreover have "same_config g h" using h(2) by (simp add: k_def same_config_def)
  ultimately show ?case using h(3-5) c(2) by (intro exI [of _ h]) (auto simp: k_def)
qed

text \<open>
  The endpoints of the other interfaces are not touched. The set of the interface still holds the
  addresses of the setting that was left.
\<close>

lemma SetInterface_tracks:
  assumes g: "tracks running es (\<lambda>_. {}) g" and "g_chip g"
    and cd: "GetConfigurationDescriptor g = Inr cd"
    and d: "find_interface cd i alt = Some d" and i: "int_attr d ''bInterfaceNumber'' = i"
    and "distinct (map fst (filter (\<lambda>p. snd p \<noteq> i) es @ iface_endpoints i d))"
    and "SetInterface ops i alt g = (r, g')"
  shows "same_config g g' \<and> (r = Inr (Some True) \<longrightarrow>
    tracks running (filter (\<lambda>p. snd p \<noteq> i) es @ iface_endpoints i d)
      ((\<lambda>_. {})(i := {a. (a, i) \<in> set es})) g')"
proof -
  let ?k = "g\<lparr>g_active_endpoints := dict_setdefault i [] (g_active_endpoints g)\<rparr>"
  have k: "tracks running es (\<lambda>_. {}) ?k" using g by (rule tracks_setdefault)
  then have as: "set (addrs_of g i) = {a. (a, i) \<in> set es}" "distinct (addrs_of g i)" "distinct (map fst es)"
    by (auto simp: tracks_def)
  have run: "running (g_hw g) = fst ` set es" using g by (simp add: tracks_def)
  have "set (addrs_of g i) \<subseteq> running (g_hw ?k)" using as(1) run by force
  moreover have "dict_get (g_endpoint_interface_map ?k) a \<noteq> None" if "a \<in> set (addrs_of g i)" for a
    using that k as by (auto simp: tracks_def)
  ultimately obtain h where
    h: "for_st (addrs_of g i) (\<lambda>a. seq_st (chip_call (chip_StopEndpoint ops a)) (del_endpoint a)) ?k = (Inr (), h)"
    "same_config ?k h" "running (g_hw h) = running (g_hw g) - set (addrs_of g i)"
    "g_active_endpoints h = g_active_endpoints ?k"
    "\<And>a. dict_get (g_endpoint_interface_map h) a =
       (if a \<in> set (addrs_of g i) then None else dict_get (g_endpoint_interface_map g) a)"
    using stop_and_forget [of "addrs_of g i" ?k] as(2) assms(2) by (force simp del: not_None_eq)
  have addrs: "addrs_of h = addrs_of g" using h(4) by (simp add: addrs_of_def fun_eq_iff)
  have other: "map_of (filter (\<lambda>p. snd p \<noteq> i) es) a = (if (a, i) \<in> set es then None else map_of es a)" for a
    using as(3) by (rule map_of_other)
  have "fst ` set es - {a. (a, i) \<in> set es} = fst ` set (filter (\<lambda>p. snd p \<noteq> i) es)"
    using remove_interface [OF as(3), of "{}" i] by simp
  then have mid: "tracks running (filter (\<lambda>p. snd p \<noteq> i) es) ((\<lambda>_. {})(i := {a. (a, i) \<in> set es})) h"
    using k h assms(2) by (auto simp: tracks_def addrs as run other distinct_map_filter same_config_def)
  obtain q m where q: "for_st (GetEndpoints d) (\<lambda>e. start_endpoint ops i e i) h = (q, m)" by force
  have chip: "g_chip h" using h(2) assms(2) by (simp add: same_config_def)
  have "distinct (map fst (filter (\<lambda>p. snd p \<noteq> i) es) @ map (\<lambda>e. int_attr e ''bEndpointAddress'') (GetEndpoints d))"
    using assms(6) by (simp add: iface_endpoints_def comp_def image_image)
  from start_endpoints_tracks [OF mid chip this q] have m: "same_config h m"
    "q = Inr () \<longrightarrow> tracks running (filter (\<lambda>p. snd p \<noteq> i) es @ iface_endpoints i d)
      ((\<lambda>_. {})(i := {a. (a, i) \<in> set es})) m" by (auto simp: iface_endpoints_def)
  have start: "SetInterface ops i alt g =
    seq_st (for_st (addrs_of g i) (\<lambda>a. seq_st (chip_call (chip_StopEndpoint ops a)) (del_endpoint a)))
      (seq_st (for_st (GetEndpoints d) (\<lambda>e. start_endpoint ops i e i)) (return_st (Some True))) ?k"
    using cd d i by (simp add: SetInterface_def st_run)
  have "SetInterface ops i alt g = (case q of Inl e \<Rightarrow> Inl e | Inr _ \<Rightarrow> Inr (Some True), m)"
    by (cases q) (simp_all add: start seq_st_def [of "for_st _ _"] bind_st_run [of "for_st _ _"] h(1) q return_st_def)
  with assms(7) have "g' = m" "r = (case q of Inl e \<Rightarrow> Inl e | Inr _ \<Rightarrow> Inr (Some True))" by simp_all
  with m same_config_trans [of g h m] h(2) show ?thesis
    by (cases q) (auto simp: same_config_def)
qed

section \<open>Addresses of a setting that was left\<close>

lemma stop_list_idle:
  assumes "distinct as" and "\<not> set as \<subseteq> running (g_hw g)" and "g_chip g"
  shows "fst (for_st as (\<lambda>a. chip_call (chip_StopEndpoint ops a)) g) = Inl KeyError"
  using assms
proof (induction as arbitrary: g)
  case (Cons a as)
  show ?case
  proof (cases "a \<in> running (g_hw g)")
    case True
    with stop_running obtain c where c: "chip_StopEndpoint ops a (g_hw g) = (Inr (), c)"
      "running c = running (g_hw g) - {a}" by blast
    have "fst (for_st as (\<lambda>a. chip_call (chip_StopEndpoint ops a)) (g\<lparr>g_hw := c\<rparr>)) = Inl KeyError"
      using Cons.prems c(2) True by (intro Cons.IH) auto
    with chip_call_eq [of g "chip_StopEndpoint ops a", OF Cons.prems(3) c(1)] show ?thesis by (simp add: seq_st_def bind_st_run)
  next
    case False
    from chip_call_eq [of g "chip_StopEndpoint ops a", OF Cons.prems(3) stop_idle [OF False]] show ?thesis
      by (simp add: seq_st_def bind_st_run)
  qed
qed simp

text \<open>Once a set holds the address of an endpoint that does not run, no endpoint set can be cleared.\<close>

lemma stop_all_idle:
  assumes g: "tracks running es stale g" and "g_chip g" and "a \<in> stale i" and "a \<notin> fst ` set es"
  shows "fst (stop_all_endpoints ops g) = Inl KeyError"
proof -
  let ?body = "\<lambda>i. bind_st (gets_st (\<lambda>g. addrs_of g i)) (\<lambda>endpoint_addrs.
         seq_st (for_st endpoint_addrs (\<lambda>addr. chip_call (chip_StopEndpoint ops addr)))
           (modify_st (\<lambda>g. g\<lparr>g_active_endpoints := dict_set i [] (g_active_endpoints g)\<rparr>)))"
  have idle: "fst (for_st is ?body h) = Inl KeyError"
    if "i \<in> set is" "distinct is" "g_chip h" "\<forall>j\<in>set is. distinct (addrs_of h j)"
      "a \<in> set (addrs_of h i)" "a \<notin> running (g_hw h)" for "is" and h :: "('c, 'd) gadget_scheme"
    using that
  proof (induction "is" arbitrary: h)
    case (Cons j js)
    show ?case
    proof (cases "set (addrs_of h j) \<subseteq> running (g_hw h)")
      case False
      have "fst (for_st (addrs_of h j) (\<lambda>a. chip_call (chip_StopEndpoint ops a)) h) = Inl KeyError"
        using Cons.prems False by (intro stop_list_idle) auto
      then show ?thesis
        by (cases "for_st (addrs_of h j) (\<lambda>a. chip_call (chip_StopEndpoint ops a)) h")
          (simp add: seq_st_def bind_st_run gets_st_def)
    next
      case True
      from stop_interface [OF _ True] Cons.prems obtain c where
        c: "?body j h = (Inr (), h\<lparr>g_hw := c, g_active_endpoints := dict_set j [] (g_active_endpoints h)\<rparr>)"
        "running c = running (g_hw h) - set (addrs_of h j)" by auto
      have "j \<noteq> i" using True Cons.prems(5,6) by auto
      then have "fst (for_st js ?body (h\<lparr>g_hw := c, g_active_endpoints := dict_set j [] (g_active_endpoints h)\<rparr>))
          = Inl KeyError"
        using Cons.prems c(2) by (intro Cons.IH) auto
      with c(1) show ?thesis by (simp add: seq_st_def [of "?body j"] bind_st_run [of "?body j"])
    qed
  qed simp
  have a: "a \<in> set (addrs_of g i)" using g assms(3) by (simp add: tracks_def)
  then have "i \<in> set (map fst (g_active_endpoints g))" using addrs_of_outside [of i g] by force
  then have "fst (for_st (map fst (g_active_endpoints g)) ?body g) = Inl KeyError"
    using g a assms(2,4) by (intro idle) (simp_all add: tracks_def)
  then show ?thesis
    by (cases "for_st (map fst (g_active_endpoints g)) ?body g")
      (simp add: stop_all_endpoints_def bind_st_run gets_st_def seq_st_def)
qed

lemma SetConfiguration_idle:
  assumes "tracks running es stale g" and "g_chip g" and "a \<in> stale i" and "a \<notin> fst ` set es"
  shows "fst (SetConfiguration ops index g) = Inl KeyError"
  using stop_all_idle [OF assms]
  by (cases "stop_all_endpoints ops g") (simp add: SetConfiguration_def bind_st_run seq_st_def)

end

end
