(* ===== verification/Linux_Gadgetfs.thy ===== *)
theory Linux_Gadgetfs
  imports Gadget_Endpoints
begin

text \<open>
  linux_gadgetfs.py: the peripheral controller behind the Linux gadget file system. The kernel is a
  parameter (\<open>os_ops\<close>); the event loop's handlers, the child processes that copy between an
  endpoint file and a pipe, and the pipes are part of the state. The controller implements the
  contract \<open>usb_chip\<close>, so everything proved about selecting endpoints holds for it.
\<close>

section \<open>Kernel, pipes and processes\<close>

text \<open>A system call gives its result or an errno. \<^verbatim>\<open>os.close\<close> of an open file succeeds.\<close>

record 'e os_ops =
  os_open :: "string \<Rightarrow> 'e \<Rightarrow> (int + nat) \<times> 'e"
  os_write :: "nat \<Rightarrow> bytes \<Rightarrow> 'e \<Rightarrow> (int + unit) \<times> 'e"
  os_read :: "nat \<Rightarrow> int \<Rightarrow> 'e \<Rightarrow> (int + bytes) \<times> 'e"
  os_close :: "nat \<Rightarrow> 'e \<Rightarrow> 'e"

abbreviation (input) "EL2HLT \<equiv> 51 :: int"

text \<open>The target of a child process; the reader knows its packet size.\<close>

datatype child = WriterProcess | ReaderProcess int

text \<open>A handler of the event loop: the control file's, or the one of an OUT endpoint's pipe.\<close>

datatype handler = EventHandler nat | PacketHandler nat int

text \<open>
  A pipe has a number; the child process that serves it is known by the same number.
  \<open>c_gadget\<close> says whether \<^verbatim>\<open>_gadget\<close> is set. An entry of \<open>c_ep_fds\<close> holds the file and the
  pipe of an endpoint.
\<close>

record 'e gadgetfs =
  c_chip :: string
  c_hw_eps :: "(int \<times> (string \<times> int \<times> int)) list"
  c_ep_dir :: string
  c_gadget :: bool
  c_fd :: "nat option"
  c_ep_fds :: "(int \<times> (nat \<times> nat)) list"
  c_handlers :: "handler list"
  c_children :: "(nat \<times> (nat \<times> child)) list"
  c_pipes :: "(nat \<times> bytes list) list"
  c_next :: nat
  c_os :: 'e

definition os_call :: "('e \<Rightarrow> (int + 'a) \<times> 'e) \<Rightarrow> ('e gadgetfs, 'a) st" where
  "os_call m c =
     (case m (c_os c) of
        (Inl _, e) \<Rightarrow> (Inl OSError, c\<lparr>c_os := e\<rparr>)
      | (Inr x, e) \<Rightarrow> (Inr x, c\<lparr>c_os := e\<rparr>))"

text \<open>The same call inside \<^verbatim>\<open>try ... except OSError, e: if e.errno != ignored: raise\<close>.\<close>

definition os_try :: "int \<Rightarrow> ('e \<Rightarrow> (int + 'a) \<times> 'e) \<Rightarrow> ('e gadgetfs, unit) st" where
  "os_try ignored m c =
     (case m (c_os c) of
        (Inl errno, e) \<Rightarrow> (if errno = ignored then Inr () else Inl OSError, c\<lparr>c_os := e\<rparr>)
      | (Inr _, e) \<Rightarrow> (Inr (), c\<lparr>c_os := e\<rparr>))"

definition path_join :: "string \<Rightarrow> string \<Rightarrow> string" where
  "path_join a b =
     (if b \<noteq> [] \<and> hd b = CHR ''/'' then b
      else if a = [] \<or> last a = CHR ''/'' then a @ b else a @ ''/'' @ b)"

section \<open>Hardware\<close>

abbreviation (input) "GADGETFS_NOP \<equiv> 0 :: int"
abbreviation (input) "GADGETFS_CONNECT \<equiv> 1 :: int"
abbreviation (input) "GADGETFS_DISCONNECT \<equiv> 2 :: int"
abbreviation (input) "GADGETFS_SETUP \<equiv> 3 :: int"
abbreviation (input) "GADGETFS_SUSPEND \<equiv> 4 :: int"
abbreviation (input) "BULK \<equiv> 0x01 :: int"
abbreviation (input) "INTERRUPT \<equiv> 0x02 :: int"
abbreviation (input) "ISOCHRONOUS \<equiv> 0x04 :: int"

definition USB_TRANSFER_TYPE_TO_MASK :: "(int \<times> int) list" where
  "USB_TRANSFER_TYPE_TO_MASK =
     [(TransferType_BULK, BULK), (TransferType_INTERRUPT, INTERRUPT),
      (TransferType_ISOCHRONOUS, ISOCHRONOUS)]"

definition HARDWARE :: "(string \<times> string \<times> (int \<times> (string \<times> int \<times> int)) list) list" where
  "HARDWARE =
     (let any = BULK OR INTERRUPT OR ISOCHRONOUS in
      [(''beaglebone-black'',
        ''musb-hdrc'',
        [(0x01, (''ep1out'', any, 512)), (0x81, (''ep1in'', any, 512)),
         (0x02, (''ep2out'', any, 512)), (0x82, (''ep2in'', any, 512)),
         (0x03, (''ep3out'', any, 512)), (0x83, (''ep3in'', any, 512)),
         (0x04, (''ep4out'', any, 512)), (0x84, (''ep4in'', any, 512)),
         (0x05, (''ep5out'', any, 512)), (0x85, (''ep5in'', any, 512)),
         (0x06, (''ep6out'', any, 512)), (0x86, (''ep6in'', any, 512)),
         (0x07, (''ep7out'', any, 512)), (0x87, (''ep7in'', any, 512)),
         (0x08, (''ep8out'', any, 512)), (0x88, (''ep8in'', any, 512)),
         (0x09, (''ep9out'', any, 512)), (0x89, (''ep9in'', any, 512)),
         (0x0A, (''ep10out'', any, 64)), (0x8A, (''ep10in'', any, 256)),
         (0x0B, (''ep11out'', any, 64)), (0x8B, (''ep11in'', any, 256)),
         (0x0C, (''ep12out'', any, 64)), (0x8C, (''ep12in'', any, 256)),
         (0x0D, (''ep13'', any, 4096)), (0x8D, (''ep13'', any, 4096)),
         (0x0E, (''ep14'', any, 1024)), (0x8E, (''ep14'', any, 1024)),
         (0x0F, (''ep15'', any, 1024)), (0x8F, (''ep15'', any, 1024))])])"

definition LinuxGadgetfs_init :: "string \<Rightarrow> string \<Rightarrow> 'e \<Rightarrow> 'e gadgetfs res" where
  "LinuxGadgetfs_init hardware mountpoint os =
     (case dict_get HARDWARE hardware of
        None \<Rightarrow> Inl KeyError
      | Some (chip, hw_eps) \<Rightarrow>
          Inr \<lparr>c_chip = chip, c_hw_eps = hw_eps, c_ep_dir = mountpoint, c_gadget = False,
               c_fd = None, c_ep_fds = [], c_handlers = [], c_children = [], c_pipes = [],
               c_next = 0, c_os = os\<rparr>)"

section \<open>Endpoints\<close>

text \<open>
  A dictionary key of a kind of its own, for the test \<^verbatim>\<open>name in self._ep_fds\<close>, which looks
  for a string among integers.
\<close>

datatype py_key = KInt int | KStr string

text \<open>What is written to an endpoint file to enable the endpoint.\<close>

definition endpoint_setup :: "int \<Rightarrow> descriptor \<Rightarrow> bytes res" where
  "endpoint_setup speed endpoint_desc =
     bind_res (struct_pack [F_I] [PInt 1]) (\<lambda>buf.
     if speed = Speed_HIGH then
       bind_res (new_descriptor C_Endpoint
         [(''bEndpointAddress'', PInt (int_attr endpoint_desc ''bEndpointAddress'')),
          (''bmAttributes'', PInt 0), (''wMaxPacketSize'', PInt 0), (''bInterval'', PInt 0)])
         (\<lambda>full_speed_endpoint.
       bind_res (Encode (\<lambda>_. Inr 0) full_speed_endpoint) (\<lambda>fs.
       bind_res (Encode (\<lambda>_. Inr 0) endpoint_desc) (\<lambda>hs. Inr (buf @ fs @ hs))))
     else bind_res (Encode (\<lambda>_. Inr 0) endpoint_desc) (\<lambda>d. Inr (buf @ d)))"

text \<open>
  The end of \<^verbatim>\<open>StartEndpoint\<close>, once the file is set up: a new pipe, the child process, and
  for an OUT endpoint the handler that hands packets to the gadget.
\<close>

definition start_process :: "int \<Rightarrow> nat \<Rightarrow> int \<Rightarrow> 'e gadgetfs \<Rightarrow> 'e gadgetfs" where
  "start_process endpoint_addr fd ep_size c =
     (let p = c_next c;
          new = c\<lparr>c_next := Suc p, c_pipes := dict_set p [] (c_pipes c)\<rparr> in
      if endpoint_addr AND Dir_IN \<noteq> 0 then
        new\<lparr>c_ep_fds := dict_set endpoint_addr (fd, p) (c_ep_fds c),
            c_children := dict_set p (fd, WriterProcess) (c_children c)\<rparr>
      else
        new\<lparr>c_handlers := c_handlers c @ [PacketHandler p endpoint_addr],
            c_ep_fds := dict_set endpoint_addr (fd, p) (c_ep_fds c),
            c_children := dict_set p (fd, ReaderProcess ep_size) (c_children c)\<rparr>)"

definition StartEndpoint :: "'e os_ops \<Rightarrow> int \<Rightarrow> descriptor \<Rightarrow> ('e gadgetfs, unit) st" where
  "StartEndpoint os speed endpoint_desc c =
     (let endpoint_addr = int_attr endpoint_desc ''bEndpointAddress'' in
      case dict_get (c_hw_eps c) endpoint_addr of
        None \<Rightarrow> (Inl KeyError, c)
      | Some (name, hw_ep_type, hw_ep_size) \<Rightarrow>
          if KStr name \<in> (KInt \<circ> fst) ` set (c_ep_fds c) then (Inl RuntimeError, c)
          else
            case dict_get USB_TRANSFER_TYPE_TO_MASK
                   (int_attr endpoint_desc ''bmAttributes'' AND TransferType_MASK) of
              None \<Rightarrow> (Inl KeyError, c)
            | Some ep_type \<Rightarrow>
                let ep_size = int_attr endpoint_desc ''wMaxPacketSize'' in
                if hw_ep_type AND ep_type = 0 then (Inl RuntimeError, c)
                else if hw_ep_size < ep_size then (Inl RuntimeError, c)
                else
                  bind_st (os_call (os_open os (path_join (c_ep_dir c) name))) (\<lambda>fd.
                  bind_st (lift_res (endpoint_setup speed endpoint_desc)) (\<lambda>buf.
                  seq_st (os_call (os_write os fd buf))
                    (modify_st (start_process endpoint_addr fd ep_size)))) c)"

text \<open>
  \<^verbatim>\<open>child.terminate(); child.join()\<close> end the process; the handler of an OUT endpoint is
  removed and the file closed.
\<close>

definition StopEndpoint :: "'e os_ops \<Rightarrow> int \<Rightarrow> ('e gadgetfs, unit) st" where
  "StopEndpoint os endpoint_addr c =
     (case dict_get (c_ep_fds c) endpoint_addr of
        None \<Rightarrow> (Inl KeyError, c)
      | Some (fd, p) \<Rightarrow>
          (Inr (), c\<lparr>c_ep_fds := dict_del endpoint_addr (c_ep_fds c),
                     c_children := dict_del p (c_children c),
                     c_handlers := (if endpoint_addr AND Dir_IN = 0
                       then filter (\<lambda>h. h \<noteq> PacketHandler p endpoint_addr) (c_handlers c)
                       else c_handlers c),
                     c_os := os_close os fd (c_os c)\<rparr>))"

definition pipe_send :: "nat \<Rightarrow> bytes \<Rightarrow> 'e gadgetfs \<Rightarrow> 'e gadgetfs" where
  "pipe_send p data c =
     c\<lparr>c_pipes := dict_set p ((case dict_get (c_pipes c) p of None \<Rightarrow> [] | Some q \<Rightarrow> q) @ [data])
        (c_pipes c)\<rparr>"

text \<open>The pipe end kept for an OUT endpoint can only be read, so sending there fails.\<close>

definition fs_SendPacket :: "int \<Rightarrow> bytes \<Rightarrow> ('e gadgetfs, unit) st" where
  "fs_SendPacket endpoint_addr data c =
     (case dict_get (c_ep_fds c) endpoint_addr of
        None \<Rightarrow> (Inl KeyError, c)
      | Some (fd, p) \<Rightarrow>
          if endpoint_addr AND Dir_IN \<noteq> 0 then (Inr (), pipe_send p data c) else (Inl OSError, c))"

text \<open>
  \<^verbatim>\<open>fd, _ = self._ep_fds[endpoint_addr]\<close> unpacks an entry of three values into two names:
  the file is never reached.
\<close>

definition fs_HaltEndpoint :: "int \<Rightarrow> ('e gadgetfs, unit) st" where
  "fs_HaltEndpoint endpoint_addr c =
     (case dict_get (c_ep_fds c) endpoint_addr of
        None \<Rightarrow> (Inl KeyError, c)
      | Some _ \<Rightarrow> (Inl ValueError, c))"

definition fs_ops :: "'e os_ops \<Rightarrow> 'e gadgetfs chip_ops" where
  "fs_ops os = \<lparr>chip_StartEndpoint = StartEndpoint os, chip_StopEndpoint = StopEndpoint os,
                chip_SendPacket = fs_SendPacket, chip_HaltEndpoint = fs_HaltEndpoint\<rparr>"

definition running_endpoints :: "'e gadgetfs \<Rightarrow> int set" where
  "running_endpoints c = fst ` set (c_ep_fds c)"

lemma running_endpoints_iff: "a \<in> running_endpoints c \<longleftrightarrow> dict_get (c_ep_fds c) a \<noteq> None"
  by (simp add: running_endpoints_def map_of_eq_None_iff)

lemma start_process_running:
  "running_endpoints (start_process a fd sz c) = insert a (running_endpoints c)"
  by (simp add: start_process_def Let_def running_endpoints_def dict_set_keys)

lemma running_os [simp]: "running_endpoints (c\<lparr>c_os := e\<rparr>) = running_endpoints c"
  by (simp add: running_endpoints_def)

lemma os_call_keeps:
  assumes "os_call m c = (r, c')"
  shows "c_ep_fds c' = c_ep_fds c" "c_children c' = c_children c" "c_pipes c' = c_pipes c"
    "c_handlers c' = c_handlers c" "c_next c' = c_next c" "c_hw_eps c' = c_hw_eps c"
    "c_gadget c' = c_gadget c" "c_fd c' = c_fd c"
  using assms by (auto simp: os_call_def split: prod.splits sum.splits)

text \<open>Either nothing of the book-keeping changed, or the process was started.\<close>

lemma StartEndpoint_cases:
  assumes "StartEndpoint os speed d c = (r, c')"
  obtains (failed) e e' where "r = Inl e" "c' = c\<lparr>c_os := e'\<rparr>"
  | (started) fd e' where "r = Inr ()"
      "c' = start_process (int_attr d ''bEndpointAddress'') fd (int_attr d ''wMaxPacketSize'') (c\<lparr>c_os := e'\<rparr>)"
proof -
  let ?start = "\<lambda>fd. start_process (int_attr d ''bEndpointAddress'') fd (int_attr d ''wMaxPacketSize'')"
  define P where "P q \<longleftrightarrow> (\<exists>e e'. q = (Inl e, c\<lparr>c_os := e'\<rparr>)) \<or> (\<exists>fd e'. q = (Inr (), ?start fd (c\<lparr>c_os := e'\<rparr>)))"
    for q :: "unit res \<times> 'a gadgetfs"
  have early: "P (Inl e, c)" for e
    unfolding P_def by (intro disjI1 exI [of _ e] exI [of _ "c_os c"]) simp
  have late: "P (bind_st (os_call (os_open os path)) (\<lambda>fd.
      bind_st (lift_res (endpoint_setup speed d)) (\<lambda>buf.
      seq_st (os_call (os_write os fd buf)) (modify_st (?start fd)))) c)" for path
  proof (cases "os_open os path (c_os c)")
    case (Pair q e)
    show ?thesis
    proof (cases q)
      case (Inr fd)
      show ?thesis
      proof (cases "endpoint_setup speed d")
        case (Inr buf)
        obtain q' e' where q': "os_write os fd buf e = (q', e')" by force
        from Pair q' \<open>q = Inr fd\<close> Inr show ?thesis
          by (cases q') (auto simp: P_def bind_st_run seq_st_def os_call_def lift_res_def modify_st_def)
      qed (use Pair Inr in \<open>auto simp: P_def bind_st_run os_call_def lift_res_def\<close>)
    qed (use Pair in \<open>auto simp: P_def bind_st_run os_call_def\<close>)
  qed
  have "P (StartEndpoint os speed d c)"
    unfolding StartEndpoint_def Let_def by (simp add: early late split: option.split prod.split)
  with assms failed started show thesis by (auto simp: P_def)
qed

interpretation gadgetfs: usb_chip "fs_ops os" running_endpoints
proof
  show "chip_StartEndpoint (fs_ops os) speed d c = (Inr (), c') \<Longrightarrow>
      running_endpoints c' = insert (int_attr d ''bEndpointAddress'') (running_endpoints c)"
    for speed d c c'
    by (auto simp: fs_ops_def start_process_running running_os elim!: StartEndpoint_cases)
  show "chip_StartEndpoint (fs_ops os) speed d c = (Inl e, c') \<Longrightarrow>
      running_endpoints c' = running_endpoints c" for speed d c e c'
    by (auto simp: fs_ops_def running_os elim!: StartEndpoint_cases)
  show "a \<in> running_endpoints c \<Longrightarrow> \<exists>c'. chip_StopEndpoint (fs_ops os) a c = (Inr (), c') \<and>
      running_endpoints c' = running_endpoints c - {a}" for a c
    by (auto simp: fs_ops_def StopEndpoint_def running_endpoints_iff [of a]) (auto simp: running_endpoints_def dict_del_keys)
  show "a \<notin> running_endpoints c \<Longrightarrow> chip_StopEndpoint (fs_ops os) a c = (Inl KeyError, c)" for a c
    by (cases "dict_get (c_ep_fds c) a") (simp_all add: fs_ops_def StopEndpoint_def running_endpoints_iff)
qed

section \<open>Binding a gadget, and its events\<close>

text \<open>
  The methods of the gadget object the controller calls; a subclass of \<^verbatim>\<open>Gadget\<close> has its own.
\<close>

record 's gadget_class =
  gc_Connected :: "int \<Rightarrow> ('s, unit) st"
  gc_Disconnected :: "('s, unit) st"
  gc_ControlRead :: "int \<Rightarrow> int \<Rightarrow> int \<Rightarrow> int \<Rightarrow> int \<Rightarrow> ('s, bytes option) st"
  gc_ControlWrite :: "int \<Rightarrow> int \<Rightarrow> int \<Rightarrow> int \<Rightarrow> bytes \<Rightarrow> ('s, bool option) st"
  gc_ReceivePacket :: "int \<Rightarrow> bytes \<Rightarrow> ('s, unit) st"

text \<open>Running a method of the controller that belongs to a gadget state.\<close>

definition on_hw :: "('c, 'a) st \<Rightarrow> (('c, 'z) gadget_scheme, 'a) st" where
  "on_hw m g = (case m (g_hw g) of (r, c) \<Rightarrow> (r, g\<lparr>g_hw := c\<rparr>))"

text \<open>A call that is given \<^verbatim>\<open>self._fd\<close>; on None the call itself raises.\<close>

definition with_fd :: "(nat \<Rightarrow> ('e gadgetfs, 'a) st) \<Rightarrow> ('e gadgetfs, 'a) st" where
  "with_fd m c = (case c_fd c of None \<Rightarrow> (Inl TypeError, c) | Some fd \<Rightarrow> m fd c)"

definition open_control_file :: "'e os_ops \<Rightarrow> (('e gadgetfs, 'z) gadget_scheme, unit) st" where
  "open_control_file os =
     bind_st (on_hw (\<lambda>c. os_call (os_open os (path_join (c_ep_dir c) (c_chip c))) c)) (\<lambda>fd.
     seq_st (on_hw (modify_st (\<lambda>c. c\<lparr>c_fd := Some fd\<rparr>)))
     (bind_st (gets_st (\<lambda>g.
        bind_res (struct_pack [F_I] [PInt 0]) (\<lambda>tag.
        bind_res (g_Encode g (g_fs_config_desc g)) (\<lambda>fs.
        bind_res (g_Encode g (g_hs_config_desc g)) (\<lambda>hs.
        bind_res (g_Encode g (g_device_desc g)) (\<lambda>dev. Inr (tag @ fs @ hs @ dev))))))) (\<lambda>enc.
      bind_st (lift_res enc) (\<lambda>buf.
      seq_st (on_hw (os_call (os_write os fd buf)))
        (on_hw (modify_st (\<lambda>c. c\<lparr>c_handlers := c_handlers c @ [EventHandler fd]\<rparr>)))))))"

definition Create :: "'e os_ops \<Rightarrow> (('e gadgetfs, 'z) gadget_scheme, unit) st" where
  "Create os = seq_st (on_hw (modify_st (\<lambda>c. c\<lparr>c_gadget := True\<rparr>))) (open_control_file os)"

definition IsConfigured :: "'e gadgetfs \<Rightarrow> bool" where
  "IsConfigured c = c_gadget c"

text \<open>\<^verbatim>\<open>self._gadget.method(...)\<close>.\<close>

definition on_gadget ::
    "(('e gadgetfs, 'z) gadget_scheme, 'a) st \<Rightarrow> (('e gadgetfs, 'z) gadget_scheme, 'a) st" where
  "on_gadget m g = (if c_gadget (g_hw g) then m g else (Inl AttributeError, g))"

definition fs_Connected ::
    "('e gadgetfs, 'z) gadget_scheme gadget_class \<Rightarrow> int \<Rightarrow> (('e gadgetfs, 'z) gadget_scheme, unit) st" where
  "fs_Connected cls speed = on_gadget (gc_Connected cls speed)"

definition stop_everything :: "'e os_ops \<Rightarrow> ('e gadgetfs, unit) st" where
  "stop_everything os =
     bind_st (gets_st (\<lambda>c. map fst (c_ep_fds c))) (\<lambda>addrs.
     seq_st (for_st addrs (StopEndpoint os)) (modify_st (\<lambda>c. c\<lparr>c_ep_fds := []\<rparr>)))"

definition fs_Disconnected ::
    "'e os_ops \<Rightarrow> ('e gadgetfs, 'z) gadget_scheme gadget_class \<Rightarrow> (('e gadgetfs, 'z) gadget_scheme, unit) st" where
  "fs_Disconnected os cls =
     seq_st (on_hw (stop_everything os)) (on_gadget (gc_Disconnected cls))"

definition Destroy ::
    "'e os_ops \<Rightarrow> ('e gadgetfs, 'z) gadget_scheme gadget_class \<Rightarrow> (('e gadgetfs, 'z) gadget_scheme, unit) st" where
  "Destroy os cls =
     seq_st (fs_Disconnected os cls)
       (on_hw (with_fd (\<lambda>fd. modify_st (\<lambda>c.
          c\<lparr>c_handlers := filter (\<lambda>h. h \<noteq> EventHandler fd) (c_handlers c),
            c_os := os_close os fd (c_os c), c_gadget := False, c_fd := None\<rparr>))))"

definition HandleSetup ::
    "'e os_ops \<Rightarrow> ('e gadgetfs, 'z) gadget_scheme gadget_class \<Rightarrow>
     int \<Rightarrow> int \<Rightarrow> int \<Rightarrow> int \<Rightarrow> int \<Rightarrow> (('e gadgetfs, 'z) gadget_scheme, unit) st" where
  "HandleSetup os cls request_type request val index len =
     (if request_type AND Dir_IN \<noteq> 0 then
        bind_st (on_gadget (gc_ControlRead cls request_type request val index len)) (\<lambda>data.
        case data of
          None \<Rightarrow> on_hw (with_fd (\<lambda>fd. os_try EL2HLT (os_read os fd 0)))
        | Some d \<Rightarrow> on_hw (with_fd (\<lambda>fd. os_call (os_write os fd d))))
      else
        bind_st (if len \<noteq> 0 then on_hw (with_fd (\<lambda>fd. os_call (os_read os fd len))) else return_st [])
          (\<lambda>data.
        bind_st (on_gadget (gc_ControlWrite cls request_type request val index data)) (\<lambda>result.
        case result of
          None \<Rightarrow> on_hw (with_fd (\<lambda>fd. os_try EL2HLT (os_write os fd [])))
        | Some _ \<Rightarrow>
            if len = 0 then bind_st (on_hw (with_fd (\<lambda>fd. os_call (os_read os fd 0)))) (\<lambda>_. return_st ())
            else return_st ())))"

fun pv_int :: "pyval \<Rightarrow> int" where
  "pv_int (PInt i) = i"
| "pv_int (PBytes bs) = 0"

definition unpack_ints :: "fmt_code list \<Rightarrow> bytes \<Rightarrow> int list res" where
  "unpack_ints fs bs = bind_res (struct_unpack fs bs) (\<lambda>vs. Inr (map pv_int vs))"

text \<open>The body of \<^verbatim>\<open>HandleEvent\<close> for a buffer read from the control file.\<close>

definition dispatch_event ::
    "'e os_ops \<Rightarrow> ('e gadgetfs, 'z) gadget_scheme gadget_class \<Rightarrow> bytes \<Rightarrow>
     (('e gadgetfs, 'z) gadget_scheme, unit) st" where
  "dispatch_event os cls buf =
     bind_st (lift_res (unpack_ints [F_I] (take 4 (drop 8 buf)))) (\<lambda>ev.
     let event_type = ev ! 0 in
     if event_type = GADGETFS_NOP then return_st ()
     else if event_type = GADGETFS_CONNECT then
       bind_st (lift_res (unpack_ints [F_I, F_x, F_x, F_x, F_x, F_x, F_x, F_x, F_x] buf)) (\<lambda>vs.
         fs_Connected cls (vs ! 0))
     else if event_type = GADGETFS_DISCONNECT then fs_Disconnected os cls
     else if event_type = GADGETFS_SETUP then
       bind_st (lift_res (unpack_ints [F_B, F_B, F_H, F_H, F_H, F_x, F_x, F_x, F_x] buf)) (\<lambda>vs.
         HandleSetup os cls (vs ! 0) (vs ! 1) (vs ! 2) (vs ! 3) (vs ! 4))
     else return_st ())"

definition HandleEvent ::
    "'e os_ops \<Rightarrow> ('e gadgetfs, 'z) gadget_scheme gadget_class \<Rightarrow> (('e gadgetfs, 'z) gadget_scheme, unit) st" where
  "HandleEvent os cls =
     bind_st (on_hw (with_fd (\<lambda>fd. os_call (os_read os fd 12)))) (dispatch_event os cls)"

text \<open>
  The handler \<^verbatim>\<open>ReceivePacket\<close> of an OUT endpoint, called by the event loop when the pipe is
  readable.
\<close>

definition HandlePacket ::
    "('e gadgetfs, 'z) gadget_scheme gadget_class \<Rightarrow> nat \<Rightarrow> int \<Rightarrow> (('e gadgetfs, 'z) gadget_scheme, unit) st" where
  "HandlePacket cls p endpoint_addr g =
     (case dict_get (c_pipes (g_hw g)) p of
        Some (data # rest) \<Rightarrow>
          on_gadget (gc_ReceivePacket cls endpoint_addr data)
            (g\<lparr>g_hw := (g_hw g)\<lparr>c_pipes := dict_set p rest (c_pipes (g_hw g))\<rparr>\<rparr>)
      | _ \<Rightarrow> (Inr (), g))"

text \<open>The class \<^verbatim>\<open>Gadget\<close> itself.\<close>

definition Gadget_class :: "'c chip_ops \<Rightarrow> ('c, 'z) gadget_scheme gadget_class" where
  "Gadget_class ops =
     \<lparr>gc_Connected = (\<lambda>speed. modify_st (Connected speed)),
      gc_Disconnected = modify_st Disconnected,
      gc_ControlRead = (\<lambda>rt r v i l g. (Gadget_ControlRead g rt r v i l, g)),
      gc_ControlWrite = Gadget_ControlWrite ops,
      gc_ReceivePacket = ReceivePacket\<rparr>"

end
