(* ===== verification/Composite_Gadget.thy ===== *)
theory Composite_Gadget
  imports Linux_Gadgetfs
begin

text \<open>
  composite_gadget.py: a device put together from features. The gadget builds both configurations
  from the interfaces of its features, remembers which feature owns which interface, and hands on
  the requests it does not answer itself. A feature's methods are known by their table
  (\<open>feature_class\<close>); what every feature promises for control reads is the locale
  \<open>read_contract\<close>.
\<close>

section \<open>Features\<close>

text \<open>The attributes of \<^verbatim>\<open>CompositeFeature\<close>; \<open>cf_gadget\<close> says whether \<^verbatim>\<open>_gadget\<close> is set.\<close>

record composite_feature =
  cf_gadget :: bool
  cf_fs_interface_descs :: "descriptor list"
  cf_hs_interface_descs :: "descriptor list"

definition CompositeFeature_init :: "descriptor list \<Rightarrow> descriptor list \<Rightarrow> composite_feature" where
  "CompositeFeature_init fs_interface_descs hs_interface_descs =
     \<lparr>cf_gadget = False, cf_fs_interface_descs = fs_interface_descs,
      cf_hs_interface_descs = hs_interface_descs\<rparr>"

definition GetFullSpeedInterfaces :: "'z composite_feature_scheme \<Rightarrow> descriptor list" where
  "GetFullSpeedInterfaces f = cf_fs_interface_descs f"

definition GetHighSpeedInterfaces :: "'z composite_feature_scheme \<Rightarrow> descriptor list" where
  "GetHighSpeedInterfaces f = cf_hs_interface_descs f"

text \<open>
  A method of a feature runs on the feature and the state of the gadget it belongs to. \<open>owner\<close>
  runs a method of that gadget.
\<close>

definition owner :: "('s, 'a) st \<Rightarrow> ('f \<times> 's, 'a) st" where
  "owner m = (\<lambda>(f, s). case m s of (r, t) \<Rightarrow> (r, (f, t)))"

definition feature_Connected :: "('z composite_feature_scheme \<times> 's, unit) st" where
  "feature_Connected = modify_st (\<lambda>(f, s). (f\<lparr>cf_gadget := True\<rparr>, s))"

definition feature_Disconnected :: "('z composite_feature_scheme \<times> 's, unit) st" where
  "feature_Disconnected = modify_st (\<lambda>(f, s). (f\<lparr>cf_gadget := False\<rparr>, s))"

definition feature_IsConnected :: "'z composite_feature_scheme \<Rightarrow> bool" where
  "feature_IsConnected f = cf_gadget f"

definition feature_SendPacket ::
    "'c chip_ops \<Rightarrow> int \<Rightarrow> bytes \<Rightarrow> ('z composite_feature_scheme \<times> ('c, 'y) gadget_scheme, unit) st" where
  "feature_SendPacket ops endpoint data p =
     (if \<not> cf_gadget (fst p) then (Inl RuntimeError, p) else owner (SendPacket ops endpoint data) p)"

definition feature_HaltEndpoint ::
    "'c chip_ops \<Rightarrow> int \<Rightarrow> ('z composite_feature_scheme \<times> ('c, 'y) gadget_scheme, unit) st" where
  "feature_HaltEndpoint ops endpoint p =
     (if \<not> cf_gadget (fst p) then (Inl RuntimeError, p) else owner (HaltEndpoint ops endpoint) p)"

definition feature_ControlRead :: "int \<Rightarrow> int \<Rightarrow> int \<Rightarrow> int \<Rightarrow> int \<Rightarrow> ('f \<times> 's, bytes option) st" where
  "feature_ControlRead recipient request val index len = return_st None"

definition feature_ControlWrite :: "int \<Rightarrow> int \<Rightarrow> int \<Rightarrow> int \<Rightarrow> bytes \<Rightarrow> ('f \<times> 's, bool option) st" where
  "feature_ControlWrite recipient request val index data = return_st None"

text \<open>The methods a composite gadget calls on its features.\<close>

record ('f, 's) feature_class =
  fc_FullSpeedInterfaces :: "'f \<Rightarrow> descriptor list"
  fc_HighSpeedInterfaces :: "'f \<Rightarrow> descriptor list"
  fc_Connected :: "('f \<times> 's, unit) st"
  fc_Disconnected :: "('f \<times> 's, unit) st"
  fc_ReceivePacket :: "int \<Rightarrow> bytes \<Rightarrow> ('f \<times> 's, unit) st"
  fc_StandardControlRead :: "int \<Rightarrow> int \<Rightarrow> int \<Rightarrow> int \<Rightarrow> int \<Rightarrow> ('f \<times> 's, bytes option) st"
  fc_ClassControlRead :: "int \<Rightarrow> int \<Rightarrow> int \<Rightarrow> int \<Rightarrow> int \<Rightarrow> ('f \<times> 's, bytes option) st"
  fc_VendorControlRead :: "int \<Rightarrow> int \<Rightarrow> int \<Rightarrow> int \<Rightarrow> int \<Rightarrow> ('f \<times> 's, bytes option) st"
  fc_StandardControlWrite :: "int \<Rightarrow> int \<Rightarrow> int \<Rightarrow> int \<Rightarrow> bytes \<Rightarrow> ('f \<times> 's, bool option) st"
  fc_ClassControlWrite :: "int \<Rightarrow> int \<Rightarrow> int \<Rightarrow> int \<Rightarrow> bytes \<Rightarrow> ('f \<times> 's, bool option) st"
  fc_VendorControlWrite :: "int \<Rightarrow> int \<Rightarrow> int \<Rightarrow> int \<Rightarrow> bytes \<Rightarrow> ('f \<times> 's, bool option) st"

section \<open>The gadget\<close>

text \<open>A feature is referred to by its position in \<^verbatim>\<open>_features\<close>.\<close>

record ('c, 'f) composite_gadget = "'c gadget" +
  cg_fs_interface_feature_map :: "(int \<times> nat) list"
  cg_hs_interface_feature_map :: "(int \<times> nat) list"
  cg_features :: "'f list"

type_synonym ('c, 'f) cg_class = "('f, ('c, 'f) composite_gadget) feature_class"

text \<open>The inner loops of \<^verbatim>\<open>CompositeGadget.__init__\<close> for feature number \<open>k\<close>, and the outer loop.\<close>

fun add_interfaces ::
    "nat \<Rightarrow> descriptor list \<Rightarrow> descriptor \<times> (int \<times> nat) list \<Rightarrow> (descriptor \<times> (int \<times> nat) list) res" where
  "add_interfaces k [] acc = Inr acc"
| "add_interfaces k (d # ds) (config_desc, m) =
     bind_res (AddInterface config_desc d) (\<lambda>config_desc'.
       add_interfaces k ds (config_desc', dict_set (int_attr d ''bInterfaceNumber'') k m))"

fun add_features ::
    "('f, 's) feature_class \<Rightarrow> nat \<Rightarrow> 'f list \<Rightarrow> descriptor \<times> (int \<times> nat) list \<Rightarrow>
     descriptor \<times> (int \<times> nat) list \<Rightarrow>
     ((descriptor \<times> (int \<times> nat) list) \<times> (descriptor \<times> (int \<times> nat) list)) res" where
  "add_features fc k [] fs hs = Inr (fs, hs)"
| "add_features fc k (f # features) fs hs =
     bind_res (add_interfaces k (fc_FullSpeedInterfaces fc f) fs) (\<lambda>fs'.
     bind_res (add_interfaces k (fc_HighSpeedInterfaces fc f) hs) (\<lambda>hs'.
       add_features fc (Suc k) features fs' hs'))"

definition CompositeGadget_init ::
    "('c, 'f) cg_class \<Rightarrow> descriptor \<Rightarrow> 'f list \<Rightarrow> 'c \<Rightarrow> ('c, 'f) composite_gadget res" where
  "CompositeGadget_init fc device_desc features hw =
     bind_res (new_descriptor C_Configuration [(''bmAttributes'', PInt 0x80), (''MaxPower'', PInt 50)])
       (\<lambda>fs_config_desc.
     bind_res (new_descriptor C_Configuration [(''bmAttributes'', PInt 0x80), (''MaxPower'', PInt 50)])
       (\<lambda>hs_config_desc.
     bind_res (add_features fc 0 features (fs_config_desc, []) (hs_config_desc, []))
       (\<lambda>((fs_config_desc, fs_map), (hs_config_desc, hs_map)).
          Inr (gadget.extend (Gadget_init device_desc fs_config_desc hs_config_desc hw)
            (composite_gadget.fields fs_map hs_map features)))))"

text \<open>Running a method of feature number \<open>k\<close>.\<close>

definition on_feature ::
    "nat \<Rightarrow> ('f \<times> ('c, 'f) composite_gadget, 'a) st \<Rightarrow> (('c, 'f) composite_gadget, 'a) st" where
  "on_feature k m g =
     (case m (cg_features g ! k, g) of
        (r, (f, h)) \<Rightarrow> (r, h\<lparr>cg_features := (cg_features h)[k := f]\<rparr>))"

definition cg_Connected :: "('c, 'f) cg_class \<Rightarrow> int \<Rightarrow> (('c, 'f) composite_gadget, unit) st" where
  "cg_Connected fc speed =
     seq_st (modify_st (Connected speed))
       (bind_st (gets_st (\<lambda>g. [0..<length (cg_features g)])) (\<lambda>ks.
          for_st ks (\<lambda>k. on_feature k (fc_Connected fc))))"

definition cg_Disconnected :: "('c, 'f) cg_class \<Rightarrow> (('c, 'f) composite_gadget, unit) st" where
  "cg_Disconnected fc =
     seq_st (modify_st Disconnected)
       (bind_st (gets_st (\<lambda>g. [0..<length (cg_features g)])) (\<lambda>ks.
          for_st ks (\<lambda>k. on_feature k (fc_Disconnected fc))))"

definition GetInterfaceFeatureMap :: "('c, 'f) composite_gadget \<Rightarrow> (int \<times> nat) list res" where
  "GetInterfaceFeatureMap g =
     (if g_speed g = Speed_FULL then Inr (cg_fs_interface_feature_map g)
      else if g_speed g = Speed_HIGH then Inr (cg_hs_interface_feature_map g)
      else Inl RuntimeError)"

definition cg_ReceivePacket ::
    "('c, 'f) cg_class \<Rightarrow> int \<Rightarrow> bytes \<Rightarrow> (('c, 'f) composite_gadget, unit) st" where
  "cg_ReceivePacket fc endpoint data g =
     (let interface = GetInterfaceForEndpoint g endpoint in
      case GetInterfaceFeatureMap g of
        Inl e \<Rightarrow> (Inl e, g)
      | Inr m \<Rightarrow>
          (case Option.bind interface (dict_get m) of
             None \<Rightarrow> (Inl KeyError, g)
           | Some k \<Rightarrow> on_feature k (fc_ReceivePacket fc endpoint data) g))"

definition GetFeatureForIndex :: "('c, 'f) composite_gadget \<Rightarrow> int \<Rightarrow> int \<Rightarrow> nat option res" where
  "GetFeatureForIndex g recipient index =
     (let interface =
            (if recipient = Recipient_INTERFACE then Some index
             else if recipient = Recipient_ENDPOINT then GetInterfaceForEndpoint g index
             else None)
      in case interface of
           None \<Rightarrow> Inr None
         | Some i \<Rightarrow> bind_res (GetInterfaceFeatureMap g) (\<lambda>m. Inr (dict_get m i)))"

text \<open>
  The six control methods have one shape: the gadget's own answer, or else the one of the feature
  the request is for.
\<close>

definition or_feature ::
    "(('c, 'f) composite_gadget, 'a option) st \<Rightarrow> ('f \<times> ('c, 'f) composite_gadget, 'a option) st \<Rightarrow>
     int \<Rightarrow> int \<Rightarrow> (('c, 'f) composite_gadget, 'a option) st" where
  "or_feature own ask recipient index =
     bind_st own (\<lambda>response.
     case response of
       Some r \<Rightarrow> return_st (Some r)
     | None \<Rightarrow>
         bind_st (bind_st (gets_st (\<lambda>g. GetFeatureForIndex g recipient index)) lift_res) (\<lambda>feature.
         case feature of None \<Rightarrow> return_st None | Some k \<Rightarrow> on_feature k ask))"

definition cg_StandardControlRead where
  "cg_StandardControlRead fc recipient request val index len =
     or_feature (\<lambda>g. (StandardControlRead g recipient request val index len, g))
       (fc_StandardControlRead fc recipient request val index len) recipient index"

definition cg_StandardControlWrite where
  "cg_StandardControlWrite ops fc recipient request val index data =
     or_feature (StandardControlWrite ops recipient request val index data)
       (fc_StandardControlWrite fc recipient request val index data) recipient index"

definition cg_ClassControlRead where
  "cg_ClassControlRead fc recipient request val index len =
     or_feature (\<lambda>g. (ClassControlRead g recipient request val index len, g))
       (fc_ClassControlRead fc recipient request val index len) recipient index"

definition cg_ClassControlWrite where
  "cg_ClassControlWrite fc recipient request val index data =
     or_feature (ClassControlWrite recipient request val index data)
       (fc_ClassControlWrite fc recipient request val index data) recipient index"

definition cg_VendorControlRead where
  "cg_VendorControlRead fc recipient request val index len =
     or_feature (\<lambda>g. (VendorControlRead g recipient request val index len, g))
       (fc_VendorControlRead fc recipient request val index len) recipient index"

definition cg_VendorControlWrite where
  "cg_VendorControlWrite fc recipient request val index data =
     or_feature (VendorControlWrite recipient request val index data)
       (fc_VendorControlWrite fc recipient request val index data) recipient index"

text \<open>\<^verbatim>\<open>ControlRead\<close> and \<^verbatim>\<open>ControlWrite\<close> are inherited and dispatch to these.\<close>

definition cg_ControlRead where
  "cg_ControlRead fc request_type request val index len =
     (if request_type AND Dir_IN = 0 then raise_st AssertionError
      else
        let typ = request_type AND Type_MASK; recipient = request_type AND Recipient_MASK in
        if typ = Type_STANDARD then cg_StandardControlRead fc recipient request val index len
        else if typ = Type_CLASS then cg_ClassControlRead fc recipient request val index len
        else if typ = Type_VENDOR then cg_VendorControlRead fc recipient request val index len
        else return_st None)"

definition cg_ControlWrite where
  "cg_ControlWrite ops fc =
     ControlWrite (cg_StandardControlWrite ops fc) (cg_ClassControlWrite fc) (cg_VendorControlWrite fc)"

definition Composite_class ::
    "'c chip_ops \<Rightarrow> ('c, 'f) cg_class \<Rightarrow> ('c, 'f) composite_gadget gadget_class" where
  "Composite_class ops fc =
     \<lparr>gc_Connected = cg_Connected fc, gc_Disconnected = cg_Disconnected fc,
      gc_ControlRead = cg_ControlRead fc, gc_ControlWrite = cg_ControlWrite ops fc,
      gc_ReceivePacket = cg_ReceivePacket fc\<rparr>"

end
