(* ===== verification/Gadget_Replies.thy ===== *)
theory Gadget_Replies
  imports Composite_Gadget
begin

text \<open>
  What a device answers to control reads: replies fit into the requested length (the language table
  is the exception), strings and Microsoft compatible ids are found again where they were stored,
  the announced sizes are the real ones, and a composite gadget gives each request to the feature
  that owns the interface.
\<close>

section \<open>Length of replies\<close>

lemma sliced_reply: "bind_res r (\<lambda>buf. Inr (Some (slice_to len (f buf)))) = Inr (Some d) \<Longrightarrow> 0 \<le> len \<Longrightarrow>
    int (length d) \<le> len"
  by (auto simp: bind_res_Inr_iff length_slice_to)

lemma GetStringDescriptor_bound:
  assumes "GetStringDescriptor g index lang len = Inr (Some d)" and "index \<noteq> 0" and "0 \<le> len"
  shows "int (length d) \<le> len"
  using assms unfolding GetStringDescriptor_def Let_def
  by (auto simp: bind_res_Inr_iff length_slice_to split: option.splits if_splits)

lemma GetBosDescriptor_bound:
  "GetBosDescriptor g len = Inr (Some d) \<Longrightarrow> 0 \<le> len \<Longrightarrow> int (length d) \<le> len"
  by (auto simp: GetBosDescriptor_def bind_res_Inr_iff length_slice_to split: option.splits)

lemma StandardControlRead_bound:
  assumes "StandardControlRead g recipient request val index len = Inr (Some d)" and "0 \<le> len"
    and "val \<noteq> 0x0300"
  shows "int (length d) \<le> len"
proof -
  have "val AND 0xff \<noteq> 0" if "drop_bit 8 val = 3"
  proof
    assume "val AND 0xff = 0"
    moreover have "val AND 0xff = val mod 256" using take_bit_eq_mask [of 8 val]
      by (simp add: mask_eq_exp_minus_1 take_bit_eq_mod)
    moreover have "drop_bit 8 val = val div 256" by (simp add: drop_bit_eq_div)
    ultimately have "val mod 256 = 0" "val div 256 = 3" using that by simp_all
    with div_mult_mod_eq [of val 256] assms(3) show False by simp
  qed
  with assms(1,2) show ?thesis
    by (auto simp: StandardControlRead_def GetDescriptor_def Let_def GetStringDescriptor_bound
        GetBosDescriptor_bound split: if_splits)
qed

lemma GetMicrosoftCompatIds_bound:
  "GetMicrosoftCompatIds g len = Inr (Some d) \<Longrightarrow> 0 \<le> len \<Longrightarrow> int (length d) \<le> len"
  by (auto simp: GetMicrosoftCompatIds_def Let_def bind_res_Inr_iff length_slice_to split: if_splits)

lemma VendorControlRead_bound:
  assumes "VendorControlRead g recipient request val index len = Inr (Some d)" and "0 \<le> len"
  shows "int (length d) \<le> len"
  using assms
  by (auto simp: VendorControlRead_def GetMicrosoftOSDescriptorV1_def GetMicrosoftOSDescriptorV2_def
      GetMicrosoftCompatIds_bound bind_res_Inr_iff length_slice_to split: if_splits option.splits)

lemma Gadget_ControlRead_bound:
  assumes "Gadget_ControlRead g request_type request val index len = Inr (Some d)" and "0 \<le> len"
    and "val \<noteq> 0x0300"
  shows "int (length d) \<le> len"
  using assms
  by (auto simp: Gadget_ControlRead_def ControlRead_def Let_def StandardControlRead_bound
      VendorControlRead_bound ClassControlRead_def split: if_splits)

text \<open>The language table is sent whole, whatever length was asked for.\<close>

lemma pack_codes:
  assumes "\<forall>c\<in>set cs. 0 \<le> c \<and> c < 0x10000"
  shows "map_res (\<lambda>c. struct_pack [F_H] [PInt c]) cs = Inr (map (le_pack 2) cs)"
  using assms by (intro map_res_total) (auto simp: pack_uint_def)

lemma length_le_packs: "length (concat (map (le_pack n) cs)) = n * length cs"
  by (induction cs) auto

lemma language_table:
  assumes "\<forall>c\<in>fst ` set (g_strings g). 0 \<le> c \<and> c < 0x10000" and "length (g_strings g) \<le> 126"
  shows "GetStringDescriptor g 0 lang len =
    Inr (Some (word_of_nat (2 + 2 * length (g_strings g)) # 3 # concat (map (le_pack 2 \<circ> fst) (g_strings g))))"
proof -
  let ?n = "length (g_strings g)"
  have codes: "map_res (\<lambda>(code, _). struct_pack [F_H] [PInt code]) (g_strings g) =
      Inr (map (le_pack 2 \<circ> fst) (g_strings g))"
    using assms(1) by (intro map_res_total) (auto simp: pack_uint_def)
  have len: "length (concat (map (le_pack 2 \<circ> fst) (g_strings g))) = 2 * ?n"
    using length_le_packs [of 2 "map fst (g_strings g)"] by simp
  have hdr: "struct_pack [F_B, F_B] [PInt (2 + int ?n * 2), PInt DescriptorType_STRING] =
      Inr [word_of_nat (2 + 2 * ?n), 3]"
    using assms(2) by (simp add: pack_uint_def mult.commute)
  show ?thesis
    unfolding GetStringDescriptor_def
    by (simp add: hdr codes len Let_def slice_to_all del: struct_pack.simps)
qed

section \<open>Strings\<close>

lemma AddStringDescriptor_lookup:
  assumes "AddStringDescriptor index s lang g = (Inr (), g')"
  shows "dict_get (g_strings g') l =
      (if l = lang then Some (dict_set index s (case dict_get (g_strings g) lang of None \<Rightarrow> [] | Some d \<Rightarrow> d))
       else dict_get (g_strings g) l)"
    and "g_ms_vendor_code_v1 g' = g_ms_vendor_code_v1 g" and "g_ms_os20_sets g' = g_ms_os20_sets g"
  using assms by (auto simp: AddStringDescriptor_def Let_def split: if_splits option.splits)

text \<open>The descriptor of a string, as the host receives it.\<close>

definition string_bytes :: "string \<Rightarrow> bytes" where
  "string_bytes s = word_of_nat (2 + 2 * length s) # 3 # concat (map (\<lambda>c. [of_char c, 0]) s)"

lemma utf16le_ascii:
  "list_all (\<lambda>c. of_char c < (128 :: nat)) s \<Longrightarrow> utf16le s = Inr (concat (map (\<lambda>c. [of_char c, 0]) s))"
  by (simp add: utf16le_def)

lemma length_utf16: "length (concat (map (\<lambda>c. [of_char c, 0 :: byte]) s)) = 2 * length s"
  by (induction s) auto

lemma StringDescriptor_encoding:
  assumes "list_all (\<lambda>c. of_char c < (128 :: nat)) s" and "length s \<le> 126"
  shows "bind_res (StringDescriptor s []) (\<lambda>d. Encode sz d) = Inr (string_bytes s)"
proof -
  let ?d = "Desc C_String [] s [] [] [] None"
  have d: "StringDescriptor s [] = Inr ?d"
    by (simp add: StringDescriptor_def new_descriptor_def fields_defs)
  have size: "total_size ?d = Inr (2 + 2 * length s)"
    using assms(1) by (simp add: total_size.simps utf16le_ascii length_utf16 struct_size_def fmt_def fields_defs)
  have "Encode_base sz ?d = Inr [word_of_nat (2 + 2 * length s), 3]"
    using assms(2) by (simp add: Encode_base_def fmt_def fields_defs get_field_def size pack_uint_def)
  with assms(1) show ?thesis
    by (simp add: d Encode.simps utf16le_ascii string_bytes_def)
qed

lemma GetStringDescriptor_stored:
  assumes "dict_get (g_strings g) lang = Some ss" and "dict_get ss index = Some s"
    and "index \<noteq> 0" and "index = 0xEE \<longrightarrow> lang = 0 \<longrightarrow> g_ms_vendor_code_v1 g = None"
    and "list_all (\<lambda>c. of_char c < (128 :: nat)) s" and "length s \<le> 126"
  shows "GetStringDescriptor g index lang len = Inr (Some (slice_to len (string_bytes s)))"
proof -
  from StringDescriptor_encoding [OF assms(5,6), of "descriptor_set_size g"]
  obtain d where "StringDescriptor s [] = Inr d" "g_Encode g d = Inr (string_bytes s)"
    by (auto simp: g_Encode_def bind_res_Inr_iff)
  with assms(1-4) show ?thesis by (auto simp: GetStringDescriptor_def)
qed

section \<open>Compatible ids\<close>

lemma take_drop_concat:
  assumes "\<And>b. b \<in> set bs \<Longrightarrow> length b = n" and "k < length bs"
  shows "take n (drop (n * k) (concat bs)) = bs ! k"
  using assms
proof (induction bs arbitrary: k)
  case (Cons b bs)
  then show ?case by (cases k) (auto simp: drop_append)
qed simp

lemma compat_id_entry_length: "compat_id_entry g i = Inr b \<Longrightarrow> length b = 24"
  by (auto simp: compat_id_entry_def Let_def simp del: struct_pack.simps dest!: struct_pack_length
      split: prod.splits)

text \<open>The entry of interface \<open>i\<close> is at its place, and the table has the announced size.\<close>

lemma GetMicrosoftCompatIds_table:
  assumes "GetMicrosoftCompatIds g len = Inr (Some d)"
    and cd: "GetConfigurationDescriptor g = Inr cd"
    and m: "m = Max (set (map (\<lambda>i. int_attr i ''bInterfaceNumber'') (GetInterfaces cd)))"
    and "0 \<le> m" and len: "16 + 24 * (m + 1) \<le> len"
  shows "int (length d) = 16 + 24 * (m + 1)" and "read_uint 0 4 d = int (length d)"
    and "0 \<le> i \<Longrightarrow> i \<le> m \<Longrightarrow> compat_id_entry g i = Inr (take 24 (drop (16 + 24 * nat i) d))"
proof -
  let ?fmt = "[F_I, F_H, F_H, F_B, F_x, F_x, F_x, F_x, F_x, F_x, F_x]"
  let ?args = "[PInt (16 + 24 * (m + 1)), PInt 0x0100, PInt 0x0004, PInt (m + 1)]"
  have "bind_res (struct_pack ?fmt ?args) (\<lambda>header.
      if len \<le> int (length header) then Inr (Some (slice_to len header))
       else bind_res (map_res (compat_id_entry g) [0 .. m])
              (\<lambda>entries. Inr (Some (slice_to len (header @ concat entries))))) = (Inr (Some d) :: reply)"
    using assms(1) [unfolded GetMicrosoftCompatIds_def Let_def cd bind_res_simps, folded m]
    by (simp only: sum.distinct split: if_split_asm)
  then obtain header where header: "struct_pack ?fmt ?args = Inr header"
    and rest: "(if len \<le> int (length header) then Inr (Some (slice_to len header))
       else bind_res (map_res (compat_id_entry g) [0 .. m])
              (\<lambda>entries. Inr (Some (slice_to len (header @ concat entries))))) = (Inr (Some d) :: reply)"
    by (rule bind_res_InrE)
  have hlen: "length header = 16" using struct_pack_length [OF header] by simp
  have "\<not> len \<le> 16" using len \<open>0 \<le> m\<close> by simp
  with rest hlen obtain entries where entries: "map_res (compat_id_entry g) [0 .. m] = Inr entries"
    and d: "d = slice_to len (header @ concat entries)"
    by (auto simp: bind_res_Inr_iff)
  have rel: "list_all2 (\<lambda>i b. compat_id_entry g i = Inr b) [0 .. m] entries"
    using entries by (simp add: map_res_Inr_iff)
  have all24: "length b = 24" if "b \<in> set entries" for b
  proof -
    from that rel obtain i where "compat_id_entry g i = Inr b"
      by (auto simp: list_all2_conv_all_nth in_set_conv_nth)
    then show ?thesis by (rule compat_id_entry_length)
  qed
  have n: "length entries = nat (m + 1)" using map_res_length [OF entries] by simp
  have clen: "length (concat entries) = 24 * nat (m + 1)"
    using all24 by (simp add: length_concat n [symmetric]) (induction entries; simp)
  have total: "int (length (header @ concat entries)) = 16 + 24 * (m + 1)"
    using \<open>0 \<le> m\<close> by (simp add: hlen clen)
  have whole: "d = header @ concat entries" using len total by (simp add: d slice_to_all)
  show dl: "int (length d) = 16 + 24 * (m + 1)" using total by (simp add: whole)
  have "read_uint 0 4 d = 16 + 24 * (m + 1)"
  proof -
    have "take 4 d = le_pack 4 (16 + 24 * (m + 1))"
      using header hlen by (auto simp: whole bind_res_Inr_iff pack_uint_def split: if_splits)
    moreover have "16 + 24 * (m + 1) < 256 ^ 4"
      using header by (auto simp: bind_res_Inr_iff pack_uint_def split: if_splits)
    ultimately show ?thesis using \<open>0 \<le> m\<close> by (simp add: read_uint_def le_unpack_pack)
  qed
  with dl show "read_uint 0 4 d = int (length d)" by simp
  show "compat_id_entry g i = Inr (take 24 (drop (16 + 24 * nat i) d))" if "0 \<le> i" "i \<le> m"
  proof -
    have k: "nat i < length entries" using that by (simp add: n)
    have "compat_id_entry g i = Inr (entries ! nat i)"
      using rel k that by (auto simp: list_all2_conv_all_nth dest: spec [of _ "nat i"])
    moreover have "take 24 (drop (16 + 24 * nat i) d) = entries ! nat i"
      using take_drop_concat [OF all24 k] by (simp add: whole hlen)
    ultimately show ?thesis by simp
  qed
qed

section \<open>Microsoft OS 2.0 descriptor sets\<close>

fun no_sets :: "descriptor \<Rightarrow> bool" where
  "no_sets (Desc c attrs str hid subs ix ref) \<longleftrightarrow> c \<noteq> C_PlatformCapability \<and> (\<forall>d\<in>set subs. no_sets d)"

lemma Encode_no_sets: "no_sets d \<Longrightarrow> Encode sz d = Encode sz' d"
proof (induction d)
  case (Desc c attrs str hid subs ix ref)
  let ?d = "Desc c attrs str hid subs ix ref"
  have "get_field sz ?d f = get_field sz' ?d f" if "f \<in> set (class_fields c)" for f
    using that Desc.prems by (cases c) (auto simp: fields_defs get_field_def)
  then have "map_res (get_field sz ?d) (class_fields c) = map_res (get_field sz' ?d) (class_fields c)"
    by (intro map_res_cong) simp_all
  then have base: "Encode_base sz ?d = Encode_base sz' ?d" by (simp add: Encode_base_def)
  have subs: "map_res (Encode sz) subs = map_res (Encode sz') subs"
    using Desc by (intro map_res_cong) auto
  show ?case unfolding Encode.simps base subs ..
qed

text \<open>The sets are plain, and the current one and its configuration subset exist.\<close>

definition ms_wf :: "('c, 'z) gadget_scheme \<Rightarrow> bool" where
  "ms_wf g \<longleftrightarrow>
     (\<forall>s\<in>set (g_ms_os20_sets g). no_sets s \<and> d_subs s \<noteq> []) \<and>
     (\<forall>a. g_ms_os20_descriptor_set g = Some a \<longrightarrow> a < length (g_ms_os20_sets g)) \<and>
     g_ms_os20_config_subset g = g_ms_os20_descriptor_set g"

lemma no_sets_new: "new_descriptor c kw = Inr d \<Longrightarrow> c \<noteq> C_PlatformCapability \<Longrightarrow> no_sets d"
  by (auto simp: new_descriptor_def bind_res_Inr_iff)

lemma no_sets_Add: "no_sets d \<Longrightarrow> no_sets e \<Longrightarrow> no_sets (Add d e)"
  by (cases d) (auto simp: Add_def)

lemma no_sets_subset:
  assumes "no_sets s" and "d_subs s \<noteq> []" and "no_sets f"
  shows "no_sets (add_to_config_subset s f)" and "d_subs (add_to_config_subset s f) \<noteq> []"
proof -
  have "no_sets (Add (d_subs s ! 0) f)"
    using assms by (cases s) (auto intro: no_sets_Add)
  with assms show "no_sets (add_to_config_subset s f)"
    by (cases s) (auto simp: add_to_config_subset_def dest: set_update_subset_insert [THEN subsetD])
  show "d_subs (add_to_config_subset s f) \<noteq> []" using assms by (simp add: add_to_config_subset_def)
qed

lemma ms_wf_SetMicrosoftCompatId:
  assumes "ms_wf g" and "SetMicrosoftCompatId i cid sub g = (r, g')"
  shows "ms_wf g'"
proof (cases "g_ms_os20_config_subset g")
  case None
  with assms(2) have "g' = g\<lparr>g_ms_compat_ids := dict_set i (cid, sub) (g_ms_compat_ids g)\<rparr>"
    by (auto simp: SetMicrosoftCompatId_def st_run return_st_def)
  with assms(1) show ?thesis by (simp add: ms_wf_def)
next
  case (Some a)
  show ?thesis
  proof (cases "new_descriptor C_FunctionSubsetHeader [(''bFirstInterface'', PInt i)]")
    case (Inl e)
    with Some assms(2) have "g' = g\<lparr>g_ms_compat_ids := dict_set i (cid, sub) (g_ms_compat_ids g)\<rparr>"
      by (auto simp: SetMicrosoftCompatId_def st_run)
    with assms(1) show ?thesis by (simp add: ms_wf_def)
  next
    case (Inr f)
    show ?thesis
    proof (cases "new_descriptor C_CompatibleId [(''CompatibleID'', PBytes (str_bytes cid)),
        (''SubCompatibleID'', PBytes (str_bytes sub))]")
      case (Inl e)
      with Some Inr assms(2) have "g' = g\<lparr>g_ms_compat_ids := dict_set i (cid, sub) (g_ms_compat_ids g)\<rparr>"
        by (auto simp: SetMicrosoftCompatId_def st_run)
      with assms(1) show ?thesis by (simp add: ms_wf_def)
    next
      case (Inr i')
      note plain = no_sets_Add [OF no_sets_new no_sets_new, OF \<open>new_descriptor C_FunctionSubsetHeader _ = Inr f\<close> _ Inr, simplified]
      from Some \<open>new_descriptor C_FunctionSubsetHeader _ = Inr f\<close> Inr assms(2)
      have g': "g' = g\<lparr>g_ms_compat_ids := dict_set i (cid, sub) (g_ms_compat_ids g),
          g_ms_os20_sets := (g_ms_os20_sets g)[a := add_to_config_subset (g_ms_os20_sets g ! a) (Add f i')]\<rparr>"
        by (auto simp: SetMicrosoftCompatId_def st_run)
      have a: "a < length (g_ms_os20_sets g)" using Some assms(1) by (simp add: ms_wf_def)
      then have "no_sets (g_ms_os20_sets g ! a) \<and> d_subs (g_ms_os20_sets g ! a) \<noteq> []"
        using assms(1) by (simp add: ms_wf_def)
      with no_sets_subset [OF _ _ plain] a assms(1) show ?thesis
        by (auto simp: g' ms_wf_def dest: set_update_subset_insert [THEN subsetD])
    qed
  qed
qed

text \<open>The platform capability announces the size of the set as it is now.\<close>

lemma platform_capability_size:
  assumes "ms_wf g" and "g_ms_os20_descriptor_set g = Some a"
    and "d_class cap = C_PlatformCapability" and "d_set cap = Some a"
    and "g_Encode g cap = Inr cbuf" and "g_Encode g (g_ms_os20_sets g ! a) = Inr sbuf"
  shows "read_uint 24 2 cbuf = int (length sbuf)"
proof -
  have a: "a < length (g_ms_os20_sets g)" "no_sets (g_ms_os20_sets g ! a)"
    using assms(1,2) by (auto simp: ms_wf_def)
  from Encode_no_sets [OF a(2)] assms(6) have "Encode (\<lambda>_. Inr 0) (g_ms_os20_sets g ! a) = Inr sbuf"
    unfolding g_Encode_def by metis
  with a(1) have size: "descriptor_set_size g a = Inr (length sbuf)" by (simp add: descriptor_set_size_def)
  from assms(5) obtain vals
    where v: "map_res (get_field (descriptor_set_size g) cap) (class_fields (d_class cap)) = Inr vals"
      and u: "struct_unpack (fmt (d_class cap)) (take (calcsize (fmt (d_class cap))) cbuf) =
           Inr (canon_args (fmt (d_class cap)) vals)"
    unfolding g_Encode_def by (rule Encode_unpack)
  from v u show ?thesis
    by (auto simp: assms(3,4) fmt_def fields_defs get_field_def size bind_res_Inr_iff struct_unpack_def
        read_uint_def take_drop eval_nat_numeral split: if_splits)
qed

end
