(* ===== verification/Composite_Routing.thy ===== *)
theory Composite_Routing
  imports Gadget_Replies
begin

text \<open>
  What a composite gadget adds to a gadget: the configurations list the interfaces of all features,
  a request for an interface reaches the feature that owns it, and control reads neither change the
  device nor exceed the requested length when the features keep their part of the contract.
\<close>

section \<open>Building the configurations\<close>

lemma add_interfaces_result:
  assumes "wf_registry interface_key cfg" and "add_interfaces k ds (cfg, m) = Inr (cfg', m')"
  shows "wf_registry interface_key cfg' \<and> GetInterfaces cfg' = GetInterfaces cfg @ ds \<and>
    (\<forall>n. dict_get m' n =
       (if n \<in> (\<lambda>d. int_attr d ''bInterfaceNumber'') ` set ds then Some k else dict_get m n))"
  using assms
proof (induction ds arbitrary: cfg m)
  case (Cons d ds)
  then obtain c1 where c1: "AddInterface cfg d = Inr c1"
    and rest: "add_interfaces k ds (c1, dict_set (int_attr d ''bInterfaceNumber'') k m) = Inr (cfg', m')"
    by (auto simp: bind_res_Inr_iff)
  note n = ifaces.add_InrD [OF Cons.prems(1) c1]
  from Cons.IH [OF n(3) rest] n(4) show ?case by auto
qed auto

text \<open>\<open>owns fc ifs k fs n j\<close>: feature \<open>j\<close>, counted from \<open>k\<close>, is the last of \<open>fs\<close> with an interface number \<open>n\<close>.\<close>

definition interface_numbers :: "descriptor list \<Rightarrow> int set" where
  "interface_numbers ds = (\<lambda>d. int_attr d ''bInterfaceNumber'') ` set ds"

fun last_owner :: "('f \<Rightarrow> descriptor list) \<Rightarrow> nat \<Rightarrow> 'f list \<Rightarrow> int \<Rightarrow> nat option" where
  "last_owner ifs k [] n = None"
| "last_owner ifs k (f # fs) n =
     (case last_owner ifs (Suc k) fs n of
        Some j \<Rightarrow> Some j
      | None \<Rightarrow> if n \<in> interface_numbers (ifs f) then Some k else None)"

lemma add_features_result:
  assumes "wf_registry interface_key cf" and "wf_registry interface_key ch"
    and "add_features fc k fs (cf, mf) (ch, mh) = Inr ((cf', mf'), (ch', mh'))"
  shows "GetInterfaces cf' = GetInterfaces cf @ concat (map (fc_FullSpeedInterfaces fc) fs) \<and>
    GetInterfaces ch' = GetInterfaces ch @ concat (map (fc_HighSpeedInterfaces fc) fs) \<and>
    (\<forall>n. dict_get mf' n = (case last_owner (fc_FullSpeedInterfaces fc) k fs n of
        Some j \<Rightarrow> Some j | None \<Rightarrow> dict_get mf n)) \<and>
    (\<forall>n. dict_get mh' n = (case last_owner (fc_HighSpeedInterfaces fc) k fs n of
        Some j \<Rightarrow> Some j | None \<Rightarrow> dict_get mh n))"
  using assms
proof (induction fs arbitrary: k cf mf ch mh)
  case (Cons f fs)
  from Cons.prems(3) obtain a m b q where
    a: "add_interfaces k (fc_FullSpeedInterfaces fc f) (cf, mf) = Inr (a, m)" and
    b: "add_interfaces k (fc_HighSpeedInterfaces fc f) (ch, mh) = Inr (b, q)" and
    rest: "add_features fc (Suc k) fs (a, m) (b, q) = Inr ((cf', mf'), (ch', mh'))"
    by (auto simp: bind_res_Inr_iff)
  note ra = add_interfaces_result [OF Cons.prems(1) a] and rb = add_interfaces_result [OF Cons.prems(2) b]
  from Cons.IH [OF _ _ rest] ra rb show ?case
    by (auto simp: interface_numbers_def split: option.split)
qed simp

lemma last_owner_unique:
  assumes "j < length fs" and "n \<in> interface_numbers (ifs (fs ! j))"
    and "\<And>i. j < i \<Longrightarrow> i < length fs \<Longrightarrow> n \<notin> interface_numbers (ifs (fs ! i))"
  shows "last_owner ifs k fs n = Some (k + j)"
  using assms
proof (induction fs arbitrary: j k)
  case (Cons f fs)
  show ?case
  proof (cases j)
    case 0
    have "last_owner ifs k' fs n = None" for k'
    proof -
      have "\<forall>g\<in>set fs. n \<notin> interface_numbers (ifs g)"
        using Cons.prems(3) [of "Suc _"] 0 by (auto simp: in_set_conv_nth)
      then show ?thesis by (induction fs arbitrary: k') auto
    qed
    with 0 Cons.prems(2) show ?thesis by simp
  next
    case (Suc i)
    have "last_owner ifs (Suc k) fs n = Some (Suc k + i)"
      using Cons.prems Suc Cons.prems(3) [of "Suc _"] by (intro Cons.IH) auto
    with Suc show ?thesis by simp
  qed
qed simp

lemma last_owner_bound: "last_owner ifs k fs n = Some j \<Longrightarrow> k \<le> j \<and> j < k + length fs"
  by (induction fs arbitrary: k) (force split: option.splits if_splits)+

text \<open>A new composite gadget.\<close>

lemma CompositeGadget_init_result:
  assumes "CompositeGadget_init fc dev fs hw = Inr g"
  shows "GetInterfaces (g_fs_config_desc g) = concat (map (fc_FullSpeedInterfaces fc) fs)"
    and "GetInterfaces (g_hs_config_desc g) = concat (map (fc_HighSpeedInterfaces fc) fs)"
    and "dict_get (cg_fs_interface_feature_map g) n = last_owner (fc_FullSpeedInterfaces fc) 0 fs n"
    and "dict_get (cg_hs_interface_feature_map g) n = last_owner (fc_HighSpeedInterfaces fc) 0 fs n"
    and "cg_features g = fs" and "g_device_desc g = dev" and "g_hw g = hw" and "\<not> g_chip g"
    and "g_active_endpoints g = []" and "g_endpoint_interface_map g = []" and "g_strings g = []"
proof -
  let ?new = "new_descriptor C_Configuration [(''bmAttributes'', PInt 0x80), (''MaxPower'', PInt 50)]"
  from assms obtain c cf mf ch mh where c: "?new = Inr c"
    and add: "add_features fc 0 fs (c, []) (c, []) = Inr ((cf, mf), (ch, mh))"
    and g: "g = gadget.extend (Gadget_init dev cf ch hw) (composite_gadget.fields mf mh fs)"
    unfolding CompositeGadget_init_def by (auto simp: bind_res_Inr_iff split: prod.splits)
  note new = wf_registry_new [OF c]
  have none: "GetInterfaces c = []" using new(2) by (simp add: GetInterfaces_def)
  note r = add_features_result [OF new(1) new(1) add]
  show "GetInterfaces (g_fs_config_desc g) = concat (map (fc_FullSpeedInterfaces fc) fs)"
    "GetInterfaces (g_hs_config_desc g) = concat (map (fc_HighSpeedInterfaces fc) fs)"
    "dict_get (cg_fs_interface_feature_map g) n = last_owner (fc_FullSpeedInterfaces fc) 0 fs n"
    "dict_get (cg_hs_interface_feature_map g) n = last_owner (fc_HighSpeedInterfaces fc) 0 fs n"
    "cg_features g = fs" "g_device_desc g = dev" "g_hw g = hw" "\<not> g_chip g"
    "g_active_endpoints g = []" "g_endpoint_interface_map g = []" "g_strings g = []"
    using r none by (auto simp: g gadget.extend_def composite_gadget.fields_def Gadget_init_def split: option.split)
qed

section \<open>Requests for features\<close>

lemma or_feature_eq:
  "or_feature own ask recipient index g =
     (case own g of
        (Inl e, h) \<Rightarrow> (Inl e, h)
      | (Inr (Some r), h) \<Rightarrow> (Inr (Some r), h)
      | (Inr None, h) \<Rightarrow>
          (case GetFeatureForIndex h recipient index of
             Inl e \<Rightarrow> (Inl e, h)
           | Inr None \<Rightarrow> (Inr None, h)
           | Inr (Some k) \<Rightarrow> on_feature k ask h))"
  by (auto simp: or_feature_def bind_st_run gets_st_def lift_res_def return_st_def
      split: prod.split sum.split option.split)

lemma GetFeatureForIndex_interface:
  "GetFeatureForIndex g Recipient_INTERFACE index =
     bind_res (GetInterfaceFeatureMap g) (\<lambda>m. Inr (dict_get m index))"
  by (simp add: GetFeatureForIndex_def)

section \<open>The contract for control reads\<close>

text \<open>What a feature promises: a control read changes nothing and its reply fits.\<close>

locale read_contract =
  fixes fc :: "('c, 'f) cg_class"
  assumes standard_read: "fc_StandardControlRead fc recipient request val index len p = (r, q) \<Longrightarrow>
      q = p \<and> (\<forall>d. r = Inr (Some d) \<longrightarrow> 0 \<le> len \<longrightarrow> int (length d) \<le> len)"
    and class_read: "fc_ClassControlRead fc recipient request val index len p = (r, q) \<Longrightarrow>
      q = p \<and> (\<forall>d. r = Inr (Some d) \<longrightarrow> 0 \<le> len \<longrightarrow> int (length d) \<le> len)"
    and vendor_read: "fc_VendorControlRead fc recipient request val index len p = (r, q) \<Longrightarrow>
      q = p \<and> (\<forall>d. r = Inr (Some d) \<longrightarrow> 0 \<le> len \<longrightarrow> int (length d) \<le> len)"
begin

lemma on_feature_read:
  assumes "on_feature k ask g = (r, g')"
    and "\<And>p r q. ask p = (r, q) \<Longrightarrow> q = p \<and> (\<forall>d. r = Inr (Some d) \<longrightarrow> 0 \<le> len \<longrightarrow> int (length d) \<le> len)"
  shows "g' = g \<and> (\<forall>d. r = Inr (Some d) \<longrightarrow> 0 \<le> len \<longrightarrow> int (length d) \<le> len)"
proof -
  obtain q f h where ask: "ask (cg_features g ! k, g) = (q, (f, h))" by (metis surj_pair)
  with assms(2) [OF ask] assms(1) show ?thesis
    by (cases g) (auto simp: on_feature_def list_update_id)
qed

lemma or_feature_read:
  assumes "or_feature (\<lambda>g. (own g, g)) ask recipient index g = (r, g')"
    and "\<And>p r q. ask p = (r, q) \<Longrightarrow> q = p \<and> (\<forall>d. r = Inr (Some d) \<longrightarrow> 0 \<le> len \<longrightarrow> int (length d) \<le> len)"
    and "\<And>d. own g = Inr (Some d) \<Longrightarrow> P \<Longrightarrow> 0 \<le> len \<Longrightarrow> int (length d) \<le> len"
  shows "g' = g \<and> (\<forall>d. r = Inr (Some d) \<longrightarrow> P \<longrightarrow> 0 \<le> len \<longrightarrow> int (length d) \<le> len)"
  using assms(1) assms(3) on_feature_read [of _ ask g r g' len, OF _ assms(2)]
  by (auto simp: or_feature_eq split: sum.splits option.splits)

text \<open>Control reads of the composite device change nothing and fit, the language table apart.\<close>

lemma cg_ControlRead_pure_bounded:
  assumes "cg_ControlRead fc request_type request val index len g = (r, g')"
  shows "g' = g \<and> (\<forall>d. r = Inr (Some d) \<longrightarrow> val \<noteq> 0x0300 \<longrightarrow> 0 \<le> len \<longrightarrow> int (length d) \<le> len)"
proof -
  let ?rc = "request_type AND Recipient_MASK"
  have std: "g' = g \<and> (\<forall>d. r = Inr (Some d) \<longrightarrow> val \<noteq> 0x0300 \<longrightarrow> 0 \<le> len \<longrightarrow> int (length d) \<le> len)"
    if "cg_StandardControlRead fc ?rc request val index len g = (r, g')"
    using that unfolding cg_StandardControlRead_def
    by (rule or_feature_read [where P = "val \<noteq> 0x0300"])
      (erule standard_read, erule StandardControlRead_bound, assumption+)
  have ven: "g' = g \<and> (\<forall>d. r = Inr (Some d) \<longrightarrow> val \<noteq> 0x0300 \<longrightarrow> 0 \<le> len \<longrightarrow> int (length d) \<le> len)"
    if "cg_VendorControlRead fc ?rc request val index len g = (r, g')"
    using that unfolding cg_VendorControlRead_def
    by (rule or_feature_read [where P = "val \<noteq> 0x0300"])
      (erule vendor_read, erule VendorControlRead_bound, assumption+)
  have cls: "g' = g \<and> (\<forall>d. r = Inr (Some d) \<longrightarrow> val \<noteq> 0x0300 \<longrightarrow> 0 \<le> len \<longrightarrow> int (length d) \<le> len)"
    if "cg_ClassControlRead fc ?rc request val index len g = (r, g')"
    using that unfolding cg_ClassControlRead_def
    by (rule or_feature_read [where P = "val \<noteq> 0x0300"])
      (erule class_read, simp add: ClassControlRead_def)
  let ?ty = "request_type AND Type_MASK"
  consider "request_type AND Dir_IN = 0"
    | "request_type AND Dir_IN \<noteq> 0" "?ty \<noteq> Type_STANDARD" "?ty \<noteq> Type_CLASS" "?ty \<noteq> Type_VENDOR"
    | (s) "request_type AND Dir_IN \<noteq> 0" "?ty = Type_STANDARD"
    | (c) "request_type AND Dir_IN \<noteq> 0" "?ty = Type_CLASS"
    | (v) "request_type AND Dir_IN \<noteq> 0" "?ty = Type_VENDOR" by blast
  then show ?thesis
  proof cases
    case s
    with assms have "cg_StandardControlRead fc ?rc request val index len g = (r, g')"
      by (simp add: cg_ControlRead_def)
    then show ?thesis by (rule std)
  next
    case c
    with assms have "cg_ClassControlRead fc ?rc request val index len g = (r, g')"
      by (simp add: cg_ControlRead_def)
    then show ?thesis by (rule cls)
  next
    case v
    with assms have "cg_VendorControlRead fc ?rc request val index len g = (r, g')"
      by (simp add: cg_ControlRead_def)
    then show ?thesis by (rule ven)
  qed (use assms in \<open>auto simp: cg_ControlRead_def raise_st_def return_st_def\<close>)
qed

end

end
