(* ===== verification/Hid_Descriptors.thy ===== *)
theory Hid_Descriptors
  imports Usb_Constants
begin

text \<open>
  hid_descriptors.py: packing of HID report descriptor items. The encoder is related to a parser
  of short items after section 6.2.2.2 of the HID specification: every item comes back with its
  tag, type and value, and whole report descriptors come back as the list of their items with
  collections properly nested.
\<close>

section \<open>Items\<close>

definition item_prefix :: "int \<Rightarrow> int \<Rightarrow> int \<Rightarrow> int" where
  "item_prefix tag typ sz = push_bit 4 tag OR push_bit 2 typ OR sz"

definition PackItem :: "int \<Rightarrow> int \<Rightarrow> int \<Rightarrow> int \<Rightarrow> bytes res" where
  "PackItem tag typ val force_length =
     (if val = 0 \<and> force_length \<le> 0 then
        struct_pack [F_B] [PInt (item_prefix tag typ 0)]
      else if val \<le> 0xff \<and> force_length \<le> 1 then
        struct_pack [F_B, F_B] [PInt (item_prefix tag typ 1), PInt val]
      else if val \<le> 0xffff \<and> force_length \<le> 2 then
        struct_pack [F_B, F_H] [PInt (item_prefix tag typ 2), PInt val]
      else if val \<le> 0xffffffff \<and> force_length \<le> 4 then
        struct_pack [F_B, F_I] [PInt (item_prefix tag typ 3), PInt val]
      else Inl NotImplementedError)"

text \<open>
  \<^verbatim>\<open>_DefineItem(name, tag, typ)\<close> returns the function of \<^verbatim>\<open>(value, force_length)\<close>;
  the assertions run when the item is defined.
\<close>

definition DefineItem :: "int \<Rightarrow> int \<Rightarrow> (int \<Rightarrow> int \<Rightarrow> bytes res) res" where
  "DefineItem tag typ =
     (if \<not> (tag \<ge> 0 \<and> tag \<le> 0xF) then Inl AssertionError
      else if \<not> (typ \<ge> 0 \<and> typ \<le> 3) then Inl AssertionError
      else Inr (\<lambda>val force_length. PackItem tag typ val force_length))"

definition main_item_value :: "(nat \<times> bool) list \<Rightarrow> int" where
  "main_item_value properties =
     fold (\<lambda>(b, is_set) val. if is_set then val OR push_bit b 1 else val) properties 0"

definition DefineMainItem :: "int \<Rightarrow> ((nat \<times> bool) list \<Rightarrow> bytes res) res" where
  "DefineMainItem tag =
     (if \<not> (tag \<ge> 0 \<and> tag \<le> 0xF) then Inl AssertionError
      else Inr (\<lambda>properties. PackItem tag HidScope_MAIN (main_item_value properties) 1))"

text \<open>The module's items: the value of a definition that passed its assertions.\<close>

definition Input :: "(nat \<times> bool) list \<Rightarrow> bytes res" where "Input = projr (DefineMainItem 8)"
definition Output :: "(nat \<times> bool) list \<Rightarrow> bytes res" where "Output = projr (DefineMainItem 9)"
definition Feature :: "(nat \<times> bool) list \<Rightarrow> bytes res" where "Feature = projr (DefineMainItem 11)"

subsection \<open>Properties of main items\<close>

abbreviation (input) Data :: "nat \<times> bool" where "Data \<equiv> (0, False)"
abbreviation (input) Constant :: "nat \<times> bool" where "Constant \<equiv> (0, True)"
abbreviation (input) Array :: "nat \<times> bool" where "Array \<equiv> (1, False)"
abbreviation (input) Variable :: "nat \<times> bool" where "Variable \<equiv> (1, True)"
abbreviation (input) Absolute :: "nat \<times> bool" where "Absolute \<equiv> (2, False)"
abbreviation (input) Relative :: "nat \<times> bool" where "Relative \<equiv> (2, True)"
abbreviation (input) NoWrap :: "nat \<times> bool" where "NoWrap \<equiv> (3, False)"
abbreviation (input) Wrap :: "nat \<times> bool" where "Wrap \<equiv> (3, True)"
abbreviation (input) Linear :: "nat \<times> bool" where "Linear \<equiv> (4, False)"
abbreviation (input) NonLinear :: "nat \<times> bool" where "NonLinear \<equiv> (4, True)"
abbreviation (input) PreferredState :: "nat \<times> bool" where "PreferredState \<equiv> (5, False)"
abbreviation (input) NoPreferred :: "nat \<times> bool" where "NoPreferred \<equiv> (5, True)"
abbreviation (input) NoNullPosition :: "nat \<times> bool" where "NoNullPosition \<equiv> (6, False)"
abbreviation (input) NullState :: "nat \<times> bool" where "NullState \<equiv> (6, True)"
abbreviation (input) NonVolatile :: "nat \<times> bool" where "NonVolatile \<equiv> (7, False)"
abbreviation (input) Volatile :: "nat \<times> bool" where "Volatile \<equiv> (7, True)"
abbreviation (input) BitField :: "nat \<times> bool" where "BitField \<equiv> (8, False)"
abbreviation (input) BufferedBytes :: "nat \<times> bool" where "BufferedBytes \<equiv> (8, True)"

subsection \<open>Global and local items\<close>

definition UsagePage :: "int \<Rightarrow> int \<Rightarrow> bytes res" where
  "UsagePage = projr (DefineItem 0 HidScope_GLOBAL)"
definition LogicalMinimum :: "int \<Rightarrow> int \<Rightarrow> bytes res" where
  "LogicalMinimum = projr (DefineItem 1 HidScope_GLOBAL)"
definition LogicalMaximum :: "int \<Rightarrow> int \<Rightarrow> bytes res" where
  "LogicalMaximum = projr (DefineItem 2 HidScope_GLOBAL)"
definition PhysicalMinimum :: "int \<Rightarrow> int \<Rightarrow> bytes res" where
  "PhysicalMinimum = projr (DefineItem 3 HidScope_GLOBAL)"
definition PhysicalMaximum :: "int \<Rightarrow> int \<Rightarrow> bytes res" where
  "PhysicalMaximum = projr (DefineItem 4 HidScope_GLOBAL)"
definition UnitExponent :: "int \<Rightarrow> int \<Rightarrow> bytes res" where
  "UnitExponent = projr (DefineItem 5 HidScope_GLOBAL)"
definition Unit :: "int \<Rightarrow> int \<Rightarrow> bytes res" where
  "Unit = projr (DefineItem 6 HidScope_GLOBAL)"
definition ReportSize :: "int \<Rightarrow> int \<Rightarrow> bytes res" where
  "ReportSize = projr (DefineItem 7 HidScope_GLOBAL)"
definition ReportID :: "int \<Rightarrow> int \<Rightarrow> bytes res" where
  "ReportID = projr (DefineItem 8 HidScope_GLOBAL)"
definition ReportCount :: "int \<Rightarrow> int \<Rightarrow> bytes res" where
  "ReportCount = projr (DefineItem 9 HidScope_GLOBAL)"
definition Push :: "int \<Rightarrow> int \<Rightarrow> bytes res" where
  "Push = projr (DefineItem 10 HidScope_GLOBAL)"
definition Pop :: "int \<Rightarrow> int \<Rightarrow> bytes res" where
  "Pop = projr (DefineItem 11 HidScope_GLOBAL)"

definition Usage :: "int \<Rightarrow> int \<Rightarrow> bytes res" where
  "Usage = projr (DefineItem 0 HidScope_LOCAL)"
definition UsageMinimum :: "int \<Rightarrow> int \<Rightarrow> bytes res" where
  "UsageMinimum = projr (DefineItem 1 HidScope_LOCAL)"
definition UsageMaximum :: "int \<Rightarrow> int \<Rightarrow> bytes res" where
  "UsageMaximum = projr (DefineItem 2 HidScope_LOCAL)"
definition DesignatorIndex :: "int \<Rightarrow> int \<Rightarrow> bytes res" where
  "DesignatorIndex = projr (DefineItem 3 HidScope_LOCAL)"
definition DesignatorMinimum :: "int \<Rightarrow> int \<Rightarrow> bytes res" where
  "DesignatorMinimum = projr (DefineItem 4 HidScope_LOCAL)"
definition DesignatorMaximum :: "int \<Rightarrow> int \<Rightarrow> bytes res" where
  "DesignatorMaximum = projr (DefineItem 5 HidScope_LOCAL)"
definition StringIndex :: "int \<Rightarrow> int \<Rightarrow> bytes res" where
  "StringIndex = projr (DefineItem 7 HidScope_LOCAL)"
definition StringMinimum :: "int \<Rightarrow> int \<Rightarrow> bytes res" where
  "StringMinimum = projr (DefineItem 8 HidScope_LOCAL)"
definition StringMaximum :: "int \<Rightarrow> int \<Rightarrow> bytes res" where
  "StringMaximum = projr (DefineItem 9 HidScope_LOCAL)"
definition Delimiter :: "int \<Rightarrow> int \<Rightarrow> bytes res" where
  "Delimiter = projr (DefineItem 10 HidScope_LOCAL)"

lemmas hid_item_defs =
  DefineItem_def DefineMainItem_def Input_def Output_def Feature_def
  UsagePage_def LogicalMinimum_def LogicalMaximum_def PhysicalMinimum_def PhysicalMaximum_def
  UnitExponent_def Unit_def ReportSize_def ReportID_def ReportCount_def Push_def Pop_def
  Usage_def UsageMinimum_def UsageMaximum_def DesignatorIndex_def DesignatorMinimum_def
  DesignatorMaximum_def StringIndex_def StringMinimum_def StringMaximum_def Delimiter_def

subsection \<open>Report descriptors and collections\<close>

text \<open>The items are arguments: they are evaluated from left to right before the call.\<close>

definition ReportDescriptor :: "bytes res list \<Rightarrow> bytes res" where
  "ReportDescriptor items = bind_res (map_res (\<lambda>r. r) items) (\<lambda>bufs. Inr (concat bufs))"

definition Collection :: "int \<Rightarrow> bytes res list \<Rightarrow> bytes res" where
  "Collection typ items =
     bind_res (map_res (\<lambda>r. r) items) (\<lambda>bufs.
     bind_res (struct_pack [F_B, F_B] [PInt 0xA1, PInt typ]) (\<lambda>start.
     bind_res (struct_pack [F_B] [PInt 0xC0]) (\<lambda>endb.
       Inr (start @ concat bufs @ endb))))"

section \<open>Parsing items back\<close>

text \<open>
  The host's reading of a short item: the two low bits of the prefix are the data size (3 means
  four bytes), then two bits of type and four of tag. The prefix 0xFE starts a long item, which
  is not a short item.
\<close>

definition item_data_size :: "int \<Rightarrow> nat" where
  "item_data_size p = (if p mod 4 = 3 then 4 else nat (p mod 4))"

definition parse_item :: "bytes \<Rightarrow> ((int \<times> int \<times> int) \<times> bytes) option" where
  "parse_item bs =
     (case bs of
        [] \<Rightarrow> None
      | b # rest \<Rightarrow>
          (let p = uint b; n = item_data_size p in
           if p = 0xFE \<or> length rest < n then None
           else Some ((p div 16, p div 4 mod 4, le_unpack (take n rest)), drop n rest)))"

lemma item_prefix_arith:
  assumes "0 \<le> tag" "0 \<le> typ" "typ < 4" "0 \<le> sz" "sz < 4"
  shows "item_prefix tag typ sz = 16 * tag + 4 * typ + sz"
proof -
  have small: "take_bit 2 sz = sz" "take_bit 2 typ = typ"
    using assms by (simp_all add: take_bit_int_eq_self)
  have "push_bit 2 typ AND sz = push_bit 2 typ AND take_bit 2 sz" by (simp add: small)
  also have "\<dots> = 0" by (auto simp: bit_eq_iff bit_simps)
  finally have 1: "push_bit 2 typ OR sz = push_bit 2 typ + sz"
    by (simp add: disjunctive_add_eq_or)
  have 2: "push_bit 2 typ + sz = 4 * typ + sz" by (simp add: push_bit_eq_mult)
  have "take_bit 4 (4 * typ + sz) = 4 * typ + sz"
    using assms by (intro take_bit_int_eq_self) auto
  then have "push_bit 4 tag AND (4 * typ + sz) = push_bit 4 tag AND take_bit 4 (4 * typ + sz)"
    by simp
  also have "\<dots> = 0" by (auto simp: bit_eq_iff bit_simps)
  finally have "push_bit 4 tag OR (4 * typ + sz) = push_bit 4 tag + (4 * typ + sz)"
    by (simp add: disjunctive_add_eq_or)
  then show ?thesis unfolding item_prefix_def or.assoc 1 2 by (simp add: push_bit_eq_mult)
qed

text \<open>
  The size code of an item: the least data size that holds the value and is not below the forced
  length; none when four bytes are not enough.
\<close>

definition item_code :: "int \<Rightarrow> int \<Rightarrow> int option" where
  "item_code val fl =
     (if val = 0 \<and> fl \<le> 0 then Some 0 else if val \<le> 0xff \<and> fl \<le> 1 then Some 1
      else if val \<le> 0xffff \<and> fl \<le> 2 then Some 2
      else if val \<le> 0xffffffff \<and> fl \<le> 4 then Some 3 else None)"

lemma item_code_range: "item_code val fl = Some k \<Longrightarrow> 0 \<le> k \<and> k < 4 \<and> val < 256 ^ item_data_size k"
  by (auto simp: item_code_def item_data_size_def split: if_splits)

lemma item_data_size_simps [simp]:
  "item_data_size 0 = 0" "item_data_size 1 = 1" "item_data_size 2 = 2" "item_data_size 3 = 4"
  by (simp_all add: item_data_size_def)

lemma pack_B: "0 \<le> i \<Longrightarrow> i < 256 \<Longrightarrow> pack_uint 1 (PInt i) = Inr [word_of_int i]"
  by (simp add: pack_uint_def)

lemma PackItem_result:
  assumes "0 \<le> tag" "tag < 16" "0 \<le> typ" "typ < 4"
  shows "PackItem tag typ val fl =
    (case item_code val fl of
       None \<Rightarrow> Inl NotImplementedError
     | Some k \<Rightarrow>
         if val < 0 then Inl StructError
         else Inr (word_of_int (16 * tag + 4 * typ + k) # le_pack (item_data_size k) val))"
proof -
  have p: "pack_code F_B (PInt (item_prefix tag typ k)) = Inr [word_of_int (16 * tag + 4 * typ + k)]"
    if "0 \<le> k" "k < 4" for k
    using assms that item_prefix_arith [of tag "typ" k] pack_B [of "16 * tag + 4 * typ + k"] by simp
  show ?thesis
    unfolding PackItem_def item_code_def
    by (auto simp: p pack_uint_def simp del: pack_code.simps(3) le_pack.simps(2)
        simp add: pack_code.simps(3) [of "PInt val"])
qed

lemma parse_packed_item:
  assumes tg: "0 \<le> tag" "tag < 16" and ty: "0 \<le> typ" "typ < 3"
    and pack: "PackItem tag typ val fl = Inr bs"
  shows "parse_item (bs @ rest) = Some ((tag, typ, val), rest)"
proof -
  from pack tg ty obtain k where k: "item_code val fl = Some k" and v: "0 \<le> val"
    and bs: "bs = word_of_int (16 * tag + 4 * typ + k) # le_pack (item_data_size k) val"
    by (auto simp: PackItem_result split: option.splits if_splits)
  from item_code_range [OF k] have kb: "0 \<le> k" "k < 4" "val < 256 ^ item_data_size k" by simp_all
  define p where "p = 16 * tag + 4 * typ + k"
  have u: "uint (word_of_int p :: byte) = p"
    unfolding uint_byte_of_int p_def using tg ty kb by simp
  have d4: "p div 4 = 4 * tag + typ" by (rule int_div_pos_eq [of _ _ _ k]) (use kb in \<open>auto simp: p_def\<close>)
  have p: "p mod 4 = k" "p div 16 = tag" "p div 4 mod 4 = typ" "p \<noteq> 0xFE"
    subgoal by (rule int_mod_pos_eq [of _ _ "4 * tag + typ"]) (use kb in \<open>auto simp: p_def\<close>)
    subgoal by (rule int_div_pos_eq [of _ _ _ "4 * typ + k"]) (use kb ty in \<open>auto simp: p_def\<close>)
    subgoal unfolding d4 by (rule int_mod_pos_eq [of _ _ tag]) (use ty in auto)
    subgoal using tg ty kb unfolding p_def by linarith
    done
  moreover have "item_data_size p = item_data_size k"
    using kb p(1) by (simp add: item_data_size_def)
  ultimately show ?thesis
    using le_unpack_pack [OF v kb(3)] unfolding parse_item_def bs p_def [symmetric]
    by (simp add: u Let_def)
qed

section \<open>Whole report descriptors\<close>

text \<open>
  A report descriptor is written in the sources as nested calls: items and collections of such.
  The calls form a tree, which the parser flattens to the list of items with the collection
  opener (main item 10) and closer (main item 12) around the contents.
\<close>

datatype report_tree = Item int int int int | Coll int "report_tree list"

fun encode_tree :: "report_tree \<Rightarrow> bytes res" where
  "encode_tree (Item tag typ val force_length) = PackItem tag typ val force_length"
| "encode_tree (Coll typ ts) = Collection typ (map encode_tree ts)"

fun tree_tokens :: "report_tree \<Rightarrow> (int \<times> int \<times> int) list" where
  "tree_tokens (Item tag typ val force_length) = [(tag, typ, val)]"
| "tree_tokens (Coll typ ts) = (10, 0, typ) # concat (map tree_tokens ts) @ [(12, 0, 0)]"

fun wf_tree :: "report_tree \<Rightarrow> bool" where
  "wf_tree (Item tag typ val force_length) \<longleftrightarrow>
     0 \<le> tag \<and> tag < 16 \<and> 0 \<le> typ \<and> typ < 3 \<and> (typ = 0 \<longrightarrow> tag \<noteq> 10 \<and> tag \<noteq> 12)"
| "wf_tree (Coll typ ts) \<longleftrightarrow> (\<forall>t \<in> set ts. wf_tree t)"

lemma parse_item_shorter: "parse_item bs = Some (t, rest) \<Longrightarrow> length rest < length bs"
  by (auto simp: parse_item_def Let_def split: list.splits if_splits)

function parse_items :: "bytes \<Rightarrow> (int \<times> int \<times> int) list option" where
  "parse_items bs =
     (if bs = [] then Some []
      else case parse_item bs of
        None \<Rightarrow> None
      | Some (t, rest) \<Rightarrow> map_option (\<lambda>ts. t # ts) (parse_items rest))"
  by pat_completeness auto
termination
  by (relation "measure length") (auto dest: parse_item_shorter)

declare parse_items.simps [simp del]

lemma parse_items_step:
  "parse_item bs = Some (t, rest) \<Longrightarrow> parse_items bs = map_option (\<lambda>ts. t # ts) (parse_items rest)"
  by (subst parse_items.simps) (auto simp: parse_item_def)

lemma collection_brackets:
  "parse_item ([0xA1, b] @ rest) = Some ((10, 0, uint b), rest)"
  "parse_item (0xC0 # rest) = Some ((12, 0, 0), rest)"
  by (simp_all add: parse_item_def Let_def item_data_size_def)

lemma Collection_result:
  "Collection ct ts = Inr bs \<longleftrightarrow>
     (\<exists>bufs. map_res (\<lambda>r. r) ts = Inr bufs \<and> 0 \<le> ct \<and> ct < 256
        \<and> bs = [0xA1, word_of_int ct] @ concat bufs @ [0xC0])"
  by (auto simp: Collection_def bind_res_Inr_iff pack_uint_def split: if_splits)

lemma parse_tree:
  "wf_tree t \<Longrightarrow> encode_tree t = Inr bs \<Longrightarrow>
     parse_items (bs @ rest) = map_option (\<lambda>ts. tree_tokens t @ ts) (parse_items rest)"
proof (induction t arbitrary: bs rest)
  case (Item tag ty v fl)
  then have "parse_item (bs @ rest) = Some ((tag, ty, v), rest)"
    by (intro parse_packed_item) auto
  then show ?case by (simp add: parse_items_step)
next
  case (Coll ct ts)
  from Coll.prems(2) obtain bufs where bufs: "map_res encode_tree ts = Inr bufs"
    and ct: "0 \<le> ct" "ct < 256" and bs: "bs = [0xA1, word_of_int ct] @ concat bufs @ [0xC0]"
    by (auto simp: Collection_result map_res_Inr_iff list.rel_map)
  have inner: "parse_items (concat bufs @ r) =
      map_option (\<lambda>us. concat (map tree_tokens ts) @ us) (parse_items r)" for r
    using bufs Coll.IH Coll.prems(1)
  proof (induction ts arbitrary: bufs)
    case (Cons u us)
    from Cons.prems(1) obtain b bs' where b: "encode_tree u = Inr b"
      and us: "map_res encode_tree us = Inr bs'" and bufs: "bufs = b # bs'"
      by (auto simp: bind_res_Inr_iff)
    have "parse_items (concat bs' @ r) =
        map_option (\<lambda>ws. concat (map tree_tokens us) @ ws) (parse_items r)"
      using Cons.prems by (intro Cons.IH [OF us]) auto
    moreover have "parse_items (b @ q) = map_option (\<lambda>ws. tree_tokens u @ ws) (parse_items q)" for q
      using Cons.prems(2,3) b by simp
    ultimately show ?case by (cases "parse_items r") (simp_all add: bufs)
  qed (cases "parse_items r"; simp)
  have "uint (word_of_int ct :: byte) = ct"
    unfolding uint_byte_of_int using ct by simp
  then have "parse_items (bs @ rest) =
      map_option (\<lambda>us. (10, 0, ct) # us) (parse_items (concat bufs @ 0xC0 # rest))"
    using collection_brackets(1) [of "word_of_int ct" "concat bufs @ 0xC0 # rest"]
    by (simp add: bs parse_items_step)
  also have "\<dots> = map_option (\<lambda>us. tree_tokens (Coll ct ts) @ us) (parse_items rest)"
    by (cases "parse_items rest")
      (simp_all add: inner parse_items_step [OF collection_brackets(2)])
  finally show ?case .
qed

text \<open>Collections nest: an opener adds a level, a closer takes one away, nothing goes below zero.\<close>

fun nesting :: "(int \<times> int \<times> int) list \<Rightarrow> nat \<Rightarrow> nat option" where
  "nesting [] n = Some n"
| "nesting ((tag, typ, val) # ts) n =
     (if typ = 0 \<and> tag = 10 then nesting ts (Suc n)
      else if typ = 0 \<and> tag = 12 then (case n of 0 \<Rightarrow> None | Suc m \<Rightarrow> nesting ts m)
      else nesting ts n)"

lemma nesting_tree: "wf_tree t \<Longrightarrow> nesting (tree_tokens t @ us) n = nesting us n"
proof (induction t arbitrary: us n)
  case (Coll ct ts)
  have "nesting (concat (map tree_tokens ts) @ us) n = nesting us n" for us n
    using Coll by (induction ts arbitrary: us n) simp_all
  then show ?case by simp
qed auto

lemma ReportDescriptor_trees:
  assumes wf: "\<And>t. t \<in> set ts \<Longrightarrow> wf_tree t"
    and enc: "ReportDescriptor (map encode_tree ts) = Inr bs"
  shows "parse_items bs = Some (concat (map tree_tokens ts))"
    and "nesting (concat (map tree_tokens ts)) 0 = Some 0"
proof -
  from enc obtain bufs where bufs: "map_res encode_tree ts = Inr bufs" and bs: "bs = concat bufs"
    by (auto simp: ReportDescriptor_def bind_res_Inr_iff map_res_Inr_iff list.rel_map)
  have "parse_items (concat bufs) = Some (concat (map tree_tokens ts))"
    using wf bufs
  proof (induction ts arbitrary: bufs)
    case (Cons t ts)
    then obtain b bs' where "encode_tree t = Inr b" and ts: "map_res encode_tree ts = Inr bs'"
      and "bufs = b # bs'"
      by (auto simp: bind_res_Inr_iff)
    moreover have "parse_items (concat bs') = Some (concat (map tree_tokens ts))"
      using Cons.prems(1) by (intro Cons.IH [OF _ ts]) simp
    moreover have "wf_tree t" using Cons.prems(1) by simp
    ultimately show ?case by (simp add: parse_tree)
  qed (simp add: parse_items.simps)
  then show "parse_items bs = Some (concat (map tree_tokens ts))" by (simp add: bs)
  show "nesting (concat (map tree_tokens ts)) 0 = Some 0"
    using wf by (induction ts) (simp_all add: nesting_tree)
qed

end
