(* ===== verification/Hid_Gadget.thy ===== *)
theory Hid_Gadget
  imports Composite_Routing Hid_Descriptors
begin

text \<open>
  hid_gadget.py: the HID function of a composite device. It answers report descriptor and report
  requests, and dispatches reports to the HID features registered for their report ids. A HID
  feature is known by its table of methods (\<open>hid_class\<close>).
\<close>

section \<open>HID features\<close>

text \<open>The attributes of \<^verbatim>\<open>HidFeature\<close>.\<close>

record hid_feature =
  hf_gadget :: bool
  hf_report_id :: "int option"

definition HidFeature_init :: hid_feature where
  "HidFeature_init = \<lparr>hf_gadget = False, hf_report_id = None\<rparr>"

definition hf_Connected :: "int \<Rightarrow> 'z hid_feature_scheme \<Rightarrow> 'z hid_feature_scheme" where
  "hf_Connected report_id f = f\<lparr>hf_gadget := True, hf_report_id := Some report_id\<rparr>"

definition hf_Disconnected :: "'z hid_feature_scheme \<Rightarrow> 'z hid_feature_scheme" where
  "hf_Disconnected f = f\<lparr>hf_gadget := False, hf_report_id := None\<rparr>"

definition hf_IsConnected :: "'z hid_feature_scheme \<Rightarrow> bool" where
  "hf_IsConnected f = hf_gadget f"

text \<open>The attributes \<^verbatim>\<open>HidCompositeFeature\<close> adds to a feature of a composite gadget.\<close>

record 'h hid_composite = composite_feature +
  hc_report_desc :: bytes
  hc_features :: "(int \<times> 'h) list"
  hc_interface_number :: int
  hc_in_endpoint :: int
  hc_out_endpoint :: "int option"

text \<open>\<^verbatim>\<open>HidCompositeFeature.SendReport\<close>; packing a missing report id fails.\<close>

definition hc_SendReport ::
    "'c chip_ops \<Rightarrow> int option \<Rightarrow> bytes \<Rightarrow> ('h hid_composite \<times> ('c, 'y) gadget_scheme, unit) st" where
  "hc_SendReport ops report_id data p =
     (if report_id = Some 0 then feature_SendPacket ops (hc_in_endpoint (fst p)) data p
      else
        case bind_res (case report_id of None \<Rightarrow> Inl StructError | Some i \<Rightarrow> struct_pack [F_B] [PInt i])
               (\<lambda>b. Inr (b @ data)) of
          Inl e \<Rightarrow> (Inl e, p)
        | Inr packet \<Rightarrow> feature_SendPacket ops (hc_in_endpoint (fst p)) packet p)"

text \<open>\<^verbatim>\<open>HidFeature.SendReport\<close>.\<close>

definition hf_SendReport ::
    "'c chip_ops \<Rightarrow> bytes \<Rightarrow>
     ('z hid_feature_scheme \<times> ('h hid_composite \<times> ('c, 'y) gadget_scheme), unit) st" where
  "hf_SendReport ops data p =
     (if \<not> hf_IsConnected (fst p) then (Inl RuntimeError, p)
      else owner (hc_SendReport ops (hf_report_id (fst p)) data) p)"

text \<open>The methods of a HID feature; the inherited report handlers return None.\<close>

record ('h, 't) hid_class =
  hm_Connected :: "int \<Rightarrow> 'h \<Rightarrow> 'h"
  hm_Disconnected :: "'h \<Rightarrow> 'h"
  hm_SetInputReport :: "bytes \<Rightarrow> ('h \<times> 't, bool option) st"
  hm_SetOutputReport :: "bytes \<Rightarrow> ('h \<times> 't, bool option) st"
  hm_SetFeatureReport :: "bytes \<Rightarrow> ('h \<times> 't, bool option) st"
  hm_GetInputReport :: "'h \<Rightarrow> bytes option res"
  hm_GetOutputReport :: "'h \<Rightarrow> bytes option res"
  hm_GetFeatureReport :: "'h \<Rightarrow> bytes option res"

type_synonym ('c, 'y, 'h) hm = "('h, 'h hid_composite \<times> ('c, 'y) gadget_scheme) hid_class"

definition hf_SetReport :: "bytes \<Rightarrow> ('h \<times> 't, bool option) st" where
  "hf_SetReport data = return_st None"

definition hf_GetReport :: "'h \<Rightarrow> bytes option res" where
  "hf_GetReport f = Inr None"

section \<open>Construction\<close>

text \<open>
  \<^verbatim>\<open>math.ceil(math.log(n, 2))\<close> for \<open>1 \<le> n\<close>; the logarithm of a smaller number raises. For
  every value that passes the range checks below the floating point result is exact.
\<close>

function ceil_log2 :: "nat \<Rightarrow> nat" where
  "ceil_log2 n = (if n \<le> 1 then 0 else Suc (ceil_log2 ((n + 1) div 2)))"
  by auto
termination by (relation "measure id") auto

declare ceil_log2.simps [simp del]

lemma ceil_log2_le: "ceil_log2 n \<le> k \<longleftrightarrow> n \<le> 2 ^ k"
proof (induction n arbitrary: k rule: ceil_log2.induct)
  case (1 n)
  show ?case
  proof (cases "n \<le> 1")
    case True
    then show ?thesis by (simp add: ceil_log2.simps) (metis One_nat_def le_trans one_le_numeral one_le_power)
  next
    case False
    have "(n + 1) div 2 \<le> 2 ^ j \<longleftrightarrow> n \<le> 2 ^ Suc j" for j
      by simp linarith
    with False 1 [OF False] show ?thesis by (cases k) (simp_all add: ceil_log2.simps [of n])
  qed
qed

definition interval_exponent :: "int \<Rightarrow> int res" where
  "interval_exponent interval_ms =
     (if interval_ms < 1 then Inl ValueError else Inr (int (ceil_log2 (nat interval_ms))))"

definition interrupt_endpoint :: "int \<Rightarrow> int \<Rightarrow> int \<Rightarrow> descriptor res" where
  "interrupt_endpoint addr packet_size interval =
     new_descriptor C_Endpoint
       [(''bEndpointAddress'', PInt addr), (''bmAttributes'', PInt TransferType_INTERRUPT),
        (''wMaxPacketSize'', PInt packet_size), (''bInterval'', PInt interval)]"

definition hid_interface :: "int \<Rightarrow> int \<Rightarrow> descriptor res" where
  "hid_interface interface_number interface_string =
     new_descriptor C_Interface
       [(''bInterfaceNumber'', PInt interface_number), (''bInterfaceClass'', PInt DeviceClass_HID),
        (''bInterfaceSubClass'', PInt 0), (''bInterfaceProtocol'', PInt 0),
        (''iInterface'', PInt interface_string)]"

text \<open>Creating an endpoint descriptor and adding it.\<close>

definition add_interrupt_endpoint :: "descriptor \<Rightarrow> int \<Rightarrow> int \<Rightarrow> int \<Rightarrow> descriptor res" where
  "add_interrupt_endpoint d addr packet_size interval =
     bind_res (interrupt_endpoint addr packet_size interval) (\<lambda>e. AddEndpoint d e)"

definition HidCompositeFeature_init ::
    "bytes \<Rightarrow> (int \<times> 'h) list \<Rightarrow> int \<Rightarrow> int \<Rightarrow> int \<Rightarrow> int \<Rightarrow> int \<Rightarrow> int option \<Rightarrow> 'h hid_composite res" where
  "HidCompositeFeature_init report_desc features packet_size interval_ms interface_number
       interface_string in_endpoint out_endpoint =
     bind_res (hid_interface interface_number interface_string) (\<lambda>fs_interface_desc.
     bind_res (hid_interface interface_number interface_string) (\<lambda>hs_interface_desc.
     bind_res (new_descriptor C_Hid []) (\<lambda>hid_desc.
     let hid_desc = AddDescriptor hid_desc HidDescriptorType_REPORT (int (length report_desc));
         fs_interface_desc = Add fs_interface_desc hid_desc;
         hs_interface_desc = Add hs_interface_desc hid_desc in
     bind_res (interval_exponent interval_ms) (\<lambda>log_interval.
     let fs_interval = log_interval + 1 in
     if fs_interval < 1 \<or> fs_interval > 16 then Inl ValueError
     else
     bind_res (add_interrupt_endpoint fs_interface_desc in_endpoint packet_size fs_interval)
       (\<lambda>fs_interface_desc.
     let hs_interval = log_interval + 4 in
     if hs_interval < 1 \<or> hs_interval > 16 then Inl ValueError
     else
     bind_res (add_interrupt_endpoint hs_interface_desc in_endpoint packet_size hs_interval)
       (\<lambda>hs_interface_desc.
     bind_res
       (case out_endpoint of
          None \<Rightarrow> Inr (fs_interface_desc, hs_interface_desc)
        | Some out \<Rightarrow>
            bind_res (add_interrupt_endpoint fs_interface_desc out packet_size fs_interval)
              (\<lambda>fs_interface_desc.
            bind_res (add_interrupt_endpoint hs_interface_desc out packet_size hs_interval)
              (\<lambda>hs_interface_desc. Inr (fs_interface_desc, hs_interface_desc))))
       (\<lambda>(fs_interface_desc, hs_interface_desc).
          Inr (composite_feature.extend
            (CompositeFeature_init [fs_interface_desc] [hs_interface_desc])
            (hid_composite.fields report_desc features interface_number in_endpoint out_endpoint)))))))))"

section \<open>Methods\<close>

text \<open>Running a method of the HID feature registered for a report id.\<close>

definition on_hid ::
    "int \<Rightarrow> ('h \<times> ('h hid_composite \<times> 's), 'a) st \<Rightarrow> ('h hid_composite \<times> 's, 'a) st" where
  "on_hid report_id m p =
     (case dict_get (hc_features (fst p)) report_id of
        None \<Rightarrow> (Inl KeyError, p)
      | Some h \<Rightarrow>
          (case m (h, p) of
             (r, (h', (f, s))) \<Rightarrow>
               (r, (f\<lparr>hc_features := dict_set report_id h' (hc_features f)\<rparr>, s))))"

definition hc_Connected :: "('h, 'h hid_composite \<times> 's) hid_class \<Rightarrow> ('h hid_composite \<times> 's, unit) st" where
  "hc_Connected hm =
     seq_st feature_Connected
       (modify_st (\<lambda>(f, s). (f\<lparr>hc_features :=
          map (\<lambda>(report_id, h). (report_id, hm_Connected hm report_id h)) (hc_features f)\<rparr>, s)))"

definition hc_Disconnected :: "('h, 'h hid_composite \<times> 's) hid_class \<Rightarrow> ('h hid_composite \<times> 's, unit) st" where
  "hc_Disconnected hm =
     seq_st feature_Disconnected
       (modify_st (\<lambda>(f, s). (f\<lparr>hc_features :=
          map (\<lambda>(report_id, h). (report_id, hm_Disconnected hm h)) (hc_features f)\<rparr>, s)))"

definition hc_StandardControlRead ::
    "int \<Rightarrow> int \<Rightarrow> int \<Rightarrow> int \<Rightarrow> int \<Rightarrow> ('h hid_composite \<times> 's, bytes option) st" where
  "hc_StandardControlRead recipient request val index len p =
     (let desc_type = drop_bit 8 val; desc_index = val AND 0xff in
      if recipient = Recipient_INTERFACE \<and> index = hc_interface_number (fst p) \<and>
         desc_type = HidDescriptorType_REPORT \<and> desc_index = 0
      then (Inr (Some (slice_to len (hc_report_desc (fst p)))), p)
      else feature_ControlRead recipient request val index len p)"

text \<open>A report that is None cannot be sliced.\<close>

definition slice_report :: "int \<Rightarrow> bytes option res \<Rightarrow> bytes option res" where
  "slice_report len r =
     bind_res r (\<lambda>report. case report of None \<Rightarrow> Inl TypeError | Some d \<Rightarrow> Inr (Some (slice_to len d)))"

definition GetReport :: "('h, 't) hid_class \<Rightarrow> 'h hid_composite \<Rightarrow> int \<Rightarrow> int \<Rightarrow> int \<Rightarrow> bytes option res" where
  "GetReport hm f report_type report_id len =
     (case dict_get (hc_features f) report_id of
        None \<Rightarrow> Inr None
      | Some feature \<Rightarrow>
          if report_type = HidReportType_INPUT then slice_report len (hm_GetInputReport hm feature)
          else if report_type = HidReportType_OUTPUT then slice_report len (hm_GetOutputReport hm feature)
          else if report_type = HidReportType_FEATURE then slice_report len (hm_GetFeatureReport hm feature)
          else Inr None)"

definition SetReport ::
    "('c, 'y, 'h) hm \<Rightarrow> int \<Rightarrow> int \<Rightarrow> bytes \<Rightarrow> ('h hid_composite \<times> ('c, 'y) gadget_scheme, bool option) st" where
  "SetReport hm report_type report_id data p =
     (if dict_get (hc_features (fst p)) report_id = None then (Inr None, p)
      else if report_type = HidReportType_INPUT then on_hid report_id (hm_SetInputReport hm data) p
      else if report_type = HidReportType_OUTPUT then on_hid report_id (hm_SetOutputReport hm data) p
      else if report_type = HidReportType_FEATURE then on_hid report_id (hm_SetFeatureReport hm data) p
      else (Inr None, p))"

definition hc_ClassControlRead ::
    "('h, 'h hid_composite \<times> 's) hid_class \<Rightarrow> int \<Rightarrow> int \<Rightarrow> int \<Rightarrow> int \<Rightarrow> int \<Rightarrow> ('h hid_composite \<times> 's, bytes option) st" where
  "hc_ClassControlRead hm recipient request val index len p =
     (if recipient \<noteq> Recipient_INTERFACE then (Inr None, p)
      else if index \<noteq> hc_interface_number (fst p) then (Inr None, p)
      else if request = HidRequest_GET_REPORT then
        let report_type = drop_bit 8 val; report_id = val AND 0xFF in
        (GetReport hm (fst p) report_type report_id len, p)
      else (Inr None, p))"

definition hc_ClassControlWrite ::
    "('c, 'y, 'h) hm \<Rightarrow> int \<Rightarrow> int \<Rightarrow> int \<Rightarrow> int \<Rightarrow> bytes \<Rightarrow>
     ('h hid_composite \<times> ('c, 'y) gadget_scheme, bool option) st" where
  "hc_ClassControlWrite hm recipient request val index data p =
     (if recipient \<noteq> Recipient_INTERFACE then (Inr None, p)
      else if index \<noteq> hc_interface_number (fst p) then (Inr None, p)
      else if request = HidRequest_SET_REPORT then
        let report_type = drop_bit 8 val; report_id = val AND 0xFF in
        SetReport hm report_type report_id data p
      else if request = HidRequest_SET_IDLE then (Inr (Some True), p)
      else (Inr None, p))"

definition hc_ReceivePacket ::
    "'c chip_ops \<Rightarrow> ('c, 'y, 'h) hm \<Rightarrow> int \<Rightarrow> bytes \<Rightarrow> ('h hid_composite \<times> ('c, 'y) gadget_scheme, unit) st" where
  "hc_ReceivePacket ops hm endpoint data p =
     (if Some endpoint \<noteq> hc_out_endpoint (fst p) then (Inl AssertionError, p)
      else if dict_get (hc_features (fst p)) 0 \<noteq> None then
        bind_st (on_hid 0 (hm_SetOutputReport hm data)) (\<lambda>_. return_st ()) p
      else case data of
        [] \<Rightarrow> (Inr (), p)
      | b # rest \<Rightarrow>
          let report_id = uint b in
          if dict_get (hc_features (fst p)) report_id = None then feature_HaltEndpoint ops endpoint p
          else
            bind_st (on_hid report_id (hm_SetOutputReport hm rest)) (\<lambda>r.
              if r = None then feature_HaltEndpoint ops endpoint else return_st ()) p)"

end
