(* ===== verification/Hid_Devices.thy ===== *)
theory Hid_Devices
  imports Hid_Gadget
begin

text \<open>
  The HID features of the program: keyboard_gadget.py, mouse_gadget.py and hid_echo_gadget.py (the
  \<^verbatim>\<open>*Feature\<close> classes), their report descriptors, and the key code tables of
  hid_constants.py.
\<close>

type_synonym ('c, 'y, 'd, 'h) hid_state = "'d \<times> ('h hid_composite \<times> ('c, 'y) gadget_scheme)"

section \<open>Keyboard\<close>

definition keyboard_REPORT_DESC :: "bytes res" where
  "keyboard_REPORT_DESC =
     ReportDescriptor
       [UsagePage 0x01 0,
        Usage 0x06 0,
        Collection HidCollectionType_APPLICATION
          [UsagePage 0x07 0, UsageMinimum 224 0, UsageMaximum 231 0,
           LogicalMinimum 0 1, LogicalMaximum 1 0, ReportSize 1 0, ReportCount 8 0,
           Input [Data, Variable, Absolute],
           ReportCount 1 0, ReportSize 8 0, Input [Constant],
           ReportCount 5 0, ReportSize 1 0, UsagePage 0x08 0, UsageMinimum 1 0, UsageMaximum 5 0,
           Output [Data, Variable, Absolute],
           ReportCount 1 0, ReportSize 3 0, Output [Constant],
           ReportCount 6 0, ReportSize 8 0, LogicalMinimum 0 1, LogicalMaximum 101 0,
           UsagePage 0x07 0, UsageMinimum 0 1, UsageMaximum 101 0,
           Input [Data, Array]]]"

record keyboard = hid_feature +
  kb_modifiers :: int
  kb_keys :: "int list"
  kb_leds :: int

definition KeyboardFeature_init :: keyboard where
  "KeyboardFeature_init =
     hid_feature.extend HidFeature_init (keyboard.fields 0 [0, 0, 0, 0, 0, 0] 0)"

definition kb_GetInputReport :: "keyboard \<Rightarrow> bytes res" where
  "kb_GetInputReport k =
     struct_pack [F_B, F_B, F_B, F_B, F_B, F_B, F_B, F_B]
       (PInt (kb_modifiers k) # PInt 0 # map PInt (kb_keys k))"

definition kb_GetOutputReport :: "keyboard \<Rightarrow> bytes res" where
  "kb_GetOutputReport k = struct_pack [F_B] [PInt (kb_leds k)]"

text \<open>\<^verbatim>\<open>if self.IsConnected(): self.SendReport(report)\<close>, where building the report may fail.\<close>

definition send_if_connected ::
    "'c chip_ops \<Rightarrow> ('z hid_feature_scheme \<Rightarrow> bytes res) \<Rightarrow> (('c, 'y, 'z hid_feature_scheme, 'h) hid_state, unit) st" where
  "send_if_connected ops report p =
     (if hf_IsConnected (fst p) then
        (case report (fst p) of Inl e \<Rightarrow> (Inl e, p) | Inr d \<Rightarrow> hf_SendReport ops d p)
      else (Inr (), p))"

definition ModifierDown :: "'c chip_ops \<Rightarrow> int \<Rightarrow> (('c, 'y, keyboard, 'h) hid_state, unit) st" where
  "ModifierDown ops modifier =
     seq_st (modify_st (\<lambda>(k, t). (k\<lparr>kb_modifiers := kb_modifiers k OR modifier\<rparr>, t)))
       (send_if_connected ops kb_GetInputReport)"

definition ModifierUp :: "'c chip_ops \<Rightarrow> int \<Rightarrow> (('c, 'y, keyboard, 'h) hid_state, unit) st" where
  "ModifierUp ops modifier =
     seq_st (modify_st (\<lambda>(k, t). (k\<lparr>kb_modifiers := kb_modifiers k AND NOT modifier\<rparr>, t)))
       (send_if_connected ops kb_GetInputReport)"

text \<open>\<^verbatim>\<open>xs.index(x)\<close>.\<close>

fun list_index :: "'a \<Rightarrow> 'a list \<Rightarrow> nat option" where
  "list_index x [] = None"
| "list_index x (y # ys) = (if x = y then Some 0 else map_option Suc (list_index x ys))"

definition replace_key ::
    "'c chip_ops \<Rightarrow> int \<Rightarrow> int \<Rightarrow> (('c, 'y, keyboard, 'h) hid_state, unit) st" where
  "replace_key ops old new =
     seq_st
       (\<lambda>(k, t). case list_index old (kb_keys k) of
          None \<Rightarrow> (Inl ValueError, (k, t))
        | Some free \<Rightarrow> (Inr (), (k\<lparr>kb_keys := (kb_keys k)[free := new]\<rparr>, t)))
       (send_if_connected ops kb_GetInputReport)"

definition KeyDown :: "'c chip_ops \<Rightarrow> int \<Rightarrow> (('c, 'y, keyboard, 'h) hid_state, unit) st" where
  "KeyDown ops keycode = replace_key ops 0 keycode"

definition KeyUp :: "'c chip_ops \<Rightarrow> int \<Rightarrow> (('c, 'y, keyboard, 'h) hid_state, unit) st" where
  "KeyUp ops keycode = replace_key ops keycode 0"

definition kb_SetOutputReport :: "bytes \<Rightarrow> (keyboard \<times> 't, bool option) st" where
  "kb_SetOutputReport data =
     seq_st (\<lambda>(k, t).
          if length data \<ge> 1 then
            (case unpack_ints [F_B] data of
               Inl e \<Rightarrow> (Inl e, (k, t))
             | Inr vs \<Rightarrow> (Inr (), (k\<lparr>kb_leds := vs ! 0\<rparr>, t)))
          else (Inr (), (k, t)))
       (return_st (Some True))"

section \<open>Mouse\<close>

definition mouse_REPORT_DESC :: "bytes res" where
  "mouse_REPORT_DESC =
     ReportDescriptor
       [UsagePage 0x01 0,
        Usage 0x02 0,
        Collection HidCollectionType_APPLICATION
          [Usage 0x01 0,
           Collection HidCollectionType_PHYSICAL
             [UsagePage 0x09 0, UsageMinimum 1 0, UsageMaximum 3 0,
              LogicalMinimum 0 1, LogicalMaximum 1 0, ReportCount 3 0, ReportSize 1 0,
              Input [Data, Variable, Absolute],
              ReportCount 1 0, ReportSize 5 0, Input [Constant],
              UsagePage 0x01 0, Usage 0x30 0, Usage 0x31 0,
              LogicalMinimum 0x81 0, LogicalMaximum 127 0, ReportSize 8 0, ReportCount 2 0,
              Input [Data, Variable, Relative]]]]"

record mouse = hid_feature +
  ms_buttons :: int

definition MouseFeature_init :: mouse where
  "MouseFeature_init = hid_feature.extend HidFeature_init (mouse.fields 0)"

definition EncodeInputReport :: "int \<Rightarrow> int \<Rightarrow> mouse \<Rightarrow> bytes res" where
  "EncodeInputReport x_displacement y_displacement m =
     struct_pack [F_B, F_b, F_b] [PInt (ms_buttons m), PInt x_displacement, PInt y_displacement]"

definition ButtonDown :: "'c chip_ops \<Rightarrow> int \<Rightarrow> (('c, 'y, mouse, 'h) hid_state, unit) st" where
  "ButtonDown ops button =
     seq_st (modify_st (\<lambda>(m, t). (m\<lparr>ms_buttons := ms_buttons m OR button\<rparr>, t)))
       (send_if_connected ops (EncodeInputReport 0 0))"

definition ButtonUp :: "'c chip_ops \<Rightarrow> int \<Rightarrow> (('c, 'y, mouse, 'h) hid_state, unit) st" where
  "ButtonUp ops button =
     seq_st (modify_st (\<lambda>(m, t). (m\<lparr>ms_buttons := ms_buttons m AND NOT button\<rparr>, t)))
       (send_if_connected ops (EncodeInputReport 0 0))"

definition Move :: "'c chip_ops \<Rightarrow> int \<Rightarrow> int \<Rightarrow> (('c, 'y, mouse, 'h) hid_state, unit) st" where
  "Move ops x_displacement y_displacement =
     send_if_connected ops (EncodeInputReport x_displacement y_displacement)"

section \<open>HID echo\<close>

definition echo_REPORT_DESC :: "bytes res" where
  "echo_REPORT_DESC =
     ReportDescriptor
       [UsagePage 0xFF00 0,
        Usage 0 0,
        Collection HidCollectionType_APPLICATION
          [LogicalMinimum 0 1, LogicalMaximum 255 2, ReportSize 8 0, ReportCount 8 0,
           Usage 0 0, Input [Data, Variable, Absolute],
           Usage 0 0, Output [Data, Variable, Absolute],
           Usage 0 0, Feature [Data, Variable, Absolute]]]"

record hid_echo = hid_feature +
  he_input_output_report :: int
  he_feature_report :: int

definition EchoFeature_init :: hid_echo where
  "EchoFeature_init = hid_feature.extend HidFeature_init (hid_echo.fields 0 0)"

definition he_report :: "hid_echo \<Rightarrow> bytes res" where
  "he_report e = struct_pack [F_Q] [PInt (he_input_output_report e)]"

text \<open>\<^verbatim>\<open>SetInputReport\<close> and \<^verbatim>\<open>SetOutputReport\<close> have the same body.\<close>

definition he_SetInputOutputReport ::
    "'c chip_ops \<Rightarrow> bytes \<Rightarrow> (('c, 'y, hid_echo, 'h) hid_state, bool option) st" where
  "he_SetInputOutputReport ops data =
     seq_st (\<lambda>(e, t). case unpack_ints [F_Q] data of
          Inl err \<Rightarrow> (Inl err, (e, t))
        | Inr vs \<Rightarrow> (Inr (), (e\<lparr>he_input_output_report := vs ! 0\<rparr>, t)))
     (seq_st (\<lambda>p. case he_report (fst p) of Inl err \<Rightarrow> (Inl err, p) | Inr d \<Rightarrow> hf_SendReport ops d p)
       (return_st (Some True)))"

definition he_SetFeatureReport :: "bytes \<Rightarrow> (hid_echo \<times> 't, bool option) st" where
  "he_SetFeatureReport data =
     seq_st (\<lambda>(e, t). case unpack_ints [F_Q] data of
          Inl err \<Rightarrow> (Inl err, (e, t))
        | Inr vs \<Rightarrow> (Inr (), (e\<lparr>he_feature_report := vs ! 0\<rparr>, t)))
       (return_st (Some True))"

definition he_GetFeatureReport :: "hid_echo \<Rightarrow> bytes res" where
  "he_GetFeatureReport e = struct_pack [F_Q] [PInt (he_feature_report e)]"

section \<open>The classes\<close>

datatype hid_device = Keyboard keyboard | Mouse mouse | HidEcho hid_echo

definition on_keyboard :: "(keyboard \<times> 't, 'a) st \<Rightarrow> (hid_device \<times> 't, 'a) st" where
  "on_keyboard m = (\<lambda>(d, t). case d of
      Keyboard k \<Rightarrow> (case m (k, t) of (r, (k', t')) \<Rightarrow> (r, (Keyboard k', t')))
    | _ \<Rightarrow> (Inl AttributeError, (d, t)))"

definition on_mouse :: "(mouse \<times> 't, 'a) st \<Rightarrow> (hid_device \<times> 't, 'a) st" where
  "on_mouse m = (\<lambda>(d, t). case d of
      Mouse k \<Rightarrow> (case m (k, t) of (r, (k', t')) \<Rightarrow> (r, (Mouse k', t')))
    | _ \<Rightarrow> (Inl AttributeError, (d, t)))"

definition on_hid_echo :: "(hid_echo \<times> 't, 'a) st \<Rightarrow> (hid_device \<times> 't, 'a) st" where
  "on_hid_echo m = (\<lambda>(d, t). case d of
      HidEcho k \<Rightarrow> (case m (k, t) of (r, (k', t')) \<Rightarrow> (r, (HidEcho k', t')))
    | _ \<Rightarrow> (Inl AttributeError, (d, t)))"

fun device_Connected :: "int \<Rightarrow> hid_device \<Rightarrow> hid_device" where
  "device_Connected i (Keyboard k) = Keyboard (hf_Connected i k)"
| "device_Connected i (Mouse m) = Mouse (hf_Connected i m)"
| "device_Connected i (HidEcho e) = HidEcho (hf_Connected i e)"

fun device_Disconnected :: "hid_device \<Rightarrow> hid_device" where
  "device_Disconnected (Keyboard k) = Keyboard (hf_Disconnected k)"
| "device_Disconnected (Mouse m) = Mouse (hf_Disconnected m)"
| "device_Disconnected (HidEcho e) = HidEcho (hf_Disconnected e)"

fun device_GetInputReport :: "hid_device \<Rightarrow> bytes option res" where
  "device_GetInputReport (Keyboard k) = bind_res (kb_GetInputReport k) (\<lambda>d. Inr (Some d))"
| "device_GetInputReport (Mouse m) = bind_res (EncodeInputReport 0 0 m) (\<lambda>d. Inr (Some d))"
| "device_GetInputReport (HidEcho e) = bind_res (he_report e) (\<lambda>d. Inr (Some d))"

fun device_GetOutputReport :: "hid_device \<Rightarrow> bytes option res" where
  "device_GetOutputReport (Keyboard k) = bind_res (kb_GetOutputReport k) (\<lambda>d. Inr (Some d))"
| "device_GetOutputReport (Mouse m) = hf_GetReport m"
| "device_GetOutputReport (HidEcho e) = bind_res (he_report e) (\<lambda>d. Inr (Some d))"

fun device_GetFeatureReport :: "hid_device \<Rightarrow> bytes option res" where
  "device_GetFeatureReport (Keyboard k) = hf_GetReport k"
| "device_GetFeatureReport (Mouse m) = hf_GetReport m"
| "device_GetFeatureReport (HidEcho e) = bind_res (he_GetFeatureReport e) (\<lambda>d. Inr (Some d))"

definition device_SetInputReport ::
    "'c chip_ops \<Rightarrow> bytes \<Rightarrow> (('c, 'y, hid_device, hid_device) hid_state, bool option) st" where
  "device_SetInputReport ops data p =
     (case fst p of HidEcho _ \<Rightarrow> on_hid_echo (he_SetInputOutputReport ops data) p | _ \<Rightarrow> hf_SetReport data p)"

definition device_SetOutputReport ::
    "'c chip_ops \<Rightarrow> bytes \<Rightarrow> (('c, 'y, hid_device, hid_device) hid_state, bool option) st" where
  "device_SetOutputReport ops data p =
     (case fst p of
        Keyboard _ \<Rightarrow> on_keyboard (kb_SetOutputReport data) p
      | HidEcho _ \<Rightarrow> on_hid_echo (he_SetInputOutputReport ops data) p
      | _ \<Rightarrow> hf_SetReport data p)"

definition device_SetFeatureReport ::
    "bytes \<Rightarrow> (('c, 'y, hid_device, hid_device) hid_state, bool option) st" where
  "device_SetFeatureReport data p =
     (case fst p of HidEcho _ \<Rightarrow> on_hid_echo (he_SetFeatureReport data) p | _ \<Rightarrow> hf_SetReport data p)"

definition Device_class :: "'c chip_ops \<Rightarrow> ('c, 'y, hid_device) hm" where
  "Device_class ops =
     \<lparr>hm_Connected = device_Connected, hm_Disconnected = device_Disconnected,
      hm_SetInputReport = device_SetInputReport ops, hm_SetOutputReport = device_SetOutputReport ops,
      hm_SetFeatureReport = device_SetFeatureReport, hm_GetInputReport = device_GetInputReport,
      hm_GetOutputReport = device_GetOutputReport, hm_GetFeatureReport = device_GetFeatureReport\<rparr>"

section \<open>Key codes\<close>

text \<open>\<^verbatim>\<open>for key, code in zip(keys, codes): d[key] = code\<close>.\<close>

definition set_codes :: "string list \<Rightarrow> int list \<Rightarrow> (string \<times> int) list \<Rightarrow> (string \<times> int) list" where
  "set_codes ks codes d = fold (\<lambda>(key, code). dict_set key code) (zip ks codes) d"

definition chr_range :: "nat \<Rightarrow> nat \<Rightarrow> string list" where
  "chr_range a b = map (\<lambda>n. [char_of n]) [a..<b]"

definition chars :: "string \<Rightarrow> string list" where
  "chars s = map (\<lambda>c. [c]) s"

definition KEY_CODES :: "(string \<times> int) list" where
  "KEY_CODES =
     (set_codes [''CapsLock'', ''F1'', ''F2'', ''F3'', ''F4'', ''F5'', ''F6'', ''F7'', ''F8'', ''F9'', ''F10'',
        ''F11'', ''F12'', ''PrintScreen'', ''ScrollLock'', ''Pause'', ''Insert'', ''Home'',
        ''PageUp'', ''PageDown'', ''Delete'', ''End'', ''PageDown'', ''RightArrow'',
        ''LeftArrow'', ''DownArrow'', ''UpArrow'', ''NumLock''] [57..83] \<circ>
      set_codes (chars (CHR '';'' # CHR 0x27 # CHR 0x60 # '',./'')) [51..56] \<circ>
      set_codes (chars (''-=[]'' @ [CHR 0x5C])) [45..49] \<circ>
      set_codes [''Enter'', ''Esc'', ''Backspace'', ''Tab'', '' ''] [40..44] \<circ>
      set_codes (chr_range 49 58) [30..38] \<circ>
      set_codes (chr_range 97 123) [4..29]) []"

definition SHIFT_KEY_CODES :: "(string \<times> int) list" where
  "SHIFT_KEY_CODES =
     (set_codes (chars ('':'' @ [CHR 0x22] @ ''~<>?'')) [51..56] \<circ>
      set_codes (chars ''_+{}|'') [45..49] \<circ>
      set_codes (chars ''!@#$%^&*()'') [30..39] \<circ>
      set_codes (chr_range 65 91) [4..29]) []"

end
