(* ===== verification/Usb_Gadgets.thy ===== *)
theory Usb_Gadgets
  imports Hid_Devices
begin

text \<open>
  The devices of the program: the echo feature (echo_gadget.py), the closed world of features, and
  the constructors of the keyboard, mouse, HID echo, echo, composite echo and default gadgets.
\<close>

section \<open>The echo feature\<close>

definition vendor_interface :: "int \<Rightarrow> int \<Rightarrow> kwargs \<Rightarrow> descriptor res" where
  "vendor_interface iface_num iface_string extra =
     new_descriptor C_Interface
       ([(''bInterfaceNumber'', PInt iface_num), (''bInterfaceClass'', PInt DeviceClass_VENDOR),
         (''bInterfaceSubClass'', PInt 0), (''bInterfaceProtocol'', PInt 0),
         (''iInterface'', PInt iface_string)] @ extra)"

definition add_endpoint :: "descriptor \<Rightarrow> int \<Rightarrow> int \<Rightarrow> int \<Rightarrow> int \<Rightarrow> descriptor res" where
  "add_endpoint d addr attributes packet_size interval =
     bind_res (new_descriptor C_Endpoint
       [(''bEndpointAddress'', PInt addr), (''bmAttributes'', PInt attributes),
        (''wMaxPacketSize'', PInt packet_size), (''bInterval'', PInt interval)]) (AddEndpoint d)"

text \<open>An interface with its OUT endpoint and then its IN endpoint.\<close>

definition echo_interface ::
    "int \<Rightarrow> int \<Rightarrow> kwargs \<Rightarrow> int \<Rightarrow> int \<Rightarrow> int \<Rightarrow> int \<Rightarrow> int \<Rightarrow> descriptor res" where
  "echo_interface iface_num iface_string extra in_endpoint out_endpoint attributes packet_size interval =
     bind_res (vendor_interface iface_num iface_string extra) (\<lambda>d.
     bind_res (add_endpoint d out_endpoint attributes packet_size interval) (\<lambda>d.
       add_endpoint d in_endpoint attributes packet_size interval))"

type_synonym echo_endpoint = "int \<times> int \<times> int \<times> int"

definition interrupt_interfaces :: "echo_endpoint \<Rightarrow> (descriptor list \<times> descriptor list) res" where
  "interrupt_interfaces = (\<lambda>(iface_num, iface_string, in_endpoint, out_endpoint).
     bind_res (echo_interface iface_num iface_string [] in_endpoint out_endpoint
       TransferType_INTERRUPT 64 1) (\<lambda>fs_intr_interface_desc.
     bind_res (echo_interface iface_num iface_string [] in_endpoint out_endpoint
       TransferType_INTERRUPT 64 4) (\<lambda>hs_intr_interface_desc.
       Inr ([fs_intr_interface_desc], [hs_intr_interface_desc]))))"

definition bulk_interfaces :: "echo_endpoint \<Rightarrow> (descriptor list \<times> descriptor list) res" where
  "bulk_interfaces = (\<lambda>(iface_num, iface_string, in_endpoint, out_endpoint).
     bind_res (echo_interface iface_num iface_string [] in_endpoint out_endpoint
       TransferType_BULK 64 0) (\<lambda>fs_bulk_interface_desc.
     bind_res (echo_interface iface_num iface_string [] in_endpoint out_endpoint
       TransferType_BULK 512 0) (\<lambda>hs_bulk_interface_desc.
       Inr ([fs_bulk_interface_desc], [hs_bulk_interface_desc]))))"

definition isochronous_interfaces :: "echo_endpoint \<Rightarrow> (descriptor list \<times> descriptor list) res" where
  "isochronous_interfaces = (\<lambda>(iface_num, iface_string, in_endpoint, out_endpoint).
     bind_res (vendor_interface iface_num iface_string []) (\<lambda>fs_default.
     bind_res (echo_interface iface_num iface_string [(''bAlternateSetting'', PInt 1)]
       in_endpoint out_endpoint TransferType_ISOCHRONOUS 1023 1) (\<lambda>fs_isoc_interface_desc.
     bind_res (vendor_interface iface_num iface_string []) (\<lambda>hs_default.
     bind_res (echo_interface iface_num iface_string [(''bAlternateSetting'', PInt 1)]
       in_endpoint out_endpoint TransferType_ISOCHRONOUS 512 4) (\<lambda>hs_isoc_interface_desc.
       Inr ([fs_default, fs_isoc_interface_desc], [hs_default, hs_isoc_interface_desc]))))))"

definition EchoCompositeFeature_init :: "echo_endpoint list \<Rightarrow> composite_feature res" where
  "EchoCompositeFeature_init endpoints =
     bind_res (if length endpoints \<ge> 1 then interrupt_interfaces (endpoints ! 0) else Inr ([], [])) (\<lambda>(fs0, hs0).
     bind_res (if length endpoints \<ge> 2 then bulk_interfaces (endpoints ! 1) else Inr ([], [])) (\<lambda>(fs1, hs1).
     bind_res (if length endpoints \<ge> 3 then isochronous_interfaces (endpoints ! 2) else Inr ([], [])) (\<lambda>(fs2, hs2).
       Inr (CompositeFeature_init (fs0 @ fs1 @ fs2) (hs0 @ hs1 @ hs2)))))"

definition echo_ReceivePacket ::
    "'c chip_ops \<Rightarrow> int \<Rightarrow> bytes \<Rightarrow> ('z composite_feature_scheme \<times> ('c, 'y) gadget_scheme, unit) st" where
  "echo_ReceivePacket ops endpoint data p =
     (if endpoint AND Dir_IN \<noteq> 0 then (Inl AssertionError, p)
      else feature_SendPacket ops (endpoint OR Dir_IN) data p)"

section \<open>All features\<close>

datatype usb_feature =
    EchoComposite composite_feature
  | HidComposite "hid_device hid_composite"

type_synonym 'c usb_gadget = "('c, usb_feature) composite_gadget"

definition on_echo :: "(composite_feature \<times> 's, 'a) st \<Rightarrow> (usb_feature \<times> 's, 'a) st" where
  "on_echo m = (\<lambda>(f, s). case f of
      EchoComposite e \<Rightarrow> (case m (e, s) of (r, (e', s')) \<Rightarrow> (r, (EchoComposite e', s')))
    | _ \<Rightarrow> (Inl AttributeError, (f, s)))"

definition on_hid_composite :: "(hid_device hid_composite \<times> 's, 'a) st \<Rightarrow> (usb_feature \<times> 's, 'a) st" where
  "on_hid_composite m = (\<lambda>(f, s). case f of
      HidComposite h \<Rightarrow> (case m (h, s) of (r, (h', s')) \<Rightarrow> (r, (HidComposite h', s')))
    | _ \<Rightarrow> (Inl AttributeError, (f, s)))"

text \<open>Choosing a method by the class of the feature.\<close>

definition by_class ::
    "(composite_feature \<times> 's, 'a) st \<Rightarrow> (hid_device hid_composite \<times> 's, 'a) st \<Rightarrow> (usb_feature \<times> 's, 'a) st" where
  "by_class e h p = (case fst p of EchoComposite _ \<Rightarrow> on_echo e p | HidComposite _ \<Rightarrow> on_hid_composite h p)"

definition Usb_class :: "'c chip_ops \<Rightarrow> ('c, usb_feature) cg_class" where
  "Usb_class ops =
     \<lparr>fc_FullSpeedInterfaces =
        (\<lambda>f. case f of EchoComposite e \<Rightarrow> GetFullSpeedInterfaces e | HidComposite h \<Rightarrow> GetFullSpeedInterfaces h),
      fc_HighSpeedInterfaces =
        (\<lambda>f. case f of EchoComposite e \<Rightarrow> GetHighSpeedInterfaces e | HidComposite h \<Rightarrow> GetHighSpeedInterfaces h),
      fc_Connected = by_class feature_Connected (hc_Connected (Device_class ops)),
      fc_Disconnected = by_class feature_Disconnected (hc_Disconnected (Device_class ops)),
      fc_ReceivePacket = (\<lambda>endpoint data.
        by_class (echo_ReceivePacket ops endpoint data) (hc_ReceivePacket ops (Device_class ops) endpoint data)),
      fc_StandardControlRead = (\<lambda>rc rq v i l.
        by_class (feature_ControlRead rc rq v i l) (hc_StandardControlRead rc rq v i l)),
      fc_ClassControlRead = (\<lambda>rc rq v i l.
        by_class (feature_ControlRead rc rq v i l) (hc_ClassControlRead (Device_class ops) rc rq v i l)),
      fc_VendorControlRead = (\<lambda>rc rq v i l.
        by_class (feature_ControlRead rc rq v i l) (feature_ControlRead rc rq v i l)),
      fc_StandardControlWrite = (\<lambda>rc rq v i d.
        by_class (feature_ControlWrite rc rq v i d) (feature_ControlWrite rc rq v i d)),
      fc_ClassControlWrite = (\<lambda>rc rq v i d.
        by_class (feature_ControlWrite rc rq v i d) (hc_ClassControlWrite (Device_class ops) rc rq v i d)),
      fc_VendorControlWrite = (\<lambda>rc rq v i d.
        by_class (feature_ControlWrite rc rq v i d) (feature_ControlWrite rc rq v i d))\<rparr>"

section \<open>Gadgets\<close>

text \<open>\<^verbatim>\<open>'{:06X}'.format(n)\<close>.\<close>

fun hex_digits :: "nat \<Rightarrow> nat \<Rightarrow> string" where
  "hex_digits 0 n = []"
| "hex_digits (Suc fuel) n =
     (if n < 16 then [''0123456789ABCDEF'' ! n]
      else hex_digits fuel (n div 16) @ [''0123456789ABCDEF'' ! (n mod 16)])"

definition format_06X :: "nat \<Rightarrow> string" where
  "format_06X n = (let s = hex_digits (Suc n) n in replicate (6 - length s) (CHR ''0'') @ s)"

definition LANG :: int where "LANG = 0x0409"

text \<open>The statements of a constructor after the call of the base class.\<close>

definition run_init :: "('s, unit) st \<Rightarrow> 's \<Rightarrow> 's res" where
  "run_init m g = (case m g of (Inl e, _) \<Rightarrow> Inl e | (Inr _, h) \<Rightarrow> Inr h)"

fun do_all :: "('s, unit) st list \<Rightarrow> ('s, unit) st" where
  "do_all [] = return_st ()"
| "do_all (m # ms) = seq_st m (do_all ms)"

definition device_descriptor :: "int \<Rightarrow> int \<Rightarrow> int \<Rightarrow> int \<Rightarrow> descriptor res" where
  "device_descriptor vendor_id product_id bcdUSB device_version =
     new_descriptor C_Device
       [(''idVendor'', PInt vendor_id), (''idProduct'', PInt product_id), (''bcdUSB'', PInt bcdUSB),
        (''iManufacturer'', PInt 1), (''iProduct'', PInt 2), (''iSerialNumber'', PInt 3),
        (''bcdDevice'', PInt device_version)]"

text \<open>\<open>node\<close> is \<^verbatim>\<open>uuid.getnode()\<close>, the hardware address of the machine.\<close>

definition HidGadget_init ::
    "'c chip_ops \<Rightarrow> bytes \<Rightarrow> (int \<times> hid_device) list \<Rightarrow> int \<Rightarrow> int \<Rightarrow> int \<Rightarrow> int \<Rightarrow> bool \<Rightarrow> int \<Rightarrow>
     nat \<Rightarrow> 'c \<Rightarrow> 'c usb_gadget res" where
  "HidGadget_init ops report_desc features vendor_id product_id packet_size interval_ms out_endpoint
       device_version node hw =
     bind_res (device_descriptor vendor_id product_id 0x0200 device_version) (\<lambda>device_desc.
     bind_res (HidCompositeFeature_init report_desc features packet_size interval_ms 0 0 0x81
         (if out_endpoint then Some 0x01 else None)) (\<lambda>hid_feature.
     bind_res (CompositeGadget_init (Usb_class ops) device_desc [HidComposite hid_feature] hw)
       (run_init (AddStringDescriptor 3 (format_06X node) LANG))))"

definition KeyboardGadget_init :: "'c chip_ops \<Rightarrow> nat \<Rightarrow> 'c \<Rightarrow> 'c usb_gadget res" where
  "KeyboardGadget_init ops node hw =
     bind_res keyboard_REPORT_DESC (\<lambda>report_desc.
     bind_res (HidGadget_init ops report_desc [(0, Keyboard KeyboardFeature_init)] VendorID_GOOGLE
         ProductID_GOOGLE_KEYBOARD_GADGET 8 1 True 0x0100 node hw)
       (run_init (do_all [AddStringDescriptor 1 ''Google Inc.'' LANG,
                          AddStringDescriptor 2 ''Keyboard Gadget'' LANG])))"

definition MouseGadget_init :: "'c chip_ops \<Rightarrow> nat \<Rightarrow> 'c \<Rightarrow> 'c usb_gadget res" where
  "MouseGadget_init ops node hw =
     bind_res mouse_REPORT_DESC (\<lambda>report_desc.
     bind_res (HidGadget_init ops report_desc [(0, Mouse MouseFeature_init)] VendorID_GOOGLE
         ProductID_GOOGLE_MOUSE_GADGET 8 1 False 0x0100 node hw)
       (run_init (do_all [AddStringDescriptor 1 ''Google Inc.'' LANG,
                          AddStringDescriptor 2 ''Mouse Gadget'' LANG])))"

definition HidEchoGadget_init :: "'c chip_ops \<Rightarrow> nat \<Rightarrow> 'c \<Rightarrow> 'c usb_gadget res" where
  "HidEchoGadget_init ops node hw =
     bind_res echo_REPORT_DESC (\<lambda>report_desc.
     bind_res (HidGadget_init ops report_desc [(0, HidEcho EchoFeature_init)] VendorID_GOOGLE
         ProductID_GOOGLE_HID_ECHO_GADGET 8 1 True 0x0100 node hw)
       (run_init (do_all [AddStringDescriptor 1 ''Google Inc.'' LANG,
                          AddStringDescriptor 2 ''HID Echo Gadget'' LANG])))"

text \<open>\<open>container_id\<close> is \<^verbatim>\<open>uuid.uuid4().bytes_le\<close>, a fresh random identifier.\<close>

definition EchoGadget_init :: "'c chip_ops \<Rightarrow> nat \<Rightarrow> bytes \<Rightarrow> 'c \<Rightarrow> 'c usb_gadget res" where
  "EchoGadget_init ops node container_id hw =
     bind_res (device_descriptor VendorID_GOOGLE ProductID_GOOGLE_ECHO_GADGET 0x0200 0x0100) (\<lambda>device_desc.
     bind_res (EchoCompositeFeature_init [(0, 4, 0x81, 0x01), (1, 5, 0x82, 0x02), (2, 6, 0x83, 0x03)])
       (\<lambda>feature.
     bind_res (CompositeGadget_init (Usb_class ops) device_desc [EchoComposite feature] hw)
       (run_init (do_all
          [AddStringDescriptor 1 ''Google Inc.'' LANG,
           AddStringDescriptor 2 ''Echo Gadget'' LANG,
           AddStringDescriptor 3 (format_06X node) LANG,
           AddStringDescriptor 4 ''Interrupt Echo'' LANG,
           AddStringDescriptor 5 ''Bulk Echo'' LANG,
           AddStringDescriptor 6 ''Isochronous Echo'' LANG,
           EnableMicrosoftOSDescriptorsV1 0x01,
           SetMicrosoftCompatId 0 ''WINUSB'' '''',
           SetMicrosoftCompatId 1 ''WINUSB'' '''',
           SetMicrosoftCompatId 2 ''WINUSB'' '''',
           bind_st (lift_res (new_descriptor C_ContainerId [(''ContainerID'', PBytes container_id)]))
             AddDeviceCapabilityDescriptor]))))"

definition CompositeEchoGadget_init :: "'c chip_ops \<Rightarrow> nat \<Rightarrow> 'c \<Rightarrow> 'c usb_gadget res" where
  "CompositeEchoGadget_init ops node hw =
     bind_res (device_descriptor VendorID_GOOGLE ProductID_GOOGLE_COMPOSITE_ECHO_GADGET 0x0210 0x0100)
       (\<lambda>device_desc.
     bind_res (EchoCompositeFeature_init [(0, 5, 0x81, 0x01), (1, 6, 0x82, 0x02), (2, 7, 0x83, 0x03)])
       (\<lambda>echo_feature.
     bind_res echo_REPORT_DESC (\<lambda>report_desc.
     bind_res (HidCompositeFeature_init report_desc [(0, HidEcho EchoFeature_init)] 64 10 3 4 0x84 (Some 0x04))
       (\<lambda>hid_feature.
     bind_res (CompositeGadget_init (Usb_class ops) device_desc
         [EchoComposite echo_feature, HidComposite hid_feature] hw)
       (run_init (do_all
          [AddStringDescriptor 1 ''Google Inc.'' LANG,
           AddStringDescriptor 2 ''Echo Gadget'' LANG,
           AddStringDescriptor 3 (format_06X node) LANG,
           AddStringDescriptor 4 ''HID Echo'' LANG,
           AddStringDescriptor 5 ''Interrupt Echo'' LANG,
           AddStringDescriptor 6 ''Bulk Echo'' LANG,
           AddStringDescriptor 7 ''Isochronous Echo'' LANG,
           EnableMicrosoftOSDescriptorsV2 0x02,
           SetMicrosoftCompatId 0 ''WINUSB'' '''',
           SetMicrosoftCompatId 1 ''WINUSB'' '''',
           SetMicrosoftCompatId 2 ''WINUSB'' '''']))))))"

definition DefaultGadget_init :: "'c \<Rightarrow> 'c gadget res" where
  "DefaultGadget_init hw =
     bind_res (device_descriptor VendorID_GOOGLE ProductID_GOOGLE_TEST_GADGET 0x0200 0x0100) (\<lambda>device_desc.
     bind_res (new_descriptor C_Configuration [(''bmAttributes'', PInt 0x80), (''MaxPower'', PInt 50)])
       (\<lambda>fs_config_desc.
     bind_res (new_descriptor C_Configuration [(''bmAttributes'', PInt 0x80), (''MaxPower'', PInt 50)])
       (\<lambda>hs_config_desc.
     bind_res (new_descriptor C_Interface [(''bInterfaceNumber'', PInt 0)]) (\<lambda>interface_desc.
     bind_res (AddInterface fs_config_desc interface_desc) (\<lambda>fs_config_desc.
     bind_res (AddInterface hs_config_desc interface_desc) (\<lambda>hs_config_desc.
       run_init (do_all [AddStringDescriptor 1 ''Google Inc.'' LANG,
                         AddStringDescriptor 2 ''Test Gadget (default state)'' LANG])
         (Gadget_init device_desc fs_config_desc hs_config_desc hw)))))))"

text \<open>The methods of the gadgets hand over to their HID feature.\<close>

definition on_hid_feature ::
    "(hid_device \<times> (hid_device hid_composite \<times> 'c usb_gadget), 'a) st \<Rightarrow> ('c usb_gadget, 'a) st" where
  "on_hid_feature m = on_feature 0 (on_hid_composite (on_hid 0 m))"

definition HidGadget_SendReport :: "'c chip_ops \<Rightarrow> int \<Rightarrow> bytes \<Rightarrow> ('c usb_gadget, unit) st" where
  "HidGadget_SendReport ops report_id data =
     on_feature 0 (on_hid_composite (hc_SendReport ops (Some report_id) data))"

definition kg_ModifierDown :: "'c chip_ops \<Rightarrow> int \<Rightarrow> ('c usb_gadget, unit) st" where
  "kg_ModifierDown ops modifier = on_hid_feature (on_keyboard (ModifierDown ops modifier))"

definition kg_ModifierUp :: "'c chip_ops \<Rightarrow> int \<Rightarrow> ('c usb_gadget, unit) st" where
  "kg_ModifierUp ops modifier = on_hid_feature (on_keyboard (ModifierUp ops modifier))"

definition kg_KeyDown :: "'c chip_ops \<Rightarrow> int \<Rightarrow> ('c usb_gadget, unit) st" where
  "kg_KeyDown ops keycode = on_hid_feature (on_keyboard (KeyDown ops keycode))"

definition kg_KeyUp :: "'c chip_ops \<Rightarrow> int \<Rightarrow> ('c usb_gadget, unit) st" where
  "kg_KeyUp ops keycode = on_hid_feature (on_keyboard (KeyUp ops keycode))"

definition mg_ButtonDown :: "'c chip_ops \<Rightarrow> int \<Rightarrow> ('c usb_gadget, unit) st" where
  "mg_ButtonDown ops button = on_hid_feature (on_mouse (ButtonDown ops button))"

definition mg_ButtonUp :: "'c chip_ops \<Rightarrow> int \<Rightarrow> ('c usb_gadget, unit) st" where
  "mg_ButtonUp ops button = on_hid_feature (on_mouse (ButtonUp ops button))"

definition mg_Move :: "'c chip_ops \<Rightarrow> int \<Rightarrow> int \<Rightarrow> ('c usb_gadget, unit) st" where
  "mg_Move ops x y = on_hid_feature (on_mouse (Move ops x y))"

end
