(* ===== verification/Gadgetfs_Processes.thy ===== *)
theory Gadgetfs_Processes
  imports Linux_Gadgetfs
begin

text \<open>
  The concurrent side of linux_gadgetfs.py. The controller's own operations, the child processes
  and the event loop interleave; one labelled step is one of their actions. Shown here: the
  book-keeping of files, processes and handlers stays consistent, disconnecting leaves nothing
  behind, and a pipe delivers what was put into it, in order, under every interleaving.
\<close>

section \<open>Consistent book-keeping\<close>

definition pipes_in_use :: "'e gadgetfs \<Rightarrow> nat list" where
  "pipes_in_use c = map (\<lambda>(a, fd, p). p) (c_ep_fds c)"

text \<open>
  Every endpoint has a pipe of its own, processes serve pipes of endpoints, and the event loop
  watches exactly the pipes of the OUT endpoints.
\<close>

definition chip_wf :: "'e gadgetfs \<Rightarrow> bool" where
  "chip_wf c \<longleftrightarrow>
     distinct (map fst (c_ep_fds c)) \<and> distinct (pipes_in_use c) \<and>
     (\<forall>p\<in>set (pipes_in_use c). p < c_next c) \<and>
     fst ` set (c_pipes c) \<subseteq> {..<c_next c} \<and>
     fst ` set (c_children c) \<subseteq> set (pipes_in_use c) \<and>
     (\<forall>p a. PacketHandler p a \<in> set (c_handlers c) \<longleftrightarrow>
        a AND Dir_IN = 0 \<and> (\<exists>fd. (a, fd, p) \<in> set (c_ep_fds c)))"

lemma pipes_in_use_set: "p \<in> set (pipes_in_use c) \<longleftrightarrow> (\<exists>a fd. (a, fd, p) \<in> set (c_ep_fds c))"
  by (force simp: pipes_in_use_def)

lemma chip_wf_os [simp]: "chip_wf (c\<lparr>c_os := e\<rparr>) = chip_wf c"
  by (simp add: chip_wf_def pipes_in_use_def)

lemma chip_wf_init: "LinuxGadgetfs_init hardware mountpoint os = Inr c \<Longrightarrow> chip_wf c"
  by (auto simp: LinuxGadgetfs_init_def chip_wf_def pipes_in_use_def split: option.splits)

lemma chip_wf_start_process:
  assumes "chip_wf c" and "a \<notin> running_endpoints c"
  shows "chip_wf (start_process a fd sz c)"
proof -
  have fds: "dict_set a (fd, c_next c) (c_ep_fds c) = c_ep_fds c @ [(a, fd, c_next c)]"
    using assms(2) by (simp add: dict_set_fresh running_endpoints_def)
  have new: "c_next c \<notin> set (pipes_in_use c)" using assms(1) by (auto simp: chip_wf_def)
  have in_use: "pipes_in_use (start_process a fd sz c) = pipes_in_use c @ [c_next c]"
    by (simp add: start_process_def Let_def pipes_in_use_def fds)
  have fresh: "(b, fd', c_next c) \<notin> set (c_ep_fds c)" for b fd'
    using new by (auto simp: pipes_in_use_set)
  show ?thesis
    unfolding chip_wf_def in_use
  proof (intro conjI allI)
    show "distinct (map fst (c_ep_fds (start_process a fd sz c)))"
      using assms by (auto simp: start_process_def Let_def fds chip_wf_def running_endpoints_def)
    show "distinct (pipes_in_use c @ [c_next c])"
      using assms(1) new by (simp add: chip_wf_def)
    show "\<forall>p\<in>set (pipes_in_use c @ [c_next c]). p < c_next (start_process a fd sz c)"
      using assms(1) by (auto simp: start_process_def Let_def chip_wf_def)
    show "fst ` set (c_pipes (start_process a fd sz c)) \<subseteq> {..<c_next (start_process a fd sz c)}"
      using assms(1) by (simp add: start_process_def Let_def chip_wf_def dict_set_keys lessThan_Suc subset_insertI2)
    show "fst ` set (c_children (start_process a fd sz c)) \<subseteq> set (pipes_in_use c @ [c_next c])"
      using assms(1) by (auto simp: start_process_def Let_def chip_wf_def dict_set_keys)
    show "PacketHandler p b \<in> set (c_handlers (start_process a fd sz c)) \<longleftrightarrow>
        b AND Dir_IN = 0 \<and> (\<exists>fd'. (b, fd', p) \<in> set (c_ep_fds (start_process a fd sz c)))" for p b
      using assms(1) fresh by (auto simp: start_process_def Let_def fds chip_wf_def)
  qed
qed

lemma chip_wf_StartEndpoint:
  assumes "chip_wf c" and "int_attr d ''bEndpointAddress'' \<notin> running_endpoints c"
  shows "chip_wf (snd (StartEndpoint os speed d c))"
  using assms by (cases "StartEndpoint os speed d c")
    (auto elim!: StartEndpoint_cases intro!: chip_wf_start_process)

lemma chip_wf_StopEndpoint:
  assumes wf: "chip_wf c"
  shows "chip_wf (snd (StopEndpoint os a c))"
proof (cases "dict_get (c_ep_fds c) a")
  case (Some q)
  obtain fd p where q: "q = (fd, p)" by force
  let ?c = "snd (StopEndpoint os a c)"
  have d: "distinct (map fst (c_ep_fds c))" "distinct (pipes_in_use c)" using wf by (simp_all add: chip_wf_def)
  have fds: "c_ep_fds ?c = dict_del a (c_ep_fds c)" "c_children ?c = dict_del p (c_children c)"
    "c_pipes ?c = c_pipes c" "c_next ?c = c_next c"
    "c_handlers ?c = (if a AND Dir_IN = 0 then filter (\<lambda>h. h \<noteq> PacketHandler p a) (c_handlers c) else c_handlers c)"
    using Some q by (simp_all add: StopEndpoint_def)
  have mem: "(b, fd', p') \<in> set (dict_del a (c_ep_fds c)) \<longleftrightarrow> (b, fd', p') \<in> set (c_ep_fds c) \<and> b \<noteq> a" for b fd' p'
    by (rule dict_del_mem)
  have entry: "(a, fd, p) \<in> set (c_ep_fds c)" using Some q by (simp add: map_of_SomeD)
  have only: "b = a" if "(b, fd', p) \<in> set (c_ep_fds c)" for b fd'
    using that entry d(2) inj_onD [of "\<lambda>(a, fd, p). p" "set (c_ep_fds c)" "(b, fd', p)" "(a, fd, p)"]
    by (auto simp: pipes_in_use_def distinct_map)
  have same: "fd' = fd \<and> p' = p" if "(a, fd', p') \<in> set (c_ep_fds c)" for fd' p'
    using eq_key_imp_eq_value [OF d(1) that entry] by simp
  have keys: "fst ` set (dict_del p (c_children c)) = fst ` set (c_children c) - {p}"
    by (rule dict_del_keys)
  show ?thesis
    unfolding chip_wf_def fds
  proof (intro conjI allI)
    show "distinct (map fst (dict_del a (c_ep_fds c)))" using d(1) by (simp add: distinct_delete)
    show "distinct (pipes_in_use ?c)"
      using d(2) by (simp add: pipes_in_use_def fds AList.delete_eq distinct_map_filter)
    show "\<forall>p\<in>set (pipes_in_use ?c). p < c_next c"
      using wf by (auto simp: chip_wf_def pipes_in_use_set fds mem)
    show "fst ` set (c_pipes c) \<subseteq> {..<c_next c}" using wf by (simp add: chip_wf_def)
    have "p' \<in> set (pipes_in_use ?c)" if "p' \<in> set (pipes_in_use c)" "p' \<noteq> p" for p'
      using that same by (auto simp: pipes_in_use_set fds mem)
    then show "fst ` set (dict_del p (c_children c)) \<subseteq> set (pipes_in_use ?c)"
      unfolding keys using wf [unfolded chip_wf_def] by blast
    show "PacketHandler p' b \<in> set (if a AND Dir_IN = 0 then filter (\<lambda>h. h \<noteq> PacketHandler p a) (c_handlers c)
          else c_handlers c) \<longleftrightarrow>
        b AND Dir_IN = 0 \<and> (\<exists>fd'. (b, fd', p') \<in> set (dict_del a (c_ep_fds c)))" for p' b
      using wf same only by (auto simp: chip_wf_def mem)
  qed
qed (simp add: StopEndpoint_def wf)

lemma event_filter:
  "filter (\<lambda>h. h \<noteq> PacketHandler p a \<and> (\<exists>fd. h = EventHandler fd)) hs =
     filter (\<lambda>h. \<exists>fd. h = EventHandler fd) hs"
  by (induction hs) auto

text \<open>Stopping one endpoint after the other empties the tables.\<close>

lemma stop_everything_result:
  assumes wf: "chip_wf c"
  shows "\<exists>c'. stop_everything os c = (Inr (), c') \<and> c_ep_fds c' = [] \<and> c_children c' = [] \<and>
    c_handlers c' = filter (\<lambda>h. \<exists>fd. h = EventHandler fd) (c_handlers c) \<and>
    c_gadget c' = c_gadget c \<and> c_fd c' = c_fd c \<and> chip_wf c'"
proof -
  let ?ks = "map fst (c_ep_fds c)"
  let ?ev = "filter (\<lambda>h. \<exists>fd. h = EventHandler fd)"
  define I where "I before u \<longleftrightarrow> chip_wf u \<and> running_endpoints u = running_endpoints c - set before \<and>
      ?ev (c_handlers u) = ?ev (c_handlers c) \<and> c_gadget u = c_gadget c \<and> c_fd u = c_fd c" for before and u :: "'a gadgetfs"
  have "\<exists>u. for_st ?ks (StopEndpoint os) c = (Inr (), u) \<and> I ?ks u"
  proof (rule for_st_total)
    show "I [] c" using wf by (simp add: I_def)
  next
    fix before a rest u
    assume ks: "?ks = before @ a # rest" and u: "I before u"
    have "set ?ks = running_endpoints c" "distinct ?ks" using wf by (simp_all add: chip_wf_def running_endpoints_def)
    then have "a \<in> running_endpoints u" unfolding ks using u by (auto simp: I_def)
    with gadgetfs.stop_running [of a u os] obtain v where v: "StopEndpoint os a u = (Inr (), v)"
      "running_endpoints v = running_endpoints u - {a}" by (auto simp: fs_ops_def)
    have "chip_wf v" using chip_wf_StopEndpoint [of u os a] u v(1) by (simp add: I_def)
    moreover have "?ev (c_handlers v) = ?ev (c_handlers u)" "c_gadget v = c_gadget u" "c_fd v = c_fd u"
      using v(1) by (auto simp: StopEndpoint_def event_filter split: option.splits)
    ultimately have "I (before @ [a]) v" using u v(2) by (auto simp: I_def)
    with v(1) show "\<exists>v. StopEndpoint os a u = (Inr (), v) \<and> I (before @ [a]) v" by blast
  qed
  then obtain u where u: "for_st ?ks (StopEndpoint os) c = (Inr (), u)" "I ?ks u" by blast
  then have wf_u: "chip_wf u" and fds: "c_ep_fds u = []" by (auto simp: I_def running_endpoints_def)
  then have pipes: "pipes_in_use u = []" "c_children u = []" by (auto simp: chip_wf_def pipes_in_use_def)
  have "\<exists>fd. h = EventHandler fd" if "h \<in> set (c_handlers u)" for h
    using that wf_u fds by - (cases h, auto simp: chip_wf_def)
  then have "?ev (c_handlers u) = c_handlers u" by (simp add: filter_id_conv)
  moreover have "u\<lparr>c_ep_fds := []\<rparr> = u" using fds by (cases u) simp
  then have "stop_everything os c = (Inr (), u)"
    using u(1) by (simp add: stop_everything_def gets_st_def seq_st_def bind_st_run modify_st_def)
  ultimately show ?thesis using u(2) fds pipes by (auto simp: I_def)
qed

section \<open>Interleaving\<close>

text \<open>
  A packet enters a pipe (\<open>Put\<close>) from \<^verbatim>\<open>SendPacket\<close> or from the reader process, leaves it
  (\<open>Got\<close>) to the endpoint file or to the gadget, or is dropped when the write fails and ends the
  process (\<open>Lost\<close>). All other actions are \<open>Internal\<close>.
\<close>

datatype action = Put nat bytes | Got nat bytes | Lost nat bytes | Internal

inductive fs_step :: "'e os_ops \<Rightarrow> 'e gadgetfs \<Rightarrow> action \<Rightarrow> 'e gadgetfs \<Rightarrow> bool" for os where
  send: "dict_get (c_ep_fds c) a = Some (fd, p) \<Longrightarrow> fs_SendPacket a data c = (Inr (), c') \<Longrightarrow>
    fs_step os c (Put p data) c'"
| written: "dict_get (c_children c) p = Some (fd, WriterProcess) \<Longrightarrow>
    dict_get (c_pipes c) p = Some (data # rest) \<Longrightarrow> os_write os fd data (c_os c) = (Inr (), e) \<Longrightarrow>
    fs_step os c (Got p data) (c\<lparr>c_pipes := dict_set p rest (c_pipes c), c_os := e\<rparr>)"
| write_fails: "dict_get (c_children c) p = Some (fd, WriterProcess) \<Longrightarrow>
    dict_get (c_pipes c) p = Some (data # rest) \<Longrightarrow> os_write os fd data (c_os c) = (Inl errno, e) \<Longrightarrow>
    fs_step os c (Lost p data) (c\<lparr>c_pipes := dict_set p rest (c_pipes c),
      c_children := dict_del p (c_children c), c_os := e\<rparr>)"
| read: "dict_get (c_children c) p = Some (fd, ReaderProcess n) \<Longrightarrow>
    os_read os fd n (c_os c) = (Inr data, e) \<Longrightarrow>
    fs_step os c (Put p data) (pipe_send p data (c\<lparr>c_os := e\<rparr>))"
| read_fails: "dict_get (c_children c) p = Some (fd, ReaderProcess n) \<Longrightarrow>
    os_read os fd n (c_os c) = (Inl errno, e) \<Longrightarrow>
    fs_step os c Internal (c\<lparr>c_children := dict_del p (c_children c), c_os := e\<rparr>)"
| receive: "PacketHandler p a \<in> set (c_handlers c) \<Longrightarrow> dict_get (c_pipes c) p = Some (data # rest) \<Longrightarrow>
    fs_step os c (Got p data) (c\<lparr>c_pipes := dict_set p rest (c_pipes c)\<rparr>)"
| start: "int_attr d ''bEndpointAddress'' \<notin> running_endpoints c \<Longrightarrow>
    fs_step os c Internal (snd (StartEndpoint os speed d c))"
| stop: "fs_step os c Internal (snd (StopEndpoint os a c))"

inductive fs_run :: "'e os_ops \<Rightarrow> 'e gadgetfs \<Rightarrow> action list \<Rightarrow> 'e gadgetfs \<Rightarrow> bool" for os where
  Nil: "fs_run os c [] c"
| Snoc: "fs_run os c ls c' \<Longrightarrow> fs_step os c' l c'' \<Longrightarrow> fs_run os c (ls @ [l]) c''"

fun put_of :: "nat \<Rightarrow> action \<Rightarrow> bytes list" where
  "put_of p (Put q data) = (if p = q then [data] else [])"
| "put_of p _ = []"

fun got_of :: "nat \<Rightarrow> action \<Rightarrow> bytes list" where
  "got_of p (Got q data) = (if p = q then [data] else [])"
| "got_of p (Lost q data) = (if p = q then [data] else [])"
| "got_of p _ = []"

text \<open>The packets put into pipe \<open>p\<close> during a run, and those taken out of it.\<close>

definition puts :: "nat \<Rightarrow> action list \<Rightarrow> bytes list" where
  "puts p ls = concat (map (put_of p) ls)"

definition gots :: "nat \<Rightarrow> action list \<Rightarrow> bytes list" where
  "gots p ls = concat (map (got_of p) ls)"

lemma chip_wf_pipe_update:
  "chip_wf c \<Longrightarrow> p < c_next c \<Longrightarrow> chip_wf (c\<lparr>c_pipes := dict_set p q (c_pipes c)\<rparr>)"
  by (simp add: chip_wf_def pipes_in_use_def dict_set_keys)

lemma pipe_known: "chip_wf c \<Longrightarrow> dict_get (c_pipes c) p = Some q \<Longrightarrow> p < c_next c"
  by (force simp: chip_wf_def dest: map_of_SomeD)

lemma child_known: "chip_wf c \<Longrightarrow> dict_get (c_children c) p = Some q \<Longrightarrow> p < c_next c"
  by (force simp: chip_wf_def dest: map_of_SomeD)

lemma chip_wf_child_exit: "chip_wf c \<Longrightarrow> chip_wf (c\<lparr>c_children := dict_del p (c_children c)\<rparr>)"
  by (auto simp: chip_wf_def pipes_in_use_def dict_del_keys)

lemma chip_wf_pipe_send: "chip_wf c \<Longrightarrow> p < c_next c \<Longrightarrow> chip_wf (pipe_send p data c)"
  by (simp add: pipe_send_def chip_wf_pipe_update)

lemma endpoint_known: "chip_wf c \<Longrightarrow> dict_get (c_ep_fds c) a = Some (fd, p) \<Longrightarrow> p < c_next c"
  by (force simp: chip_wf_def pipes_in_use_def dest: map_of_SomeD)

text \<open>The book-keeping is consistent after every action.\<close>

lemma fs_step_wf: "fs_step os c l c' \<Longrightarrow> chip_wf c \<Longrightarrow> chip_wf c'"
proof (induction rule: fs_step.induct)
  case (send c a fd p data c')
  then show ?case
    by (auto simp: fs_SendPacket_def endpoint_known chip_wf_pipe_send split: if_splits)
next
  case (written c p fd data rest e)
  then show ?case
    using chip_wf_pipe_update [of c p rest] pipe_known [of c p] by simp
next
  case (write_fails c p fd data rest errno e)
  then show ?case
    using chip_wf_child_exit [OF chip_wf_pipe_update [of c p rest], of p] pipe_known [of c p]
    by simp
next
  case (read c p fd n data e)
  then show ?case using chip_wf_pipe_send [of "c\<lparr>c_os := e\<rparr>" p] child_known [of c p] by simp
next
  case (read_fails c p fd n errno e)
  then show ?case using chip_wf_child_exit [of c p] by simp
next
  case (receive p a c data rest)
  then show ?case using chip_wf_pipe_update [of c p rest] pipe_known [of c p] by simp
qed (simp_all add: chip_wf_StartEndpoint chip_wf_StopEndpoint)

lemma fs_run_wf: "fs_run os c ls c' \<Longrightarrow> chip_wf c \<Longrightarrow> chip_wf c'"
  by (induction rule: fs_run.induct) (auto dest: fs_step_wf)

text \<open>One action keeps the order of the packets of a pipe.\<close>

lemma start_process_pipe: "dict_get (c_pipes c) p = Some q \<Longrightarrow> p < c_next c \<Longrightarrow>
    dict_get (c_pipes (start_process a fd sz c)) p = Some q"
  by (simp add: start_process_def Let_def)

lemma StopEndpoint_pipes: "c_pipes (snd (StopEndpoint os a c)) = c_pipes c"
  by (simp add: StopEndpoint_def split: option.split)

lemma fs_step_pipe:
  "fs_step os c l c' \<Longrightarrow> chip_wf c \<Longrightarrow> dict_get (c_pipes c) p = Some q \<Longrightarrow>
     \<exists>q'. dict_get (c_pipes c') p = Some q' \<and> q @ put_of p l = got_of p l @ q'"
proof (induction rule: fs_step.induct)
  case (send c a fd p' data c')
  then show ?case by (auto simp: fs_SendPacket_def pipe_send_def split: if_splits)
next
  case (read c p' fd n data e)
  then show ?case by (auto simp: pipe_send_def)
next
  case (start d c speed)
  then show ?case
    by (cases "StartEndpoint os speed d c")
      (auto elim!: StartEndpoint_cases simp: start_process_pipe pipe_known)
qed (auto simp: StopEndpoint_pipes)

lemma fs_run_pipe:
  "fs_run os c ls c' \<Longrightarrow> chip_wf c \<Longrightarrow> dict_get (c_pipes c) p = Some q \<Longrightarrow>
     \<exists>q'. dict_get (c_pipes c') p = Some q' \<and> q @ puts p ls = gots p ls @ q'"
proof (induction rule: fs_run.induct)
  case (Snoc c ls c' l c'')
  then obtain q' where q': "dict_get (c_pipes c') p = Some q'" "q @ puts p ls = gots p ls @ q'" by blast
  from fs_step_pipe [OF Snoc.hyps(2) fs_run_wf [OF Snoc.hyps(1) Snoc.prems(1)] q'(1)] obtain q'' where
    "dict_get (c_pipes c'') p = Some q''" "q' @ put_of p l = got_of p l @ q''" by blast
  with q'(2) show ?case by (simp add: puts_def gots_def flip: append_assoc) simp
qed (simp add: puts_def gots_def)

end
