(* ===== verification/Server.thy ===== *)
theory Server
  imports Usb_Gadgets Gadgetfs_Processes "HOL-Library.Char_ord"
begin

text \<open>
  server.py and the request handlers of the gadget modules: the web server owns the controller and
  the current gadget, lets one client claim the device, and switches gadgets. Gadgets are objects
  in a store, so that \<^verbatim>\<open>gadget != default\<close> compares references.
\<close>

section \<open>State\<close>

datatype gadget_kind = DefaultG | EchoG | CompositeEchoG | HidEchoG | KeyboardG | MouseG

text \<open>
  \<open>sv_gadget\<close> and \<open>sv_bound\<close> are the object \<^verbatim>\<open>gadget\<close> refers to and the one
  \<^verbatim>\<open>chip._gadget\<close> refers to (when the controller is configured); the object number 0 is
  \<^verbatim>\<open>default\<close>. The controller is an object of its own: the field \<open>g_hw\<close> of a stored gadget is
  replaced by it whenever a method runs.
\<close>

record 'e server =
  sv_objects :: "(gadget_kind \<times> 'e gadgetfs usb_gadget) list"
  sv_gadget :: "nat option"
  sv_bound :: nat
  sv_chip :: "'e gadgetfs"
  sv_claimed_by :: "string option"
  sv_address :: string

abbreviation (input) "the_default \<equiv> 0 :: nat"

definition class_of :: "'e os_ops \<Rightarrow> gadget_kind \<Rightarrow> 'e gadgetfs usb_gadget gadget_class" where
  "class_of os kind =
     (if kind = DefaultG then Gadget_class (fs_ops os)
      else Composite_class (fs_ops os) (Usb_class (fs_ops os)))"

text \<open>Running a method on a stored gadget with the controller in place.\<close>

definition on_object :: "nat \<Rightarrow> ('e gadgetfs usb_gadget, 'a) st \<Rightarrow> ('e server, 'a) st" where
  "on_object k m sv =
     (case sv_objects sv ! k of
        (kind, g) \<Rightarrow>
          (case m (g\<lparr>g_hw := sv_chip sv\<rparr>) of
             (r, h) \<Rightarrow> (r, sv\<lparr>sv_objects := (sv_objects sv)[k := (kind, h)], sv_chip := g_hw h\<rparr>)))"

definition kind_at :: "nat \<Rightarrow> 'e server \<Rightarrow> gadget_kind" where
  "kind_at k sv = fst (sv_objects sv ! k)"

section \<open>Switching gadgets\<close>

definition chip_Destroy :: "'e os_ops \<Rightarrow> ('e server, unit) st" where
  "chip_Destroy os sv =
     on_object (sv_bound sv) (Destroy os (class_of os (kind_at (sv_bound sv) sv))) sv"

definition chip_Create :: "'e os_ops \<Rightarrow> nat \<Rightarrow> ('e server, unit) st" where
  "chip_Create os k = seq_st (modify_st (\<lambda>sv. sv\<lparr>sv_bound := k\<rparr>)) (on_object k (Create os))"

definition destroy_if_configured :: "'e os_ops \<Rightarrow> ('e server, unit) st" where
  "destroy_if_configured os sv =
     (if IsConfigured (sv_chip sv) then chip_Destroy os sv else (Inr (), sv))"

definition SwitchGadget :: "'e os_ops \<Rightarrow> nat \<Rightarrow> ('e server, unit) st" where
  "SwitchGadget os new_gadget =
     seq_st (destroy_if_configured os)
     (seq_st (modify_st (\<lambda>sv. sv\<lparr>sv_gadget := Some new_gadget\<rparr>))
     (seq_st (\<lambda>sv. on_object new_gadget (AddStringDescriptor 3 (sv_address sv) LANG) sv)
       (chip_Create os new_gadget)))"

section \<open>Requests\<close>

text \<open>
  The POST requests of the handlers. A handler that finishes answers with a status; an exception
  is the server error 500 of the web framework, with the state as it was left. The numbers are
  \<^verbatim>\<open>uuid.getnode()\<close> and, for the echo gadget, \<^verbatim>\<open>uuid.uuid4().bytes_le\<close>.
\<close>

datatype request =
    Claim string | Unclaim | Unconfigure | Disconnect | Reconnect
  | ConfigureEcho nat bytes | ConfigureCompositeEcho nat | ConfigureHidEcho nat
  | ConfigureKeyboard nat | ConfigureMouse nat
  | TypeString string | PressKey string | Click string | MoveMouse int int

definition ClaimHandler_post :: "string \<Rightarrow> ('e server, nat) st" where
  "ClaimHandler_post session_id sv =
     (case sv_claimed_by sv of
        None \<Rightarrow> (Inr 200, sv\<lparr>sv_claimed_by := Some session_id\<rparr>)
      | Some _ \<Rightarrow> (Inr 403, sv))"

definition UnclaimHandler_post :: "'e os_ops \<Rightarrow> ('e server, nat) st" where
  "UnclaimHandler_post os =
     seq_st (modify_st (\<lambda>sv. sv\<lparr>sv_claimed_by := None\<rparr>))
     (seq_st (\<lambda>sv. if sv_gadget sv \<noteq> Some the_default then SwitchGadget os the_default sv else (Inr (), sv))
       (return_st 200))"

definition UnconfigureHandler_post :: "'e os_ops \<Rightarrow> ('e server, nat) st" where
  "UnconfigureHandler_post os = seq_st (SwitchGadget os the_default) (return_st 200)"

definition DisconnectHandler_post :: "'e os_ops \<Rightarrow> ('e server, nat) st" where
  "DisconnectHandler_post os = seq_st (destroy_if_configured os) (return_st 200)"

definition ReconnectHandler_post :: "'e os_ops \<Rightarrow> ('e server, nat) st" where
  "ReconnectHandler_post os =
     seq_st (\<lambda>sv.
       if \<not> IsConfigured (sv_chip sv) then
         (case sv_gadget sv of
            None \<Rightarrow> (Inl AttributeError, sv)
          | Some k \<Rightarrow> chip_Create os k sv)
       else (Inr (), sv))
     (return_st 200)"

text \<open>\<^verbatim>\<open>WebConfigureHandler.post\<close> of the five modules: construct, then switch.\<close>

definition configure ::
    "'e os_ops \<Rightarrow> gadget_kind \<Rightarrow> ('e gadgetfs \<Rightarrow> 'e gadgetfs usb_gadget res) \<Rightarrow> ('e server, nat) st" where
  "configure os kind new sv =
     (case new (sv_chip sv) of
        Inl e \<Rightarrow> (Inl e, sv)
      | Inr g \<Rightarrow>
          seq_st (modify_st (\<lambda>sv. sv\<lparr>sv_objects := sv_objects sv @ [(kind, g)]\<rparr>))
            (seq_st (SwitchGadget os (length (sv_objects sv))) (return_st 200)) sv)"

text \<open>\<^verbatim>\<open>server.gadget.method(...)\<close>; a gadget of another class has no such method.\<close>

definition on_kind :: "gadget_kind \<Rightarrow> ('e gadgetfs usb_gadget, unit) st \<Rightarrow> ('e server, unit) st" where
  "on_kind kind m sv =
     (case sv_gadget sv of
        None \<Rightarrow> (Inl AttributeError, sv)
      | Some k \<Rightarrow> if kind_at k sv = kind then on_object k m sv else (Inl AttributeError, sv))"

definition key_press :: "'e os_ops \<Rightarrow> int \<Rightarrow> ('e server, unit) st" where
  "key_press os code =
     seq_st (on_kind KeyboardG (kg_KeyDown (fs_ops os) code)) (on_kind KeyboardG (kg_KeyUp (fs_ops os) code))"

definition type_char :: "'e os_ops \<Rightarrow> char \<Rightarrow> ('e server, unit) st" where
  "type_char os c =
     (case dict_get KEY_CODES [c] of
        Some code \<Rightarrow> key_press os code
      | None \<Rightarrow>
          (case dict_get SHIFT_KEY_CODES [c] of
             Some code \<Rightarrow>
               seq_st (on_kind KeyboardG (kg_ModifierDown (fs_ops os) HidModifierKey_L_SHIFT))
               (seq_st (key_press os code)
                 (on_kind KeyboardG (kg_ModifierUp (fs_ops os) HidModifierKey_L_SHIFT)))
           | None \<Rightarrow> return_st ()))"

definition WebTypeHandler_post :: "'e os_ops \<Rightarrow> string \<Rightarrow> ('e server, nat) st" where
  "WebTypeHandler_post os s = seq_st (for_st s (type_char os)) (return_st 200)"

definition WebPressHandler_post :: "'e os_ops \<Rightarrow> string \<Rightarrow> ('e server, nat) st" where
  "WebPressHandler_post os key =
     (case dict_get KEY_CODES key of
        None \<Rightarrow> raise_st KeyError
      | Some code \<Rightarrow> seq_st (key_press os code) (return_st 200))"

definition BUTTONS :: "(string \<times> int) list" where
  "BUTTONS = [(''1'', HidMouse_BUTTON_1), (''2'', HidMouse_BUTTON_2), (''3'', HidMouse_BUTTON_3)]"

definition WebClickHandler_post :: "'e os_ops \<Rightarrow> string \<Rightarrow> ('e server, nat) st" where
  "WebClickHandler_post os button =
     (case dict_get BUTTONS button of
        None \<Rightarrow> raise_st KeyError
      | Some b \<Rightarrow>
          seq_st (on_kind MouseG (mg_ButtonDown (fs_ops os) b))
          (seq_st (on_kind MouseG (mg_ButtonUp (fs_ops os) b)) (return_st 200)))"

definition WebMoveHandler_post :: "'e os_ops \<Rightarrow> int \<Rightarrow> int \<Rightarrow> ('e server, nat) st" where
  "WebMoveHandler_post os x y =
     seq_st (on_kind MouseG (mg_Move (fs_ops os) x y)) (return_st 200)"

fun handle :: "'e os_ops \<Rightarrow> request \<Rightarrow> ('e server, nat) st" where
  "handle os (Claim session_id) = ClaimHandler_post session_id"
| "handle os Unclaim = UnclaimHandler_post os"
| "handle os Unconfigure = UnconfigureHandler_post os"
| "handle os Disconnect = DisconnectHandler_post os"
| "handle os Reconnect = ReconnectHandler_post os"
| "handle os (ConfigureEcho node cid) = configure os EchoG (EchoGadget_init (fs_ops os) node cid)"
| "handle os (ConfigureCompositeEcho node) =
     configure os CompositeEchoG (CompositeEchoGadget_init (fs_ops os) node)"
| "handle os (ConfigureHidEcho node) = configure os HidEchoG (HidEchoGadget_init (fs_ops os) node)"
| "handle os (ConfigureKeyboard node) = configure os KeyboardG (KeyboardGadget_init (fs_ops os) node)"
| "handle os (ConfigureMouse node) = configure os MouseG (MouseGadget_init (fs_ops os) node)"
| "handle os (TypeString s) = WebTypeHandler_post os s"
| "handle os (PressKey key) = WebPressHandler_post os key"
| "handle os (Click button) = WebClickHandler_post os button"
| "handle os (MoveMouse x y) = WebMoveHandler_post os x y"

text \<open>
  \<^verbatim>\<open>main\<close>: the controller of the hardware, the default gadget, and the first switch; the
  state when the request loop starts.
\<close>

definition as_usb_gadget :: "'c gadget \<Rightarrow> 'c usb_gadget" where
  "as_usb_gadget g = gadget.extend g (composite_gadget.fields [] [] [])"

definition server_main ::
    "'e os_ops \<Rightarrow> string \<Rightarrow> string \<Rightarrow> string option \<Rightarrow> 'e \<Rightarrow> (unit res \<times> 'e server) res" where
  "server_main os hardware address start_claimed e =
     bind_res (LinuxGadgetfs_init hardware ''/dev/gadget'' e) (\<lambda>chip.
     bind_res (DefaultGadget_init chip) (\<lambda>default_gadget.
       Inr (SwitchGadget os the_default
         \<lparr>sv_objects = [(DefaultG, as_usb_gadget default_gadget)], sv_gadget = None, sv_bound = 0,
          sv_chip = chip, sv_claimed_by = start_claimed, sv_address = address\<rparr>)))"

section \<open>Versions\<close>

text \<open>
  \<^verbatim>\<open>VERSION_PATTERN.match\<close>: the group of the match with the longest prefix. The prefix
  contains no line break.
\<close>

definition is_hash_char :: "char \<Rightarrow> bool" where
  "is_hash_char c \<longleftrightarrow> (CHR ''a'' \<le> c \<and> c \<le> CHR ''z'') \<or> (CHR ''0'' \<le> c \<and> c \<le> CHR ''9'')"

definition hash_at :: "string \<Rightarrow> nat \<Rightarrow> string option" where
  "hash_at s n =
     (let rest = drop n s; h = take 32 (drop 11 rest) in
      if take 11 rest = ''usb_gadget-'' \<and> length h = 32 \<and> list_all is_hash_char h \<and>
         take 4 (drop 43 rest) = ''.zip'' \<and> CHR 0x0A \<notin> set (take n s)
      then Some h else None)"

definition VERSION_PATTERN_match :: "string \<Rightarrow> string option" where
  "VERSION_PATTERN_match s =
     (case List.map_filter (hash_at s) (rev [0..<Suc (length s)]) of [] \<Rightarrow> None | h # _ \<Rightarrow> Some h)"

definition VersionHandler_get :: "string list \<Rightarrow> string" where
  "VersionHandler_get sys_path =
     (case List.map_filter VERSION_PATTERN_match sys_path of [] \<Rightarrow> ''unpackaged'' | v # _ \<Rightarrow> v)"

text \<open>
  The checks of \<^verbatim>\<open>UpdateHandler.post\<close>, up to the file it writes and the arguments of the
  process it starts; \<open>md5\<close> is \<^verbatim>\<open>hashlib.md5(content).hexdigest()\<close>.
\<close>

definition UpdateHandler_check ::
    "(bytes \<Rightarrow> string) \<Rightarrow> string \<Rightarrow> bytes \<Rightarrow> string \<Rightarrow> string \<Rightarrow> string \<Rightarrow> string option \<Rightarrow> nat + (string \<times> bytes \<times> string list)" where
  "UpdateHandler_check md5 filename content interface port hardware claimed_by =
     (case VERSION_PATTERN_match filename of
        None \<Rightarrow> Inl 400
      | Some group1 \<Rightarrow>
          let md5sum = md5 content in
          if md5sum \<noteq> group1 then Inl 400
          else
            let filename = ''usb_gadget-'' @ md5sum @ ''.zip'';
                args = [''/usr/bin/python'', filename, ''--interface'', interface, ''--port'', port,
                        ''--hardware'', hardware];
                args = (case claimed_by of None \<Rightarrow> args | Some c \<Rightarrow> args @ [''--start-claimed'', c])
            in Inr (filename, content, args))"

end
