(* ===== verification/Device_Proofs.thy ===== *)
theory Device_Proofs
  imports Server
begin

text \<open>
  The devices at work: the features keep the contract for control reads, the report descriptors have
  the bytes the HID specification gives, typing sends the reports of the keys and leaves the keyboard
  as it was, and the echo devices send back what they receive.
\<close>

section \<open>The features keep the read contract\<close>

lemma by_class_read:
  assumes "by_class e h p = (r, q)"
    and "\<And>p r q. e p = (r, q) \<Longrightarrow> q = p \<and> R r" and "\<And>p r q. h p = (r, q) \<Longrightarrow> q = p \<and> R r"
  shows "q = p \<and> R r"
proof (cases p)
  case (Pair f s)
  show ?thesis
  proof (cases f)
    case (EchoComposite c)
    obtain r' c' s' where "e (c, s) = (r', (c', s'))" by (metis surj_pair)
    with assms(1) assms(2) [OF this] Pair EchoComposite show ?thesis
      by (auto simp: by_class_def on_echo_def)
  next
    case (HidComposite c)
    obtain r' c' s' where "h (c, s) = (r', (c', s'))" by (metis surj_pair)
    with assms(1) assms(3) [OF this] Pair HidComposite show ?thesis
      by (auto simp: by_class_def on_hid_composite_def)
  qed
qed

lemma feature_ControlRead_fits:
  "feature_ControlRead rc rq v i l p = (r, q) \<Longrightarrow>
     q = p \<and> (\<forall>d. r = Inr (Some d) \<longrightarrow> 0 \<le> l \<longrightarrow> int (length d) \<le> l)"
  by (auto simp: feature_ControlRead_def return_st_def)

lemma hc_StandardControlRead_fits:
  "hc_StandardControlRead rc rq v i l p = (r, q) \<Longrightarrow>
     q = p \<and> (\<forall>d. r = Inr (Some d) \<longrightarrow> 0 \<le> l \<longrightarrow> int (length d) \<le> l)"
  by (auto simp: hc_StandardControlRead_def Let_def length_slice_to feature_ControlRead_def return_st_def
      split: if_splits)

lemma GetReport_fits: "GetReport hm f t i l = Inr (Some d) \<Longrightarrow> 0 \<le> l \<Longrightarrow> int (length d) \<le> l"
  by (auto simp: GetReport_def slice_report_def bind_res_Inr_iff length_slice_to
      split: option.splits if_splits)

lemma hc_ClassControlRead_fits:
  "hc_ClassControlRead hm rc rq v i l p = (r, q) \<Longrightarrow>
     q = p \<and> (\<forall>d. r = Inr (Some d) \<longrightarrow> 0 \<le> l \<longrightarrow> int (length d) \<le> l)"
  by (auto simp: hc_ClassControlRead_def Let_def GetReport_fits split: if_splits)

interpretation usb_reads: read_contract "Usb_class ops"
proof
  fix recipient request val index len p r q
  let ?R = "\<lambda>r. \<forall>d. r = Inr (Some d) \<longrightarrow> 0 \<le> len \<longrightarrow> int (length (d :: bytes)) \<le> len"
  show "fc_StandardControlRead (Usb_class ops) recipient request val index len p = (r, q) \<Longrightarrow> q = p \<and> ?R r"
    unfolding Usb_class_def feature_class.simps
    by (erule by_class_read [where R = ?R]) (erule feature_ControlRead_fits hc_StandardControlRead_fits)+
  show "fc_ClassControlRead (Usb_class ops) recipient request val index len p = (r, q) \<Longrightarrow> q = p \<and> ?R r"
    unfolding Usb_class_def feature_class.simps
    by (erule by_class_read [where R = ?R]) (erule feature_ControlRead_fits hc_ClassControlRead_fits)+
  show "fc_VendorControlRead (Usb_class ops) recipient request val index len p = (r, q) \<Longrightarrow> q = p \<and> ?R r"
    unfolding Usb_class_def feature_class.simps
    by (erule by_class_read [where R = ?R]) (erule feature_ControlRead_fits)+
qed

section \<open>Report descriptors\<close>

lemmas report_desc_eval =
  ReportDescriptor_def Collection_def hid_item_defs PackItem_def item_prefix_def main_item_value_def
  pack_uint_def numeral_eq_Suc le_pack.simps

lemma keyboard_REPORT_DESC_bytes:
  "keyboard_REPORT_DESC = Inr
     [0x05, 0x01, 0x09, 0x06, 0xA1, 0x01, 0x05, 0x07, 0x19, 0xE0, 0x29, 0xE7, 0x15, 0x00, 0x25, 0x01,
      0x75, 0x01, 0x95, 0x08, 0x81, 0x02, 0x95, 0x01, 0x75, 0x08, 0x81, 0x01, 0x95, 0x05, 0x75, 0x01,
      0x05, 0x08, 0x19, 0x01, 0x29, 0x05, 0x91, 0x02, 0x95, 0x01, 0x75, 0x03, 0x91, 0x01, 0x95, 0x06,
      0x75, 0x08, 0x15, 0x00, 0x25, 0x65, 0x05, 0x07, 0x19, 0x00, 0x29, 0x65, 0x81, 0x00, 0xC0]"
  by (simp add: keyboard_REPORT_DESC_def report_desc_eval)

lemma mouse_REPORT_DESC_bytes:
  "mouse_REPORT_DESC = Inr
     [0x05, 0x01, 0x09, 0x02, 0xA1, 0x01, 0x09, 0x01, 0xA1, 0x00, 0x05, 0x09, 0x19, 0x01, 0x29, 0x03,
      0x15, 0x00, 0x25, 0x01, 0x95, 0x03, 0x75, 0x01, 0x81, 0x02, 0x95, 0x01, 0x75, 0x05, 0x81, 0x01,
      0x05, 0x01, 0x09, 0x30, 0x09, 0x31, 0x15, 0x81, 0x25, 0x7F, 0x75, 0x08, 0x95, 0x02, 0x81, 0x06,
      0xC0, 0xC0]"
  by (simp add: mouse_REPORT_DESC_def report_desc_eval)

lemma echo_REPORT_DESC_bytes:
  "echo_REPORT_DESC = Inr
     [0x06, 0x00, 0xFF, 0x08, 0xA1, 0x01, 0x15, 0x00, 0x26, 0xFF, 0x00, 0x75, 0x08, 0x95, 0x08, 0x08,
      0x81, 0x02, 0x08, 0x91, 0x02, 0x08, 0xB1, 0x02, 0xC0]"
  by code_simp

section \<open>Sending reports\<close>

definition pipe_of :: "nat \<Rightarrow> 'e gadgetfs \<Rightarrow> bytes list" where
  "pipe_of p c = (case dict_get (c_pipes c) p of None \<Rightarrow> [] | Some q \<Rightarrow> q)"

lemma pipe_of_send [simp]: "pipe_of q (pipe_send p d c) = (if q = p then pipe_of p c @ [d] else pipe_of q c)"
  by (simp add: pipe_of_def pipe_send_def)

lemma pipe_send_fds [simp]: "c_ep_fds (pipe_send p d c) = c_ep_fds c"
  by (simp add: pipe_send_def)

text \<open>A report of a connected feature goes into the pipe of the interrupt IN endpoint.\<close>

lemma hf_SendReport_zero:
  assumes "hf_gadget h" and "hf_report_id h = Some 0" and "cf_gadget hc" and "g_chip g"
    and "hc_in_endpoint hc AND Dir_IN \<noteq> 0"
    and "dict_get (c_ep_fds (g_hw g)) (hc_in_endpoint hc) = Some (fd, p)"
  shows "hf_SendReport (fs_ops os) d (h, (hc, g)) = (Inr (), (h, (hc, g\<lparr>g_hw := pipe_send p d (g_hw g)\<rparr>)))"
  using assms
  by (simp add: hf_SendReport_def hf_IsConnected_def owner_def hc_SendReport_def feature_SendPacket_def
      SendPacket_def chip_call_def fs_ops_def fs_SendPacket_def)

section \<open>Typing\<close>

text \<open>
  The current gadget is the keyboard gadget number \<open>n\<close>, configured, with keyboard state \<open>k\<close>; its
  IN endpoint runs and is served by pipe \<open>p\<close>.
\<close>

definition kb_ready :: "nat \<Rightarrow> nat \<Rightarrow> keyboard \<Rightarrow> 'e server \<Rightarrow> bool" where
  "kb_ready n p k sv \<longleftrightarrow>
     sv_gadget sv = Some n \<and> n < length (sv_objects sv) \<and> hf_gadget k \<and> hf_report_id k = Some 0 \<and>
     (\<exists>g hc fd. sv_objects sv ! n = (KeyboardG, g) \<and> g_chip g \<and> cg_features g = [HidComposite hc] \<and>
        cf_gadget hc \<and> hc_in_endpoint hc = 0x81 \<and> hc_features hc = [(0, Keyboard k)] \<and>
        dict_get (c_ep_fds (sv_chip sv)) 0x81 = Some (fd, p))"

lemma keyboard_method:
  assumes ready: "kb_ready n p k sv"
    and m: "\<And>t. m (k, t) = send_if_connected (fs_ops os) kb_GetInputReport (k', t)"
    and k': "hf_gadget k'" "hf_report_id k' = Some 0" "kb_GetInputReport k' = Inr d"
  shows "\<exists>sv'. on_kind KeyboardG (on_hid_feature (on_keyboard m)) sv = (Inr (), sv') \<and> kb_ready n p k' sv' \<and>
    pipe_of p (sv_chip sv') = pipe_of p (sv_chip sv) @ [d]"
proof -
  from ready obtain g hc fd where g: "sv_gadget sv = Some n" "n < length (sv_objects sv)"
    "sv_objects sv ! n = (KeyboardG, g)" "g_chip g" "cg_features g = [HidComposite hc]" "cf_gadget hc"
    "hc_in_endpoint hc = 0x81" "hc_features hc = [(0, Keyboard k)]"
    "dict_get (c_ep_fds (sv_chip sv)) 0x81 = Some (fd, p)" by (auto simp: kb_ready_def)
  let ?c = "pipe_send p d (sv_chip sv)"
  let ?hc = "hc\<lparr>hc_features := [(0, Keyboard k')]\<rparr>"
  let ?g = "g\<lparr>g_hw := ?c, cg_features := [HidComposite ?hc]\<rparr>"
  have send: "m (k, (hc, g\<lparr>g_hw := sv_chip sv\<rparr>)) = (Inr (), (k', (hc, g\<lparr>g_hw := ?c\<rparr>)))"
    using hf_SendReport_zero [of k' hc "g\<lparr>g_hw := sv_chip sv\<rparr>" fd p os d] k' g
    by (simp add: m send_if_connected_def hf_IsConnected_def)
  have run: "on_hid_feature (on_keyboard m) (g\<lparr>g_hw := sv_chip sv\<rparr>) = (Inr (), ?g)"
    using g by (simp add: on_hid_feature_def on_feature_def on_hid_composite_def on_hid_def on_keyboard_def send)
  have "on_kind KeyboardG (on_hid_feature (on_keyboard m)) sv =
      (Inr (), sv\<lparr>sv_objects := (sv_objects sv)[n := (KeyboardG, ?g)], sv_chip := ?c\<rparr>)"
    using g by (simp add: on_kind_def kind_at_def on_object_def run)
  then show ?thesis using g k' by (simp add: kb_ready_def)
qed

text \<open>A report with the given modifiers and one key.\<close>

definition key_report :: "int \<Rightarrow> int \<Rightarrow> bytes" where
  "key_report modifiers code = [word_of_int modifiers, 0, word_of_int code, 0, 0, 0, 0, 0]"

lemma key_report_eq:
  "0 \<le> m \<Longrightarrow> m < 256 \<Longrightarrow> 0 \<le> c \<Longrightarrow> c < 256 \<Longrightarrow> kb_modifiers k = m \<Longrightarrow> kb_keys k = [c, 0, 0, 0, 0, 0] \<Longrightarrow>
     kb_GetInputReport k = Inr (key_report m c)"
  by (simp add: kb_GetInputReport_def key_report_def pack_uint_def le_pack.simps)

lemma key_press_ready:
  assumes "kb_ready n p k sv" and "kb_keys k = [0, 0, 0, 0, 0, 0]" and "0 < code" "code < 256"
    and "0 \<le> kb_modifiers k" "kb_modifiers k < 256"
  shows "\<exists>sv'. key_press os code sv = (Inr (), sv') \<and> kb_ready n p k sv' \<and>
    pipe_of p (sv_chip sv') =
      pipe_of p (sv_chip sv) @ [key_report (kb_modifiers k) code, key_report (kb_modifiers k) 0]"
proof -
  let ?k = "k\<lparr>kb_keys := [code, 0, 0, 0, 0, 0]\<rparr>"
  have conn: "hf_gadget k" "hf_report_id k = Some 0" using assms(1) by (simp_all add: kb_ready_def)
  have restored: "?k\<lparr>kb_keys := [0, 0, 0, 0, 0, 0]\<rparr> = k" using assms(2) by (cases k) simp
  have "\<exists>sv'. on_kind KeyboardG (kg_KeyDown (fs_ops os) code) sv = (Inr (), sv') \<and> kb_ready n p ?k sv' \<and>
      pipe_of p (sv_chip sv') = pipe_of p (sv_chip sv) @ [key_report (kb_modifiers k) code]"
    unfolding kg_KeyDown_def using assms conn
    by (intro keyboard_method [of n p k])
      (simp_all add: KeyDown_def replace_key_def seq_st_def bind_st_run key_report_eq)
  then obtain u where u: "on_kind KeyboardG (kg_KeyDown (fs_ops os) code) sv = (Inr (), u)" "kb_ready n p ?k u"
    "pipe_of p (sv_chip u) = pipe_of p (sv_chip sv) @ [key_report (kb_modifiers k) code]" by blast
  have "\<exists>sv'. on_kind KeyboardG (kg_KeyUp (fs_ops os) code) u = (Inr (), sv') \<and> kb_ready n p k sv' \<and>
      pipe_of p (sv_chip sv') = pipe_of p (sv_chip u) @ [key_report (kb_modifiers k) 0]"
    unfolding kg_KeyUp_def using assms conn u(2)
    by (intro keyboard_method [of n p ?k])
      (simp_all add: KeyUp_def replace_key_def seq_st_def bind_st_run key_report_eq restored)
  then show ?thesis using u by (auto simp: key_press_def seq_st_def bind_st_run)
qed

lemma modifier_ready:
  assumes "kb_ready n p k sv" and "kb_keys k = [0, 0, 0, 0, 0, 0]" and "kb_modifiers k = 0"
  shows "\<exists>sv'. on_kind KeyboardG (kg_ModifierDown (fs_ops os) 2) sv = (Inr (), sv') \<and>
      kb_ready n p (k\<lparr>kb_modifiers := 2\<rparr>) sv' \<and>
      pipe_of p (sv_chip sv') = pipe_of p (sv_chip sv) @ [key_report 2 0]"
    and "kb_ready n p (k\<lparr>kb_modifiers := 2\<rparr>) u \<Longrightarrow>
      \<exists>sv'. on_kind KeyboardG (kg_ModifierUp (fs_ops os) 2) u = (Inr (), sv') \<and> kb_ready n p k sv' \<and>
      pipe_of p (sv_chip sv') = pipe_of p (sv_chip u) @ [key_report 0 0]"
proof -
  have conn: "hf_gadget k" "hf_report_id k = Some 0" using assms(1) by (simp_all add: kb_ready_def)
  have restored: "k\<lparr>kb_modifiers := 0\<rparr> = k" using assms(3) by (cases k) simp
  show "\<exists>sv'. on_kind KeyboardG (kg_ModifierDown (fs_ops os) 2) sv = (Inr (), sv') \<and>
      kb_ready n p (k\<lparr>kb_modifiers := 2\<rparr>) sv' \<and>
      pipe_of p (sv_chip sv') = pipe_of p (sv_chip sv) @ [key_report 2 0]"
    unfolding kg_ModifierDown_def using assms conn
    by (intro keyboard_method [of n p k]) (simp_all add: ModifierDown_def st_run key_report_eq)
  show "\<exists>sv'. on_kind KeyboardG (kg_ModifierUp (fs_ops os) 2) u = (Inr (), sv') \<and> kb_ready n p k sv' \<and>
      pipe_of p (sv_chip sv') = pipe_of p (sv_chip u) @ [key_report 0 0]"
    if "kb_ready n p (k\<lparr>kb_modifiers := 2\<rparr>) u"
    unfolding kg_ModifierUp_def using that assms conn
    by (intro keyboard_method [of n p "k\<lparr>kb_modifiers := 2\<rparr>"])
      (simp_all add: ModifierUp_def st_run key_report_eq restored)
qed

text \<open>The reports a character stands for.\<close>

definition char_reports :: "char \<Rightarrow> bytes list" where
  "char_reports c =
     (case dict_get KEY_CODES [c] of
        Some code \<Rightarrow> [key_report 0 code, key_report 0 0]
      | None \<Rightarrow>
          (case dict_get SHIFT_KEY_CODES [c] of
             Some code \<Rightarrow> [key_report 2 0, key_report 2 code, key_report 2 0, key_report 0 0]
           | None \<Rightarrow> []))"

lemma set_codes_values: "snd ` set (set_codes ks codes d) \<subseteq> snd ` set d \<union> set codes"
proof -
  have "snd ` set (fold (\<lambda>(key, code). dict_set key code) ps d) \<subseteq> snd ` set d \<union> snd ` set ps" for ps :: "(string \<times> int) list"
  proof (induction ps arbitrary: d)
    case (Cons p ps)
    obtain key code where p: "p = (key, code)" by force
    have "snd ` set (dict_set key code d) \<subseteq> insert code (snd ` set d)" by (induction d) auto
    with Cons [of "dict_set key code d"] show ?case by (auto simp: p)
  qed simp
  note this [of "zip ks codes"]
  moreover have "snd ` set (zip ks codes) \<subseteq> set codes"
    by (auto dest: set_zip_rightD)
  ultimately show ?thesis unfolding set_codes_def by blast
qed

lemma set_codes_range:
  "snd ` set d \<subseteq> {1..255} \<Longrightarrow> set codes \<subseteq> {1..255} \<Longrightarrow> snd ` set (set_codes ks codes d) \<subseteq> {1..255}"
  using set_codes_values [of ks codes d] by blast

lemma KEY_CODES_range: "dict_get KEY_CODES s = Some c \<Longrightarrow> 0 < c \<and> c < 256"
proof -
  have "snd ` set KEY_CODES \<subseteq> {1..255}"
    unfolding KEY_CODES_def comp_def by (intro set_codes_range) auto
  then show "dict_get KEY_CODES s = Some c \<Longrightarrow> 0 < c \<and> c < 256" by (force dest!: map_of_SomeD)
qed

lemma SHIFT_KEY_CODES_range: "dict_get SHIFT_KEY_CODES s = Some c \<Longrightarrow> 0 < c \<and> c < 256"
proof -
  have "snd ` set SHIFT_KEY_CODES \<subseteq> {1..255}"
    unfolding SHIFT_KEY_CODES_def comp_def by (intro set_codes_range) auto
  then show "dict_get SHIFT_KEY_CODES s = Some c \<Longrightarrow> 0 < c \<and> c < 256" by (force dest!: map_of_SomeD)
qed

lemma type_char_ready:
  assumes "kb_ready n p k sv" and "kb_keys k = [0, 0, 0, 0, 0, 0]" and "kb_modifiers k = 0"
  shows "\<exists>sv'. type_char os c sv = (Inr (), sv') \<and> kb_ready n p k sv' \<and>
    pipe_of p (sv_chip sv') = pipe_of p (sv_chip sv) @ char_reports c"
proof (cases "dict_get KEY_CODES [c]")
  case (Some code)
  with key_press_ready [OF assms(1,2), of code os] KEY_CODES_range [OF Some] assms(3) show ?thesis
    by (auto simp: type_char_def char_reports_def)
next
  case None
  show ?thesis
  proof (cases "dict_get SHIFT_KEY_CODES [c]")
    case (Some code)
    note range = SHIFT_KEY_CODES_range [OF Some]
    from modifier_ready(1) [OF assms] obtain u where
      u: "on_kind KeyboardG (kg_ModifierDown (fs_ops os) 2) sv = (Inr (), u)"
      "kb_ready n p (k\<lparr>kb_modifiers := 2\<rparr>) u"
      "pipe_of p (sv_chip u) = pipe_of p (sv_chip sv) @ [key_report 2 0]" by blast
    from key_press_ready [OF u(2), of code os] range assms(2) obtain v where
      v: "key_press os code u = (Inr (), v)" "kb_ready n p (k\<lparr>kb_modifiers := 2\<rparr>) v"
      "pipe_of p (sv_chip v) = pipe_of p (sv_chip u) @ [key_report 2 code, key_report 2 0]" by auto
    from modifier_ready(2) [OF assms v(2)] obtain w where
      w: "on_kind KeyboardG (kg_ModifierUp (fs_ops os) 2) v = (Inr (), w)" "kb_ready n p k w"
      "pipe_of p (sv_chip w) = pipe_of p (sv_chip v) @ [key_report 0 0]" by blast
    have "type_char os c sv = (Inr (), w)"
      using None Some u(1) v(1) w(1) by (simp add: type_char_def seq_st_def bind_st_run)
    with None Some u(3) v(3) w(2,3) show ?thesis by (simp add: char_reports_def)
  next
    case None
    with \<open>dict_get KEY_CODES [c] = None\<close> assms(1) show ?thesis
      by (simp add: type_char_def char_reports_def return_st_def)
  qed
qed

lemma type_string_ready:
  assumes "kb_ready n p k sv" and "kb_keys k = [0, 0, 0, 0, 0, 0]" and "kb_modifiers k = 0"
  shows "\<exists>sv'. WebTypeHandler_post os s sv = (Inr 200, sv') \<and> kb_ready n p k sv' \<and>
    pipe_of p (sv_chip sv') = pipe_of p (sv_chip sv) @ concat (map char_reports s)"
proof -
  define I where "I before u \<longleftrightarrow> kb_ready n p k u \<and>
      pipe_of p (sv_chip u) = pipe_of p (sv_chip sv) @ concat (map char_reports before)" for before and u :: "'a server"
  have "\<exists>t. for_st s (type_char os) sv = (Inr (), t) \<and> I s t"
  proof (rule for_st_total)
    show "I [] sv" using assms(1) by (simp add: I_def)
    show "\<exists>v. type_char os x u = (Inr (), v) \<and> I (before @ [x]) v"
      if "s = before @ x # rest" "I before u" for before x rest u
      using that(2) type_char_ready [OF _ assms(2,3), of n p u os x] by (auto simp: I_def)
  qed
  then show ?thesis by (auto simp: WebTypeHandler_post_def seq_st_def bind_st_run return_st_def I_def)
qed

section \<open>Echo\<close>

text \<open>The HID echo feature stores eight bytes and sends the same eight bytes.\<close>

lemma unpack_Q: "length data = 8 \<Longrightarrow> unpack_ints [F_Q] data = Inr [le_unpack data]"
  by (simp add: unpack_ints_def struct_unpack_def)

lemma pack_Q_unpack: "length data = 8 \<Longrightarrow> struct_pack [F_Q] [PInt (le_unpack data)] = Inr data"
  using le_unpack_nonneg [of data] le_unpack_bound [of data] le_pack_unpack [of data]
  by (simp add: pack_uint_def)

lemma he_SetInputOutputReport_echo:
  assumes "length data = 8" and "hf_gadget e" and "hf_report_id e = Some 0" and "cf_gadget hc" and "g_chip g"
    and "hc_in_endpoint hc AND Dir_IN \<noteq> 0"
    and "dict_get (c_ep_fds (g_hw g)) (hc_in_endpoint hc) = Some (fd, p)"
  shows "he_SetInputOutputReport (fs_ops os) data (e, (hc, g)) =
      (Inr (Some True), (e\<lparr>he_input_output_report := le_unpack data\<rparr>,
         (hc, g\<lparr>g_hw := pipe_send p data (g_hw g)\<rparr>)))"
    and "he_report (e\<lparr>he_input_output_report := le_unpack data\<rparr>) = Inr data"
proof -
  show rep: "he_report (e\<lparr>he_input_output_report := le_unpack data\<rparr>) = Inr data"
    using pack_Q_unpack [OF assms(1)] by (simp add: he_report_def)
  from assms show "he_SetInputOutputReport (fs_ops os) data (e, (hc, g)) =
      (Inr (Some True), (e\<lparr>he_input_output_report := le_unpack data\<rparr>,
         (hc, g\<lparr>g_hw := pipe_send p data (g_hw g)\<rparr>)))"
    using rep hf_SendReport_zero [of "e\<lparr>he_input_output_report := le_unpack data\<rparr>" hc g fd p os data]
    by (simp add: he_SetInputOutputReport_def seq_st_def bind_st_run unpack_Q return_st_def)
qed

text \<open>The echo feature sends a packet back on the IN endpoint of the same number.\<close>

lemma echo_ReceivePacket_sends:
  assumes "endpoint AND Dir_IN = 0" and "cf_gadget f" and "g_chip g"
    and "dict_get (c_ep_fds (g_hw g)) (endpoint OR Dir_IN) = Some (fd, p)"
  shows "echo_ReceivePacket (fs_ops os) endpoint data (f, g) =
    (Inr (), (f, g\<lparr>g_hw := pipe_send p data (g_hw g)\<rparr>))"
proof -
  have "(endpoint OR Dir_IN) AND Dir_IN = Dir_IN" by (simp add: bit_eq_iff bit_simps) blast
  with assms show ?thesis
    by (simp add: echo_ReceivePacket_def feature_SendPacket_def owner_def SendPacket_def chip_call_def
        fs_ops_def fs_SendPacket_def)
qed

end
