(* ===== verification/Server_Proofs.thy ===== *)
theory Server_Proofs
  imports Device_Proofs
begin

text \<open>
  The server as a whole: requests, USB events and the child processes interleave. In every state
  that can be reached the controller is bound to the current gadget or to none; a claim lasts until
  it is given back; releasing the device brings the default gadget back.
\<close>

section \<open>What the methods leave alone\<close>

lemma keeps_owner [keeps_rules]: "keeps f m \<Longrightarrow> keeps (f \<circ> snd) (owner m)"
  by (auto simp: keeps_def owner_def split: prod.split) (metis snd_conv)

lemma keeps_chip_call [keeps_rules]: "keeps f m \<Longrightarrow> keeps (f \<circ> g_hw) (chip_call m)"
  by (auto simp: keeps_def chip_call_def split: prod.split) (metis snd_conv)

lemma keeps_on_hw [keeps_rules]: "keeps f m \<Longrightarrow> keeps (f \<circ> g_hw) (on_hw m)"
  by (auto simp: keeps_def on_hw_def split: prod.split) (metis snd_conv)

lemma keeps_os_call [keeps_rules]: "(\<And>c e. f (c\<lparr>c_os := e\<rparr>) = f c) \<Longrightarrow> keeps f (os_call m)"
  by (auto simp: keeps_def os_call_def split: prod.split sum.split)

lemma keeps_os_try [keeps_rules]: "(\<And>c e. f (c\<lparr>c_os := e\<rparr>) = f c) \<Longrightarrow> keeps f (os_try i m)"
  by (auto simp: keeps_def os_try_def split: prod.split sum.split)

lemma keeps_with_fd [keeps_rules]: "(\<And>fd. keeps f (m fd)) \<Longrightarrow> keeps f (with_fd m)"
  by (simp add: keeps_def with_fd_def split: option.split)

lemma keeps_on_gadget [keeps_rules]: "keeps f m \<Longrightarrow> keeps f (on_gadget m)"
  by (simp add: keeps_def on_gadget_def)

text \<open>The controller's binding and control file are not touched by endpoint operations.\<close>

abbreviation binding :: "'e gadgetfs \<Rightarrow> bool \<times> nat option" where
  "binding c \<equiv> (c_gadget c, c_fd c)"

lemma start_process_binding [simp]:
  "c_gadget (start_process a fd sz c) = c_gadget c" "c_fd (start_process a fd sz c) = c_fd c"
  by (simp_all add: start_process_def Let_def)

lemma keeps_StartEndpoint [keeps_rules]: "keeps binding (StartEndpoint os speed d)"
proof (rule keepsI)
  fix c
  obtain r c' where "StartEndpoint os speed d c = (r, c')" by force
  then show "binding (snd (StartEndpoint os speed d c)) = binding c"
    by (auto elim!: StartEndpoint_cases)
qed

lemma keeps_StopEndpoint [keeps_rules]: "keeps binding (StopEndpoint os a)"
  by (auto simp: keeps_def StopEndpoint_def split: option.split)

lemma keeps_fs_SendPacket [keeps_rules]: "keeps binding (fs_SendPacket a data)"
  by (auto simp: keeps_def fs_SendPacket_def pipe_send_def split: option.split)

lemma keeps_fs_HaltEndpoint [keeps_rules]: "keeps binding (fs_HaltEndpoint a)"
  by (auto simp: keeps_def fs_HaltEndpoint_def split: option.split)

lemma fs_ops_simps [simp]:
  "chip_StartEndpoint (fs_ops os) = StartEndpoint os" "chip_StopEndpoint (fs_ops os) = StopEndpoint os"
  "chip_SendPacket (fs_ops os) = fs_SendPacket" "chip_HaltEndpoint (fs_ops os) = fs_HaltEndpoint"
  by (simp_all add: fs_ops_def)

lemma keeps_start_endpoint [keeps_rules]: "keeps (binding \<circ> g_hw) (start_endpoint (fs_ops os) s d i)"
  unfolding start_endpoint_def by (auto simp: Let_def intro!: keeps_rules)

lemma keeps_SetConfiguration [keeps_rules]: "keeps (binding \<circ> g_hw) (SetConfiguration (fs_ops os) i)"
  unfolding SetConfiguration_def stop_all_endpoints_def start_interface_def Let_def
  by (auto intro!: keeps_rules)

lemma keeps_del_endpoint [keeps_rules]: "keeps (binding \<circ> g_hw) (del_endpoint a)"
  by (auto simp: keeps_def del_endpoint_def)

lemma keeps_SetInterface [keeps_rules]: "keeps (binding \<circ> g_hw) (SetInterface (fs_ops os) i alt)"
  unfolding SetInterface_def
  by (rule keeps_rules, intro keeps_rules)
    (auto intro!: keeps_rules split: option.split)

lemma keeps_StandardControlWrite [keeps_rules]:
  "keeps (binding \<circ> g_hw) (StandardControlWrite (fs_ops os) rc rq v i d)"
  unfolding StandardControlWrite_def by (intro keeps_rules)

lemma keeps_pure [keeps_rules]: "keeps f (\<lambda>s. (r s, s))"
  by (simp add: keeps_def)

lemma keeps_Gadget_SendPacket [keeps_rules]: "keeps (binding \<circ> g_hw) (SendPacket (fs_ops os) a d)"
  unfolding keeps_def SendPacket_def
  using keeps_chip_call [OF keeps_fs_SendPacket, of a d] by (auto simp: keeps_def)

lemma keeps_Gadget_HaltEndpoint [keeps_rules]: "keeps (binding \<circ> g_hw) (HaltEndpoint (fs_ops os) a)"
  unfolding HaltEndpoint_def by (auto intro!: keeps_rules)

section \<open>Features\<close>

abbreviation chip_binding :: "'f \<times> ('e gadgetfs, 'z) gadget_scheme \<Rightarrow> bool \<times> nat option" where
  "chip_binding \<equiv> (binding \<circ> g_hw) \<circ> snd"

lemma keeps_feature_SendPacket [keeps_rules]: "keeps chip_binding (feature_SendPacket (fs_ops os) a d)"
  by (rule keepsI) (simp only: feature_SendPacket_def keeps_run [OF keeps_owner [OF keeps_Gadget_SendPacket]]
      snd_conv simp_thms split: if_split)

lemma keeps_feature_HaltEndpoint [keeps_rules]: "keeps chip_binding (feature_HaltEndpoint (fs_ops os) a)"
  by (rule keepsI) (simp only: feature_HaltEndpoint_def keeps_run [OF keeps_owner [OF keeps_Gadget_HaltEndpoint]]
      snd_conv simp_thms split: if_split)

lemma keeps_hc_SendReport [keeps_rules]: "keeps chip_binding (hc_SendReport (fs_ops os) i d)"
  by (rule keepsI) (simp only: hc_SendReport_def keeps_run [OF keeps_feature_SendPacket]
      snd_conv simp_thms split: if_split sum.split)

lemma keeps_hf_SendReport [keeps_rules]: "keeps (chip_binding \<circ> snd) (hf_SendReport (fs_ops os) d)"
  by (rule keepsI) (simp only: hf_SendReport_def keeps_run [OF keeps_owner [OF keeps_hc_SendReport]]
      snd_conv simp_thms split: if_split)

lemma keeps_send_if_connected [keeps_rules]:
  "keeps (chip_binding \<circ> snd) (send_if_connected (fs_ops os) report)"
  by (rule keepsI) (simp only: send_if_connected_def keeps_run [OF keeps_hf_SendReport]
      snd_conv simp_thms split: if_split sum.split)

lemma keeps_he_SetInputOutputReport [keeps_rules]:
  "keeps (chip_binding \<circ> snd) (he_SetInputOutputReport (fs_ops os) data)"
  unfolding he_SetInputOutputReport_def
  using keeps_hf_SendReport [of os]
  by (intro keeps_rules) (auto simp: keeps_def split: sum.split)

lemma keeps_devices [keeps_rules]:
  "keeps (chip_binding \<circ> snd) m \<Longrightarrow> keeps (chip_binding \<circ> snd) (on_keyboard m)"
  "keeps (chip_binding \<circ> snd) m' \<Longrightarrow> keeps (chip_binding \<circ> snd) (on_mouse m')"
  "keeps (chip_binding \<circ> snd) m'' \<Longrightarrow> keeps (chip_binding \<circ> snd) (on_hid_echo m'')"
  by (auto simp: keeps_def on_keyboard_def on_mouse_def on_hid_echo_def split: prod.split hid_device.split)
    (metis snd_conv)+

lemma keeps_set_reports [keeps_rules]:
  "keeps (chip_binding \<circ> snd) (device_SetInputReport (fs_ops os) data)"
  "keeps (chip_binding \<circ> snd) (device_SetOutputReport (fs_ops os) data)"
  "keeps (chip_binding \<circ> snd) (device_SetFeatureReport data)"
proof -
  have kb: "keeps (chip_binding \<circ> snd) (kb_SetOutputReport data)"
    unfolding kb_SetOutputReport_def by (intro keeps_rules) (auto simp: keeps_def split: sum.split)
  have he: "keeps (chip_binding \<circ> snd) (he_SetFeatureReport data)"
    unfolding he_SetFeatureReport_def by (intro keeps_rules) (auto simp: keeps_def split: sum.split)
  show "keeps (chip_binding \<circ> snd) (device_SetInputReport (fs_ops os) data)"
    by (rule keepsI) (simp only: device_SetInputReport_def hf_SetReport_def keeps_run [OF keeps_basic(1)]
        keeps_run [OF keeps_devices(3) [OF keeps_he_SetInputOutputReport]] simp_thms split: hid_device.split)
  show "keeps (chip_binding \<circ> snd) (device_SetOutputReport (fs_ops os) data)"
    by (rule keepsI) (simp only: device_SetOutputReport_def hf_SetReport_def keeps_run [OF keeps_basic(1)]
        keeps_run [OF keeps_devices(3) [OF keeps_he_SetInputOutputReport]] keeps_run [OF keeps_devices(1) [OF kb]]
        simp_thms split: hid_device.split)
  show "keeps (chip_binding \<circ> snd) (device_SetFeatureReport data)"
    by (rule keepsI) (simp only: device_SetFeatureReport_def hf_SetReport_def keeps_run [OF keeps_basic(1)]
        keeps_run [OF keeps_devices(3) [OF he]] simp_thms split: hid_device.split)
qed

lemma keeps_on_hid [keeps_rules]:
  "keeps (chip_binding \<circ> snd) m \<Longrightarrow> keeps chip_binding (on_hid i m)"
  by (auto simp: keeps_def on_hid_def split: prod.split option.split) (metis snd_conv)+

lemma Device_class_simps [simp]:
  "hm_SetInputReport (Device_class ops) = device_SetInputReport ops"
  "hm_SetOutputReport (Device_class ops) = device_SetOutputReport ops"
  "hm_SetFeatureReport (Device_class ops) = device_SetFeatureReport"
  by (simp_all add: Device_class_def)

lemma keeps_SetReport [keeps_rules]: "keeps chip_binding (SetReport (Device_class (fs_ops os)) t i data)"
  by (rule keepsI) (simp only: SetReport_def Device_class_simps snd_conv simp_thms
      keeps_run [OF keeps_on_hid [OF keeps_set_reports(1)]] keeps_run [OF keeps_on_hid [OF keeps_set_reports(2)]]
      keeps_run [OF keeps_on_hid [OF keeps_set_reports(3)]] split: if_split)

lemma keeps_hc_ClassControlWrite [keeps_rules]:
  "keeps chip_binding (hc_ClassControlWrite (Device_class (fs_ops os)) rc rq v i data)"
  by (rule keepsI) (simp only: hc_ClassControlWrite_def Let_def snd_conv simp_thms
      keeps_run [OF keeps_SetReport] split: if_split)

lemma keeps_hc_ReceivePacket [keeps_rules]:
  "keeps chip_binding (hc_ReceivePacket (fs_ops os) (Device_class (fs_ops os)) a data)"
proof -
  have out: "keeps chip_binding (bind_st (on_hid i (device_SetOutputReport (fs_ops os) d)) (\<lambda>_. return_st ()))" for i d
    by (intro keeps_rules)
  have rep: "keeps chip_binding (bind_st (on_hid i (device_SetOutputReport (fs_ops os) d)) (\<lambda>r.
      if r = None then feature_HaltEndpoint (fs_ops os) a else return_st ()))" for i d
    by (intro keeps_rules)
  show ?thesis
    by (rule keepsI) (simp only: hc_ReceivePacket_def Device_class_simps Let_def snd_conv simp_thms
        keeps_run [OF out] keeps_run [OF rep] keeps_run [OF keeps_feature_HaltEndpoint] split: if_split list.split)
qed

lemma keeps_by_class [keeps_rules]:
  "keeps chip_binding e \<Longrightarrow> keeps chip_binding h \<Longrightarrow> keeps chip_binding (by_class e h)"
  by (auto simp: keeps_def by_class_def on_echo_def on_hid_composite_def split: usb_feature.split prod.split)
    (metis snd_conv)+

lemma keeps_on_feature [keeps_rules]:
  "keeps chip_binding m \<Longrightarrow> keeps (binding \<circ> g_hw) (on_feature k m)"
  by (auto simp: keeps_def on_feature_def split: prod.split) (metis snd_conv)+

section \<open>Gadgets\<close>

lemma keeps_or_feature [keeps_rules]:
  "keeps f own \<Longrightarrow> (\<And>k. keeps f (on_feature k ask)) \<Longrightarrow> keeps f (or_feature own ask rc i)"
  unfolding or_feature_def
  by (intro keeps_rules keeps_bind; (simp add: keeps_rules split: option.split)?)

lemma keeps_feature_pure [keeps_rules]:
  "keeps f (feature_ControlRead rc rq v i l)" "keeps f (feature_ControlWrite rc rq v i d)"
  by (simp_all add: feature_ControlRead_def feature_ControlWrite_def keeps_rules)

lemma keeps_gadget_stubs [keeps_rules]:
  "keeps f (ClassControlWrite rc rq v i d)" "keeps f (VendorControlWrite rc rq v i d)"
  by (simp_all add: ClassControlWrite_def VendorControlWrite_def keeps_rules)

lemma keeps_ControlWrite [keeps_rules]:
  "(\<And>rc. keeps f (a rc rq v i d)) \<Longrightarrow> (\<And>rc. keeps f (b rc rq v i d)) \<Longrightarrow> (\<And>rc. keeps f (c rc rq v i d)) \<Longrightarrow>
     keeps f (ControlWrite a b c rt rq v i d)"
  by (simp add: ControlWrite_def Let_def keeps_rules)

lemma Usb_class_simps [simp]:
  "fc_StandardControlWrite (Usb_class ops) rc rq v i d = by_class (feature_ControlWrite rc rq v i d) (feature_ControlWrite rc rq v i d)"
  "fc_ClassControlWrite (Usb_class ops) rc rq v i d =
     by_class (feature_ControlWrite rc rq v i d) (hc_ClassControlWrite (Device_class ops) rc rq v i d)"
  "fc_VendorControlWrite (Usb_class ops) rc rq v i d = by_class (feature_ControlWrite rc rq v i d) (feature_ControlWrite rc rq v i d)"
  "fc_ReceivePacket (Usb_class ops) a d =
     by_class (echo_ReceivePacket ops a d) (hc_ReceivePacket ops (Device_class ops) a d)"
  "fc_Connected (Usb_class ops) = by_class feature_Connected (hc_Connected (Device_class ops))"
  "fc_Disconnected (Usb_class ops) = by_class feature_Disconnected (hc_Disconnected (Device_class ops))"
  by (simp_all add: Usb_class_def)

lemma keeps_cg_ControlWrite [keeps_rules]:
  "keeps (binding \<circ> g_hw) (cg_ControlWrite (fs_ops os) (Usb_class (fs_ops os)) rt rq v i d)"
  unfolding cg_ControlWrite_def cg_StandardControlWrite_def cg_ClassControlWrite_def cg_VendorControlWrite_def
    Usb_class_simps
  by (intro keeps_rules)

lemma keeps_echo_ReceivePacket [keeps_rules]: "keeps chip_binding (echo_ReceivePacket (fs_ops os) a d)"
  by (rule keepsI) (simp only: echo_ReceivePacket_def keeps_run [OF keeps_feature_SendPacket]
      snd_conv simp_thms split: if_split)

lemma keeps_cg_ReceivePacket [keeps_rules]:
  "keeps (binding \<circ> g_hw) (cg_ReceivePacket (Usb_class (fs_ops os)) a d)"
proof -
  have "keeps (binding \<circ> g_hw) (on_feature k (fc_ReceivePacket (Usb_class (fs_ops os)) a d))" for k
    unfolding Usb_class_simps by (intro keeps_rules)
  then show ?thesis
    by (intro keepsI) (simp only: cg_ReceivePacket_def Let_def keeps_run snd_conv simp_thms
        split: sum.split option.split)
qed

lemma keeps_connection_features [keeps_rules]:
  "keeps chip_binding feature_Connected" "keeps chip_binding feature_Disconnected"
  "keeps chip_binding (hc_Connected hm)" "keeps chip_binding (hc_Disconnected hm)"
  unfolding hc_Connected_def hc_Disconnected_def feature_Connected_def feature_Disconnected_def
  by (intro keeps_rules; auto)+

lemma keeps_cg_connection [keeps_rules]:
  "keeps (binding \<circ> g_hw) (cg_Connected (Usb_class ops) speed)"
  "keeps (binding \<circ> g_hw) (cg_Disconnected (Usb_class ops))"
  unfolding cg_Connected_def cg_Disconnected_def Usb_class_simps
  by (intro keeps_rules; simp add: Connected_def Disconnected_def)+

lemma class_of_simps:
  "gc_Connected (class_of os kind) speed =
     (if kind = DefaultG then modify_st (Connected speed) else cg_Connected (Usb_class (fs_ops os)) speed)"
  "gc_Disconnected (class_of os kind) =
     (if kind = DefaultG then modify_st Disconnected else cg_Disconnected (Usb_class (fs_ops os)))"
  "gc_ControlRead (class_of os kind) rt rq v i l =
     (if kind = DefaultG then (\<lambda>g. (Gadget_ControlRead g rt rq v i l, g))
      else cg_ControlRead (Usb_class (fs_ops os)) rt rq v i l)"
  "gc_ControlWrite (class_of os kind) rt rq v i d =
     (if kind = DefaultG then Gadget_ControlWrite (fs_ops os) rt rq v i d
      else cg_ControlWrite (fs_ops os) (Usb_class (fs_ops os)) rt rq v i d)"
  "gc_ReceivePacket (class_of os kind) a d =
     (if kind = DefaultG then ReceivePacket a d else cg_ReceivePacket (Usb_class (fs_ops os)) a d)"
  by (simp_all add: class_of_def Gadget_class_def Composite_class_def)

lemma keeps_class_of [keeps_rules]:
  "keeps (binding \<circ> g_hw) (gc_Connected (class_of os kind) speed)"
  "keeps (binding \<circ> g_hw) (gc_Disconnected (class_of os kind))"
  "keeps (binding \<circ> g_hw) (gc_ControlRead (class_of os kind) rt rq v i l)"
  "keeps (binding \<circ> g_hw) (gc_ControlWrite (class_of os kind) rt rq v i d)"
  "keeps (binding \<circ> g_hw) (gc_ReceivePacket (class_of os kind) a d)"
proof -
  have base: "keeps (binding \<circ> g_hw) (modify_st (Connected speed) :: ('e gadgetfs usb_gadget, unit) st)"
    "keeps (binding \<circ> g_hw) (modify_st Disconnected :: ('e gadgetfs usb_gadget, unit) st)"
    by (intro keeps_rules; simp add: Connected_def Disconnected_def)+
  have reads: "keeps (binding \<circ> g_hw) (cg_ControlRead (Usb_class (fs_ops os)) rt rq v i l)"
  proof (rule keepsI)
    fix g
    obtain r g' where "cg_ControlRead (Usb_class (fs_ops os)) rt rq v i l g = (r, g')" by force
    with usb_reads.cg_ControlRead_pure_bounded [OF this]
    show "(binding \<circ> g_hw) (snd (cg_ControlRead (Usb_class (fs_ops os)) rt rq v i l g)) = (binding \<circ> g_hw) g"
      by simp
  qed
  show "keeps (binding \<circ> g_hw) (gc_Connected (class_of os kind) speed)"
    "keeps (binding \<circ> g_hw) (gc_Disconnected (class_of os kind))"
    "keeps (binding \<circ> g_hw) (gc_ControlRead (class_of os kind) rt rq v i l)"
    "keeps (binding \<circ> g_hw) (gc_ControlWrite (class_of os kind) rt rq v i d)"
    "keeps (binding \<circ> g_hw) (gc_ReceivePacket (class_of os kind) a d)"
    unfolding class_of_simps Gadget_ControlWrite_def ReceivePacket_def
    by (intro keeps_if base reads keeps_cg_connection keeps_cg_ControlWrite keeps_cg_ReceivePacket
        keeps_ControlWrite keeps_StandardControlWrite keeps_gadget_stubs keeps_basic keeps_pure)+
qed

lemma keeps_stop_everything [keeps_rules]: "keeps binding (stop_everything os)"
  unfolding stop_everything_def by (intro keeps_rules) simp

lemma keeps_fs_Disconnected [keeps_rules]:
  "keeps (binding \<circ> g_hw) (fs_Disconnected os (class_of os kind))"
  unfolding fs_Disconnected_def by (intro keeps_rules)

lemma keeps_HandleSetup [keeps_rules]:
  "keeps (binding \<circ> g_hw) (HandleSetup os (class_of os kind) rt rq v i l)"
proof -
  have "keeps (binding \<circ> g_hw) (case d of
        None \<Rightarrow> on_hw (with_fd (\<lambda>fd. os_try EL2HLT (os_read os fd 0)))
      | Some d \<Rightarrow> on_hw (with_fd (\<lambda>fd. os_call (os_write os fd d))))" for d
    by (cases d) (auto intro!: keeps_rules)
  moreover have "keeps (binding \<circ> g_hw) (case r of
        None \<Rightarrow> on_hw (with_fd (\<lambda>fd. os_try EL2HLT (os_write os fd [])))
      | Some _ \<Rightarrow> if l = 0 then bind_st (on_hw (with_fd (\<lambda>fd. os_call (os_read os fd 0)))) (\<lambda>_. return_st ())
          else return_st ())" for r :: "bool option"
    by (cases r) (auto intro!: keeps_rules)
  moreover have "keeps (binding \<circ> g_hw) (on_hw (with_fd (\<lambda>fd. os_call (os_read os fd l))))"
    by (auto intro!: keeps_rules)
  ultimately show ?thesis
    unfolding HandleSetup_def by (intro keeps_if keeps_bind keeps_on_gadget keeps_class_of keeps_basic)
qed

lemma keeps_HandleEvent [keeps_rules]:
  "keeps (binding \<circ> g_hw) (HandleEvent os (class_of os kind))"
proof -
  have "keeps (binding \<circ> g_hw) (dispatch_event os (class_of os kind) buf)" for buf
    unfolding dispatch_event_def fs_Connected_def Let_def
    by (intro keeps_bind keeps_basic keeps_if keeps_on_gadget keeps_class_of keeps_fs_Disconnected keeps_HandleSetup)
  then show ?thesis unfolding HandleEvent_def
    by (intro keeps_bind keeps_on_hw keeps_with_fd keeps_os_call) auto
qed

lemma keeps_HandlePacket [keeps_rules]:
  "keeps (binding \<circ> g_hw) (HandlePacket (class_of os kind) p a)"
  by (auto simp: HandlePacket_def keeps_def split: option.split list.split
      simp: keeps_run [OF keeps_on_gadget [OF keeps_class_of(5)], simplified])

lemma keeps_keys [keeps_rules]:
  "keeps (binding \<circ> g_hw) (kg_ModifierDown (fs_ops os) m)" "keeps (binding \<circ> g_hw) (kg_ModifierUp (fs_ops os) m)"
  "keeps (binding \<circ> g_hw) (kg_KeyDown (fs_ops os) m)" "keeps (binding \<circ> g_hw) (kg_KeyUp (fs_ops os) m)"
  "keeps (binding \<circ> g_hw) (mg_ButtonDown (fs_ops os) m)" "keeps (binding \<circ> g_hw) (mg_ButtonUp (fs_ops os) m)"
  "keeps (binding \<circ> g_hw) (mg_Move (fs_ops os) x y)"
proof -
  have hid: "keeps chip_binding m \<Longrightarrow> keeps chip_binding (on_hid_composite m)" for m :: "(hid_device hid_composite \<times> 'e gadgetfs usb_gadget, unit) st"
    by (auto simp: keeps_def on_hid_composite_def split: usb_feature.split prod.split) (metis snd_conv)+
  have kb: "keeps (chip_binding \<circ> snd) (ModifierDown (fs_ops os) m)" "keeps (chip_binding \<circ> snd) (ModifierUp (fs_ops os) m)"
    "keeps (chip_binding \<circ> snd) (KeyDown (fs_ops os) m)" "keeps (chip_binding \<circ> snd) (KeyUp (fs_ops os) m)"
    "keeps (chip_binding \<circ> snd) (ButtonDown (fs_ops os) m)" "keeps (chip_binding \<circ> snd) (ButtonUp (fs_ops os) m)"
    "keeps (chip_binding \<circ> snd) (Move (fs_ops os) x y)"
    unfolding ModifierDown_def ModifierUp_def KeyDown_def KeyUp_def ButtonDown_def ButtonUp_def Move_def replace_key_def
    by (intro keeps_seq keeps_send_if_connected keeps_modify keepsI; simp split: prod.split option.split)+
  show "keeps (binding \<circ> g_hw) (kg_ModifierDown (fs_ops os) m)" "keeps (binding \<circ> g_hw) (kg_ModifierUp (fs_ops os) m)"
    "keeps (binding \<circ> g_hw) (kg_KeyDown (fs_ops os) m)" "keeps (binding \<circ> g_hw) (kg_KeyUp (fs_ops os) m)"
    "keeps (binding \<circ> g_hw) (mg_ButtonDown (fs_ops os) m)" "keeps (binding \<circ> g_hw) (mg_ButtonUp (fs_ops os) m)"
    "keeps (binding \<circ> g_hw) (mg_Move (fs_ops os) x y)"
    unfolding kg_ModifierDown_def kg_ModifierUp_def kg_KeyDown_def kg_KeyUp_def mg_ButtonDown_def mg_ButtonUp_def
      mg_Move_def on_hid_feature_def
    by (intro keeps_on_feature hid keeps_on_hid keeps_devices kb)+
qed

section \<open>Binding and unbinding\<close>

lemma Destroy_unbinds:
  assumes "Destroy os (class_of os kind) g = (r, g')"
  shows "c_gadget (g_hw g') \<Longrightarrow> c_gadget (g_hw g)" and "r = Inr () \<Longrightarrow> \<not> c_gadget (g_hw g')"
proof -
  obtain q u where u: "fs_Disconnected os (class_of os kind) g = (q, u)" by force
  have kept: "c_gadget (g_hw u) = c_gadget (g_hw g)"
    using keepsD [OF keeps_fs_Disconnected u] by simp
  have "(c_gadget (g_hw g') \<longrightarrow> c_gadget (g_hw g)) \<and> (r = Inr () \<longrightarrow> \<not> c_gadget (g_hw g'))"
    using assms u kept
    by (auto simp: Destroy_def seq_st_def bind_st_run on_hw_def with_fd_def modify_st_def
        split: sum.splits option.splits)
  then show "c_gadget (g_hw g') \<Longrightarrow> c_gadget (g_hw g)" "r = Inr () \<Longrightarrow> \<not> c_gadget (g_hw g')" by auto
qed

lemma Create_binds:
  assumes "Create os g = (r, g')"
  shows "c_gadget (g_hw g')"
proof -
  have rest: "keeps (c_gadget \<circ> g_hw) (open_control_file os)"
    unfolding open_control_file_def
  proof (intro keeps_bind keeps_seq keeps_on_hw keeps_basic keeps_os_call keeps_modify)
    show "keeps c_gadget (\<lambda>c. os_call (os_open os (path_join (c_ep_dir c) (c_chip c))) c)"
      by (auto simp: keeps_def os_call_def split: prod.split sum.split)
  qed simp_all
  from assms have "open_control_file os (g\<lparr>g_hw := (g_hw g)\<lparr>c_gadget := True\<rparr>\<rparr>) = (r, g')"
    by (simp add: Create_def seq_st_def bind_st_run on_hw_def modify_st_def)
  from keepsD [OF rest this] show ?thesis by simp
qed

section \<open>The state of the server\<close>

definition frame :: "'e server \<Rightarrow> gadget_kind list \<times> nat option \<times> nat \<times> string option" where
  "frame sv = (map fst (sv_objects sv), sv_gadget sv, sv_bound sv, sv_claimed_by sv)"

text \<open>
  The store holds the default gadget first, references point into it, and a configured controller
  is bound to the current gadget.
\<close>

definition sv_wf :: "'e server \<Rightarrow> bool" where
  "sv_wf sv \<longleftrightarrow>
     sv_objects sv \<noteq> [] \<and> kind_at the_default sv = DefaultG \<and>
     (\<forall>k. sv_gadget sv = Some k \<longrightarrow> k < length (sv_objects sv)) \<and> sv_bound sv < length (sv_objects sv) \<and>
     (IsConfigured (sv_chip sv) \<longrightarrow> sv_gadget sv = Some (sv_bound sv))"

lemma sv_wf_iff:
  "sv_wf sv \<longleftrightarrow> (case frame sv of (kinds, g, b, _) \<Rightarrow>
     kinds \<noteq> [] \<and> kinds ! 0 = DefaultG \<and> (\<forall>k. g = Some k \<longrightarrow> k < length kinds) \<and> b < length kinds \<and>
     (c_gadget (sv_chip sv) \<longrightarrow> g = Some b))"
  by (cases "sv_objects sv") (auto simp: sv_wf_def frame_def kind_at_def IsConfigured_def)

lemma sv_wf_frame:
  assumes "frame sv' = frame sv" and "c_gadget (sv_chip sv') \<longrightarrow> c_gadget (sv_chip sv)" and "sv_wf sv"
  shows "sv_wf sv'"
  using assms unfolding sv_wf_iff by (auto split: prod.splits)

lemma map_fst_update: "map fst (xs[k := (fst (xs ! k), y)]) = map fst xs"
  by (metis fst_conv list_update_id map_update)

lemma on_object_run:
  assumes "on_object k m sv = (r, sv')"
  obtains h where "m ((snd (sv_objects sv ! k))\<lparr>g_hw := sv_chip sv\<rparr>) = (r, h)"
    and "sv' = sv\<lparr>sv_objects := (sv_objects sv)[k := (kind_at k sv, h)], sv_chip := g_hw h\<rparr>"
  using assms by (auto simp: on_object_def kind_at_def split: prod.splits)

lemma keeps_on_object_frame [keeps_rules]: "keeps frame (on_object k m)"
proof (rule keepsI)
  fix sv
  obtain r sv' where "on_object k m sv = (r, sv')" by force
  then show "frame (snd (on_object k m sv)) = frame sv"
    by (auto elim!: on_object_run simp: frame_def kind_at_def map_fst_update)
qed

lemma keeps_on_object [keeps_rules]:
  assumes "keeps (f \<circ> g_hw) m"
  shows "keeps (f \<circ> sv_chip) (on_object k m)"
proof (rule keepsI)
  fix sv
  obtain r sv' where run: "on_object k m sv = (r, sv')" by force
  then obtain h where h: "m ((snd (sv_objects sv ! k))\<lparr>g_hw := sv_chip sv\<rparr>) = (r, h)"
    "sv' = sv\<lparr>sv_objects := (sv_objects sv)[k := (kind_at k sv, h)], sv_chip := g_hw h\<rparr>"
    by (rule on_object_run)
  from keepsD [OF assms h(1)] run h(2) show "(f \<circ> sv_chip) (snd (on_object k m sv)) = (f \<circ> sv_chip) sv" by simp
qed

lemma sv_wf_keeps:
  assumes "keeps frame m" and "keeps (binding \<circ> sv_chip) m" and "sv_wf sv"
  shows "sv_wf (snd (m sv))"
  using keeps_run [OF assms(2), of sv]
  by (intro sv_wf_frame [OF keeps_run [OF assms(1)] _ assms(3)]) simp

lemma sv_wf_destroy:
  assumes "destroy_if_configured os sv = (r, sv')" and "sv_wf sv"
  shows "frame sv' = frame sv" and "sv_wf sv'" and "r = Inr () \<Longrightarrow> \<not> c_gadget (sv_chip sv')"
proof -
  have "frame sv' = frame sv \<and> sv_wf sv' \<and> (r = Inr () \<longrightarrow> \<not> c_gadget (sv_chip sv'))"
  proof (cases "c_gadget (sv_chip sv)")
    case True
    with assms(1) have run: "on_object (sv_bound sv) (Destroy os (class_of os (kind_at (sv_bound sv) sv))) sv = (r, sv')"
      by (simp add: destroy_if_configured_def IsConfigured_def chip_Destroy_def)
    then obtain h where h: "Destroy os (class_of os (kind_at (sv_bound sv) sv))
        ((snd (sv_objects sv ! sv_bound sv))\<lparr>g_hw := sv_chip sv\<rparr>) = (r, h)" and "sv_chip sv' = g_hw h"
      by (auto elim!: on_object_run)
    moreover have "frame sv' = frame sv" using keepsD [OF keeps_on_object_frame run] .
    ultimately show ?thesis
      using Destroy_unbinds [OF h] assms(2) True sv_wf_frame [of sv' sv] by auto
  next
    case False
    with assms show ?thesis by (auto simp: destroy_if_configured_def IsConfigured_def)
  qed
  then show "frame sv' = frame sv" "sv_wf sv'" "r = Inr () \<Longrightarrow> \<not> c_gadget (sv_chip sv')" by auto
qed

lemma sv_wf_create:
  assumes "chip_Create os k sv = (r, sv')" and "sv_wf sv" and "k < length (sv_objects sv)"
    and "sv_gadget sv = Some k"
  shows "sv_wf sv'" and "frame sv' = frame (sv\<lparr>sv_bound := k\<rparr>)" and "c_gadget (sv_chip sv')"
proof -
  let ?sv = "sv\<lparr>sv_bound := k\<rparr>"
  from assms(1) have run: "on_object k (Create os) ?sv = (r, sv')" by (simp add: chip_Create_def st_run)
  show fr: "frame sv' = frame ?sv" using keepsD [OF keeps_on_object_frame run] .
  from run show c: "c_gadget (sv_chip sv')" by (auto elim!: on_object_run dest: Create_binds)
  from assms(2-4) show "sv_wf sv'" unfolding sv_wf_iff fr by (auto simp: frame_def)
qed

lemma sv_wf_SwitchGadget:
  assumes "SwitchGadget os k sv = (r, sv')" and "sv_wf sv" and "k < length (sv_objects sv)"
  shows "sv_wf sv'" and "sv_claimed_by sv' = sv_claimed_by sv"
    and "r = Inr () \<Longrightarrow> sv_gadget sv' = Some k \<and> sv_bound sv' = k \<and> c_gadget (sv_chip sv')"
    and "map fst (sv_objects sv') = map fst (sv_objects sv)"
proof -
  obtain q u where u: "destroy_if_configured os sv = (q, u)" by force
  note d = sv_wf_destroy [OF u assms(2)]
  have len: "length (sv_objects u) = length (sv_objects sv)"
    using d(1) by (auto simp: frame_def dest: map_eq_imp_length_eq)
  let ?P = "sv_wf sv' \<and> sv_claimed_by sv' = sv_claimed_by sv \<and>
    (r = Inr () \<longrightarrow> sv_gadget sv' = Some k \<and> sv_bound sv' = k \<and> c_gadget (sv_chip sv')) \<and>
    map fst (sv_objects sv') = map fst (sv_objects sv)"
  have ?P
  proof (cases q)
    case (Inl e)
    with assms(1) u d show ?thesis by (auto simp: SwitchGadget_def seq_st_def bind_st_run frame_def)
  next
    case (Inr x)
    let ?u = "u\<lparr>sv_gadget := Some k\<rparr>"
    let ?add = "\<lambda>sv. on_object k (AddStringDescriptor 3 (sv_address sv) LANG) sv"
    have free: "\<not> c_gadget (sv_chip u)" using d(3) Inr by simp
    have wf: "sv_wf ?u" using d(2) free assms(3) len by (simp add: sv_wf_def IsConfigured_def kind_at_def)
    obtain q' v where v: "?add ?u = (q', v)" by force
    have add: "keeps (f \<circ> g_hw) (AddStringDescriptor 3 a LANG)" for f a
      by (auto simp: keeps_def AddStringDescriptor_def Let_def)
    have fv: "frame v = frame ?u" using keepsD [OF keeps_on_object_frame v] .
    have bv: "c_gadget (sv_chip v) = c_gadget (sv_chip u)"
      using keepsD [OF keeps_on_object [OF add, of c_gadget] v] by simp
    have wv: "sv_wf v" by (rule sv_wf_frame [OF fv _ wf]) (simp add: bv)
    from assms(1) u Inr v have run: "(case q' of Inl e \<Rightarrow> (Inl e, v) | Inr _ \<Rightarrow> chip_Create os k v) = (r, sv')"
      by (auto simp: SwitchGadget_def seq_st_def bind_st_run modify_st_def split: sum.splits)
    show ?thesis
    proof (cases q')
      case (Inl e)
      with run wv fv d(1) show ?thesis by (auto simp: frame_def)
    next
      case (Inr y)
      with run have "chip_Create os k v = (r, sv')" by simp
      note c = sv_wf_create [OF this wv]
      have "k < length (sv_objects v)" "sv_gadget v = Some k"
        using fv len assms(3) by (auto simp: frame_def dest: map_eq_imp_length_eq)
      with c fv d(1) show ?thesis by (auto simp: frame_def)
    qed
  qed
  then show "sv_wf sv'" "sv_claimed_by sv' = sv_claimed_by sv"
    "r = Inr () \<Longrightarrow> sv_gadget sv' = Some k \<and> sv_bound sv' = k \<and> c_gadget (sv_chip sv')"
    "map fst (sv_objects sv') = map fst (sv_objects sv)" by auto
qed

section \<open>Requests\<close>

lemma keeps_sv_basic:
  "keeps frame (on_kind kind m)" "keeps (binding \<circ> g_hw) m \<Longrightarrow> keeps (binding \<circ> sv_chip) (on_kind kind m)"
  by (auto simp: on_kind_def keeps_def keeps_run [OF keeps_on_object_frame] split: option.split)
    (use keeps_run [OF keeps_on_object, of binding m] in \<open>auto simp: keeps_def\<close>)

lemma keeps_key_press:
  "keeps frame (key_press os code)" "keeps (binding \<circ> sv_chip) (key_press os code)"
  unfolding key_press_def by (intro keeps_seq keeps_sv_basic keeps_keys)+

lemma keeps_type_char:
  "keeps frame (type_char os c)" "keeps (binding \<circ> sv_chip) (type_char os c)"
  unfolding type_char_def
  by (intro keeps_seq keeps_option keeps_sv_basic keeps_keys keeps_key_press keeps_basic)+

lemma keeps_input_handlers:
  "keeps frame (WebTypeHandler_post os s)" "keeps (binding \<circ> sv_chip) (WebTypeHandler_post os s)"
  "keeps frame (WebPressHandler_post os key)" "keeps (binding \<circ> sv_chip) (WebPressHandler_post os key)"
  "keeps frame (WebClickHandler_post os b)" "keeps (binding \<circ> sv_chip) (WebClickHandler_post os b)"
  "keeps frame (WebMoveHandler_post os x y)" "keeps (binding \<circ> sv_chip) (WebMoveHandler_post os x y)"
  unfolding WebTypeHandler_post_def WebPressHandler_post_def WebClickHandler_post_def WebMoveHandler_post_def
  by (intro keeps_seq keeps_for keeps_option keeps_sv_basic keeps_keys keeps_key_press keeps_type_char keeps_basic)+

text \<open>A switch in the middle of a handler.\<close>

lemma configure_switch:
  assumes "configure os kind new sv = (r, sv')" and "sv_wf sv"
  shows "sv_wf sv' \<and> sv_claimed_by sv' = sv_claimed_by sv"
proof (cases "new (sv_chip sv)")
  case (Inl e)
  with assms show ?thesis by (simp add: configure_def)
next
  case (Inr g)
  let ?sv = "sv\<lparr>sv_objects := sv_objects sv @ [(kind, g)]\<rparr>"
  obtain q u where u: "SwitchGadget os (length (sv_objects sv)) ?sv = (q, u)" by force
  have wf: "sv_wf ?sv" using assms(2) by (auto simp: sv_wf_def kind_at_def nth_append)
  have "sv' = u" using assms(1) Inr u
    by (cases q) (auto simp: configure_def st_run seq_st_def bind_st_run modify_st_def return_st_def)
  with sv_wf_SwitchGadget(1,2) [OF u wf] show ?thesis by simp
qed

lemma handle_wf:
  assumes "handle os rq sv = (r, sv')" and "sv_wf sv"
  shows "sv_wf sv'" and "rq \<noteq> Unclaim \<Longrightarrow> sv_claimed_by sv = Some c \<Longrightarrow> sv_claimed_by sv' = Some c"
proof -
  have keep: "sv_wf sv' \<and> sv_claimed_by sv' = sv_claimed_by sv"
    if "keeps frame m" "keeps (binding \<circ> sv_chip) m" "m sv = (r, sv')" for m :: "('a server, nat) st"
    using sv_wf_keeps [OF that(1,2) assms(2)] keepsD [OF that(1,3)] that(3) by (simp add: frame_def)
  have zero: "the_default < length (sv_objects sv)" using assms(2) by (auto simp: sv_wf_def)
  have switch: "sv_wf u \<and> sv_claimed_by u = sv_claimed_by v"
    if "SwitchGadget os the_default v = (q, u)" "sv_wf v" for q u v
    using sv_wf_SwitchGadget(1,2) [OF that] that(2) by (auto simp: sv_wf_def)
  have "sv_wf sv' \<and> (rq \<noteq> Unclaim \<longrightarrow> sv_claimed_by sv = Some c \<longrightarrow> sv_claimed_by sv' = Some c)" for c
  proof (cases rq)
    case (Claim x)
    with assms show ?thesis by (auto simp: ClaimHandler_post_def sv_wf_def kind_at_def split: option.splits)
  next
    case Unclaim
    let ?sv = "sv\<lparr>sv_claimed_by := None\<rparr>"
    have wf: "sv_wf ?sv" using assms(2) by (simp add: sv_wf_def kind_at_def)
    obtain q u where u: "SwitchGadget os the_default ?sv = (q, u)" by force
    from assms(1) Unclaim u have "sv' = u \<or> sv' = ?sv"
      by (cases q) (auto simp: UnclaimHandler_post_def st_run seq_st_def bind_st_run modify_st_def return_st_def
          split: if_splits)
    with switch [OF u wf] wf Unclaim show ?thesis by auto
  next
    case Unconfigure
    obtain q u where u: "SwitchGadget os the_default sv = (q, u)" by force
    from assms(1) Unconfigure u have "sv' = u"
      by (cases q) (auto simp: UnconfigureHandler_post_def seq_st_def bind_st_run return_st_def)
    with switch [OF u assms(2)] show ?thesis by simp
  next
    case Disconnect
    obtain q u where u: "destroy_if_configured os sv = (q, u)" by force
    from assms(1) Disconnect u have "sv' = u"
      by (cases q) (auto simp: DisconnectHandler_post_def seq_st_def bind_st_run return_st_def)
    with sv_wf_destroy(1,2) [OF u assms(2)] show ?thesis by (simp add: frame_def)
  next
    case Reconnect
    show ?thesis
    proof (cases "c_gadget (sv_chip sv) \<or> sv_gadget sv = None")
      case True
      with assms Reconnect show ?thesis
        by (auto simp: ReconnectHandler_post_def seq_st_def bind_st_run return_st_def IsConfigured_def split: if_splits)
    next
      case False
      then obtain k where k: "sv_gadget sv = Some k" by auto
      obtain q u where u: "chip_Create os k sv = (q, u)" by force
      from assms(1) Reconnect u False k have "sv' = u"
        by (cases q) (auto simp: ReconnectHandler_post_def seq_st_def bind_st_run return_st_def IsConfigured_def)
      with sv_wf_create [OF u assms(2) _ k] assms(2) k show ?thesis by (auto simp: frame_def sv_wf_def)
    qed
  qed (use assms keep [OF keeps_input_handlers(1,2)] keep [OF keeps_input_handlers(3,4)]
      keep [OF keeps_input_handlers(5,6)] keep [OF keeps_input_handlers(7,8)] in \<open>auto dest: configure_switch\<close>)
  then show "sv_wf sv'" "rq \<noteq> Unclaim \<Longrightarrow> sv_claimed_by sv = Some c \<Longrightarrow> sv_claimed_by sv' = Some c" by auto
qed

section \<open>Interleaving\<close>

text \<open>
  One step of the whole program: a request, an event on the control file, a packet handed to the
  gadget by the event loop, or an action of a child process.
\<close>

inductive sv_step :: "'e os_ops \<Rightarrow> 'e server \<Rightarrow> 'e server \<Rightarrow> bool" for os where
  request: "handle os rq sv = (r, sv') \<Longrightarrow> sv_step os sv sv'"
| event: "EventHandler fd \<in> set (c_handlers (sv_chip sv)) \<Longrightarrow>
    on_object (sv_bound sv) (HandleEvent os (class_of os (kind_at (sv_bound sv) sv))) sv = (r, sv') \<Longrightarrow>
    sv_step os sv sv'"
| packet: "PacketHandler p a \<in> set (c_handlers (sv_chip sv)) \<Longrightarrow>
    on_object (sv_bound sv) (HandlePacket (class_of os (kind_at (sv_bound sv) sv)) p a) sv = (r, sv') \<Longrightarrow>
    sv_step os sv sv'"
| child_step: "dict_get (c_children (sv_chip sv)) p = Some q \<Longrightarrow> fs_step os (sv_chip sv) l c \<Longrightarrow>
    sv_step os sv (sv\<lparr>sv_chip := c\<rparr>)"

inductive sv_reach :: "'e os_ops \<Rightarrow> 'e server \<Rightarrow> 'e server \<Rightarrow> bool" for os where
  start: "sv_reach os sv sv"
| step: "sv_reach os sv sv' \<Longrightarrow> sv_step os sv' sv'' \<Longrightarrow> sv_reach os sv sv''"

lemma fs_step_binding: "fs_step os c l c' \<Longrightarrow> binding c' = binding c"
proof (induction rule: fs_step.induct)
  case (send c a fd p data c')
  then show ?case by (auto simp: fs_SendPacket_def pipe_send_def split: if_splits)
next
  case (start d c speed)
  show ?case using keeps_run [OF keeps_StartEndpoint] .
next
  case (stop c a)
  show ?case using keeps_run [OF keeps_StopEndpoint] .
qed (simp_all add: pipe_send_def)

lemma sv_step_wf: "sv_step os sv sv' \<Longrightarrow> sv_wf sv \<Longrightarrow> sv_wf sv'"
proof (induction rule: sv_step.induct)
  case (request rq sv r sv')
  then show ?case by (rule handle_wf(1))
next
  case (event fd sv r sv')
  with sv_wf_keeps [OF keeps_on_object_frame keeps_on_object [OF keeps_HandleEvent],
      of sv "sv_bound sv" os "kind_at (sv_bound sv) sv"] show ?case by simp
next
  case (packet p a sv r sv')
  with sv_wf_keeps [OF keeps_on_object_frame keeps_on_object [OF keeps_HandlePacket],
      of sv "sv_bound sv" os "kind_at (sv_bound sv) sv" p a] show ?case by simp
next
  case (child_step sv p q l c)
  have "binding c = binding (sv_chip sv)" by (rule fs_step_binding) (rule child_step.hyps)
  then show ?case by (intro sv_wf_frame [OF _ _ child_step.prems]) (simp_all add: frame_def)
qed

lemma sv_reach_wf: "sv_reach os sv sv' \<Longrightarrow> sv_wf sv \<Longrightarrow> sv_wf sv'"
  by (induction rule: sv_reach.induct) (auto dest: sv_step_wf)

lemma server_main_wf:
  assumes "server_main os hardware address claimed e = Inr (r, sv)"
  shows "sv_wf sv"
proof -
  from assms obtain c g where c: "LinuxGadgetfs_init hardware ''/dev/gadget'' e = Inr c"
    and sw: "SwitchGadget os the_default
         \<lparr>sv_objects = [(DefaultG, as_usb_gadget g)], sv_gadget = None, sv_bound = 0,
          sv_chip = c, sv_claimed_by = claimed, sv_address = address\<rparr> = (r, sv)"
    by (auto simp: server_main_def bind_res_Inr_iff)
  have "\<not> c_gadget c" using c by (auto simp: LinuxGadgetfs_init_def split: option.splits)
  then show ?thesis using sv_wf_SwitchGadget(1) [OF sw] by (simp add: sv_wf_def kind_at_def IsConfigured_def)
qed

text \<open>The requests of a sequence, one after the other.\<close>

fun serve :: "'e os_ops \<Rightarrow> request list \<Rightarrow> 'e server \<Rightarrow> 'e server" where
  "serve os [] sv = sv"
| "serve os (rq # rqs) sv = serve os rqs (snd (handle os rq sv))"

lemma serve_claim:
  assumes "sv_wf sv" and "sv_claimed_by sv = Some c" and "Unclaim \<notin> set rqs"
  shows "sv_wf (serve os rqs sv) \<and> sv_claimed_by (serve os rqs sv) = Some c"
  using assms
proof (induction rqs arbitrary: sv)
  case (Cons rq rqs)
  obtain r sv' where r: "handle os rq sv = (r, sv')" by force
  have "sv_wf sv'" "sv_claimed_by sv' = Some c"
    using handle_wf(1) [OF r Cons.prems(1)] handle_wf(2) [OF r Cons.prems(1) _ Cons.prems(2)] Cons.prems(3) by auto
  with Cons.IH [of sv'] Cons.prems(3) r show ?case by simp
qed simp

end
