(* ===== verification/Echo_Facts.thy ===== *)
theory Echo_Facts
  imports Server_Proofs
begin

text \<open>
  The echo devices as they come out of their constructors: which interfaces and endpoints they
  have, so that the general results about selecting configurations apply to them.
\<close>

section \<open>Descriptors built by the constructors\<close>

definition endpoint_desc :: "int \<Rightarrow> int \<Rightarrow> int \<Rightarrow> int \<Rightarrow> descriptor" where
  "endpoint_desc addr attributes packet_size interval =
     Desc C_Endpoint [(''bEndpointAddress'', PInt addr), (''bmAttributes'', PInt attributes),
        (''wMaxPacketSize'', PInt packet_size), (''bInterval'', PInt interval)] [] [] [] [] None"

lemma new_endpoint:
  "new_descriptor C_Endpoint
     [(''bEndpointAddress'', PInt addr), (''bmAttributes'', PInt attributes),
      (''wMaxPacketSize'', PInt packet_size), (''bInterval'', PInt interval)] =
   Inr (endpoint_desc addr attributes packet_size interval)"
  by (simp add: new_descriptor_def fields_defs field_names_def set_field_def endpoint_desc_def)

lemma endpoint_desc_attrs [simp]:
  "int_attr (endpoint_desc a t n i) ''bEndpointAddress'' = a"
  "int_attr (endpoint_desc a t n i) ''bmAttributes'' = t"
  "int_attr (endpoint_desc a t n i) ''wMaxPacketSize'' = n"
  by (simp_all add: int_attr_def endpoint_desc_def fields_defs get_field_def)

definition vendor_desc :: "int \<Rightarrow> int \<Rightarrow> int \<Rightarrow> descriptor" where
  "vendor_desc num str alt =
     Desc C_Interface
       ([(''bInterfaceNumber'', PInt num), (''bInterfaceClass'', PInt DeviceClass_VENDOR),
         (''bInterfaceSubClass'', PInt 0), (''bInterfaceProtocol'', PInt 0),
         (''iInterface'', PInt str)] @ (if alt = 0 then [] else [(''bAlternateSetting'', PInt alt)]))
       [] [] [] [] None"

lemma vendor_interface_eq:
  "vendor_interface num str [] = Inr (vendor_desc num str 0)"
  "alt \<noteq> 0 \<Longrightarrow> vendor_interface num str [(''bAlternateSetting'', PInt alt)] = Inr (vendor_desc num str alt)"
  by (simp_all add: vendor_interface_def vendor_desc_def new_descriptor_def fields_defs field_names_def set_field_def)

text \<open>A vendor interface with an OUT and an IN endpoint.\<close>

definition echo_desc :: "int \<Rightarrow> int \<Rightarrow> int \<Rightarrow> int \<Rightarrow> int \<Rightarrow> int \<Rightarrow> int \<Rightarrow> int \<Rightarrow> descriptor" where
  "echo_desc num str alt in_ep out_ep t n i =
     (let a = endpoint_desc out_ep t n i; b = endpoint_desc in_ep t n i in
      register (register (vendor_desc num str alt) [PInt out_ep] a) [PInt in_ep] b)"

lemma echo_interface_eq:
  assumes "in_ep \<noteq> out_ep"
  shows "echo_interface num str [] in_ep out_ep t n i = Inr (echo_desc num str 0 in_ep out_ep t n i)"
    and "alt \<noteq> 0 \<Longrightarrow> echo_interface num str [(''bAlternateSetting'', PInt alt)] in_ep out_ep t n i =
      Inr (echo_desc num str alt in_ep out_ep t n i)"
  using assms
  by (simp_all add: echo_interface_def vendor_interface_eq add_endpoint_def new_endpoint AddEndpoint_def
      endpoint_key_def register_def vendor_desc_def echo_desc_def)

lemma vendor_desc_attrs [simp]:
  "int_attr (vendor_desc num str alt) ''bInterfaceNumber'' = num"
  "int_attr (vendor_desc num str alt) ''bAlternateSetting'' = alt"
  "GetEndpoints (vendor_desc num str alt) = []"
  by (simp_all add: int_attr_def vendor_desc_def fields_defs get_field_def GetEndpoints_def registered_def)

lemma echo_desc_attrs [simp]:
  "int_attr (echo_desc num str alt in_ep out_ep t n i) ''bInterfaceNumber'' = num"
  "int_attr (echo_desc num str alt in_ep out_ep t n i) ''bAlternateSetting'' = alt"
  "GetEndpoints (echo_desc num str alt in_ep out_ep t n i) = [endpoint_desc out_ep t n i, endpoint_desc in_ep t n i]"
  by (simp_all add: int_attr_def echo_desc_def register_def vendor_desc_def fields_defs get_field_def
      GetEndpoints_def registered_def)

definition echo_fs :: "int \<Rightarrow> descriptor list" where
  "echo_fs s =
     [echo_desc 0 s 0 0x81 0x01 TransferType_INTERRUPT 64 1,
      echo_desc 1 (s + 1) 0 0x82 0x02 TransferType_BULK 64 0,
      vendor_desc 2 (s + 2) 0,
      echo_desc 2 (s + 2) 1 0x83 0x03 TransferType_ISOCHRONOUS 1023 1]"

definition echo_hs :: "int \<Rightarrow> descriptor list" where
  "echo_hs s =
     [echo_desc 0 s 0 0x81 0x01 TransferType_INTERRUPT 64 4,
      echo_desc 1 (s + 1) 0 0x82 0x02 TransferType_BULK 512 0,
      vendor_desc 2 (s + 2) 0,
      echo_desc 2 (s + 2) 1 0x83 0x03 TransferType_ISOCHRONOUS 512 4]"

lemma EchoCompositeFeature_eq:
  "EchoCompositeFeature_init [(0, s, 0x81, 0x01), (1, s + 1, 0x82, 0x02), (2, s + 2, 0x83, 0x03)] =
     Inr (CompositeFeature_init (echo_fs s) (echo_hs s))"
  by (simp add: EchoCompositeFeature_init_def interrupt_interfaces_def bulk_interfaces_def
      isochronous_interfaces_def echo_interface_eq vendor_interface_eq numeral_eq_Suc echo_fs_def echo_hs_def)

lemma alt0_Cons:
  "alt0_endpoints (d # ds) = (if int_attr d ''bAlternateSetting'' = 0
     then iface_endpoints (int_attr d ''bInterfaceNumber'') d else []) @ alt0_endpoints ds"
  by (simp add: alt0_endpoints_def)

lemma echo_alt0:
  "alt0_endpoints (echo_fs s) = [(0x01, 0), (0x81, 0), (0x02, 1), (0x82, 1)]"
  "alt0_endpoints (echo_hs s) = [(0x01, 0), (0x81, 0), (0x02, 1), (0x82, 1)]"
  by (simp_all add: echo_fs_def echo_hs_def alt0_Cons iface_endpoints_def)

lemma echo_interface_keys:
  "map interface_key (echo_fs s) = [[PInt 0, PInt 0], [PInt 1, PInt 0], [PInt 2, PInt 0], [PInt 2, PInt 1]]"
  "map interface_key (echo_hs s) = [[PInt 0, PInt 0], [PInt 1, PInt 0], [PInt 2, PInt 0], [PInt 2, PInt 1]]"
  by (simp_all add: echo_fs_def echo_hs_def interface_key_def)

section \<open>The constructors succeed\<close>

lemma add_interfaces_ok:
  assumes "wf_registry interface_key cfg" and "distinct (map interface_key (GetInterfaces cfg @ ds))"
  shows "\<exists>cfg' m'. add_interfaces k ds (cfg, m) = Inr (cfg', m')"
  using assms
proof (induction ds arbitrary: cfg m)
  case (Cons d ds)
  from Cons.prems(2) have "interface_key d \<notin> interface_key ` set (GetInterfaces cfg)" by auto
  then obtain c1 where c1: "AddInterface cfg d = Inr c1" using ifaces.add_fresh [OF Cons.prems(1)] by blast
  note n = ifaces.add_InrD [OF Cons.prems(1) c1]
  from Cons.IH [OF n(3)] Cons.prems(2) n(4) show ?case by (simp add: c1)
qed simp

lemma add_features_ok:
  assumes "wf_registry interface_key cf" and "wf_registry interface_key ch"
    and "distinct (map interface_key (GetInterfaces cf @ concat (map (fc_FullSpeedInterfaces fc) fs)))"
    and "distinct (map interface_key (GetInterfaces ch @ concat (map (fc_HighSpeedInterfaces fc) fs)))"
  shows "\<exists>p q. add_features fc k fs (cf, mf) (ch, mh) = Inr (p, q)"
  using assms
proof (induction fs arbitrary: k cf mf ch mh)
  case (Cons f fs)
  have "\<exists>a m. add_interfaces k (fc_FullSpeedInterfaces fc f) (cf, mf) = Inr (a, m)"
    using Cons.prems(1,3) by (intro add_interfaces_ok) (auto simp: image_Un)
  moreover have "\<exists>a m. add_interfaces k (fc_HighSpeedInterfaces fc f) (ch, mh) = Inr (a, m)"
    using Cons.prems(2,4) by (intro add_interfaces_ok) (auto simp: image_Un)
  ultimately obtain a m b q where
    a: "add_interfaces k (fc_FullSpeedInterfaces fc f) (cf, mf) = Inr (a, m)" and
    b: "add_interfaces k (fc_HighSpeedInterfaces fc f) (ch, mh) = Inr (b, q)" by blast
  note ra = add_interfaces_result [OF Cons.prems(1) a] and rb = add_interfaces_result [OF Cons.prems(2) b]
  have "\<exists>p r. add_features fc (Suc k) fs (a, m) (b, q) = Inr (p, r)"
    using ra rb Cons.prems(3,4) by (intro Cons.IH) auto
  with a b show ?case by simp
qed simp

lemma new_configuration:
  "new_descriptor C_Configuration [(''bmAttributes'', PInt 0x80), (''MaxPower'', PInt 50)] =
     Inr (Desc C_Configuration [(''bmAttributes'', PInt 0x80), (''MaxPower'', PInt 50)] [] [] [] [] None)"
  by (simp add: new_descriptor_def fields_defs field_names_def set_field_def)

lemma CompositeGadget_init_ok:
  assumes "distinct (map interface_key (concat (map (fc_FullSpeedInterfaces fc) fs)))"
    and "distinct (map interface_key (concat (map (fc_HighSpeedInterfaces fc) fs)))"
  shows "\<exists>g. CompositeGadget_init fc dev fs hw = Inr g"
proof -
  let ?c = "Desc C_Configuration [(''bmAttributes'', PInt 0x80), (''MaxPower'', PInt 50)] [] [] [] [] None"
  note new = wf_registry_new [OF new_configuration]
  have "GetInterfaces ?c = []" using new(2) by (simp add: GetInterfaces_def)
  with assms have "\<exists>p q. add_features fc 0 fs (?c, []) (?c, []) = Inr (p, q)"
    by (intro add_features_ok new(1)) simp_all
  then show ?thesis by (auto simp: CompositeGadget_init_def new_configuration split: prod.split)
qed

section \<open>The echo gadget\<close>

lemma AddStringDescriptor_run:
  "1 \<le> i \<Longrightarrow> i \<le> 255 \<Longrightarrow> \<exists>ss. AddStringDescriptor i s LANG g = (Inr (), g\<lparr>g_strings := ss\<rparr>)"
  by (auto simp: AddStringDescriptor_def LANG_def Let_def)

text \<open>What the statements at the end of the constructors change.\<close>

definition same_device :: "'c usb_gadget \<Rightarrow> 'c usb_gadget \<Rightarrow> bool" where
  "same_device g h \<longleftrightarrow>
     g_fs_config_desc h = g_fs_config_desc g \<and> g_hs_config_desc h = g_hs_config_desc g \<and>
     g_device_desc h = g_device_desc g \<and> g_hw h = g_hw g \<and> g_chip h = g_chip g \<and> g_speed h = g_speed g \<and>
     g_active_endpoints h = g_active_endpoints g \<and> g_endpoint_interface_map h = g_endpoint_interface_map g \<and>
     cg_features h = cg_features g \<and> cg_fs_interface_feature_map h = cg_fs_interface_feature_map g \<and>
     cg_hs_interface_feature_map h = cg_hs_interface_feature_map g"

lemma same_device_refl: "same_device g g"
  by (simp add: same_device_def)

lemma do_all_same:
  assumes "\<And>m g. m \<in> set ms \<Longrightarrow> I g \<Longrightarrow> \<exists>h. m g = (Inr (), h) \<and> I h \<and> same_device g h" and "I g"
  shows "\<exists>h. do_all ms g = (Inr (), h) \<and> I h \<and> same_device g h"
  using assms
proof (induction ms arbitrary: g)
  case Nil
  then show ?case by (simp add: return_st_def same_device_refl)
next
  case (Cons m ms)
  from Cons.prems(1) [of m g] Cons.prems(2) obtain h where h: "m g = (Inr (), h)" "I h" "same_device g h" by auto
  have "\<exists>k. do_all ms h = (Inr (), k) \<and> I k \<and> same_device h k"
    by (rule Cons.IH) (use Cons.prems(1) h(2) in auto)
  then obtain k where k: "do_all ms h = (Inr (), k)" "I k" "same_device h k" by blast
  have "same_device g k" using h(3) k(3) by (simp add: same_device_def)
  with h(1) k(1,2) show ?case by (simp add: seq_st_def bind_st_run)
qed

lemma do_all_append: "do_all (ms @ ns) = seq_st (do_all ms) (do_all ns)"
proof
  show "do_all (ms @ ns) s = seq_st (do_all ms) (do_all ns) s" for s
    by (induction ms arbitrary: s) (auto simp: py_defs split: prod.splits sum.splits)
qed

lemma AddStringDescriptor_same:
  "1 \<le> i \<Longrightarrow> i \<le> 255 \<Longrightarrow> (\<And>ss. I (g\<lparr>g_strings := ss\<rparr>)) \<Longrightarrow>
     \<exists>h. AddStringDescriptor i s LANG g = (Inr (), h) \<and> I h \<and> same_device g h"
  using AddStringDescriptor_run [of i s g] by (auto simp: same_device_def)

lemma new_device: "\<exists>d. device_descriptor v p u n = Inr d"
  by (simp add: device_descriptor_def new_descriptor_def fields_defs field_names_def set_field_def)

lemma EchoGadget_init_ok:
  "\<exists>g. EchoGadget_init ops node container_id hw = Inr g \<and>
     GetInterfaces (g_fs_config_desc g) = echo_fs 4 \<and> GetInterfaces (g_hs_config_desc g) = echo_hs 4 \<and>
     g_hw g = hw \<and> \<not> g_chip g \<and> g_active_endpoints g = [] \<and> g_endpoint_interface_map g = [] \<and>
     cg_features g = [EchoComposite (CompositeFeature_init (echo_fs 4) (echo_hs 4))] \<and>
     (\<forall>n\<in>{0, 1, 2}. dict_get (cg_fs_interface_feature_map g) n = Some 0 \<and>
        dict_get (cg_hs_interface_feature_map g) n = Some 0)"
proof -
  let ?f = "CompositeFeature_init (echo_fs 4) (echo_hs 4)"
  obtain dev where dev: "device_descriptor VendorID_GOOGLE ProductID_GOOGLE_ECHO_GADGET 0x0200 0x0100 = Inr dev"
    using new_device by blast
  have f: "EchoCompositeFeature_init [(0, 4, 0x81, 0x01), (1, 5, 0x82, 0x02), (2, 6, 0x83, 0x03)] = Inr ?f"
    using EchoCompositeFeature_eq [of 4] by simp
  have ifs: "fc_FullSpeedInterfaces (Usb_class ops) (EchoComposite ?f) = echo_fs 4"
    "fc_HighSpeedInterfaces (Usb_class ops) (EchoComposite ?f) = echo_hs 4"
    by (simp_all add: Usb_class_def GetFullSpeedInterfaces_def GetHighSpeedInterfaces_def CompositeFeature_init_def)
  have "\<exists>g. CompositeGadget_init (Usb_class ops) dev [EchoComposite ?f] hw = Inr g"
    by (intro CompositeGadget_init_ok) (simp_all add: ifs echo_interface_keys)
  then obtain g where g: "CompositeGadget_init (Usb_class ops) dev [EchoComposite ?f] hw = Inr g" by blast
  note r = CompositeGadget_init_result [OF g]
  have fresh: "g_ms_vendor_code_v1 g = None" "g_ms_os20_config_subset g = None" "g_bos_descriptor g = None"
    using g by (auto simp: CompositeGadget_init_def bind_res_Inr_iff gadget.extend_def composite_gadget.fields_def
        Gadget_init_def split: prod.splits)
  let ?strings = "[AddStringDescriptor 1 ''Google Inc.'' LANG, AddStringDescriptor 2 ''Echo Gadget'' LANG,
      AddStringDescriptor 3 (format_06X node) LANG, AddStringDescriptor 4 ''Interrupt Echo'' LANG,
      AddStringDescriptor 5 ''Bulk Echo'' LANG, AddStringDescriptor 6 ''Isochronous Echo'' LANG]"
  define I where "I h \<longleftrightarrow> g_ms_vendor_code_v1 h = None \<and> g_ms_os20_config_subset h = None \<and>
      g_bos_descriptor h = None" for h :: "'a usb_gadget"
  have "\<exists>h. do_all ?strings g = (Inr (), h) \<and> I h \<and> same_device g h"
  proof (rule do_all_same)
    show "I g" using fresh by (simp add: I_def)
    show "\<exists>h. m u = (Inr (), h) \<and> I h \<and> same_device u h" if "m \<in> set ?strings" "I u" for m u
    proof -
      have "I (u\<lparr>g_strings := ss\<rparr>)" for ss using that(2) by (simp add: I_def)
      then have "1 \<le> i \<Longrightarrow> i \<le> 255 \<Longrightarrow> \<exists>h. AddStringDescriptor i s LANG u = (Inr (), h) \<and> I h \<and> same_device u h" for i s
        by (intro AddStringDescriptor_same)
      with that(1) show ?thesis by auto
    qed
  qed
  then obtain h where h: "do_all ?strings g = (Inr (), h)" "I h" "same_device g h" by blast
  obtain cd where cd: "new_descriptor C_ContainerId [(''ContainerID'', PBytes container_id)] = Inr cd"
    by (simp add: new_descriptor_def fields_defs field_names_def set_field_def)
  obtain bos where bos: "new_descriptor C_Bos [] = Inr bos"
    by (simp add: new_descriptor_def fields_defs field_names_def set_field_def)
  let ?ms = "[EnableMicrosoftOSDescriptorsV1 0x01, SetMicrosoftCompatId 0 ''WINUSB'' [],
      SetMicrosoftCompatId 1 ''WINUSB'' [], SetMicrosoftCompatId 2 ''WINUSB'' [],
      bind_st (lift_res (new_descriptor C_ContainerId [(''ContainerID'', PBytes container_id)])) AddDeviceCapabilityDescriptor]"
  have "\<exists>k. do_all ?ms h = (Inr (), k) \<and> same_device h k"
    using h(2) by (simp add: I_def EnableMicrosoftOSDescriptorsV1_def SetMicrosoftCompatId_def seq_st_def bind_st_run
        modify_st_def gets_st_def lift_res_def return_st_def AddDeviceCapabilityDescriptor_def cd bos same_device_def)
  then obtain k where k: "do_all ?ms h = (Inr (), k)" "same_device h k" by blast
  have all: "do_all (?strings @ ?ms) g = (Inr (), k)"
    using h(1) k(1) by (simp only: do_all_append seq_st_def bind_st_run) simp
  have "same_device g k" using h(3) k(2) by (simp add: same_device_def)
  moreover have "EchoGadget_init ops node container_id hw = Inr k"
    using all by (simp add: EchoGadget_init_def dev f g run_init_def)
  moreover have "interface_numbers (echo_fs 4) = {0, 1, 2}" "interface_numbers (echo_hs 4) = {0, 1, 2}"
    by (auto simp: interface_numbers_def echo_fs_def echo_hs_def)
  ultimately show ?thesis using r by (auto simp: same_device_def ifs)
qed

end
