(* ===== verification/Descriptor_Properties.thy ===== *)
theory Descriptor_Properties
  imports Echo_Facts
begin

text \<open>
  What the descriptor modules promise: the properties of usb_descriptors.py, msos20_descriptors.py
  and hid_descriptors.py, each with an instance on a concrete descriptor.
\<close>

section \<open>A configuration to apply them to\<close>

definition sample_interface :: descriptor where
  "sample_interface = echo_desc 0 4 0 0x81 0x01 TransferType_INTERRUPT 64 1"

definition sample_config :: descriptor where
  "sample_config =
     register (Desc C_Configuration [(''bmAttributes'', PInt 0x80), (''MaxPower'', PInt 50)] [] [] [] [] None)
       (interface_key sample_interface) sample_interface"

definition sample_bytes :: bytes where
  "sample_bytes =
     [9, 2, 32, 0, 1, 1, 0, 128, 50,  9, 4, 0, 0, 2, 255, 0, 0, 4,
      7, 5, 1, 3, 64, 0, 1,  7, 5, 129, 3, 64, 0, 1]"

definition no_set :: "nat \<Rightarrow> nat res" where
  "no_set a = Inr 0"

lemma sample_encoding: "Encode no_set sample_config = Inr sample_bytes"
  by code_simp

lemma sample_standard: "\<forall>e\<in>set (pieces sample_config). has_bLength (d_class e)"
  by code_simp

section \<open>Encodings\<close>

text \<open>
  C3: A host that cuts an encoded descriptor at the places its length bytes announce finds exactly
  the encodings of the descriptor and of the descriptors it contains, in the order they were
  added; no byte is left over.
\<close>

theorem encoded_descriptor_walks:
  assumes "Encode sz d = Inr bs" and "\<forall>e\<in>set (pieces d). has_bLength (d_class e)"
  shows "\<exists>ps. map_res (own_encoding sz) (pieces d) = Inr ps \<and> walk bs = Some ps"
  using assms by (intro Encode_walk) blast+

theorem encoded_descriptor_walks_witness:
  "\<exists>ps. map_res (own_encoding no_set) (pieces sample_config) = Inr ps \<and> walk sample_bytes = Some ps"
  using encoded_descriptor_walks [OF sample_encoding sample_standard] .

text \<open>
  The length field of an encoded descriptor (\<^verbatim>\<open>wTotalLength\<close>, \<^verbatim>\<open>wSubsetLength\<close>,
  a string's \<^verbatim>\<open>bLength\<close>), read back from the bytes, is the number of bytes of the whole encoding,
  contained descriptors included, and \<^verbatim>\<open>total_size\<close> computes that number beforehand.
\<close>

theorem encoded_length_is_announced:
  assumes "Encode sz d = Inr bs"
  shows "total_size d = Inr (length bs) \<and>
    (\<forall>off n. total_length_field (d_class d) = Some (off, n) \<longrightarrow> read_uint off n bs = int (length bs))"
  using Encode_total_size [OF assms] total_length_field_correct [OF assms] by simp

theorem encoded_length_is_announced_witness:
  "total_size sample_config = Inr 32 \<and> read_uint 2 2 sample_bytes = 32"
proof -
  have "length sample_bytes = 32" "total_length_field (d_class sample_config) = Some (2, 2)"
    by (simp_all add: sample_bytes_def sample_config_def)
  with encoded_length_is_announced [OF sample_encoding] show ?thesis by simp
qed



section \<open>Construction\<close>

text \<open>
  Constructing a descriptor. The first argument that is not a settable field decides the error: a
  fixed or computed field raises RuntimeError, an unknown name TypeError. When all arguments are
  settable, a missing required field raises TypeError. Otherwise the object has the given attributes
  and contains nothing.
\<close>

theorem construct_descriptor:
  "new_descriptor c kw =
     (case find (\<lambda>(a, _). a \<notin> attr_names c) kw of
        Some (a, _) \<Rightarrow> Inl (if a \<in> set (field_names (class_fields c)) then RuntimeError else TypeError)
      | None \<Rightarrow>
          if required_names c \<subseteq> fst ` set kw
          then Inr (Desc c (fold (\<lambda>(a, v). AList.update a v) kw []) [] [] [] [] None)
          else Inl TypeError)"
  by (rule new_descriptor_result)

text \<open>
  Reading a settable field of a new descriptor gives the argument it was constructed with, or its
  default when there was no such argument: it never raises.
\<close>

theorem constructed_fields:
  assumes "new_descriptor c kw = Inr d" and "distinct (map fst kw)"
    and "f \<in> set (class_fields c)" and "f_getter f = Attr dflt"
  shows "get_field sz d f = Inr (case map_of kw (f_name f) of Some v \<Rightarrow> v | None \<Rightarrow> the dflt)"
  using new_descriptor_get_field [OF assms] by (simp split: option.splits)

theorem constructed_fields_witness:
  "get_field no_set (endpoint_desc 0x81 3 64 1)
     \<lparr>f_name = ''wMaxPacketSize'', f_str_fmt = ''{}'', f_struct_fmt = F_H, f_required = True, f_getter = Attr None\<rparr>
   = Inr (PInt 64)"
  by (subst constructed_fields [OF new_endpoint]) (simp_all add: fields_defs)

text \<open>
  Adding interfaces to a new configuration, or endpoints to a new interface, fails with
  RuntimeError exactly when two of them have the same number and alternate setting, or the same
  address. Otherwise all of them are there, in the order they were added.
\<close>

theorem added_parts:
  assumes "new_descriptor c kw = Inr d"
  shows "(case add_all AddInterface d es of
      Inl e \<Rightarrow> e = RuntimeError \<and> \<not> distinct (map interface_key es)
    | Inr d' \<Rightarrow> distinct (map interface_key es) \<and> GetInterfaces d' = es) \<and>
    (case add_all AddEndpoint d es of
      Inl e \<Rightarrow> e = RuntimeError \<and> \<not> distinct (map endpoint_key es)
    | Inr d' \<Rightarrow> distinct (map endpoint_key es) \<and> GetEndpoints d' = es)"
proof -
  note new = wf_registry_new [OF assms]
  have none: "GetInterfaces d = []" "GetEndpoints d = []"
    using new(2) by (simp_all add: GetInterfaces_def GetEndpoints_def)
  show ?thesis
    using ifaces.add_all_result [OF new(1), of es] eps.add_all_result [OF new(1), of es] none
    by (auto split: sum.splits)
qed

theorem added_parts_witness:
  "case add_all AddInterface
      (Desc C_Configuration [(''bmAttributes'', PInt 0x80), (''MaxPower'', PInt 50)] [] [] [] [] None) (echo_fs 4) of
      Inl e \<Rightarrow> e = RuntimeError \<and> \<not> distinct (map interface_key (echo_fs 4))
    | Inr d' \<Rightarrow> distinct (map interface_key (echo_fs 4)) \<and> GetInterfaces d' = echo_fs 4"
  using added_parts [OF new_configuration, of "echo_fs 4"] by (rule conjunct1)

section \<open>HID report descriptors\<close>

text \<open>
  Packing a short item and parsing it by the rules of the HID specification gives back the tag,
  the type and the value, and leaves the bytes behind it; the smallest size that holds the value,
  and is not below the forced length, is chosen, a larger value raises NotImplementedError and a
  negative one struct.error.
\<close>

theorem report_item_roundtrip:
  assumes "0 \<le> tag" "tag < 16" "0 \<le> typ" "typ < 3"
  shows "PackItem tag typ val fl =
    (case item_code val fl of
       None \<Rightarrow> Inl NotImplementedError
     | Some k \<Rightarrow>
         if val < 0 then Inl StructError
         else Inr (word_of_int (16 * tag + 4 * typ + k) # le_pack (item_data_size k) val)) \<and>
    (\<forall>bs rest. PackItem tag typ val fl = Inr bs \<longrightarrow> parse_item (bs @ rest) = Some ((tag, typ, val), rest))"
  using assms PackItem_result [of tag "typ" val fl] parse_packed_item [of tag "typ" val fl] by simp

lemma sample_item: "PackItem 0 1 0xFF00 0 = Inr [0x06, 0x00, 0xFF]"
  by code_simp

theorem report_item_roundtrip_witness: "parse_item ([0x06, 0x00, 0xFF] @ [0x09]) = Some ((0, 1, 0xFF00), [0x09])"
  using report_item_roundtrip [of 0 1 "0xFF00" 0] sample_item by simp

text \<open>
  C19: A report descriptor assembled from items and collections parses back into the items in order,
  each collection between its brackets, and the brackets balance.
\<close>

theorem report_descriptor_roundtrip:
  assumes "\<forall>t\<in>set ts. wf_tree t" and "ReportDescriptor (map encode_tree ts) = Inr bs"
  shows "parse_items bs = Some (concat (map tree_tokens ts)) \<and> nesting (concat (map tree_tokens ts)) 0 = Some 0"
  using assms ReportDescriptor_trees [of ts bs] by blast

lemma sample_report: "ReportDescriptor (map encode_tree [Item 0 1 1 0, Coll 1 [Item 8 0 2 1]]) = Inr [5, 1, 0xA1, 1, 0x81, 2, 0xC0]"
  by code_simp

theorem report_descriptor_roundtrip_witness:
  "parse_items [5, 1, 0xA1, 1, 0x81, 2, 0xC0] = Some [(0, 1, 1), (10, 0, 1), (8, 0, 2), (12, 0, 0)]"
  using report_descriptor_roundtrip [OF _ sample_report] by simp

end
