(* ===== verification/Bench.thy ===== *)
theory Bench
  imports Echo_Facts
begin

text \<open>
  A test bench: a kernel on which every call succeeds, the controller of the BeagleBone Black on it,
  and the lemmas that follow an endpoint being started when the hardware supports it and the
  kernel's calls succeed. The properties of the other theories are applied here.
\<close>

section \<open>Kernels\<close>

definition bench_os :: "nat os_ops" where
  "bench_os = \<lparr>os_open = (\<lambda>path n. (Inr n, Suc n)), os_write = (\<lambda>fd data n. (Inr (), n)),
               os_read = (\<lambda>fd len n. (Inr [], n)), os_close = (\<lambda>fd n. n)\<rparr>"

definition reliable :: "'e os_ops \<Rightarrow> bool" where
  "reliable os \<longleftrightarrow>
     (\<forall>path e. \<exists>fd e'. os_open os path e = (Inr fd, e')) \<and>
     (\<forall>fd data e. \<exists>e'. os_write os fd data e = (Inr (), e'))"

lemma bench_reliable: "reliable bench_os"
  by (simp add: reliable_def bench_os_def)

definition bench_chip :: "nat gadgetfs" where
  "bench_chip = projr (LinuxGadgetfs_init ''beaglebone-black'' ''/dev/gadget'' 0)"

lemma bench_chip: "LinuxGadgetfs_init ''beaglebone-black'' ''/dev/gadget'' 0 = Inr bench_chip"
  by (simp add: bench_chip_def LinuxGadgetfs_init_def HARDWARE_def)

definition bench_gadget :: "nat gadgetfs usb_gadget" where
  "bench_gadget = projr (EchoGadget_init (fs_ops bench_os) 7 [] bench_chip)"

lemma bench_gadget: "EchoGadget_init (fs_ops bench_os) 7 [] bench_chip = Inr bench_gadget"
  using EchoGadget_init_ok [of "fs_ops bench_os" 7 "[]" bench_chip] by (auto simp: bench_gadget_def)

section \<open>Starting supported endpoints\<close>

text \<open>What \<^verbatim>\<open>StartEndpoint\<close> checks of a descriptor against the hardware's endpoints.\<close>

definition supported :: "(int \<times> (string \<times> int \<times> int)) list \<Rightarrow> int \<Rightarrow> descriptor \<Rightarrow> bool" where
  "supported eps speed d \<longleftrightarrow>
     (\<exists>name ty sz mask buf. dict_get eps (int_attr d ''bEndpointAddress'') = Some (name, ty, sz) \<and>
        dict_get USB_TRANSFER_TYPE_TO_MASK (int_attr d ''bmAttributes'' AND TransferType_MASK) = Some mask \<and>
        ty AND mask \<noteq> 0 \<and> int_attr d ''wMaxPacketSize'' \<le> sz \<and> endpoint_setup speed d = Inr buf)"

lemma StartEndpoint_supported:
  assumes "reliable os" and "supported (c_hw_eps c) speed d"
  shows "\<exists>c'. StartEndpoint os speed d c = (Inr (), c') \<and> c_hw_eps c' = c_hw_eps c"
proof -
  from assms(2) obtain name ty sz mask buf where
    s: "dict_get (c_hw_eps c) (int_attr d ''bEndpointAddress'') = Some (name, ty, sz)"
    "dict_get USB_TRANSFER_TYPE_TO_MASK (int_attr d ''bmAttributes'' AND TransferType_MASK) = Some mask"
    "ty AND mask \<noteq> 0" "\<not> sz < int_attr d ''wMaxPacketSize''" "endpoint_setup speed d = Inr buf"
    by (auto simp: supported_def)
  from assms(1) obtain fd e where o: "os_open os (path_join (c_ep_dir c) name) (c_os c) = (Inr fd, e)"
    unfolding reliable_def by blast
  from assms(1) obtain e' where w: "os_write os fd buf e = (Inr (), e')"
    unfolding reliable_def by blast
  from s o w show ?thesis
    by (auto simp: StartEndpoint_def st_run bind_st_run seq_st_def os_call_def lift_res_def start_process_def Let_def modify_st_def)
qed

definition same_hw :: "('e gadgetfs, 'z) gadget_scheme \<Rightarrow> ('e gadgetfs, 'z) gadget_scheme \<Rightarrow> bool" where
  "same_hw g h \<longleftrightarrow> g_chip h = g_chip g \<and> g_speed h = g_speed g \<and> c_hw_eps (g_hw h) = c_hw_eps (g_hw g)"

lemma start_endpoint_supported:
  assumes "reliable os" and "g_chip g" and "supported (c_hw_eps (g_hw g)) (g_speed g) d"
  shows "\<exists>h. start_endpoint (fs_ops os) i d n g = (Inr (), h) \<and> same_hw g h"
  using StartEndpoint_supported [OF assms(1,3)] assms(2)
  by (auto simp: start_endpoint_def st_run seq_st_def bind_st_run chip_call_def fs_ops_def gets_st_def
      modify_st_def Let_def same_hw_def)

lemma start_endpoints_supported:
  assumes "reliable os" and "g_chip g" and "\<forall>d\<in>set ds. supported (c_hw_eps (g_hw g)) (g_speed g) d"
  shows "\<exists>h. for_st ds (\<lambda>d. start_endpoint (fs_ops os) i d n) g = (Inr (), h) \<and> same_hw g h"
proof (rule for_st_total [where I = "\<lambda>_. same_hw g"])
  show "same_hw g g" by (simp add: same_hw_def)
  fix before x rest u
  assume ds: "ds = before @ x # rest" and u: "same_hw g u"
  have "supported (c_hw_eps (g_hw u)) (g_speed u) x" "g_chip u"
    using assms(2,3) ds u by (auto simp: same_hw_def)
  with start_endpoint_supported [OF assms(1)] obtain v where
    "start_endpoint (fs_ops os) i x n u = (Inr (), v)" "same_hw u v" by blast
  with u show "\<exists>v. start_endpoint (fs_ops os) i x n u = (Inr (), v) \<and> same_hw g v"
    by (auto simp: same_hw_def)
qed

lemma start_interfaces_supported:
  assumes "reliable os" and "g_chip g"
    and "\<forall>d\<in>set ds. int_attr d ''bAlternateSetting'' = 0 \<longrightarrow>
      (\<forall>e\<in>set (GetEndpoints d). supported (c_hw_eps (g_hw g)) (g_speed g) e)"
  shows "\<exists>h. for_st ds (start_interface (fs_ops os)) g = (Inr (), h) \<and> same_hw g h"
proof (rule for_st_total [where I = "\<lambda>_. same_hw g"])
  show "same_hw g g" by (simp add: same_hw_def)
  fix before x rest u
  assume ds: "ds = before @ x # rest" and u: "same_hw g u"
  let ?u = "u\<lparr>g_active_endpoints := dict_setdefault (int_attr x ''bInterfaceNumber'') [] (g_active_endpoints u)\<rparr>"
  show "\<exists>v. start_interface (fs_ops os) x u = (Inr (), v) \<and> same_hw g v"
  proof (cases "int_attr x ''bAlternateSetting'' = 0")
    case True
    have "\<exists>h. for_st (GetEndpoints x) (\<lambda>e. start_endpoint (fs_ops os) (int_attr x ''bInterfaceNumber'') e
        (int_attr x ''bInterfaceNumber'')) ?u = (Inr (), h) \<and> same_hw ?u h"
      using assms ds u True by (intro start_endpoints_supported) (auto simp: same_hw_def)
    with True u show ?thesis by (auto simp: start_interface_def st_run Let_def same_hw_def)
  qed (use u in \<open>simp add: start_interface_def return_st_def\<close>)
qed

text \<open>The hardware's endpoint table never changes.\<close>

lemma keeps_stop_hw: "keeps c_hw_eps (StopEndpoint os a)"
  by (auto simp: keeps_def StopEndpoint_def split: option.split)

lemma keeps_stop_all_hw: "keeps (c_hw_eps \<circ> g_hw) (stop_all_endpoints (fs_ops os))"
  unfolding stop_all_endpoints_def fs_ops_simps
  by (intro keeps_rules keeps_chip_call keeps_stop_hw) (simp_all add: comp_def)

lemma keeps_stop_interface_hw:
  "keeps (c_hw_eps \<circ> g_hw) (for_st as (\<lambda>a. seq_st (chip_call (StopEndpoint os a)) (del_endpoint a)))"
  by (intro keeps_rules keeps_chip_call keeps_stop_hw) (auto simp: keeps_def del_endpoint_def)

section \<open>Selecting configurations and settings\<close>

lemma SetConfiguration_supported:
  assumes "reliable os" and "clean running_endpoints g" and "g_chip g"
    and cd: "GetConfigurationDescriptor g = Inr cd"
    and "\<forall>d\<in>set (GetInterfaces cd). int_attr d ''bAlternateSetting'' = 0 \<longrightarrow>
      (\<forall>e\<in>set (GetEndpoints d). supported (c_hw_eps (g_hw g)) (g_speed g) e)"
  shows "\<exists>h. SetConfiguration (fs_ops os) 1 g = (Inr (Some True), h) \<and> same_hw g h"
proof -
  from assms(2) gadgetfs.stop_all_tracks obtain h where h: "stop_all_endpoints (fs_ops os) g = (Inr (), h)"
    "same_config g h" by blast
  have hw: "same_hw g h"
    using h keepsD [OF keeps_stop_all_hw h(1)] by (simp add: same_hw_def same_config_def)
  have "\<exists>k. for_st (GetInterfaces cd) (start_interface (fs_ops os)) h = (Inr (), k) \<and> same_hw h k"
    using assms hw by (intro start_interfaces_supported) (auto simp: same_hw_def)
  then obtain k where k: "for_st (GetInterfaces cd) (start_interface (fs_ops os)) h = (Inr (), k)" "same_hw h k" by blast
  have "GetConfigurationDescriptor h = Inr cd" using same_config_descriptor [OF h(2)] cd by simp
  with h(1) k hw show ?thesis
    by (simp add: SetConfiguration_def seq_st_def bind_st_run gets_st_def lift_res_def return_st_def same_hw_def)
qed

lemma SetInterface_supported:
  assumes "reliable os" and g: "tracks running_endpoints es (\<lambda>_. {}) g" and "g_chip g"
    and cd: "GetConfigurationDescriptor g = Inr cd" and d: "find_interface cd i alt = Some d"
    and "\<forall>e\<in>set (GetEndpoints d). supported (c_hw_eps (g_hw g)) (g_speed g) e"
  shows "\<exists>h. SetInterface (fs_ops os) i alt g = (Inr (Some True), h) \<and> same_hw g h"
proof -
  let ?k = "g\<lparr>g_active_endpoints := dict_setdefault i [] (g_active_endpoints g)\<rparr>"
  let ?stop = "\<lambda>a. seq_st (chip_call (StopEndpoint os a)) (del_endpoint a)"
  have k: "tracks running_endpoints es (\<lambda>_. {}) ?k" using g by (rule tracks_setdefault)
  then have as: "set (addrs_of g i) = {a. (a, i) \<in> set es}" "distinct (addrs_of g i)" "distinct (map fst es)"
    by (auto simp: tracks_def)
  have run: "running_endpoints (g_hw g) = fst ` set es" using g by (simp add: tracks_def)
  have "set (addrs_of g i) \<subseteq> running_endpoints (g_hw ?k)" using as(1) run by force
  moreover have "dict_get (g_endpoint_interface_map ?k) a \<noteq> None" if "a \<in> set (addrs_of g i)" for a
    using that k as by (auto simp: tracks_def)
  ultimately obtain h where h: "for_st (addrs_of g i) ?stop ?k = (Inr (), h)" "same_config ?k h"
    using gadgetfs.stop_and_forget [of "addrs_of g i" ?k os] as(2) assms(3) by (auto simp del: not_None_eq)
  have hw: "same_hw g h"
    using h(2) keepsD [OF keeps_stop_interface_hw h(1)] by (simp add: same_hw_def same_config_def)
  have "\<exists>m. for_st (GetEndpoints d) (\<lambda>e. start_endpoint (fs_ops os) i e (int_attr d ''bInterfaceNumber'')) h =
      (Inr (), m) \<and> same_hw h m"
    using assms hw by (intro start_endpoints_supported) (auto simp: same_hw_def)
  then obtain m where m: "for_st (GetEndpoints d) (\<lambda>e. start_endpoint (fs_ops os) i e (int_attr d ''bInterfaceNumber'')) h =
      (Inr (), m)" "same_hw h m" by blast
  have "SetInterface (fs_ops os) i alt g = (Inr (Some True), m)"
    using cd d h(1) m(1) by (simp add: SetInterface_def st_run seq_st_def [of "for_st _ _"] bind_st_run [of "for_st _ _"])
  with hw m(2) show ?thesis by (auto simp: same_hw_def)
qed

end
