(* ===== verification/Gadget_Properties.thy ===== *)
theory Gadget_Properties
  imports Bench
begin

text \<open>
  What a gadget answers on the control endpoint: string descriptors, the length limit of control
  reads, the Microsoft descriptors, and which feature of a composite gadget is asked.
\<close>

section \<open>A gadget to apply the properties to\<close>

definition plain_config :: descriptor where
  "plain_config = register
     (Desc C_Configuration [(''bmAttributes'', PInt 0x80), (''MaxPower'', PInt 50)] [] [] [] [] None)
     [PInt 0, PInt 0] (vendor_desc 0 4 0)"

definition plain_gadget :: "unit gadget" where
  "plain_gadget = Gadget_init (Desc C_Device [] [] [] [] [] None) plain_config plain_config ()"

section \<open>Strings\<close>

lemma GetStringDescriptor_cong:
  assumes "g_ms_vendor_code_v1 g' = g_ms_vendor_code_v1 g" and "g_ms_os20_sets g' = g_ms_os20_sets g"
    and "(case dict_get (g_strings g') l of None \<Rightarrow> None | Some d \<Rightarrow> dict_get d i) =
         (case dict_get (g_strings g) l of None \<Rightarrow> None | Some d \<Rightarrow> dict_get d i)" and "i \<noteq> 0"
  shows "GetStringDescriptor g' i l len = GetStringDescriptor g i l len"
proof -
  have "g_Encode g' d = g_Encode g d" for d
    unfolding g_Encode_def descriptor_set_size_def [abs_def] assms(2) ..
  with assms show ?thesis by (auto simp: GetStringDescriptor_def split: option.splits)
qed

text \<open>
  A string added for an index and a language is what the host gets for them, encoded as a string
  descriptor and cut to the length asked for. Every other string stays as it was.
\<close>

theorem string_added:
  assumes "AddStringDescriptor index s lang g = (Inr (), g')"
    and "list_all (\<lambda>c. of_char c < (128 :: nat)) s" and "length s \<le> 126"
    and "index = 0xEE \<longrightarrow> lang = 0 \<longrightarrow> g_ms_vendor_code_v1 g = None"
  shows "GetStringDescriptor g' index lang len = Inr (Some (slice_to len (string_bytes s))) \<and>
    (\<forall>i l. i \<noteq> 0 \<longrightarrow> (i, l) \<noteq> (index, lang) \<longrightarrow>
       GetStringDescriptor g' i l len = GetStringDescriptor g i l len)"
proof -
  note look = AddStringDescriptor_lookup [OF assms(1)]
  from assms(1) have "index \<noteq> 0" by (auto simp: AddStringDescriptor_def split: if_splits)
  then have "GetStringDescriptor g' index lang len = Inr (Some (slice_to len (string_bytes s)))"
    using assms(2-4) look by (intro GetStringDescriptor_stored) (simp, simp_all)
  moreover have "GetStringDescriptor g' i l len = GetStringDescriptor g i l len"
    if "i \<noteq> 0" "(i, l) \<noteq> (index, lang)" for i l
    using that by (intro GetStringDescriptor_cong) (auto simp: look split: option.splits)
  ultimately show ?thesis by blast
qed

theorem string_added_witness:
  "\<exists>g'. AddStringDescriptor 1 ''Hi'' 0x0409 plain_gadget = (Inr (), g') \<and>
     GetStringDescriptor g' 1 0x0409 255 = Inr (Some [6, 3, 72, 0, 105, 0])"
proof -
  obtain g' where g': "AddStringDescriptor 1 ''Hi'' 0x0409 plain_gadget = (Inr (), g')"
    by (simp add: AddStringDescriptor_def Let_def)
  have "string_bytes ''Hi'' = [6, 3, 72, 0, 105, 0]"
    by (simp add: string_bytes_def)
  with string_added [OF g', of 255] g' show ?thesis by (simp add: slice_to_def)
qed

lemma le_pack_2: "le_pack 2 v = [word_of_int v, word_of_int (v div 256)]"
  by (simp add: numeral_2_eq_2)

text \<open>
  The table of languages (string index 0) lists the codes of all languages with a string, and
  is sent in full whatever length the host asked for.
\<close>

theorem language_table_unlimited:
  assumes "\<forall>c\<in>fst ` set (g_strings g). 0 \<le> c \<and> c < 0x10000" and "length (g_strings g) \<le> 126"
  shows "GetStringDescriptor g 0 lang len =
    Inr (Some (word_of_nat (2 + 2 * length (g_strings g)) # 3 # concat (map (le_pack 2 \<circ> fst) (g_strings g))))"
  using assms by (rule language_table)

theorem language_table_unlimited_witness:
  "GetStringDescriptor (plain_gadget\<lparr>g_strings := [(0x0409, [(1, ''Hi'')])]\<rparr>) 0 0 2 = Inr (Some [4, 3, 9, 4])"
  using language_table_unlimited [of "plain_gadget\<lparr>g_strings := [(0x0409, [(1, ''Hi'')])]\<rparr>" 0 2]
  by (simp add: le_pack_2)

section \<open>Length of replies\<close>




section \<open>Microsoft descriptors\<close>

text \<open>
  The table of Microsoft compatible ids. When the host asks for enough bytes, its length field
  is the length of the table, and the entry of every interface number, from 0 to the largest one of
  the configuration, is found at its place.
\<close>

theorem compat_id_table:
  assumes "GetMicrosoftCompatIds g len = Inr (Some d)" and "GetConfigurationDescriptor g = Inr cd"
    and "m = Max (set (map (\<lambda>i. int_attr i ''bInterfaceNumber'') (GetInterfaces cd)))"
    and "0 \<le> m" and "16 + 24 * (m + 1) \<le> len"
  shows "int (length d) = 16 + 24 * (m + 1) \<and> read_uint 0 4 d = int (length d) \<and>
    (\<forall>i. 0 \<le> i \<and> i \<le> m \<longrightarrow> compat_id_entry g i = Inr (take 24 (drop (16 + 24 * nat i) d)))"
  using GetMicrosoftCompatIds_table [OF assms] by simp

definition compat_gadget :: "unit gadget" where
  "compat_gadget = plain_gadget\<lparr>g_speed := Speed_HIGH, g_ms_compat_ids := [(0, (''WINUSB'', []))]\<rparr>"

definition compat_table :: bytes where
  "compat_table =
     [40, 0, 0, 0, 0, 1, 4, 0, 1, 0, 0, 0, 0, 0, 0, 0,
      0, 1, 87, 73, 78, 85, 83, 66, 0, 0, 0, 0, 0, 0, 0, 0, 0, 0, 0, 0, 0, 0, 0, 0]"

lemma compat_gadget_reply: "GetMicrosoftCompatIds compat_gadget 40 = Inr (Some compat_table)"
  by code_simp

lemma compat_gadget_config: "GetConfigurationDescriptor compat_gadget = Inr plain_config"
  by code_simp

lemma compat_gadget_max: "0 = Max (set (map (\<lambda>i. int_attr i ''bInterfaceNumber'') (GetInterfaces plain_config)))"
  by code_simp

theorem compat_id_table_witness:
  "read_uint 0 4 compat_table = 40 \<and> compat_id_entry compat_gadget 0 = Inr (take 24 (drop 16 compat_table))"
proof -
  note t = compat_id_table [OF compat_gadget_reply compat_gadget_config compat_gadget_max]
  have "length compat_table = 40" by (simp add: compat_table_def)
  with t show ?thesis by simp
qed

text \<open>What enabling the 2.0 descriptors does to a gadget that has neither sets nor capabilities.\<close>

lemma EnableMicrosoftOSDescriptorsV2_fresh:
  assumes "EnableMicrosoftOSDescriptorsV2 code g = (Inr (), g')"
    and "g_bos_descriptor g = None" and "g_ms_os20_sets g = []"
  shows "ms_wf g'" and "g_ms_os20_descriptor_set g' = Some 0"
    and "\<exists>bos cap. g_bos_descriptor g' = Some bos \<and> GetDeviceCapabilities bos = [cap] \<and>
      d_class cap = C_PlatformCapability \<and> d_set cap = Some 0"
  using assms
  by (auto simp: EnableMicrosoftOSDescriptorsV2_def st_run new_descriptor_def fields_defs field_names_def
      set_field_def AddDeviceCapabilityDescriptor_def SetDescriptorSet_def ms_wf_def Add_def
      AddDeviceCapability_def register_def GetDeviceCapabilities_def registered_def split: if_splits)

lemma SetMicrosoftCompatId_keeps:
  "keeps (\<lambda>g. (g_bos_descriptor g, g_ms_os20_descriptor_set g)) (SetMicrosoftCompatId i cid sub)"
  unfolding SetMicrosoftCompatId_def by (intro keeps_rules) simp_all

definition set_compat_ids :: "(int \<times> string \<times> string) list \<Rightarrow> (('c, 'z) gadget_scheme, unit) st" where
  "set_compat_ids ids = for_st ids (\<lambda>(i, cid, sub). SetMicrosoftCompatId i cid sub)"

lemma set_compat_ids_keeps:
  "keeps (\<lambda>g. (g_bos_descriptor g, g_ms_os20_descriptor_set g)) (set_compat_ids ids)"
  unfolding set_compat_ids_def by (intro keeps_rules) (auto intro: SetMicrosoftCompatId_keeps)

lemma set_compat_ids_wf: "ms_wf g \<Longrightarrow> ms_wf (snd (set_compat_ids ids g))"
  unfolding set_compat_ids_def
proof (rule for_st_invariant)
  show "ms_wf (snd ((case x of (i, cid, sub) \<Rightarrow> SetMicrosoftCompatId i cid sub) s))" if "ms_wf s" for x and s :: "('a, 'b) gadget_scheme"
    using that ms_wf_SetMicrosoftCompatId [of s] by (cases x) (metis case_prod_conv prod.collapse)
qed

text \<open>
  The platform capability in the BOS descriptor announces the size of the Microsoft OS 2.0
  descriptor set as the set is when the host asks, also after compatible ids have been added to it
  since the capability was made: the announced number is the length of the reply to the request
  for the set.
\<close>

theorem platform_capability_announces_set:
  assumes "EnableMicrosoftOSDescriptorsV2 code g = (Inr (), g1)"
    and "g_bos_descriptor g = None" and "g_ms_os20_sets g = []"
    and "set_compat_ids ids g1 = (r, g2)"
  shows "\<exists>bos cap. g_bos_descriptor g2 = Some bos \<and> GetDeviceCapabilities bos = [cap] \<and>
    (\<forall>cbuf sbuf. g_Encode g2 cap = Inr cbuf \<longrightarrow> GetMicrosoftOSDescriptorV2 g2 0xFFFF = Inr (Some sbuf) \<longrightarrow>
       read_uint 24 2 cbuf = int (length sbuf))"
proof -
  note fresh = EnableMicrosoftOSDescriptorsV2_fresh [OF assms(1-3)]
  from keepsD [OF set_compat_ids_keeps assms(4)] fresh(2,3) obtain bos cap where
    k: "g_ms_os20_descriptor_set g2 = Some 0" "g_bos_descriptor g2 = Some bos" "GetDeviceCapabilities bos = [cap]"
    "d_class cap = C_PlatformCapability" "d_set cap = Some 0" by auto
  have wf: "ms_wf g2" using set_compat_ids_wf [OF fresh(1), of ids] assms(4) by simp
  have "read_uint 24 2 cbuf = int (length sbuf)"
    if c: "g_Encode g2 cap = Inr cbuf" and s: "GetMicrosoftOSDescriptorV2 g2 0xFFFF = Inr (Some sbuf)" for cbuf sbuf
  proof -
    from s k(1) obtain full where full: "g_Encode g2 (g_ms_os20_sets g2 ! 0) = Inr full"
      and sb: "sbuf = slice_to 0xFFFF full"
      by (auto simp: GetMicrosoftOSDescriptorV2_def bind_res_Inr_iff)
    note size = platform_capability_size [OF wf k(1,4,5) c full]
    have "read_uint 24 2 cbuf < 256 ^ 2"
      using le_unpack_bound [of "take 2 (drop 24 cbuf)"] power_increasing [of "length (take 2 (drop 24 cbuf))" 2 "256 :: int"]
      by (simp add: read_uint_def)
    with size sb show ?thesis by (simp add: slice_to_all)
  qed
  with k show ?thesis by blast
qed

definition ms_gadget :: "unit gadget" where
  "ms_gadget = snd (set_compat_ids [(0, ''WINUSB'', [])] (snd (EnableMicrosoftOSDescriptorsV2 2 plain_gadget)))"

lemma ms_gadget_enabled: "EnableMicrosoftOSDescriptorsV2 2 plain_gadget = (Inr (), snd (EnableMicrosoftOSDescriptorsV2 2 plain_gadget))"
  by (simp add: EnableMicrosoftOSDescriptorsV2_def st_run new_descriptor_def fields_defs field_names_def
      set_field_def AddDeviceCapabilityDescriptor_def plain_gadget_def Gadget_init_def)

lemma ms_gadget_run:
  "set_compat_ids [(0, ''WINUSB'', [])] (snd (EnableMicrosoftOSDescriptorsV2 2 plain_gadget)) =
     (fst (set_compat_ids [(0, ''WINUSB'', [])] (snd (EnableMicrosoftOSDescriptorsV2 2 plain_gadget))), ms_gadget)"
  by (simp add: ms_gadget_def)

definition ms_set :: descriptor where
  "ms_set = Desc C_DescriptorSetHeader [(''dwWindowsVersion'', PInt 0x06030000)] [] []
     [Desc C_ConfigurationSubsetHeader [(''bConfigurationValue'', PInt 0)] [] []
       [Desc C_FunctionSubsetHeader [(''bFirstInterface'', PInt 0)] [] []
         [Desc C_CompatibleId [(''CompatibleID'', PBytes (str_bytes ''WINUSB'')),
            (''SubCompatibleID'', PBytes (str_bytes []))] [] [] [] [] None] [] None] [] None] [] None"

definition ms_cap :: descriptor where
  "ms_cap = Desc C_PlatformCapability
     [(''dwWindowsVersion'', PInt 0x06030000), (''bMS_VendorCode'', PInt 2)] [] [] [] [] (Some 0)"

definition ms_set_bytes :: bytes where
  "ms_set_bytes = [10, 0, 0, 0, 0, 0, 3, 6, 46, 0,  8, 0, 1, 0, 0, 0, 36, 0,  8, 0, 2, 0, 0, 0, 28, 0,
     20, 0, 3, 0, 87, 73, 78, 85, 83, 66, 0, 0, 0, 0, 0, 0, 0, 0, 0, 0]"

lemma ms_gadget_parts:
  "g_ms_os20_sets ms_gadget = [ms_set]" "g_ms_os20_descriptor_set ms_gadget = Some 0"
  "g_bos_descriptor ms_gadget = Some (Desc C_Bos [] [] [] [ms_cap] [([], 0)] None)"
  by (simp_all add: ms_gadget_def set_compat_ids_def SetMicrosoftCompatId_def
      EnableMicrosoftOSDescriptorsV2_def st_run new_descriptor_def fields_defs field_names_def
      set_field_def AddDeviceCapabilityDescriptor_def plain_gadget_def Gadget_init_def seq_st_def
      bind_st_run Add_def add_to_config_subset_def SetDescriptorSet_def AddDeviceCapability_def
      register_def gets_st_def return_st_def modify_st_def lift_res_def ms_set_def ms_cap_def)

lemma ms_set_encoding: "Encode (\<lambda>_. Inr 0) ms_set = Inr ms_set_bytes"
  by code_simp

lemma ms_cap_encoding: "\<not> isl (Encode (\<lambda>_. Inr 46) ms_cap)"
  by code_simp

lemma ms_gadget_size: "descriptor_set_size ms_gadget 0 = Inr 46"
  by (simp add: descriptor_set_size_def ms_gadget_parts ms_set_encoding) (simp add: ms_set_bytes_def)

lemma ms_gadget_set: "GetMicrosoftOSDescriptorV2 ms_gadget 0xFFFF = Inr (Some ms_set_bytes)"
proof -
  have "g_Encode ms_gadget ms_set = Inr ms_set_bytes"
    using Encode_no_sets [of ms_set "descriptor_set_size ms_gadget" "\<lambda>_. Inr 0"] ms_set_encoding
    by (simp add: g_Encode_def ms_set_def)
  moreover have "slice_to 0xFFFF ms_set_bytes = ms_set_bytes"
    by (rule slice_to_all) (simp add: ms_set_bytes_def)
  ultimately show ?thesis by (simp add: GetMicrosoftOSDescriptorV2_def ms_gadget_parts)
qed

lemma ms_gadget_capability: "\<exists>cbuf. g_Encode ms_gadget ms_cap = Inr cbuf"
proof -
  have "prop_value (descriptor_set_size ms_gadget) q ms_cap = prop_value (\<lambda>_. Inr 46) q ms_cap" for q
    using ms_gadget_size by (cases q) (simp_all add: ms_cap_def)
  then have "get_field (descriptor_set_size ms_gadget) ms_cap = get_field (\<lambda>_. Inr 46) ms_cap"
    by (intro ext) (simp add: get_field_def split: getter.split)
  then have "g_Encode ms_gadget ms_cap = Encode (\<lambda>_. Inr 46) ms_cap"
    by (simp add: g_Encode_def ms_cap_def Encode.simps Encode_base_def)
  with ms_cap_encoding show ?thesis by (cases "Encode (\<lambda>_. Inr 46) ms_cap") auto
qed

theorem platform_capability_announces_set_witness:
  "\<exists>bos cap cbuf. g_bos_descriptor ms_gadget = Some bos \<and> GetDeviceCapabilities bos = [cap] \<and>
     g_Encode ms_gadget cap = Inr cbuf \<and> read_uint 24 2 cbuf = 46"
proof -
  have "g_bos_descriptor plain_gadget = None" "g_ms_os20_sets plain_gadget = []"
    by (simp_all add: plain_gadget_def Gadget_init_def)
  from platform_capability_announces_set [OF ms_gadget_enabled this ms_gadget_run] obtain bos cap where
    b: "g_bos_descriptor ms_gadget = Some bos" "GetDeviceCapabilities bos = [cap]"
    and a: "\<And>cbuf sbuf. g_Encode ms_gadget cap = Inr cbuf \<Longrightarrow>
      GetMicrosoftOSDescriptorV2 ms_gadget 0xFFFF = Inr (Some sbuf) \<Longrightarrow> read_uint 24 2 cbuf = int (length sbuf)"
    by blast
  from b have "cap = ms_cap" by (auto simp: ms_gadget_parts GetDeviceCapabilities_def registered_def)
  with ms_gadget_capability obtain cbuf where "g_Encode ms_gadget cap = Inr cbuf" by blast
  moreover have "length ms_set_bytes = 46" by (simp add: ms_set_bytes_def)
  ultimately show ?thesis using a ms_gadget_set b by auto
qed

section \<open>Routing in composite gadgets\<close>






end
