(* ===== verification/Endpoint_Properties.thy ===== *)
theory Endpoint_Properties
  imports Bench
begin

text \<open>
  Selecting configurations and alternate settings: which endpoints run afterwards, for every gadget
  on gadgetfs, and what that means for the echo gadget on the BeagleBone Black.
\<close>

section \<open>The echo gadget's endpoints on the hardware\<close>

lemma endpoint_desc_encodes:
  assumes "0 \<le> a" "a < 256" "0 \<le> t" "t < 256" "0 \<le> n" "n < 65536" "0 \<le> i" "i < 256"
  shows "\<exists>b. Encode sz (endpoint_desc a t n i) = Inr b"
  using assms
  by (simp add: Encode.simps Encode_base_def endpoint_desc_def fields_defs get_field_def fmt_def
      struct_size_def pack_uint_def)

lemma endpoint_setup_ok:
  assumes "0 \<le> a" "a < 256" "0 \<le> t" "t < 256" "0 \<le> n" "n < 65536" "0 \<le> i" "i < 256"
  shows "\<exists>b. endpoint_setup speed (endpoint_desc a t n i) = Inr b"
proof -
  obtain b where b: "Encode (\<lambda>_. Inr 0) (endpoint_desc a t n i) = Inr b"
    using endpoint_desc_encodes assms by blast
  obtain f where f: "Encode (\<lambda>_. Inr 0) (endpoint_desc a 0 0 0) = Inr f"
    using endpoint_desc_encodes [of a 0 0 0] assms(1,2) by auto
  show ?thesis
    using b f by (simp add: endpoint_setup_def new_endpoint pack_uint_def)
qed

lemma echo_supported:
  assumes "a \<in> {0x01, 0x81, 0x02, 0x82, 0x03, 0x83}" and "t \<in> {1, 2, 3}" and "0 \<le> n" "n \<le> 512" and "0 \<le> i" "i < 256"
    and "LinuxGadgetfs_init ''beaglebone-black'' mountpoint e = Inr c"
  shows "supported (c_hw_eps c) speed (endpoint_desc a t n i)"
proof -
  have hw: "c_hw_eps c = snd (the (dict_get HARDWARE ''beaglebone-black''))"
    using assms(7) by (auto simp: LinuxGadgetfs_init_def split: option.splits)
  have "\<exists>name. dict_get (c_hw_eps c) a = Some (name, 7, 512)"
    using assms(1) unfolding hw HARDWARE_def Let_def by auto
  moreover have "\<exists>mask. dict_get USB_TRANSFER_TYPE_TO_MASK (t AND TransferType_MASK) = Some mask \<and> 7 AND mask \<noteq> 0"
    using assms(2) by (auto simp: USB_TRANSFER_TYPE_TO_MASK_def)
  moreover have "\<exists>b. endpoint_setup speed (endpoint_desc a t n i) = Inr b"
    using assms(1-6) by (intro endpoint_setup_ok) auto
  ultimately show ?thesis using assms(4) by (auto simp: supported_def)
qed

lemma echo_fresh:
  assumes "EchoGadget_init ops node cid hw = Inr g"
  shows "GetInterfaces (g_fs_config_desc g) = echo_fs 4" "GetInterfaces (g_hs_config_desc g) = echo_hs 4"
    and "g_hw g = hw" "g_active_endpoints g = []" "g_endpoint_interface_map g = []"
  using EchoGadget_init_ok [of ops node cid hw] assms by auto

lemma echo_connected_clean:
  assumes "EchoGadget_init ops node cid hw = Inr g" and "c_ep_fds hw = []"
  shows "tracks running_endpoints [] (\<lambda>_. {}) (Connected speed g)"
  using echo_fresh [OF assms(1)] assms(2) by (simp add: tracks_def Connected_def running_endpoints_def addrs_of_def)

lemma init_no_endpoints: "LinuxGadgetfs_init hardware mountpoint e = Inr c \<Longrightarrow> c_ep_fds c = []"
  by (auto simp: LinuxGadgetfs_init_def split: option.splits)

lemma echo_descriptor:
  assumes "EchoGadget_init ops node cid hw = Inr g" and "speed \<in> {Speed_FULL, Speed_HIGH}"
  obtains cd where "GetConfigurationDescriptor (Connected speed g) = Inr cd"
    and "GetInterfaces cd = (if speed = Speed_HIGH then echo_hs 4 else echo_fs 4)"
  using that echo_fresh(1,2) [OF assms(1)] assms(2) by (auto simp: GetConfigurationDescriptor_def Connected_def)

lemma echo_alt0_supported:
  assumes "LinuxGadgetfs_init ''beaglebone-black'' mountpoint e = Inr c" and "ds \<in> {echo_fs 4, echo_hs 4}"
  shows "\<forall>d\<in>set ds. int_attr d ''bAlternateSetting'' = 0 \<longrightarrow> (\<forall>e\<in>set (GetEndpoints d). supported (c_hw_eps c) speed e)"
  using assms(2) echo_supported [OF _ _ _ _ _ _ assms(1)] by (auto simp: echo_fs_def echo_hs_def)

text \<open>The echo gadget once configured.\<close>

definition echo_state :: "(int \<Rightarrow> int set) \<Rightarrow> (int \<times> int) list \<Rightarrow> int \<Rightarrow> ('e gadgetfs, 'z) gadget_scheme \<Rightarrow> bool" where
  "echo_state stale es speed h \<longleftrightarrow> tracks running_endpoints es stale h \<and> g_chip h \<and> g_speed h = speed \<and>
     c_hw_eps (g_hw h) = snd (the (dict_get HARDWARE ''beaglebone-black'')) \<and>
     (\<exists>cd. GetConfigurationDescriptor h = Inr cd \<and>
        GetInterfaces cd = (if speed = Speed_HIGH then echo_hs 4 else echo_fs 4))"

definition echo_running :: "(int \<times> int) list" where
  "echo_running = [(0x01, 0), (0x81, 0), (0x02, 1), (0x82, 1)]"

lemma init_hw:
  "LinuxGadgetfs_init ''beaglebone-black'' mountpoint e = Inr c \<Longrightarrow>
     c_hw_eps c = snd (the (dict_get HARDWARE ''beaglebone-black''))"
  by (auto simp: LinuxGadgetfs_init_def split: option.splits)

lemma echo_configured_from:
  assumes "reliable os" and "LinuxGadgetfs_init ''beaglebone-black'' mountpoint e = Inr chip"
    and "clean running_endpoints g" and "g_chip g" "g_hw g = chip" "g_speed g = speed"
    and cd: "GetConfigurationDescriptor g = Inr cd"
    "GetInterfaces cd = (if speed = Speed_HIGH then echo_hs 4 else echo_fs 4)"
  shows "\<exists>h. SetConfiguration (fs_ops os) 1 g = (Inr (Some True), h) \<and>
    echo_state (\<lambda>_. {}) echo_running speed h"
proof -
  have "\<exists>h. SetConfiguration (fs_ops os) 1 g = (Inr (Some True), h) \<and> same_hw g h"
    using assms echo_alt0_supported [OF assms(2), of "GetInterfaces cd" speed]
    by (intro SetConfiguration_supported) auto
  then obtain h where h: "SetConfiguration (fs_ops os) 1 g = (Inr (Some True), h)" "same_hw g h" by blast
  have alt0: "alt0_endpoints (GetInterfaces cd) = echo_running"
    using cd(2) by (simp add: echo_alt0 echo_running_def)
  have t: "tracks running_endpoints echo_running (\<lambda>_. {}) h" "same_config g h"
    using gadgetfs.SetConfiguration_tracks [OF assms(3,4) cd(1) _ h(1)] unfolding alt0
    by (simp_all add: echo_running_def)
  have "GetConfigurationDescriptor h = Inr cd" using same_config_descriptor [OF t(2)] cd(1) by simp
  with h t(1) assms(4-6) cd(2) init_hw [OF assms(2)] show ?thesis by (auto simp: echo_state_def same_hw_def)
qed

lemma echo_configured:
  assumes "reliable os" and "LinuxGadgetfs_init ''beaglebone-black'' mountpoint e = Inr chip"
    and "EchoGadget_init (fs_ops os) node cid chip = Inr g" and "speed \<in> {Speed_FULL, Speed_HIGH}"
  shows "\<exists>h. SetConfiguration (fs_ops os) 1 (Connected speed g) = (Inr (Some True), h) \<and>
    echo_state (\<lambda>_. {}) echo_running speed h"
proof -
  obtain cd where cd: "GetConfigurationDescriptor (Connected speed g) = Inr cd"
    "GetInterfaces cd = (if speed = Speed_HIGH then echo_hs 4 else echo_fs 4)"
    using echo_descriptor [OF assms(3,4)] .
  show ?thesis
    using echo_connected_clean [OF assms(3) init_no_endpoints [OF assms(2)]] echo_fresh(3) [OF assms(3)] cd
    by (intro echo_configured_from [OF assms(1,2)]) (auto simp: Connected_def)
qed

section \<open>Selecting a configuration\<close>



text \<open>
  On the BeagleBone Black, with a kernel whose calls succeed, the echo gadget accepts its
  configuration at full and at high speed, and then its interrupt and bulk endpoints run and nothing
  else.
\<close>

theorem echo_gadget_configures:
  assumes "reliable os" and "LinuxGadgetfs_init ''beaglebone-black'' mountpoint e = Inr chip"
    and "EchoGadget_init (fs_ops os) node cid chip = Inr g" and "speed \<in> {Speed_FULL, Speed_HIGH}"
  shows "\<exists>h. SetConfiguration (fs_ops os) 1 (Connected speed g) = (Inr (Some True), h) \<and>
    tracks running_endpoints [(0x01, 0), (0x81, 0), (0x02, 1), (0x82, 1)] (\<lambda>_. {}) h"
  using echo_configured [OF assms] by (auto simp: echo_state_def echo_running_def)

theorem echo_gadget_configures_witness:
  "\<exists>h. SetConfiguration (fs_ops bench_os) 1 (Connected Speed_FULL bench_gadget) = (Inr (Some True), h) \<and>
    tracks running_endpoints [(0x01, 0), (0x81, 0), (0x02, 1), (0x82, 1)] (\<lambda>_. {}) h"
  by (rule echo_gadget_configures [OF bench_reliable bench_chip bench_gadget]) simp

section \<open>Selecting an alternate setting\<close>

text \<open>
  C14: Selecting an alternate setting of an interface stops the endpoints of the old setting, starts
  those of the new one and leaves the other interfaces' endpoints alone; but the interface's set of
  active endpoints keeps the addresses of the old setting.
\<close>

theorem select_interface:
  assumes "tracks running_endpoints es (\<lambda>_. {}) g" and "g_chip g"
    and "GetConfigurationDescriptor g = Inr cd"
    and "find_interface cd i alt = Some d" and "int_attr d ''bInterfaceNumber'' = i"
    and "distinct (map fst (filter (\<lambda>p. snd p \<noteq> i) es @ iface_endpoints i d))"
    and "SetInterface (fs_ops os) i alt g = (Inr (Some True), g')"
  shows "same_config g g' \<and>
    tracks running_endpoints (filter (\<lambda>p. snd p \<noteq> i) es @ iface_endpoints i d)
      ((\<lambda>_. {})(i := {a. (a, i) \<in> set es})) g'"
  using gadgetfs.SetInterface_tracks [OF assms] by simp

text \<open>The isochronous interface of the echo gadget.\<close>

lemma echo_find:
  assumes "GetInterfaces cd = echo_hs 4"
  shows "find_interface cd 2 1 = Some (echo_desc 2 6 1 0x83 0x03 TransferType_ISOCHRONOUS 512 4)"
    and "find_interface cd 2 0 = Some (vendor_desc 2 6 0)"
  using assms by (simp_all add: find_interface_def echo_hs_def)

lemma no_stale [simp]: "(\<lambda>_. {})(i := {}) = (\<lambda>_. {})"
  by auto

definition iso_running :: "(int \<times> int) list" where
  "iso_running = echo_running @ [(0x03, 2), (0x83, 2)]"

lemma echo_iso_starts:
  assumes "reliable os" and "echo_state (\<lambda>_. {}) echo_running Speed_HIGH h"
  shows "\<exists>k. SetInterface (fs_ops os) 2 1 h = (Inr (Some True), k) \<and>
    echo_state (\<lambda>_. {}) iso_running Speed_HIGH k"
proof -
  from assms(2) obtain cd where h: "tracks running_endpoints echo_running (\<lambda>_. {}) h" "g_chip h"
    "g_speed h = Speed_HIGH" "GetConfigurationDescriptor h = Inr cd" "GetInterfaces cd = echo_hs 4"
    and hw: "c_hw_eps (g_hw h) = snd (the (dict_get HARDWARE ''beaglebone-black''))"
    by (auto simp: echo_state_def)
  let ?d = "echo_desc 2 6 1 0x83 0x03 TransferType_ISOCHRONOUS 512 4"
  have "\<forall>e\<in>set (GetEndpoints ?d). supported (c_hw_eps (g_hw h)) (g_speed h) e"
    using echo_supported [OF _ _ _ _ _ _ bench_chip] init_hw [OF bench_chip] hw by simp
  from SetInterface_supported [OF assms(1) h(1,2,4) echo_find(1) [OF h(5)] this] obtain k where
    k: "SetInterface (fs_ops os) 2 1 h = (Inr (Some True), k)" "same_hw h k" by blast
  have "same_config h k \<and> tracks running_endpoints iso_running (\<lambda>_. {}) k"
    using gadgetfs.SetInterface_tracks [OF h(1,2,4) echo_find(1) [OF h(5)] _ _ k(1)]
    by (simp add: echo_running_def iso_running_def iface_endpoints_def)
  with k h hw same_config_descriptor [of h k] show ?thesis
    by (auto simp: echo_state_def same_hw_def)
qed


theorem select_interface_witness:
  "\<exists>(h :: nat gadgetfs usb_gadget) k. echo_state (\<lambda>_. {}) echo_running Speed_HIGH h \<and>
     SetInterface (fs_ops bench_os) 2 1 h = (Inr (Some True), k) \<and> same_config h k \<and>
     running_endpoints (g_hw k) = {0x01, 0x81, 0x02, 0x82, 0x03, 0x83}"
proof -
  from echo_configured [OF bench_reliable bench_chip bench_gadget, of Speed_HIGH] obtain h where
    "SetConfiguration (fs_ops bench_os) 1 (Connected Speed_HIGH bench_gadget) = (Inr (Some True), h)"
    and h: "echo_state (\<lambda>_. {}) echo_running Speed_HIGH h" by auto
  from echo_iso_starts [OF bench_reliable h] obtain k where
    k: "SetInterface (fs_ops bench_os) 2 1 h = (Inr (Some True), k)" by blast
  from h obtain cd where cd: "tracks running_endpoints echo_running (\<lambda>_. {}) h" "g_chip h"
    "GetConfigurationDescriptor h = Inr cd" "GetInterfaces cd = echo_hs 4"
    by (auto simp: echo_state_def)
  have "same_config h k \<and> tracks running_endpoints iso_running (\<lambda>_. {}) k"
    using select_interface [OF cd(1-3) echo_find(1) [OF cd(4)] _ _ k]
    by (simp add: echo_running_def iso_running_def iface_endpoints_def)
  then have "same_config h k" "running_endpoints (g_hw k) = {0x01, 0x81, 0x02, 0x82, 0x03, 0x83}"
    by (auto simp: tracks_def iso_running_def echo_running_def)
  with h k show ?thesis by blast
qed



text \<open>
  At full speed the isochronous setting can never be selected on the BeagleBone Black: the packet
  size its descriptor announces is larger than the hardware's endpoint, and the request fails with
  a RuntimeError after the configuration has been accepted.
\<close>

theorem echo_gadget_full_speed_isochronous:
  assumes "reliable os" and "LinuxGadgetfs_init ''beaglebone-black'' mountpoint e = Inr chip"
    and "EchoGadget_init (fs_ops os) node cid chip = Inr g"
    and "SetConfiguration (fs_ops os) 1 (Connected Speed_FULL g) = (r, h)"
  shows "r = Inr (Some True) \<and> fst (SetInterface (fs_ops os) 2 1 h) = Inl RuntimeError"
proof -
  from echo_configured [OF assms(1-3), of Speed_FULL] assms(4) have r: "r = Inr (Some True)"
    and h: "echo_state (\<lambda>_. {}) echo_running Speed_FULL h" by auto
  then obtain cd where cd: "tracks running_endpoints echo_running (\<lambda>_. {}) h" "g_chip h"
    "GetConfigurationDescriptor h = Inr cd" "GetInterfaces cd = echo_fs 4"
    and hw: "c_hw_eps (g_hw h) = snd (the (dict_get HARDWARE ''beaglebone-black''))"
    by (auto simp: echo_state_def)
  have find: "find_interface cd 2 1 = Some (echo_desc 2 6 1 0x83 0x03 TransferType_ISOCHRONOUS 1023 1)"
    using cd(4) by (simp add: find_interface_def echo_fs_def)
  have "set (addrs_of h 2) = {a. (a, 2) \<in> set echo_running}" using cd(1) unfolding tracks_def by simp
  then have none: "addrs_of h 2 = []" by (simp add: echo_running_def)
  have eps: "\<exists>name. dict_get (c_hw_eps (g_hw h)) 3 = Some (name, 7, 512)"
    unfolding hw HARDWARE_def Let_def by simp
  have "fst (StartEndpoint os (g_speed h) (endpoint_desc 3 TransferType_ISOCHRONOUS 1023 1) (g_hw h)) = Inl RuntimeError"
    using eps by (auto simp: StartEndpoint_def USB_TRANSFER_TYPE_TO_MASK_def)
  then have "fst (SetInterface (fs_ops os) 2 1 h) = Inl RuntimeError"
    using cd(2,3) find none
    by (auto simp: SetInterface_def st_run start_endpoint_def seq_st_def bind_st_run chip_call_def gets_st_def return_st_def modify_st_def lift_res_def
        split: prod.splits)
  with r show ?thesis by simp
qed

theorem echo_gadget_full_speed_isochronous_witness:
  "\<exists>h. SetConfiguration (fs_ops bench_os) 1 (Connected Speed_FULL bench_gadget) = (Inr (Some True), h) \<and>
     fst (SetInterface (fs_ops bench_os) 2 1 h) = Inl RuntimeError"
  using echo_gadget_full_speed_isochronous [OF bench_reliable bench_chip bench_gadget]
  by (cases "SetConfiguration (fs_ops bench_os) 1 (Connected Speed_FULL bench_gadget)") auto

end
