(* ===== verification/Process_Properties.thy ===== *)
theory Process_Properties
  imports Bench
begin

text \<open>
  The gadgetfs controller and the processes it starts for its endpoints: what holds in every
  interleaving of the server with those processes.
\<close>

section \<open>A run on the bench\<close>

definition bench_endpoint :: descriptor where
  "bench_endpoint = endpoint_desc 0x81 TransferType_BULK 512 0"

lemma bench_endpoint_supported: "supported (c_hw_eps bench_chip) Speed_HIGH bench_endpoint"
proof -
  have "endpoint_setup Speed_HIGH bench_endpoint = Inr
      [1, 0, 0, 0, 7, 5, 0x81, 0, 0, 0, 0, 7, 5, 0x81, 2, 0, 2, 0]"
    by code_simp
  then show ?thesis
    by (simp add: supported_def bench_endpoint_def bench_chip_def LinuxGadgetfs_init_def HARDWARE_def
        USB_TRANSFER_TYPE_TO_MASK_def)
qed

definition bench_started :: "nat gadgetfs" where
  "bench_started = snd (StartEndpoint bench_os Speed_HIGH bench_endpoint bench_chip)"

lemma bench_chip_fields [simp]:
  "c_ep_fds bench_chip = []" "c_children bench_chip = []" "c_next bench_chip = 0" "c_pipes bench_chip = []"
  by (simp_all add: bench_chip_def LinuxGadgetfs_init_def HARDWARE_def)

lemma bench_start: "StartEndpoint bench_os Speed_HIGH bench_endpoint bench_chip = (Inr (), bench_started)"
  using StartEndpoint_supported [OF bench_reliable bench_endpoint_supported] by (auto simp: bench_started_def)

lemma bench_started_parts:
  "\<exists>fd. dict_get (c_ep_fds bench_started) 0x81 = Some (fd, 0) \<and>
     dict_get (c_children bench_started) 0 = Some (fd, WriterProcess) \<and>
     dict_get (c_pipes bench_started) 0 = Some [] \<and> c_hw_eps bench_started = c_hw_eps bench_chip"
  using bench_start
proof (cases rule: StartEndpoint_cases)
  case (started fd e)
  then have b: "bench_started = bench_chip\<lparr>c_os := e, c_next := Suc 0, c_pipes := [(0, [])],
      c_ep_fds := [(0x81, fd, 0)], c_children := [(0, fd, WriterProcess)]\<rparr>"
    by (simp add: start_process_def bench_endpoint_def Let_def)
  show ?thesis unfolding b by simp
qed simp

lemma bench_run: "fs_run bench_os bench_chip [Internal] bench_started"
proof -
  have "fs_step bench_os bench_chip Internal (snd (StartEndpoint bench_os Speed_HIGH bench_endpoint bench_chip))"
    by (rule fs_step.start) (simp add: running_endpoints_def)
  from fs_run.Snoc [OF fs_run.Nil this] show ?thesis by (simp add: bench_started_def)
qed

section \<open>Pipes\<close>



section \<open>Book-keeping of processes\<close>



text \<open>
  Stopping everything, as a disconnection and the removal of a gadget do, succeeds in every
  reachable state and leaves no endpoint, no process and no watched pipe; only the control file
  stays watched.
\<close>

theorem everything_stops:
  assumes "LinuxGadgetfs_init hardware mountpoint e = Inr c0" and "fs_run os c0 ls c"
  shows "\<exists>c'. stop_everything os c = (Inr (), c') \<and> c_ep_fds c' = [] \<and> c_children c' = [] \<and>
    c_handlers c' = filter (\<lambda>h. \<exists>fd. h = EventHandler fd) (c_handlers c) \<and>
    c_gadget c' = c_gadget c \<and> c_fd c' = c_fd c"
  using stop_everything_result [OF fs_run_wf [OF assms(2) chip_wf_init [OF assms(1)]]] by blast

theorem everything_stops_witness:
  "\<exists>c'. c_children bench_started \<noteq> [] \<and> stop_everything bench_os bench_started = (Inr (), c') \<and> c_children c' = []"
  using everything_stops [OF bench_chip bench_run] bench_started_parts by fastforce

text \<open>
  Starting an endpoint that runs already is not refused: the check for an endpoint in use
  compares the endpoint's name with the addresses and never holds. The process that served the
  endpoint before goes on, but no endpoint refers to its pipe any more, so nothing stops it.
\<close>

theorem started_twice_leaks_process:
  assumes "chip_wf c" and "dict_get (c_ep_fds c) a = Some (fd, p)" and "int_attr d ''bEndpointAddress'' = a"
    and "dict_get (c_children c) p = Some child" and "StartEndpoint os speed d c = (Inr (), c')"
  shows "dict_get (c_children c') p = Some child \<and> p \<notin> set (pipes_in_use c')"
  using assms(5)
proof (cases rule: StartEndpoint_cases)
  case (started fd' e)
  have p: "p < c_next c" using endpoint_known [OF assms(1,2)] .
  have "distinct (map fst (c_ep_fds c))" "distinct (pipes_in_use c)" using assms(1) by (simp_all add: chip_wf_def)
  moreover have "(a, fd, p) \<in> set (c_ep_fds c)" using assms(2) by (rule map_of_SomeD)
  ultimately have "\<forall>b f. (b, f, p) \<in> set (c_ep_fds c) \<longrightarrow> b = a"
    by (auto simp: pipes_in_use_def distinct_map inj_on_def)
  then have "\<forall>b f. (b, f, p) \<notin> set (dict_set a (fd', c_next c) (c_ep_fds c))"
    using p \<open>distinct (map fst (c_ep_fds c))\<close> \<open>(a, fd, p) \<in> set (c_ep_fds c)\<close>
    by (subst dict_set_existing) (force split: if_splits)+
  moreover have "c_ep_fds c' = dict_set a (fd', c_next c) (c_ep_fds c)"
    "dict_get (c_children c') p = dict_get (c_children c) p"
    using started(2) assms(3) p by (simp_all add: start_process_def Let_def)
  ultimately show ?thesis using assms(4) by (simp add: pipes_in_use_set)
qed simp

theorem started_twice_leaks_process_witness:
  "\<exists>c' fd. StartEndpoint bench_os Speed_HIGH bench_endpoint bench_started = (Inr (), c') \<and>
     dict_get (c_children c') 0 = Some (fd, WriterProcess) \<and> 0 \<notin> set (pipes_in_use c')"
proof -
  obtain fd where b: "dict_get (c_ep_fds bench_started) 0x81 = Some (fd, 0)"
    "dict_get (c_children bench_started) 0 = Some (fd, WriterProcess)"
    "c_hw_eps bench_started = c_hw_eps bench_chip" using bench_started_parts by blast
  have "supported (c_hw_eps bench_started) Speed_HIGH bench_endpoint"
    using b(3) bench_endpoint_supported by simp
  from StartEndpoint_supported [OF bench_reliable this] obtain c' where
    c': "StartEndpoint bench_os Speed_HIGH bench_endpoint bench_started = (Inr (), c')" by blast
  have "int_attr bench_endpoint ''bEndpointAddress'' = 0x81" by (simp add: bench_endpoint_def)
  from started_twice_leaks_process [OF fs_run_wf [OF bench_run chip_wf_init [OF bench_chip]] b(1) this b(2) c'] c'
  show ?thesis by blast
qed

end
