(* ===== verification/Device_Properties.thy ===== *)
theory Device_Properties
  imports Endpoint_Properties Process_Properties
begin

text \<open>
  What the devices do: report descriptors and the reports that are sent, typing on the keyboard
  gadget, and the echo devices from their constructor to the packet that comes back.
\<close>

section \<open>Report descriptors and reports\<close>

text \<open>
  The number of bits of the reports a descriptor declares: the global items \<^verbatim>\<open>ReportSize\<close> (7) and
  \<^verbatim>\<open>ReportCount\<close> (9) hold for the main items behind them; \<open>main\<close> is 8 for input, 9 for output
  and 11 for feature reports.
\<close>

fun report_bits :: "int \<Rightarrow> int \<Rightarrow> int \<Rightarrow> (int \<times> int \<times> int) list \<Rightarrow> int" where
  "report_bits main sz n [] = 0"
| "report_bits main sz n ((tag, typ, val) # ts) =
     (if typ = 1 \<and> tag = 7 then report_bits main val n ts
      else if typ = 1 \<and> tag = 9 then report_bits main sz val ts
      else if typ = 0 \<and> tag = main then sz * n + report_bits main sz n ts
      else report_bits main sz n ts)"

definition declared_bits :: "int \<Rightarrow> bytes res \<Rightarrow> int option" where
  "declared_bits main desc =
     (case desc of Inl _ \<Rightarrow> None | Inr bs \<Rightarrow> map_option (report_bits main 0 0) (parse_items bs))"

lemma keyboard_bits: "declared_bits 8 keyboard_REPORT_DESC = Some 64" "declared_bits 9 keyboard_REPORT_DESC = Some 8"
  unfolding keyboard_REPORT_DESC_bytes by code_simp+

lemma mouse_bits: "declared_bits 8 mouse_REPORT_DESC = Some 24"
  unfolding mouse_REPORT_DESC_bytes by code_simp

lemma echo_bits: "declared_bits 8 echo_REPORT_DESC = Some 64" "declared_bits 9 echo_REPORT_DESC = Some 64"
  "declared_bits 11 echo_REPORT_DESC = Some 64"
  unfolding echo_REPORT_DESC_bytes by code_simp+

lemma report_lengths:
  "kb_GetInputReport k = Inr d \<Longrightarrow> length d = 8" "kb_GetOutputReport k = Inr d \<Longrightarrow> length d = 1"
  "EncodeInputReport x y m = Inr d \<Longrightarrow> length d = 3" "he_report e = Inr d \<Longrightarrow> length d = 8"
  "he_GetFeatureReport e = Inr d \<Longrightarrow> length d = 8"
  unfolding kb_GetInputReport_def kb_GetOutputReport_def EncodeInputReport_def he_report_def he_GetFeatureReport_def
  by (drule struct_pack_length, simp)+

text \<open>
  C20: Every report the keyboard, the mouse and the HID echo device send or answer with has exactly
  the number of bits that the device's report descriptor, parsed by the rules of the HID
  specification, declares for reports of that kind.
\<close>

theorem reports_match_descriptors:
  "(\<forall>d. kb_GetInputReport k = Inr d \<longrightarrow> declared_bits 8 keyboard_REPORT_DESC = Some (8 * int (length d))) \<and>
   (\<forall>d. kb_GetOutputReport k = Inr d \<longrightarrow> declared_bits 9 keyboard_REPORT_DESC = Some (8 * int (length d))) \<and>
   (\<forall>d. EncodeInputReport x y m = Inr d \<longrightarrow> declared_bits 8 mouse_REPORT_DESC = Some (8 * int (length d))) \<and>
   (\<forall>d. he_report e = Inr d \<longrightarrow> declared_bits 8 echo_REPORT_DESC = Some (8 * int (length d)) \<and>
      declared_bits 9 echo_REPORT_DESC = Some (8 * int (length d))) \<and>
   (\<forall>d. he_GetFeatureReport e = Inr d \<longrightarrow> declared_bits 11 echo_REPORT_DESC = Some (8 * int (length d)))"
  using report_lengths(1) [of k] report_lengths(2) [of k] report_lengths(3) [of x y m]
    report_lengths(4) [of e] report_lengths(5) [of e]
  by (auto simp: keyboard_bits mouse_bits echo_bits)

theorem reports_match_descriptors_witness:
  "kb_GetInputReport KeyboardFeature_init = Inr [0, 0, 0, 0, 0, 0, 0, 0] \<and>
   declared_bits 8 keyboard_REPORT_DESC = Some (8 * int (length [0, 0, 0, 0, 0, 0, 0, 0 :: byte]))"
proof -
  have r: "kb_GetInputReport KeyboardFeature_init = Inr [0, 0, 0, 0, 0, 0, 0, 0]" by code_simp
  with reports_match_descriptors [of KeyboardFeature_init] show ?thesis by blast
qed

section \<open>Typing\<close>

definition bench_keyboard :: keyboard where
  "bench_keyboard = hf_Connected 0 KeyboardFeature_init"

definition bench_hid :: "hid_device hid_composite" where
  "bench_hid = composite_feature.extend \<lparr>cf_gadget = True, cf_fs_interface_descs = [], cf_hs_interface_descs = []\<rparr>
     (hid_composite.fields [] [(0, Keyboard bench_keyboard)] 0 0x81 (Some 0x01))"

definition bench_server :: "nat server" where
  "bench_server =
     \<lparr>sv_objects = [(KeyboardG, bench_gadget\<lparr>g_chip := True, cg_features := [HidComposite bench_hid]\<rparr>)],
      sv_gadget = Some 0, sv_bound = 0, sv_chip = bench_started, sv_claimed_by = None, sv_address = ''bench''\<rparr>"

lemma bench_kb_ready: "kb_ready 0 0 bench_keyboard bench_server"
  using bench_started_parts
  by (auto simp: kb_ready_def bench_server_def bench_keyboard_def bench_hid_def hf_Connected_def
      composite_feature.extend_def hid_composite.fields_def)

lemma bench_keyboard_idle: "kb_keys bench_keyboard = [0, 0, 0, 0, 0, 0]" "kb_modifiers bench_keyboard = 0"
  by (simp_all add: bench_keyboard_def hf_Connected_def KeyboardFeature_init_def hid_feature.extend_def
      keyboard.fields_def HidFeature_init_def)

text \<open>
  C6: Typing a string on a connected, configured keyboard whose keys are all up sends, for each
  character in turn, the reports that press and release its key, between those that press and release
  shift for the characters that need it, and nothing for characters without a key. Afterwards all
  keys are up again and the keyboard is as it was.
\<close>

theorem typing_sends_key_reports:
  assumes "kb_ready n p k sv" and "kb_keys k = [0, 0, 0, 0, 0, 0]" and "kb_modifiers k = 0"
  shows "\<exists>sv'. handle os (TypeString s) sv = (Inr 200, sv') \<and> kb_ready n p k sv' \<and>
    pipe_of p (sv_chip sv') = pipe_of p (sv_chip sv) @ concat (map char_reports s)"
  using type_string_ready [OF assms] by simp

theorem typing_sends_key_reports_witness:
  "\<exists>sv'. handle bench_os (TypeString ''aB'') bench_server = (Inr 200, sv') \<and>
    pipe_of 0 (sv_chip sv') =
      [key_report 0 4, key_report 0 0, key_report 2 0, key_report 2 5, key_report 2 0, key_report 0 0]"
proof -
  have codes: "dict_get KEY_CODES ''a'' = Some 4" "dict_get KEY_CODES ''B'' = None" "dict_get SHIFT_KEY_CODES ''B'' = Some 5"
    by code_simp+
  have "pipe_of 0 (sv_chip bench_server) = []"
    using bench_started_parts by (auto simp: bench_server_def pipe_of_def)
  with typing_sends_key_reports [OF bench_kb_ready bench_keyboard_idle, of bench_os "''aB''"] codes
  show ?thesis by (auto simp: char_reports_def)
qed

section \<open>HID echo\<close>

text \<open>
  Eight bytes set as the input or output report of the connected HID echo device are sent back
  unchanged on its IN endpoint, and reading the report afterwards gives the same eight bytes.
\<close>

theorem hid_echo_returns_report:
  assumes "length data = 8" and "hf_gadget e" and "hf_report_id e = Some 0" and "cf_gadget hc" and "g_chip g"
    and "hc_in_endpoint hc AND Dir_IN \<noteq> 0"
    and "dict_get (c_ep_fds (g_hw g)) (hc_in_endpoint hc) = Some (fd, p)"
  shows "\<exists>e'. he_SetInputOutputReport (fs_ops os) data (e, (hc, g)) =
      (Inr (Some True), (e', (hc, g\<lparr>g_hw := pipe_send p data (g_hw g)\<rparr>))) \<and> he_report e' = Inr data"
  using he_SetInputOutputReport_echo [OF assms] by blast

definition bench_echo :: hid_echo where
  "bench_echo = hf_Connected 0 EchoFeature_init"

theorem hid_echo_returns_report_witness:
  "\<exists>e' t. he_SetInputOutputReport (fs_ops bench_os) [1, 2, 3, 4, 5, 6, 7, 8]
      (bench_echo, (bench_hid, bench_gadget\<lparr>g_chip := True, g_hw := bench_started\<rparr>)) = (Inr (Some True), (e', t)) \<and>
     he_report e' = Inr [1, 2, 3, 4, 5, 6, 7, 8]"
proof -
  obtain fd where fd: "dict_get (c_ep_fds bench_started) 0x81 = Some (fd, 0)" using bench_started_parts by blast
  have "hf_gadget bench_echo" "hf_report_id bench_echo = Some 0" "cf_gadget bench_hid" "hc_in_endpoint bench_hid = 0x81"
    by (simp_all add: bench_echo_def hf_Connected_def bench_hid_def composite_feature.extend_def hid_composite.fields_def)
  with hid_echo_returns_report [of "[1, 2, 3, 4, 5, 6, 7, 8]" bench_echo bench_hid
      "bench_gadget\<lparr>g_chip := True, g_hw := bench_started\<rparr>" fd 0 bench_os] fd
  show ?thesis by auto
qed

section \<open>USB echo\<close>

lemma cg_Connected_echo:
  assumes "EchoGadget_init ops node cid hw = Inr g"
  obtains f where "cg_Connected (Usb_class ops) speed g = (Inr (), (Connected speed g)\<lparr>cg_features := [EchoComposite f]\<rparr>)"
    and "cf_gadget f"
proof -
  from EchoGadget_init_ok [of ops node cid hw] assms obtain f where f: "cg_features g = [EchoComposite f]" by auto
  have "cg_Connected (Usb_class ops) speed g =
      (Inr (), (Connected speed g)\<lparr>cg_features := [EchoComposite (f\<lparr>cf_gadget := True\<rparr>)]\<rparr>)"
    using f by (simp add: cg_Connected_def st_run on_feature_def by_class_def on_echo_def feature_Connected_def
        Connected_def seq_st_def bind_st_run gets_st_def modify_st_def return_st_def)
  then show ?thesis using that by simp
qed

lemma keeps_chip_call_other: "(\<And>g c. f (g\<lparr>g_hw := c\<rparr>) = f g) \<Longrightarrow> keeps f (chip_call m)"
  by (auto simp: keeps_def chip_call_def split: prod.split)

lemma keeps_SetConfiguration_other:
  assumes "\<And>g c. f (g\<lparr>g_hw := c\<rparr>) = f g" and "\<And>g c. f (g\<lparr>g_active_endpoints := c\<rparr>) = f g"
    and "\<And>g c. f (g\<lparr>g_endpoint_interface_map := c\<rparr>) = f g"
  shows "keeps f (SetConfiguration ops i)"
  unfolding SetConfiguration_def stop_all_endpoints_def start_interface_def start_endpoint_def Let_def
  by (intro keeps_rules keeps_chip_call_other assms | simp add: assms)+

lemma echo_packet_back:
  assumes "echo_state (\<lambda>_. {}) echo_running speed h" and "speed \<in> {Speed_FULL, Speed_HIGH}"
    and "cg_features h = [EchoComposite f]" and "cf_gadget f"
    and "\<forall>n\<in>{0, 1, 2}. dict_get (cg_fs_interface_feature_map h) n = Some 0 \<and>
        dict_get (cg_hs_interface_feature_map h) n = Some 0"
    and "a \<in> {0x01, 0x02}"
  shows "\<exists>fd p h'. dict_get (c_ep_fds (g_hw h)) (a OR Dir_IN) = Some (fd, p) \<and>
    cg_ReceivePacket (Usb_class (fs_ops os)) a data h = (Inr (), h') \<and>
    pipe_of p (g_hw h') = pipe_of p (g_hw h) @ [data]"
proof -
  have e: "running_endpoints (g_hw h) = fst ` set echo_running" "g_chip h" "g_speed h = speed"
    "dict_get (g_endpoint_interface_map h) a = map_of echo_running a"
    using assms(1) by (simp_all add: echo_state_def tracks_def)
  have t: "running_endpoints (g_hw h) = {0x01, 0x81, 0x02, 0x82}" "g_chip h" "g_speed h = speed"
    "dict_get (g_endpoint_interface_map h) a = Some (a - 1)"
    using e assms(6) by (auto simp: echo_running_def)
  have "a OR Dir_IN \<in> running_endpoints (g_hw h)" unfolding t(1) using assms(6) by auto
  then have "dict_get (c_ep_fds (g_hw h)) (a OR Dir_IN) \<noteq> None"
    unfolding running_endpoints_iff .
  then obtain fd p where p: "dict_get (c_ep_fds (g_hw h)) (a OR Dir_IN) = Some (fd, p)" by auto
  have "a AND Dir_IN = 0" using assms(6) by auto
  note send = echo_ReceivePacket_sends [OF this assms(4) t(2) p, of os data]
  have "\<exists>m. GetInterfaceFeatureMap h = Inr m \<and> dict_get m (a - 1) = Some 0"
    using assms(2,5,6) t(3) by (auto simp: GetInterfaceFeatureMap_def)
  with t(4) assms(3) have "cg_ReceivePacket (Usb_class (fs_ops os)) a data h =
      (Inr (), h\<lparr>g_hw := pipe_send p data (g_hw h), cg_features := [EchoComposite f]\<rparr>)"
    by (auto simp: cg_ReceivePacket_def GetInterfaceForEndpoint_def on_feature_def by_class_def on_echo_def send)
  with p show ?thesis by auto
qed

text \<open>
  C1: The echo gadget echoes. On the BeagleBone Black, with a kernel whose calls succeed, a new echo
  gadget that is connected at full or high speed accepts the request that selects configuration 1, and
  then every packet received on the interrupt or the bulk OUT endpoint is put, unchanged, into the
  pipe of the IN endpoint of the same number.
\<close>

theorem echo_gadget_echoes:
  assumes "reliable os" and "LinuxGadgetfs_init ''beaglebone-black'' mountpoint e = Inr chip"
    and "EchoGadget_init (fs_ops os) node cid chip = Inr g" and "speed \<in> {Speed_FULL, Speed_HIGH}"
  shows "\<exists>g1 h. cg_Connected (Usb_class (fs_ops os)) speed g = (Inr (), g1) \<and>
    cg_ControlWrite (fs_ops os) (Usb_class (fs_ops os)) 0x00 Request_SET_CONFIGURATION 1 0 [] g1 = (Inr (Some True), h) \<and>
    (\<forall>a\<in>{0x01, 0x02}. \<forall>data. \<exists>fd p h'. dict_get (c_ep_fds (g_hw h)) (a OR Dir_IN) = Some (fd, p) \<and>
       cg_ReceivePacket (Usb_class (fs_ops os)) a data h = (Inr (), h') \<and>
       pipe_of p (g_hw h') = pipe_of p (g_hw h) @ [data])"
proof -
  obtain f where f: "cg_Connected (Usb_class (fs_ops os)) speed g =
      (Inr (), (Connected speed g)\<lparr>cg_features := [EchoComposite f]\<rparr>)" "cf_gadget f"
    using cg_Connected_echo [OF assms(3)] .
  let ?g = "(Connected speed g)\<lparr>cg_features := [EchoComposite f]\<rparr>"
  obtain cd where cd: "GetConfigurationDescriptor (Connected speed g) = Inr cd"
    "GetInterfaces cd = (if speed = Speed_HIGH then echo_hs 4 else echo_fs 4)"
    using echo_descriptor [OF assms(3,4)] .
  have "tracks running_endpoints [] (\<lambda>_. {}) ?g"
    using echo_connected_clean [OF assms(3) init_no_endpoints [OF assms(2)], of speed]
    by (simp add: tracks_def addrs_of_def)
  moreover have "GetConfigurationDescriptor ?g = Inr cd"
    using cd(1) assms(4) by (auto simp: GetConfigurationDescriptor_def Connected_def)
  ultimately have "\<exists>h. SetConfiguration (fs_ops os) 1 ?g = (Inr (Some True), h) \<and> echo_state (\<lambda>_. {}) echo_running speed h"
    using echo_fresh(3) [OF assms(3)] cd(2)
    by (intro echo_configured_from [OF assms(1,2), where cd = cd]) (auto simp: Connected_def)
  then obtain h where h: "SetConfiguration (fs_ops os) 1 ?g = (Inr (Some True), h)"
    "echo_state (\<lambda>_. {}) echo_running speed h" by blast
  have "keeps (\<lambda>g. (cg_features g, cg_fs_interface_feature_map g, cg_hs_interface_feature_map g))
      (SetConfiguration (fs_ops os) 1)"
    by (rule keeps_SetConfiguration_other) simp_all
  from keepsD [OF this h(1)] have "cg_features h = [EchoComposite f]"
    "cg_fs_interface_feature_map h = cg_fs_interface_feature_map g"
    "cg_hs_interface_feature_map h = cg_hs_interface_feature_map g" by (simp_all add: Connected_def)
  moreover have "\<forall>n\<in>{0, 1, 2}. dict_get (cg_fs_interface_feature_map g) n = Some 0 \<and>
      dict_get (cg_hs_interface_feature_map g) n = Some 0"
    using EchoGadget_init_ok [of "fs_ops os" node cid chip] assms(3) by auto
  ultimately have "\<forall>a\<in>{0x01, 0x02}. \<forall>data. \<exists>fd p h'. dict_get (c_ep_fds (g_hw h)) (a OR Dir_IN) = Some (fd, p) \<and>
       cg_ReceivePacket (Usb_class (fs_ops os)) a data h = (Inr (), h') \<and>
       pipe_of p (g_hw h') = pipe_of p (g_hw h) @ [data]"
    using echo_packet_back [OF h(2) assms(4) _ f(2)] by (intro ballI allI) simp
  moreover have "cg_ControlWrite (fs_ops os) (Usb_class (fs_ops os)) 0x00 Request_SET_CONFIGURATION 1 0 [] ?g = (Inr (Some True), h)"
    using h(1) by (simp add: cg_ControlWrite_def ControlWrite_def cg_StandardControlWrite_def or_feature_eq
        StandardControlWrite_def)
  ultimately show ?thesis using f(1) by blast
qed

theorem echo_gadget_echoes_witness:
  "\<exists>g1 h. cg_Connected (Usb_class (fs_ops bench_os)) Speed_HIGH bench_gadget = (Inr (), g1) \<and>
    cg_ControlWrite (fs_ops bench_os) (Usb_class (fs_ops bench_os)) 0x00 Request_SET_CONFIGURATION 1 0 [] g1 = (Inr (Some True), h) \<and>
    (\<forall>a\<in>{0x01, 0x02}. \<forall>data. \<exists>fd p h'. dict_get (c_ep_fds (g_hw h)) (a OR Dir_IN) = Some (fd, p) \<and>
       cg_ReceivePacket (Usb_class (fs_ops bench_os)) a data h = (Inr (), h') \<and>
       pipe_of p (g_hw h') = pipe_of p (g_hw h) @ [data])"
  by (rule echo_gadget_echoes [OF bench_reliable bench_chip bench_gadget]) simp

end
