(* ===== verification/Server_Properties.thy ===== *)
theory Server_Properties
  imports Device_Properties
begin

text \<open>
  The server: what holds after any sequence of requests, USB events, packets and steps of the child
  processes, who holds the device, which gadget is active, and how the server's version is found.
\<close>

section \<open>The binding of the controller\<close>

lemma new_test_device: "\<exists>g. DefaultGadget_init hw = Inr g"
proof -
  obtain dev where dev: "device_descriptor VendorID_GOOGLE ProductID_GOOGLE_TEST_GADGET 0x0200 0x0100 = Inr dev"
    using new_device by blast
  show ?thesis
    by (simp add: DefaultGadget_init_def dev new_configuration new_descriptor_def [of C_Interface] fields_defs
        field_names_def set_field_def AddInterface_def register_def run_init_def AddStringDescriptor_def LANG_def
        Let_def seq_st_def bind_st_run return_st_def)
qed

lemma server_starts:
  "\<exists>r sv. server_main os ''beaglebone-black'' address claimed e = Inr (r, sv)"
  using new_test_device [of "projr (LinuxGadgetfs_init ''beaglebone-black'' ''/dev/gadget'' e)"]
  by (auto simp: server_main_def LinuxGadgetfs_init_def HARDWARE_def split_paired_Ex)

text \<open>
  C4: However requests, USB events, received packets and the steps of the child processes follow one
  another after the server has started, and whichever of them fail, the current gadget and the gadget
  bound to the controller are gadgets of the server, the first of them is the default gadget, and
  while the controller is configured the gadget it is bound to is the current one.
\<close>

theorem controller_bound_to_current_gadget:
  assumes "server_main os hardware address claimed e = Inr (r, sv0)" and "sv_reach os sv0 sv"
  shows "sv_objects sv \<noteq> [] \<and> kind_at the_default sv = DefaultG \<and>
    (\<forall>k. sv_gadget sv = Some k \<longrightarrow> k < length (sv_objects sv)) \<and> sv_bound sv < length (sv_objects sv) \<and>
    (IsConfigured (sv_chip sv) \<longrightarrow> sv_gadget sv = Some (sv_bound sv))"
  using sv_reach_wf [OF assms(2) server_main_wf [OF assms(1)]] unfolding sv_wf_def .

theorem controller_bound_to_current_gadget_witness:
  "\<exists>r sv0 sv. server_main bench_os ''beaglebone-black'' ''bench'' None 0 = Inr (r, sv0) \<and>
     sv_reach bench_os sv0 sv \<and> sv_bound sv < length (sv_objects sv)"
proof -
  from server_starts [of bench_os "''bench''" None 0] obtain r sv0 where
    m: "server_main bench_os ''beaglebone-black'' ''bench'' None 0 = Inr (r, sv0)" by blast
  obtain sv where "sv_step bench_os sv0 sv"
    using sv_step.request [of bench_os Disconnect sv0] by (cases "handle bench_os Disconnect sv0") blast
  then have "sv_reach bench_os sv0 sv" by (blast intro: sv_reach.intros)
  with controller_bound_to_current_gadget [OF m this] m show ?thesis by blast
qed

section \<open>Requests\<close>

text \<open>
  A claim lasts. Once a client holds the device, no sequence of requests other than giving it back
  changes the holder, whichever of them fail, and every other claim is answered with 403.
\<close>

theorem claim_lasts:
  assumes "sv_wf sv" and "sv_claimed_by sv = Some c" and "Unclaim \<notin> set rqs"
  shows "sv_claimed_by (serve os rqs sv) = Some c \<and>
    handle os (Claim session) (serve os rqs sv) = (Inr 403, serve os rqs sv)"
  using serve_claim [OF assms, of os] by (simp add: ClaimHandler_post_def)

lemma bench_default:
  "\<exists>r sv. server_main bench_os ''beaglebone-black'' ''bench'' None 0 = Inr (r, sv) \<and> sv_wf sv \<and> sv_claimed_by sv = None"
proof -
  from server_starts [of bench_os "''bench''" None 0] obtain r sv where
    m: "server_main bench_os ''beaglebone-black'' ''bench'' None 0 = Inr (r, sv)" by blast
  have "sv_claimed_by sv = None"
  proof -
    from m obtain chip g where s: "SwitchGadget bench_os the_default
         \<lparr>sv_objects = [(DefaultG, as_usb_gadget g)], sv_gadget = None, sv_bound = 0,
          sv_chip = chip, sv_claimed_by = None, sv_address = ''bench''\<rparr> = (r, sv)"
      and c: "LinuxGadgetfs_init ''beaglebone-black'' ''/dev/gadget'' 0 = Inr chip"
      by (auto simp: server_main_def bind_res_Inr_iff)
    have "\<not> c_gadget chip" using c by (auto simp: LinuxGadgetfs_init_def split: option.splits)
    from sv_wf_SwitchGadget(2) [OF s] this show ?thesis by (simp add: sv_wf_def kind_at_def IsConfigured_def)
  qed
  with m server_main_wf [OF m] show ?thesis by blast
qed

theorem claim_lasts_witness:
  "\<exists>sv :: nat server. sv_claimed_by sv = Some ''me'' \<and>
     sv_claimed_by (serve bench_os [Claim ''you'', Disconnect] sv) = Some ''me''"
proof -
  from bench_default obtain sv :: "nat server" where sv: "sv_wf sv" by blast
  then have "sv_wf (sv\<lparr>sv_claimed_by := Some ''me''\<rparr>)" by (simp add: sv_wf_def kind_at_def)
  from claim_lasts [OF this, of "''me''" "[Claim ''you'', Disconnect]" bench_os] show ?thesis
    by (intro exI [of _ "sv\<lparr>sv_claimed_by := Some ''me''\<rparr>"]) simp
qed

text \<open>
  Giving the device back, when it succeeds, leaves it unclaimed with the default gadget active,
  whatever gadget was active before.
\<close>

theorem unclaim_restores_default:
  assumes "sv_wf sv" and "handle os Unclaim sv = (Inr status, sv')"
  shows "status = 200 \<and> sv_claimed_by sv' = None \<and> sv_gadget sv' = Some the_default \<and>
    kind_at the_default sv' = DefaultG"
proof -
  let ?sv = "sv\<lparr>sv_claimed_by := None\<rparr>"
  have wf: "sv_wf ?sv" using assms(1) by (simp add: sv_wf_def kind_at_def)
  show ?thesis
  proof (cases "sv_gadget sv = Some the_default")
    case True
    with assms(2) wf show ?thesis
      by (auto simp: UnclaimHandler_post_def seq_st_def bind_st_run modify_st_def return_st_def sv_wf_def)
  next
    case False
    from assms(2) False obtain u where u: "SwitchGadget os the_default ?sv = (Inr (), u)" "status = 200" "sv' = u"
      by (auto simp: UnclaimHandler_post_def seq_st_def bind_st_run modify_st_def return_st_def
          split: prod.splits sum.splits)
    have "the_default < length (sv_objects ?sv)" using wf by (simp add: sv_wf_def)
    from sv_wf_SwitchGadget [OF u(1) wf this] u(2,3) show ?thesis by (simp add: sv_wf_def)
  qed
qed

lemma unclaimed_default:
  assumes "sv_wf sv" and "sv_gadget sv = Some the_default"
  shows "handle os Unclaim sv = (Inr 200, sv\<lparr>sv_claimed_by := None\<rparr>)"
  using assms by (simp add: UnclaimHandler_post_def seq_st_def bind_st_run modify_st_def return_st_def)

theorem unclaim_restores_default_witness:
  "\<exists>(sv :: nat server) sv'. handle bench_os Unclaim sv = (Inr 200, sv') \<and> sv_claimed_by sv' = None \<and>
     kind_at the_default sv' = DefaultG"
proof -
  from bench_default obtain sv :: "nat server" where sv: "sv_wf sv" by blast
  let ?sv = "sv\<lparr>sv_gadget := Some 0, sv_bound := 0, sv_claimed_by := Some ''me''\<rparr>"
  have wf: "sv_wf ?sv" using sv by (simp add: sv_wf_def kind_at_def)
  from unclaim_restores_default [OF wf unclaimed_default [OF wf, of bench_os]] unclaimed_default [OF wf, of bench_os]
  show ?thesis by fastforce
qed

text \<open>
  A request that configures a gadget makes a new gadget of the wanted kind and, when it succeeds,
  leaves it current and the controller bound to it; the gadgets that existed keep their kinds.
\<close>

theorem configure_activates_gadget:
  assumes "sv_wf sv" and "configure os kind new sv = (Inr status, sv')"
  shows "status = 200 \<and> sv_gadget sv' = Some (length (sv_objects sv)) \<and>
    sv_bound sv' = length (sv_objects sv) \<and> IsConfigured (sv_chip sv') \<and>
    map fst (sv_objects sv') = map fst (sv_objects sv) @ [kind]"
proof -
  from assms(2) obtain g u where g: "new (sv_chip sv) = Inr g"
    and u: "SwitchGadget os (length (sv_objects sv)) (sv\<lparr>sv_objects := sv_objects sv @ [(kind, g)]\<rparr>) = (Inr (), u)"
    and s: "status = 200" "sv' = u"
    by (auto simp: configure_def seq_st_def bind_st_run modify_st_def return_st_def split: sum.splits prod.splits)
  have "sv_wf (sv\<lparr>sv_objects := sv_objects sv @ [(kind, g)]\<rparr>)"
    using assms(1) by (auto simp: sv_wf_def kind_at_def nth_append)
  from sv_wf_SwitchGadget [OF u this] s show ?thesis by (simp add: IsConfigured_def)
qed

definition bench_config :: descriptor where
  "bench_config = register
     (Desc C_Configuration [(''bmAttributes'', PInt 0x80), (''MaxPower'', PInt 50)] [] [] [] [] None)
     [PInt 0, PInt 0] (vendor_desc 0 4 0)"

definition bench_device :: descriptor where
  "bench_device = Desc C_Device [(''idVendor'', PInt 0x18D1), (''idProduct'', PInt 0x58F1), (''bcdDevice'', PInt 0x0100)]
     [] [] [] [] None"

definition bench_plain :: "nat gadgetfs usb_gadget" where
  "bench_plain = as_usb_gadget (Gadget_init bench_device bench_config bench_config bench_chip)"

definition bench_idle :: "nat server" where
  "bench_idle = \<lparr>sv_objects = [(DefaultG, bench_plain)], sv_gadget = None, sv_bound = 0, sv_chip = bench_chip,
     sv_claimed_by = None, sv_address = ''bench''\<rparr>"

lemma bench_encodings: "\<not> isl (Encode (\<lambda>_. Inr 0) bench_config)" "\<not> isl (Encode (\<lambda>_. Inr 0) bench_device)"
  by code_simp+

definition bench_encoding :: "descriptor \<Rightarrow> bytes" where
  "bench_encoding d = projr (Encode (\<lambda>_. Inr 0) d)"

lemma bench_plain_encodes:
  "g_Encode g bench_config = Inr (bench_encoding bench_config)"
  "g_Encode g bench_device = Inr (bench_encoding bench_device)"
proof -
  have "no_sets bench_config" "no_sets bench_device"
    by (simp_all add: bench_config_def bench_device_def register_def vendor_desc_def)
  note plain = this [THEN Encode_no_sets, of "descriptor_set_size g" "\<lambda>_. Inr 0"]
  show "g_Encode g bench_config = Inr (bench_encoding bench_config)"
    "g_Encode g bench_device = Inr (bench_encoding bench_device)"
    using bench_encodings by (simp_all add: g_Encode_def plain bench_encoding_def)
qed

lemma bench_Create:
  assumes "g_fs_config_desc g = bench_config" "g_hs_config_desc g = bench_config" "g_device_desc g = bench_device"
  shows "\<exists>h. Create bench_os g = (Inr (), h)"
  using assms
  by (simp add: Create_def open_control_file_def st_run seq_st_def bind_st_run on_hw_def os_call_def bench_os_def
      modify_st_def gets_st_def lift_res_def bench_plain_encodes pack_uint_def)

lemma bench_idle_configure: "\<exists>sv. configure bench_os EchoG (\<lambda>_. Inr bench_plain) bench_idle = (Inr 200, sv)"
proof -
  have fields: "g_fs_config_desc bench_plain = bench_config" "g_hs_config_desc bench_plain = bench_config"
    "g_device_desc bench_plain = bench_device" "\<not> c_gadget bench_chip"
    by (simp_all add: bench_plain_def as_usb_gadget_def gadget.extend_def Gadget_init_def bench_chip_def
        LinuxGadgetfs_init_def HARDWARE_def)
  obtain ss where add: "AddStringDescriptor 3 ''bench'' LANG (bench_plain\<lparr>g_hw := bench_chip\<rparr>) =
      (Inr (), bench_plain\<lparr>g_hw := bench_chip, g_strings := ss\<rparr>)"
    using AddStringDescriptor_run [of 3 "''bench''" "bench_plain\<lparr>g_hw := bench_chip\<rparr>"] by auto
  obtain h where "Create bench_os (bench_plain\<lparr>g_strings := ss, g_hw := bench_chip\<rparr>) = (Inr (), h)"
    using bench_Create [of "bench_plain\<lparr>g_strings := ss, g_hw := bench_chip\<rparr>"] fields by auto
  with add fields(4) show ?thesis
    by (simp add: configure_def bench_idle_def seq_st_def bind_st_run modify_st_def return_st_def
        SwitchGadget_def destroy_if_configured_def IsConfigured_def chip_Create_def on_object_def)
qed

theorem configure_activates_gadget_witness:
  "\<exists>sv. configure bench_os EchoG (\<lambda>_. Inr bench_plain) bench_idle = (Inr 200, sv) \<and> sv_gadget sv = Some 1 \<and>
     IsConfigured (sv_chip sv) \<and> map fst (sv_objects sv) = [DefaultG, EchoG]"
proof -
  have "sv_wf bench_idle"
    by (simp add: sv_wf_def bench_idle_def kind_at_def IsConfigured_def bench_chip_def LinuxGadgetfs_init_def HARDWARE_def)
  moreover from bench_idle_configure obtain sv where
    "configure bench_os EchoG (\<lambda>_. Inr bench_plain) bench_idle = (Inr 200, sv)" by blast
  ultimately show ?thesis using configure_activates_gadget by (fastforce simp: bench_idle_def)
qed

section \<open>Versions and updates\<close>

text \<open>The name of a package with a given hash.\<close>

definition package_name :: "string \<Rightarrow> string" where
  "package_name h = ''usb_gadget-'' @ h @ ''.zip''"

definition is_hash :: "string \<Rightarrow> bool" where
  "is_hash h \<longleftrightarrow> length h = 32 \<and> list_all is_hash_char h"

lemma hash_at_here:
  "is_hash h \<Longrightarrow> CHR 0x0A \<notin> set pre \<Longrightarrow> hash_at (pre @ package_name h) (length pre) = Some h"
  by (simp add: hash_at_def package_name_def is_hash_def Let_def)

lemma hash_at_later:
  assumes "is_hash h" and "length pre < n"
  shows "hash_at (pre @ package_name h) n = None"
proof (rule ccontr)
  let ?s = "pre @ package_name h"
  assume "hash_at ?s n \<noteq> None"
  then have u: "take 11 (drop n ?s) = ''usb_gadget-''" and z: "take 4 (drop 43 (drop n ?s)) = ''.zip''"
    by (auto simp: hash_at_def Let_def split: if_splits)
  have len: "length (package_name h) = 47" using assms(1) by (simp add: package_name_def is_hash_def)
  from z have "length (take 4 (drop 43 (drop n ?s))) = 4" by simp
  then have "n + 47 \<le> length pre + 47" using len by (simp add: min_def split: if_splits)
  with assms(2) show False by simp
qed

lemma map_filter_first:
  "f x = Some y \<Longrightarrow> (\<And>z. z \<in> set before \<Longrightarrow> f z = None) \<Longrightarrow> List.map_filter f (before @ x # rest) = y # List.map_filter f rest"
  by (induction before) (simp_all add: List.map_filter_def)

lemma VERSION_PATTERN_match_package:
  assumes "is_hash h" and "CHR 0x0A \<notin> set pre"
  shows "VERSION_PATTERN_match (pre @ package_name h) = Some h"
proof -
  let ?s = "pre @ package_name h"
  let ?k = "length pre"
  have "[0..<Suc (length ?s)] = [0..<?k] @ ?k # [Suc ?k..<Suc (length ?s)]"
    using upt_add_eq_append [of 0 ?k "Suc (length ?s) - ?k"] upt_conv_Cons [of ?k "Suc (length ?s)"] by simp
  then have "rev [0..<Suc (length ?s)] = rev [Suc ?k..<Suc (length ?s)] @ ?k # rev [0..<?k]"
    by (metis append.assoc append_Cons append_Nil rev.simps(2) rev_append)
  moreover have "List.map_filter (hash_at ?s) (rev [Suc ?k..<Suc (length ?s)] @ ?k # rev [0..<?k]) =
      h # List.map_filter (hash_at ?s) (rev [0..<?k])"
    using assms by (intro map_filter_first hash_at_here hash_at_later) auto
  ultimately show ?thesis unfolding VERSION_PATTERN_match_def by (simp only: list.case)
qed

text \<open>
  An update. When an uploaded package is accepted, its name carries the checksum of its content, it is
  stored under the name made of that checksum with the content as uploaded, and a server started from
  a path to the stored package reports the checksum as its version; the claim of the old server is
  handed on. An upload whose name has no checksum, or another one, is answered with 400.
\<close>

theorem update_roundtrip:
  assumes "is_hash (digest content)" and "CHR 0x0A \<notin> set dir"
  shows "case UpdateHandler_check digest filename content interface port hardware claimed_by of
      Inl status \<Rightarrow> status = 400 \<and> VERSION_PATTERN_match filename \<noteq> Some (digest content)
    | Inr (name, stored, args) \<Rightarrow>
        VERSION_PATTERN_match filename = Some (digest content) \<and> stored = content \<and>
        name = package_name (digest content) \<and> VersionHandler_get ((dir @ name) # path) = digest content \<and>
        args = [''/usr/bin/python'', name, ''--interface'', interface, ''--port'', port, ''--hardware'', hardware] @
          (case claimed_by of None \<Rightarrow> [] | Some c \<Rightarrow> [''--start-claimed'', c])"
  using VERSION_PATTERN_match_package [OF assms]
  by (auto simp: UpdateHandler_check_def VersionHandler_get_def List.map_filter_def package_name_def Let_def
      split: option.splits)

definition bench_md5 :: "bytes \<Rightarrow> string" where
  "bench_md5 content = replicate 32 CHR ''a''"

theorem update_roundtrip_witness:
  "\<exists>stored args. UpdateHandler_check bench_md5 (package_name (bench_md5 [1])) [1] ''eth0'' ''80'' ''beaglebone-black'' None =
     Inr (package_name (bench_md5 [1]), stored, args) \<and> stored = [1] \<and>
     VersionHandler_get [''/tmp/'' @ package_name (bench_md5 [1])] = bench_md5 [1]"
proof -
  have h: "is_hash (bench_md5 [1])" by (simp add: is_hash_def bench_md5_def is_hash_char_def list_all_iff)
  have d: "CHR 0x0A \<notin> set ''/tmp/''" by simp
  have "VERSION_PATTERN_match (package_name (bench_md5 [1])) = Some (bench_md5 [1])"
    using VERSION_PATTERN_match_package [OF h, of "[]"] by simp
  then obtain name stored args where r:
    "UpdateHandler_check bench_md5 (package_name (bench_md5 [1])) [1] ''eth0'' ''80'' ''beaglebone-black'' None =
       Inr (name, stored, args)"
    by (simp add: UpdateHandler_check_def Let_def)
  from update_roundtrip [where digest = bench_md5 and content = "[1]" and filename = "package_name (bench_md5 [1])"
      and interface = "''eth0''" and port = "''80''" and hardware = "''beaglebone-black''" and claimed_by = None
      and path = "[]", OF h d] r
  show ?thesis by auto
qed

end
