(* ===== verification/Py_Strings.thy ===== *)
theory Py_Strings
  imports Py_Prelude "HOL-Library.Sublist" "HOL-Library.List_Lexorder" "HOL-Library.Char_ord"
begin

text \<open>
  The string methods of the language that the build scripts call: \<^verbatim>\<open>replace\<close>,
  \<^verbatim>\<open>startswith\<close>, \<^verbatim>\<open>join\<close>, \<^verbatim>\<open>str\<close> and \<^verbatim>\<open>int\<close> on decimal
  numbers, and the character classes of byte strings. Strings compare by character code, as the
  library's lexicographic order does.
\<close>

section \<open>Searching and replacing\<close>

definition startswith :: "string \<Rightarrow> string \<Rightarrow> bool" where
  "startswith s p \<longleftrightarrow> take (length p) s = p"

lemma startswith_iff: "startswith s p \<longleftrightarrow> (\<exists>r. s = p @ r)"
  by (metis append_eq_conv_conj startswith_def)

text \<open>
  \<^verbatim>\<open>s.replace(old, new)\<close>: the occurrences are found from the left and do not overlap. An empty
  \<^verbatim>\<open>old\<close> occurs before every character and at the end.
\<close>

function (sequential) str_replace :: "string \<Rightarrow> string \<Rightarrow> string \<Rightarrow> string" where
  "str_replace [] new s = new @ concat (map (\<lambda>c. c # new) s)"
| "str_replace (o1 # os) new [] = []"
| "str_replace (o1 # os) new (c # s) =
     (if startswith (c # s) (o1 # os)
      then new @ str_replace (o1 # os) new (drop (length os) s)
      else c # str_replace (o1 # os) new s)"
  by pat_completeness auto
termination by (relation "measure (\<lambda>(_, _, s). length s)") auto

lemma str_replace_char: "str_replace [c] new s = concat (map (\<lambda>x. if x = c then new else [x]) s)"
  by (induction s) (auto simp: startswith_def)

lemma str_replace_absent: "old \<noteq> [] \<Longrightarrow> \<not> sublist old s \<Longrightarrow> str_replace old new s = s"
proof (induction old new s rule: str_replace.induct)
  case (3 o1 os new c s)
  from 3(4) have no: "\<not> startswith (c # s) (o1 # os)"
    unfolding startswith_iff prefix_def [symmetric] by (auto intro: prefix_imp_sublist)
  moreover have "\<not> sublist (o1 # os) s" using 3(4) by (auto dest: sublist_Cons_right [THEN iffD2, OF disjI2])
  ultimately show ?case using 3(2) by simp
qed auto

text \<open>\<^verbatim>\<open>sub in s\<close>.\<close>

fun str_contains :: "string \<Rightarrow> string \<Rightarrow> bool" where
  "str_contains sub [] \<longleftrightarrow> sub = []"
| "str_contains sub (c # s) \<longleftrightarrow> startswith (c # s) sub \<or> str_contains sub s"

lemma str_contains_iff: "str_contains sub s \<longleftrightarrow> sublist sub s"
  by (induction s) (auto simp: sublist_Cons_right startswith_iff prefix_def)

section \<open>Decimal numbers\<close>

definition is_digit :: "char \<Rightarrow> bool" where
  "is_digit c \<longleftrightarrow> (of_char c :: nat) \<in> {48..57}"

definition is_alpha :: "char \<Rightarrow> bool" where
  "is_alpha c \<longleftrightarrow> (of_char c :: nat) \<in> {65..90} \<union> {97..122}"

definition digit_char :: "nat \<Rightarrow> char" where
  "digit_char d = ''0123456789'' ! d"

definition digit_value :: "char \<Rightarrow> nat" where
  "digit_value c = of_char c - 48"

fun str_nat :: "nat \<Rightarrow> string" where
  "str_nat n = (if n < 10 then [digit_char n] else str_nat (n div 10) @ [digit_char (n mod 10)])"

declare str_nat.simps [simp del]

text \<open>\<^verbatim>\<open>str(i)\<close> for an integer.\<close>

definition str_int :: "int \<Rightarrow> string" where
  "str_int i = (if i < 0 then CHR ''-'' # str_nat (nat (- i)) else str_nat (nat i))"

definition nat_of_digits :: "string \<Rightarrow> nat" where
  "nat_of_digits s = foldl (\<lambda>n c. 10 * n + digit_value c) 0 s"

text \<open>\<^verbatim>\<open>int(s)\<close> where \<open>s\<close> is a sequence of digits, with an optional sign in front.\<close>

definition int_of_string :: "string \<Rightarrow> int" where
  "int_of_string s = (case s of [] \<Rightarrow> 0
     | c # r \<Rightarrow> if c = CHR ''-'' then - int (nat_of_digits r) else int (nat_of_digits s))"

lemma digit_char_props:
  assumes "d < 10"
  shows "is_digit (digit_char d)" and "digit_value (digit_char d) = d"
proof -
  have "\<forall>d \<in> set [0..<10]. is_digit (digit_char d) \<and> digit_value (digit_char d) = d"
    by (simp add: upt_rec is_digit_def digit_char_def digit_value_def less_eq_char_def)
  with assms show "is_digit (digit_char d)" and "digit_value (digit_char d) = d" by simp_all
qed

lemma str_nat_digits: "\<forall>c \<in> set (str_nat n). is_digit c"
proof (induction n rule: str_nat.induct)
  case (1 n)
  then show ?case by (subst str_nat.simps) (auto simp: digit_char_props)
qed

lemma str_nat_nonempty: "str_nat n \<noteq> []"
  by (subst str_nat.simps) simp

lemma nat_of_digits_str_nat [simp]: "nat_of_digits (str_nat n) = n"
proof (induction n rule: str_nat.induct)
  case (1 n)
  then show ?case
    by (subst str_nat.simps) (simp add: nat_of_digits_def digit_char_props)
qed

lemma minus_not_digit [simp]: "\<not> is_digit CHR ''-''"
  by (simp add: is_digit_def less_eq_char_def)

lemma str_nat_Cons:
  obtains c r where "str_nat n = c # r" and "is_digit c" and "c \<noteq> CHR ''-''" and "\<forall>x \<in> set r. is_digit x"
proof (cases "str_nat n")
  case (Cons c r)
  with str_nat_digits [of n] have d: "is_digit c" "\<forall>x \<in> set r. is_digit x" by auto
  from d(1) have "c \<noteq> CHR ''-''" by (metis minus_not_digit)
  with Cons d that show thesis by blast
qed (simp add: str_nat_nonempty)

lemma int_of_string_str_int [simp]: "int_of_string (str_int i) = i"
proof (cases "i < 0")
  case True
  then show ?thesis by (simp add: str_int_def int_of_string_def)
next
  case False
  obtain c r where cr: "str_nat (nat i) = c # r" "c \<noteq> CHR ''-''" by (rule str_nat_Cons)
  with False have "int_of_string (str_int i) = int (nat_of_digits (str_nat (nat i)))"
    by (simp add: str_int_def int_of_string_def)
  with False show ?thesis by simp
qed

section \<open>Joining\<close>

fun str_join :: "string \<Rightarrow> string list \<Rightarrow> string" where
  "str_join sep [] = []"
| "str_join sep [s] = s"
| "str_join sep (s # t # ts) = s @ sep @ str_join sep (t # ts)"

section \<open>White space\<close>

text \<open>White space of a byte string, for \<^verbatim>\<open>strip\<close>, \<^verbatim>\<open>rstrip\<close> and \<^verbatim>\<open>\s\<close>.\<close>

definition str_space :: "char \<Rightarrow> bool" where
  "str_space c \<longleftrightarrow> (of_char c :: nat) \<in> {9..13} \<union> {32}"

definition str_rstrip :: "string \<Rightarrow> string" where
  "str_rstrip s = rev (dropWhile str_space (rev s))"

definition str_strip :: "string \<Rightarrow> string" where
  "str_strip s = str_rstrip (dropWhile str_space s)"

lemma str_strip_empty: "str_strip s = [] \<longleftrightarrow> (\<forall>c \<in> set s. str_space c)"
proof
  assume "str_strip s = []"
  then have "\<forall>c \<in> set (dropWhile str_space s). str_space c" by (simp add: str_strip_def str_rstrip_def)
  then have "dropWhile str_space s = []" using hd_dropWhile [of str_space s] by (cases "dropWhile str_space s") auto
  then show "\<forall>c \<in> set s. str_space c" by simp
next
  assume "\<forall>c \<in> set s. str_space c"
  then show "str_strip s = []" by (auto simp: str_strip_def str_rstrip_def dest: set_dropWhileD)
qed

text \<open>\<^verbatim>\<open>'%-ns' % s\<close>.\<close>

definition pad_right :: "nat \<Rightarrow> string \<Rightarrow> string" where
  "pad_right n s = s @ replicate (n - length s) (CHR '' '')"

text \<open>\<^verbatim>\<open>int(s)\<close>: white space around, a sign, and digits.\<close>

definition py_int :: "string \<Rightarrow> int res" where
  "py_int s =
     (let t = str_strip s;
          neg = startswith t ''-'';
          ds = (if neg \<or> startswith t ''+'' then tl t else t) in
      if ds = [] \<or> \<not> list_all is_digit ds then Inl ValueError
      else Inr (if neg then - int (nat_of_digits ds) else int (nat_of_digits ds)))"

text \<open>\<^verbatim>\<open>repr(s)\<close>: quoted, by the double quote when that avoids an escape.\<close>

definition repr_char :: "char \<Rightarrow> char \<Rightarrow> string" where
  "repr_char quote c =
     (let n = of_char c :: nat in
      if c = quote \<or> n = 92 then [CHR 0x5C, c]
      else if n = 9 then [CHR 0x5C, CHR ''t'']
      else if n = 10 then [CHR 0x5C, CHR ''n'']
      else if n = 13 then [CHR 0x5C, CHR ''r'']
      else if n < 32 \<or> 127 \<le> n
      then [CHR 0x5C, CHR ''x'', ''0123456789abcdef'' ! (n div 16), ''0123456789abcdef'' ! (n mod 16)]
      else [c])"

definition py_repr :: "string \<Rightarrow> string" where
  "py_repr s =
     (let quote = (if CHR 0x27 \<in> set s \<and> CHR 0x22 \<notin> set s then CHR 0x22 else CHR 0x27)
      in quote # concat (map (repr_char quote) s) @ [quote])"

text \<open>\<^verbatim>\<open>s.endswith(e)\<close>.\<close>

definition endswith :: "string \<Rightarrow> string \<Rightarrow> bool" where
  "endswith s e \<longleftrightarrow> length e \<le> length s \<and> drop (length s - length e) s = e"

end
