(* ===== verification/Gn_Helpers.thy ===== *)
theory Gn_Helpers
  imports Py_Strings
begin

text \<open>
  \<^verbatim>\<open>build/gn_helpers.py\<close>: printing Python values as GN values and parsing them back. The
  parser is an object with an input and a cursor; its methods are functions from the object to a
  result and the object, and read the input by index as the code does. The mutual recursion of
  \<^verbatim>\<open>_ParseAllowTrailing\<close> and \<^verbatim>\<open>ParseList\<close> is total: the cursor only advances.
\<close>

section \<open>Values\<close>

text \<open>
  The Python values a caller may hand over. An integer that does not fit the machine word is a
  \<^verbatim>\<open>long\<close>, which is not an \<^verbatim>\<open>int\<close>; \<open>VOther\<close> is a value of any other type. A key of a
  dictionary is a number or a string; numbers sort before strings.
\<close>

datatype gn_key = KeyNum int | KeyStr string

fun key_less_eq :: "gn_key \<Rightarrow> gn_key \<Rightarrow> bool" where
  "key_less_eq (KeyNum i) (KeyNum j) \<longleftrightarrow> i \<le> j"
| "key_less_eq (KeyNum i) (KeyStr t) \<longleftrightarrow> True"
| "key_less_eq (KeyStr s) (KeyNum j) \<longleftrightarrow> False"
| "key_less_eq (KeyStr s) (KeyStr t) \<longleftrightarrow> s \<le> t"

instantiation gn_key :: linorder
begin

definition less_eq_gn_key :: "gn_key \<Rightarrow> gn_key \<Rightarrow> bool" where
  "less_eq_gn_key a b \<longleftrightarrow> key_less_eq a b"

definition less_gn_key :: "gn_key \<Rightarrow> gn_key \<Rightarrow> bool" where
  "less_gn_key a b \<longleftrightarrow> key_less_eq a b \<and> \<not> key_less_eq b a"

instance
proof
  fix a b c :: gn_key
  show "(a < b) = (a \<le> b \<and> \<not> b \<le> a)" by (simp add: less_eq_gn_key_def less_gn_key_def)
  show "a \<le> a" by (cases a) (simp_all add: less_eq_gn_key_def)
  show "a \<le> b \<Longrightarrow> b \<le> c \<Longrightarrow> a \<le> c"
    by (cases a; cases b; cases c) (auto simp: less_eq_gn_key_def)
  show "a \<le> b \<Longrightarrow> b \<le> a \<Longrightarrow> a = b"
    by (cases a; cases b) (auto simp: less_eq_gn_key_def)
  show "a \<le> b \<or> b \<le> a"
    by (cases a; cases b) (auto simp: less_eq_gn_key_def)
qed

end

datatype gn_value =
    VString string
  | VBool bool
  | VInt int
  | VList "gn_value list"
  | VDict "(gn_key \<times> gn_value) list"
  | VOther

section \<open>Printing\<close>

definition gn_quote :: "string \<Rightarrow> string" where
  "gn_quote s = [CHR 0x22]
     @ str_replace ''$'' (CHR 0x5C # ''$'')
         (str_replace [CHR 0x22] [CHR 0x5C, CHR 0x22]
           (str_replace [CHR 0x5C] [CHR 0x5C, CHR 0x5C] s))
     @ [CHR 0x22]"

text \<open>
  \<open>maxint\<close> is \<^verbatim>\<open>sys.maxint\<close>. A list prints its elements with the default of
  \<^verbatim>\<open>allow_dicts\<close>, a dictionary its values with \<^verbatim>\<open>False\<close>.
\<close>

function (sequential) ToGNString :: "int \<Rightarrow> gn_value \<Rightarrow> bool \<Rightarrow> string res" where
  "ToGNString maxint (VString s) allow_dicts =
     (if CHR 0x0A \<in> set s then Inl GNException else Inr (gn_quote s))"
| "ToGNString maxint (VBool b) allow_dicts = Inr (if b then ''true'' else ''false'')"
| "ToGNString maxint (VList vs) allow_dicts =
     bind_res (map_res (\<lambda>v. ToGNString maxint v True) vs)
       (\<lambda>ss. Inr (''[ '' @ str_join '', '' ss @ '' ]''))"
| "ToGNString maxint (VDict d) allow_dicts =
     (if \<not> allow_dicts then Inl GNException
      else bind_res (map_res (\<lambda>(key, v). case key of
               KeyNum _ \<Rightarrow> Inl GNException
             | KeyStr k \<Rightarrow> bind_res (ToGNString maxint v False)
                 (\<lambda>s. Inr (k @ '' = '' @ s @ [CHR 0x0A])))
             (sort_key fst d))
           (\<lambda>ls. Inr (concat ls)))"
| "ToGNString maxint (VInt i) allow_dicts =
     (if - maxint - 1 \<le> i \<and> i \<le> maxint then Inr (str_int i) else Inl GNException)"
| "ToGNString maxint VOther allow_dicts = Inl GNException"
  by pat_completeness auto

lemma size_dict_value: "(k, v) \<in> set d \<Longrightarrow> size v < Suc (size_list (size_prod size size) d)"
  by (induction d) auto

termination ToGNString
  by (relation "measure (\<lambda>(_, v, _). size v)")
    (auto simp: less_Suc_eq_le size_list_estimation' dest: size_dict_value)

section \<open>Unescaping\<close>

text \<open>A backslash at the end of the string adds nothing to the result.\<close>

fun UnescapeGNString :: "string \<Rightarrow> string" where
  "UnescapeGNString [] = []"
| "UnescapeGNString [c] = (if c = CHR 0x5C then [] else [c])"
| "UnescapeGNString (c # d # r) =
     (if c = CHR 0x5C
      then if d \<in> {CHR ''$'', CHR 0x22, CHR 0x5C} then d # UnescapeGNString r
           else CHR 0x5C # UnescapeGNString (d # r)
      else c # UnescapeGNString (d # r))"

definition IsDigitOrMinus :: "char \<Rightarrow> bool" where
  "IsDigitOrMinus c \<longleftrightarrow> c \<in> set ''-0123456789''"

section \<open>The parser\<close>

record gn_parser =
  input :: string
  cur :: nat

abbreviation GNValueParser :: "string \<Rightarrow> gn_parser" where
  "GNValueParser s \<equiv> \<lparr>input = s, cur = 0\<rparr>"

definition IsDone :: "gn_parser \<Rightarrow> bool" where
  "IsDone p \<longleftrightarrow> cur p = length (input p)"

text \<open>\<^verbatim>\<open>self.input[self.cur]\<close> and \<^verbatim>\<open>self.cur += 1\<close>.\<close>

definition char_at :: "gn_parser \<Rightarrow> char res" where
  "char_at p = (if cur p < length (input p) then Inr (input p ! cur p) else Inl IndexError)"

definition step_cur :: "gn_parser \<Rightarrow> gn_parser" where
  "step_cur p = p\<lparr>cur := cur p + 1\<rparr>"

lemma char_at_step: "char_at p = Inr c \<Longrightarrow> length (input (step_cur p)) - cur (step_cur p) < length (input p) - cur p"
  by (auto simp: char_at_def step_cur_def split: if_splits)

function ConsumeWhitespace :: "(gn_parser, unit) st" where
  "ConsumeWhitespace p =
     (if IsDone p then (Inr (), p)
      else case char_at p of
          Inl e \<Rightarrow> (Inl e, p)
        | Inr c \<Rightarrow>
            if c \<in> {CHR '' '', CHR 0x09, CHR 0x0A} then ConsumeWhitespace (step_cur p)
            else (Inr (), p))"
  by pat_completeness auto
termination
  by (relation "measure (\<lambda>p. length (input p) - cur p)") (auto dest: char_at_step)

declare ConsumeWhitespace.simps [simp del]

text \<open>The loops of \<^verbatim>\<open>ParseNumber\<close>, \<^verbatim>\<open>_ParseIdent\<close> and \<^verbatim>\<open>ParseString\<close>.\<close>

function skip_digits :: "(gn_parser, unit) st" where
  "skip_digits p =
     (if IsDone p then (Inr (), p)
      else case char_at p of
          Inl e \<Rightarrow> (Inl e, p)
        | Inr c \<Rightarrow> if is_digit c then skip_digits (step_cur p) else (Inr (), p))"
  by pat_completeness auto
termination
  by (relation "measure (\<lambda>p. length (input p) - cur p)") (auto dest: char_at_step)

declare skip_digits.simps [simp del]

function ident_loop :: "string \<Rightarrow> (gn_parser, string) st" where
  "ident_loop ident p =
     (case char_at p of
        Inl e \<Rightarrow> (Inl e, p)
      | Inr c \<Rightarrow>
          if is_alpha c \<or> is_digit c \<or> c = CHR ''_'' then ident_loop (ident @ [c]) (step_cur p)
          else (Inr ident, p))"
  by pat_completeness auto
termination
  by (relation "measure (\<lambda>(_, p). length (input p) - cur p)") (auto dest: char_at_step)

declare ident_loop.simps [simp del]

function string_loop :: "(gn_parser, unit) st" where
  "string_loop p =
     (if IsDone p then (Inr (), p)
      else case char_at p of
          Inl e \<Rightarrow> (Inl e, p)
        | Inr c \<Rightarrow>
            if c = CHR 0x22 then (Inr (), p)
            else if c = CHR 0x5C
            then let q = step_cur p in
              if IsDone q then (Inl GNException, q) else string_loop (step_cur q)
            else string_loop (step_cur p))"
  by pat_completeness auto
termination
  by (relation "measure (\<lambda>p. length (input p) - cur p)")
    (auto simp: char_at_def step_cur_def split: if_splits)

declare string_loop.simps [simp del]

definition ParseIdent :: "(gn_parser, string) st" where
  "ParseIdent p =
     (case char_at p of
        Inl e \<Rightarrow> (Inl e, p)
      | Inr c \<Rightarrow> if \<not> is_alpha c \<and> c \<noteq> CHR ''_'' then (Inl GNException, p)
                 else ident_loop [c] (step_cur p))"

text \<open>\<^verbatim>\<open>self.input[begin:self.cur]\<close>.\<close>

definition slice_input :: "nat \<Rightarrow> gn_parser \<Rightarrow> string" where
  "slice_input b p = take (cur p - b) (drop b (input p))"

definition ParseNumber :: "(gn_parser, int) st" where
  "ParseNumber =
     seq_st ConsumeWhitespace
       (bind_st (gets_st IsDone) (\<lambda>d. if d then raise_st GNException else
         bind_st (gets_st cur) (\<lambda>b.
           bind_st (\<lambda>p. (char_at p, p)) (\<lambda>c.
             seq_st (if IsDigitOrMinus c then modify_st step_cur else return_st ())
               (seq_st skip_digits
                 (bind_st (gets_st (slice_input b)) (\<lambda>number_string.
                   if number_string = [] \<or> number_string = ''-'' then raise_st GNException
                   else return_st (int_of_string number_string))))))))"

definition ParseString :: "(gn_parser, string) st" where
  "ParseString =
     seq_st ConsumeWhitespace
       (bind_st (gets_st IsDone) (\<lambda>d. if d then raise_st GNException else
         bind_st (\<lambda>p. (char_at p, p)) (\<lambda>c.
           if c \<noteq> CHR 0x22 then raise_st GNException
           else seq_st (modify_st step_cur)
             (bind_st (gets_st cur) (\<lambda>b.
               seq_st string_loop
                 (bind_st (gets_st IsDone) (\<lambda>d. if d then raise_st GNException
                   else bind_st (gets_st (slice_input b)) (\<lambda>body.
                     seq_st (modify_st step_cur) (return_st (UnescapeGNString body))))))))))"

definition ConstantFollows :: "string \<Rightarrow> (gn_parser, bool) st" where
  "ConstantFollows constant p =
     (let stop = cur p + length constant in
      if length (input p) < stop then (Inr False, p)
      else if take (length constant) (drop (cur p) (input p)) = constant
      then (Inr True, p\<lparr>cur := stop\<rparr>)
      else (Inr False, p))"


section \<open>The cursor only advances\<close>

definition advances :: "gn_parser \<Rightarrow> gn_parser \<Rightarrow> bool" where
  "advances p q \<longleftrightarrow> input q = input p \<and> cur p \<le> cur q"

lemma advances_refl [simp]: "advances p p"
  by (simp add: advances_def)

lemma advances_trans: "advances p q \<Longrightarrow> advances q r \<Longrightarrow> advances p r"
  by (simp add: advances_def)

lemma advances_step [simp]: "advances p (step_cur p)" "cur (step_cur p) = Suc (cur p)" "input (step_cur p) = input p"
  by (simp_all add: advances_def step_cur_def)

lemma advances_stepD: "advances (step_cur p) q \<Longrightarrow> advances p q"
  by (simp add: advances_def)

lemma advances_ConsumeWhitespace: "advances p (snd (ConsumeWhitespace p))"
proof (induction p rule: ConsumeWhitespace.induct)
  case (1 p)
  then show ?case
    by (subst ConsumeWhitespace.simps) (auto split: sum.split intro: advances_stepD)
qed

lemma advances_skip_digits: "advances p (snd (skip_digits p))"
proof (induction p rule: skip_digits.induct)
  case (1 p)
  then show ?case by (subst skip_digits.simps) (auto split: sum.split intro: advances_stepD)
qed

lemma advances_string_loop: "advances p (snd (string_loop p))"
proof (induction p rule: string_loop.induct)
  case (1 p)
  then show ?case
    by (subst string_loop.simps)
      (auto simp: Let_def split: sum.split
        intro: advances_stepD [of p "snd (string_loop (step_cur p))"]
          advances_stepD [OF advances_stepD [of "step_cur p" "snd (string_loop (step_cur (step_cur p)))"]])
qed

lemma advances_ident_loop: "advances p (snd (ident_loop ident p))"
proof (induction ident p rule: ident_loop.induct)
  case (1 ident p)
  then show ?case by (subst ident_loop.simps) (auto split: sum.split intro: advances_stepD)
qed

lemma advancesD:
  "ConsumeWhitespace p = (r, q) \<Longrightarrow> advances p q"
  "skip_digits p = (r, q) \<Longrightarrow> advances p q"
  "string_loop p = (r, q) \<Longrightarrow> advances p q"
  by (metis advances_ConsumeWhitespace advances_skip_digits advances_string_loop snd_conv)+

text \<open>After a successful call the cursor has moved: the method has read at least one character.\<close>

definition moves :: "gn_parser \<Rightarrow> gn_parser \<Rightarrow> bool" where
  "moves p q \<longleftrightarrow> input q = input p \<and> cur p < cur q \<and> cur q \<le> length (input q)"


lemma char_at_moves: "char_at p = Inr c \<Longrightarrow> moves p (step_cur p)"
  by (auto simp: char_at_def moves_def split: if_splits)

lemma moves_advances: "moves p q \<Longrightarrow> advances p q"
  by (simp add: moves_def advances_def)

lemma advances_moves: "advances p q \<Longrightarrow> moves q r \<Longrightarrow> moves p r"
  by (auto simp: advances_def moves_def)

lemma within_step: "char_at p = Inr c \<Longrightarrow> Suc (cur p) \<le> length (input p)"
  by (auto simp: char_at_def split: if_splits)

lemma IsDone_or_char_at: "cur p \<le> length (input p) \<Longrightarrow> IsDone p \<or> (\<exists>c. char_at p = Inr c)"
  by (auto simp: IsDone_def char_at_def)

lemma within_skip_digits:
  "cur p \<le> length (input p) \<Longrightarrow> \<exists>q. skip_digits p = (Inr (), q) \<and> cur q \<le> length (input q)"
proof (induction p rule: skip_digits.induct)
  case (1 p)
  from IsDone_or_char_at [OF 1(2)] show ?case
    by (subst skip_digits.simps) (use 1 in \<open>auto simp: char_at_def Suc_le_eq split: if_splits\<close>)
qed

lemma moves_ParseNumber:
  assumes "ParseNumber p = (Inr i, q)"
  shows "moves p q"
proof -
  from assms obtain r c t where w: "ConsumeWhitespace p = (Inr (), r)"
    and c: "char_at r = Inr c"
    and t: "skip_digits (if IsDigitOrMinus c then step_cur r else r) = (Inr (), t)"
    and q: "q = t" "slice_input (cur r) q \<noteq> []"
    by (auto simp: ParseNumber_def py_defs split: if_splits prod.splits sum.splits)
  define s where "s = (if IsDigitOrMinus c then step_cur r else r)"
  have "cur s \<le> length (input s)" using c within_step [OF c] by (auto simp: s_def char_at_def split: if_splits)
  from within_skip_digits [OF this] t have "cur q \<le> length (input q)" by (auto simp: s_def q)
  moreover have "advances r q" using advancesD(2) [OF t] by (auto simp: q s_def dest: advances_stepD split: if_splits)
  moreover have "cur r < cur q" using q(2) by (auto simp: slice_input_def)
  ultimately have "moves r q" by (simp add: moves_def advances_def)
  with advancesD(1) [OF w] show ?thesis by (rule advances_moves)
qed

lemma string_loop_stop: "string_loop p = (Inr (), t) \<Longrightarrow> IsDone t \<or> char_at t = Inr (CHR 0x22)"
proof (induction p rule: string_loop.induct)
  case (1 p)
  from 1(3) show ?case
    by (subst (asm) string_loop.simps) (auto simp: Let_def split: sum.splits if_splits dest: 1(1,2))
qed

lemma moves_ParseString:
  assumes "ParseString p = (Inr s, q)"
  shows "moves p q"
proof -
  from assms obtain r c t where w: "ConsumeWhitespace p = (Inr (), r)"
    and c: "char_at r = Inr c"
    and t: "string_loop (step_cur r) = (Inr (), t)" "\<not> IsDone t" "q = step_cur t"
    by (auto simp: ParseString_def py_defs split: if_splits prod.splits sum.splits)
  have "advances r t" using advancesD(3) [OF t(1)] by (rule advances_stepD)
  moreover have "char_at t = Inr (CHR 0x22)" using string_loop_stop t by blast
  ultimately have "moves r q" unfolding t(3) by (intro advances_moves [OF _ char_at_moves])
  with advancesD(1) [OF w] show ?thesis by (rule advances_moves)
qed

lemma moves_ConstantFollows:
  "ConstantFollows constant p = (Inr True, q) \<Longrightarrow> constant \<noteq> [] \<Longrightarrow> moves p q"
  by (cases p) (auto simp: ConstantFollows_def moves_def Let_def split: if_splits)

lemma moves_calls:
  "fst (ParseNumber p) = Inr i \<Longrightarrow> moves p (snd (ParseNumber p))"
  "fst (ParseString p) = Inr s \<Longrightarrow> moves p (snd (ParseString p))"
  "fst (ConstantFollows ''true'' p) = Inr True \<Longrightarrow> moves p (snd (ConstantFollows ''true'' p))"
  "fst (ConstantFollows ''false'' p) = Inr True \<Longrightarrow> moves p (snd (ConstantFollows ''false'' p))"
  by (auto simp: prod_eq_iff intro: moves_ParseNumber moves_ParseString moves_ConstantFollows)

section \<open>Values and lists\<close>

definition as_value :: "('a \<Rightarrow> gn_value) \<Rightarrow> 'a res \<times> gn_parser \<Rightarrow> gn_value res \<times> gn_parser" where
  "as_value f r = (map_sum id f (fst r), snd r)"

text \<open>\<open>list_loop\<close> is the loop of \<^verbatim>\<open>ParseList\<close>.\<close>

function (sequential)
      ParseAllowTrailing :: "(gn_parser, gn_value) st"
  and ParseList :: "(gn_parser, gn_value list) st"
  and list_loop :: "gn_value list \<Rightarrow> bool \<Rightarrow> (gn_parser, gn_value list) st" where
  "ParseAllowTrailing p =
     (case ConsumeWhitespace p of
        (Inl e, q) \<Rightarrow> (Inl e, q)
      | (Inr _, q) \<Rightarrow>
          if IsDone q then (Inl GNException, q)
          else case char_at q of
              Inl e \<Rightarrow> (Inl e, q)
            | Inr next_char \<Rightarrow>
                if next_char = CHR ''['' then as_value VList (ParseList q)
                else if IsDigitOrMinus next_char then as_value VInt (ParseNumber q)
                else if next_char = CHR 0x22 then as_value VString (ParseString q)
                else if fst (ConstantFollows ''true'' q) = Inr True
                then (Inr (VBool True), snd (ConstantFollows ''true'' q))
                else if fst (ConstantFollows ''false'' q) = Inr True
                then (Inr (VBool False), snd (ConstantFollows ''false'' q))
                else (Inl GNException, q))"
| "ParseList p =
     (case ConsumeWhitespace p of
        (Inl e, q) \<Rightarrow> (Inl e, q)
      | (Inr _, q) \<Rightarrow>
          if IsDone q then (Inl GNException, q)
          else case char_at q of
              Inl e \<Rightarrow> (Inl e, q)
            | Inr c \<Rightarrow>
                if c \<noteq> CHR ''['' then (Inl GNException, q)
                else case ConsumeWhitespace (step_cur q) of
                    (Inl e, r) \<Rightarrow> (Inl e, r)
                  | (Inr _, r) \<Rightarrow>
                      if IsDone r then (Inl GNException, r) else list_loop [] True r)"
| "list_loop list_result comma p =
     (if IsDone p then (Inl GNException, p)
      else case char_at p of
          Inl e \<Rightarrow> (Inl e, p)
        | Inr c \<Rightarrow>
            if c = CHR '']'' then (Inr list_result, step_cur p)
            else if \<not> comma then (Inl GNException, p)
            else case ParseAllowTrailing p of
                (Inl e, q) \<Rightarrow> (Inl e, q)
              | (Inr v, q) \<Rightarrow>
                  (case ConsumeWhitespace q of
                     (Inl e, r) \<Rightarrow> (Inl e, r)
                   | (Inr _, r) \<Rightarrow>
                       if IsDone r then (Inl GNException, r)
                       else case char_at r of
                           Inl e \<Rightarrow> (Inl e, r)
                         | Inr d \<Rightarrow>
                             if d = CHR '',''
                             then (case ConsumeWhitespace (step_cur r) of
                                     (Inl e, s) \<Rightarrow> (Inl e, s)
                                   | (Inr _, s) \<Rightarrow> list_loop (list_result @ [v]) True s)
                             else list_loop (list_result @ [v]) False r))"
  by pat_completeness auto

text \<open>Every successful call moves the cursor, so the recursion ends.\<close>

lemma moves_partial:
  "ParseAllowTrailing_ParseList_list_loop_dom (Inl p) \<Longrightarrow> ParseAllowTrailing p = (Inr v, q) \<Longrightarrow> moves p q"
  "ParseAllowTrailing_ParseList_list_loop_dom (Inr (Inl p)) \<Longrightarrow> ParseList p = (Inr vs, q) \<Longrightarrow> moves p q"
  "ParseAllowTrailing_ParseList_list_loop_dom (Inr (Inr (acc, comma, p))) \<Longrightarrow>
     list_loop acc comma p = (Inr vs, q) \<Longrightarrow> moves p q"
proof (induction p and p and acc comma p arbitrary: q v and q vs and q vs
    rule: ParseAllowTrailing_ParseList_list_loop.pinduct)
  case (1 p)
  from 1(3) obtain r where w: "ConsumeWhitespace p = (Inr (), r)"
    by (auto simp: ParseAllowTrailing.psimps [OF 1(1)] split: prod.splits sum.splits)
  have list: "moves r (snd (ParseList r))"
    if "\<not> IsDone r" "char_at r = Inr (CHR ''['')" "fst (ParseList r) = Inr vs" for vs
    using that by (intro 1(2) [OF w [symmetric] refl, of "CHR ''[''" vs]) (simp_all add: prod_eq_iff)
  have "moves r q"
    using 1(3) unfolding ParseAllowTrailing.psimps [OF 1(1)] w
    by (auto simp: as_value_def map_sum_def split: if_splits sum.splits intro: moves_calls list)
  with advancesD(1) [OF w] show ?case by (rule advances_moves)
next
  case (2 p)
  from 2(3) obtain r c s where w: "ConsumeWhitespace p = (Inr (), r)"
    and d: "\<not> IsDone r" "char_at r = Inr c" "\<not> c \<noteq> CHR ''[''"
      "ConsumeWhitespace (step_cur r) = (Inr (), s)" "\<not> IsDone s"
    and l: "list_loop [] True s = (Inr vs, q)"
    by (auto simp: ParseList.psimps [OF 2(1)] split: prod.splits sum.splits if_splits)
  have s: "moves s q" using 2(2) [OF w [symmetric] refl d(1,2,3) d(4) [symmetric] refl d(5) l] .
  have "advances p s"
    using advancesD(1) [OF w] advancesD(1) [OF d(4)] by (auto simp: advances_def)
  from this s show ?case by (rule advances_moves)
next
  case (3 acc comma p)
  show ?case
  proof (cases "\<not> IsDone p \<and> char_at p = Inr (CHR '']'')")
    case True
    with 3(5) show ?thesis
      by (auto simp: list_loop.psimps [OF 3(1)] intro: char_at_moves)
  next
    case False
    with 3(5) obtain c v t r d where
      c: "\<not> IsDone p" "char_at p = Inr c" "c \<noteq> CHR '']''" "\<not> \<not> comma"
      and v: "ParseAllowTrailing p = (Inr v, t)"
      and w: "ConsumeWhitespace t = (Inr (), r)"
      and d: "\<not> IsDone r" "char_at r = Inr d"
      and n: "(case d = CHR '','' of
          True \<Rightarrow> (case ConsumeWhitespace (step_cur r) of (Inl e, s) \<Rightarrow> (Inl e, s)
                      | (Inr _, s) \<Rightarrow> list_loop (acc @ [v]) True s)
        | False \<Rightarrow> list_loop (acc @ [v]) False r) = (Inr vs, q)"
      by (auto simp: list_loop.psimps [OF 3(1)] split: prod.splits sum.splits if_splits)
    have "moves p t" using 3(2) [OF c v] .
    then have r: "advances p r" using advancesD(1) [OF w] by (auto simp: moves_def advances_def)
    show ?thesis
    proof (cases "d = CHR '',''")
      case True
      with n obtain s where s: "ConsumeWhitespace (step_cur r) = (Inr (), s)"
        and l: "list_loop (acc @ [v]) True s = (Inr vs, q)"
        by (auto split: prod.splits sum.splits)
      have "moves s q" using 3(3) [OF c v [symmetric] refl w [symmetric] refl d True s [symmetric] refl l] .
      moreover have "advances p s" using r advancesD(1) [OF s] by (auto simp: advances_def)
      ultimately show ?thesis by (rule advances_moves [rotated])
    next
      case False
      with n have l: "list_loop (acc @ [v]) False r = (Inr vs, q)" by simp
      from r 3(4) [OF c v [symmetric] refl w [symmetric] refl d False l] show ?thesis
        by (rule advances_moves)
    qed
  qed
qed

abbreviation remaining :: "gn_parser \<Rightarrow> nat" where
  "remaining p \<equiv> length (input p) - cur p"

lemma remaining_advances: "advances p q \<Longrightarrow> remaining q \<le> remaining p"
  by (simp add: advances_def diff_le_mono2)

lemma remaining_ConsumeWhitespace: "(r, q) = ConsumeWhitespace p \<Longrightarrow> remaining q \<le> remaining p"
  using advancesD(1) [of p r q] by (simp add: remaining_advances)

lemma remaining_step:
  "char_at p = Inr c \<Longrightarrow> (r, q) = ConsumeWhitespace (step_cur p) \<Longrightarrow> remaining q < remaining p"
  using char_at_step [of p c] remaining_ConsumeWhitespace [of r q "step_cur p"] by linarith

lemma remaining_ParseAllowTrailing:
  "ParseAllowTrailing_ParseList_list_loop_dom (Inl p) \<Longrightarrow> (Inr v, q) = ParseAllowTrailing p \<Longrightarrow>
     remaining q < remaining p"
  using moves_partial(1) [of p v q] by (auto simp: moves_def)

lemma parser_total: "All ParseAllowTrailing_ParseList_list_loop_dom"
proof (relation "measure (\<lambda>x. case x of
        Inl p \<Rightarrow> 3 * remaining p + 1
      | Inr (Inl p) \<Rightarrow> 3 * remaining p
      | Inr (Inr (_, _, p)) \<Rightarrow> 3 * remaining p + 2)", goal_cases)
  case (2 p x q)
  then show ?case using remaining_ConsumeWhitespace [of x q p] by simp
next
  case (3 p x q b c y s)
  then show ?case
    using remaining_ConsumeWhitespace [of x q p] remaining_step [of q c y s] by simp
next
  case (5 acc comma p b x q v y r u c z s)
  then show ?case
    using remaining_ParseAllowTrailing [of p v q] remaining_ConsumeWhitespace [of y r q]
      remaining_step [of r c z s] by simp
next
  case (6 acc comma p b x q v y r)
  then show ?case
    using remaining_ParseAllowTrailing [of p v q] remaining_ConsumeWhitespace [of y r q] by simp
qed simp_all

termination ParseAllowTrailing by (rule parser_total)

declare ParseAllowTrailing.simps [simp del] ParseList.simps [simp del] list_loop.simps [simp del]

lemmas moves_parser = moves_partial [OF parser_total [THEN spec]]

section \<open>Whole inputs\<close>

definition Parse :: "(gn_parser, gn_value) st" where
  "Parse =
     bind_st ParseAllowTrailing (\<lambda>result.
       seq_st ConsumeWhitespace
         (bind_st (gets_st IsDone) (\<lambda>d. if \<not> d then raise_st GNException else return_st result)))"

lemma bind_st_cong [fundef_cong]:
  "m s = m' s' \<Longrightarrow> (\<And>x t. m' s' = (Inr x, t) \<Longrightarrow> f x t = f' x t) \<Longrightarrow> bind_st m f s = bind_st m' f' s'"
  by (auto simp: bind_st_run split: prod.splits sum.splits)

text \<open>\<open>args_loop\<close> is the loop of \<^verbatim>\<open>ParseArgs\<close>.\<close>

function args_loop :: "(string \<times> gn_value) list \<Rightarrow> (gn_parser, (string \<times> gn_value) list) st" where
  "args_loop d p =
     (if IsDone p then (Inr d, p)
      else bind_st ParseIdent (\<lambda>ident.
        bind_st ConsumeWhitespace (\<lambda>_.
          bind_st (\<lambda>p. (char_at p, p)) (\<lambda>c q.
            if c \<noteq> CHR ''='' then (Inl GNException, q)
            else bind_st (modify_st step_cur) (\<lambda>_.
              bind_st ConsumeWhitespace (\<lambda>_.
                bind_st ParseAllowTrailing (\<lambda>val.
                  bind_st ConsumeWhitespace (\<lambda>_.
                    args_loop (dict_set ident val d))))) q))) p)"
  by pat_completeness auto

lemma advances_ParseIdent: "advances p (snd (ParseIdent p))"
  by (auto simp: ParseIdent_def split: sum.splits intro: advances_ident_loop advances_stepD)

lemma remaining_ParseIdent: "ParseIdent p = (r, q) \<Longrightarrow> remaining q \<le> remaining p"
  using advances_ParseIdent [of p] by (simp add: remaining_advances)

termination args_loop
proof (relation "measure (\<lambda>(_, p). remaining p)", goal_cases)
  case (2 d p x q xa r c s xb t xc u v w xd y)
  have "remaining r \<le> remaining p"
    using remaining_ParseIdent [OF 2(2)] remaining_ConsumeWhitespace [OF 2(3) [symmetric]] by simp
  moreover have "remaining u \<le> remaining r"
    using 2(4,6) remaining_ConsumeWhitespace [OF 2(7) [symmetric]] by (auto simp: py_defs)
  moreover have "remaining w < remaining u" using moves_parser(1) [OF 2(8)] by (auto simp: moves_def)
  ultimately show ?case using remaining_ConsumeWhitespace [OF 2(9) [symmetric]] by simp
qed simp

declare args_loop.simps [simp del]

definition ParseArgs :: "(gn_parser, (string \<times> gn_value) list) st" where
  "ParseArgs = seq_st ConsumeWhitespace (args_loop [])"

definition FromGNString :: "string \<Rightarrow> gn_value res" where
  "FromGNString s = fst (Parse (GNValueParser s))"

definition FromGNArgs :: "string \<Rightarrow> (string \<times> gn_value) list res" where
  "FromGNArgs s = fst (ParseArgs (GNValueParser s))"

end
