(* ===== verification/Gn_Roundtrip.thy ===== *)
theory Gn_Roundtrip
  imports Gn_Helpers
begin

text \<open>
  What the parser of GN values makes of what the printer wrote. The cursor is read through the
  text that remains, \<open>rest\<close>; \<open>reads v s\<close> says that the parser takes exactly \<open>s\<close> from the front
  of the remaining text and returns \<open>v\<close>.
\<close>

section \<open>The remaining text\<close>

definition rest :: "gn_parser \<Rightarrow> string" where
  "rest p = drop (cur p) (input p)"

definition skip :: "nat \<Rightarrow> gn_parser \<Rightarrow> gn_parser" where
  "skip n p = p\<lparr>cur := cur p + n\<rparr>"

lemma skip_simps [simp]:
  "rest (skip n p) = drop n (rest p)"
  "skip m (skip n p) = skip (n + m) p"
  "skip 0 p = p"
  "input (skip n p) = input p" "cur (skip n p) = cur p + n"
  by (simp_all add: rest_def skip_def add.commute add.assoc)

lemma step_cur_skip: "step_cur = skip 1"
  by (auto simp: step_cur_def skip_def)

lemma char_at_rest: "char_at p = (case rest p of [] \<Rightarrow> Inl IndexError | c # _ \<Rightarrow> Inr c)"
  by (cases "cur p < length (input p)") (auto simp: char_at_def rest_def Cons_nth_drop_Suc [symmetric])

lemma rest_not_done [simp]: "rest p = c # r \<Longrightarrow> \<not> IsDone p"
  by (auto simp: rest_def IsDone_def)

lemma char_at_Cons [simp]: "rest p = c # r \<Longrightarrow> char_at p = Inr c"
  by (simp add: char_at_rest)

lemma rest_empty: "rest p = [] \<Longrightarrow> cur p \<le> length (input p) \<Longrightarrow> IsDone p"
  by (simp add: rest_def IsDone_def)

lemma rest_within: "rest p = s @ t \<Longrightarrow> cur p \<le> length (input p) \<Longrightarrow> cur p + length s \<le> length (input p)"
  by (auto simp: rest_def dest!: arg_cong [where f = length])

lemma rest_Cons_within: "rest p = c # r \<Longrightarrow> cur p < length (input p)"
  by (cases "cur p < length (input p)") (auto simp: rest_def)

lemma rest_GNValueParser [simp]: "rest (GNValueParser s) = s"
  by (simp add: rest_def)

section \<open>White space and digits\<close>

abbreviation gn_space :: "char \<Rightarrow> bool" where
  "gn_space c \<equiv> c \<in> {CHR '' '', CHR 0x09, CHR 0x0A}"

lemma ConsumeWhitespace_stop: "rest p = c # r \<Longrightarrow> \<not> gn_space c \<Longrightarrow> ConsumeWhitespace p = (Inr (), p)"
  by (subst ConsumeWhitespace.simps) simp

lemma ConsumeWhitespace_space:
  "rest p = c # r \<Longrightarrow> gn_space c \<Longrightarrow> ConsumeWhitespace p = ConsumeWhitespace (skip 1 p)"
  by (subst ConsumeWhitespace.simps) (simp add: step_cur_skip)

lemma ConsumeWhitespace_done: "IsDone p \<Longrightarrow> ConsumeWhitespace p = (Inr (), p)"
  by (subst ConsumeWhitespace.simps) simp

lemma skip_digits_rest:
  "rest p = ds @ post \<Longrightarrow> \<forall>c \<in> set ds. is_digit c \<Longrightarrow> cur p \<le> length (input p) \<Longrightarrow>
     (post = [] \<or> \<not> is_digit (hd post)) \<Longrightarrow> skip_digits p = (Inr (), skip (length ds) p)"
proof (induction ds arbitrary: p)
  case Nil
  then show ?case by (cases post; subst skip_digits.simps) (auto dest: rest_empty)
next
  case (Cons c ds)
  have "skip_digits (skip 1 p) = (Inr (), skip (length ds) (skip 1 p))"
    using Cons.prems rest_within [of p "[c]" "ds @ post"] by (intro Cons.IH) auto
  with Cons.prems show ?case by (subst skip_digits.simps) (simp add: step_cur_skip)
qed

section \<open>Strings\<close>

definition gn_escape :: "string \<Rightarrow> string" where
  "gn_escape s = concat (map (\<lambda>c. if c \<in> {CHR 0x5C, CHR 0x22, CHR ''$''} then [CHR 0x5C, c] else [c]) s)"

lemma gn_quote_escape: "gn_quote s = [CHR 0x22] @ gn_escape s @ [CHR 0x22]"
  unfolding gn_quote_def gn_escape_def str_replace_char by (induction s) auto

lemma gn_escape_Cons:
  "gn_escape (c # s) = (if c \<in> {CHR 0x5C, CHR 0x22, CHR ''$''} then CHR 0x5C # c # gn_escape s else c # gn_escape s)"
  by (simp add: gn_escape_def)

lemma UnescapeGNString_Cons:
  "c \<noteq> CHR 0x5C \<Longrightarrow> UnescapeGNString (c # s) = c # UnescapeGNString s"
  by (cases s) simp_all

lemma Unescape_escape: "UnescapeGNString (gn_escape s) = s"
proof (induction s)
  case (Cons c s)
  then show ?case by (auto simp: gn_escape_Cons UnescapeGNString_Cons)
qed (simp add: gn_escape_def)

lemma string_loop_rest:
  "rest p = gn_escape s @ CHR 0x22 # post \<Longrightarrow> string_loop p = (Inr (), skip (length (gn_escape s)) p)"
proof (induction s arbitrary: p)
  case Nil
  then show ?case by (subst string_loop.simps) (simp add: gn_escape_def)
next
  case (Cons c s)
  show ?case
  proof (cases "c \<in> {CHR 0x5C, CHR 0x22, CHR ''$''}")
    case True
    with Cons.prems have r: "rest p = CHR 0x5C # c # gn_escape s @ CHR 0x22 # post"
      by (simp add: gn_escape_Cons)
    then have "\<not> IsDone (skip 1 p)" by (intro rest_not_done [of _ c]) simp
    with True r Cons.IH [of "skip 2 p"] show ?thesis
      by (subst string_loop.simps) (auto simp: step_cur_skip gn_escape_Cons numeral_2_eq_2)
  next
    case False
    with Cons.prems Cons.IH [of "skip 1 p"] show ?thesis
      by (subst string_loop.simps) (auto simp: step_cur_skip gn_escape_Cons)
  qed
qed

lemma ParseString_rest:
  assumes "rest p = gn_quote s @ post"
  shows "ParseString p = (Inr s, skip (length (gn_quote s)) p)"
proof -
  have r: "rest p = CHR 0x22 # gn_escape s @ CHR 0x22 # post" using assms by (simp add: gn_quote_escape)
  have l: "string_loop (skip 1 p) = (Inr (), skip (length (gn_escape s)) (skip 1 p))"
    using r by (intro string_loop_rest [where post = post]) simp
  have d: "\<not> IsDone (skip (Suc (length (gn_escape s))) p)"
    using r by (intro rest_not_done [of _ "CHR 0x22" post]) simp
  have b: "slice_input (Suc (cur p)) (skip (Suc (length (gn_escape s))) p) = gn_escape s"
    using r by (simp add: slice_input_def rest_def drop_Suc drop_tl [symmetric] tl_drop [symmetric])
  show ?thesis
    using r l d b ConsumeWhitespace_stop [OF r]
    by (simp add: ParseString_def py_defs step_cur_skip Unescape_escape gn_quote_escape)
qed

section \<open>Numbers\<close>

lemma IsDigitOrMinus_iff: "IsDigitOrMinus c \<longleftrightarrow> is_digit c \<or> c = CHR ''-''"
proof -
  have "is_digit c \<longleftrightarrow> of_char c \<in> set [48..<58]"
    unfolding set_upt atLeastLessThan_iff is_digit_def less_eq_char_def by auto
  also have "[48..<58] = (map of_char ''0123456789'' :: nat list)" by (simp add: upt_rec)
  also have "of_char c \<in> set (map of_char ''0123456789'' :: nat list) \<longleftrightarrow> c \<in> set ''0123456789''" by (simp only: set_map image_iff of_char_eq_iff) blast
  finally show ?thesis by (auto simp: IsDigitOrMinus_def)
qed

lemma str_int_Cons:
  obtains c ds where "str_int i = c # ds" and "IsDigitOrMinus c" and "\<forall>d \<in> set ds. is_digit d"
    and "str_int i \<noteq> ''-''"
proof (cases "i < 0")
  case True
  have "str_nat (nat (- i)) \<noteq> []" by (rule str_nat_nonempty)
  with True that [of "CHR ''-''" "str_nat (nat (- i))"] str_nat_digits show thesis
    by (simp add: str_int_def IsDigitOrMinus_iff)
next
  case False
  obtain c r where "str_nat (nat i) = c # r" "is_digit c" "c \<noteq> CHR ''-''" "\<forall>x \<in> set r. is_digit x"
    by (rule str_nat_Cons)
  with False that [of c r] show thesis by (simp add: str_int_def IsDigitOrMinus_iff)
qed

lemma digit_not_space: "IsDigitOrMinus c \<Longrightarrow> \<not> gn_space c \<and> c \<noteq> CHR '']'' \<and> c \<noteq> CHR ''[''"
  by (auto simp: IsDigitOrMinus_def)

lemma ParseNumber_rest:
  assumes "rest p = str_int i @ post" and "post = [] \<or> \<not> is_digit (hd post)"
  shows "ParseNumber p = (Inr i, skip (length (str_int i)) p)"
proof -
  obtain c ds where s: "str_int i = c # ds" "IsDigitOrMinus c" "\<forall>d \<in> set ds. is_digit d" "str_int i \<noteq> ''-''"
    by (rule str_int_Cons)
  with assms have r: "rest p = c # ds @ post" by simp
  have w: "cur p < length (input p)" using r by (cases "cur p < length (input p)") (auto simp: rest_def)
  have l: "skip_digits (skip 1 p) = (Inr (), skip (length ds) (skip 1 p))"
    using r s(3) assms(2) w by (intro skip_digits_rest [where post = post]) auto
  have b: "slice_input (cur p) (skip (Suc (length ds)) p) = str_int i"
    using r s(1) by (simp add: slice_input_def rest_def)
  show ?thesis
    using r l b s digit_not_space [OF s(2)] ConsumeWhitespace_stop [OF r]
      int_of_string_str_int [of i, unfolded s(1)]
    by (simp add: ParseNumber_def py_defs step_cur_skip)
qed

section \<open>Values\<close>

definition reads :: "gn_value \<Rightarrow> string \<Rightarrow> bool" where
  "reads v s \<longleftrightarrow> (\<exists>c r. s = c # r \<and> \<not> gn_space c \<and> c \<noteq> CHR '']'') \<and>
     (\<forall>p post. rest p = s @ post \<longrightarrow> (post = [] \<or> \<not> is_digit (hd post)) \<longrightarrow>
        ParseAllowTrailing p = (Inr v, skip (length s) p))"

lemma readsD:
  "reads v s \<Longrightarrow> rest p = s @ post \<Longrightarrow> post = [] \<or> \<not> is_digit (hd post) \<Longrightarrow>
     ParseAllowTrailing p = (Inr v, skip (length s) p)"
  unfolding reads_def by blast

lemma reads_VString: "reads (VString s) (gn_quote s)"
  unfolding reads_def
proof (intro conjI allI impI)
  show "\<exists>c r. gn_quote s = c # r \<and> \<not> gn_space c \<and> c \<noteq> CHR '']''"
    by (simp add: gn_quote_escape)
  fix p post assume r: "rest p = gn_quote s @ post"
  then have r': "rest p = CHR 0x22 # gn_escape s @ CHR 0x22 # post" by (simp add: gn_quote_escape)
  have "\<not> IsDigitOrMinus (CHR 0x22)" by (simp add: IsDigitOrMinus_def)
  with r' ParseString_rest [OF r] show "ParseAllowTrailing p = (Inr (VString s), skip (length (gn_quote s)) p)"
    by (subst ParseAllowTrailing.simps) (simp add: ConsumeWhitespace_stop [OF r'] as_value_def)
qed

lemma reads_VInt: "reads (VInt i) (str_int i)"
  unfolding reads_def
proof (intro conjI allI impI)
  obtain c ds where s: "str_int i = c # ds" "IsDigitOrMinus c" by (rule str_int_Cons)
  note n = digit_not_space [OF s(2)]
  show "\<exists>c r. str_int i = c # r \<and> \<not> gn_space c \<and> c \<noteq> CHR '']''" using s n by blast
  fix p post assume r: "rest p = str_int i @ post" and e: "post = [] \<or> \<not> is_digit (hd post)"
  from r s have r': "rest p = c # ds @ post" by simp
  from r' s n ParseNumber_rest [OF r e] show "ParseAllowTrailing p = (Inr (VInt i), skip (length (str_int i)) p)"
    by (subst ParseAllowTrailing.simps) (simp add: ConsumeWhitespace_stop [OF r'] as_value_def)
qed

lemma ConstantFollows_rest:
  assumes "rest p = constant @ post" and "constant \<noteq> []"
  shows "ConstantFollows constant p = (Inr True, skip (length constant) p)"
proof -
  have "length (input p) - cur p = length constant + length post"
    using arg_cong [OF assms(1), of length] by (simp add: rest_def)
  moreover have "0 < length constant" using assms(2) by simp
  ultimately have "\<not> length (input p) < cur p + length constant" by linarith
  with assms(1) show ?thesis by (simp add: ConstantFollows_def rest_def skip_def)
qed

lemma ConstantFollows_other:
  "rest p = c # r \<Longrightarrow> constant = d # ds \<Longrightarrow> c \<noteq> d \<Longrightarrow> fst (ConstantFollows constant p) = Inr False"
  by (auto simp: ConstantFollows_def rest_def Let_def)

lemma reads_VBool: "reads (VBool b) (if b then ''true'' else ''false'')"
  unfolding reads_def
proof (intro conjI allI impI)
  show "\<exists>c r. (if b then ''true'' else ''false'') = c # r \<and> \<not> gn_space c \<and> c \<noteq> CHR '']''" by simp
  fix p post assume r: "rest p = (if b then ''true'' else ''false'') @ post"
  have n: "\<not> IsDigitOrMinus (CHR ''t'')" "\<not> IsDigitOrMinus (CHR ''f'')" by (simp_all add: IsDigitOrMinus_def)
  show "ParseAllowTrailing p = (Inr (VBool b), skip (length (if b then ''true'' else ''false'')) p)"
  proof (cases b)
    case True
    with r have r': "rest p = ''true'' @ post" by simp
    with True n ConstantFollows_rest [OF r'] show ?thesis
      by (subst ParseAllowTrailing.simps) (simp add: ConsumeWhitespace_stop)
  next
    case False
    with r have r': "rest p = ''false'' @ post" by simp
    with False n ConstantFollows_rest [OF r'] ConstantFollows_other [of p "CHR ''f''" "''alse'' @ post" "''true''"]
    show ?thesis by (subst ParseAllowTrailing.simps) (simp add: ConsumeWhitespace_stop)
  qed
qed

section \<open>Lists\<close>

lemma list_loop_close:
  "rest p = CHR '']'' # post \<Longrightarrow> list_loop acc comma p = (Inr acc, skip 1 p)"
  by (subst list_loop.simps) (simp add: step_cur_skip)

text \<open>One turn of the loop over an element that is followed by a comma or by the end of the list.\<close>

lemma list_loop_item:
  assumes "reads v s" and "rest p = s @ c # post" and "\<not> is_digit c"
  shows "list_loop acc True p =
     (case ConsumeWhitespace (skip (length s) p) of
        (Inl e, r) \<Rightarrow> (Inl e, r)
      | (Inr _, r) \<Rightarrow>
          if IsDone r then (Inl GNException, r)
          else case char_at r of
              Inl e \<Rightarrow> (Inl e, r)
            | Inr d \<Rightarrow>
                if d = CHR '','' then
                  (case ConsumeWhitespace (step_cur r) of
                     (Inl e, t) \<Rightarrow> (Inl e, t)
                   | (Inr _, t) \<Rightarrow> list_loop (acc @ [v]) True t)
                else list_loop (acc @ [v]) False r)"
proof -
  from assms(1) obtain d r where s: "s = d # r" "d \<noteq> CHR '']''" by (auto simp: reads_def)
  with assms(2) have "rest p = d # r @ c # post" by simp
  with s(2) readsD [OF assms(1,2)] assms(3) show ?thesis
    by (subst list_loop.simps) simp
qed

lemma list_loop_items:
  assumes "list_all2 reads vs ss" and "vs \<noteq> []" and "rest p = str_join '', '' ss @ '' ]'' @ post"
  shows "list_loop acc True p = (Inr (acc @ vs), skip (length (str_join '', '' ss) + 2) p)"
  using assms
proof (induction vs arbitrary: ss acc p)
  case (Cons v vs)
  then obtain s ts where ss: "ss = s # ts" "reads v s" "list_all2 reads vs ts"
    by (auto simp: list_all2_Cons1)
  let ?q = "skip (length s) p"
  show ?case
  proof (cases vs)
    case Nil
    with ss have ts: "ts = []" by simp
    with Cons.prems ss have r: "rest p = s @ CHR '' '' # CHR '']'' # post" by simp
    then have q: "rest (skip 1 ?q) = CHR '']'' # post" by simp
    have w: "ConsumeWhitespace ?q = (Inr (), skip 1 ?q)"
      using r q by (simp add: ConsumeWhitespace_space ConsumeWhitespace_stop)
    show ?thesis
      using q Nil ss ts
      by (simp add: list_loop_item [OF ss(2) r] w list_loop_close is_digit_def less_eq_char_def)
  next
    case (Cons v' vs')
    with ss obtain s' ts' where ts: "ts = s' # ts'" "reads v' s'" by (auto simp: list_all2_Cons1)
    from ts(2) obtain c r' where s': "s' = c # r'" "\<not> gn_space c" by (auto simp: reads_def)
    obtain tail where tail: "str_join '', '' ts @ '' ]'' @ post = c # tail"
      using ts s' by (cases ts') auto
    have r: "rest p = s @ CHR '','' # CHR '' '' # c # tail"
      using Cons.prems(3) ss ts tail by simp
    then have q: "rest ?q = CHR '','' # CHR '' '' # c # tail" "rest (skip 2 ?q) = c # tail"
      "rest (skip 1 ?q) = CHR '' '' # c # tail" by simp_all
    have w: "ConsumeWhitespace ?q = (Inr (), ?q)" using q by (simp add: ConsumeWhitespace_stop)
    have w': "ConsumeWhitespace (skip 1 ?q) = (Inr (), skip 2 ?q)"
      using q s'(2) ConsumeWhitespace_space [OF q(3)]
        ConsumeWhitespace_stop [of "skip 2 ?q" c tail] by (simp add: numeral_2_eq_2)
    have "list_loop (acc @ [v]) True (skip 2 ?q) =
        (Inr ((acc @ [v]) @ vs), skip (length (str_join '', '' ts) + 2) (skip 2 ?q))"
      using q(2) tail Cons by (intro Cons.IH ss(3)) simp_all
    then show ?thesis
      using q ss ts w'
      by (simp add: list_loop_item [OF ss(2) r] w step_cur_skip is_digit_def less_eq_char_def add.commute add.left_commute)
  qed
qed simp

lemma reads_VList:
  assumes "list_all2 reads vs ss"
  shows "reads (VList vs) (''[ '' @ str_join '', '' ss @ '' ]'')"
  unfolding reads_def
proof (intro conjI allI impI)
  let ?s = "''[ '' @ str_join '', '' ss @ '' ]''"
  show "\<exists>c r. ?s = c # r \<and> \<not> gn_space c \<and> c \<noteq> CHR '']''" by simp
  fix p post assume "rest p = ?s @ post"
  then have r: "rest p = CHR ''['' # CHR '' '' # str_join '', '' ss @ '' ]'' @ post" by simp
  have "ParseList p = (Inr vs, skip (length ?s) p)"
  proof (cases "vs = []")
    case True
    with assms r have r0: "rest p = ''[  ]'' @ post" by simp
    then have q: "rest (skip 3 p) = CHR '']'' # post" "rest (skip 2 p) = CHR '' '' # CHR '']'' # post"
      "rest (skip 1 p) = CHR '' '' # CHR '' '' # CHR '']'' # post" by (simp_all add: numeral_3_eq_3 numeral_2_eq_2)
    then have "ConsumeWhitespace (skip 1 p) = (Inr (), skip 3 p)"
      using ConsumeWhitespace_space [of "skip 1 p"] ConsumeWhitespace_space [of "skip 2 p"]
        ConsumeWhitespace_stop [OF q(1)] by (simp add: numeral_3_eq_3 numeral_2_eq_2)
    with q r True assms show ?thesis
      by (subst ParseList.simps)
        (simp add: ConsumeWhitespace_stop [OF r] step_cur_skip list_loop_close)
  next
    case False
    with assms obtain v vs' s ss' where vs: "vs = v # vs'" "ss = s # ss'" "reads v s"
      by (cases vs; cases ss) auto
    then obtain c r' where s: "s = c # r'" "\<not> gn_space c" by (auto simp: reads_def)
    obtain tail where tail: "str_join '', '' ss @ '' ]'' @ post = c # tail"
      using vs s by (cases ss') auto
    from r tail have q: "rest (skip 1 p) = CHR '' '' # c # tail" "rest (skip 2 p) = c # tail" by simp_all
    then have w: "ConsumeWhitespace (skip 1 p) = (Inr (), skip 2 p)"
      using s(2) ConsumeWhitespace_space [OF q(1)] ConsumeWhitespace_stop [OF q(2)]
      by (simp add: numeral_2_eq_2)
    from list_loop_items [OF assms False, of "skip 2 p" post "[]"] q(2) tail
    have "list_loop [] True (skip 2 p) = (Inr vs, skip (length (str_join '', '' ss) + 2) (skip 2 p))"
      by simp
    with q r w show ?thesis
      by (subst ParseList.simps)
        (simp add: ConsumeWhitespace_stop [OF r] step_cur_skip add.commute)
  qed
  with r show "ParseAllowTrailing p = (Inr (VList vs), skip (length ?s) p)"
    by (subst ParseAllowTrailing.simps) (simp add: ConsumeWhitespace_stop [OF r] as_value_def)
qed

section \<open>Printed values\<close>

fun dict_free :: "gn_value \<Rightarrow> bool" where
  "dict_free (VList vs) \<longleftrightarrow> (\<forall>v \<in> set vs. dict_free v)"
| "dict_free (VDict _) \<longleftrightarrow> False"
| "dict_free _ \<longleftrightarrow> True"

lemma printed_reads: "ToGNString maxint v b = Inr s \<Longrightarrow> dict_free v \<Longrightarrow> reads v s"
proof (induction maxint v b arbitrary: s rule: ToGNString.induct)
  case (3 maxint vs b)
  from 3(2) obtain ss where ss: "map_res (\<lambda>v. ToGNString maxint v True) vs = Inr ss"
    and s: "s = ''[ '' @ str_join '', '' ss @ '' ]''" by (auto simp: bind_res_Inr_iff)
  have "list_all2 reads vs ss"
    using ss 3(1,3) unfolding map_res_Inr_iff by (auto simp: list_all2_conv_all_nth)
  then show ?case unfolding s by (rule reads_VList)
qed (auto intro: reads_VString reads_VInt reads_VBool split: if_splits
    simp: reads_VBool [where b = True, simplified] reads_VBool [where b = False, simplified])

lemma FromGNString_reads:
  assumes "reads v s"
  shows "FromGNString s = Inr v"
proof -
  have "ParseAllowTrailing (GNValueParser s) = (Inr v, skip (length s) (GNValueParser s))"
    by (rule readsD [OF assms, of _ "[]"]) simp_all
  moreover have "IsDone (skip (length s) (GNValueParser s))" by (simp add: IsDone_def)
  ultimately show ?thesis by (simp add: FromGNString_def Parse_def py_defs ConsumeWhitespace_done)
qed

section \<open>Assignments\<close>

abbreviation ident_char :: "char \<Rightarrow> bool" where
  "ident_char c \<equiv> is_alpha c \<or> is_digit c \<or> c = CHR ''_''"

definition is_ident :: "string \<Rightarrow> bool" where
  "is_ident k \<longleftrightarrow> k \<noteq> [] \<and> (is_alpha (hd k) \<or> hd k = CHR ''_'') \<and> (\<forall>c \<in> set k. ident_char c)"

lemma ident_loop_rest:
  "rest p = k @ c # post \<Longrightarrow> \<forall>c \<in> set k. ident_char c \<Longrightarrow> \<not> ident_char c \<Longrightarrow>
     ident_loop i p = (Inr (i @ k), skip (length k) p)"
proof (induction k arbitrary: i p)
  case Nil
  then show ?case by (subst ident_loop.simps) simp
next
  case (Cons d k)
  with Cons.IH [of "skip 1 p" "i @ [d]"] show ?case
    by (subst ident_loop.simps) (auto simp: step_cur_skip)
qed

lemma ParseIdent_rest:
  assumes "is_ident k" and "rest p = k @ c # post" and "\<not> ident_char c"
  shows "ParseIdent p = (Inr k, skip (length k) p)"
proof -
  from assms(1) obtain d r where k: "k = d # r" "is_alpha d \<or> d = CHR ''_''" "\<forall>c \<in> set r. ident_char c"
    by (cases k) (auto simp: is_ident_def)
  with assms(2,3) ident_loop_rest [of "skip 1 p" r c post "[d]"] show ?thesis
    by (auto simp: ParseIdent_def step_cur_skip)
qed

text \<open>A line of the printed form.\<close>

definition assigns :: "string \<times> gn_value \<Rightarrow> string \<Rightarrow> bool" where
  "assigns kv l \<longleftrightarrow> is_ident (fst kv) \<and> (\<exists>s. reads (snd kv) s \<and> l = fst kv @ '' = '' @ s @ [CHR 0x0A])"

lemma is_ident_start: "is_ident k \<Longrightarrow> \<exists>c r. k = c # r \<and> \<not> gn_space c"
  by (cases k) (auto simp: is_ident_def is_alpha_def less_eq_char_def)

text \<open>The white space after a value is consumed up to the next line or the end.\<close>

lemma ConsumeWhitespace_newline:
  assumes "rest p = CHR 0x0A # concat ls" and "list_all2 assigns xs ls" and "cur p \<le> length (input p)"
  shows "ConsumeWhitespace p = (Inr (), skip 1 p)"
proof (cases ls)
  case Nil
  then have "IsDone (skip 1 p)" using assms(1,3) rest_within [of p "[CHR 0x0A]" "[]"]
    by (intro rest_empty) auto
  then show ?thesis using ConsumeWhitespace_space [OF assms(1)] by (simp add: ConsumeWhitespace_done)
next
  case (Cons l ls')
  with assms(2) obtain x where "assigns x l" by (auto simp: list_all2_Cons2)
  then obtain c r where "l = c # r" "\<not> gn_space c" using is_ident_start by (fastforce simp: assigns_def)
  with Cons assms(1) ConsumeWhitespace_stop [of "skip 1 p" c "r @ concat ls'"] show ?thesis
    using ConsumeWhitespace_space [OF assms(1)] by simp
qed

lemma args_loop_step:
  assumes "is_ident k" and "reads v s" and "rest p = k @ '' = '' @ s @ CHR 0x0A # concat ls"
    and "list_all2 assigns xs ls" and "cur p \<le> length (input p)"
  shows "args_loop d p = args_loop (dict_set k v d) (skip (length k + 3 + length s + 1) p)"
proof -
  let ?n = "length k"
  obtain c r where s: "s = c # r" "\<not> gn_space c" using assms(2) by (auto simp: reads_def)
  obtain c' r' where k: "k = c' # r'" using is_ident_start [OF assms(1)] by blast
  have d: "\<not> IsDone p" using assms(3) k by simp
  have i: "ParseIdent p = (Inr k, skip ?n p)"
    by (rule ParseIdent_rest [OF assms(1), where c = "CHR '' ''"])
      (use assms(3) in \<open>simp_all add: is_alpha_def is_digit_def less_eq_char_def\<close>)
  have r: "rest (skip ?n p) = CHR '' '' # CHR ''='' # CHR '' '' # s @ CHR 0x0A # concat ls"
    "rest (skip (?n + 1) p) = CHR ''='' # CHR '' '' # s @ CHR 0x0A # concat ls"
    "rest (skip (?n + 2) p) = CHR '' '' # c # r @ CHR 0x0A # concat ls"
    "rest (skip (?n + 3) p) = s @ CHR 0x0A # concat ls"
    using assms(3) s(1) by (simp_all add: numeral_3_eq_3)
  have w1: "ConsumeWhitespace (skip ?n p) = (Inr (), skip (?n + 1) p)"
    using ConsumeWhitespace_space [OF r(1)] ConsumeWhitespace_stop [OF r(2)] by simp
  have w2: "ConsumeWhitespace (skip (?n + 2) p) = (Inr (), skip (?n + 3) p)"
    using ConsumeWhitespace_space [OF r(3)] ConsumeWhitespace_stop [of "skip (?n + 3) p" c] r(4) s
    by (simp add: numeral_3_eq_3)
  have v: "ParseAllowTrailing (skip (?n + 3) p) = (Inr v, skip (?n + 3 + length s) p)"
    using readsD [OF assms(2) r(4)] by (simp add: is_digit_def less_eq_char_def)
  have "rest (skip (?n + 3 + length s) p) = CHR 0x0A # concat ls"
    using arg_cong [OF r(4), of "drop (length s)"] by (simp add: add.commute)
  moreover from this have "cur (skip (?n + 3 + length s) p) \<le> length (input p)"
    using rest_Cons_within by fastforce
  ultimately have w3: "ConsumeWhitespace (skip (?n + 3 + length s) p) = (Inr (), skip (?n + 3 + length s + 1) p)"
    using ConsumeWhitespace_newline [OF _ assms(4), of "skip (?n + 3 + length s) p"] by simp
  show ?thesis
    by (subst args_loop.simps)
      (use d i w1 w2 v w3 char_at_Cons [OF r(2)] in \<open>simp add: py_defs step_cur_skip\<close>)
qed

lemma args_loop_lines:
  "list_all2 assigns xs ls \<Longrightarrow> rest p = concat ls \<Longrightarrow> cur p \<le> length (input p) \<Longrightarrow>
     distinct (map fst (d @ xs)) \<Longrightarrow> fst (args_loop d p) = Inr (d @ xs)"
proof (induction xs arbitrary: ls d p)
  case Nil
  then show ?case by (subst args_loop.simps) (simp add: rest_empty)
next
  case (Cons x xs)
  then obtain l ls' where ls: "ls = l # ls'" "assigns x l" "list_all2 assigns xs ls'"
    by (auto simp: list_all2_Cons1)
  obtain k v where x: "x = (k, v)" by force
  with ls(2) obtain s where s: "is_ident k" "reads v s" "l = k @ '' = '' @ s @ [CHR 0x0A]"
    by (auto simp: assigns_def)
  have r: "rest p = k @ '' = '' @ s @ CHR 0x0A # concat ls'" using Cons.prems(2) ls(1) s(3) by simp
  let ?q = "skip (length k + 3 + length s + 1) p"
  have "rest p = (k @ '' = '' @ s @ [CHR 0x0A]) @ concat ls'" using r by simp
  from rest_within [OF this Cons.prems(3)] have "cur ?q \<le> length (input ?q)" by simp
  moreover have "rest ?q = concat ls'" using r by (simp add: eval_nat_numeral)
  moreover have "k \<notin> fst ` set d" using Cons.prems(4) by (auto simp: x)
  moreover have "distinct (map fst ((d @ [(k, v)]) @ xs))" using Cons.prems(4) by (simp add: x)
  ultimately show ?case
    using Cons.IH [OF ls(3), of ?q "d @ [(k, v)]"]
    by (simp add: args_loop_step [OF s(1,2) r ls(3) Cons.prems(3)] dict_set_fresh x)
qed

section \<open>Printed dictionaries\<close>

fun key_str :: "gn_key \<Rightarrow> string" where
  "key_str (KeyStr k) = k"
| "key_str (KeyNum _) = []"

lemma printed_dict:
  assumes "ToGNString maxint (VDict d) b = Inr s"
    and "\<forall>(k, v) \<in> set d. \<exists>i. k = KeyStr i \<and> is_ident i \<and> dict_free v"
  obtains ls where "list_all2 assigns (map (map_prod key_str id) (sort_key fst d)) ls" and "s = concat ls"
proof -
  let ?f = "\<lambda>(key, v). case key of KeyNum _ \<Rightarrow> Inl GNException
             | KeyStr k \<Rightarrow> bind_res (ToGNString maxint v False) (\<lambda>s. Inr (k @ '' = '' @ s @ [CHR 0x0A]))"
  from assms(1) obtain ls where ls: "map_res ?f (sort_key fst d) = Inr ls" "s = concat ls"
    by (auto simp: bind_res_Inr_iff split: if_splits)
  have "assigns (map_prod key_str id x) l" if "x \<in> set d" "?f x = Inr l" for x l
    using that assms(2) by (fastforce simp: assigns_def bind_res_Inr_iff intro: printed_reads)
  with ls(1) have "list_all2 assigns (map (map_prod key_str id) (sort_key fst d)) ls"
    unfolding map_res_Inr_iff list.rel_map by (elim list.rel_mono_strong) auto
  with ls(2) that show thesis by blast
qed

lemma args_roundtrip:
  assumes "ToGNString maxint (VDict d) b = Inr s" and "distinct (map fst d)"
    and "\<forall>(k, v) \<in> set d. \<exists>i. k = KeyStr i \<and> is_ident i \<and> dict_free v"
  shows "FromGNArgs s = Inr (map (map_prod key_str id) (sort_key fst d))"
proof -
  let ?xs = "map (map_prod key_str id) (sort_key fst d)"
  obtain ls where ls: "list_all2 assigns ?xs ls" "s = concat ls"
    using printed_dict [OF assms(1,3)] by blast
  have w: "ConsumeWhitespace (GNValueParser s) = (Inr (), GNValueParser s)"
  proof (cases ls)
    case Nil
    with ls(2) show ?thesis by (intro ConsumeWhitespace_done) (simp add: IsDone_def)
  next
    case (Cons l ls')
    with ls(1) obtain x where "assigns x l" by (auto simp: list_all2_Cons2)
    then obtain c r where "l = c # r" "\<not> gn_space c" using is_ident_start by (fastforce simp: assigns_def)
    with Cons ls(2) show ?thesis by (intro ConsumeWhitespace_stop) auto
  qed
  have "KeyStr (key_str a) = a" if "a \<in> fst ` set d" for a using that assms(3) by force
  then have "inj_on key_str (fst ` set d)" by (metis inj_onI)
  then have "distinct (map fst ?xs)"
    using assms(2) by (simp add: distinct_map inj_on_def)
  then show ?thesis
    using args_loop_lines [OF ls(1), of "GNValueParser s" "[]"] ls(2) w
    by (simp add: FromGNArgs_def ParseArgs_def py_defs)
qed

section \<open>Errors\<close>

text \<open>
  A call that starts within the input stays within it and raises no other exception than
  \<open>GNException\<close>.
\<close>

abbreviation within :: "gn_parser \<Rightarrow> bool" where
  "within p \<equiv> cur p \<le> length (input p)"

definition gn_safe :: "'a res \<times> gn_parser \<Rightarrow> bool" where
  "gn_safe r \<longleftrightarrow> within (snd r) \<and> (\<forall>e. fst r = Inl e \<longrightarrow> e = GNException)"

lemma gn_safe_simps [simp]:
  "gn_safe (Inr x, p) \<longleftrightarrow> within p"
  "gn_safe (Inl e, p) \<longleftrightarrow> within p \<and> e = GNException"
  "gn_safe (as_value f r) \<longleftrightarrow> gn_safe r"
  by (auto simp: gn_safe_def as_value_def map_sum_def split: sum.splits)

lemma char_at_InlD: "char_at p = Inl e \<Longrightarrow> within p \<Longrightarrow> IsDone p"
  by (auto simp: char_at_def IsDone_def split: if_splits)

lemma within_step_cur: "char_at p = Inr c \<Longrightarrow> within (step_cur p)"
  using within_step [of p c] by simp

lemma ConsumeWhitespace_succeeds: "within p \<Longrightarrow> \<exists>q. ConsumeWhitespace p = (Inr (), q) \<and> within q"
proof (induction p rule: ConsumeWhitespace.induct)
  case (1 p)
  from IsDone_or_char_at [OF 1(2)] show ?case
    by (subst ConsumeWhitespace.simps) (use 1 within_step_cur [of p] in \<open>auto\<close>)
qed

lemma IsDone_step: "within p \<Longrightarrow> \<not> IsDone p \<Longrightarrow> within (step_cur p)"
  by (auto simp: IsDone_def)

lemma string_loop_safe: "within p \<Longrightarrow> gn_safe (string_loop p)"
proof (induction p rule: string_loop.induct)
  case (1 p)
  show ?case
  proof (cases "IsDone p")
    case True
    with 1(3) show ?thesis by (subst string_loop.simps) simp
  next
    case False
    with IsDone_or_char_at [OF 1(3)] obtain c where c: "char_at p = Inr c" by blast
    note w = IsDone_step [OF 1(3) False]
    show ?thesis
    proof (cases "c = CHR 0x5C \<and> \<not> IsDone (step_cur p)")
      case True
      with False c have "gn_safe (string_loop (step_cur (step_cur p)))"
        by (intro 1(1) [OF False c]) (use IsDone_step [OF w] in simp_all)
      with True False c w show ?thesis by (subst string_loop.simps) simp
    next
      case no: False
      with False c w 1(3) show ?thesis
        by (subst string_loop.simps) (use 1(2) [OF False c _ _ w] in auto)
    qed
  qed
qed

lemma ParseString_safe:
  assumes "within p"
  shows "gn_safe (ParseString p)"
proof -
  obtain q where q: "ConsumeWhitespace p = (Inr (), q)" "within q"
    using ConsumeWhitespace_succeeds [OF assms] by blast
  show ?thesis
  proof (cases "IsDone q")
    case True
    with q show ?thesis by (simp add: ParseString_def py_defs)
  next
    case False
    with IsDone_or_char_at [OF q(2)] obtain c where c: "char_at q = Inr c" by blast
    obtain r t where t: "string_loop (step_cur q) = (r, t)" by force
    have "gn_safe (r, t)" using string_loop_safe [OF IsDone_step [OF q(2) False]] by (simp add: t)
    then show ?thesis using q False c t IsDone_step [of t]
      by (cases r) (auto simp: ParseString_def py_defs)
  qed
qed

lemma ParseNumber_safe:
  assumes "within p"
  shows "gn_safe (ParseNumber p)"
proof -
  obtain q where q: "ConsumeWhitespace p = (Inr (), q)" "within q"
    using ConsumeWhitespace_succeeds [OF assms] by blast
  show ?thesis
  proof (cases "IsDone q")
    case True
    with q show ?thesis by (simp add: ParseNumber_def py_defs)
  next
    case False
    with IsDone_or_char_at [OF q(2)] obtain c where c: "char_at q = Inr c" by blast
    have "within (if IsDigitOrMinus c then step_cur q else q)"
      using q(2) IsDone_step [OF q(2) False] by simp
    from within_skip_digits [OF this] obtain t
      where "skip_digits (if IsDigitOrMinus c then step_cur q else q) = (Inr (), t)" "within t" by blast
    with q False c show ?thesis by (auto simp: ParseNumber_def py_defs split: if_splits)
  qed
qed

lemma ConstantFollows_safe: "within p \<Longrightarrow> within (snd (ConstantFollows constant p))"
  by (auto simp: ConstantFollows_def Let_def)

lemma value_safe:
  "within p \<Longrightarrow> gn_safe (ParseAllowTrailing p)"
  "within p \<Longrightarrow> gn_safe (ParseList p)"
  "within p \<Longrightarrow> gn_safe (list_loop acc comma p)"
proof (induction p and p and acc comma p rule: ParseAllowTrailing_ParseList_list_loop.induct)
  case (1 p)
  obtain q where q: "ConsumeWhitespace p = (Inr (), q)" "within q"
    using ConsumeWhitespace_succeeds [OF 1(2)] by blast
  show ?case
  proof (cases "IsDone q")
    case True
    with q show ?thesis by (subst ParseAllowTrailing.simps) simp
  next
    case False
    with IsDone_or_char_at [OF q(2)] obtain c where c: "char_at q = Inr c" by blast
    with 1(1) [OF q(1) [symmetric] refl False c _ q(2)] False q show ?thesis
      by (subst ParseAllowTrailing.simps)
        (simp add: ParseString_safe ParseNumber_safe ConstantFollows_safe)
  qed
next
  case (2 p)
  obtain q where q: "ConsumeWhitespace p = (Inr (), q)" "within q"
    using ConsumeWhitespace_succeeds [OF 2(2)] by blast
  show ?case
  proof (cases "IsDone q")
    case True
    with q show ?thesis by (subst ParseList.simps) simp
  next
    case False
    with IsDone_or_char_at [OF q(2)] obtain c where c: "char_at q = Inr c" by blast
    obtain r where r: "ConsumeWhitespace (step_cur q) = (Inr (), r)" "within r"
      using ConsumeWhitespace_succeeds [OF IsDone_step [OF q(2) False]] by blast
    with 2(1) [OF q(1) [symmetric] refl False c _ r(1) [symmetric] refl] False q c show ?thesis
      by (subst ParseList.simps) simp
  qed
next
  case (3 acc comma p)
  show ?case
  proof (cases "IsDone p")
    case True
    with 3(4) show ?thesis by (subst list_loop.simps) simp
  next
    case False
    with IsDone_or_char_at [OF 3(4)] obtain c where c: "char_at p = Inr c" by blast
    note w = IsDone_step [OF 3(4) False]
    show ?thesis
    proof (cases "c \<noteq> CHR '']'' \<and> comma")
      case no: False
      with False c w 3(4) show ?thesis by (subst list_loop.simps) auto
    next
      case True
      then have i: "c \<noteq> CHR '']''" "\<not> \<not> comma" by simp_all
      obtain res q where v: "ParseAllowTrailing p = (res, q)" by force
      with 3(1) [OF False c i 3(4)] have s: "gn_safe (res, q)" by simp
      show ?thesis
      proof (cases res)
        case (Inl e)
        with False c i v s show ?thesis by (subst list_loop.simps) simp
      next
        case (Inr v')
        with s have "within q" by simp
        then obtain r where r: "ConsumeWhitespace q = (Inr (), r)" "within r"
          using ConsumeWhitespace_succeeds by blast
        show ?thesis
        proof (cases "IsDone r")
          case True
          with False c i v Inr r show ?thesis by (subst list_loop.simps) simp
        next
          case more: False
          with IsDone_or_char_at [OF r(2)] obtain d where d: "char_at r = Inr d" by blast
          obtain t where t: "ConsumeWhitespace (step_cur r) = (Inr (), t)" "within t"
            using ConsumeWhitespace_succeeds [OF IsDone_step [OF r(2) more]] by blast
          note next_item = 3(2,3) [OF False c i v [symmetric] Inr r(1) [symmetric] refl more d]
          have "gn_safe (list_loop (acc @ [v']) True t)" if "d = CHR '',''"
            using next_item(1) [OF that t(1) [symmetric] refl t(2)] .
          with False c i v Inr r more d t next_item(2) show ?thesis
            by (subst list_loop.simps) simp
        qed
      qed
    qed
  qed
qed

lemma FromGNString_safe: "FromGNString s = Inl e \<Longrightarrow> e = GNException"
proof -
  assume f: "FromGNString s = Inl e"
  obtain r p where p: "ParseAllowTrailing (GNValueParser s) = (r, p)" by force
  with value_safe(1) [of "GNValueParser s"] have "gn_safe (r, p)" by simp
  with f p show "e = GNException"
    using ConsumeWhitespace_succeeds [of p]
    by (cases r) (auto simp: FromGNString_def Parse_def py_defs split: if_splits)
qed

end
