(* ===== verification/Gn_Properties.thy ===== *)
theory Gn_Properties
  imports Gn_Roundtrip
begin

text \<open>
  The contract of the GN helpers: what is printed and read back, and which exceptions the
  functions raise.
\<close>

fun printable :: "int \<Rightarrow> gn_value \<Rightarrow> bool" where
  "printable maxint (VString s) \<longleftrightarrow> CHR 0x0A \<notin> set s"
| "printable maxint (VBool b) \<longleftrightarrow> True"
| "printable maxint (VInt i) \<longleftrightarrow> - maxint - 1 \<le> i \<and> i \<le> maxint"
| "printable maxint (VList vs) \<longleftrightarrow> (\<forall>v \<in> set vs. printable maxint v)"
| "printable maxint (VDict d) \<longleftrightarrow> False"
| "printable maxint VOther \<longleftrightarrow> False"

lemma map_res_cases:
  assumes "\<And>x. x \<in> set xs \<Longrightarrow> f x = Inl e \<or> (\<exists>y. f x = Inr y)"
  shows "map_res f xs = Inl e \<and> (\<exists>x \<in> set xs. f x = Inl e) \<or>
    (\<exists>ys. map_res f xs = Inr ys) \<and> (\<forall>x \<in> set xs. \<exists>y. f x = Inr y)"
  using assms
proof (induction xs)
  case (Cons x xs)
  show ?case
  proof (cases "f x")
    case (Inr y)
    with Cons show ?thesis by fastforce
  qed (use Cons.prems [of x] in auto)
qed simp

lemma printing_outcome:
  "dict_free v \<Longrightarrow>
     (if printable maxint v then \<exists>s. ToGNString maxint v b = Inr s else ToGNString maxint v b = Inl GNException)"
proof (induction maxint v b rule: ToGNString.induct)
  case (3 maxint vs b)
  let ?f = "\<lambda>v. ToGNString maxint v True"
  have *: "(printable maxint v \<longrightarrow> (\<exists>s. ?f v = Inr s)) \<and> (\<not> printable maxint v \<longrightarrow> ?f v = Inl GNException)"
    if "v \<in> set vs" for v
    using 3(1) [OF that] 3(2) that by (auto split: if_splits)
  with map_res_cases [of vs ?f GNException] show ?case
    by (fastforce simp: bind_res_Inr_iff)
qed auto

text \<open>
  C29: A value without dictionaries is printed unless it holds a string with a newline, a number
  beyond the machine word or a value of another type, which raises \<^verbatim>\<open>GNException\<close>; and what is
  printed, \<^verbatim>\<open>FromGNString\<close> reads back as the same value.
\<close>

theorem gn_value_roundtrip:
  assumes "dict_free v"
  shows "if printable maxint v
    then \<exists>s. ToGNString maxint v allow_dicts = Inr s \<and> FromGNString s = Inr v
    else ToGNString maxint v allow_dicts = Inl GNException"
  using printing_outcome [OF assms, of maxint allow_dicts] printed_reads [OF _ assms] FromGNString_reads
  by (auto split: if_splits)

theorem gn_value_roundtrip_witness:
  "\<exists>s. ToGNString 9 (VList [VString [CHR 0x22, CHR ''$''], VInt (- 7), VList [], VBool False]) True = Inr s \<and>
     FromGNString s = Inr (VList [VString [CHR 0x22, CHR ''$''], VInt (- 7), VList [], VBool False])"
  using gn_value_roundtrip [of "VList [VString [CHR 0x22, CHR ''$''], VInt (- 7), VList [], VBool False]" 9 True]
  by simp

lemma map_of_key_str:
  "\<forall>x \<in> set xs. KeyStr (key_str (fst x)) = fst x \<Longrightarrow>
     map_of (map (map_prod key_str id) xs) k = map_of xs (KeyStr k)"
  by (induction xs) (auto dest: sym)

lemma sorted_key_str:
  assumes "\<forall>x \<in> set xs. KeyStr (key_str (fst x)) = fst x" and "sorted (map fst xs)"
  shows "sorted (map fst (map (map_prod key_str id) xs))"
  using assms by (induction xs) (auto, metis less_eq_gn_key_def key_less_eq.simps(4) fst_conv)

text \<open>
  A dictionary whose keys are identifiers and whose values hold no dictionaries, once
  printed, is read back by \<^verbatim>\<open>FromGNArgs\<close> with the same entries, in the order of the keys.
\<close>

theorem gn_args_roundtrip:
  assumes "ToGNString maxint (VDict d) allow_dicts = Inr s" and "distinct (map fst d)"
    and "\<forall>(k, v) \<in> set d. \<exists>i. k = KeyStr i \<and> is_ident i \<and> dict_free v"
  shows "\<exists>e. FromGNArgs s = Inr e \<and> sorted (map fst e) \<and> (\<forall>k. map_of e k = map_of d (KeyStr k))"
proof -
  let ?e = "map (map_prod key_str id) (sort_key fst d)"
  have keys: "\<forall>x \<in> set (sort_key fst d). KeyStr (key_str (fst x)) = fst x" using assms(3) by fastforce
  have "map_of ?e k = map_of (sort_key fst d) (KeyStr k)" for k by (rule map_of_key_str [OF keys])
  moreover have "map_of (sort_key fst d) = map_of d"
    using assms(2) by (subst map_of_inject_set) (simp_all add: distinct_map inj_on_def)
  moreover have "sorted (map fst ?e)" using sorted_key_str [OF keys] by simp
  ultimately show ?thesis using args_roundtrip [OF assms] by auto
qed

theorem gn_args_roundtrip_witness:
  "\<exists>e. FromGNArgs (''a = [ true ]'' @ [CHR 0x0A] @ ''b = 5'' @ [CHR 0x0A]) = Inr e \<and> sorted (map fst e) \<and>
     (\<forall>k. map_of e k = map_of [(KeyStr ''b'', VInt 5), (KeyStr ''a'', VList [VBool True])] (KeyStr k))"
  by (rule gn_args_roundtrip [where maxint = 9 and allow_dicts = True])
    (code_simp, simp, simp add: is_ident_def is_alpha_def is_digit_def less_eq_char_def)

text \<open>Parsing a value raises no other exception than \<^verbatim>\<open>GNException\<close>, whatever the input.\<close>

theorem gn_parse_errors:
  assumes "FromGNString s = Inl e"
  shows "e = GNException"
  by (rule FromGNString_safe [OF assms])

theorem gn_parse_errors_witness: "FromGNString ''[1 2]'' = Inl GNException \<and> GNException = GNException"
  using gn_parse_errors [of "''[1 2]''" GNException] by code_simp


lemma ident_loop_errors: "within p \<Longrightarrow> within (snd (ident_loop i p)) \<and> (\<forall>e. fst (ident_loop i p) = Inl e \<longrightarrow> e = IndexError)"
proof (induction i p rule: ident_loop.induct)
  case (1 i p)
  then show ?case
    unfolding ident_loop.simps [of i p] by (auto simp: char_at_def split: sum.splits if_splits)
qed

lemma ParseIdent_errors:
  "within p \<Longrightarrow> within (snd (ParseIdent p)) \<and> (\<forall>e. fst (ParseIdent p) = Inl e \<longrightarrow> e \<in> {GNException, IndexError})"
  using ident_loop_errors [of "step_cur p"]
  by (auto simp: ParseIdent_def char_at_def split: sum.splits if_splits)

lemma args_loop_errors:
  "within p \<Longrightarrow> fst (args_loop d p) = Inl e \<Longrightarrow> e \<in> {GNException, IndexError}"
proof (induction d p rule: args_loop.induct)
  case (1 d p)
  from "1.prems"(2) have done_: "\<not> IsDone p" by (auto simp: args_loop.simps [of d p])
  obtain r q where q: "ParseIdent p = (r, q)" by force
  then have r: "within q" "\<forall>e. r = Inl e \<longrightarrow> e \<in> {GNException, IndexError}"
    using ParseIdent_errors [OF "1.prems"(1)] by auto
  then obtain q' where q': "ConsumeWhitespace q = (Inr (), q')" "within q'"
    using ConsumeWhitespace_succeeds by blast
  show ?case
  proof (cases "\<exists>i. r = Inr i \<and> char_at q' = Inr (CHR ''='')")
    case False
    with "1.prems"(2) done_ q r q' show ?thesis
      by (cases r) (auto simp: args_loop.simps [of d p] py_defs char_at_def split: if_splits)
  next
    case True
    then obtain i where i: "r = Inr i" and c: "char_at q' = Inr (CHR ''='')" by blast
    obtain t where t: "ConsumeWhitespace (step_cur q') = (Inr (), t)" "within t"
      using ConsumeWhitespace_succeeds [OF within_step_cur [OF c]] by blast
    obtain v u where u: "ParseAllowTrailing t = (v, u)" by force
    with value_safe(1) [OF t(2)] have s: "gn_safe (v, u)" by simp
    show ?thesis
    proof (cases v)
      case (Inl x)
      with "1.prems"(2) done_ q i q' c t u s show ?thesis
        by (auto simp: args_loop.simps [of d p] py_defs)
    next
      case (Inr x)
      with s have "within u" by simp
      then obtain w where w: "ConsumeWhitespace u = (Inr (), w)" "within w"
        using ConsumeWhitespace_succeeds by blast
      have "args_loop d p = args_loop (dict_set i x d) w"
        unfolding args_loop.simps [of d p] using done_ q i q' c t u Inr w by (simp add: py_defs)
      with "1.prems"(2) show ?thesis
        using "1.IH" [of i q "()" q' "CHR ''=''" q' "()" "step_cur q'" "()" t x u "()" w]
          done_ q i q' c t u Inr w by (auto simp: py_defs)
    qed
  qed
qed

lemma ident_loop_end:
  "rest p = k \<Longrightarrow> \<forall>c \<in> set k. ident_char c \<Longrightarrow> fst (ident_loop i p) = Inl IndexError"
proof (induction k arbitrary: i p)
  case (Cons c k)
  then show ?case unfolding ident_loop.simps [of i p] by (auto simp: step_cur_skip)
qed (simp add: ident_loop.simps char_at_rest)

text \<open>
  Parsing assignments raises \<^verbatim>\<open>GNException\<close> or \<^verbatim>\<open>IndexError\<close>; the second when the input
  ends after an identifier, where the code reads past the end.
\<close>

theorem gn_args_errors:
  "(\<forall>e. FromGNArgs s = Inl e \<longrightarrow> e \<in> {GNException, IndexError}) \<and>
   (is_ident s \<longrightarrow> FromGNArgs s = Inl IndexError)"
proof
  obtain q where q: "ConsumeWhitespace (GNValueParser s) = (Inr (), q)" "within q"
    using ConsumeWhitespace_succeeds [of "GNValueParser s"] by auto
  then show "\<forall>e. FromGNArgs s = Inl e \<longrightarrow> e \<in> {GNException, IndexError}"
    using args_loop_errors [OF q(2)] by (simp add: FromGNArgs_def ParseArgs_def py_defs)
  show "is_ident s \<longrightarrow> FromGNArgs s = Inl IndexError"
  proof
    assume s: "is_ident s"
    then obtain c r where c: "s = c # r" "\<not> gn_space c" using is_ident_start by blast
    then have w: "ConsumeWhitespace (GNValueParser s) = (Inr (), GNValueParser s)"
      by (intro ConsumeWhitespace_stop) simp_all
    obtain e t where "ident_loop [c] (step_cur (GNValueParser s)) = (e, t)" by force
    moreover have "fst (ident_loop [c] (step_cur (GNValueParser s))) = Inl IndexError"
      using s c by (intro ident_loop_end [of _ r]) (auto simp: step_cur_skip is_ident_def)
    ultimately have "ParseIdent (GNValueParser s) = (Inl IndexError, t)"
      using s c by (simp add: ParseIdent_def is_ident_def)
    with c w show "FromGNArgs s = Inl IndexError"
      by (simp add: FromGNArgs_def ParseArgs_def py_defs args_loop.simps IsDone_def)
  qed
qed

theorem gn_args_errors_witness: "FromGNArgs ''is_debug'' = Inl IndexError"
  using gn_args_errors [of "''is_debug''"]
  by (simp add: is_ident_def is_alpha_def is_digit_def less_eq_char_def)

end
