(* ===== verification/Py_Paths.thy ===== *)
theory Py_Paths
  imports Py_Strings
begin

text \<open>
  The functions of \<^verbatim>\<open>posixpath\<close> the dependency checker calls. A path is a string;
  \<^verbatim>\<open>normcase\<close> is the identity and the separator is the slash. The current directory is an
  argument where the library asks the system for it.
\<close>

section \<open>Splitting\<close>

text \<open>\<^verbatim>\<open>s.split(c)\<close> for a separator of one character.\<close>

fun split_char :: "char \<Rightarrow> string \<Rightarrow> string list" where
  "split_char c [] = [[]]"
| "split_char c (x # xs) =
     (if x = c then [] # split_char c xs
      else (case split_char c xs of [] \<Rightarrow> [[x]] | w # ws \<Rightarrow> (x # w) # ws))"

lemma split_char_nonempty [simp]: "split_char c s \<noteq> []"
  by (induction s) (auto split: list.splits)

lemma split_char_word: "c \<notin> set s \<Longrightarrow> split_char c s = [s]"
  by (induction s) auto

lemma split_char_append: "split_char c (s @ c # t) = split_char c s @ split_char c t"
  by (induction s) (auto split: list.splits)

lemma join_split_char [simp]: "str_join [c] (split_char c s) = s"
proof (induction s)
  case (Cons x s)
  then show ?case by (cases "split_char c s"; cases "tl (split_char c s)") auto
qed simp

section \<open>Parts of a path\<close>

definition isabs :: "string \<Rightarrow> bool" where
  "isabs p \<longleftrightarrow> startswith p ''/''"

definition path_join :: "string \<Rightarrow> string \<Rightarrow> string" where
  "path_join a b =
     (if startswith b ''/'' then b
      else if a = [] \<or> last a = CHR ''/'' then a @ b
      else a @ ''/'' @ b)"

text \<open>The text up to and with the last slash, and the text after it.\<close>

definition path_head :: "string \<Rightarrow> string" where
  "path_head p = rev (dropWhile (\<lambda>c. c \<noteq> CHR ''/'') (rev p))"

definition basename :: "string \<Rightarrow> string" where
  "basename p = rev (takeWhile (\<lambda>c. c \<noteq> CHR ''/'') (rev p))"

definition rstrip_chars :: "string \<Rightarrow> string \<Rightarrow> string" where
  "rstrip_chars cs s = rev (dropWhile (\<lambda>c. c \<in> set cs) (rev s))"

definition dirname :: "string \<Rightarrow> string" where
  "dirname p =
     (let head = path_head p in
      if head \<noteq> [] \<and> (\<exists>c \<in> set head. c \<noteq> CHR ''/'') then rstrip_chars ''/'' head else head)"

text \<open>\<^verbatim>\<open>splitext(p)[1]\<close>: from the last dot of the file name, unless only dots come before it.\<close>

definition path_extension :: "string \<Rightarrow> string" where
  "path_extension p =
     (let name = basename p; ext = rev (takeWhile (\<lambda>c. c \<noteq> CHR ''.'') (rev name));
          stem = take (length name - Suc (length ext)) name in
      if CHR ''.'' \<in> set name \<and> (\<exists>c \<in> set stem. c \<noteq> CHR ''.'') then CHR ''.'' # ext else [])"

lemma head_basename: "path_head p @ basename p = p"
  unfolding path_head_def basename_def
  by (metis rev_append rev_rev_ident takeWhile_dropWhile_id)

lemma basename_no_slash: "CHR ''/'' \<notin> set (basename p)"
  by (auto simp: basename_def dest: set_takeWhileD)

lemma path_head_word: "CHR ''/'' \<notin> set w \<Longrightarrow> path_head (d @ CHR ''/'' # w) = d @ ''/''"
  by (auto simp: path_head_def dropWhile_append3)

lemma basename_word: "CHR ''/'' \<notin> set w \<Longrightarrow> basename (d @ CHR ''/'' # w) = w"
  unfolding basename_def rev_append rev.simps append_assoc by (subst takeWhile_append2) auto

lemma rstrip_snoc: "c \<in> set cs \<Longrightarrow> rstrip_chars cs (s @ [c]) = rstrip_chars cs s"
  by (simp add: rstrip_chars_def)

lemma rstrip_last: "s = [] \<or> last s \<notin> set cs \<Longrightarrow> rstrip_chars cs s = s"
  by (cases s rule: rev_cases) (auto simp: rstrip_chars_def)

lemma dirname_word:
  assumes "CHR ''/'' \<notin> set w" and "d \<noteq> []" and "last d \<noteq> CHR ''/''"
  shows "dirname (d @ CHR ''/'' # w) = d"
proof -
  have "\<exists>c \<in> set d. c \<noteq> CHR ''/''" using assms(2,3) last_in_set by blast
  then show ?thesis
    using assms by (simp add: dirname_def Let_def path_head_word rstrip_snoc rstrip_last)
qed

lemma length_rstrip: "length (rstrip_chars cs s) \<le> length s"
  using length_dropWhile_le [of _ "rev s"] by (simp add: rstrip_chars_def)

lemma length_path_head: "length (path_head p) \<le> length p"
  using length_dropWhile_le [of _ "rev p"] by (simp add: path_head_def)

text \<open>Going up ends at a string of slashes or at the empty string.\<close>

lemma dirname_shorter: "dirname p \<noteq> p \<Longrightarrow> length (dirname p) < length p"
proof -
  assume ne: "dirname p \<noteq> p"
  let ?h = "path_head p"
  show "length (dirname p) < length p"
  proof (cases "?h \<noteq> [] \<and> (\<exists>c \<in> set ?h. c \<noteq> CHR ''/'')")
    case True
    then obtain s c where h: "?h = s @ [c]" by (cases "?h" rule: rev_cases) auto
    then have "dropWhile (\<lambda>c. c \<noteq> CHR ''/'') (rev p) = c # rev s" by (simp add: path_head_def rev_swap)
    then have "c = CHR ''/''" using hd_dropWhile [of "\<lambda>c. c \<noteq> CHR ''/''" "rev p"] by simp
    then have "length (rstrip_chars ''/'' ?h) < length ?h"
      using length_rstrip [of "''/''" s] by (simp add: h rstrip_snoc)
    with True length_path_head [of p] show ?thesis by (simp add: dirname_def Let_def)
  next
    case False
    then have d: "dirname p = ?h" unfolding dirname_def Let_def by auto
    with ne head_basename [of p] have "basename p \<noteq> []" by auto
    with head_basename [of p] have "length ?h < length p"
      by (metis length_append less_add_same_cancel1 length_greater_0_conv)
    with d show ?thesis by simp
  qed
qed

section \<open>Normal and relative paths\<close>

text \<open>The loop of \<^verbatim>\<open>normpath\<close> over the components.\<close>

fun norm_step :: "bool \<Rightarrow> string list \<Rightarrow> string \<Rightarrow> string list" where
  "norm_step absolute parts part =
     (if part = [] \<or> part = ''.'' then parts
      else if part \<noteq> ''..'' \<or> (\<not> absolute \<and> parts = []) \<or> (parts \<noteq> [] \<and> last parts = ''..'')
      then parts @ [part]
      else if parts \<noteq> [] then butlast parts else parts)"

definition normpath :: "string \<Rightarrow> string" where
  "normpath p =
     (if p = [] then ''.''
      else let slashes = (if \<not> isabs p then 0 else if startswith p ''//'' \<and> \<not> startswith p ''///'' then 2 else 1 :: nat);
               path = replicate slashes (CHR ''/'')
                 @ str_join ''/'' (foldl (norm_step (slashes \<noteq> 0)) [] (split_char (CHR ''/'') p))
           in if path = [] then ''.'' else path)"

definition abspath :: "string \<Rightarrow> string \<Rightarrow> string" where
  "abspath cwd p = normpath (if isabs p then p else path_join cwd p)"

fun common_prefix :: "'a list \<Rightarrow> 'a list \<Rightarrow> nat" where
  "common_prefix (x # xs) (y # ys) = (if x = y then Suc (common_prefix xs ys) else 0)"
| "common_prefix _ _ = 0"

lemma common_prefix_self [simp]: "common_prefix xs xs = length xs"
  by (induction xs) auto

definition path_parts :: "string \<Rightarrow> string list" where
  "path_parts p = filter (\<lambda>w. w \<noteq> []) (split_char (CHR ''/'') p)"

definition relpath :: "string \<Rightarrow> string \<Rightarrow> string \<Rightarrow> string res" where
  "relpath cwd path start =
     (if path = [] then Inl ValueError
      else let start_list = path_parts (abspath cwd start);
               path_list = path_parts (abspath cwd path);
               i = common_prefix start_list path_list;
               rel_list = replicate (length start_list - i) ''..'' @ drop i path_list
           in Inr (if rel_list = [] then ''.'' else str_join ''/'' rel_list))"

end
