(* ===== verification/Version.thy ===== *)
theory Version
  imports Py_Paths
begin

text \<open>
  \<^verbatim>\<open>build/util/version.py\<close>: settings read from files of lines \<^verbatim>\<open>KEYWORD=VALUE\<close>, their
  substitution in a template, and the output that is written only when it changes. The disk is a
  map from names to contents with the names that cannot be written; \<^verbatim>\<open>eval\<close> is an argument.
\<close>

record disk =
  files :: "string \<Rightarrow> string option"
  refuses :: "string \<Rightarrow> bool"

definition open_read :: "disk \<Rightarrow> string \<Rightarrow> string res" where
  "open_read d name = (case files d name of None \<Rightarrow> Inl OSError | Some c \<Rightarrow> Inr c)"

text \<open>The lines of a file, each with its newline.\<close>

fun readlines :: "string \<Rightarrow> string list" where
  "readlines [] = []"
| "readlines (c # s) =
     (if c = CHR 0x0A then [c] # readlines s
      else case readlines s of [] \<Rightarrow> [[c]] | l # ls \<Rightarrow> (c # l) # ls)"

text \<open>\<^verbatim>\<open>key, val = s.split('=', 1)\<close>: unpacking fails without an equals sign.\<close>

definition split_setting :: "string \<Rightarrow> (string \<times> string) res" where
  "split_setting s =
     (if CHR ''='' \<in> set s
      then Inr (takeWhile (\<lambda>c. c \<noteq> CHR ''='') s, tl (dropWhile (\<lambda>c. c \<noteq> CHR ''='') s))
      else Inl ValueError)"

type_synonym settings = "(string \<times> string) list"

definition fetch_values_from_file :: "disk \<Rightarrow> string \<Rightarrow> settings \<Rightarrow> settings res" where
  "fetch_values_from_file d file_name values_dict =
     bind_res (open_read d file_name) (\<lambda>contents.
       fold_res (\<lambda>line vs. bind_res (split_setting (rstrip_chars [CHR 0x0D, CHR 0x0A] line))
                    (\<lambda>(key, val). Inr (dict_set key val vs)))
         (readlines contents) values_dict)"

definition fetch_values :: "disk \<Rightarrow> string option \<Rightarrow> string list \<Rightarrow> bool \<Rightarrow> settings res" where
  "fetch_values d CHROME_BUILD_TYPE file_list is_official_build =
     fold_res (fetch_values_from_file d) file_list
       [(''OFFICIAL_BUILD'',
         if CHROME_BUILD_TYPE = Some ''_official'' \<or> is_official_build then ''1'' else ''0'')]"

definition subst_template :: "string \<Rightarrow> settings \<Rightarrow> string" where
  "subst_template contents vs = fold (\<lambda>(key, val). str_replace (''@'' @ key @ ''@'') val) vs contents"

definition subst_file :: "disk \<Rightarrow> string \<Rightarrow> settings \<Rightarrow> string res" where
  "subst_file d file_name vs = bind_res (open_read d file_name) (\<lambda>template. Inr (subst_template template vs))"

definition write_if_changed :: "string \<Rightarrow> string \<Rightarrow> (disk, unit) st" where
  "write_if_changed file_name contents d =
     (if files d file_name = Some contents then (Inr (), d)
      else if refuses d file_name then (Inl OSError, d)
      else (Inr (), d\<lparr>files := (files d)(file_name := Some contents)\<rparr>))"

section \<open>The main program\<close>

record version_options =
  opt_file :: "string list"
  opt_input :: "string option"
  opt_output :: "string option"
  opt_template :: "string option"
  opt_eval :: "string list"
  opt_official :: bool
  opt_args :: "string list"

definition parse_evals :: "string list \<Rightarrow> settings res" where
  "parse_evals exprs =
     fold_res (\<lambda>e evals. case split_setting e of
         Inl _ \<Rightarrow> Inl SystemExit
       | Inr (key, val) \<Rightarrow> Inr (dict_set key val evals)) exprs []"

fun positional :: "string list \<Rightarrow> string option \<Rightarrow> string option \<Rightarrow> string list \<times> string option \<times> string option" where
  "positional [] i out = ([], i, out)"
| "positional (a # as) i out =
     (if i = None then positional as (Some a) out
      else if out = None then positional as i (Some a)
      else (a # as, i, out))"

definition default_contents :: "settings \<Rightarrow> string res" where
  "default_contents vs =
     bind_res (map_res (\<lambda>key. case dict_get vs key of
           None \<Rightarrow> Inl KeyError | Some v \<Rightarrow> Inr (key @ ''='' @ v @ [CHR 0x0A]))
         [''MAJOR'', ''MINOR'', ''BUILD'', ''PATCH'', ''LASTCHANGE'', ''OFFICIAL_BUILD''])
       (\<lambda>ls. Inr (concat ls))"

text \<open>The exit code and what is printed.\<close>

definition version_main ::
    "(string \<Rightarrow> settings \<Rightarrow> string res) \<Rightarrow> string option \<Rightarrow> version_options \<Rightarrow> (disk, int \<times> string option) st" where
  "version_main eval_expr build_type options d =
     (case positional (opt_args options) (opt_input options) (opt_output options) of (left_over, inp, out) \<Rightarrow>
       bind_st (lift_res (
         bind_res (parse_evals (opt_eval options)) (\<lambda>evals.
           if left_over \<noteq> [] then Inl SystemExit
           else bind_res (fetch_values d build_type (opt_file options) (opt_official options)) (\<lambda>vs.
             bind_res (fold_res (\<lambda>(key, val) vs. bind_res (eval_expr val vs) (\<lambda>x. Inr (dict_set key x vs))) evals vs) (\<lambda>vs.
               case opt_template options of
                 Some template \<Rightarrow> Inr (subst_template template vs)
               | None \<Rightarrow> if inp \<noteq> None \<and> inp \<noteq> Some [] then subst_file d (the inp) vs else default_contents vs)))))
         (\<lambda>contents. case out of
             Some name \<Rightarrow> seq_st (write_if_changed name contents) (return_st (0, None))
           | None \<Rightarrow> return_st (0, Some contents)) d)"

section \<open>Settings read back\<close>

definition setting_line :: "string \<times> string \<Rightarrow> string" where
  "setting_line kv = fst kv @ ''='' @ snd kv @ [CHR 0x0A]"

definition plain_setting :: "string \<times> string \<Rightarrow> bool" where
  "plain_setting kv \<longleftrightarrow>
     CHR ''='' \<notin> set (fst kv) \<and> CHR 0x0A \<notin> set (fst kv) \<and> CHR 0x0A \<notin> set (snd kv) \<and>
     (snd kv = [] \<or> last (snd kv) \<noteq> CHR 0x0D)"

lemma readlines_line: "CHR 0x0A \<notin> set s \<Longrightarrow> readlines (s @ CHR 0x0A # r) = (s @ [CHR 0x0A]) # readlines r"
  by (induction s) auto

lemma readlines_settings:
  "\<forall>kv \<in> set kvs. plain_setting kv \<Longrightarrow> readlines (concat (map setting_line kvs)) = map setting_line kvs"
proof (induction kvs)
  case (Cons kv kvs)
  then have "CHR 0x0A \<notin> set (fst kv @ ''='' @ snd kv)" by (simp add: plain_setting_def)
  from readlines_line [OF this, of "concat (map setting_line kvs)"] Cons show ?case
    by (simp add: setting_line_def [of kv])
qed simp

lemma split_setting_line:
  assumes "plain_setting kv"
  shows "split_setting (rstrip_chars [CHR 0x0D, CHR 0x0A] (setting_line kv)) = Inr kv"
proof -
  let ?s = "fst kv @ ''='' @ snd kv"
  have "last ?s \<notin> set [CHR 0x0D, CHR 0x0A]"
  proof (cases "snd kv = []")
    case False
    have "last (snd kv) \<noteq> CHR 0x0A"
    proof
      assume "last (snd kv) = CHR 0x0A"
      with last_in_set [OF False] assms show False by (simp add: plain_setting_def)
    qed
    with False assms show ?thesis by (simp add: plain_setting_def)
  qed simp
  then have "rstrip_chars [CHR 0x0D, CHR 0x0A] (?s @ [CHR 0x0A]) = ?s"
    by (subst rstrip_snoc) (simp_all add: rstrip_last)
  then have strip: "rstrip_chars [CHR 0x0D, CHR 0x0A] (setting_line kv) = ?s" by (simp add: setting_line_def)
  have "takeWhile (\<lambda>c. c \<noteq> CHR ''='') ?s = fst kv" "dropWhile (\<lambda>c. c \<noteq> CHR ''='') ?s = ''='' @ snd kv"
    using assms by (auto simp: plain_setting_def takeWhile_append dropWhile_append)
  then show ?thesis unfolding strip by (simp add: split_setting_def)
qed

text \<open>
  A file of lines \<^verbatim>\<open>KEYWORD=VALUE\<close> is read into exactly these settings, a later line replacing an
  earlier one with the same keyword; a value may hold further equals signs.
\<close>

theorem settings_read_back:
  assumes "files d name = Some (concat (map setting_line kvs))" and "\<forall>kv \<in> set kvs. plain_setting kv"
  shows "fetch_values_from_file d name vs = Inr (fold (\<lambda>(k, v). dict_set k v) kvs vs)"
proof -
  have "fold_res (\<lambda>line vs. bind_res (split_setting (rstrip_chars [CHR 0x0D, CHR 0x0A] line))
      (\<lambda>(key, val). Inr (dict_set key val vs))) (map setting_line kvs) vs = Inr (fold (\<lambda>(k, v). dict_set k v) kvs vs)"
    using assms(2) by (induction kvs arbitrary: vs) (auto simp: split_setting_line split: prod.splits)
  with assms readlines_settings show ?thesis by (simp add: fetch_values_from_file_def open_read_def)
qed

theorem settings_read_back_witness:
  "fetch_values_from_file \<lparr>files = (\<lambda>n. if n = ''VERSION'' then Some (''MAJOR=5'' @ [CHR 0x0A] @ ''ARGS=a=b'' @ [CHR 0x0A]) else None),
      refuses = (\<lambda>_. False)\<rparr> ''VERSION'' [(''MAJOR'', ''4'')] = Inr [(''MAJOR'', ''5''), (''ARGS'', ''a=b'')]"
  using settings_read_back [of "\<lparr>files = (\<lambda>n. if n = ''VERSION'' then Some (''MAJOR=5'' @ [CHR 0x0A] @ ''ARGS=a=b'' @ [CHR 0x0A]) else None),
      refuses = (\<lambda>_. False)\<rparr>" "''VERSION''" "[(''MAJOR'', ''5''), (''ARGS'', ''a=b'')]" "[(''MAJOR'', ''4'')]"]
  by (simp add: setting_line_def plain_setting_def)

lemma write_if_changed_writes:
  "write_if_changed name contents d = (Inr (), e) \<Longrightarrow>
     files e name = Some contents \<and> (\<forall>n. n \<noteq> name \<longrightarrow> files e n = files d n) \<and>
     (files d name = Some contents \<longrightarrow> e = d)"
  by (auto simp: write_if_changed_def split: if_splits)

end
