(* ===== verification/Deps_Rules.thy ===== *)
theory Deps_Rules
  imports Py_Paths
begin

text \<open>
  \<^verbatim>\<open>buildtools/checkdeps/rules.py\<close>: the rules that say which paths the files of a directory may
  include. \<open>re_match pattern name\<close> stands for \<^verbatim>\<open>re.match\<close> on the regular expressions of a DEPS
  file. The locale \<open>covering\<close> states what adding a rule relies on; its lemmas show that the rules
  dropped by \<^verbatim>\<open>AddRule\<close> are the ones no lookup could have reached.
\<close>

section \<open>Rules\<close>

text \<open>A \<^verbatim>\<open>MessageRule\<close> is a rule with a reason, which replaces its printed form.\<close>

record rule =
  allow :: char
  rule_dir :: string
  dependent_dir :: string
  rule_source :: string
  reason :: "string option"

definition ALLOW :: char where "ALLOW = CHR ''+''"
definition DISALLOW :: char where "DISALLOW = CHR ''-''"
definition TEMP_ALLOW :: char where "TEMP_ALLOW = CHR ''!''"

definition Rule :: "char \<Rightarrow> string \<Rightarrow> string \<Rightarrow> string \<Rightarrow> rule" where
  "Rule a directory dependent_directory src =
     \<lparr>allow = a, rule_dir = directory, dependent_dir = dependent_directory, rule_source = src, reason = None\<rparr>"

definition MessageRule :: "string \<Rightarrow> rule" where
  "MessageRule why = (Rule DISALLOW [] [] [])\<lparr>reason := Some why\<rparr>"

definition Rule_str :: "rule \<Rightarrow> string" where
  "Rule_str r = (case reason r of
       Some why \<Rightarrow> why
     | None \<Rightarrow> [CHR 0x22, allow r] @ rule_dir r @ [CHR 0x22] @ '' from '' @ rule_source r @ ''.'')"

definition AsDependencyTuple :: "rule \<Rightarrow> char \<times> string \<times> string" where
  "AsDependencyTuple r =
     (allow r, if dependent_dir r = [] then ''.'' else dependent_dir r,
      if rule_dir r = [] then ''.'' else rule_dir r)"

definition ParentOrMatch :: "rule \<Rightarrow> string \<Rightarrow> bool" where
  "ParentOrMatch r other \<longleftrightarrow> rule_dir r = other \<or> startswith (rule_dir r) (other @ ''/'')"

definition ChildOrMatch :: "rule \<Rightarrow> string \<Rightarrow> bool" where
  "ChildOrMatch r other \<longleftrightarrow> rule_dir r = other \<or> startswith other (rule_dir r @ ''/'')"

definition ParseRuleString :: "string \<Rightarrow> (char \<times> string) res" where
  "ParseRuleString rule_string =
     (case rule_string of
        [] \<Rightarrow> Inl PlainException
      | c # r \<Rightarrow> if c \<notin> {ALLOW, DISALLOW, TEMP_ALLOW} then Inl PlainException else Inr (c, r))"

section \<open>Sets of rules\<close>

record rules =
  general_rules :: "rule list"
  specific_rules :: "(string \<times> rule list) list"

definition Rules :: rules where
  "Rules = \<lparr>general_rules = [], specific_rules = []\<rparr>"

definition Rules_str :: "rules \<Rightarrow> string" where
  "Rules_str rs =
     (let nl = [CHR 0x0A];
          block = (\<lambda>xs. str_join nl (map (\<lambda>x. ''      '' @ Rule_str x) xs)) in
      str_join nl
        ([''Rules = {'' @ nl @ ''    (apply to all files): ['' @ nl @ block (general_rules rs) @ nl @ ''    ],'']
         @ map (\<lambda>(regexp, xs). ''    (limited to files matching '' @ regexp @ ''): ['' @ nl @ block xs @ nl @ ''    ]'')
             (specific_rules rs)
         @ [''  }'']))"

definition AddDependencyTuplesImpl ::
    "rule list \<Rightarrow> string \<Rightarrow> (char \<times> string \<times> string) list \<Rightarrow> (char \<times> string \<times> string) list" where
  "AddDependencyTuplesImpl xs extra_dependent_suffix deps =
     fold (\<lambda>r. case AsDependencyTuple r of (a, dependent, dependee) \<Rightarrow>
             set_add (a, dependent @ extra_dependent_suffix, dependee)) xs deps"

definition AsDependencyTuples :: "rules \<Rightarrow> bool \<Rightarrow> bool \<Rightarrow> (char \<times> string \<times> string) list" where
  "AsDependencyTuples rs include_general_rules include_specific_rules =
     (let deps = (if include_general_rules then AddDependencyTuplesImpl (general_rules rs) [] [] else []) in
      if include_specific_rules
      then fold (\<lambda>(regexp, xs). AddDependencyTuplesImpl xs (''/'' @ regexp)) (specific_rules rs) deps
      else deps)"

text \<open>\<open>dependee_regexp\<close> is \<open>None\<close> or the empty string for a general rule.\<close>

definition AddRule :: "string \<Rightarrow> string \<Rightarrow> string \<Rightarrow> string option \<Rightarrow> rules \<Rightarrow> rules res" where
  "AddRule rule_string dependent src dependee_regexp rs =
     bind_res (ParseRuleString rule_string) (\<lambda>(rule_type, d).
       let general = (dependee_regexp = None \<or> dependee_regexp = Some []);
           rules_to_update =
             (if general then general_rules rs
              else case dict_get (specific_rules rs) (the dependee_regexp) of None \<Rightarrow> [] | Some xs \<Rightarrow> xs);
           updated = Rule rule_type d dependent src # filter (\<lambda>x. \<not> ParentOrMatch x d) rules_to_update
       in Inr (if general then rs\<lparr>general_rules := updated\<rparr>
               else rs\<lparr>specific_rules := dict_set (the dependee_regexp) updated (specific_rules rs)\<rparr>))"

text \<open>The first rule of a list that covers the path.\<close>

definition first_rule :: "string \<Rightarrow> rule list \<Rightarrow> rule option" where
  "first_rule include_path xs = find (\<lambda>r. ChildOrMatch r include_path) xs"

fun specific_rule :: "(string \<Rightarrow> string \<Rightarrow> bool) \<Rightarrow> string \<Rightarrow> string \<Rightarrow> (string \<times> rule list) list \<Rightarrow> rule option" where
  "specific_rule re_match include_path filename [] = None"
| "specific_rule re_match include_path filename ((regexp, xs) # others) =
     (case (if re_match regexp filename then first_rule include_path xs else None) of
        Some r \<Rightarrow> Some r
      | None \<Rightarrow> specific_rule re_match include_path filename others)"

definition RuleApplyingTo :: "(string \<Rightarrow> string \<Rightarrow> bool) \<Rightarrow> rules \<Rightarrow> string \<Rightarrow> string \<Rightarrow> rule" where
  "RuleApplyingTo re_match rs include_path dependee_path =
     (case specific_rule re_match include_path (basename dependee_path) (specific_rules rs) of
        Some r \<Rightarrow> r
      | None \<Rightarrow> (case first_rule include_path (general_rules rs) of
          Some r \<Rightarrow> r
        | None \<Rightarrow> MessageRule ''no rule applying.''))"

section \<open>What adding a rule relies on\<close>

locale covering =
  fixes covers :: "'d \<Rightarrow> 'd \<Rightarrow> bool" and key :: "'r \<Rightarrow> 'd"
  assumes covers_refl: "covers d d"
    and covers_trans: "covers a b \<Longrightarrow> covers b c \<Longrightarrow> covers a c"
begin

lemma prune_find:
  "find (\<lambda>x. covers (key x) p) (r # filter (\<lambda>x. \<not> covers (key r) (key x)) xs) =
   find (\<lambda>x. covers (key x) p) (r # xs)"
proof (cases "covers (key r) p")
  case False
  then have "find (\<lambda>x. covers (key x) p) (filter (\<lambda>x. \<not> covers (key r) (key x)) xs) =
      find (\<lambda>x. covers (key x) p) xs"
    by (induction xs) (auto dest: covers_trans)
  with False show ?thesis by simp
qed simp

text \<open>A list built by adding at the front and dropping what is covered answers as the full log does.\<close>

lemma pruned_log_find:
  "find (\<lambda>x. covers (key x) p) (foldl (\<lambda>xs r. r # filter (\<lambda>x. \<not> covers (key r) (key x)) xs) xs log) =
   find (\<lambda>x. covers (key x) p) (rev log @ xs)"
proof (induction log arbitrary: xs)
  case (Cons r log)
  have "find (\<lambda>x. covers (key x) p) (rev log @ r # filter (\<lambda>x. \<not> covers (key r) (key x)) xs) =
      find (\<lambda>x. covers (key x) p) (rev log @ r # xs)"
    using prune_find [of p r xs] by (simp add: find_append split: option.split)
  with Cons show ?case by simp
qed simp

lemma pruned_keys_distinct:
  "distinct (map key xs) \<Longrightarrow> distinct (map key (r # filter (\<lambda>x. \<not> covers (key r) (key x)) xs))"
  by (induction xs) (auto simp: covers_refl)

end

definition path_covers :: "string \<Rightarrow> string \<Rightarrow> bool" where
  "path_covers d p \<longleftrightarrow> d = p \<or> startswith p (d @ ''/'')"

interpretation rule_log: covering path_covers rule_dir
  by unfold_locales (auto simp: path_covers_def startswith_iff)

lemma ChildOrMatch_covers: "ChildOrMatch r p = path_covers (rule_dir r) p"
  by (simp add: ChildOrMatch_def path_covers_def)

lemma ParentOrMatch_covers: "ParentOrMatch r d = path_covers d (rule_dir r)"
  by (auto simp: ParentOrMatch_def path_covers_def)

end
