(* ===== verification/Deps_Builder.thy ===== *)
theory Deps_Builder
  imports Deps_Rules
begin

text \<open>
  \<^verbatim>\<open>buildtools/checkdeps/builddeps.py\<close>: the rules of a directory, made from the DEPS files on the
  way from the base directory. What the system answers is the argument \<open>env\<close>: the files and
  directories, the variables a DEPS file leaves when it is executed, the files git knows and the
  matcher of regular expressions. What a verbose run prints is left out.
\<close>

section \<open>The system\<close>

record deps_scope =
  include_rules :: "string list option"
  specific_include_rules :: "(string \<times> string list) list option"
  skip_child_includes :: "string list option"

record deps_env =
  re_match :: "string \<Rightarrow> string \<Rightarrow> bool"
  cwd :: string
  path_exists :: "string \<Rightarrow> bool"
  isdir :: "string \<Rightarrow> bool"
  islink :: "string \<Rightarrow> bool"
  listdir :: "string \<Rightarrow> string list"
  exec_DEPS :: "string \<Rightarrow> deps_scope res option"
  git_ls_files :: "string \<Rightarrow> string list"
  file_lines :: "string \<Rightarrow> string list res"

text \<open>\<^verbatim>\<open>exec_DEPS path\<close> is \<open>None\<close> where \<^verbatim>\<open>os.path.isfile(path)\<close> is false.\<close>

section \<open>The builder\<close>

record deps_builder =
  base_directory :: string
  under_test :: bool
  ignore_temp_rules :: bool
  ignore_specific_rules :: bool
  is_git :: bool
  git_source_directories :: "string list option"
  directory_rules :: "(string \<times> rules option) list"

definition NormalizePath :: "string \<Rightarrow> string" where
  "NormalizePath p = str_replace ''/'' ''/'' p"

lemma NormalizePath_id [simp]: "NormalizePath p = p"
  unfolding NormalizePath_def str_replace_char by (induction p) auto

text \<open>Adding a directory and its parents, up to one that is listed.\<close>

function add_parents :: "string \<Rightarrow> string list \<Rightarrow> string list" where
  "add_parents dir_path dirs =
     (if dir_path \<in> set dirs then dirs else add_parents (dirname dir_path) (dirs @ [dir_path]))"
  by pat_completeness auto
termination
proof (relation "measure (\<lambda>(p, dirs). 2 * length p + (if p \<in> set dirs then 0 else 1))", goal_cases)
  case (2 p dirs)
  then show ?case using dirname_shorter [of p] by (cases "dirname p = p") auto
qed simp

declare add_parents.simps [simp del]

definition GitSourceDirectories :: "deps_env \<Rightarrow> string \<Rightarrow> string list" where
  "GitSourceDirectories env base =
     fold (\<lambda>line. add_parents (NormalizePath (path_join base (dirname line))))
       (git_ls_files env base) [NormalizePath base]"

definition ApplyOneRule :: "deps_builder \<Rightarrow> string \<Rightarrow> string option \<Rightarrow> string \<Rightarrow> rules \<Rightarrow> rules res" where
  "ApplyOneRule b relative_dir dependee_regexp rule_str rs =
     (if ignore_temp_rules b \<and> startswith rule_str [TEMP_ALLOW] then Inr rs
      else let rule_block_name =
                 (if dependee_regexp = None \<or> dependee_regexp = Some [] then ''include_rules''
                  else ''specific_include_rules'');
               rule_description =
                 (if relative_dir \<noteq> [] then relative_dir @ [CHR 0x27] @ ''s '' @ rule_block_name
                  else ''the top level '' @ rule_block_name)
           in AddRule rule_str relative_dir rule_description dependee_regexp rs)"

definition ApplyRules ::
    "deps_env \<Rightarrow> deps_builder \<Rightarrow> rules \<Rightarrow> string list \<Rightarrow> (string \<times> string list) list \<Rightarrow> string \<Rightarrow> rules res" where
  "ApplyRules env b existing_rules includes specific_includes cur_dir_norm =
     (let base_dir_norm = NormalizePath (base_directory b) in
      if \<not> startswith cur_dir_norm base_dir_norm then Inl PlainException
      else bind_res (relpath (cwd env) cur_dir_norm base_dir_norm) (\<lambda>relative_dir.
        let src = (if relative_dir = [] then ''top level'' else relative_dir) in
        bind_res (AddRule (''+'' @ relative_dir) relative_dir (''Default rule for '' @ src) None existing_rules) (\<lambda>rs.
          bind_res (fold_res (ApplyOneRule b relative_dir None) includes rs) (\<lambda>rs.
            if ignore_specific_rules b then Inr rs
            else fold_res (\<lambda>(regexp, xs). fold_res (ApplyOneRule b relative_dir (Some regexp)) xs)
                   specific_includes rs))))"

text \<open>\<^verbatim>\<open>Var(name)\<close> in a DEPS file; \<open>None\<close> is a file that has not set \<^verbatim>\<open>vars\<close>.\<close>

definition Lookup :: "(string \<times> string) list option \<Rightarrow> string \<Rightarrow> string res" where
  "Lookup vars var_name =
     (case vars of None \<Rightarrow> Inl PlainException
      | Some d \<Rightarrow> (case dict_get d var_name of None \<Rightarrow> Inl PlainException | Some v \<Rightarrow> Inr v))"

definition no_scope :: deps_scope where
  "no_scope = \<lparr>include_rules = None, specific_include_rules = None, skip_child_includes = None\<rparr>"

definition deps_of :: "deps_env \<Rightarrow> deps_builder \<Rightarrow> string \<Rightarrow> deps_scope res" where
  "deps_of env b dir_path =
     (case exec_DEPS env (path_join dir_path ''DEPS'') of
        None \<Rightarrow> Inr no_scope
      | Some r \<Rightarrow> if under_test b \<and> basename dir_path = ''checkdeps'' then Inr no_scope else r)"

definition ApplyDirectoryRules ::
    "deps_env \<Rightarrow> deps_builder \<Rightarrow> rules \<Rightarrow> string \<Rightarrow> (rules \<times> string list) res" where
  "ApplyDirectoryRules env b existing_rules dir_path_local_abs =
     bind_res (deps_of env b dir_path_local_abs) (\<lambda>scope.
       bind_res (ApplyRules env b existing_rules
                  (case include_rules scope of None \<Rightarrow> [] | Some xs \<Rightarrow> xs)
                  (case specific_include_rules scope of None \<Rightarrow> [] | Some xs \<Rightarrow> xs)
                  (NormalizePath dir_path_local_abs))
         (\<lambda>rs. Inr (rs, case skip_child_includes scope of None \<Rightarrow> [] | Some xs \<Rightarrow> xs)))"

definition set_rules :: "string \<Rightarrow> rules option \<Rightarrow> deps_builder \<Rightarrow> deps_builder" where
  "set_rules d r b = b\<lparr>directory_rules := dict_set d r (directory_rules b)\<rparr>"

definition ApplyDirectoryRulesAndSkipSubdirs :: "deps_env \<Rightarrow> rules \<Rightarrow> string \<Rightarrow> (deps_builder, unit) st" where
  "ApplyDirectoryRulesAndSkipSubdirs env parent_rules dir_path_local_abs b =
     (case ApplyDirectoryRules env b parent_rules dir_path_local_abs of
        Inl e \<Rightarrow> (Inl e, b)
      | Inr (rs, excluded_subdirs) \<Rightarrow>
          let dir_path_norm = NormalizePath dir_path_local_abs in
          (Inr (), fold (\<lambda>subdir. set_rules (path_join dir_path_norm subdir) None) excluded_subdirs
             (set_rules dir_path_norm (Some rs) b)))"

text \<open>
  The recursion of \<^verbatim>\<open>GetDirectoryRules\<close> on absolute paths. A path above the base directory is
  never found and the interpreter ends the recursion at the root with an error.
\<close>

function rules_of :: "deps_env \<Rightarrow> string \<Rightarrow> (deps_builder, rules option) st" where
  "rules_of env dir_path b =
     (case dict_get (directory_rules b) (NormalizePath dir_path) of
        Some r \<Rightarrow> (Inr r, b)
      | None \<Rightarrow>
          if dirname dir_path = dir_path then (Inl RuntimeError, b)
          else case rules_of env (dirname dir_path) b of
              (Inl e, c) \<Rightarrow> (Inl e, c)
            | (Inr parent_rules, c) \<Rightarrow>
                (case dict_get (directory_rules c) (NormalizePath dir_path) of
                   Some r \<Rightarrow> (Inr r, c)
                 | None \<Rightarrow>
                     bind_st (case parent_rules of
                         Some rs \<Rightarrow> ApplyDirectoryRulesAndSkipSubdirs env rs dir_path
                       | None \<Rightarrow> modify_st (set_rules (NormalizePath dir_path) None))
                       (\<lambda>_ d. (case dict_get (directory_rules d) (NormalizePath dir_path) of
                                 Some r \<Rightarrow> Inr r | None \<Rightarrow> Inl KeyError, d)) c))"
  by pat_completeness auto
termination
  by (relation "measure (\<lambda>(_, p, _). length p)") (auto intro: dirname_shorter)

declare rules_of.simps [simp del]

definition GetDirectoryRules :: "deps_env \<Rightarrow> string \<Rightarrow> (deps_builder, rules option) st" where
  "GetDirectoryRules env dir_path_local b =
     rules_of env (if isabs dir_path_local then dir_path_local else path_join (base_directory b) dir_path_local) b"

text \<open>The last step of the constructor: the rules of the base directory.\<close>

definition start_builder :: "deps_env \<Rightarrow> deps_builder \<Rightarrow> deps_builder res" where
  "start_builder env b =
     (case ApplyDirectoryRulesAndSkipSubdirs env Rules (base_directory b) b of
        (Inl e, _) \<Rightarrow> Inl e | (Inr _, b) \<Rightarrow> Inr b)"

definition new_builder :: "deps_env \<Rightarrow> string \<Rightarrow> bool \<Rightarrow> bool \<Rightarrow> bool \<Rightarrow> bool \<Rightarrow> deps_builder" where
  "new_builder env base being_tested ignore_temp ignore_specific git =
     \<lparr>base_directory = abspath (cwd env) base, under_test = being_tested,
      ignore_temp_rules = ignore_temp, ignore_specific_rules = ignore_specific,
      is_git = git, git_source_directories = None, directory_rules = []\<rparr>"

definition DepsBuilder :: "deps_env \<Rightarrow> string \<Rightarrow> string \<Rightarrow> bool \<Rightarrow> bool \<Rightarrow> bool \<Rightarrow> deps_builder res" where
  "DepsBuilder env script_path base being_tested ignore_temp ignore_specific =
     (let base = (if base \<noteq> [] then base
                  else path_join (path_join (dirname script_path) ''..'') ''..'');
          builder = new_builder env base being_tested ignore_temp ignore_specific
      in if path_exists env (path_join base ''.git'') then start_builder env (builder True)
         else if path_exists env (path_join base ''.svn'') then start_builder env (builder False)
         else Inl DepsBuilderError)"

section \<open>Walking the tree\<close>

definition in_repository :: "deps_env \<Rightarrow> string \<Rightarrow> deps_builder \<Rightarrow> bool" where
  "in_repository env current_dir b =
     (if is_git b then NormalizePath current_dir \<in> set (the (git_source_directories b))
      else path_exists env (path_join current_dir ''.svn''))"

text \<open>
  One turn of the loop of \<^verbatim>\<open>GetAllRulesAndFiles\<close>: the last of \<open>dirs_to_check\<close> is taken, and the
  result is what the generator yields for it, if anything, and the directories that wait.
\<close>

definition walk_step ::
    "deps_env \<Rightarrow> string list \<Rightarrow> (deps_builder, (rules \<times> string list) option \<times> string list) st" where
  "walk_step env dirs_to_check b =
     (let current_dir = last dirs_to_check; waiting = butlast dirs_to_check in
      if \<not> in_repository env current_dir b then (Inr (None, waiting), b)
      else bind_st (GetDirectoryRules env current_dir) (\<lambda>current_dir_rules.
        return_st (case current_dir_rules of
          None \<Rightarrow> (None, waiting)
        | Some rs \<Rightarrow>
            (let full_names = map (path_join current_dir) (sort (listdir env current_dir));
                 sub_dirs = filter (isdir env) full_names;
                 file_names = filter (\<lambda>f. \<not> isdir env f) full_names in
             (Some (rs, file_names), waiting @ rev sub_dirs)))) b)"

text \<open>The start: the directories git knows are listed once.\<close>

definition walk_start :: "deps_env \<Rightarrow> string \<Rightarrow> (deps_builder, string list) st" where
  "walk_start env dir_name =
     seq_st (modify_st (\<lambda>b. if is_git b \<and> git_source_directories b = None
               then b\<lparr>git_source_directories := Some (GitSourceDirectories env (base_directory b))\<rparr> else b))
       (gets_st (\<lambda>b. [if dir_name = [] then base_directory b
                      else if isabs dir_name then dir_name else path_join (base_directory b) dir_name]))"

text \<open>
  All a caller gets from the generator; \<open>None\<close> when the fuel, one unit for each directory, does not
  reach.
\<close>

fun walk :: "deps_env \<Rightarrow> nat \<Rightarrow> string list \<Rightarrow> (deps_builder, (rules \<times> string list) list option) st" where
  "walk env fuel [] b = (Inr (Some []), b)"
| "walk env 0 (d # ds) b = (Inr None, b)"
| "walk env (Suc fuel) (d # ds) b =
     bind_st (walk_step env (d # ds)) (\<lambda>(y, waiting).
       bind_st (walk env fuel waiting) (\<lambda>ys.
         return_st (map_option (\<lambda>ys. case y of None \<Rightarrow> ys | Some p \<Rightarrow> p # ys) ys))) b"

definition GetAllRulesAndFiles ::
    "deps_env \<Rightarrow> nat \<Rightarrow> string \<Rightarrow> (deps_builder, (rules \<times> string list) list option) st" where
  "GetAllRulesAndFiles env fuel dir_name = bind_st (walk_start env dir_name) (walk env fuel)"

end
