(* ===== verification/Deps_Directories.thy ===== *)
theory Deps_Directories
  imports Deps_Builder
begin

text \<open>
  What the cached recursion of \<^verbatim>\<open>GetDirectoryRules\<close> computes. A directory is named by the list of
  the words below the base directory, innermost first. \<open>dir_rules\<close> is the specification: the rules
  of the parent with those of the directory's DEPS file, or nothing below a skipped directory.
\<close>

section \<open>Directories below the base\<close>

definition is_word :: "string \<Rightarrow> bool" where
  "is_word w \<longleftrightarrow> w \<noteq> [] \<and> CHR ''/'' \<notin> set w"

definition is_base :: "string \<Rightarrow> bool" where
  "is_base d \<longleftrightarrow> isabs d \<and> last d \<noteq> CHR ''/''"

fun dir_path :: "string \<Rightarrow> string list \<Rightarrow> string" where
  "dir_path base [] = base"
| "dir_path base (w # ws) = dir_path base ws @ ''/'' @ w"

lemma is_base_nonempty: "is_base d \<Longrightarrow> d \<noteq> []"
  by (auto simp: is_base_def isabs_def startswith_def)

lemma dir_path_shape:
  "is_base base \<Longrightarrow> list_all is_word ws \<Longrightarrow> is_base (dir_path base ws)"
  by (induction ws) (auto simp: is_base_def is_word_def isabs_def startswith_iff dest: last_in_set)

lemma dirname_dir_path:
  assumes "is_base base" and "list_all is_word (w # ws)"
  shows "dirname (dir_path base (w # ws)) = dir_path base ws"
  using dir_path_shape [of base ws] assms is_base_nonempty
  by (auto simp: is_base_def is_word_def intro!: dirname_word)

lemma basename_dir_path: "is_word w \<Longrightarrow> basename (dir_path base (w # ws)) = w"
  by (simp add: basename_word is_word_def)

lemma length_dir_path: "length base \<le> length (dir_path base ws)"
  by (induction ws) auto

lemma dir_path_not_base: "dir_path base (w # ws) \<noteq> base"
proof
  assume "dir_path base (w # ws) = base"
  then have "length (dir_path base (w # ws)) = length base" by simp
  with length_dir_path [of base ws] show False by simp
qed

lemma dir_path_inj:
  assumes "is_base base"
  shows "list_all is_word ws \<Longrightarrow> list_all is_word vs \<Longrightarrow> dir_path base ws = dir_path base vs \<Longrightarrow> ws = vs"
proof (induction ws arbitrary: vs)
  case Nil
  then show ?case using dir_path_not_base [of base] by (cases vs) (simp, metis dir_path.simps(1))
next
  case (Cons w ws)
  show ?case
  proof (cases vs)
    case Nil
    with Cons.prems(3) dir_path_not_base [of base w ws] show ?thesis by (simp del: dir_path.simps(2))
  next
    case v: (Cons v us)
    from Cons.prems have "w = v" using basename_dir_path [of w base ws] basename_dir_path [of v base us] v by simp
    moreover have "ws = us"
      using Cons.prems v dirname_dir_path [OF assms, of w ws] dirname_dir_path [OF assms, of v us]
      by (intro Cons.IH) auto
    ultimately show ?thesis by (simp add: v)
  qed
qed

lemma path_join_word: "is_base d \<Longrightarrow> is_word w \<Longrightarrow> path_join d w = d @ ''/'' @ w"
  using is_base_nonempty [of d]
  by (cases w) (auto simp: path_join_def is_base_def is_word_def startswith_def)

section \<open>The specification\<close>

fun dir_rules :: "deps_env \<Rightarrow> deps_builder \<Rightarrow> string list \<Rightarrow> (rules \<times> string list) option res" where
  "dir_rules env b [] =
     bind_res (ApplyDirectoryRules env b Rules (base_directory b)) (\<lambda>x. Inr (Some x))"
| "dir_rules env b (w # ws) =
     bind_res (dir_rules env b ws) (\<lambda>parent. case parent of
         None \<Rightarrow> Inr None
       | Some (rs, skips) \<Rightarrow>
           if w \<in> set skips then Inr None
           else bind_res (ApplyDirectoryRules env b rs (dir_path (base_directory b) (w # ws))) (\<lambda>x. Inr (Some x)))"

text \<open>The parts of a builder that never change.\<close>

definition same_config :: "deps_builder \<Rightarrow> deps_builder \<Rightarrow> bool" where
  "same_config b c \<longleftrightarrow>
     base_directory c = base_directory b \<and> under_test c = under_test b \<and>
     ignore_temp_rules c = ignore_temp_rules b \<and> ignore_specific_rules c = ignore_specific_rules b"

lemma ApplyOneRule_config: "same_config b c \<Longrightarrow> ApplyOneRule c = ApplyOneRule b"
  by (intro ext) (simp add: ApplyOneRule_def same_config_def)

lemma ApplyDirectoryRules_config: "same_config b c \<Longrightarrow> ApplyDirectoryRules env c = ApplyDirectoryRules env b"
proof (intro ext)
  fix rs d
  assume c: "same_config b c"
  then have e: "base_directory c = base_directory b" "under_test c = under_test b"
      "ignore_specific_rules c = ignore_specific_rules b"
    by (simp_all add: same_config_def)
  show "ApplyDirectoryRules env c rs d = ApplyDirectoryRules env b rs d"
    unfolding ApplyDirectoryRules_def ApplyRules_def deps_of_def ApplyOneRule_config [OF c] e ..
qed

lemma dir_rules_config: "same_config b c \<Longrightarrow> dir_rules env c ws = dir_rules env b ws"
proof (induction ws)
  case Nil
  then show ?case by (simp add: ApplyDirectoryRules_config) (simp add: same_config_def)
next
  case (Cons w ws)
  then have e: "base_directory c = base_directory b" by (simp add: same_config_def)
  show ?case unfolding dir_rules.simps Cons.IH [OF Cons.prems] ApplyDirectoryRules_config [OF Cons.prems] e ..
qed

text \<open>The lists of directories to skip hold single words.\<close>

definition skips_are_words :: "deps_env \<Rightarrow> deps_builder \<Rightarrow> bool" where
  "skips_are_words env b \<longleftrightarrow>
     (\<forall>d scope xs. deps_of env b d = Inr scope \<longrightarrow> skip_child_includes scope = Some xs \<longrightarrow> list_all is_word xs)"

lemma skips_words:
  assumes "skips_are_words env b" and "ApplyDirectoryRules env b rs d = Inr (rs', skips)"
  shows "list_all is_word skips"
  using assms unfolding skips_are_words_def
  by (auto simp: ApplyDirectoryRules_def bind_res_Inr_iff split: option.splits)

section \<open>The invariant of the cache\<close>

definition cache_facts :: "deps_env \<Rightarrow> deps_builder \<Rightarrow> deps_builder \<Rightarrow> bool" where
  "cache_facts env b c \<longleftrightarrow> same_config b c \<and>
     (\<forall>ws r. list_all is_word ws \<longrightarrow> dict_get (directory_rules c) (dir_path (base_directory b) ws) = Some r \<longrightarrow>
        (\<exists>x. dir_rules env b ws = Inr x \<and> r = map_option fst x)) \<and>
     (\<forall>ws rs skips s. list_all is_word ws \<longrightarrow>
        dict_get (directory_rules c) (dir_path (base_directory b) ws) \<noteq> None \<longrightarrow>
        dir_rules env b ws = Inr (Some (rs, skips)) \<longrightarrow> s \<in> set skips \<longrightarrow>
        dict_get (directory_rules c) (dir_path (base_directory b) (s # ws)) \<noteq> None)"

text \<open>Once the builder is made, the base directory is in the cache.\<close>

definition cache_ok :: "deps_env \<Rightarrow> deps_builder \<Rightarrow> deps_builder \<Rightarrow> bool" where
  "cache_ok env b c \<longleftrightarrow> cache_facts env b c \<and> dict_get (directory_rules c) (base_directory b) \<noteq> None"

lemma cache_facts_skipped:
  "cache_facts env b c \<Longrightarrow> list_all is_word ws \<Longrightarrow>
     dict_get (directory_rules c) (dir_path (base_directory b) ws) \<noteq> None \<Longrightarrow>
     dir_rules env b ws = Inr (Some (rs, skips)) \<Longrightarrow> s \<in> set skips \<Longrightarrow>
     dict_get (directory_rules c) (dir_path (base_directory b) (s # ws)) \<noteq> None"
  unfolding cache_facts_def by blast

lemma skip_all_get:
  "dict_get (directory_rules (fold (\<lambda>s. set_rules (f s) None) xs c)) p =
     (if p \<in> f ` set xs then Some None else dict_get (directory_rules c) p)"
  by (induction xs arbitrary: c) (auto simp: set_rules_def)

lemma skip_all_config: "same_config b (fold (\<lambda>s. set_rules (f s) None) xs c) \<longleftrightarrow> same_config b c"
  by (induction xs arbitrary: c) (auto simp: set_rules_def same_config_def)

text \<open>Entries the invariant allows: a directory with what the specification says and its skipped children.\<close>

lemma cache_facts_set:
  assumes inv: "cache_facts env b c" and base: "is_base (base_directory b)" and ws: "list_all is_word ws"
    and spec: "dir_rules env b ws = Inr x"
    and skips: "\<And>rs skips. x = Some (rs, skips) \<Longrightarrow> set skips = set xs" and xs: "list_all is_word xs"
    and none: "x = None \<Longrightarrow> xs = []"
  shows "cache_facts env b (fold (\<lambda>s. set_rules (path_join (dir_path (base_directory b) ws) s) None) xs
    (set_rules (dir_path (base_directory b) ws) (map_option fst x) c))" (is "cache_facts env b ?c")
proof -
  let ?p = "dir_path (base_directory b)"
  let ?get = "\<lambda>c vs. dict_get (directory_rules c) (?p vs)"
  have join: "path_join (?p ws) s = ?p (s # ws)" if "s \<in> set xs" for s
    using path_join_word dir_path_shape [OF base ws] xs that by (simp add: list_all_iff)
  have get: "?get ?c vs = (if \<exists>s \<in> set xs. vs = s # ws then Some None
      else if vs = ws then Some (map_option fst x) else ?get c vs)" if vs: "list_all is_word vs" for vs
  proof -
    have "?p vs = path_join (?p ws) s \<longleftrightarrow> vs = s # ws" if "s \<in> set xs" for s
      using join [OF that] dir_path_inj [OF base vs, of "s # ws"] ws xs that by (auto simp: list_all_iff)
    then have "?p vs \<in> path_join (?p ws) ` set xs \<longleftrightarrow> (\<exists>s \<in> set xs. vs = s # ws)" by (auto simp: image_iff)
    moreover have "?p vs = ?p ws \<longleftrightarrow> vs = ws" using dir_path_inj [OF base vs ws] by auto
    ultimately show ?thesis by (simp add: skip_all_get) (simp add: set_rules_def)
  qed
  have spec_skip: "dir_rules env b (s # ws) = Inr None" if "s \<in> set xs" for s
    using spec skips none that by (cases x) auto
  from inv have i: "same_config b c"
    "\<And>vs r. list_all is_word vs \<Longrightarrow> ?get c vs = Some r \<Longrightarrow> \<exists>x. dir_rules env b vs = Inr x \<and> r = map_option fst x"
    "\<And>vs rs skips s. list_all is_word vs \<Longrightarrow> ?get c vs \<noteq> None \<Longrightarrow> dir_rules env b vs = Inr (Some (rs, skips)) \<Longrightarrow>
       s \<in> set skips \<Longrightarrow> ?get c (s # vs) \<noteq> None"
    by (auto simp: cache_facts_def)
  have mono: "?get ?c vs \<noteq> None" if "?get c vs \<noteq> None" for vs
    using that by (simp add: skip_all_get) (simp add: set_rules_def)
  have third: "\<exists>y. dir_rules env b vs = Inr y \<and> r = map_option fst y"
    if vs: "list_all is_word vs" and r: "?get ?c vs = Some r" for vs r
  proof -
    from r have r': "(if \<exists>s \<in> set xs. vs = s # ws then Some None
        else if vs = ws then Some (map_option fst x) else ?get c vs) = Some r" unfolding get [OF vs] .
    consider s where "s \<in> set xs" "vs = s # ws" "r = None" | "vs = ws" "r = map_option fst x"
      | "?get c vs = Some r"
    proof (cases "\<exists>s \<in> set xs. vs = s # ws")
      case True
      with r' that(1) show ?thesis by auto
    next
      case False
      with r' that(2,3) show ?thesis by (cases "vs = ws") simp_all
    qed
    then show ?thesis
    proof cases
      case 1
      with spec_skip [OF 1(1)] show ?thesis by (intro exI [of _ None]) (simp del: dir_rules.simps(2))
    next
      case 2
      with spec show ?thesis by blast
    next
      case 3
      then show ?thesis by (rule i(2) [OF vs])
    qed
  qed
  have fourth: "?get ?c (s # vs) \<noteq> None"
    if vs: "list_all is_word vs" and d: "?get ?c vs \<noteq> None"
      and y: "dir_rules env b vs = Inr (Some (rs, sk))" "s \<in> set sk" for vs rs sk s
  proof (cases "vs = ws")
    case True
    with y spec skips have s: "s \<in> set xs" by simp
    with xs ws True have "list_all is_word (s # vs)" by (simp add: list_all_iff)
    from get [OF this] s True show ?thesis by auto
  next
    case False
    moreover have "\<not> (\<exists>s \<in> set xs. vs = s # ws)" using spec_skip y(1) by auto
    ultimately have "?get c vs \<noteq> None" using d get [OF vs] by auto
    from i(3) [OF vs this y] show ?thesis by (rule mono)
  qed
  have "same_config b ?c" using i(1) by (simp add: skip_all_config) (simp add: set_rules_def same_config_def)
  then show ?thesis unfolding cache_facts_def using third fourth by (auto simp del: dir_path.simps(2))
qed

lemma cache_ok_set:
  assumes "cache_ok env b c" and "is_base (base_directory b)" and "list_all is_word ws"
    and "dir_rules env b ws = Inr x"
    and "\<And>rs skips. x = Some (rs, skips) \<Longrightarrow> set skips = set xs" and "list_all is_word xs"
    and "x = None \<Longrightarrow> xs = []"
  shows "cache_ok env b (fold (\<lambda>s. set_rules (path_join (dir_path (base_directory b) ws) s) None) xs
    (set_rules (dir_path (base_directory b) ws) (map_option fst x) c))"
proof -
  have "cache_facts env b (fold (\<lambda>s. set_rules (path_join (dir_path (base_directory b) ws) s) None) xs
      (set_rules (dir_path (base_directory b) ws) (map_option fst x) c))"
    by (rule cache_facts_set [OF _ assms(2-)]) (use assms(1) in \<open>simp add: cache_ok_def\<close>)
  with assms(1) show ?thesis by (simp add: cache_ok_def skip_all_get) (simp add: set_rules_def)
qed

section \<open>The recursion\<close>

text \<open>The step for a directory that is not in the cache when its parent is.\<close>

lemma rules_of_fresh:
  assumes p_def: "p = dir_path (base_directory b) (w # ws)" and base: "is_base (base_directory b)" and words: "skips_are_words env b"
    and inv: "cache_ok env b d" and ws: "list_all is_word (w # ws)"
    and x: "dir_rules env b ws = Inr x"
    and parent: "dict_get (directory_rules d) (dir_path (base_directory b) ws) = Some (map_option fst x)"
    and fresh: "dict_get (directory_rules d) p = None"
  shows "\<exists>r e. bind_st (case map_option fst x of
                Some rs \<Rightarrow> ApplyDirectoryRulesAndSkipSubdirs env rs p
              | None \<Rightarrow> modify_st (set_rules p None))
              (\<lambda>_ e. (case dict_get (directory_rules e) p of Some q \<Rightarrow> Inr q | None \<Rightarrow> Inl KeyError, e)) d = (r, e) \<and>
      cache_ok env b e \<and> r = bind_res (dir_rules env b (w # ws)) (\<lambda>x. Inr (map_option fst x)) \<and>
      (\<forall>x. r = Inr x \<longrightarrow> dict_get (directory_rules e) p = Some x)"
proof (cases x)
  case None
  then have "dir_rules env b (w # ws) = Inr None" using x by simp
  with cache_ok_set [OF inv base ws this, of "[]"] None show ?thesis
    by (simp add: py_defs p_def del: dir_path.simps(2)) (simp add: set_rules_def)
next
  case (Some y)
  obtain rs skips where y: "y = (rs, skips)" by force
  have "w \<notin> set skips"
    using cache_facts_skipped [of env b d ws rs skips w] inv ws parent x Some y fresh
    by (auto simp: p_def cache_ok_def simp del: dir_path.simps(2))
  then have spec: "dir_rules env b (w # ws) = bind_res (ApplyDirectoryRules env b rs p) (\<lambda>x. Inr (Some x))"
    using x Some y by (simp add: p_def)
  have conf: "ApplyDirectoryRules env d = ApplyDirectoryRules env b"
    using inv by (intro ApplyDirectoryRules_config) (simp add: cache_ok_def cache_facts_def)
  show ?thesis
  proof (cases "ApplyDirectoryRules env b rs p")
    case (Inl e)
    with Some y spec inv show ?thesis
      by (simp add: py_defs ApplyDirectoryRulesAndSkipSubdirs_def conf)
  next
    case (Inr z)
    obtain rs' xs where z: "z = (rs', xs)" by force
    have xs: "list_all is_word xs" using skips_words [OF words] Inr z by blast
    let ?e = "fold (\<lambda>s. set_rules (path_join p s) None) xs (set_rules p (Some rs') d)"
    have "cache_ok env b ?e"
      using cache_ok_set [OF inv base ws, of "Some (rs', xs)" xs] spec Inr z xs by (simp add: p_def)
    moreover have "p \<notin> path_join p ` set xs"
      using xs path_join_word [OF dir_path_shape [OF base ws]] by (auto simp: p_def list_all_iff)
    then have "dict_get (directory_rules ?e) p = Some (Some rs')"
      by (simp add: skip_all_get) (simp add: set_rules_def)
    ultimately show ?thesis
      using Some y spec Inr z by (simp add: py_defs ApplyDirectoryRulesAndSkipSubdirs_def conf)
  qed
qed

lemma rules_of_refines:
  assumes base: "is_base (base_directory b)" and words: "skips_are_words env b"
  shows "cache_ok env b c \<Longrightarrow> list_all is_word ws \<Longrightarrow>
    \<exists>r d. rules_of env (dir_path (base_directory b) ws) c = (r, d) \<and> cache_ok env b d \<and>
      r = bind_res (dir_rules env b ws) (\<lambda>x. Inr (map_option fst x)) \<and>
      (\<forall>x. r = Inr x \<longrightarrow> dict_get (directory_rules d) (dir_path (base_directory b) ws) = Some x)"
proof (induction ws arbitrary: c)
  case Nil
  then obtain r where "dict_get (directory_rules c) (base_directory b) = Some r" by (auto simp: cache_ok_def)
  moreover from this Nil have "\<exists>x. dir_rules env b [] = Inr x \<and> r = map_option fst x"
    by (auto simp: cache_ok_def cache_facts_def dest: spec [of _ "[]"])
  ultimately show ?case using Nil by (subst rules_of.simps) auto
next
  case (Cons w ws)
  let ?p = "dir_path (base_directory b) (w # ws)"
  have known: "\<exists>x. dir_rules env b (w # ws) = Inr x \<and> r = map_option fst x"
    if "cache_ok env b d" "dict_get (directory_rules d) ?p = Some r" for d r
    using that Cons.prems(2) unfolding cache_ok_def cache_facts_def by blast
  show ?case
  proof (cases "dict_get (directory_rules c) ?p")
    case (Some r)
    from known [OF Cons.prems(1) Some] Some Cons.prems(1) show ?thesis
      by (subst rules_of.simps) (auto simp del: dir_path.simps(2) dir_rules.simps(2))
  next
    case None
    note dn = dirname_dir_path [OF base Cons.prems(2)]
    from Cons.IH [OF Cons.prems(1)] Cons.prems(2) obtain r d where
      r: "rules_of env (dir_path (base_directory b) ws) c = (r, d)" "cache_ok env b d"
        "r = bind_res (dir_rules env b ws) (\<lambda>x. Inr (map_option fst x))"
        "\<forall>x. r = Inr x \<longrightarrow> dict_get (directory_rules d) (dir_path (base_directory b) ws) = Some x" by auto
    have step: "rules_of env ?p c = (case r of
        Inl e \<Rightarrow> (Inl e, d)
      | Inr parent \<Rightarrow> (case dict_get (directory_rules d) ?p of
            Some q \<Rightarrow> (Inr q, d)
          | None \<Rightarrow> bind_st (case parent of
                Some rs \<Rightarrow> ApplyDirectoryRulesAndSkipSubdirs env rs ?p
              | None \<Rightarrow> modify_st (set_rules ?p None))
              (\<lambda>_ e. (case dict_get (directory_rules e) ?p of Some q \<Rightarrow> Inr q | None \<Rightarrow> Inl KeyError, e)) d))"
    proof -
      have "dirname ?p \<noteq> ?p" unfolding dn by simp
      then show ?thesis
        unfolding rules_of.simps [of env ?p c] NormalizePath_id using None dn r(1)
        by (simp del: dir_path.simps(2) split: sum.split)
    qed
    show ?thesis
    proof (cases "dir_rules env b ws")
      case (Inl e)
      with r step show ?thesis by (simp del: dir_path.simps(2))
    next
      case (Inr x)
      with r have r': "r = Inr (map_option fst x)"
        "dict_get (directory_rules d) (dir_path (base_directory b) ws) = Some (map_option fst x)" by simp_all
      show ?thesis
      proof (cases "dict_get (directory_rules d) ?p")
        case (Some q)
        from known [OF r(2) Some] Some r(2) show ?thesis
          unfolding step r'(1) by (auto simp del: dir_path.simps(2) dir_rules.simps(2))
      next
        case fresh: None
        from rules_of_fresh [OF refl base words r(2) Cons.prems(2) Inr r'(2) fresh] show ?thesis
          unfolding step r'(1) using fresh by (simp del: dir_path.simps(2) dir_rules.simps(2))
      qed
    qed
  qed
qed

section \<open>A new builder\<close>

lemma cache_ok_init:
  assumes "DepsBuilder env script_path base being_tested ignore_temp ignore_specific = Inr b"
    and base: "is_base (base_directory b)" and words: "skips_are_words env b"
  shows "cache_ok env b b"
proof -
  from assms(1) obtain d git where "start_builder env (new_builder env d being_tested ignore_temp ignore_specific git) = Inr b"
    by (auto simp: DepsBuilder_def Let_def split: if_splits)
  then obtain c where c: "directory_rules c = []"
    and b: "ApplyDirectoryRulesAndSkipSubdirs env Rules (base_directory c) c = (Inr (), b)"
    using that [of "new_builder env d being_tested ignore_temp ignore_specific git"]
    by (auto simp: start_builder_def new_builder_def split: prod.splits sum.splits)
  from b obtain rs xs where rs: "ApplyDirectoryRules env c Rules (base_directory c) = Inr (rs, xs)"
    and b': "b = fold (\<lambda>s. set_rules (path_join (base_directory c) s) None) xs (set_rules (base_directory c) (Some rs) c)"
    by (auto simp: ApplyDirectoryRulesAndSkipSubdirs_def Let_def split: sum.splits)
  have "same_config c (set_rules (base_directory c) (Some rs) c)" by (simp add: same_config_def set_rules_def)
  then have "same_config c b" unfolding b' skip_all_config .
  then have cfg: "same_config b c" by (simp add: same_config_def)
  then have eq: "base_directory c = base_directory b" by (simp add: same_config_def)
  have "dir_rules env b [] = Inr (Some (rs, xs))"
    using rs ApplyDirectoryRules_config [OF cfg, of env] eq by simp
  moreover have "list_all is_word xs"
    by (rule skips_words [OF words]) (rule rs [unfolded ApplyDirectoryRules_config [OF cfg, of env]])
  moreover have "cache_facts env b c" using cfg c by (simp add: cache_facts_def)
  ultimately have "cache_facts env b (fold (\<lambda>s. set_rules (path_join (base_directory c) s) None) xs
      (set_rules (base_directory c) (Some rs) c))"
    using cache_facts_set [of env b c "[]" "Some (rs, xs)" xs] base by (simp add: eq)
  then have "cache_facts env b b" unfolding b' [symmetric] .
  moreover have "dict_get (directory_rules b) (base_directory c) \<noteq> None"
    unfolding b' by (simp add: skip_all_get) (simp add: set_rules_def)
  ultimately show ?thesis by (simp add: cache_ok_def eq)
qed

end
