(* ===== verification/Deps_Verdict.thy ===== *)
theory Deps_Verdict
  imports Deps_Directories
begin

text \<open>
  Which rule decides about an include: the rules of a directory answer as the log of all rules from
  the base directory down to it, read from the latest to the earliest.
\<close>

section \<open>The log of a directory\<close>

text \<open>The rule a line of a DEPS file stands for.\<close>

definition explicit_rule :: "string \<Rightarrow> string \<Rightarrow> string option \<Rightarrow> rule" where
  "explicit_rule relative_dir rule_str dependee_regexp =
     Rule (hd rule_str) (tl rule_str) relative_dir
       ((if relative_dir \<noteq> [] then relative_dir @ [CHR 0x27] @ ''s '' else ''the top level '')
        @ (if dependee_regexp = None \<or> dependee_regexp = Some [] then ''include_rules''
           else ''specific_include_rules''))"

definition active_lines :: "deps_builder \<Rightarrow> string list \<Rightarrow> string list" where
  "active_lines b xs = filter (\<lambda>s. \<not> (ignore_temp_rules b \<and> startswith s [TEMP_ALLOW])) xs"

definition default_rule :: "string \<Rightarrow> rule" where
  "default_rule relative_dir =
     Rule ALLOW relative_dir relative_dir
       (''Default rule for '' @ (if relative_dir = [] then ''top level'' else relative_dir))"

text \<open>The general rules of a directory in the order in which they are added.\<close>

definition dir_log :: "deps_env \<Rightarrow> deps_builder \<Rightarrow> string \<Rightarrow> rule list" where
  "dir_log env b d =
     (case (relpath (cwd env) d (base_directory b), deps_of env b d) of
        (Inr relative_dir, Inr scope) \<Rightarrow>
          default_rule relative_dir
          # map (\<lambda>s. explicit_rule relative_dir s None)
              (active_lines b (case include_rules scope of None \<Rightarrow> [] | Some xs \<Rightarrow> xs))
          @ (if ignore_specific_rules b then []
             else concat (map (\<lambda>(regexp, xs). if regexp = [] then map (\<lambda>s. explicit_rule relative_dir s None) (active_lines b xs) else [])
                    (case specific_include_rules scope of None \<Rightarrow> [] | Some xs \<Rightarrow> xs)))
      | _ \<Rightarrow> [])"

fun dir_chain :: "string \<Rightarrow> string list \<Rightarrow> string list" where
  "dir_chain base [] = [base]"
| "dir_chain base (w # ws) = dir_chain base ws @ [dir_path base (w # ws)]"

definition add_general :: "rule list \<Rightarrow> rule \<Rightarrow> rule list" where
  "add_general xs r = r # filter (\<lambda>x. \<not> path_covers (rule_dir r) (rule_dir x)) xs"

section \<open>What applying rules adds\<close>

lemma AddRule_general:
  assumes "AddRule s dep src regexp rs = Inr rs'" and "regexp = None \<or> regexp = Some []"
  shows "general_rules rs' = add_general (general_rules rs) (Rule (hd s) (tl s) dep src)"
  using assms
  by (auto simp: AddRule_def ParseRuleString_def add_general_def Rule_def ParentOrMatch_covers
      split: list.splits if_splits)

lemma AddRule_specific:
  "AddRule s dep src (Some (c # r)) rs = Inr rs' \<Longrightarrow> general_rules rs' = general_rules rs"
  by (auto simp: AddRule_def bind_res_Inr_iff)

lemma explicit_rule_empty: "explicit_rule rel s (Some []) = explicit_rule rel s None"
  by (simp add: explicit_rule_def)

lemma ApplyOneRule_general:
  assumes "ApplyOneRule b rel regexp s rs = Inr rs'" and "regexp = None \<or> regexp = Some []"
  shows "general_rules rs' =
    foldl add_general (general_rules rs) (map (\<lambda>s. explicit_rule rel s None) (active_lines b [s]))"
  using assms AddRule_general [of s rel _ regexp rs rs']
  by (auto simp: ApplyOneRule_def active_lines_def explicit_rule_def Let_def split: if_splits)

lemma ApplyOneRule_specific:
  "ApplyOneRule b rel (Some (c # r)) s rs = Inr rs' \<Longrightarrow> general_rules rs' = general_rules rs"
  by (auto simp: ApplyOneRule_def Let_def dest: AddRule_specific split: if_splits)

lemma fold_ApplyOneRule_general:
  "fold_res (ApplyOneRule b rel regexp) xs rs = Inr rs' \<Longrightarrow> regexp = None \<or> regexp = Some [] \<Longrightarrow>
     general_rules rs' = foldl add_general (general_rules rs) (map (\<lambda>s. explicit_rule rel s None) (active_lines b xs))"
proof (induction xs arbitrary: rs)
  case (Cons s xs)
  then obtain rs1 where rs1: "ApplyOneRule b rel regexp s rs = Inr rs1" "fold_res (ApplyOneRule b rel regexp) xs rs1 = Inr rs'"
    by (auto simp: bind_res_Inr_iff)
  from Cons.IH [OF rs1(2) Cons.prems(2)] ApplyOneRule_general [OF rs1(1) Cons.prems(2)] show ?case
    by (simp add: active_lines_def)
qed (simp add: active_lines_def)

lemma fold_ApplyOneRule_specific:
  "fold_res (ApplyOneRule b rel (Some (c # r))) xs rs = Inr rs' \<Longrightarrow> general_rules rs' = general_rules rs"
  by (induction xs arbitrary: rs) (auto simp: bind_res_Inr_iff dest!: ApplyOneRule_specific)

lemma fold_specific_general:
  "fold_res (\<lambda>(regexp, xs). fold_res (ApplyOneRule b rel (Some regexp)) xs) sp rs = Inr rs' \<Longrightarrow>
     general_rules rs' = foldl add_general (general_rules rs)
       (concat (map (\<lambda>(regexp, xs). if regexp = [] then map (\<lambda>s. explicit_rule rel s None) (active_lines b xs) else []) sp))"
proof (induction sp arbitrary: rs)
  case (Cons p sp)
  obtain regexp xs where p: "p = (regexp, xs)" by force
  with Cons.prems obtain rs1 where rs1: "fold_res (ApplyOneRule b rel (Some regexp)) xs rs = Inr rs1"
    "fold_res (\<lambda>(regexp, xs). fold_res (ApplyOneRule b rel (Some regexp)) xs) sp rs1 = Inr rs'"
    by (auto simp: bind_res_Inr_iff)
  have "general_rules rs1 = foldl add_general (general_rules rs)
      (if regexp = [] then map (\<lambda>s. explicit_rule rel s None) (active_lines b xs) else [])"
    using fold_ApplyOneRule_general [OF rs1(1)] fold_ApplyOneRule_specific [of b rel "hd regexp" "tl regexp" xs rs rs1] rs1(1)
    by (cases regexp) auto
  with Cons.IH [OF rs1(2)] show ?case by (simp add: p)
qed simp

lemma ApplyDirectoryRules_general:
  assumes "ApplyDirectoryRules env b rs d = Inr (rs', skips)"
  shows "general_rules rs' = foldl add_general (general_rules rs) (dir_log env b d)"
proof -
  from assms obtain scope rel rs1 rs2 where
    scope: "deps_of env b d = Inr scope" and rel: "relpath (cwd env) d (base_directory b) = Inr rel"
    and rs1: "AddRule (''+'' @ rel) rel (''Default rule for '' @ (if rel = [] then ''top level'' else rel)) None rs = Inr rs1"
    and rs2: "fold_res (ApplyOneRule b rel None) (case include_rules scope of None \<Rightarrow> [] | Some xs \<Rightarrow> xs) rs1 = Inr rs2"
    and rs': "(if ignore_specific_rules b then Inr rs2 else
      fold_res (\<lambda>(regexp, xs). fold_res (ApplyOneRule b rel (Some regexp)) xs)
        (case specific_include_rules scope of None \<Rightarrow> [] | Some xs \<Rightarrow> xs) rs2) = Inr rs'"
    by (auto simp: ApplyDirectoryRules_def ApplyRules_def bind_res_Inr_iff Let_def split: if_splits)
  from AddRule_general [OF rs1] have 1: "general_rules rs1 = add_general (general_rules rs) (default_rule rel)"
    by (simp add: default_rule_def ALLOW_def)
  note 2 = fold_ApplyOneRule_general [OF rs2]
  show ?thesis
  proof (cases "ignore_specific_rules b")
    case True
    with rs' 1 2 scope rel show ?thesis by (simp add: dir_log_def)
  next
    case False
    with rs' fold_specific_general [of b rel _ rs2 rs'] 1 2 scope rel show ?thesis
      by (simp add: dir_log_def)
  qed
qed

lemma dir_rules_general:
  "dir_rules env b ws = Inr (Some (rs, skips)) \<Longrightarrow>
     general_rules rs = foldl add_general [] (concat (map (dir_log env b) (dir_chain (base_directory b) ws)))"
proof (induction ws arbitrary: rs skips)
  case Nil
  then show ?case
    using ApplyDirectoryRules_general [of env b Rules "base_directory b" rs skips]
    by (auto simp: bind_res_Inr_iff Rules_def)
next
  case (Cons w ws)
  from Cons.prems obtain rs0 skips0 where p: "dir_rules env b ws = Inr (Some (rs0, skips0))" and w: "w \<notin> set skips0"
    by (auto simp: bind_res_Inr_iff split: option.splits if_splits prod.splits)
  with Cons.prems have "ApplyDirectoryRules env b rs0 (dir_path (base_directory b) (w # ws)) = Inr (rs, skips)"
    by (auto simp: bind_res_Inr_iff)
  with p Cons.IH ApplyDirectoryRules_general show ?case by (simp del: dir_path.simps(2))
qed

lemma find_general:
  "first_rule p (foldl add_general [] log) = find (\<lambda>r. ChildOrMatch r p) (rev log)"
  using rule_log.pruned_log_find [of p "[]" log]
  unfolding first_rule_def ChildOrMatch_covers add_general_def by simp

end
