(* ===== verification/Deps_Results.thy ===== *)
theory Deps_Results
  imports Deps_Rules
begin

text \<open>
  \<^verbatim>\<open>buildtools/checkdeps/results.py\<close>: violations, the status of a file and the formatters. A
  formatter is a value of a datatype with one constructor per class. Values handed to
  \<^verbatim>\<open>json.dumps\<close> or printed with \<^verbatim>\<open>print\<close> stay structured.
\<close>

record DependencyViolation =
  include_path :: string
  violated_rule :: rule
  violation_rules :: rules

record DependeeStatus =
  dependee_path :: string
  violations :: "DependencyViolation list"

definition new_status :: "string \<Rightarrow> DependeeStatus" where
  "new_status p = \<lparr>dependee_path = p, violations = []\<rparr>"

definition AddViolation :: "DependencyViolation \<Rightarrow> DependeeStatus \<Rightarrow> DependeeStatus" where
  "AddViolation v s = s\<lparr>violations := violations s @ [v]\<rparr>"

definition HasViolations :: "DependeeStatus \<Rightarrow> bool" where
  "HasViolations s \<longleftrightarrow> violations s \<noteq> []"

section \<open>Formatters\<close>

record json_error =
  json_dependee :: string
  json_violations :: "(string \<times> (char \<times> string \<times> string)) list"

datatype formatter =
    NormalResultsFormatter "string list" bool
  | JSONResultsFormatter string "formatter option" "json_error list"
  | TemporaryRulesFormatter "string list"
  | CountViolationsFormatter nat

text \<open>What \<^verbatim>\<open>GetResults\<close> returns and what \<^verbatim>\<open>PrintResults\<close> prints.\<close>

datatype result_value = Lines "string list" | Errors "json_error list" | Text string

definition FormatViolation :: "DependencyViolation \<Rightarrow> bool \<Rightarrow> string" where
  "FormatViolation v verbose =
     str_join [CHR 0x0A]
       ((if verbose then [''  For '' @ Rules_str (violation_rules v)] else [])
        @ [''  Illegal include: '' @ [CHR 0x22] @ include_path v @ [CHR 0x22, CHR 0x0A]
             @ ''    Because of '' @ Rule_str (violated_rule v)])"

definition Normal_AddError :: "DependeeStatus \<Rightarrow> bool \<Rightarrow> string list \<Rightarrow> string list" where
  "Normal_AddError s verbose results =
     results @ [str_join [CHR 0x0A]
       (([CHR 0x0A] @ ''ERROR in '' @ dependee_path s) # map (\<lambda>v. FormatViolation v verbose) (violations s))]"

definition JSON_AddError :: "DependeeStatus \<Rightarrow> json_error list \<Rightarrow> json_error list" where
  "JSON_AddError s results =
     results @ [\<lparr>json_dependee = dependee_path s,
                 json_violations = map (\<lambda>v. (include_path v, AsDependencyTuple (violated_rule v))) (violations s)\<rparr>]"

definition Temporary_AddError :: "DependeeStatus \<Rightarrow> string list \<Rightarrow> string list" where
  "Temporary_AddError s paths = fold (\<lambda>v. set_add (include_path v)) (violations s) paths"

definition Count_AddError :: "DependeeStatus \<Rightarrow> nat \<Rightarrow> nat" where
  "Count_AddError s count = count + length (violations s)"

fun AddError :: "DependeeStatus \<Rightarrow> formatter \<Rightarrow> formatter" where
  "AddError s (NormalResultsFormatter results verbose) =
     NormalResultsFormatter (Normal_AddError s verbose results) verbose"
| "AddError s (JSONResultsFormatter path wrapped results) =
     JSONResultsFormatter path (map_option (AddError s) wrapped) (JSON_AddError s results)"
| "AddError s (TemporaryRulesFormatter paths) = TemporaryRulesFormatter (Temporary_AddError s paths)"
| "AddError s (CountViolationsFormatter count) = CountViolationsFormatter (Count_AddError s count)"

definition Temporary_GetResults :: "string list \<Rightarrow> string list" where
  "Temporary_GetResults paths =
     map (\<lambda>p. ''  '' @ [CHR 0x22] @ ''!'' @ p @ [CHR 0x22] @ '','') (sort paths)"

text \<open>The second component is the file a formatter writes.\<close>

fun GetResults :: "formatter \<Rightarrow> result_value \<times> (string \<times> json_error list) option" where
  "GetResults (NormalResultsFormatter results verbose) = (Lines results, None)"
| "GetResults (JSONResultsFormatter path wrapped results) = (Errors results, Some (path, results))"
| "GetResults (TemporaryRulesFormatter paths) = (Lines (Temporary_GetResults paths), None)"
| "GetResults (CountViolationsFormatter count) = (Text (str_nat count), None)"

definition Normal_PrintResults :: "string list \<Rightarrow> result_value list" where
  "Normal_PrintResults results =
     map Text results @ (if results \<noteq> [] then [Text ([CHR 0x0A] @ ''FAILED'' @ [CHR 0x0A])] else [])"

fun PrintResults :: "formatter \<Rightarrow> result_value list" where
  "PrintResults (NormalResultsFormatter results verbose) = Normal_PrintResults results"
| "PrintResults (JSONResultsFormatter path (Some wrapped) results) = PrintResults wrapped"
| "PrintResults (JSONResultsFormatter path None results) = [Errors results]"
| "PrintResults (TemporaryRulesFormatter paths) = map Text (Temporary_GetResults paths)"
| "PrintResults (CountViolationsFormatter count) = [Text (str_nat count)]"

text \<open>The truth value of what \<^verbatim>\<open>GetResults\<close> returns.\<close>

fun truth :: "result_value \<Rightarrow> bool" where
  "truth (Lines xs) \<longleftrightarrow> xs \<noteq> []"
| "truth (Errors es) \<longleftrightarrow> es \<noteq> []"
| "truth (Text s) \<longleftrightarrow> s \<noteq> []"

end
