(* ===== verification/Deps_Cpp.thy ===== *)
theory Deps_Cpp
  imports Deps_Results Deps_Builder
begin

text \<open>
  \<^verbatim>\<open>buildtools/checkdeps/cpp_checker.py\<close>: the includes of C++ files. The regular expression for
  include lines and \<^verbatim>\<open>strip\<close> are written out; the lines of a file come from the system.
\<close>

definition EXTENSIONS_cpp :: "string list" where
  "EXTENSIONS_cpp = [''.h'', ''.cc'', ''.cpp'', ''.m'', ''.mm'']"

definition MAX_UNINTERESTING_LINES :: nat where
  "MAX_UNINTERESTING_LINES = 50"

record CppChecker =
  resolve_dotdot :: bool
  root_dir :: string

definition is_blank :: "char \<Rightarrow> bool" where
  "is_blank c \<longleftrightarrow> c = CHR '' '' \<or> c = CHR 0x09"

text \<open>
  The expression \<^verbatim>\<open>[ \t]*#[ \t]*(?:include|import)[ \t]+"(.*)"\<close>. The group reaches to the last
  quote of the line.
\<close>

definition include_keyword :: "string \<Rightarrow> string option" where
  "include_keyword s =
     (if startswith s ''include'' then Some (drop 7 s)
      else if startswith s ''import'' then Some (drop 6 s) else None)"

definition quoted_group :: "string \<Rightarrow> string option" where
  "quoted_group s =
     (case s of [] \<Rightarrow> None
      | c # r \<Rightarrow>
          if c \<noteq> CHR 0x22 then None
          else let text_part = takeWhile (\<lambda>c. c \<noteq> CHR 0x0A) r;
                   back_part = dropWhile (\<lambda>c. c \<noteq> CHR 0x22) (rev text_part) in
               if back_part = [] then None else Some (rev (tl back_part)))"

definition EXTRACT_INCLUDE_PATH :: "string \<Rightarrow> string option" where
  "EXTRACT_INCLUDE_PATH line =
     (case dropWhile is_blank line of [] \<Rightarrow> None
      | c # r \<Rightarrow>
          if c \<noteq> CHR ''#'' then None
          else case include_keyword (dropWhile is_blank r) of None \<Rightarrow> None
            | Some s \<Rightarrow>
                if s = [] \<or> \<not> is_blank (hd s) then None else quoted_group (dropWhile is_blank s))"

definition CheckLine ::
    "deps_env \<Rightarrow> CppChecker \<Rightarrow> rules \<Rightarrow> string \<Rightarrow> string \<Rightarrow> bool \<Rightarrow> (bool \<times> DependencyViolation option) res" where
  "CheckLine env checker rs line dependee fail_on_temp_allow =
     (case EXTRACT_INCLUDE_PATH line of
        None \<Rightarrow> Inr (False, None)
      | Some path \<Rightarrow>
          if CHR 0x5C \<in> set path
          then Inr (True, Some \<lparr>include_path = path,
                 violated_rule = MessageRule ''Include paths may not include backslashes.'',
                 violation_rules = rs\<rparr>)
          else if CHR ''/'' \<notin> set path then Inr (True, None)
          else bind_res
            (if resolve_dotdot checker \<and> str_contains ''../'' path
             then relpath (cwd env) (path_join (dirname dependee) path) (root_dir checker)
             else Inr path)
            (\<lambda>path.
              let r = RuleApplyingTo (re_match env) rs path dependee in
              if allow r = DISALLOW \<or> (fail_on_temp_allow \<and> allow r = TEMP_ALLOW)
              then Inr (True, Some \<lparr>include_path = path, violated_rule = r, violation_rules = rs\<rparr>)
              else Inr (True, None)))"

text \<open>White space of a decoded line, as far as single bytes reach.\<close>

definition is_space :: "char \<Rightarrow> bool" where
  "is_space c \<longleftrightarrow> (of_char c :: nat) \<in> {9..13} \<union> {28..32} \<union> {133, 160}"

definition strip :: "string \<Rightarrow> string" where
  "strip s = rev (dropWhile is_space (rev (dropWhile is_space s)))"

text \<open>The loop of \<^verbatim>\<open>CheckFile\<close>: the line number, the last include, the depth in \<^verbatim>\<open>#if 0\<close>.\<close>

fun check_lines ::
    "deps_env \<Rightarrow> CppChecker \<Rightarrow> rules \<Rightarrow> string \<Rightarrow> nat \<Rightarrow> nat \<Rightarrow> nat \<Rightarrow> string list \<Rightarrow> DependeeStatus \<Rightarrow> DependeeStatus res" where
  "check_lines env checker rs path line_num last_include in_if0 [] status = Inr status"
| "check_lines env checker rs path line_num last_include in_if0 (l # ls) status =
     (if int line_num - int last_include > int MAX_UNINTERESTING_LINES then Inr status
      else let line = strip l in
        if startswith line ''#if 0''
        then check_lines env checker rs path (Suc line_num) last_include (Suc in_if0) ls status
        else if in_if0 > 0
        then check_lines env checker rs path (Suc line_num) last_include
               (if startswith line ''#if'' then Suc in_if0
                else if startswith line ''#endif'' then in_if0 - 1 else in_if0) ls status
        else bind_res (CheckLine env checker rs line path False) (\<lambda>(is_include, violation).
          check_lines env checker rs path (Suc line_num) (if is_include then line_num else last_include) in_if0 ls
            (case violation of None \<Rightarrow> status | Some v \<Rightarrow> AddViolation v status)))"

definition cpp_CheckFile :: "deps_env \<Rightarrow> CppChecker \<Rightarrow> rules \<Rightarrow> string \<Rightarrow> DependeeStatus res" where
  "cpp_CheckFile env checker rs filepath =
     bind_res (file_lines env filepath) (\<lambda>ls. check_lines env checker rs filepath 0 0 0 ls (new_status filepath))"

definition IsCppFile :: "string \<Rightarrow> bool" where
  "IsCppFile file_path \<longleftrightarrow> path_extension file_path \<in> set EXTENSIONS_cpp"

end
