(* ===== verification/Deps_Java.thy ===== *)
theory Deps_Java
  imports Deps_Cpp
begin

text \<open>
  \<^verbatim>\<open>buildtools/checkdeps/java_checker.py\<close>: the imports of Java files. A first pass over the tree
  builds the map from class names to files; the regular expressions are written out.
\<close>

definition EXTENSIONS_java :: "string list" where
  "EXTENSIONS_java = [''.java'']"

record JavaChecker =
  java_base :: string
  classmap :: "(string \<times> string) list"

definition IgnoreDir :: "string \<Rightarrow> bool" where
  "IgnoreDir d \<longleftrightarrow>
     startswith d ''.'' \<or> startswith d ''out'' \<or> d = ''xcodebuild'' \<or>
     d = ''third_party'' \<or> d = ''ThirdParty''"

text \<open>The classes \<^verbatim>\<open>\s\<close> and \<^verbatim>\<open>[\w\.]\<close> of an expression without flags.\<close>

definition re_space :: "char \<Rightarrow> bool" where
  "re_space c \<longleftrightarrow> (of_char c :: nat) \<in> {9..13} \<union> {32}"

definition re_word :: "char \<Rightarrow> bool" where
  "re_word c \<longleftrightarrow> is_alpha c \<or> is_digit c \<or> c = CHR ''_'' \<or> c = CHR ''.''"

text \<open>A keyword followed by white space: what remains.\<close>

definition after_word :: "string \<Rightarrow> string \<Rightarrow> string option" where
  "after_word w s =
     (if startswith s w \<and> length w < length s \<and> re_space (s ! length w)
      then Some (dropWhile re_space (drop (length w) s)) else None)"

text \<open>\<^verbatim>\<open>^package\s+([\w\.]+);\<close>\<close>

definition match_package :: "string \<Rightarrow> string option" where
  "match_package line =
     (case after_word ''package'' line of None \<Rightarrow> None
      | Some s \<Rightarrow> let w = takeWhile re_word s in
          if w \<noteq> [] \<and> startswith (drop (length w) s) '';'' then Some w else None)"

text \<open>
  \<^verbatim>\<open>^import\s+(?:static\s+)?([\w\.]+)\s*;\<close>. The matcher tries the optional word first and goes on
  without it when the rest does not match.
\<close>

definition import_group :: "string \<Rightarrow> string option" where
  "import_group s =
     (let w = takeWhile re_word s in
      if w \<noteq> [] \<and> startswith (dropWhile re_space (drop (length w) s)) '';'' then Some w else None)"

definition match_import :: "string \<Rightarrow> string option" where
  "match_import line =
     (case after_word ''import'' line of None \<Rightarrow> None
      | Some s \<Rightarrow>
          (case after_word ''static'' s of
             None \<Rightarrow> import_group s
           | Some t \<Rightarrow> (case import_group t of Some w \<Rightarrow> Some w | None \<Rightarrow> import_group s)))"

text \<open>The name of the class is the file name without its extension.\<close>

definition short_class_name :: "string \<Rightarrow> string" where
  "short_class_name filepath =
     (let name = basename filepath in take (length name - length (path_extension name)) name)"

fun prescan_lines :: "string \<Rightarrow> string list \<Rightarrow> JavaChecker \<Rightarrow> JavaChecker" where
  "prescan_lines filepath [] j = j"
| "prescan_lines filepath (l # ls) j =
     (case match_package l of
        None \<Rightarrow> prescan_lines filepath ls j
      | Some package \<Rightarrow>
          let full_class_name = package @ ''.'' @ short_class_name filepath in
          if dict_get (classmap j) full_class_name \<noteq> None then j
          else j\<lparr>classmap := dict_set full_class_name filepath (classmap j)\<rparr>)"

definition PrescanFile :: "deps_env \<Rightarrow> string \<Rightarrow> JavaChecker \<Rightarrow> JavaChecker res" where
  "PrescanFile env filepath j = bind_res (file_lines env filepath) (\<lambda>ls. Inr (prescan_lines filepath ls j))"

text \<open>
  The walk of \<^verbatim>\<open>os.walk\<close> from the top; links to directories are not followed. The directories that
  wait are a stack; \<open>None\<close> when the fuel, one unit for each directory, does not reach.
\<close>

fun prescan :: "deps_env \<Rightarrow> nat \<Rightarrow> string list \<Rightarrow> JavaChecker \<Rightarrow> JavaChecker option res" where
  "prescan env fuel [] j = Inr (Some j)"
| "prescan env 0 (root # waiting) j = Inr None"
| "prescan env (Suc fuel) (root # waiting) j =
     (let names = listdir env root;
          dirs = filter (\<lambda>d. \<not> IgnoreDir d) (filter (\<lambda>n. isdir env (path_join root n)) names);
          files = filter (\<lambda>n. \<not> isdir env (path_join root n)) names in
      bind_res (fold_res (\<lambda>f. PrescanFile env (path_join root f)) (filter (\<lambda>f. endswith f ''.java'') files) j)
        (prescan env fuel
          (filter (\<lambda>d. \<not> islink env d) (map (path_join root) dirs) @ waiting)))"

definition JavaChecker_init :: "deps_env \<Rightarrow> nat \<Rightarrow> string \<Rightarrow> JavaChecker option res" where
  "JavaChecker_init env fuel base = prescan env fuel [base] \<lparr>java_base = base, classmap = []\<rparr>"

definition java_CheckLine ::
    "deps_env \<Rightarrow> JavaChecker \<Rightarrow> rules \<Rightarrow> string \<Rightarrow> string \<Rightarrow> DependencyViolation option res" where
  "java_CheckLine env j rs filepath line =
     (case match_import line of
        None \<Rightarrow> Inr None
      | Some clazz \<Rightarrow>
          (case dict_get (classmap j) clazz of
             None \<Rightarrow> Inr None
           | Some file \<Rightarrow>
               bind_res (relpath (cwd env) file (java_base j)) (\<lambda>path.
                 let path = str_replace ''/'' ''/'' path; r = RuleApplyingTo (re_match env) rs path filepath in
                 Inr (if allow r = DISALLOW
                      then Some \<lparr>include_path = path, violated_rule = r, violation_rules = rs\<rparr> else None))))"

fun java_lines ::
    "deps_env \<Rightarrow> JavaChecker \<Rightarrow> rules \<Rightarrow> string \<Rightarrow> string list \<Rightarrow> DependeeStatus \<Rightarrow> DependeeStatus res" where
  "java_lines env j rs filepath [] status = Inr status"
| "java_lines env j rs filepath (l # ls) status =
     bind_res (java_CheckLine env j rs filepath l) (\<lambda>violation.
       let status = (case violation of None \<Rightarrow> status | Some v \<Rightarrow> AddViolation v status) in
       if CHR ''{'' \<in> set l then Inr status else java_lines env j rs filepath ls status)"

definition java_CheckFile :: "deps_env \<Rightarrow> JavaChecker \<Rightarrow> rules \<Rightarrow> string \<Rightarrow> DependeeStatus res" where
  "java_CheckFile env j rs filepath =
     bind_res (file_lines env filepath) (\<lambda>ls. java_lines env j rs filepath ls (new_status filepath))"

end
