(* ===== verification/Deps_Checker.thy ===== *)
theory Deps_Checker
  imports Deps_Java
begin

text \<open>
  \<^verbatim>\<open>buildtools/checkdeps/checkdeps.py\<close>: the checker that walks the tree, hands each file to the
  checker of its language and collects the results, the check of added includes, and the main
  program on parsed options.
\<close>

section \<open>Test files\<close>

text \<open>
  \<^verbatim>\<open>(test|mock|dummy)_.*|.*_[a-z]*test\.(cc|mm|java)\<close>: the second alternative looks for an
  underscore followed by lower case letters that end in \<^verbatim>\<open>test\<close> and an extension.
\<close>

definition is_lower :: "char \<Rightarrow> bool" where
  "is_lower c \<longleftrightarrow> (of_char c :: nat) \<in> {97..122}"

fun test_suffix :: "string \<Rightarrow> bool" where
  "test_suffix [] \<longleftrightarrow> False"
| "test_suffix (c # s) \<longleftrightarrow>
     c = CHR ''_'' \<and> endswith (takeWhile is_lower s) ''test'' \<and>
       (let t = dropWhile is_lower s in startswith t ''.cc'' \<or> startswith t ''.mm'' \<or> startswith t ''.java'')
     \<or> c \<noteq> CHR 0x0A \<and> test_suffix s"

definition IsTestFile :: "string \<Rightarrow> bool" where
  "IsTestFile filename \<longleftrightarrow>
     startswith filename ''test_'' \<or> startswith filename ''mock_'' \<or> startswith filename ''dummy_'' \<or>
     test_suffix filename"

section \<open>The checker\<close>

record deps_checker =
  builder :: deps_builder
  skip_tests :: bool
  checker_resolve_dotdot :: bool
  checker_verbose :: bool
  results_formatter :: formatter

definition DepsChecker ::
    "deps_env \<Rightarrow> string \<Rightarrow> string \<Rightarrow> bool \<Rightarrow> bool \<Rightarrow> bool \<Rightarrow> bool \<Rightarrow> bool \<Rightarrow> deps_checker res" where
  "DepsChecker env script_path base verbose being_tested ignore_temp skip resolve =
     bind_res (DepsBuilder env script_path base being_tested ignore_temp False) (\<lambda>b.
       Inr \<lparr>builder = b, skip_tests = skip, checker_resolve_dotdot = resolve, checker_verbose = verbose,
            results_formatter = NormalResultsFormatter [] verbose\<rparr>)"

text \<open>The exit code, the text that is printed and the file that is written.\<close>

definition Report :: "deps_checker \<Rightarrow> int \<times> result_value list \<times> (string \<times> json_error list) option" where
  "Report c =
     (if truth (fst (GetResults (results_formatter c)))
      then (1, PrintResults (results_formatter c), snd (GetResults (results_formatter c)))
      else (0, [Text ([CHR 0x0A] @ ''SUCCESS'' @ [CHR 0x0A])], snd (GetResults (results_formatter c))))"

definition on_builder :: "(deps_builder, 'a) st \<Rightarrow> (deps_checker, 'a) st" where
  "on_builder m c = (case m (builder c) of (r, b) \<Rightarrow> (r, c\<lparr>builder := b\<rparr>))"

text \<open>The checkers by extension, and the body of the loop over the files of a directory.\<close>

definition check_file :: "deps_env \<Rightarrow> JavaChecker \<Rightarrow> CppChecker \<Rightarrow> rules \<Rightarrow> string \<Rightarrow> (deps_checker, unit) st" where
  "check_file env java cpp rs full_name c =
     (if skip_tests c \<and> IsTestFile (basename full_name) then (Inr (), c)
      else let file_extension = path_extension full_name in
        if file_extension \<notin> set (EXTENSIONS_java @ EXTENSIONS_cpp) then (Inr (), c)
        else case (if file_extension \<in> set EXTENSIONS_cpp then cpp_CheckFile env cpp rs full_name
                   else java_CheckFile env java rs full_name) of
            Inl e \<Rightarrow> (Inl e, c)
          | Inr file_status \<Rightarrow>
              (Inr (), if HasViolations file_status
                       then c\<lparr>results_formatter := AddError file_status (results_formatter c)\<rparr> else c))"

text \<open>The loop over the generator; \<open>False\<close> when the fuel does not reach.\<close>

fun check_loop ::
    "deps_env \<Rightarrow> JavaChecker \<Rightarrow> CppChecker \<Rightarrow> nat \<Rightarrow> string list \<Rightarrow> (deps_checker, bool) st" where
  "check_loop env java cpp fuel [] c = (Inr True, c)"
| "check_loop env java cpp 0 (d # ds) c = (Inr False, c)"
| "check_loop env java cpp (Suc fuel) (d # ds) c =
     bind_st (on_builder (walk_step env (d # ds))) (\<lambda>(y, waiting).
       seq_st (case y of None \<Rightarrow> return_st ()
               | Some (rs, file_paths) \<Rightarrow> for_st file_paths (check_file env java cpp rs))
         (check_loop env java cpp fuel waiting)) c"

definition CheckDirectory :: "deps_env \<Rightarrow> nat \<Rightarrow> string \<Rightarrow> (deps_checker, bool) st" where
  "CheckDirectory env fuel start_dir c =
     (case JavaChecker_init env fuel (base_directory (builder c)) of
        Inl e \<Rightarrow> (Inl e, c)
      | Inr None \<Rightarrow> (Inr False, c)
      | Inr (Some java) \<Rightarrow>
          let cpp = \<lparr>resolve_dotdot = checker_resolve_dotdot c, root_dir = base_directory (builder c)\<rparr> in
          bind_st (on_builder (walk_start env start_dir)) (check_loop env java cpp fuel) c)"

section \<open>Added includes\<close>

fun added_lines ::
    "deps_env \<Rightarrow> CppChecker \<Rightarrow> bool \<Rightarrow> rules \<Rightarrow> string \<Rightarrow> string list \<Rightarrow> (string \<times> char \<times> string) list res" where
  "added_lines env cpp verbose rs file_path [] = Inr []"
| "added_lines env cpp verbose rs file_path (l # ls) =
     bind_res (CheckLine env cpp rs l file_path True) (\<lambda>(is_include, violation).
       bind_res (added_lines env cpp verbose rs file_path ls) (\<lambda>problems.
         Inr (case violation of
                None \<Rightarrow> problems
              | Some v \<Rightarrow>
                  if allow (violated_rule v) = ALLOW then problems
                  else (file_path, allow (violated_rule v), FormatViolation v verbose) # problems)))"

fun CheckAddedCppIncludes ::
    "deps_env \<Rightarrow> (string \<times> string list) list \<Rightarrow> (deps_checker, (string \<times> char \<times> string) list) st" where
  "CheckAddedCppIncludes env [] c = (Inr [], c)"
| "CheckAddedCppIncludes env ((file_path, include_lines) # added_includes) c =
     (if \<not> IsCppFile file_path then CheckAddedCppIncludes env added_includes c
      else bind_st (on_builder (GetDirectoryRules env (dirname file_path))) (\<lambda>rules_for_file.
        case rules_for_file of
          None \<Rightarrow> CheckAddedCppIncludes env added_includes
        | Some rs \<Rightarrow>
            bind_st (lift_res (added_lines env \<lparr>resolve_dotdot = checker_resolve_dotdot c, root_dir = []\<rparr>
                       (checker_verbose c) rs file_path include_lines)) (\<lambda>problems.
              bind_st (CheckAddedCppIncludes env added_includes) (\<lambda>more_problems.
                return_st (problems @ more_problems)))) c)"

section \<open>The main program\<close>

record checkdeps_options =
  opt_base_directory :: string
  opt_ignore_temp_rules :: bool
  opt_generate_temp_rules :: bool
  opt_count_violations :: bool
  opt_skip_tests :: bool
  opt_verbose :: bool
  opt_json :: "string option"
  opt_resolve_dotdot :: bool

definition choose_formatter :: "checkdeps_options \<Rightarrow> formatter \<Rightarrow> formatter" where
  "choose_formatter options f =
     (let f = (if opt_generate_temp_rules options then TemporaryRulesFormatter []
               else if opt_count_violations options then CountViolationsFormatter 0 else f) in
      case opt_json options of
        None \<Rightarrow> f
      | Some path \<Rightarrow> if path = [] then f else JSONResultsFormatter path (Some f) [])"

text \<open>
  The exit code and the report; \<open>None\<close> in the second place when usage or an error is printed
  instead, or when the fuel does not reach.
\<close>

definition checkdeps_main ::
    "deps_env \<Rightarrow> nat \<Rightarrow> string \<Rightarrow> checkdeps_options \<Rightarrow> string list
      \<Rightarrow> (int \<times> (result_value list \<times> (string \<times> json_error list) option) option) option res" where
  "checkdeps_main env fuel script_path options args =
     bind_res (DepsChecker env script_path (opt_base_directory options) (opt_verbose options) False
                (opt_ignore_temp_rules options) (opt_skip_tests options) (opt_resolve_dotdot options)) (\<lambda>c.
       let base = base_directory (builder c) in
       if length args \<noteq> 1 \<and> (2 \<le> length args \<or> opt_generate_temp_rules options \<and> opt_count_violations options)
       then Inr (Some (1, None))
       else
         let start_dir = (if length args = 1 then abspath (cwd env) (path_join base (hd args)) else base) in
         if \<not> startswith start_dir base then Inr (Some (1, None))
         else case CheckDirectory env fuel start_dir
                     (c\<lparr>results_formatter := choose_formatter options (results_formatter c)\<rparr>) of
             (Inl e, _) \<Rightarrow> Inl e
           | (Inr False, _) \<Rightarrow> Inr None
           | (Inr True, d) \<Rightarrow> Inr (Some (fst (Report d), Some (snd (Report d)))))"

end
