(* ===== verification/Deps_Properties.thy ===== *)
theory Deps_Properties
  imports Deps_Verdict Deps_Checker
begin

text \<open>
  The contract of the dependency checker: the rules of a directory, the rule that decides, the
  includes of a file, the end of the walk and the exit code.
\<close>

section \<open>A small repository\<close>

text \<open>
  A base directory \<^verbatim>\<open>/r\<close> with a DEPS file, and a subdirectory \<^verbatim>\<open>/r/a\<close> with another; the
  directory \<^verbatim>\<open>/r/out\<close> is skipped. Patterns match the names they are equal to.
\<close>

definition sample_env :: deps_env where
  "sample_env = \<lparr>
     re_match = (=), cwd = ''/'', path_exists = (\<lambda>p. p = ''/r/.git''),
     isdir = (\<lambda>p. p \<in> {''/r'', ''/r/a'', ''/r/out''}), islink = (\<lambda>_. False),
     listdir = (\<lambda>p. if p = ''/r'' then [''a'', ''out'', ''DEPS''] else []),
     exec_DEPS = (\<lambda>p. if p = ''/r/DEPS''
        then Some (Inr \<lparr>include_rules = Some [''+base''], specific_include_rules = None, skip_child_includes = Some [''out'']\<rparr>)
        else if p = ''/r/a/DEPS''
        then Some (Inr \<lparr>include_rules = Some [''-base/evil''], specific_include_rules = None, skip_child_includes = None\<rparr>)
        else None),
     git_ls_files = (\<lambda>_. [''a/x.cc'']), file_lines = (\<lambda>_. Inr [])\<rparr>"

definition sample_builder :: deps_builder where
  "sample_builder = (case DepsBuilder sample_env [] ''/r'' False False False of Inr b \<Rightarrow> b | Inl _ \<Rightarrow> undefined)"

lemma sample_builder_made: "DepsBuilder sample_env [] ''/r'' False False False = Inr sample_builder"
  by code_simp

lemma sample_skips: "skips_are_words sample_env sample_builder"
  by (auto simp: skips_are_words_def deps_of_def sample_env_def no_scope_def is_word_def split: if_splits)

lemma sample_base: "base_directory sample_builder = ''/r''" "is_base ''/r''"
  by code_simp+

definition sample_checker :: deps_checker where
  "sample_checker = \<lparr>builder = sample_builder, skip_tests = False, checker_resolve_dotdot = True,
     checker_verbose = False, results_formatter = CountViolationsFormatter 0\<rparr>"

definition sample_rules :: rules where
  "sample_rules = (case dir_rules sample_env sample_builder [''a''] of Inr (Some (rs, _)) \<Rightarrow> rs | _ \<Rightarrow> Rules)"

lemma sample_rules_made: "dir_rules sample_env sample_builder [''a''] = Inr (Some (sample_rules, []))"
  by code_simp

section \<open>The rules of a directory\<close>

text \<open>Questions asked before, each answered by \<^verbatim>\<open>GetDirectoryRules\<close>.\<close>

definition asked :: "deps_env \<Rightarrow> deps_builder \<Rightarrow> string list list \<Rightarrow> deps_builder" where
  "asked env b questions =
     fold (\<lambda>ws c. snd (GetDirectoryRules env (dir_path (base_directory b) ws) c)) questions b"

lemma GetDirectoryRules_refines:
  assumes "is_base (base_directory b)" and "skips_are_words env b" and "cache_ok env b c" and "list_all is_word ws"
  shows "fst (GetDirectoryRules env (dir_path (base_directory b) ws) c) =
      bind_res (dir_rules env b ws) (\<lambda>x. Inr (map_option fst x))"
    and "cache_ok env b (snd (GetDirectoryRules env (dir_path (base_directory b) ws) c))"
  using rules_of_refines [OF assms] dir_path_shape [OF assms(1,4)]
  by (auto simp: GetDirectoryRules_def is_base_def)

text \<open>
  C21: Whatever directories below the base were asked for before, \<^verbatim>\<open>GetDirectoryRules\<close> returns the
  rules of the parent directory with those of the directory's own DEPS file added, and nothing for
  a directory that is, or lies below, one the DEPS file above it says to skip; an exception in a
  DEPS file on the way is the result. The cache is invisible.
\<close>

theorem directory_rules_cached:
  assumes "DepsBuilder env script_path base being_tested ignore_temp ignore_specific = Inr b"
    and "is_base (base_directory b)" and "skips_are_words env b"
    and "\<forall>q \<in> set questions. list_all is_word q" and "list_all is_word ws"
  shows "fst (GetDirectoryRules env (dir_path (base_directory b) ws) (asked env b questions)) =
      bind_res (dir_rules env b ws) (\<lambda>x. Inr (map_option fst x))"
proof -
  have "cache_ok env b (fold (\<lambda>ws c. snd (GetDirectoryRules env (dir_path (base_directory b) ws) c)) questions c)"
    if "cache_ok env b c" for c
    using assms(4) that by (induction questions arbitrary: c) (auto intro: GetDirectoryRules_refines(2) [OF assms(2,3)])
  with cache_ok_init [OF assms(1-3)] have "cache_ok env b (asked env b questions)" by (simp add: asked_def)
  from GetDirectoryRules_refines(1) [OF assms(2,3) this assms(5)] show ?thesis .
qed

theorem directory_rules_cached_witness:
  "fst (GetDirectoryRules sample_env ''/r/a'' (asked sample_env sample_builder [[''x'', ''out''], [''a'']])) =
     bind_res (dir_rules sample_env sample_builder [''a'']) (\<lambda>x. Inr (map_option fst x))"
  using directory_rules_cached [OF sample_builder_made _ sample_skips, of "[[''x'', ''out''], [''a'']]" "[''a'']"]
  by (simp add: sample_base is_word_def)

text \<open>
  C22: The rule that applies to an include is the latest one that covers its path, among all rules
  from the base directory down to the directory of the file, unless a rule for the file's own name
  comes first; the rules that \<^verbatim>\<open>AddRule\<close> drops make no difference.
\<close>

theorem latest_rule_decides:
  assumes "dir_rules env b ws = Inr (Some (rs, skips))"
  shows "RuleApplyingTo match rs path file =
    (case specific_rule match path (basename file) (specific_rules rs) of
       Some r \<Rightarrow> r
     | None \<Rightarrow> (case find (\<lambda>r. ChildOrMatch r path)
                   (rev (concat (map (dir_log env b) (dir_chain (base_directory b) ws)))) of
         Some r \<Rightarrow> r
       | None \<Rightarrow> MessageRule ''no rule applying.''))"
  unfolding RuleApplyingTo_def dir_rules_general [OF assms] find_general ..

theorem latest_rule_decides_witness:
  "allow (RuleApplyingTo (=) sample_rules ''base/evil/x.h'' ''/r/a/x.cc'') = DISALLOW \<and>
   allow (RuleApplyingTo (=) sample_rules ''base/good.h'' ''/r/a/x.cc'') = ALLOW"
  unfolding latest_rule_decides [OF sample_rules_made] by code_simp

text \<open>
  The rule for the base directory itself is the rule for the path \<^verbatim>\<open>.\<close>, which covers no include
  path: in a base directory without a DEPS file no rule applies and every include is a violation.
\<close>

theorem no_implicit_rule_at_top:
  assumes "dir_rules env b [] = Inr (Some (rs, skips))" and "exec_DEPS env (path_join (base_directory b) ''DEPS'') = None"
    and "base_directory b \<noteq> []" and "path \<noteq> ''.''" and "\<not> startswith path ''./''"
  shows "RuleApplyingTo match rs path file = MessageRule ''no rule applying.''"
proof -
  let ?d = "base_directory b"
  have "relpath (cwd env) ?d ?d = Inr ''.''" using assms(3) by (simp add: relpath_def Let_def)
  then have rs: "ApplyDirectoryRules env b Rules ?d =
      bind_res (AddRule ''+.'' ''.'' ''Default rule for .'' None Rules) (\<lambda>rs. Inr (rs, []))"
    by (cases "ignore_specific_rules b") (simp_all add: ApplyDirectoryRules_def ApplyRules_def deps_of_def assms(2) no_scope_def startswith_def bind_res_assoc)
  then have "rs = Rules\<lparr>general_rules := [Rule ALLOW ''.'' ''.'' ''Default rule for .'']\<rparr>"
    using assms(1) by (simp add: AddRule_def ParseRuleString_def Rules_def ALLOW_def)
  with assms(4,5) show ?thesis
    by (simp add: RuleApplyingTo_def Rules_def first_rule_def ChildOrMatch_def Rule_def)
qed

definition bare_rules :: rules where
  "bare_rules = (case dir_rules (sample_env\<lparr>exec_DEPS := \<lambda>_. None\<rparr>) sample_builder [] of Inr (Some (rs, _)) \<Rightarrow> rs | _ \<Rightarrow> Rules)"

theorem no_implicit_rule_at_top_witness:
  "RuleApplyingTo (=) bare_rules ''base/x.h'' ''/r/x.cc'' = MessageRule ''no rule applying.''"
proof (rule no_implicit_rule_at_top)
  show "dir_rules (sample_env\<lparr>exec_DEPS := \<lambda>_. None\<rparr>) sample_builder [] = Inr (Some (bare_rules, []))"
    by code_simp
qed (simp_all add: sample_base startswith_def)

section \<open>The exit code\<close>

lemma fold_AddError:
  "\<exists>rs. fold AddError ss (NormalResultsFormatter rs0 v) = NormalResultsFormatter (rs0 @ rs) v \<and> length rs = length ss"
  "\<exists>w rs. fold AddError ss (JSONResultsFormatter p w0 es0) = JSONResultsFormatter p w (es0 @ rs) \<and> length rs = length ss"
  "\<exists>n. fold AddError ss (CountViolationsFormatter m) = CountViolationsFormatter n"
proof -
  show "\<exists>rs. fold AddError ss (NormalResultsFormatter rs0 v) = NormalResultsFormatter (rs0 @ rs) v \<and> length rs = length ss"
  proof (induction ss arbitrary: rs0)
    case (Cons s ss)
    obtain r where r: "AddError s (NormalResultsFormatter rs0 v) = NormalResultsFormatter (rs0 @ [r]) v"
      by (simp add: Normal_AddError_def)
    from Cons [of "rs0 @ [r]"] obtain rs where
      "fold AddError ss (NormalResultsFormatter (rs0 @ [r]) v) = NormalResultsFormatter ((rs0 @ [r]) @ rs) v"
      "length rs = length ss" by blast
    then show ?case by (intro exI [of _ "r # rs"]) (simp add: r del: AddError.simps)
  qed simp
  show "\<exists>w rs. fold AddError ss (JSONResultsFormatter p w0 es0) = JSONResultsFormatter p w (es0 @ rs) \<and> length rs = length ss"
  proof (induction ss arbitrary: w0 es0)
    case (Cons s ss)
    obtain w r where r: "AddError s (JSONResultsFormatter p w0 es0) = JSONResultsFormatter p w (es0 @ [r])"
      by (simp add: JSON_AddError_def)
    from Cons [of w "es0 @ [r]"] obtain w' rs where
      "fold AddError ss (JSONResultsFormatter p w (es0 @ [r])) = JSONResultsFormatter p w' ((es0 @ [r]) @ rs)"
      "length rs = length ss" by blast
    then show ?case by (intro exI [of _ w'] exI [of _ "r # rs"]) (simp add: r del: AddError.simps)
  qed simp
  show "\<exists>n. fold AddError ss (CountViolationsFormatter m) = CountViolationsFormatter n"
    by (induction ss arbitrary: m) auto
qed

lemma set_fold_set_add: "set (fold (\<lambda>v. set_add (f v)) vs ps) = f ` set vs \<union> set ps"
  by (induction vs arbitrary: ps) simp_all

lemma fold_set_add_empty: "fold (\<lambda>v. set_add (f v)) vs ps = [] \<longleftrightarrow> vs = [] \<and> ps = []"
  using set_fold_set_add [of f vs ps] by (metis Un_empty image_is_empty set_empty)

lemma fold_AddError_temporary:
  "\<forall>s \<in> set ss. HasViolations s \<Longrightarrow>
     \<exists>ps'. fold AddError ss (TemporaryRulesFormatter ps) = TemporaryRulesFormatter ps' \<and> (ps' = [] \<longleftrightarrow> ps = [] \<and> ss = [])"
proof (induction ss arbitrary: ps)
  case (Cons s ss)
  from Cons.IH [of "Temporary_AddError s ps"] Cons.prems show ?case
    by (auto simp: HasViolations_def Temporary_AddError_def fold_set_add_empty)
qed simp

text \<open>
  After the violations of the files \<open>ss\<close> were added, \<^verbatim>\<open>Report\<close> returns 0 exactly when there were
  none, except with \<^verbatim>\<open>--count-violations\<close>, where it always returns 1: the result is the text of a
  number, which is never empty.
\<close>

theorem report_exit_code:
  assumes "\<forall>s \<in> set ss. HasViolations s"
    and "results_formatter c = fold AddError ss (choose_formatter options (NormalResultsFormatter [] verbose))"
  shows "fst (Report c) =
    (if ss = [] \<and> (opt_generate_temp_rules options \<or> \<not> opt_count_violations options
                   \<or> (opt_json options \<noteq> None \<and> opt_json options \<noteq> Some [])) then 0 else 1)"
proof (cases "opt_json options \<noteq> None \<and> opt_json options \<noteq> Some []")
  case True
  then obtain p w0 where "choose_formatter options (NormalResultsFormatter [] verbose) = JSONResultsFormatter p w0 []"
    by (auto simp: choose_formatter_def Let_def)
  with assms(2) fold_AddError(2) [of ss p w0 "[]"] True show ?thesis by (auto simp: Report_def)
next
  case False
  then have f: "choose_formatter options (NormalResultsFormatter [] verbose) =
      (if opt_generate_temp_rules options then TemporaryRulesFormatter []
       else if opt_count_violations options then CountViolationsFormatter 0 else NormalResultsFormatter [] verbose)"
    by (auto simp: choose_formatter_def Let_def)
  consider "opt_generate_temp_rules options" | "\<not> opt_generate_temp_rules options" "opt_count_violations options"
    | "\<not> opt_generate_temp_rules options" "\<not> opt_count_violations options" by blast
  then show ?thesis
  proof cases
    case 1
    with f assms fold_AddError_temporary [OF assms(1), of "[]"] False show ?thesis
      by (auto simp: Report_def Temporary_GetResults_def) (metis length_0_conv length_sort)+
  next
    case 2
    with f assms(2) fold_AddError(3) [of ss 0] False show ?thesis
      by (auto simp: Report_def str_nat_nonempty)
  next
    case 3
    with f assms(2) fold_AddError(1) [of ss "[]" verbose] False show ?thesis by (auto simp: Report_def)
  qed
qed

theorem report_exit_code_witness: "fst (Report sample_checker) = 1"
  using report_exit_code [of "[]" sample_checker
      "\<lparr>opt_base_directory = [], opt_ignore_temp_rules = True, opt_generate_temp_rules = False,
        opt_count_violations = True, opt_skip_tests = False, opt_verbose = False, opt_json = None,
        opt_resolve_dotdot = True\<rparr>" False]
  by (simp add: choose_formatter_def sample_checker_def)

section \<open>The lines of a file\<close>

text \<open>The stripped lines outside \<^verbatim>\<open>#if 0\<close> blocks.\<close>

fun live_lines :: "nat \<Rightarrow> string list \<Rightarrow> string list" where
  "live_lines depth [] = []"
| "live_lines depth (l # ls) =
     (let line = strip l in
      if startswith line ''#if 0'' then live_lines (Suc depth) ls
      else if depth > 0
      then live_lines (if startswith line ''#if'' then Suc depth
                       else if startswith line ''#endif'' then depth - 1 else depth) ls
      else line # live_lines depth ls)"

definition found :: "(bool \<times> DependencyViolation option) list \<Rightarrow> DependencyViolation list" where
  "found outs = List.map_filter snd outs"

lemma found_simps [simp]:
  "found [] = []" "found ((i, None) # outs) = found outs" "found ((i, Some v) # outs) = v # found outs"
  by (simp_all add: found_def map_filter_simps)

lemma check_lines_short:
  "line_num + length ls \<le> 51 \<Longrightarrow>
     check_lines env checker rs path line_num last_include depth ls status =
       bind_res (map_res (\<lambda>l. CheckLine env checker rs l path False) (live_lines depth ls))
         (\<lambda>outs. Inr (status\<lparr>violations := violations status @ found outs\<rparr>))"
proof (induction ls arbitrary: line_num last_include depth status)
  case (Cons l ls)
  have near: "\<not> int line_num - int last_include > int MAX_UNINTERESTING_LINES"
    using Cons.prems by (simp add: MAX_UNINTERESTING_LINES_def)
  have IH: "check_lines env checker rs path (Suc line_num) k d ls s =
      bind_res (map_res (\<lambda>l. CheckLine env checker rs l path False) (live_lines d ls))
        (\<lambda>outs. Inr (s\<lparr>violations := violations s @ found outs\<rparr>))" for k d s
    using Cons.prems by (intro Cons.IH) simp
  show ?case
  proof (cases "startswith (strip l) ''#if 0'' \<or> depth > 0")
    case True
    with near show ?thesis by (auto simp: Let_def IH)
  next
    case False
    show ?thesis
    proof (cases "CheckLine env checker rs (strip l) path False")
      case (Inl e)
      with False near show ?thesis by (simp add: Let_def)
    next
      case (Inr out)
      obtain i v where out: "out = (i, v)" by force
      with Inr False near show ?thesis
        by (cases v; cases "map_res (\<lambda>l. CheckLine env checker rs l path False) (live_lines 0 ls)")
          (simp_all add: Let_def IH AddViolation_def)
    qed
  qed
qed simp

lemma check_lines_sound:
  "check_lines env checker rs path line_num last_include depth ls status = Inr st \<Longrightarrow> v \<in> set (violations st) \<Longrightarrow>
     v \<in> set (violations status) \<or>
     (\<exists>l \<in> set (live_lines depth ls). \<exists>i. CheckLine env checker rs l path False = Inr (i, Some v))"
proof (induction ls arbitrary: line_num last_include depth status)
  case (Cons l ls)
  show ?case
  proof (cases "int line_num - int last_include > int MAX_UNINTERESTING_LINES")
    case True
    with Cons.prems show ?thesis by simp
  next
    case near: False
    show ?thesis
    proof (cases "startswith (strip l) ''#if 0'' \<or> depth > 0")
      case True
      with near Cons.prems Cons.IH show ?thesis by (auto simp: Let_def split: if_splits)
    next
      case False
      with near Cons.prems obtain i x where x: "CheckLine env checker rs (strip l) path False = Inr (i, x)"
        and next_lines: "check_lines env checker rs path (Suc line_num) (if i then line_num else last_include) depth ls
          (case x of None \<Rightarrow> status | Some v \<Rightarrow> AddViolation v status) = Inr st"
        by (auto simp: Let_def bind_res_Inr_iff)
      from Cons.IH [OF next_lines Cons.prems(2)] False x show ?thesis
        by (cases x) (auto simp: AddViolation_def Let_def)
    qed
  qed
qed simp

text \<open>
  C30: A file of at most 51 lines is reported with exactly the violations of its lines outside
  \<^verbatim>\<open>#if 0\<close> blocks, in their order, and with their exceptions; in a longer file every violation that
  is reported is one of such a line.
\<close>

theorem cpp_file_checked:
  assumes "file_lines env path = Inr ls"
  shows "(length ls \<le> 51 \<longrightarrow> cpp_CheckFile env checker rs path =
      bind_res (map_res (\<lambda>l. CheckLine env checker rs l path False) (live_lines 0 ls))
        (\<lambda>outs. Inr \<lparr>dependee_path = path, violations = found outs\<rparr>)) \<and>
    (\<forall>st v. cpp_CheckFile env checker rs path = Inr st \<longrightarrow> v \<in> set (violations st) \<longrightarrow>
      (\<exists>l \<in> set (live_lines 0 ls). \<exists>i. CheckLine env checker rs l path False = Inr (i, Some v)))"
  using check_lines_short [of 0 ls env checker rs path 0 0 "new_status path"]
    check_lines_sound [of env checker rs path 0 0 0 ls "new_status path"]
  by (auto simp: cpp_CheckFile_def assms new_status_def)

definition sample_file :: "string list" where
  "sample_file = [''#if 0'', ''#include '' @ [CHR 0x22] @ ''base/evil/y.h'' @ [CHR 0x22], ''#endif'',
     ''  #include '' @ [CHR 0x22] @ ''base/evil/x.h'' @ [CHR 0x22], ''#include '' @ [CHR 0x22] @ ''base/z.h'' @ [CHR 0x22]]"

theorem cpp_file_checked_witness:
  "bind_res (cpp_CheckFile (sample_env\<lparr>file_lines := \<lambda>_. Inr sample_file\<rparr>) \<lparr>resolve_dotdot = True, root_dir = ''/r''\<rparr>
       sample_rules ''/r/a/x.cc'') (\<lambda>st. Inr (map include_path (violations st))) = Inr [''base/evil/x.h'']"
proof -
  let ?env = "sample_env\<lparr>file_lines := \<lambda>_. Inr sample_file\<rparr>"
  have "length sample_file \<le> 51" by code_simp
  with cpp_file_checked [of ?env "''/r/a/x.cc''" sample_file "\<lparr>resolve_dotdot = True, root_dir = ''/r''\<rparr>" sample_rules]
  have "cpp_CheckFile ?env \<lparr>resolve_dotdot = True, root_dir = ''/r''\<rparr> sample_rules ''/r/a/x.cc'' =
      bind_res (map_res (\<lambda>l. CheckLine ?env \<lparr>resolve_dotdot = True, root_dir = ''/r''\<rparr> sample_rules l ''/r/a/x.cc'' False)
        (live_lines 0 sample_file)) (\<lambda>outs. Inr \<lparr>dependee_path = ''/r/a/x.cc'', violations = found outs\<rparr>)"
    by simp
  then show ?thesis by (rule ssubst) code_simp
qed

end
