(* ===== verification/Deps_Walk.thy ===== *)
theory Deps_Walk
  imports Deps_Properties "HOL-Library.Multiset"
begin

text \<open>
  The walks over the directory tree end: with a unit of fuel for each directory the loops of
  \<^verbatim>\<open>CheckDirectory\<close> and of the first pass over the Java files are done.
\<close>

section \<open>The walk ends\<close>

definition sub_dirs :: "deps_env \<Rightarrow> string \<Rightarrow> string list" where
  "sub_dirs env d = filter (isdir env) (map (path_join d) (listdir env d))"

text \<open>
  A finite tree: each directory has a weight larger than the weights of its subdirectories together.
\<close>

definition finite_tree :: "deps_env \<Rightarrow> (string \<Rightarrow> nat) \<Rightarrow> bool" where
  "finite_tree env weight \<longleftrightarrow> (\<forall>d. sum_list (map weight (sub_dirs env d)) < weight d)"

lemma sorted_sub_dirs:
  "sum_list (map weight (filter (isdir env) (map (path_join d) (sort (listdir env d))))) = sum_list (map (weight :: string \<Rightarrow> nat) (sub_dirs env d))"
proof -
  have "mset (map weight (filter (isdir env) (map (path_join d) (sort (listdir env d))))) = mset (map weight (sub_dirs env d))"
    by (simp add: sub_dirs_def mset_filter)
  then show ?thesis by (metis sum_mset_sum_list)
qed

lemma walk_step_lighter:
  assumes "finite_tree env weight" and "walk_step env ds b = (Inr (y, waiting), c)" and "ds \<noteq> []"
  shows "sum_list (map weight waiting) < sum_list (map weight ds)"
proof -
  have ds: "sum_list (map weight ds) = sum_list (map weight (butlast ds)) + weight (last ds)"
    using arg_cong [OF append_butlast_last_id [OF assms(3)], of "\<lambda>xs. sum_list (map weight xs)"] by simp
  from assms(2) consider "waiting = butlast ds"
    | "waiting = butlast ds @ rev (filter (isdir env) (map (path_join (last ds)) (sort (listdir env (last ds)))))"
    by (auto simp: walk_step_def py_defs Let_def split: if_splits prod.splits sum.splits option.splits)
  then show ?thesis
  proof cases
    case 1
    have "0 < weight (last ds)" using assms(1) by (metis finite_tree_def gr0I not_less_zero)
    with ds 1 show ?thesis by simp
  next
    case 2
    have "sum_list (map weight (sub_dirs env (last ds))) < weight (last ds)" using assms(1) by (simp add: finite_tree_def)
    with 2 sorted_sub_dirs [of weight env "last ds"] ds show ?thesis by (simp add: rev_map [symmetric])
  qed
qed

lemma check_loop_ends:
  assumes "finite_tree env weight"
  shows "sum_list (map weight ds) \<le> fuel \<Longrightarrow> fst (check_loop env java cpp fuel ds c) \<noteq> Inr False"
proof (induction fuel arbitrary: ds c)
  case 0
  then show ?case
    using assms by (cases ds) (auto simp: finite_tree_def, metis not_less_zero)
next
  case (Suc fuel)
  show ?case
  proof (cases ds)
    case (Cons d ds')
    show ?thesis
    proof (cases "walk_step env ds (builder c)")
      case (Pair r b)
      show ?thesis
      proof (cases r)
        case (Inl e)
        with Pair Cons show ?thesis by (simp add: py_defs on_builder_def)
      next
        case (Inr p)
        obtain y waiting where p: "p = (y, waiting)" by force
        have "sum_list (map weight waiting) \<le> fuel"
          using walk_step_lighter [OF assms, of ds "builder c" y waiting b] Pair Inr p Cons Suc.prems by simp
        from Suc.IH [OF this] Pair Inr p Cons show ?thesis
          by (auto simp: py_defs on_builder_def split: prod.splits sum.splits)
      qed
    qed
  qed simp
qed

lemma kept_dirs_lighter:
  "sum_list (map (weight :: string \<Rightarrow> nat) (filter P (map (path_join d)
      (filter Q (filter (\<lambda>n. isdir env (path_join d n)) (listdir env d)))))) \<le> sum_list (map weight (sub_dirs env d))"
proof -
  let ?ns = "filter (\<lambda>n. isdir env (path_join d n)) (listdir env d)"
  have "sum_list (map weight (filter P (map (path_join d) (filter Q ?ns)))) \<le>
      sum_list (map (\<lambda>n. weight (path_join d n)) (filter Q ?ns))"
    using sum_list_filter_le_nat [of weight P "map (path_join d) (filter Q ?ns)"] by (simp add: comp_def)
  also have "\<dots> \<le> sum_list (map (\<lambda>n. weight (path_join d n)) ?ns)" by (rule sum_list_filter_le_nat)
  also have "\<dots> = sum_list (map weight (sub_dirs env d))" by (simp add: sub_dirs_def filter_map comp_def)
  finally show ?thesis .
qed

lemma prescan_ends:
  assumes "finite_tree env weight"
  shows "sum_list (map weight ds) \<le> fuel \<Longrightarrow> prescan env fuel ds j \<noteq> Inr None"
proof (induction fuel arbitrary: ds j)
  case 0
  then show ?case
    using assms by (cases ds) (auto simp: finite_tree_def, metis not_less_zero)
next
  case (Suc fuel)
  show ?case
  proof (cases ds)
    case (Cons d ds')
    let ?next = "filter (\<lambda>d. \<not> islink env d) (map (path_join d)
      (filter (\<lambda>d. \<not> IgnoreDir d) (filter (\<lambda>n. isdir env (path_join d n)) (listdir env d)))) @ ds'"
    have "sum_list (map weight (sub_dirs env d)) < weight d" using assms by (simp add: finite_tree_def)
    with kept_dirs_lighter [of weight "\<lambda>d. \<not> islink env d" d "\<lambda>d. \<not> IgnoreDir d" env] Suc.prems Cons
    have "sum_list (map weight ?next) \<le> fuel" by simp
    from Suc.IH [OF this] show ?thesis
      unfolding Cons prescan.simps Let_def by (auto simp: bind_res_Inr_iff)
  qed simp
qed

text \<open>
  C31: On a finite tree of directories, and with at least one unit of fuel for every directory below
  the base directory and below the one to check, \<^verbatim>\<open>CheckDirectory\<close> comes to its end: it has
  visited every directory or an exception was raised.
\<close>

theorem check_directory_ends:
  assumes "finite_tree env weight" and "isabs start_dir"
    and "weight start_dir \<le> fuel" and "weight (base_directory (builder c)) \<le> fuel"
  shows "(\<exists>e. fst (CheckDirectory env fuel start_dir c) = Inl e) \<or> fst (CheckDirectory env fuel start_dir c) = Inr True"
proof -
  have j: "JavaChecker_init env fuel base \<noteq> Inr None" if "base = base_directory (builder c)" for base
    using prescan_ends [OF assms(1), of "[base]" fuel] assms(4) that by (simp add: JavaChecker_init_def)
  have start: "fst (walk_start env start_dir b) = Inr [start_dir]" for b
    using assms(2) by (auto simp: walk_start_def py_defs isabs_def startswith_def)
  have loop: "fst (check_loop env java cpp fuel [start_dir] d) \<noteq> Inr False" for java cpp d
    using check_loop_ends [OF assms(1), of "[start_dir]" fuel] assms(3) by simp
  have "fst (CheckDirectory env fuel start_dir c) \<noteq> Inr False"
  proof (cases "JavaChecker_init env fuel (base_directory (builder c))")
    case (Inr x)
    with j obtain java where "x = Some java" by (cases x) auto
    obtain b where "walk_start env start_dir (builder c) = (Inr [start_dir], b)"
      using start [of "builder c"] by (metis prod.collapse)
    with Inr \<open>x = Some java\<close> loop show ?thesis
      by (simp add: CheckDirectory_def py_defs on_builder_def Let_def)
  qed (simp add: CheckDirectory_def)
  then show ?thesis by (cases "fst (CheckDirectory env fuel start_dir c)") auto
qed

lemma sample_finite: "finite_tree sample_env (\<lambda>d. if d = ''/r'' then 3 else 1)"
  by (auto simp: finite_tree_def sub_dirs_def sample_env_def path_join_def startswith_def)

theorem check_directory_ends_witness:
  "(\<exists>e. fst (CheckDirectory sample_env 3 ''/r'' sample_checker) = Inl e) \<or>
   fst (CheckDirectory sample_env 3 ''/r'' sample_checker) = Inr True"
  using check_directory_ends [OF sample_finite, of "''/r''" 3 sample_checker]
  by (simp add: sample_checker_def sample_base isabs_def startswith_def)

end
