(* ===== verification/Croc_Scan.thy ===== *)
theory Croc_Scan
  imports Py_Strings
begin

text \<open>
  \<^verbatim>\<open>tools/code_coverage/croc_scan.py\<close>: which lines of a source file may be executable. The token
  expressions of the two languages are written out as matchers at a position; a matcher gets the
  text before the position, last character first, and the text from there on.
\<close>

section \<open>Tokens\<close>

text \<open>
  \<^verbatim>\<open>(?<!(?<!\\)\\)["']\<close>: a quote, unless a single backslash is in front of it.
\<close>

definition unescaped_quote :: "string \<Rightarrow> string \<Rightarrow> string option" where
  "unescaped_quote before s =
     (case s of
        c # _ \<Rightarrow>
          if (c = CHR 0x22 \<or> c = CHR 0x27) \<and>
             \<not> (startswith before [CHR 0x5C] \<and> \<not> startswith (tl before) [CHR 0x5C])
          then Some [c] else None
      | [] \<Rightarrow> None)"

definition python_token :: "string \<Rightarrow> string \<Rightarrow> string option" where
  "python_token before s =
     (if startswith s ''#'' then Some ''#''
      else if startswith s [CHR 0x27, CHR 0x27, CHR 0x27] then Some [CHR 0x27, CHR 0x27, CHR 0x27]
      else if startswith s [CHR 0x22, CHR 0x22, CHR 0x22] then Some [CHR 0x22, CHR 0x22, CHR 0x22]
      else unescaped_quote before s)"

definition cpp_token :: "string \<Rightarrow> string \<Rightarrow> string option" where
  "cpp_token before s =
     (if before = [] \<and> startswith (dropWhile str_space s) ''#'' then Some (takeWhile str_space s @ ''#'')
      else if startswith s ''//'' then Some ''//''
      else if startswith s ''/*'' then Some ''/*''
      else if startswith s ''*/'' then Some ''*/''
      else unescaped_quote before s)"

text \<open>\<^verbatim>\<open>re_token.finditer(line)\<close>: the start, the end and the text of each match.\<close>

function (sequential) finditer ::
    "(string \<Rightarrow> string \<Rightarrow> string option) \<Rightarrow> string \<Rightarrow> string \<Rightarrow> (nat \<times> nat \<times> string) list" where
  "finditer m before [] = []"
| "finditer m before (c # s) =
     (case m before (c # s) of
        Some (t # ts) \<Rightarrow>
          (length before, length before + Suc (length ts), t # ts)
          # finditer m (rev (t # ts) @ before) (drop (length ts) s)
      | _ \<Rightarrow> finditer m (c # before) s)"
  by pat_completeness auto
termination by (relation "measure (\<lambda>(_, _, s). length s)") auto

section \<open>Scanners\<close>

record scanner =
  re_token :: "string \<Rightarrow> string \<Rightarrow> string option"
  comment_to_eol :: "string list"
  comment_start :: "string option"
  comment_end :: "string option"

definition PythonScanner :: scanner where
  "PythonScanner = \<lparr>re_token = python_token, comment_to_eol = [''#''], comment_start = None, comment_end = None\<rparr>"

definition CppScanner :: scanner where
  "CppScanner = \<lparr>re_token = cpp_token, comment_to_eol = [''//'', ''#''],
     comment_start = Some ''/*'', comment_end = Some ''*/''\<rparr>"

text \<open>What the scanner carries from line to line: the token that ends the string or the comment it is in.\<close>

record scan_state =
  in_string :: "string option"
  in_comment :: "string option"
  comment_index :: nat

definition scan_start :: scan_state where
  "scan_start = \<lparr>in_string = None, in_comment = None, comment_index = 0\<rparr>"

text \<open>The loop over the tokens of a line; the line loses its comments.\<close>

fun scan_tokens :: "scanner \<Rightarrow> (nat \<times> nat \<times> string) list \<Rightarrow> string \<Rightarrow> scan_state \<Rightarrow> string \<times> scan_state" where
  "scan_tokens sc [] line st = (line, st)"
| "scan_tokens sc ((start, stop, tokenstr) # ts) line st =
     (case in_comment st of
        Some e \<Rightarrow>
          if tokenstr = e
          then scan_tokens sc ts
                 (take (comment_index st) line @ replicate (stop - comment_index st) (CHR '' '') @ drop stop line)
                 (st\<lparr>in_comment := None\<rparr>)
          else scan_tokens sc ts line st
      | None \<Rightarrow>
          (case in_string st of
             Some e \<Rightarrow> scan_tokens sc ts line (if tokenstr = e then st\<lparr>in_string := None\<rparr> else st)
           | None \<Rightarrow>
               if tokenstr \<in> set (comment_to_eol sc) then (take start line, st)
               else if Some tokenstr = comment_start sc
               then scan_tokens sc ts line (st\<lparr>in_comment := comment_end sc, comment_index := start\<rparr>)
               else scan_tokens sc ts line (st\<lparr>in_string := Some tokenstr\<rparr>)))"

definition scan_line :: "scanner \<Rightarrow> string \<Rightarrow> scan_state \<Rightarrow> bool \<times> scan_state" where
  "scan_line sc line st =
     (case scan_tokens sc (finditer (re_token sc) [] line) line st of (l, st') \<Rightarrow>
        let (l, st') = (if in_comment st' \<noteq> None then (take (comment_index st') l, st'\<lparr>comment_index := 0\<rparr>) else (l, st'))
        in (str_strip l \<noteq> [] \<or> in_string st \<noteq> None, st'))"

fun scan_lines :: "scanner \<Rightarrow> nat \<Rightarrow> scan_state \<Rightarrow> string list \<Rightarrow> nat list" where
  "scan_lines sc lineno st [] = []"
| "scan_lines sc lineno st (l # ls) =
     (case scan_line sc l st of (executable, st') \<Rightarrow>
        (if executable then [Suc lineno] else []) @ scan_lines sc (Suc lineno) st' ls)"

definition ScanLines :: "scanner \<Rightarrow> string list \<Rightarrow> nat list" where
  "ScanLines sc ls = scan_lines sc 0 scan_start ls"

text \<open>\<open>read_lines\<close> is what iterating over the opened file gives.\<close>

definition Scan :: "(string \<Rightarrow> string list res) \<Rightarrow> scanner \<Rightarrow> string \<Rightarrow> nat list res" where
  "Scan read_lines sc filename = bind_res (read_lines filename) (\<lambda>ls. Inr (ScanLines sc ls))"

definition ScanFile :: "(string \<Rightarrow> string list res) \<Rightarrow> string \<Rightarrow> string option \<Rightarrow> nat list res" where
  "ScanFile read_lines filename language =
     (if language = Some ''python'' then Scan read_lines PythonScanner filename
      else if language \<in> {Some ''C'', Some ''C++'', Some ''ObjC'', Some ''ObjC++''}
      then Scan read_lines CppScanner filename
      else Inr [])"

section \<open>The scanners' tests\<close>

lemma python_scanner_test:
  "ScanLines PythonScanner
     [''# a comment'', '''', [CHR 0x22, CHR 0x22, CHR 0x22] @ ''multi-line string'', ''# not a comment'',
      ''end of multi-line string'' @ [CHR 0x22, CHR 0x22, CHR 0x22], ''  '',
      [CHR 0x22] @ ''single string with #comment'' @ [CHR 0x22],
      [CHR 0x22] @ ''string with embedded '' @ [CHR 0x5C, CHR 0x22] @ '' is handled'' @ [CHR 0x22],
      ''# quoted '' @ [CHR 0x22], [CHR 0x22, CHR 0x5C, CHR 0x5C, CHR 0x22], ''main()'', ''# end'']
   = [3, 4, 5, 7, 8, 10, 11]"
  by code_simp

lemma cpp_scanner_test:
  "ScanLines CppScanner
     [''// a comment'', ''# a preprocessor define'', '''', [CHR 0x27] @ ''#'' @ [CHR 0x27],
      ''/* a multi-line comment'', ''with a '' @ [CHR 0x22] @ '' in it'', ''*/'', ''main()'', ''x; // end'']
   = [4, 8, 9]"
  by code_simp

end
