(* ===== verification/Croc_Scanning.thy ===== *)
theory Croc_Scanning
  imports Croc_Scan
begin

text \<open>
  What the source scanners report: line numbers in order, and the effect of an indented directive in
  a C file.
\<close>

section \<open>Line numbers\<close>

lemma scan_lines_range: "n \<in> set (scan_lines sc k st ls) \<Longrightarrow> k < n \<and> n \<le> k + length ls"
  by (induction ls arbitrary: k st) (fastforce split: prod.splits if_splits)+

lemma scan_lines_sorted: "sorted_wrt (<) (scan_lines sc k st ls)"
proof (induction ls arbitrary: k st)
  case (Cons l ls)
  obtain x st' where "scan_line sc l st = (x, st')" by (cases "scan_line sc l st")
  then show ?case using Cons.IH scan_lines_range by auto
qed simp

text \<open>
  Every scanner reports line numbers of the file, each at most once and in increasing order.
\<close>

theorem ScanLines_in_order:
  "sorted_wrt (<) (ScanLines sc ls) \<and> set (ScanLines sc ls) \<subseteq> {1..length ls}"
  using scan_lines_range [of _ sc 0 scan_start ls]
  by (auto simp: ScanLines_def scan_lines_sorted Suc_le_eq)

section \<open>Indented directives\<close>

text \<open>A match is at the start of the text or comes later.\<close>

lemma finditer_mem:
  "(i, j, t) \<in> set (finditer m before s) \<Longrightarrow>
   \<exists>b r. m b r = Some t \<and> ((b = before \<and> r = s) \<or> length before < length b)"
proof (induction "length s" arbitrary: before s rule: less_induct)
  case less
  have later: ?case if "(i, j, t) \<in> set (finditer m (w @ before) r)" and "w \<noteq> []" and "length r < length s" for w r
    using less.hyps [OF that(3,1)] that(2) by force
  from less.prems obtain c r where s: "s = c # r" by (cases s) auto
  show ?case
  proof (cases "\<exists>u us. m before s = Some (u # us)")
    case True
    then obtain u us where u: "m before s = Some (u # us)" by blast
    with less.prems consider "t = u # us" | "(i, j, t) \<in> set (finditer m (rev (u # us) @ before) (drop (length us) r))"
      by (auto simp: s)
    then show ?thesis
    proof cases
      case 1
      with u show ?thesis by blast
    next
      case 2
      then show ?thesis by (rule later) (simp_all add: s)
    qed
  next
    case False
    then have "finditer m before s = finditer m ([c] @ before) r"
      unfolding s by (auto split: option.split list.split)
    with less.prems show ?thesis by (intro later [of "[c]" r]) (simp_all add: s)
  qed
qed

lemma quote_length: "unescaped_quote b r = Some t \<Longrightarrow> length t = 1"
  by (auto simp: unescaped_quote_def split: list.splits if_splits)

text \<open>A token with white space in it is at the start of the line.\<close>

lemma cpp_token_directive:
  assumes "cpp_token b r = Some (ws @ ''#'')" and "ws \<noteq> []" and "\<forall>c \<in> set ws. str_space c"
  shows "b = [] \<and> startswith r (ws @ ''#'')"
proof -
  obtain w ws' where ws: "ws = w # ws'" "str_space w" using assms(2,3) by (cases ws) auto
  have "w \<noteq> CHR ''/''" "w \<noteq> CHR ''*''" using ws(2) by (auto simp: str_space_def)
  then have first: "b = [] \<and> startswith (dropWhile str_space r) ''#'' \<and> takeWhile str_space r @ ''#'' = ws @ ''#''"
    using assms(1) ws(1) quote_length [of b r "ws @ ''#''"]
    by (auto simp: cpp_token_def split: if_splits)
  then have "takeWhile str_space r = ws" by simp
  moreover obtain x where "dropWhile str_space r = CHR ''#'' # x" using first by (auto simp: startswith_iff)
  ultimately have "r = (ws @ ''#'') @ x" by (metis append.assoc append_Cons append_Nil takeWhile_dropWhile_id)
  with first show ?thesis by (auto simp: startswith_iff)
qed

definition plain :: "char \<Rightarrow> bool" where
  "plain c \<longleftrightarrow> c \<notin> {CHR 0x22, CHR 0x27, CHR ''/'', CHR ''*''}"

lemma finditer_plain: "before \<noteq> [] \<Longrightarrow> \<forall>c \<in> set s. plain c \<Longrightarrow> finditer cpp_token before s = []"
proof (induction s arbitrary: before)
  case (Cons c s)
  then have "cpp_token before (c # s) = None"
    by (auto simp: cpp_token_def unescaped_quote_def startswith_def plain_def)
  with Cons show ?case by simp
qed simp

lemma finditer_directive:
  assumes "\<forall>c \<in> set ws. str_space c" and "\<forall>c \<in> set rest. plain c"
  shows "finditer cpp_token [] (ws @ ''#'' @ rest) = [(0, Suc (length ws), ws @ ''#'')]"
proof -
  have sp: "\<not> str_space (CHR ''#'')" by code_simp
  have d: "dropWhile str_space (ws @ ''#'' @ rest) = ''#'' @ rest" "takeWhile str_space (ws @ ''#'' @ rest) = ws"
    using assms(1) sp by (simp_all add: dropWhile_append takeWhile_append)
  have tok: "cpp_token [] (ws @ ''#'' @ rest) = Some (ws @ ''#'')"
    unfolding cpp_token_def d by (simp add: startswith_def)
  show ?thesis
  proof (cases ws)
    case Nil
    with tok show ?thesis by (simp add: finditer_plain assms(2))
  next
    case (Cons w ws')
    with tok show ?thesis by (simp add: finditer_plain assms(2))
  qed
qed

text \<open>Inside a string no other token counts.\<close>

lemma scan_tokens_string:
  "in_comment st = None \<Longrightarrow> in_string st = Some e \<Longrightarrow> \<forall>(i, j, t) \<in> set ts. t \<noteq> e \<Longrightarrow>
   scan_tokens sc ts line st = (line, st)"
  by (induction ts) auto

lemma scan_line_string:
  assumes "in_comment st = None" and "in_string st = Some (ws @ ''#'')" and "ws \<noteq> []"
    and "\<forall>c \<in> set ws. str_space c" and "\<not> startswith line (ws @ ''#'')"
  shows "scan_line CppScanner line st = (True, st)"
proof -
  have "t \<noteq> ws @ ''#''" if mem: "(i, j, t) \<in> set (finditer cpp_token [] line)" for i j t
  proof
    assume "t = ws @ ''#''"
    with finditer_mem [OF mem] obtain b r where "cpp_token b r = Some (ws @ ''#'')" and br: "b = [] \<longrightarrow> r = line"
      by auto
    with cpp_token_directive [OF this(1) assms(3,4)] assms(5) show False by auto
  qed
  then have "scan_tokens CppScanner (finditer cpp_token [] line) line st = (line, st)"
    by (intro scan_tokens_string [OF assms(1,2)]) auto
  then show ?thesis using assms(1,2) by (simp add: scan_line_def CppScanner_def)
qed

lemma scan_lines_string:
  assumes "in_comment st = None" and "in_string st = Some (ws @ ''#'')" and "ws \<noteq> []"
    and "\<forall>c \<in> set ws. str_space c" and "\<forall>l \<in> set ls. \<not> startswith l (ws @ ''#'')"
  shows "scan_lines CppScanner k st ls = [Suc k..<Suc (k + length ls)]"
  using assms(5)
proof (induction ls arbitrary: k)
  case (Cons l ls)
  have "scan_line CppScanner l st = (True, st)" using Cons.prems by (intro scan_line_string [OF assms(1-4)]) simp
  with Cons show ?case by (simp add: upt_conv_Cons del: upt_Suc)
qed simp

text \<open>
  An indented directive (white space, then \<open>#\<close>) in a C file is not skipped as a comment: the token
  with the white space opens a string, so the scanner reports the directive and all lines after it as
  executable, blank lines and comments included, up to a line that starts with the same white space
  and \<open>#\<close>.
\<close>

theorem indented_directive:
  assumes "ws \<noteq> []" and "\<forall>c \<in> set ws. str_space c" and "\<forall>c \<in> set rest. plain c"
    and "\<forall>l \<in> set ls. \<not> startswith l (ws @ ''#'')"
  shows "ScanLines CppScanner ((ws @ ''#'' @ rest) # ls) = [1..<length ls + 2]"
proof -
  have ne: "ws @ ''#'' \<noteq> ''//''" "ws @ ''#'' \<noteq> ''#''" "ws @ ''#'' \<noteq> ''/*''"
    using assms(1) by (auto simp: append_eq_Cons_conv)
  let ?st = "scan_start\<lparr>in_string := Some (ws @ ''#'')\<rparr>"
  have "\<not> str_space (CHR ''#'')" by code_simp
  then have "str_strip (ws @ ''#'' @ rest) \<noteq> []" by (simp add: str_strip_empty)
  then have "scan_line CppScanner (ws @ ''#'' @ rest) scan_start = (True, ?st)"
    using ne by (simp add: scan_line_def CppScanner_def finditer_directive [OF assms(2,3), simplified] scan_start_def)
  moreover have "scan_lines CppScanner 1 ?st ls = [Suc 1..<Suc (1 + length ls)]"
    by (rule scan_lines_string) (use assms in \<open>simp_all add: scan_start_def\<close>)
  ultimately show ?thesis by (simp add: ScanLines_def upt_conv_Cons del: upt_Suc)
qed

theorem indented_directive_witness:
  "ScanLines CppScanner ((''  '' @ ''#'' @ ''if A'') # ['''', ''// note'', ''#endif'']) =
     [1..<length ['''', ''// note'', ''#endif''] + 2]"
proof (rule indented_directive)
  show "''  '' \<noteq> ([] :: string)" by simp
  show "\<forall>c \<in> set ''  ''. str_space c" by code_simp
  show "\<forall>c \<in> set ''if A''. plain c" by code_simp
  show "\<forall>l \<in> set ['''', ''// note'', ''#endif'']. \<not> startswith l (''  '' @ ''#'')" by code_simp
qed

end
