(* ===== verification/Croc.thy ===== *)
theory Croc
  imports Croc_Scan Py_Paths
begin

text \<open>
  \<^verbatim>\<open>tools/code_coverage/croc.py\<close>: coverage numbers of a group of files, read from LCOV data and
  from a scan of the sources, and summed over the directories of a tree. The host is a POSIX one.
  The file system, the regular expressions of the rules and the evaluation of configuration files
  and statistics are parameters, the fields of \<open>croc_env\<close>.
\<close>

section \<open>Statistics\<close>

type_synonym coverage_stats = "(string \<times> int) list"

definition DEFAULTS :: coverage_stats where
  "DEFAULTS = [(''files_covered'', 0), (''files_instrumented'', 0), (''files_executable'', 0),
     (''lines_covered'', 0), (''lines_instrumented'', 0), (''lines_executable'', 0)]"

text \<open>\<open>self.Add(coverage_stats)\<close>, as the dictionary it leaves in \<open>self\<close>.\<close>

definition stats_Add :: "coverage_stats \<Rightarrow> coverage_stats \<Rightarrow> coverage_stats" where
  "stats_Add self coverage_stats =
     fold (\<lambda>(k, v) s. dict_set k (case dict_get s k of Some x \<Rightarrow> x + v | None \<Rightarrow> v) s) coverage_stats self"

definition AddDefaults :: "coverage_stats \<Rightarrow> coverage_stats" where
  "AddDefaults self = fold (\<lambda>(k, v) s. dict_setdefault k v s) DEFAULTS self"

text \<open>\<^verbatim>\<open>s.get(k, 0)\<close>.\<close>

definition stat_get :: "coverage_stats \<Rightarrow> string \<Rightarrow> int" where
  "stat_get s k = (case dict_get s k of Some v \<Rightarrow> v | None \<Rightarrow> 0)"

section \<open>Attributes\<close>

text \<open>The values of a rule's attributes; a bool is the integer it is equal to.\<close>

datatype attr = AttrNone | AttrInt int | AttrStr string

type_synonym attrs = "(string \<times> attr) list"

text \<open>The order of unlike values in Python 2: \<^verbatim>\<open>None\<close>, then the numbers, then the strings.\<close>

instantiation attr :: linorder
begin

fun less_eq_attr :: "attr \<Rightarrow> attr \<Rightarrow> bool" where
  "less_eq_attr AttrNone _ = True"
| "less_eq_attr (AttrInt i) AttrNone = False"
| "less_eq_attr (AttrInt i) (AttrInt j) = (i \<le> j)"
| "less_eq_attr (AttrInt i) (AttrStr t) = True"
| "less_eq_attr (AttrStr s) (AttrStr t) = (s \<le> t)"
| "less_eq_attr (AttrStr s) _ = False"

definition less_attr :: "attr \<Rightarrow> attr \<Rightarrow> bool" where
  "less_attr a b \<longleftrightarrow> a \<le> b \<and> \<not> b \<le> a"

instance
proof
  fix a b c :: attr
  show "a < b \<longleftrightarrow> a \<le> b \<and> \<not> b \<le> a" by (rule less_attr_def)
  show "a \<le> a" by (cases a) auto
  show "a \<le> b \<Longrightarrow> b \<le> a \<Longrightarrow> a = b" by (cases a; cases b) auto
  show "a \<le> b \<Longrightarrow> b \<le> c \<Longrightarrow> a \<le> c" by (cases a; cases b; cases c) auto
  show "a \<le> b \<or> b \<le> a" by (cases a; cases b) auto
qed

end

text \<open>\<^verbatim>\<open>str(a)\<close>.\<close>

fun attr_str :: "attr \<Rightarrow> string" where
  "attr_str AttrNone = ''None''"
| "attr_str (AttrInt i) = str_int i"
| "attr_str (AttrStr s) = s"

text \<open>\<^verbatim>\<open>attrs.get(k)\<close>, and whether it is true.\<close>

definition attr_get :: "attrs \<Rightarrow> string \<Rightarrow> attr" where
  "attr_get attrs k = (case dict_get attrs k of Some a \<Rightarrow> a | None \<Rightarrow> AttrNone)"

fun attr_true :: "attr \<Rightarrow> bool" where
  "attr_true AttrNone \<longleftrightarrow> False"
| "attr_true (AttrInt i) \<longleftrightarrow> i \<noteq> 0"
| "attr_true (AttrStr s) \<longleftrightarrow> s \<noteq> []"

section \<open>Covered files\<close>

text \<open>A line is executable (\<open>None\<close>), instrumented (\<open>Some 0\<close>) or covered (\<open>Some 1\<close>).\<close>

record covered_file =
  cf_filename :: string
  cf_attrs :: attrs
  cf_local_path :: "string option"
  cf_in_lcov :: bool
  cf_lines :: "(int \<times> int option) list"
  cf_stats :: coverage_stats

text \<open>The keyword arguments may not name a parameter of the constructor.\<close>

definition CoveredFile :: "string \<Rightarrow> attrs \<Rightarrow> covered_file res" where
  "CoveredFile filename kwargs =
     (if ''filename'' \<in> fst ` set kwargs \<or> ''self'' \<in> fst ` set kwargs then Inl TypeError
      else Inr \<lparr>cf_filename = filename, cf_attrs = kwargs, cf_local_path = None, cf_in_lcov = False,
                cf_lines = [], cf_stats = []\<rparr>)"

definition UpdateCoverage :: "covered_file \<Rightarrow> covered_file" where
  "UpdateCoverage f =
     (let (exe, instr, cov) = fold (\<lambda>l (exe, instr, cov).
            (exe + 1, if l \<noteq> None then instr + 1 else instr, if l = Some 1 then cov + 1 else cov))
            (map snd (cf_lines f)) (0, 0, 0);
          stats = [(''lines_executable'', exe), (''lines_instrumented'', instr), (''lines_covered'', cov),
                   (''files_executable'', 1)];
          stats = (if cov \<noteq> 0 then dict_set ''files_covered'' 1 stats else stats);
          stats = (if instr \<noteq> 0 \<or> cf_in_lcov f then dict_set ''files_instrumented'' 1 stats else stats)
      in f\<lparr>cf_stats := stats\<rparr>)"

section \<open>Directories\<close>

datatype covered_dir =
  CoveredDir (dirpath: string) (dir_files: "(string \<times> covered_file) list")
    (subdirs: "(string \<times> covered_dir) list") (stats_by_group: "(attr \<times> coverage_stats) list")

definition new_dir :: "string \<Rightarrow> covered_dir" where
  "new_dir path = CoveredDir path [] [] [(AttrStr ''all'', [])]"

definition groupstats :: "(attr \<times> coverage_stats) list \<Rightarrow> string list" where
  "groupstats by_group =
     map (\<lambda>(group, s). attr_str group @ '':'' @ str_int (stat_get s ''lines_covered'') @ ''/''
            @ str_int (stat_get s ''lines_instrumented'') @ ''/'' @ str_int (stat_get s ''lines_executable''))
       (filter (\<lambda>(group, s). stat_get s ''lines_executable'' \<noteq> 0) (sort_key fst by_group))"

fun GetTree :: "string \<Rightarrow> covered_dir \<Rightarrow> string" where
  "GetTree indent (CoveredDir path fs ds by_group) =
     str_join [CHR 0x0A]
       (str_rstrip (indent @ pad_right 30 (basename path @ ''/'') @ ''   '' @ str_join ''   '' (groupstats by_group))
        # map snd (sort_key fst (map (\<lambda>(name, d). (name, GetTree (indent @ ''  '') d)) ds)))"

section \<open>Coverage\<close>

text \<open>The keyword arguments of \<open>PrintStat\<close>; \<open>'v\<close> is what a statistic evaluates to.\<close>

record 'v stat_args =
  sa_stat :: string
  sa_format :: "string option"
  sa_group :: attr
  sa_default :: "'v option"

record 'v coverage =
  cov_files :: "(string \<times> covered_file) list"
  cov_root_dirs :: "(string \<times> string) list"
  cov_rules :: "(string \<times> attrs) list"
  cov_tree :: covered_dir
  cov_print_stats :: "'v stat_args list"

definition Coverage :: "'v coverage" where
  "Coverage = \<lparr>cov_files = [], cov_root_dirs = [], cov_rules = [], cov_tree = new_dir [], cov_print_stats = []\<rparr>"

text \<open>What a configuration file evaluates to.\<close>

record 'v croc_config =
  cfg_roots :: "(string \<times> string) list list"
  cfg_rules :: "attrs list"
  cfg_lcov_files :: "string list"
  cfg_add_files :: "string list"
  cfg_print_stats :: "'v stat_args list"

text \<open>
  \<open>re_compile\<close> accepts a pattern or raises, \<open>re_match\<close> matches it at the start of a string.
  \<open>re_template\<close> is the replacement a template with backslashes stands for, given the group of the
  match. \<open>eval_stat\<close> gets the function bound to \<^verbatim>\<open>S\<close>, the expression and the statistics.
\<close>

record 'v croc_env =
  croc_cwd :: string
  re_compile :: "string \<Rightarrow> unit res"
  re_match :: "string \<Rightarrow> string \<Rightarrow> bool"
  re_template :: "string \<Rightarrow> (string \<Rightarrow> string) res"
  list_dir :: "string \<Rightarrow> string list option"
  is_dir :: "string \<Rightarrow> bool"
  is_link :: "string \<Rightarrow> bool"
  read_lines :: "string \<Rightarrow> string list res"
  read_text :: "string \<Rightarrow> string res"
  eval_config :: "string \<Rightarrow> 'v croc_config res"
  eval_stat :: "(string \<Rightarrow> attr \<Rightarrow> 'v option \<Rightarrow> ('v coverage, 'v) st) \<Rightarrow> string \<Rightarrow> coverage_stats \<Rightarrow> ('v coverage, 'v) st"
  format_stat :: "string \<Rightarrow> 'v \<Rightarrow> string res"
  stat_str :: "'v \<Rightarrow> string"
  recursion_limit :: nat

section \<open>File names\<close>

text \<open>A template without a backslash stands for itself.\<close>

definition expand_template :: "'v croc_env \<Rightarrow> string \<Rightarrow> (string \<Rightarrow> string) res" where
  "expand_template env t = (if CHR 0x5C \<in> set t then re_template env t else Inr (\<lambda>_. t))"

text \<open>
  \<^verbatim>\<open>re.sub('^' + re.escape(root) + '(?=(/|$))', repl, name)\<close>; \<^verbatim>\<open>$\<close> also matches before a
  newline that ends the string.
\<close>

definition sub_root :: "'v croc_env \<Rightarrow> string \<Rightarrow> string \<Rightarrow> string \<Rightarrow> string res" where
  "sub_root env root repl name =
     bind_res (expand_template env repl) (\<lambda>expand.
       let rest = drop (length root) name in
       Inr (if startswith name root \<and> startswith rest ''/'' then expand ''/'' @ rest
            else if startswith name root \<and> (rest = [] \<or> rest = [CHR 0x0A]) then expand [] @ rest
            else name))"

definition CleanupFilename :: "'v croc_env \<Rightarrow> (string \<times> string) list \<Rightarrow> string \<Rightarrow> string res" where
  "CleanupFilename env root_dirs filename =
     (let filename = str_replace [CHR 0x5C] ''/'' filename;
          filename = (if hd (split_char (CHR ''/'') filename) \<in> {''.'', ''..''}
                      then str_replace [CHR 0x5C] ''/'' (abspath (croc_cwd env) filename) else filename)
      in fold_res (\<lambda>(root, alt_name) name. sub_root env root alt_name name) root_dirs filename)"

definition ClassifyFile :: "'v croc_env \<Rightarrow> (string \<times> attrs) list \<Rightarrow> string \<Rightarrow> attrs" where
  "ClassifyFile env rules filename =
     fold (\<lambda>(regexp, rhs_dict) attrs. if re_match env regexp filename then dict_update attrs rhs_dict else attrs)
       rules []"

definition AddRoot :: "'v croc_env \<Rightarrow> string \<Rightarrow> string \<Rightarrow> ('v coverage, unit) st" where
  "AddRoot env root_path alt_name =
     (if alt_name = [] then raise_st ValueError
      else bind_st (gets_st cov_root_dirs) (\<lambda>root_dirs.
           bind_st (lift_res (CleanupFilename env root_dirs root_path)) (\<lambda>root.
           modify_st (\<lambda>c. c\<lparr>cov_root_dirs := cov_root_dirs c @ [(root, alt_name)]\<rparr>))))"

definition Coverage_AddRule :: "'v croc_env \<Rightarrow> string \<Rightarrow> attrs \<Rightarrow> ('v coverage, unit) st" where
  "Coverage_AddRule env path_regexp kwargs =
     (if ''path_regexp'' \<in> fst ` set kwargs \<or> ''self'' \<in> fst ` set kwargs then raise_st TypeError
      else seq_st (lift_res (re_compile env path_regexp))
             (modify_st (\<lambda>c. c\<lparr>cov_rules := cov_rules c @ [(path_regexp, kwargs)]\<rparr>)))"

section \<open>The list of covered files\<close>

text \<open>
  A file object is the entry of \<open>cov_files\<close> at its name; a call that returns the object returns the
  name. Both are the same while no entry is replaced.
\<close>

definition on_file :: "string \<Rightarrow> (covered_file \<Rightarrow> covered_file) \<Rightarrow> ('v coverage, unit) st" where
  "on_file name u = modify_st (\<lambda>c. c\<lparr>cov_files := AList.map_entry name u (cov_files c)\<rparr>)"

definition GetCoveredFile :: "'v croc_env \<Rightarrow> string \<Rightarrow> bool \<Rightarrow> ('v coverage, string option) st" where
  "GetCoveredFile env filename add =
     bind_st (gets_st cov_root_dirs) (\<lambda>root_dirs.
     bind_st (lift_res (CleanupFilename env root_dirs filename)) (\<lambda>filename.
     bind_st (gets_st cov_files) (\<lambda>files.
       if dict_get files filename \<noteq> None then return_st (Some filename)
       else if \<not> add then return_st None
       else bind_st (gets_st (\<lambda>c. ClassifyFile env (cov_rules c) filename)) (\<lambda>attrs.
         if \<not> (attr_true (attr_get attrs ''include'') \<and> attr_true (attr_get attrs ''group'')
                \<and> attr_true (attr_get attrs ''language''))
         then return_st None
         else bind_st (lift_res (CoveredFile filename attrs)) (\<lambda>f.
              seq_st (modify_st (\<lambda>c. c\<lparr>cov_files := dict_set filename f (cov_files c)\<rparr>))
                (return_st (Some filename)))))))"

definition RemoveCoveredFile :: "string \<Rightarrow> ('v coverage, unit) st" where
  "RemoveCoveredFile filename =
     bind_st (gets_st cov_files) (\<lambda>files.
       if dict_get files filename = None then raise_st KeyError
       else modify_st (\<lambda>c. c\<lparr>cov_files := dict_del filename (cov_files c)\<rparr>))"

section \<open>LCOV data\<close>

text \<open>One data point, on the lines of the current file.\<close>

definition add_data :: "int \<Rightarrow> int \<Rightarrow> covered_file \<Rightarrow> covered_file" where
  "add_data line_no is_covered f =
     (if is_covered \<noteq> 0 then f\<lparr>cf_lines := dict_set line_no (Some 1) (cf_lines f)\<rparr>
      else if dict_get (cf_lines f) line_no \<noteq> Some (Some 1)
      then f\<lparr>cf_lines := dict_set line_no (Some 0) (cf_lines f)\<rparr>
      else f)"

text \<open>The body of the loop: the current file before and after the line.\<close>

definition lcov_line :: "'v croc_env \<Rightarrow> string \<Rightarrow> string option \<Rightarrow> ('v coverage, string option) st" where
  "lcov_line env line cov_file =
     (let line = str_strip line in
      if startswith line ''SF:'' then
        bind_st (GetCoveredFile env (drop 3 line) True) (\<lambda>cov_file.
          case cov_file of
            None \<Rightarrow> return_st None
          | Some name \<Rightarrow> seq_st (on_file name (\<lambda>f. f\<lparr>cf_in_lcov := True\<rparr>)) (return_st (Some name)))
      else case cov_file of
        None \<Rightarrow> return_st None
      | Some name \<Rightarrow>
          if startswith line ''DA:'' then
            bind_st (lift_res (map_res py_int (split_char (CHR '','') (drop 3 line)))) (\<lambda>ints.
              case ints of
                [line_no, is_covered] \<Rightarrow>
                  seq_st (on_file name (add_data line_no is_covered)) (return_st (Some name))
              | _ \<Rightarrow> raise_st ValueError)
          else if line = ''end_of_record'' then seq_st (on_file name UpdateCoverage) (return_st None)
          else return_st (Some name))"

fun lcov_loop :: "'v croc_env \<Rightarrow> string list \<Rightarrow> string option \<Rightarrow> ('v coverage, unit) st" where
  "lcov_loop env [] cov_file = return_st ()"
| "lcov_loop env (line # lcov_data) cov_file = bind_st (lcov_line env line cov_file) (lcov_loop env lcov_data)"

definition ParseLcovData :: "'v croc_env \<Rightarrow> string list \<Rightarrow> ('v coverage, unit) st" where
  "ParseLcovData env lcov_data = lcov_loop env lcov_data None"

definition ParseLcovFile :: "'v croc_env \<Rightarrow> string \<Rightarrow> ('v coverage, unit) st" where
  "ParseLcovFile env input_filename = bind_st (lift_res (read_lines env input_filename)) (ParseLcovData env)"

section \<open>Files found on disk\<close>

text \<open>The loop over the subdirectories: those no rule includes are not walked.\<close>

fun prune_dirs :: "'v croc_env \<Rightarrow> string \<Rightarrow> string list \<Rightarrow> string list \<Rightarrow> ('v coverage, string list) st" where
  "prune_dirs env path [] dirnames = return_st dirnames"
| "prune_dirs env path (d # ds) dirnames =
     bind_st (gets_st cov_root_dirs) (\<lambda>root_dirs.
     bind_st (lift_res (CleanupFilename env root_dirs (path @ ''/'' @ d))) (\<lambda>dpath.
     bind_st (gets_st (\<lambda>c. ClassifyFile env (cov_rules c) (dpath @ ''/''))) (\<lambda>attrs.
       prune_dirs env path ds (if attr_true (attr_get attrs ''include'') then dirnames else remove1 d dirnames))))"

definition set_executable :: "nat list \<Rightarrow> covered_file \<Rightarrow> covered_file" where
  "set_executable ls f = UpdateCoverage (f\<lparr>cf_lines := fold (\<lambda>l. dict_set (int l) None) ls (cf_lines f)\<rparr>)"

definition add_found_file :: "'v croc_env \<Rightarrow> string \<Rightarrow> ('v coverage, unit) st" where
  "add_found_file env local_path =
     bind_st (GetCoveredFile env local_path True) (\<lambda>covf.
       case covf of
         None \<Rightarrow> return_st ()
       | Some name \<Rightarrow>
           seq_st (on_file name (\<lambda>f. f\<lparr>cf_local_path := Some local_path\<rparr>))
           (bind_st (gets_st (\<lambda>c. dict_get (cov_files c) name)) (\<lambda>f.
              case f of
                None \<Rightarrow> return_st ()
              | Some f \<Rightarrow>
                  if cf_in_lcov f then return_st ()
                  else if \<not> (case dict_get (cf_attrs f) ''add_if_missing'' of Some a \<Rightarrow> attr_true a | None \<Rightarrow> True)
                  then RemoveCoveredFile name
                  else bind_st (lift_res (ScanFile (read_lines env) local_path
                           (case attr_get (cf_attrs f) ''language'' of AttrStr l \<Rightarrow> Some l | _ \<Rightarrow> None))) (\<lambda>ls.
                       if ls \<noteq> [] then on_file name (set_executable ls) else RemoveCoveredFile name))))"

text \<open>
  The loop over \<^verbatim>\<open>os.walk(src_dir)\<close>, top down. A directory that cannot be listed is skipped, a link
  to a directory is not followed. The generators nest: the depth is bounded by the recursion limit.
\<close>

fun walk_files :: "'v croc_env \<Rightarrow> nat \<Rightarrow> string \<Rightarrow> ('v coverage, unit) st" where
  "walk_files env 0 dir = raise_st RuntimeError"
| "walk_files env (Suc n) dir =
     (case list_dir env dir of
        None \<Rightarrow> return_st ()
      | Some names \<Rightarrow>
          let dirs = filter (\<lambda>name. is_dir env (path_join dir name)) names;
              nondirs = filter (\<lambda>name. \<not> is_dir env (path_join dir name)) names in
          bind_st (prune_dirs env dir dirs dirs) (\<lambda>dirnames.
            seq_st (for_st nondirs (\<lambda>f. add_found_file env (dir @ ''/'' @ f)))
              (for_st dirnames (\<lambda>d.
                 if is_link env (path_join dir d) then return_st ()
                 else walk_files env n (path_join dir d)))))"

text \<open>The loop that replaces alternate names of roots; it tells whether it found one.\<close>

fun replace_roots ::
    "'v croc_env \<Rightarrow> (string \<Rightarrow> ('v coverage, unit) st) \<Rightarrow> string \<Rightarrow> (string \<times> string) list \<Rightarrow> ('v coverage, bool) st" where
  "replace_roots env add_files src_dir [] = return_st False"
| "replace_roots env add_files src_dir ((root, alt_name) # roots) =
     bind_st (lift_res (sub_root env alt_name root src_dir)) (\<lambda>replaced_root.
       if replaced_root \<noteq> src_dir
       then seq_st (add_files replaced_root)
              (bind_st (replace_roots env add_files src_dir roots) (\<lambda>_. return_st True))
       else replace_roots env add_files src_dir roots)"

fun AddFiles_at :: "'v croc_env \<Rightarrow> nat \<Rightarrow> string \<Rightarrow> ('v coverage, unit) st" where
  "AddFiles_at env 0 src_dir = raise_st RuntimeError"
| "AddFiles_at env (Suc n) src_dir =
     bind_st (gets_st cov_root_dirs) (\<lambda>root_dirs.
     bind_st (replace_roots env (AddFiles_at env n) src_dir root_dirs) (\<lambda>found_root.
       if found_root then return_st () else walk_files env (recursion_limit env) src_dir))"

definition AddFiles :: "'v croc_env \<Rightarrow> string \<Rightarrow> ('v coverage, unit) st" where
  "AddFiles env src_dir = AddFiles_at env (recursion_limit env) src_dir"

section \<open>Configuration\<close>

definition config_root :: "'v croc_env \<Rightarrow> (string \<times> string) list \<Rightarrow> ('v coverage, unit) st" where
  "config_root env rootdict =
     (case dict_get rootdict ''root'' of
        None \<Rightarrow> raise_st KeyError
      | Some root \<Rightarrow> AddRoot env root (case dict_get rootdict ''altname'' of Some alt \<Rightarrow> alt | None \<Rightarrow> ''_''))"

definition config_rule :: "'v croc_env \<Rightarrow> attrs \<Rightarrow> ('v coverage, unit) st" where
  "config_rule env ruledict =
     (case dict_get ruledict ''regexp'' of
        None \<Rightarrow> raise_st KeyError
      | Some (AttrStr regexp) \<Rightarrow> Coverage_AddRule env regexp (dict_del ''regexp'' ruledict)
      | Some _ \<Rightarrow> raise_st TypeError)"

text \<open>Each queue is given or not; the result is the queues with what was appended.\<close>

definition AddConfig ::
    "'v croc_env \<Rightarrow> string \<Rightarrow> string list option \<Rightarrow> string list option
       \<Rightarrow> ('v coverage, string list option \<times> string list option) st" where
  "AddConfig env config_data lcov_queue addfiles_queue =
     bind_st (lift_res (eval_config env config_data)) (\<lambda>cfg.
     seq_st (for_st (cfg_roots cfg) (config_root env))
     (seq_st (for_st (cfg_rules cfg) (config_rule env))
     (seq_st (if lcov_queue \<noteq> None then return_st () else for_st (cfg_lcov_files cfg) (ParseLcovFile env))
     (seq_st (if addfiles_queue \<noteq> None then return_st () else for_st (cfg_add_files cfg) (AddFiles env))
     (seq_st (modify_st (\<lambda>c. c\<lparr>cov_print_stats := cov_print_stats c @ cfg_print_stats cfg\<rparr>))
     (return_st (map_option (\<lambda>q. q @ cfg_lcov_files cfg) lcov_queue,
                 map_option (\<lambda>q. q @ cfg_add_files cfg) addfiles_queue)))))))"

definition ParseConfig ::
    "'v croc_env \<Rightarrow> string \<Rightarrow> string list option \<Rightarrow> string list option
       \<Rightarrow> ('v coverage, string list option \<times> string list option) st" where
  "ParseConfig env filename lcov_queue addfiles_queue =
     bind_st (lift_res (read_text env filename)) (\<lambda>data.
       AddConfig env (str_replace [CHR 0x0D, CHR 0x0A] [CHR 0x0A] data) lcov_queue addfiles_queue)"

section \<open>The tree\<close>

text \<open>The contribution of a file to the statistics of a directory above it.\<close>

definition add_to_group :: "attr \<Rightarrow> coverage_stats \<Rightarrow> (attr \<times> coverage_stats) list \<Rightarrow> (attr \<times> coverage_stats) list" where
  "add_to_group grp stats by_group =
     dict_set grp (stats_Add (case dict_get by_group grp of Some s \<Rightarrow> s | None \<Rightarrow> []) stats) by_group"

definition add_stats :: "covered_file \<Rightarrow> (attr \<times> coverage_stats) list \<Rightarrow> (attr \<times> coverage_stats) list" where
  "add_stats f by_group =
     add_to_group (attr_get (cf_attrs f) ''group'') (cf_stats f) (add_to_group (AttrStr ''all'') (cf_stats f) by_group)"

text \<open>The file at the path below a directory; the directories on the way are made when missing.\<close>

fun tree_insert :: "string list \<Rightarrow> string \<Rightarrow> covered_file \<Rightarrow> covered_dir \<Rightarrow> covered_dir" where
  "tree_insert [] name f (CoveredDir path fs ds by_group) =
     CoveredDir path (dict_set name f fs) ds (add_stats f by_group)"
| "tree_insert (d # dirs) name f (CoveredDir path fs ds by_group) =
     (let sub = (case dict_get ds d of
                   Some sub \<Rightarrow> sub
                 | None \<Rightarrow> new_dir (if path \<noteq> [] then path @ ''/'' @ d else d))
      in CoveredDir path fs (dict_set d (tree_insert dirs name f sub) ds) (add_stats f by_group))"

definition tree_of :: "covered_file list \<Rightarrow> covered_dir" where
  "tree_of fs =
     fold (\<lambda>f. let fdirs = split_char (CHR ''/'') (cf_filename f) in tree_insert (butlast fdirs) (last fdirs) f)
       fs (new_dir [])"

definition UpdateTreeStats :: "('v coverage, unit) st" where
  "UpdateTreeStats = modify_st (\<lambda>c. c\<lparr>cov_tree := tree_of (map snd (cov_files c))\<rparr>)"

definition PrintTree :: "'v coverage \<Rightarrow> string list" where
  "PrintTree c = [''Lines of code coverage by directory:'', GetTree [] (cov_tree c)]"

section \<open>Single statistics\<close>

definition tree_defaults :: "covered_dir \<Rightarrow> covered_dir" where
  "tree_defaults d =
     CoveredDir (dirpath d) (dir_files d) (subdirs d)
       (AList.map_entry (AttrStr ''all'') AddDefaults (stats_by_group d))"

text \<open>
  An expression may call \<^verbatim>\<open>S\<close>, that is this function; the depth of the calls is bounded by the
  recursion limit. Every exception but \<open>SystemExit\<close> is an \<^verbatim>\<open>Exception\<close>.
\<close>

fun GetStat_at :: "'v croc_env \<Rightarrow> nat \<Rightarrow> string \<Rightarrow> attr \<Rightarrow> 'v option \<Rightarrow> ('v coverage, 'v) st" where
  "GetStat_at env 0 stat grp dflt c = (Inl RuntimeError, c)"
| "GetStat_at env (Suc n) stat grp dflt c =
     (let failed = (case dflt of None \<Rightarrow> Inl CrocStatError | Some v \<Rightarrow> Inr v);
          c' = (if grp = AttrStr ''all'' then c\<lparr>cov_tree := tree_defaults (cov_tree c)\<rparr> else c) in
      case dict_get (stats_by_group (cov_tree c')) grp of
        None \<Rightarrow> (failed, c)
      | Some stats \<Rightarrow>
          (case eval_stat env (GetStat_at env n) stat stats c' of
             (Inl e, t) \<Rightarrow> (if e = SystemExit then Inl e else failed, t)
           | (Inr v, t) \<Rightarrow> (Inr v, t)))"

definition GetStat :: "'v croc_env \<Rightarrow> string \<Rightarrow> attr \<Rightarrow> 'v option \<Rightarrow> ('v coverage, 'v) st" where
  "GetStat env stat grp dflt = GetStat_at env (recursion_limit env) stat grp dflt"

text \<open>The text written for a statistic.\<close>

definition PrintStat :: "'v croc_env \<Rightarrow> 'v stat_args \<Rightarrow> ('v coverage, string) st" where
  "PrintStat env args =
     bind_st (GetStat env (sa_stat args) (sa_group args) (sa_default args)) (\<lambda>s.
       case sa_format args of
         None \<Rightarrow> return_st (''GetStat('' @ py_repr (sa_stat args) @ '') = '' @ stat_str env s @ [CHR 0x0A])
       | Some fmt \<Rightarrow> bind_st (lift_res (format_stat env fmt s)) (\<lambda>t. return_st (t @ [CHR 0x0A])))"

end
