(* ===== verification/Croc_Html.thy ===== *)
theory Croc_Html
  imports Croc
begin

text \<open>
  \<^verbatim>\<open>tools/code_coverage/croc_html.py\<close>, the pages of a coverage report, and the main routine of
  \<^verbatim>\<open>croc.py\<close>. A document is the tree of its elements; a method that appends to an element is the
  list of children it appends. The text that the XML library makes of a document is not modelled.
\<close>

section \<open>Documents\<close>

datatype html =
    Element (tag: string) (html_attrs: "(string \<times> string) list") (children: "html list")
  | Text string

text \<open>\<open>parent.E(name, **kwargs)\<close> with what is appended to the child later.\<close>

definition E :: "string \<Rightarrow> (string \<times> string) list \<Rightarrow> html list \<Rightarrow> html" where
  "E name kwargs cs =
     Element name (map (\<lambda>(k, v). (if startswith k ''e_'' then drop 2 k else k, v)) kwargs) cs"

record html_file =
  hf_filename :: string
  hf_head :: "html list"
  hf_body :: "html list"

definition hf_doc :: "html_file \<Rightarrow> html" where
  "hf_doc f = Element ''html'' [] [E ''head'' [] (hf_head f), E ''body'' [] (hf_body f)]"

text \<open>
  What the report leaves behind: the lines printed, the directories made, the documents written and
  the files copied.
\<close>

record html_state =
  printed :: "string list"
  made :: "string list"
  written :: "(string \<times> html) list"
  copied :: "(string \<times> string) list"

text \<open>
  The system calls by their arguments, the lines of a source file, the text of a percentage
  (\<^verbatim>\<open>'%.1f%%' % (100.0 * c / e)\<close>), the time and the directory of the script.
\<close>

record html_env =
  path_exists :: "string \<Rightarrow> bool"
  make_dir :: "string \<Rightarrow> unit res"
  open_out :: "string \<Rightarrow> unit res"
  copy_file :: "string \<Rightarrow> string \<Rightarrow> unit res"
  source_lines :: "string \<Rightarrow> string list res"
  percent_text :: "int \<Rightarrow> int \<Rightarrow> string"
  asctime :: string
  script_dir :: string

definition print_line :: "string \<Rightarrow> (html_state, unit) st" where
  "print_line s = modify_st (\<lambda>h. h\<lparr>printed := printed h @ [s]\<rparr>)"

definition HtmlFile_Write :: "html_env \<Rightarrow> html_file \<Rightarrow> (html_state, unit) st" where
  "HtmlFile_Write env f =
     seq_st (lift_res (open_out env (hf_filename f)))
       (modify_st (\<lambda>h. h\<lparr>written := written h @ [(hf_filename f, hf_doc f)]\<rparr>))"

section \<open>Parts of a page\<close>

definition COV_TYPE_STRING :: "(int option \<times> string) list" where
  "COV_TYPE_STRING = [(None, ''m''), (Some 0, ''i''), (Some 1, ''E''), (Some 2, '' '')]"

definition COV_TYPE_CLASS :: "(int option \<times> string) list" where
  "COV_TYPE_CLASS = [(None, ''missing''), (Some 0, ''instr''), (Some 1, ''covered''), (Some 2, '''')]"

record croc_html =
  output_root :: string
  base_url :: "string option"
  time_string :: string

definition CrocHtml :: "html_env \<Rightarrow> string \<Rightarrow> string option \<Rightarrow> croc_html" where
  "CrocHtml env out base =
     \<lparr>output_root = out, base_url = base, time_string = ''Coverage information generated '' @ asctime env @ ''.''\<rparr>"

text \<open>\<^verbatim>\<open>'../' * n\<close>.\<close>

definition ups :: "nat \<Rightarrow> string" where
  "ups n = concat (replicate n ''../'')"

definition CreateHtmlDoc :: "croc_html \<Rightarrow> string \<Rightarrow> string \<Rightarrow> html_file" where
  "CreateHtmlDoc self filename title =
     (let (base, css_href) =
        (case base_url self of
           Some (u # us) \<Rightarrow>
             let href = (u # us) @ dirname filename;
                 href = (if href \<noteq> [] \<and> last href = CHR ''/'' then href else href @ ''/'')
             in ([E ''base'' [(''href'', href)] []], (u # us) @ ''croc.css'')
         | _ \<Rightarrow> ([], ups (length (split_char (CHR ''/'') filename) - 1) @ ''croc.css''))
      in \<lparr>hf_filename = output_root self @ ''/'' @ filename,
          hf_head = E ''title'' [] [Text title] # base
            @ [E ''link'' [(''rel'', ''stylesheet''), (''type'', ''text/css''), (''href'', css_href)] []],
          hf_body = []\<rparr>)"

text \<open>The links to the directories of a path: one for each component but the last, the root first.\<close>

definition caption_links :: "nat \<Rightarrow> string \<Rightarrow> html list" where
  "caption_links k path =
     (let dirs = [] # split_char (CHR ''/'') path; num_dirs = length dirs in
      map (\<lambda>i. E ''a'' [(''href'', ups (num_dirs - i - k) @ ''index.html'')] [Text (dirs ! i @ ''/'')])
        [0..<num_dirs - 1])"

definition AddCaptionForFile :: "string \<Rightarrow> html" where
  "AddCaptionForFile path =
     E ''h2'' [] (Text ''Coverage for '' # caption_links 2 path
       @ [Text (last ([] # split_char (CHR ''/'') path))])"

definition AddCaptionForSubdir :: "string \<Rightarrow> html" where
  "AddCaptionForSubdir path =
     E ''h2'' [] (Text ''Coverage for '' # caption_links 1 path
       @ [Text (last ([] # split_char (CHR ''/'') path) @ ''/'')])"

definition AddSectionHeader :: "string option \<Rightarrow> string option \<Rightarrow> bool \<Rightarrow> html list" where
  "AddSectionHeader caption itemtype is_file =
     (case caption of None \<Rightarrow> []
      | Some c \<Rightarrow> [E ''tr'' [] [E ''th'' [(''e_class'', ''secdesc''), (''colspan'', ''8'')] [Text c]]])
     @ [E ''tr'' []
          ((case itemtype of None \<Rightarrow> [] | Some t \<Rightarrow> [E ''th'' [(''e_class'', ''section'')] [Text t]])
           @ [E ''th'' [(''e_class'', ''section'')] [Text ''Coverage''],
              E ''th'' [(''e_class'', ''section''), (''colspan'', ''3'')] [Text ''Lines executed / instrumented / missing''],
              E ''th'' [(''e_class'', ''section'')]
                [E ''span'' [(''style'', ''color:#00FF00'')] [Text ''exe''], Text '' / '',
                 E ''span'' [(''style'', ''color:#FFFF00'')] [Text ''inst''], Text '' / '',
                 E ''span'' [(''style'', ''color:#FF0000'')] [Text ''miss'']]]
           @ (if is_file
              then [E ''th'' [(''e_class'', ''section'')] [Text ''Language''],
                    E ''th'' [(''e_class'', ''section'')] [Text ''Group'']]
              else [E ''th'' [(''e_class'', ''section''), (''colspan'', ''2'')] []]))]"

text \<open>
  The graph: its three widths. The percentages are computed with doubles; on line counts below
  \<open>2 ^ 40\<close> their comparisons and truncations are those of the exact quotients.
\<close>

definition graph_widths :: "int \<Rightarrow> int \<Rightarrow> int \<Rightarrow> int \<times> int \<times> int" where
  "graph_widths stat_exe stat_ins stat_cov =
     (let percent_cov = (100 * stat_cov) div stat_exe; percent_ins = (100 * stat_ins) div stat_exe
      in (percent_cov, percent_ins - percent_cov, 100 - percent_ins))"

definition percent_class :: "int \<Rightarrow> int \<Rightarrow> string" where
  "percent_class stat_exe stat_cov =
     (if 80 * stat_exe \<le> 100 * stat_cov then ''high_pct''
      else if 60 * stat_exe \<le> 100 * stat_cov then ''mid_pct'' else ''low_pct'')"

definition graph_span :: "int \<Rightarrow> string \<Rightarrow> html" where
  "graph_span w cl = E ''span'' [(''style'', ''padding-left:'' @ str_int w @ ''px''), (''e_class'', cl)] []"

definition AddItem ::
    "html_env \<Rightarrow> string option \<Rightarrow> coverage_stats \<Rightarrow> attrs option \<Rightarrow> string option \<Rightarrow> html" where
  "AddItem env itemname stats attrs link =
     (let stat_exe = stat_get stats ''lines_executable'';
          stat_ins = stat_get stats ''lines_instrumented'';
          stat_cov = stat_get stats ''lines_covered'';
          (w_cov, w_ins, w_miss) = graph_widths stat_exe stat_ins stat_cov
      in E ''tr'' []
        ((case itemname of None \<Rightarrow> []
          | Some n \<Rightarrow> [E ''td'' [] (case link of None \<Rightarrow> [Text n] | Some l \<Rightarrow> [E ''a'' [(''href'', l)] [Text n]])])
         @ [if stat_exe \<noteq> 0
            then E ''td'' [(''class'', percent_class stat_exe stat_cov)] [Text (percent_text env stat_cov stat_exe)]
            else E ''td'' [] [],
            E ''td'' [(''e_class'', ''number'')] [Text (str_int stat_cov)],
            E ''td'' [(''e_class'', ''number'')] [Text (str_int stat_ins)],
            E ''td'' [(''e_class'', ''number'')] [Text (str_int (stat_exe - stat_ins))],
            E ''td'' [(''e_class'', ''graph''), (''width'', ''100'')]
              (if stat_exe \<noteq> 0
               then [Text ''.'', graph_span w_cov ''g_covered'', graph_span w_ins ''g_instr'', graph_span w_miss ''g_missing'']
               else [])]
         @ (case attrs of
              Some (a # as) \<Rightarrow> [E ''td'' [(''e_class'', ''stat'')] [Text (attr_str (attr_get (a # as) ''language''))],
                              E ''td'' [(''e_class'', ''stat'')] [Text (attr_str (attr_get (a # as) ''group''))]]
            | _ \<Rightarrow> [E ''td'' [(''colspan'', ''2'')] []])))"

section \<open>Pages\<close>

definition pad_left :: "nat \<Rightarrow> string \<Rightarrow> string" where
  "pad_left n s = replicate (n - length s) (CHR '' '') @ s"

definition source_span :: "(int \<times> int option) list \<Rightarrow> nat \<Rightarrow> string \<Rightarrow> html" where
  "source_span ls lineno line =
     (let line_cov = (case dict_get ls (int lineno) of Some l \<Rightarrow> l | None \<Rightarrow> Some 2);
          shown = (\<lambda>table. case dict_get table line_cov of Some s \<Rightarrow> s | None \<Rightarrow> ''None'')
      in E ''span'' [(''e_class'', shown COV_TYPE_CLASS)]
           [Text (pad_left 4 (str_nat lineno) @ ''  '' @ shown COV_TYPE_STRING @ '' :  '' @ str_rstrip line @ [CHR 0x0A])])"

definition not_available :: "html list" where
  "not_available =
     [Text (''Line-by-line coverage not available.  Make sure the directory''
            @ '' containing this file has been scanned via ''),
      E ''B'' [] [Text ''add_files''], Text '' in a configuration file, or the '',
      E ''B'' [] [Text ''--addfiles''], Text '' command line option.'']"

definition WriteFile :: "html_env \<Rightarrow> croc_html \<Rightarrow> covered_file \<Rightarrow> (html_state, unit) st" where
  "WriteFile env self f =
     seq_st (print_line (''  '' @ cf_filename f))
     (bind_st (case cf_local_path f of
                 Some (p # ps) \<Rightarrow>
                   bind_st (lift_res (source_lines env (p # ps))) (\<lambda>flines.
                     return_st [E ''table'' [] [E ''tr'' [] [E ''td'' [] [E ''pre'' []
                       (map (\<lambda>(i, line). source_span (cf_lines f) (Suc i) line) (enumerate 0 flines))]]]])
               | _ \<Rightarrow> return_st not_available) (\<lambda>code.
      HtmlFile_Write env
        ((CreateHtmlDoc self (cf_filename f @ ''.html'') (''Coverage for '' @ cf_filename f))
         \<lparr>hf_body :=
            [AddCaptionForFile (cf_filename f),
             E ''table'' [] (AddSectionHeader None None True @ [AddItem env None (cf_stats f) (Some (cf_attrs f)) None]),
             E ''h2'' [] [Text ''Line-by-line coverage:'']]
            @ code @ [E ''p'' [(''e_class'', ''time'')] [Text (time_string self)]]\<rparr>)))"

definition sort_jsfile :: "string \<Rightarrow> string" where
  "sort_jsfile path = ups (length ([] # split_char (CHR ''/'') path) - 1) @ ''sorttable.js''"

definition group_table :: "html_env \<Rightarrow> covered_dir \<Rightarrow> html" where
  "group_table env d =
     E ''table'' [(''e_class'', ''sortable'')]
       (E ''h3'' [] [Text ''Coverage by Group''] # AddSectionHeader None (Some ''Group'') False
        @ map (\<lambda>(g, s). AddItem env (if g = AttrNone then None else Some (attr_str g)) s None None)
            (sort_key fst (stats_by_group d)))"

definition subdir_table :: "html_env \<Rightarrow> covered_dir \<Rightarrow> html list" where
  "subdir_table env d =
     (if subdirs d = [] then []
      else [E ''table'' [(''e_class'', ''sortable'')]
        (E ''h3'' [] [Text ''Subdirectories''] # AddSectionHeader None (Some ''Subdirectory'') False
         @ map (\<lambda>(name, sub). AddItem env (Some (name @ ''/''))
                  (case dict_get (stats_by_group sub) (AttrStr ''all'') of Some s \<Rightarrow> s | None \<Rightarrow> [])
                  None (Some (name @ ''/index.html'')))
             (sort_key fst (subdirs d)))])"

definition file_table :: "html_env \<Rightarrow> covered_dir \<Rightarrow> html list" where
  "file_table env d =
     (if dir_files d = [] then []
      else [E ''table'' [(''e_class'', ''sortable'')]
        (E ''h3'' [] [Text ''Files in This Directory''] # AddSectionHeader None (Some ''Filename'') True
         @ map (\<lambda>(name, f). AddItem env (Some name) (cf_stats f) (Some (cf_attrs f)) (Some (name @ ''.html'')))
             (sort_key fst (dir_files d)))])"

definition WriteSubdir :: "html_env \<Rightarrow> croc_html \<Rightarrow> covered_dir \<Rightarrow> (html_state, unit) st" where
  "WriteSubdir env self d =
     (let subdir = output_root self @ ''/'' @ dirpath d;
          title = (if dirpath d \<noteq> [] then ''Coverage for '' @ dirpath d @ ''/'' else ''Coverage summary'') in
      seq_st (print_line (''  '' @ dirpath d @ ''/''))
      (seq_st (bind_st (gets_st made) (\<lambda>made_dirs.
                 if path_exists env subdir \<or> subdir \<in> set made_dirs then return_st ()
                 else seq_st (lift_res (make_dir env subdir)) (modify_st (\<lambda>h. h\<lparr>made := made h @ [subdir]\<rparr>))))
       (HtmlFile_Write env
         ((CreateHtmlDoc self (if dirpath d \<noteq> [] then dirpath d @ ''/index.html'' else ''index.html'') title)
          \<lparr>hf_body :=
             [E ''script'' [(''src'', sort_jsfile (dirpath d))] [], E ''/script'' [] [],
              if dirpath d \<noteq> [] then AddCaptionForSubdir (dirpath d) else E ''h2'' [] [Text title],
              group_table env d]
             @ subdir_table env d @ file_table env d @ [E ''p'' [(''e_class'', ''time'')] [Text (time_string self)]]\<rparr>))))"

definition copy_to_root :: "html_env \<Rightarrow> croc_html \<Rightarrow> string \<Rightarrow> string \<Rightarrow> (html_state, unit) st" where
  "copy_to_root env self src_dir name =
     (let src = path_join src_dir name; dst = path_join (output_root self) name in
      seq_st (print_line (''  Copying '' @ name))
      (seq_st (lift_res (copy_file env src dst)) (modify_st (\<lambda>h. h\<lparr>copied := copied h @ [(src, dst)]\<rparr>))))"

definition WriteRoot :: "html_env \<Rightarrow> croc_html \<Rightarrow> (html_state, unit) st" where
  "WriteRoot env self =
     seq_st (copy_to_root env self (script_dir env) ''croc.css'')
       (copy_to_root env self (path_join (script_dir env) ''third_party'') ''sorttable.js'')"

section \<open>The report\<close>

fun dir_count :: "covered_dir \<Rightarrow> nat" where
  "dir_count (CoveredDir path fs ds by_group) = Suc (sum_list (map (\<lambda>(name, d). dir_count d) ds))"

lemma dir_count_subdirs: "dir_count d = Suc (sum_list (map (dir_count \<circ> snd) (subdirs d)))"
  by (cases d) (simp add: comp_def case_prod_beta')

text \<open>The loop over the directories still to be written, breadth first.\<close>

function (sequential) write_dirs :: "html_env \<Rightarrow> croc_html \<Rightarrow> covered_dir list \<Rightarrow> (html_state, unit) st" where
  "write_dirs env self [] = return_st ()"
| "write_dirs env self (d # todo) =
     seq_st (WriteSubdir env self d)
     (seq_st (for_st (map snd (dir_files d)) (WriteFile env self))
      (write_dirs env self (todo @ map snd (subdirs d))))"
  by pat_completeness auto
termination
  by (relation "measure (\<lambda>(_, _, todo). sum_list (map dir_count todo))") (auto simp: dir_count_subdirs)

definition CrocHtml_Write :: "html_env \<Rightarrow> croc_html \<Rightarrow> covered_dir \<Rightarrow> (html_state, unit) st" where
  "CrocHtml_Write env self tree =
     seq_st (print_line (''Writing HTML to '' @ output_root self @ ''...''))
       (seq_st (write_dirs env self [tree]) (WriteRoot env self))"

section \<open>The main routine\<close>

text \<open>The options after parsing; \<open>help_text\<close> is what the option parser prints.\<close>

record croc_options =
  opt_inputs :: "string list"
  opt_roots :: "string list"
  opt_configs :: "string list"
  opt_addfiles :: "string list"
  opt_tree :: bool
  opt_uninstrumented :: bool
  opt_html_out :: "string option"
  opt_base_url :: "string option"

definition main_root :: "'v croc_env \<Rightarrow> string \<Rightarrow> ('v coverage, unit) st" where
  "main_root env root_opt =
     (case split_char (CHR ''='') root_opt of
        [root] \<Rightarrow> AddRoot env root ''_''
      | [root, alt_name] \<Rightarrow> AddRoot env root alt_name
      | _ \<Rightarrow> raise_st TypeError)"

fun main_configs ::
    "'v croc_env \<Rightarrow> string list \<Rightarrow> string list \<Rightarrow> string list \<Rightarrow> ('v coverage, string list \<times> string list) st" where
  "main_configs env [] inputs addfiles = return_st (inputs, addfiles)"
| "main_configs env (config_file # configs) inputs addfiles =
     bind_st (ParseConfig env config_file (Some inputs) (Some addfiles)) (\<lambda>(lcov_queue, addfiles_queue).
       main_configs env configs (case lcov_queue of Some q \<Rightarrow> q | None \<Rightarrow> inputs)
         (case addfiles_queue of Some q \<Rightarrow> q | None \<Rightarrow> addfiles))"

text \<open>Everything before the output.\<close>

definition main_collect :: "'v croc_env \<Rightarrow> croc_options \<Rightarrow> ('v coverage, unit) st" where
  "main_collect env options =
     seq_st (for_st (opt_roots options) (main_root env))
     (bind_st (main_configs env (opt_configs options) (opt_inputs options) (opt_addfiles options))
       (\<lambda>(inputs, addfiles).
        seq_st (for_st inputs (ParseLcovFile env)) (for_st addfiles (AddFiles env))))"

definition uninstrumented_lines :: "'v coverage \<Rightarrow> string list" where
  "uninstrumented_lines c =
     ''Uninstrumented files:''
     # map (\<lambda>(name, f). ''  '' @ pad_right 6 (attr_str (attr_get (cf_attrs f) ''group'')) @ '' ''
              @ pad_right 6 (attr_str (attr_get (cf_attrs f) ''language'')) @ '' '' @ name)
         (filter (\<lambda>(name, f). \<not> cf_in_lcov f) (sort_key fst (cov_files c)))"

fun main_stats :: "'v croc_env \<Rightarrow> 'v stat_args list \<Rightarrow> ('v coverage, string list) st" where
  "main_stats env [] = return_st []"
| "main_stats env (a # as) =
     bind_st (PrintStat env a) (\<lambda>out. bind_st (main_stats env as) (\<lambda>outs. return_st (out # outs)))"

text \<open>The exit code, what was printed before the report, and the report.\<close>

definition croc_Main ::
    "'v croc_env \<Rightarrow> html_env \<Rightarrow> string \<Rightarrow> croc_options \<Rightarrow> ('v coverage, int \<times> string list \<times> html_state) st" where
  "croc_Main env henv help_text options =
     (let none = \<lparr>printed = [], made = [], written = [], copied = []\<rparr> in
      seq_st (main_collect env options)
      (bind_st (gets_st cov_files) (\<lambda>files.
       if files = [] then return_st (1, [''No covered files found.'', help_text], none)
       else
         seq_st UpdateTreeStats
         (bind_st (gets_st (\<lambda>c. (if opt_uninstrumented options then uninstrumented_lines c else [])
                               @ (if opt_tree options then PrintTree c else []))) (\<lambda>out.
          bind_st (gets_st cov_print_stats) (\<lambda>print_stats.
          bind_st (main_stats env print_stats) (\<lambda>stats.
            case opt_html_out options of
              Some (o1 # os) \<Rightarrow>
                bind_st (gets_st cov_tree) (\<lambda>tree.
                  case CrocHtml_Write henv (CrocHtml henv (o1 # os) (opt_base_url options)) tree none of
                    (Inl e, _) \<Rightarrow> raise_st e
                  | (Inr _, h) \<Rightarrow> return_st (0, out @ stats, h))
            | _ \<Rightarrow> return_st (0, out @ stats, none))))))))"

end
