(* ===== verification/Croc_Tree.thy ===== *)
theory Croc_Tree
  imports Croc_Html
begin

text \<open>
  The tree of covered directories: what the statistics of a directory add up to, and the bounds
  between the counts of a file that every sum inherits.
\<close>

section \<open>Sums of statistics\<close>

lemma stat_get_Nil [simp]: "stat_get [] k = 0"
  by (simp add: stat_get_def)

lemma stat_get_set: "stat_get (dict_set j v s) k = (if k = j then v else stat_get s k)"
  by (simp add: stat_get_def)

lemma stats_Add_Cons:
  "stats_Add s ((k, v) # t) = stats_Add (dict_set k (stat_get s k + v) s) t"
  by (auto simp: stats_Add_def stat_get_def split: option.splits)

lemma stat_get_absent: "k \<notin> fst ` set s \<Longrightarrow> stat_get s k = 0"
  by (simp add: stat_get_def map_of_eq_None_iff [THEN iffD2])

lemma stat_get_Add:
  "distinct (map fst t) \<Longrightarrow> stat_get (stats_Add s t) k = stat_get s k + stat_get t k"
proof (induction t arbitrary: s)
  case Nil
  show ?case by (simp add: stats_Add_def)
next
  case (Cons e t)
  obtain j v where e: "e = (j, v)" by (cases e)
  with Cons.prems have "stat_get t j = 0" by (auto intro: stat_get_absent)
  moreover have "stat_get ((j, v) # t) k = (if k = j then v else stat_get t k)"
    by (simp add: stat_get_def)
  ultimately show ?case using Cons e by (simp add: stats_Add_Cons stat_get_set)
qed

section \<open>Looking into the tree\<close>

text \<open>The directory at a path of names, and one count of one group there.\<close>

fun dir_at :: "string list \<Rightarrow> covered_dir \<Rightarrow> covered_dir option" where
  "dir_at [] d = Some d"
| "dir_at (n # ns) d = (case dict_get (subdirs d) n of None \<Rightarrow> None | Some sub \<Rightarrow> dir_at ns sub)"

definition group_stat :: "(attr \<times> coverage_stats) list \<Rightarrow> attr \<Rightarrow> string \<Rightarrow> int" where
  "group_stat by_group g k = (case dict_get by_group g of None \<Rightarrow> 0 | Some s \<Rightarrow> stat_get s k)"

definition tree_stat :: "covered_dir \<Rightarrow> string list \<Rightarrow> attr \<Rightarrow> string \<Rightarrow> int" where
  "tree_stat d ns g k = (case dir_at ns d of None \<Rightarrow> 0 | Some e \<Rightarrow> group_stat (stats_by_group e) g k)"

text \<open>The directories a file is below, and what it adds to a count of each of them.\<close>

definition file_dirs :: "covered_file \<Rightarrow> string list" where
  "file_dirs f = butlast (split_char (CHR ''/'') (cf_filename f))"

definition contribution :: "covered_file \<Rightarrow> attr \<Rightarrow> string \<Rightarrow> int" where
  "contribution f g k =
     (of_bool (g = AttrStr ''all'') + of_bool (g = attr_get (cf_attrs f) ''group'')) * stat_get (cf_stats f) k"

lemma group_stat_add:
  "distinct (map fst s) \<Longrightarrow>
   group_stat (add_to_group h s by_group) g k = group_stat by_group g k + (if g = h then stat_get s k else 0)"
  by (auto simp: group_stat_def add_to_group_def stat_get_Add split: option.splits)

lemma group_stat_add_stats:
  "distinct (map fst (cf_stats f)) \<Longrightarrow>
   group_stat (add_stats f by_group) g k = group_stat by_group g k + contribution f g k"
  by (simp add: add_stats_def group_stat_add contribution_def algebra_simps)

lemma tree_stat_new [simp]: "tree_stat (new_dir p) ns g k = 0"
  by (cases ns) (auto simp: tree_stat_def new_dir_def group_stat_def)

lemma tree_stat_simps:
  "tree_stat (CoveredDir p fs ds by_group) [] g k = group_stat by_group g k"
  "tree_stat (CoveredDir p fs ds by_group) (n # ns) g k =
     (case dict_get ds n of None \<Rightarrow> 0 | Some sub \<Rightarrow> tree_stat sub ns g k)"
  by (auto simp: tree_stat_def split: option.splits)

lemma tree_stat_insert:
  assumes "distinct (map fst (cf_stats f))"
  shows "tree_stat (tree_insert dirs name f d) ns g k =
           tree_stat d ns g k + (if prefix ns dirs then contribution f g k else 0)"
proof (induction dirs arbitrary: d ns)
  case Nil
  obtain p fs ds by_group where d: "d = CoveredDir p fs ds by_group" by (cases d)
  show ?case by (cases ns) (simp_all add: d tree_stat_simps group_stat_add_stats [OF assms])
next
  case (Cons e dirs)
  obtain p fs ds by_group where d: "d = CoveredDir p fs ds by_group" by (cases d)
  show ?case
    by (cases ns)
      (auto simp: d tree_stat_simps group_stat_add_stats [OF assms] Let_def Cons.IH split: option.splits)
qed

lemma tree_stat_of:
  assumes "\<forall>f \<in> set fs. distinct (map fst (cf_stats f))"
  shows "tree_stat (tree_of fs) ns g k =
           (\<Sum>f\<leftarrow>fs. if prefix ns (file_dirs f) then contribution f g k else 0)"
proof -
  let ?ins = "\<lambda>f. let fdirs = split_char (CHR ''/'') (cf_filename f) in tree_insert (butlast fdirs) (last fdirs) f"
  have "tree_stat (fold ?ins fs d) ns g k =
      tree_stat d ns g k + (\<Sum>f\<leftarrow>fs. if prefix ns (file_dirs f) then contribution f g k else 0)" for d
    using assms by (induction fs arbitrary: d) (simp_all add: Let_def tree_stat_insert file_dirs_def)
  then show ?thesis by (simp add: tree_of_def)
qed

section \<open>The counts of a file\<close>

text \<open>The counts are in order; a file with a covered line is an instrumented file.\<close>

definition stats_ok :: "coverage_stats \<Rightarrow> bool" where
  "stats_ok s \<longleftrightarrow> distinct (map fst s)
     \<and> 0 \<le> stat_get s ''lines_covered'' \<and> stat_get s ''lines_covered'' \<le> stat_get s ''lines_instrumented''
     \<and> stat_get s ''lines_instrumented'' \<le> stat_get s ''lines_executable''
     \<and> 0 \<le> stat_get s ''files_covered'' \<and> stat_get s ''files_covered'' \<le> stat_get s ''files_instrumented''
     \<and> stat_get s ''files_instrumented'' \<le> stat_get s ''files_executable''"

lemma stats_ok_Nil [simp]: "stats_ok []"
  by (simp add: stats_ok_def)

definition instrumented :: "covered_file \<Rightarrow> nat" where
  "instrumented f = length (filter (\<lambda>l. l \<noteq> None) (map snd (cf_lines f)))"

definition covered :: "covered_file \<Rightarrow> nat" where
  "covered f = length (filter (\<lambda>l. l = Some 1) (map snd (cf_lines f)))"

lemma coverage_counts:
  "fold (\<lambda>l (exe, instr, cov).
     (exe + 1, if l \<noteq> None then instr + 1 else instr, if l = Some 1 then cov + 1 else cov)) ls (a, b, c) =
   (a + int (length ls), b + int (length (filter (\<lambda>l. l \<noteq> None) ls)),
    c + int (length (filter (\<lambda>l. l = Some (1 :: int)) ls)))"
  by (induction ls arbitrary: a b c) auto

lemma UpdateCoverage_eq:
  "UpdateCoverage f = f\<lparr>cf_stats :=
     [(''lines_executable'', int (length (cf_lines f))), (''lines_instrumented'', int (instrumented f)),
      (''lines_covered'', int (covered f)), (''files_executable'', 1)]
     @ (if covered f \<noteq> 0 then [(''files_covered'', 1)] else [])
     @ (if instrumented f \<noteq> 0 \<or> cf_in_lcov f then [(''files_instrumented'', 1)] else [])\<rparr>"
  unfolding UpdateCoverage_def coverage_counts instrumented_def [symmetric] covered_def [symmetric]
  by (simp add: Let_def)

lemma covered_le: "covered f \<le> instrumented f"
proof -
  have "length (filter (\<lambda>l. l = Some (1 :: int)) ls) \<le> length (filter (\<lambda>l. l \<noteq> None) ls)" for ls
    by (induction ls) auto
  then show ?thesis by (simp only: covered_def instrumented_def)
qed

lemma instrumented_le: "instrumented f \<le> length (cf_lines f)"
  unfolding instrumented_def by (rule le_trans [OF length_filter_le]) simp

lemma stats_ok_UpdateCoverage: "stats_ok (cf_stats (UpdateCoverage f))"
proof -
  have "covered f \<noteq> 0 \<Longrightarrow> instrumented f \<noteq> 0" using covered_le [of f] by linarith
  then show ?thesis
    unfolding stats_ok_def UpdateCoverage_eq
    using covered_le [of f] instrumented_le [of f] by (auto simp: stat_get_def)
qed

lemma UpdateCoverage_frame [simp]:
  "cf_filename (UpdateCoverage f) = cf_filename f" "cf_attrs (UpdateCoverage f) = cf_attrs f"
  "cf_lines (UpdateCoverage f) = cf_lines f" "cf_in_lcov (UpdateCoverage f) = cf_in_lcov f"
  "cf_local_path (UpdateCoverage f) = cf_local_path f"
  unfolding UpdateCoverage_eq by simp_all

end
