(* ===== verification/Croc_Invariant.thy ===== *)
theory Croc_Invariant
  imports Croc_Tree
begin

text \<open>
  The invariant of the coverage object: what holds of its files and roots, whatever configuration
  files, LCOV data and directories it was built from, and also after an exception.
\<close>

section \<open>The invariant\<close>

definition file_ok :: "covered_file \<Rightarrow> bool" where
  "file_ok f \<longleftrightarrow> stats_ok (cf_stats f) \<and> distinct (map fst (cf_lines f))
     \<and> snd ` set (cf_lines f) \<subseteq> {None, Some 0, Some 1}
     \<and> attr_true (attr_get (cf_attrs f) ''group'') \<and> attr_true (attr_get (cf_attrs f) ''language'')"

definition croc_ok :: "'v coverage \<Rightarrow> bool" where
  "croc_ok c \<longleftrightarrow> distinct (map fst (cov_files c))
     \<and> (\<forall>(name, f) \<in> set (cov_files c). cf_filename f = name \<and> file_ok f)
     \<and> (\<forall>(root, alt_name) \<in> set (cov_root_dirs c). alt_name \<noteq> [])"

lemma croc_ok_Coverage: "croc_ok Coverage"
  by (simp add: croc_ok_def Coverage_def)

section \<open>Updates of a file\<close>

lemma set_dict_set: "(j, w) \<in> set (dict_set k v d) \<Longrightarrow> (j = k \<and> w = v) \<or> (j, w) \<in> set d"
  by (induction d) (auto split: if_splits)

lemma snd_dict_set: "snd ` set (dict_set k v d) \<subseteq> insert v (snd ` set d)"
  using set_dict_set by fastforce

lemma set_map_entry: "(j, w) \<in> set (AList.map_entry k u d) \<Longrightarrow> (j, w) \<in> set d \<or> (\<exists>v. (j, v) \<in> set d \<and> w = u v)"
  by (induction d) (auto split: if_splits)

lemma file_ok_UpdateCoverage: "file_ok f \<Longrightarrow> file_ok (UpdateCoverage f)"
  by (simp add: file_ok_def stats_ok_UpdateCoverage)

lemma file_ok_line:
  assumes "file_ok f" and "v \<in> {None, Some 0, Some 1}"
  shows "file_ok (f\<lparr>cf_lines := dict_set n v (cf_lines f)\<rparr>)"
proof -
  have "snd ` set (dict_set n v (cf_lines f)) \<subseteq> {None, Some 0, Some 1}"
  proof (rule subset_trans [OF snd_dict_set])
    from assms(1) have "snd ` set (cf_lines f) \<subseteq> {None, Some 0, Some 1}" by (simp add: file_ok_def)
    with assms(2) show "insert v (snd ` set (cf_lines f)) \<subseteq> {None, Some 0, Some 1}" by (simp only: insert_subset)
  qed
  with assms(1) show ?thesis by (simp add: file_ok_def distinct_update)
qed

lemma file_ok_add_data: "file_ok f \<Longrightarrow> file_ok (add_data n i f)"
  by (simp add: add_data_def file_ok_line)

lemma file_ok_set_executable:
  assumes "file_ok f"
  shows "file_ok (set_executable ls f)"
proof -
  have "file_ok (f\<lparr>cf_lines := fold (\<lambda>l. dict_set (int l) None) ls (cf_lines f)\<rparr>)"
    using assms
  proof (induction ls arbitrary: f)
    case (Cons l ls)
    from Cons.IH [OF file_ok_line [OF Cons.prems, of None "int l"]] show ?case by simp
  qed simp
  then show ?thesis by (simp add: set_executable_def file_ok_UpdateCoverage)
qed

lemma frame_updates [simp]:
  "cf_filename (add_data n i f) = cf_filename f"
  "cf_filename (set_executable ls f) = cf_filename f"
  by (simp_all add: add_data_def set_executable_def)

lemma on_file_ok [maintains_rules]:
  assumes "\<And>f. file_ok f \<Longrightarrow> file_ok (u f)" and "\<And>f. cf_filename (u f) = cf_filename f"
  shows "maintains croc_ok (on_file name u)"
proof -
  have "croc_ok (c\<lparr>cov_files := AList.map_entry name u (cov_files c)\<rparr>)" if "croc_ok c" for c :: "'a coverage"
    using that assms unfolding croc_ok_def by (auto simp: distinct_map_entry dest!: set_map_entry)
  then show ?thesis unfolding on_file_def by (rule maintains_modify)
qed

section \<open>Every operation maintains it\<close>

lemma AddRoot_ok [maintains_rules]: "maintains croc_ok (AddRoot env root alt)"
  unfolding AddRoot_def
  by (intro maintains_rules maintains_bind maintains_lift) (auto simp: croc_ok_def)

lemma AddRule_ok [maintains_rules]: "maintains croc_ok (Coverage_AddRule env p kwargs)"
  unfolding Coverage_AddRule_def by (intro maintains_rules) (auto simp: croc_ok_def)

lemma CoveredFile_ok:
  "CoveredFile name attrs = Inr f \<Longrightarrow> attr_true (attr_get attrs ''group'') \<Longrightarrow>
   attr_true (attr_get attrs ''language'') \<Longrightarrow> cf_filename f = name \<and> file_ok f"
  by (auto simp: CoveredFile_def file_ok_def split: if_splits)

lemma croc_ok_add_file:
  "croc_ok c \<Longrightarrow> cf_filename f = name \<Longrightarrow> file_ok f \<Longrightarrow> croc_ok (c\<lparr>cov_files := dict_set name f (cov_files c)\<rparr>)"
  by (auto simp: croc_ok_def distinct_update dest!: set_dict_set)

lemma GetCoveredFile_ok [maintains_rules]: "maintains croc_ok (GetCoveredFile env name add)"
  unfolding GetCoveredFile_def
  by (intro maintains_rules maintains_lift maintains_bind [OF maintains_basic(3)])
    (use CoveredFile_ok croc_ok_add_file in blast)

lemma RemoveCoveredFile_ok [maintains_rules]: "maintains croc_ok (RemoveCoveredFile name)"
  unfolding RemoveCoveredFile_def
  by (intro maintains_rules maintains_bind) (auto simp: croc_ok_def dict_del_mem distinct_delete)

lemma lcov_line_ok [maintains_rules]: "maintains croc_ok (lcov_line env line cur)"
  unfolding lcov_line_def Let_def
  by (intro maintains_rules maintains_bind)
    (auto intro!: maintains_rules maintains_bind split: list.split
      simp: file_ok_add_data file_ok_UpdateCoverage, simp_all add: file_ok_def)

lemma lcov_loop_ok [maintains_rules]: "maintains croc_ok (lcov_loop env ls cur)"
  by (induction ls arbitrary: cur) (auto intro!: maintains_rules maintains_bind)

lemma ParseLcovFile_ok [maintains_rules]: "maintains croc_ok (ParseLcovFile env name)"
  unfolding ParseLcovFile_def ParseLcovData_def by (intro maintains_rules maintains_bind)

lemma prune_dirs_ok [maintains_rules]: "maintains croc_ok (prune_dirs env path ds dirnames)"
  by (induction ds arbitrary: dirnames) (auto intro!: maintains_rules maintains_bind)

lemma add_found_file_ok [maintains_rules]: "maintains croc_ok (add_found_file env path)"
  unfolding add_found_file_def
  by (intro maintains_rules maintains_bind) (simp_all add: file_ok_set_executable, simp add: file_ok_def)

lemma walk_files_ok [maintains_rules]: "maintains croc_ok (walk_files env n dir)"
  by (induction n arbitrary: dir) (auto simp: Let_def intro!: maintains_rules maintains_bind)

lemma replace_roots_ok:
  "(\<And>p. maintains croc_ok (add p)) \<Longrightarrow> maintains croc_ok (replace_roots env add src roots)"
  by (induction roots) (auto intro!: maintains_rules maintains_bind)

lemma AddFiles_ok [maintains_rules]: "maintains croc_ok (AddFiles env src)"
proof -
  have "maintains croc_ok (AddFiles_at env n src)" for n
    by (induction n arbitrary: src) (auto intro!: maintains_rules maintains_bind replace_roots_ok)
  then show ?thesis by (simp add: AddFiles_def)
qed

lemma config_ok [maintains_rules]:
  "maintains croc_ok (config_root env rootdict)" "maintains croc_ok (config_rule env ruledict)"
  unfolding config_root_def config_rule_def by (auto intro!: maintains_rules split: attr.split)

lemma ParseConfig_ok [maintains_rules]: "maintains croc_ok (ParseConfig env name q1 q2)"
  unfolding ParseConfig_def AddConfig_def
  by (intro maintains_rules maintains_bind) (auto simp: croc_ok_def)

lemma main_root_ok [maintains_rules]: "maintains croc_ok (main_root env opt)"
  unfolding main_root_def by (auto intro!: maintains_rules split: list.split)

lemma main_configs_ok [maintains_rules]: "maintains croc_ok (main_configs env cs inputs addfiles)"
  by (induction cs arbitrary: inputs addfiles) (auto intro!: maintains_rules maintains_bind)

lemma main_collect_ok: "maintains croc_ok (main_collect env options)"
  unfolding main_collect_def by (auto intro!: maintains_rules maintains_bind)

end
