(* ===== verification/Croc_Properties.thy ===== *)
theory Croc_Properties
  imports Croc_Invariant
begin

text \<open>
  What the numbers of a coverage run mean: the invariant of the collected files, the sums in the
  tree, their order, and the bars drawn from them. Each is stated for every environment and every
  command line, also for a run that ends with an exception.
\<close>

definition collected :: "'v croc_env \<Rightarrow> croc_options \<Rightarrow> 'v coverage" where
  "collected env options = snd (main_collect env options Coverage)"

definition summed :: "'v croc_env \<Rightarrow> croc_options \<Rightarrow> covered_dir" where
  "summed env options = cov_tree (snd (UpdateTreeStats (collected env options)))"

lemma collected_ok: "croc_ok (collected env options)"
  unfolding collected_def by (rule maintainsD [OF main_collect_ok croc_ok_Coverage])

lemma collected_stats: "f \<in> snd ` set (cov_files (collected env options)) \<Longrightarrow> stats_ok (cf_stats f)"
  using collected_ok [of env options] by (auto simp: croc_ok_def file_ok_def)

lemma summed_stat:
  "tree_stat (summed env options) ns g k =
     (\<Sum>f\<leftarrow>map snd (cov_files (collected env options)).
        if prefix ns (file_dirs f) then contribution f g k else 0)"
  unfolding summed_def UpdateTreeStats_def st_run
  by (simp add: tree_stat_of stats_ok_def [THEN iffD1, OF collected_stats, THEN conjunct1])

lemma contribution_mono:
  "stat_get (cf_stats f) j \<le> stat_get (cf_stats f) k \<Longrightarrow> contribution f g j \<le> contribution f g k"
  by (simp add: contribution_def mult_left_mono)

lemma summed_mono:
  assumes "\<And>s. stats_ok s \<Longrightarrow> stat_get s j \<le> stat_get s k"
  shows "tree_stat (summed env options) ns g j \<le> tree_stat (summed env options) ns g k"
  unfolding summed_stat
  by (intro sum_list_mono) (auto intro!: contribution_mono assms collected_stats)

lemma summed_nonneg:
  assumes "\<And>s. stats_ok s \<Longrightarrow> 0 \<le> stat_get s k"
  shows "0 \<le> tree_stat (summed env options) ns g k"
  unfolding summed_stat
  by (intro sum_list_nonneg) (auto simp: contribution_def intro!: mult_nonneg_nonneg assms collected_stats)

text \<open>
  C9: whatever the roots, configuration files, LCOV files and directories are, and also when an
  exception ends the run, every collected file is listed once under its own name, has a group and a
  language, its lines are executable, instrumented or covered, no line is listed twice, its counts
  are in order, and no alternate name of a root is blank.
\<close>

theorem croc_invariant: "croc_ok (snd (main_collect env options Coverage))"
  by (rule maintainsD [OF main_collect_ok croc_ok_Coverage])

text \<open>
  C8: a count of a group in a directory of the tree is the sum of the contributions of the files below
  that directory: each counts once for the group \<open>all\<close> and once for its own group (hence twice when
  its own group is called \<open>all\<close>).
\<close>

theorem croc_tree_sums:
  "tree_stat (summed env options) ns g k =
     (\<Sum>f\<leftarrow>map snd (cov_files (collected env options)).
        if prefix ns (file_dirs f) then contribution f g k else 0)"
  by (rule summed_stat)

text \<open>
  C32: in every directory and group the covered lines are at most the instrumented ones and those at
  most the executable ones, and none is negative; the same holds of the files.
\<close>

theorem croc_counts_in_order:
  "let n = tree_stat (summed env options) ns g in
   0 \<le> n ''lines_covered'' \<and> n ''lines_covered'' \<le> n ''lines_instrumented''
   \<and> n ''lines_instrumented'' \<le> n ''lines_executable''
   \<and> 0 \<le> n ''files_covered'' \<and> n ''files_covered'' \<le> n ''files_instrumented''
   \<and> n ''files_instrumented'' \<le> n ''files_executable''"
  unfolding Let_def by (intro conjI summed_mono summed_nonneg) (simp_all add: stats_ok_def)

lemma div_percent:
  assumes "0 \<le> (c :: int)" and "c \<le> i" and "i \<le> e" and "e \<noteq> 0"
  shows "0 \<le> (100 * c) div e" and "(100 * c) div e \<le> (100 * i) div e" and "(100 * i) div e \<le> 100"
proof -
  have e: "0 < e" using assms by simp
  then show "0 \<le> (100 * c) div e" using assms(1) by (simp add: pos_imp_zdiv_nonneg_iff)
  show "(100 * c) div e \<le> (100 * i) div e" using assms(2) e by (simp add: zdiv_mono1)
  have "(100 * i) div e \<le> (100 * e) div e" using assms(3) e by (intro zdiv_mono1) simp_all
  then show "(100 * i) div e \<le> 100" using e by simp
qed

text \<open>
  The three parts of the bar drawn for a group of a directory that has executable lines are not
  negative and fill the 100 pixels of the bar.
\<close>

theorem croc_bars_fill:
  assumes "tree_stat (summed env options) ns g ''lines_executable'' \<noteq> 0"
  shows "case graph_widths (tree_stat (summed env options) ns g ''lines_executable'')
           (tree_stat (summed env options) ns g ''lines_instrumented'')
           (tree_stat (summed env options) ns g ''lines_covered'') of
         (w_cov, w_ins, w_miss) \<Rightarrow> 0 \<le> w_cov \<and> 0 \<le> w_ins \<and> 0 \<le> w_miss \<and> w_cov + w_ins + w_miss = 100"
proof -
  let ?n = "tree_stat (summed env options) ns g"
  have "0 \<le> ?n ''lines_covered''" by (rule summed_nonneg) (simp add: stats_ok_def)
  moreover have "?n ''lines_covered'' \<le> ?n ''lines_instrumented''" by (rule summed_mono) (simp add: stats_ok_def)
  moreover have "?n ''lines_instrumented'' \<le> ?n ''lines_executable''" by (rule summed_mono) (simp add: stats_ok_def)
  ultimately show ?thesis using div_percent assms by (simp add: graph_widths_def Let_def)
qed

section \<open>A run\<close>

text \<open>
  Two files, one of which has an indented directive; an LCOV file about one of them. The rules include
  everything.
\<close>

definition sample_croc_config :: "int croc_config" where
  "sample_croc_config = \<lparr>cfg_roots = [[(''root'', ''/s'')]],
     cfg_rules = [[(''regexp'', AttrStr ''.*''), (''include'', AttrInt 1), (''group'', AttrStr ''source''),
                   (''language'', AttrStr ''C'')]],
     cfg_lcov_files = [''l''], cfg_add_files = [''_''], cfg_print_stats = []\<rparr>"

definition sample_croc :: "int croc_env" where
  "sample_croc = \<lparr>croc_cwd = ''/'', re_compile = (\<lambda>_. Inr ()), re_match = (\<lambda>_ _. True),
     re_template = (\<lambda>_. Inl ValueError),
     list_dir = (\<lambda>p. if p = ''/s'' then Some [''a'', ''d''] else if p = ''/s/d'' then Some [''b''] else None),
     is_dir = (\<lambda>p. p = ''/s/d''), is_link = (\<lambda>_. False),
     read_lines = (\<lambda>p. if p = ''l''
       then Inr [''SF:/s/a'', ''DA:1,2'', ''DA:2,0'', ''DA:1,0'', ''end_of_record'']
       else Inr [''x;'', ''  #if Y'', ''//'', '''']),
     read_text = (\<lambda>_. Inr []), eval_config = (\<lambda>_. Inr sample_croc_config),
     eval_stat = (\<lambda>S e s. lift_res (case dict_get s e of Some v \<Rightarrow> Inr v | None \<Rightarrow> Inl KeyError)),
     format_stat = (\<lambda>_ v. Inr (str_int v)), stat_str = str_int, recursion_limit = 5\<rparr>"

definition sample_options :: croc_options where
  "sample_options = \<lparr>opt_inputs = [], opt_roots = [], opt_configs = [''c''], opt_addfiles = [],
     opt_tree = True, opt_uninstrumented = True, opt_html_out = None, opt_base_url = None\<rparr>"

lemma sample_files:
  "map (\<lambda>(n, f). (n, cf_lines f)) (cov_files (collected sample_croc sample_options)) =
     [(''_/a'', [(1, Some 1), (2, Some 0)]), (''_/d/b'', [(1, None), (2, None), (3, None), (4, None)])]"
  by code_simp

theorem croc_bars_fill_witness:
  "case graph_widths (tree_stat (summed sample_croc sample_options) [''_''] (AttrStr ''source'') ''lines_executable'')
      (tree_stat (summed sample_croc sample_options) [''_''] (AttrStr ''source'') ''lines_instrumented'')
      (tree_stat (summed sample_croc sample_options) [''_''] (AttrStr ''source'') ''lines_covered'') of
    (w_cov, w_ins, w_miss) \<Rightarrow> 0 \<le> w_cov \<and> 0 \<le> w_ins \<and> 0 \<le> w_miss \<and> w_cov + w_ins + w_miss = 100"
  by (rule croc_bars_fill) code_simp

end
