(* ===== verification/Croc_Lcov.thy ===== *)
theory Croc_Lcov
  imports Croc_Properties
begin

text \<open>
  Reading LCOV data: what a record about a file does to the lines and the counts of that file, for
  records in the format that the tools print.
\<close>

section \<open>Numbers in a line\<close>

lemma digit_no_space: "is_digit c \<Longrightarrow> \<not> str_space c"
  by (auto simp: is_digit_def str_space_def)

lemma str_strip_id: "s \<noteq> [] \<Longrightarrow> \<not> str_space (hd s) \<Longrightarrow> \<not> str_space (last s) \<Longrightarrow> str_strip s = s"
proof -
  assume "s \<noteq> []" "\<not> str_space (hd s)" "\<not> str_space (last s)"
  then have "dropWhile str_space s = s" "dropWhile str_space (rev s) = rev s"
    by (simp_all add: dropWhile_eq_self_iff hd_rev)
  then show ?thesis by (simp add: str_strip_def str_rstrip_def)
qed

lemma str_int_cases:
  obtains ds where "str_int i = ds \<or> str_int i = CHR ''-'' # ds" and "ds \<noteq> []" and "\<forall>c \<in> set ds. is_digit c"
proof (cases "i < 0")
  case True
  then show thesis by (intro that [of "str_nat (nat (- i))"]) (simp_all add: str_int_def str_nat_nonempty str_nat_digits)
next
  case False
  then show thesis by (intro that [of "str_nat (nat i)"]) (simp_all add: str_int_def str_nat_nonempty str_nat_digits)
qed

lemma str_int_nonempty [simp]: "str_int i \<noteq> []"
  by (rule str_int_cases [of i]) auto

lemma str_int_last: "\<not> str_space (last (str_int i))"
proof (rule str_int_cases [of i])
  fix ds
  assume "str_int i = ds \<or> str_int i = CHR ''-'' # ds" "ds \<noteq> []" "\<forall>c \<in> set ds. is_digit c"
  then show ?thesis by (metis digit_no_space last_ConsR last_in_set)
qed

lemma str_int_hd: "\<not> str_space (hd (str_int i))"
proof (rule str_int_cases [of i])
  fix ds
  assume a: "str_int i = ds \<or> str_int i = CHR ''-'' # ds" "ds \<noteq> []" "\<forall>c \<in> set ds. is_digit c"
  have "\<not> str_space (CHR ''-'')" by code_simp
  with a show ?thesis by (metis digit_no_space list.sel(1) list.set_sel(1))
qed

lemma str_int_chars: "c \<in> set (str_int i) \<Longrightarrow> is_digit c \<or> c = CHR ''-''"
  by (rule str_int_cases [of i]) auto

lemma str_int_no_comma: "CHR '','' \<notin> set (str_int i)"
proof
  assume "CHR '','' \<in> set (str_int i)"
  then have "is_digit (CHR '','')" using str_int_chars by fastforce
  moreover have "\<not> is_digit (CHR '','')" by code_simp
  ultimately show False by simp
qed

lemma py_int_str_int: "py_int (str_int i) = Inr i"
proof -
  have strip: "str_strip (str_int i) = str_int i" by (simp add: str_strip_id str_int_hd str_int_last)
  show ?thesis
  proof (cases "i < 0")
    case True
    then show ?thesis
      using strip str_nat_digits [of "nat (- i)"] str_nat_nonempty
      by (simp add: py_int_def Let_def str_int_def startswith_def list_all_iff)
  next
    case False
    obtain c r where cr: "str_nat (nat i) = c # r" "is_digit c" "c \<noteq> CHR ''-''" "\<forall>x \<in> set r. is_digit x"
      by (rule str_nat_Cons)
    have "\<not> is_digit (CHR ''+'')" by code_simp
    with cr have "c \<noteq> CHR ''+''" by metis
    moreover have "nat_of_digits (c # r) = nat i" using cr(1) by (metis nat_of_digits_str_nat)
    ultimately show ?thesis
      using False strip cr by (simp add: py_int_def Let_def str_int_def startswith_def list_all_iff)
  qed
qed

section \<open>Data points\<close>

text \<open>A data line, and a record about a file.\<close>

definition da_line :: "int \<times> int \<Rightarrow> string" where
  "da_line p = ''DA:'' @ str_int (fst p) @ '','' @ str_int (snd p)"

definition lcov_record :: "string \<Rightarrow> (int \<times> int) list \<Rightarrow> string list" where
  "lcov_record name points = (''SF:'' @ name) # map da_line points @ [''end_of_record'']"

lemma strip_da: "str_strip (da_line p) = da_line p"
proof -
  have "\<not> str_space (CHR ''D'')" by code_simp
  then show ?thesis by (intro str_strip_id) (simp_all add: da_line_def str_int_last)
qed

lemma parse_da:
  "map_res py_int (split_char (CHR '','') (drop 3 (da_line p))) = Inr [fst p, snd p]"
  by (simp add: da_line_def split_char_append split_char_word str_int_no_comma py_int_str_int)

lemma map_entry_compose: "AList.map_entry k g (AList.map_entry k f d) = AList.map_entry k (g \<circ> f) d"
  by (induction d) auto

lemma map_entry_ident [simp]: "AList.map_entry k (\<lambda>x. x) d = d"
  by (induction d) auto

lemma on_file_run: "on_file name u c = (Inr (), c\<lparr>cov_files := AList.map_entry name u (cov_files c)\<rparr>)"
  by (simp add: on_file_def st_run)

lemma lcov_line_da: "lcov_line env (da_line p) (Some name) c =
    (Inr (Some name), snd (on_file name (add_data (fst p) (snd p)) c))"
proof -
  have "\<not> startswith (da_line p) ''SF:''" "startswith (da_line p) ''DA:''"
    by (simp_all add: da_line_def startswith_def)
  then show ?thesis
    unfolding lcov_line_def strip_da Let_def parse_da
    by (simp add: py_defs on_file_run)
qed

abbreviation add_points :: "(int \<times> int) list \<Rightarrow> covered_file \<Rightarrow> covered_file" where
  "add_points points \<equiv> fold (\<lambda>p. add_data (fst p) (snd p)) points"

lemma lcov_loop_points:
  "lcov_loop env (map da_line points @ rest) (Some name) c =
     lcov_loop env rest (Some name) (snd (on_file name (add_points points) c))"
proof (induction points arbitrary: c)
  case Nil
  show ?case by (simp add: on_file_run id_def)
next
  case (Cons p points)
  show ?case
    by (simp add: bind_st_run lcov_line_da Cons.IH) (simp add: on_file_run map_entry_compose comp_def)
qed

lemma lcov_loop_end:
  "lcov_loop env [''end_of_record''] (Some name) c = (Inr (), snd (on_file name UpdateCoverage c))"
proof -
  have "str_strip ''end_of_record'' = ''end_of_record''" by code_simp
  then show ?thesis by (simp add: lcov_line_def startswith_def bind_st_run st_run seq_st_def on_file_run)
qed

text \<open>The three parts of a record together.\<close>

lemma ParseLcovData_record:
  assumes "str_strip (''SF:'' @ name) = ''SF:'' @ name"
    and "GetCoveredFile env name True c = (Inr (Some key), d)"
  shows "ParseLcovData env (lcov_record name points) c =
    (Inr (), d\<lparr>cov_files := AList.map_entry key
       (\<lambda>f. UpdateCoverage (add_points points (f\<lparr>cf_in_lcov := True\<rparr>))) (cov_files d)\<rparr>)"
proof -
  have "lcov_line env (''SF:'' @ name) None c = (Inr (Some key), snd (on_file key (\<lambda>f. f\<lparr>cf_in_lcov := True\<rparr>) d))"
    using assms unfolding lcov_line_def by (simp add: startswith_def bind_st_run st_run seq_st_def on_file_run)
  then show ?thesis
    unfolding ParseLcovData_def lcov_record_def lcov_loop.simps(2) bind_st_run
    by (simp add: lcov_loop_points lcov_loop_end del: lcov_loop.simps)
      (simp add: on_file_run map_entry_compose comp_def)
qed

section \<open>The lines after a record\<close>

lemma add_data_line:
  "dict_get (cf_lines (add_data n i f)) m =
     (if m \<noteq> n then dict_get (cf_lines f) m
      else if i \<noteq> 0 \<or> dict_get (cf_lines f) m = Some (Some 1) then Some (Some 1) else Some (Some 0))"
  by (auto simp: add_data_def)

lemma add_points_line:
  "dict_get (cf_lines (add_points points f)) m =
     (if dict_get (cf_lines f) m = Some (Some 1) \<or> (\<exists>i. (m, i) \<in> set points \<and> i \<noteq> 0) then Some (Some 1)
      else if m \<in> fst ` set points then Some (Some 0)
      else dict_get (cf_lines f) m)"
proof (induction points arbitrary: f)
  case (Cons p points)
  show ?case by (cases p) (auto simp: Cons.IH add_data_line)
qed simp

lemma add_points_frame [simp]: "cf_in_lcov (add_points points f) = cf_in_lcov f"
  by (induction points arbitrary: f) (simp_all add: add_data_def)

lemma GetCoveredFile_present:
  "GetCoveredFile env name add c = (Inr (Some key), d) \<Longrightarrow> dict_get (cov_files d) key \<noteq> None"
  unfolding GetCoveredFile_def
  by (auto simp: py_defs split: sum.splits if_splits)

text \<open>
  C10: a record about a file that the rules include marks the file as instrumented; afterwards a line is
  covered when it was covered before or some data point of the record gives it a count other than
  zero, instrumented when the record only has zero counts for it, and unchanged when the record does
  not name it; and the counts of the file are those of its lines.
\<close>

theorem lcov_record_lines:
  assumes "str_strip (''SF:'' @ name) = ''SF:'' @ name"
    and "GetCoveredFile env name True c = (Inr (Some key), d)"
  shows "\<exists>f g e. dict_get (cov_files d) key = Some f
    \<and> ParseLcovData env (lcov_record name points) c = (Inr (), e) \<and> dict_get (cov_files e) key = Some g
    \<and> cf_in_lcov g \<and> UpdateCoverage g = g
    \<and> (\<forall>n. dict_get (cf_lines g) n =
          (if dict_get (cf_lines f) n = Some (Some 1) \<or> (\<exists>i. (n, i) \<in> set points \<and> i \<noteq> 0) then Some (Some 1)
           else if n \<in> fst ` set points then Some (Some 0)
           else dict_get (cf_lines f) n))"
proof -
  obtain f where f: "dict_get (cov_files d) key = Some f" using GetCoveredFile_present [OF assms(2)] by auto
  let ?g = "UpdateCoverage (add_points points (f\<lparr>cf_in_lcov := True\<rparr>))"
  have "UpdateCoverage ?g = ?g" by (simp add: UpdateCoverage_eq instrumented_def covered_def)
  moreover have "cf_in_lcov ?g" by simp
  moreover have "dict_get (cf_lines ?g) n =
      (if dict_get (cf_lines f) n = Some (Some 1) \<or> (\<exists>i. (n, i) \<in> set points \<and> i \<noteq> 0) then Some (Some 1)
       else if n \<in> fst ` set points then Some (Some 0) else dict_get (cf_lines f) n)" for n
    unfolding UpdateCoverage_frame add_points_line by auto
  ultimately show ?thesis
    unfolding ParseLcovData_record [OF assms] using f
    by (intro exI [of _ f] exI [of _ ?g]) (simp add: AList.map_of_map_entry)
qed

definition sample_coverage :: "int coverage" where
  "sample_coverage = Coverage\<lparr>cov_rules := [(''.*'', [(''include'', AttrInt 1), (''group'', AttrStr ''source''),
     (''language'', AttrStr ''C'')])]\<rparr>"

theorem lcov_record_lines_witness:
  "\<exists>f g e. dict_get (cov_files (snd (GetCoveredFile sample_croc ''/s/a'' True sample_coverage))) ''/s/a'' = Some f
    \<and> ParseLcovData sample_croc (lcov_record ''/s/a'' [(1, 2), (2, 0), (1, 0)]) sample_coverage = (Inr (), e)
    \<and> dict_get (cov_files e) ''/s/a'' = Some g
    \<and> cf_in_lcov g \<and> UpdateCoverage g = g
    \<and> (\<forall>n. dict_get (cf_lines g) n =
          (if dict_get (cf_lines f) n = Some (Some 1) \<or> (\<exists>i. (n, i) \<in> set [(1, 2), (2, 0), (1, 0)] \<and> i \<noteq> (0 :: int))
           then Some (Some 1)
           else if n \<in> fst ` set [(1 :: int, 2 :: int), (2, 0), (1, 0)] then Some (Some 0)
           else dict_get (cf_lines f) n))"
proof (rule lcov_record_lines)
  show "str_strip (''SF:'' @ ''/s/a'') = ''SF:'' @ ''/s/a''" by code_simp
  have "fst (GetCoveredFile sample_croc ''/s/a'' True sample_coverage) = Inr (Some ''/s/a'')" by code_simp
  then show "GetCoveredFile sample_croc ''/s/a'' True sample_coverage =
      (Inr (Some ''/s/a''), snd (GetCoveredFile sample_croc ''/s/a'' True sample_coverage))"
    by (metis prod.collapse)
qed

end
