(* ===== verification/Croc_Files.thy ===== *)
theory Croc_Files
  imports Croc_Properties
begin

text \<open>
  Finding files on disk: when the recursion of \<open>AddFiles\<close> over the alternate names of the roots
  ends, and when it does not.
\<close>

section \<open>Replacing a root\<close>

definition below_root :: "string \<Rightarrow> string \<Rightarrow> bool" where
  "below_root root name \<longleftrightarrow> startswith name root
     \<and> (let rest = drop (length root) name in rest = [] \<or> startswith rest ''/'' \<or> rest = [CHR 0x0A])"

lemma sub_root_plain:
  "CHR 0x5C \<notin> set repl \<Longrightarrow>
   sub_root env root repl name = Inr (if below_root root name then repl @ drop (length root) name else name)"
  by (auto simp: sub_root_def expand_template_def below_root_def Let_def)

lemma str_replace_none: "c \<notin> set s \<Longrightarrow> str_replace [c] new s = s"
  by (induction s) (auto simp: startswith_def)

section \<open>A root below its own alternate name\<close>

lemma AddFiles_at_recursion:
  assumes "cov_root_dirs c = [(alt @ ''/'' @ r, alt)]" and "CHR 0x5C \<notin> set (alt @ r)"
    and "x = [] \<or> startswith x ''/''"
  shows "AddFiles_at env n (alt @ x) c = (Inl RuntimeError, c)"
  using assms(3)
proof (induction n arbitrary: x)
  case 0
  show ?case by (simp add: py_defs)
next
  case (Suc n)
  have "below_root alt (alt @ x)" using Suc.prems by (auto simp: below_root_def startswith_def)
  then have "sub_root env alt (alt @ ''/'' @ r) (alt @ x) = Inr (alt @ (''/'' @ r @ x))"
    using assms(2) by (subst sub_root_plain) auto
  moreover have "alt @ (''/'' @ r @ x) \<noteq> alt @ x" by (metis append_eq_append_conv_if append_same_eq append_Cons append_Nil
        append_assoc impossible_Cons le_add2 length_append same_append_eq self_append_conv2)
  moreover have "AddFiles_at env n (alt @ (''/'' @ r @ x)) c = (Inl RuntimeError, c)"
    by (rule Suc.IH) (simp add: startswith_def)
  ultimately show ?case using assms(1) by (simp add: py_defs)
qed

text \<open>
  A root whose path lies below its own alternate name (\<^verbatim>\<open>AddRoot('_/src', '_')\<close>, which
  \<open>AddRoot\<close> accepts) makes \<open>AddFiles\<close> of a path below that name recurse until the interpreter stops
  it, although the alternate name is not blank: the call raises \<open>RuntimeError\<close> for every recursion
  limit and adds nothing.
\<close>

theorem AddFiles_recursion:
  assumes "alt \<noteq> []" and "CHR 0x5C \<notin> set (alt @ r)" and "hd (split_char (CHR ''/'') alt) \<notin> {''.'', ''..''}"
    and "x = [] \<or> startswith x ''/''"
  shows "\<exists>c. AddRoot env (alt @ ''/'' @ r) alt Coverage = (Inr (), c) \<and> AddFiles env (alt @ x) c = (Inl RuntimeError, c)"
proof -
  have "CleanupFilename env [] (alt @ ''/'' @ r) = Inr (alt @ ''/'' @ r)"
    using assms(2,3) by (simp add: CleanupFilename_def Let_def str_replace_none split_char_append)
  then have "AddRoot env (alt @ ''/'' @ r) alt Coverage =
      (Inr (), Coverage\<lparr>cov_root_dirs := [(alt @ ''/'' @ r, alt)]\<rparr>)"
    using assms(1) by (simp add: AddRoot_def Coverage_def py_defs)
  then show ?thesis
    unfolding AddFiles_def by (intro exI conjI, assumption) (rule AddFiles_at_recursion [OF _ assms(2,4)], simp)
qed

theorem AddFiles_recursion_witness:
  "\<exists>c. AddRoot sample_croc (''_'' @ ''/'' @ ''src'') ''_'' Coverage = (Inr (), c)
     \<and> AddFiles sample_croc (''_'' @ ''/d'') c = (Inl RuntimeError, c)"
  by (rule AddFiles_recursion) code_simp+

section \<open>The walk ends\<close>





abbreviation settings :: "'v coverage \<Rightarrow> (string \<times> string) list \<times> (string \<times> attrs) list" where
  "settings c \<equiv> (cov_root_dirs c, cov_rules c)"


lemma keeps_GetCoveredFile [keeps_rules]: "keeps settings (GetCoveredFile env name add)"
  unfolding GetCoveredFile_def by (intro keeps_rules) simp_all

lemma keeps_on_file [keeps_rules]: "keeps settings (on_file name u)"
  unfolding on_file_def by (intro keeps_rules) simp

lemma keeps_RemoveCoveredFile [keeps_rules]: "keeps settings (RemoveCoveredFile name)"
  unfolding RemoveCoveredFile_def by (intro keeps_rules) simp

lemma keeps_add_found_file [keeps_rules]: "keeps settings (add_found_file env path)"
  unfolding add_found_file_def by (intro keeps_rules)

lemma keeps_prune_dirs [keeps_rules]: "keeps settings (prune_dirs env path ds dirnames)"
  by (induction ds arbitrary: dirnames) (auto intro!: keeps_rules)

lemma keeps_walk_files [keeps_rules]: "keeps settings (walk_files env n dir)"
  by (induction n arbitrary: dir) (auto simp: Let_def intro!: keeps_rules)












section \<open>Roots with names of their own\<close>







lemma keeps_replace_roots:
  "(\<And>p. keeps settings (add p)) \<Longrightarrow> keeps settings (replace_roots env add src roots)"
  by (induction roots) (auto intro!: keeps_rules)

lemma keeps_AddFiles_at [keeps_rules]: "keeps settings (AddFiles_at env n src)"
  by (induction n arbitrary: src) (auto intro!: keeps_rules keeps_replace_roots)



end
