(* ===== verification/Croc_Report.thy ===== *)
theory Croc_Report
  imports Croc_Properties
begin

text \<open>
  The pages of the report: every collected file and every directory above it has one, and the links
  of a page to the pages of the directories above it lead there.
\<close>

section \<open>Files in the tree\<close>

definition file_at :: "string list \<Rightarrow> string \<Rightarrow> covered_dir \<Rightarrow> covered_file option" where
  "file_at ns name d = (case dir_at ns d of None \<Rightarrow> None | Some e \<Rightarrow> dict_get (dir_files e) name)"

lemma file_at_simps:
  "file_at [] name (CoveredDir p fs ds by_group) = dict_get fs name"
  "file_at (n # ns) name (CoveredDir p fs ds by_group) =
     (case dict_get ds n of None \<Rightarrow> None | Some sub \<Rightarrow> file_at ns name sub)"
  by (auto simp: file_at_def split: option.splits)

lemma file_at_new [simp]: "file_at ns name (new_dir p) = None"
  by (cases ns) (simp_all add: new_dir_def file_at_simps)

lemma file_at_insert:
  "file_at ns m (tree_insert dirs name f d) = (if ns = dirs \<and> m = name then Some f else file_at ns m d)"
proof (induction dirs arbitrary: d ns m)
  case Nil
  obtain p fs ds by_group where d: "d = CoveredDir p fs ds by_group" by (cases d)
  show ?case by (cases ns) (simp_all add: d file_at_simps)
next
  case (Cons e dirs)
  obtain p fs ds by_group where d: "d = CoveredDir p fs ds by_group" by (cases d)
  show ?case by (cases ns) (auto simp: d file_at_simps Let_def Cons.IH split: option.splits)
qed

definition file_base :: "covered_file \<Rightarrow> string" where
  "file_base f = last (split_char (CHR ''/'') (cf_filename f))"

lemma file_place: "file_dirs f = file_dirs g \<Longrightarrow> file_base f = file_base g \<Longrightarrow> cf_filename f = cf_filename g"
proof -
  assume "file_dirs f = file_dirs g" "file_base f = file_base g"
  then have "split_char (CHR ''/'') (cf_filename f) = split_char (CHR ''/'') (cf_filename g)"
    unfolding file_dirs_def file_base_def by (metis append_butlast_last_id split_char_nonempty)
  then show ?thesis by (metis join_split_char)
qed

lemma file_at_tree_of:
  assumes "f \<in> set fs" and "distinct (map cf_filename fs)"
  shows "file_at (file_dirs f) (file_base f) (tree_of fs) = Some f"
proof -
  let ?ins = "\<lambda>f. let fdirs = split_char (CHR ''/'') (cf_filename f) in tree_insert (butlast fdirs) (last fdirs) f"
  have "file_at (file_dirs f) (file_base f) (fold ?ins fs d) =
      (if f \<in> set fs then Some f else file_at (file_dirs f) (file_base f) d)"
    if "distinct (map cf_filename fs)" "f \<in> set fs \<or> cf_filename f \<notin> cf_filename ` set fs" for d
    using that
  proof (induction fs arbitrary: d)
    case (Cons g gs)
    have ins: "file_at (file_dirs f) (file_base f) (?ins g d) = (if f = g then Some f else file_at (file_dirs f) (file_base f) d)"
    proof (cases "f = g")
      case True
      then show ?thesis by (simp add: Let_def file_at_insert file_dirs_def file_base_def)
    next
      case False
      then have "cf_filename f \<noteq> cf_filename g" using Cons.prems by (metis image_eqI list.simps(9) distinct.simps(2) list.set_map list.set_intros(1) set_ConsD)
      with file_place [of f g] False show ?thesis
        by (auto simp: Let_def file_at_insert file_dirs_def [symmetric] file_base_def [symmetric])
    qed
    have "f \<in> set gs \<or> cf_filename f \<notin> cf_filename ` set gs" using Cons.prems by auto
    then show ?case using Cons.IH [of "?ins g d"] Cons.prems(1) ins by auto
  qed simp
  then show ?thesis using assms by (simp add: tree_of_def)
qed

section \<open>Pages written\<close>

definition page_names :: "html_state \<Rightarrow> string set" where
  "page_names h = fst ` set (written h)"

text \<open>\<open>writes P m\<close>: when \<open>m\<close> returns, the pages \<open>P\<close> have been added.\<close>

definition writes :: "string set \<Rightarrow> (html_state, 'a) st \<Rightarrow> bool" where
  "writes P m \<longleftrightarrow> (\<forall>h x h'. m h = (Inr x, h') \<longrightarrow> page_names h' = P \<union> page_names h)"

lemma writesD: "writes P m \<Longrightarrow> m h = (Inr x, h') \<Longrightarrow> page_names h' = P \<union> page_names h"
  by (auto simp: writes_def)

lemma writes_none:
  "writes {} (return_st x)" "writes {} (lift_res r)" "writes {} (gets_st g)"
  "writes {} (modify_st (\<lambda>h. h\<lparr>made := made h @ d\<rparr>))" "writes {} (modify_st (\<lambda>h. h\<lparr>copied := copied h @ c\<rparr>))"
  "writes {} (print_line s)"
  by (auto simp: writes_def py_defs page_names_def print_line_def)

lemma writes_bind: "writes P m \<Longrightarrow> (\<And>x. writes Q (k x)) \<Longrightarrow> writes (P \<union> Q) (bind_st m k)"
  unfolding writes_def by (blast elim: bind_st_InrE)

lemma writes_seq: "writes P m \<Longrightarrow> writes Q n \<Longrightarrow> writes (P \<union> Q) (seq_st m n)"
  unfolding seq_st_def by (rule writes_bind)

lemma writes_for: "(\<And>x. writes (P x) (f x)) \<Longrightarrow> writes (\<Union> (P ` set xs)) (for_st xs f)"
proof (induction xs)
  case (Cons x xs)
  then show ?case by (simp add: writes_seq)
qed (simp add: writes_none)

lemma writes_HtmlFile: "writes {hf_filename f} (HtmlFile_Write env f)"
  by (auto simp: writes_def HtmlFile_Write_def py_defs page_names_def split: sum.splits)

lemma CreateHtmlDoc_name [simp]: "hf_filename (CreateHtmlDoc self name title) = output_root self @ ''/'' @ name"
  by (simp add: CreateHtmlDoc_def Let_def split: option.split list.split)

definition file_page :: "croc_html \<Rightarrow> covered_file \<Rightarrow> string" where
  "file_page self f = output_root self @ ''/'' @ cf_filename f @ ''.html''"

definition index_page :: "croc_html \<Rightarrow> covered_dir \<Rightarrow> string" where
  "index_page self d = output_root self @ ''/'' @ (if dirpath d \<noteq> [] then dirpath d @ ''/index.html'' else ''index.html'')"

lemma writes_skip:
  "writes {} m \<Longrightarrow> (\<And>x. writes Q (k x)) \<Longrightarrow> writes Q (bind_st m k)"
  "writes {} m' \<Longrightarrow> writes Q n \<Longrightarrow> writes Q (seq_st m' n)"
  using writes_bind [of "{}" m Q k] writes_seq [of "{}" m' Q n] by simp_all

lemma writes_page:
  "writes {output_root self @ ''/'' @ name} (HtmlFile_Write env ((CreateHtmlDoc self name title)\<lparr>hf_body := b\<rparr>))"
  using writes_HtmlFile [of "(CreateHtmlDoc self name title)\<lparr>hf_body := b\<rparr>" env] by simp

lemma writes_WriteFile: "writes {file_page self f} (WriteFile env self f)"
  unfolding WriteFile_def file_page_def
  by (intro writes_skip writes_page writes_none) (auto intro: writes_skip writes_none split: option.split list.split)

lemma writes_WriteSubdir: "writes {index_page self d} (WriteSubdir env self d)"
  unfolding WriteSubdir_def Let_def index_page_def
  by (intro writes_skip writes_page writes_none) (simp add: writes_skip writes_none)

lemma writes_WriteRoot: "writes {} (WriteRoot env self)"
  unfolding WriteRoot_def copy_to_root_def Let_def by (intro writes_skip writes_none)

text \<open>The pages of a directory: its own and those of its files.\<close>

definition pages_of :: "croc_html \<Rightarrow> covered_dir \<Rightarrow> string set" where
  "pages_of self d = insert (index_page self d) (file_page self ` snd ` set (dir_files d))"

lemma write_dirs_pages:
  assumes "write_dirs env self todo h = (Inr (), h')"
  shows "page_names h \<subseteq> page_names h' \<and> (\<forall>d ns e. d \<in> set todo \<longrightarrow> dir_at ns d = Some e \<longrightarrow> pages_of self e \<subseteq> page_names h')"
  using assms
proof (induction env self todo arbitrary: h rule: write_dirs.induct)
  case (1 env self)
  then show ?case by (simp add: py_defs)
next
  case (2 env self d todo)
  from "2.prems" [unfolded write_dirs.simps] obtain h1 h2 where h: "WriteSubdir env self d h = (Inr (), h1)"
      "for_st (map snd (dir_files d)) (WriteFile env self) h1 = (Inr (), h2)"
      "write_dirs env self (todo @ map snd (subdirs d)) h2 = (Inr (), h')"
    by (elim seq_st_InrE)
  have h2: "page_names h2 = pages_of self d \<union> page_names h"
    using writesD [OF writes_WriteSubdir h(1)] writesD [OF writes_for [OF writes_WriteFile] h(2)]
    by (auto simp: pages_of_def)
  note IH = "2.IH" [OF h(3)]
  have "pages_of self e \<subseteq> page_names h'" if x: "x \<in> set (d # todo)" "dir_at ns x = Some e" for x ns e
  proof (cases "x \<in> set todo")
    case True
    with IH x(2) show ?thesis by auto
  next
    case False
    with x have d: "x = d" by simp
    show ?thesis
    proof (cases ns)
      case Nil
      with x(2) d h2 IH show ?thesis by auto
    next
      case (Cons n ms)
      with x(2) d obtain sub where sub: "dict_get (subdirs d) n = Some sub" "dir_at ms sub = Some e"
        by (auto split: option.splits)
      then have "sub \<in> set (todo @ map snd (subdirs d))" by (force dest: map_of_SomeD)
      with sub(2) IH show ?thesis by blast
    qed
  qed
  with h2 IH show ?case by blast
qed

lemma CrocHtml_Write_pages:
  assumes "CrocHtml_Write env self tree h = (Inr (), h')" and "dir_at ns tree = Some e"
  shows "pages_of self e \<subseteq> page_names h'"
proof -
  from assms(1) [unfolded CrocHtml_Write_def] obtain h1 h2 where
    h: "write_dirs env self [tree] h1 = (Inr (), h2)" "WriteRoot env self h2 = (Inr (), h')"
    by (elim seq_st_InrE)
  from writesD [OF writes_WriteRoot h(2)] have "page_names h' = page_names h2" by simp
  with write_dirs_pages [OF h(1)] assms(2) show ?thesis by simp
qed

text \<open>
  A report that is written without an exception has a page for every collected file, named after
  the file.
\<close>

theorem every_file_has_page:
  assumes "CrocHtml_Write henv self (summed env options) h = (Inr (), h')"
    and "(name, f) \<in> set (cov_files (collected env options))"
  shows "output_root self @ ''/'' @ name @ ''.html'' \<in> fst ` set (written h')"
proof -
  let ?fs = "cov_files (collected env options)"
  have ok: "distinct (map fst ?fs)" "\<forall>x \<in> set ?fs. cf_filename (snd x) = fst x"
    using collected_ok [of env options] by (auto simp: croc_ok_def)
  have "map cf_filename (map snd ?fs) = map fst ?fs" using ok(2) by simp
  with ok(1) have "distinct (map cf_filename (map snd ?fs))" by metis
  moreover have "f \<in> set (map snd ?fs)" using assms(2) by force
  ultimately have "file_at (file_dirs f) (file_base f) (tree_of (map snd ?fs)) = Some f" by (intro file_at_tree_of)
  then obtain e where e: "dir_at (file_dirs f) (summed env options) = Some e" "dict_get (dir_files e) (file_base f) = Some f"
    unfolding file_at_def summed_def UpdateTreeStats_def st_run by (auto split: option.splits)
  have "file_page self f \<in> pages_of self e" using map_of_SomeD [OF e(2)] by (force simp: pages_of_def)
  with CrocHtml_Write_pages [OF assms(1) e(1)] have "file_page self f \<in> page_names h'" by blast
  moreover have "cf_filename f = name" using ok(2) assms(2) by force
  ultimately show ?thesis by (simp add: page_names_def file_page_def)
qed

section \<open>Links\<close>

text \<open>
  The target of a relative reference from a page in a directory; \<open>None\<close> when it leaves the report.
\<close>

fun resolve :: "string list \<Rightarrow> string list \<Rightarrow> string list option" where
  "resolve dirs [] = Some dirs"
| "resolve dirs (w # ws) =
     (if w = ''..'' then (if dirs = [] then None else resolve (butlast dirs) ws) else resolve (dirs @ [w]) ws)"

lemma split_ups: "split_char (CHR ''/'') (ups n @ w) = replicate n ''..'' @ split_char (CHR ''/'') w"
  by (induction n) (simp_all add: ups_def)

lemma resolve_ups:
  "w \<noteq> ''..'' \<Longrightarrow> resolve dirs (replicate n ''..'' @ [w]) =
     (if n \<le> length dirs then Some (take (length dirs - n) dirs @ [w]) else None)"
proof (induction n arbitrary: dirs)
  case (Suc n)
  then show ?case by (cases dirs rule: rev_cases) (auto simp: Suc_diff_le)
qed simp

lemma resolve_index:
  "CHR ''/'' \<notin> set w \<Longrightarrow> w \<noteq> ''..'' \<Longrightarrow>
   resolve dirs (split_char (CHR ''/'') (ups n @ w)) = (if n \<le> length dirs then Some (take (length dirs - n) dirs @ [w]) else None)"
  by (simp add: split_ups split_char_word resolve_ups)

definition href :: "html \<Rightarrow> string" where
  "href e = (case dict_get (html_attrs e) ''href'' of Some u \<Rightarrow> u | None \<Rightarrow> [])"

lemma caption_link:
  assumes "i < length (split_char (CHR ''/'') path)"
  shows "href (caption_links k path ! i) = ups (Suc (length (split_char (CHR ''/'') path)) - i - k) @ ''index.html''"
  using assms by (simp add: caption_links_def Let_def href_def E_def startswith_def del: upt_Suc)

text \<open>
  the links in the caption of the page of a file or a directory lead to the index pages of the
  directories above it, from the root down.
\<close>

theorem captions_lead_up:
  fixes path :: string
  defines "dirs \<equiv> split_char (CHR ''/'') path"
  assumes "i < length dirs"
  shows "resolve (butlast dirs) (split_char (CHR ''/'') (href (caption_links 2 path ! i))) = Some (take i dirs @ [''index.html''])
    \<and> resolve dirs (split_char (CHR ''/'') (href (caption_links 1 path ! i))) = Some (take i dirs @ [''index.html''])"
proof -
  have w: "CHR ''/'' \<notin> set ''index.html''" "''index.html'' \<noteq> ''..''" by simp_all
  have i: "i \<le> length dirs - 1" "i < length dirs" using assms(2) by simp_all
  have "resolve (butlast dirs) (split_char (CHR ''/'') (ups (Suc (length dirs) - i - 2) @ ''index.html'')) =
      Some (take i dirs @ [''index.html''])"
    unfolding resolve_index [OF w] using i by (simp add: take_butlast)
  moreover have "resolve dirs (split_char (CHR ''/'') (ups (Suc (length dirs) - i - 1) @ ''index.html'')) =
      Some (take i dirs @ [''index.html''])"
    unfolding resolve_index [OF w] using i by simp
  ultimately show ?thesis using caption_link [of i path] assms by metis
qed

theorem captions_lead_up_witness:
  "resolve (butlast (split_char (CHR ''/'') ''_/d/b''))
     (split_char (CHR ''/'') (href (caption_links 2 ''_/d/b'' ! 1))) =
       Some (take 1 (split_char (CHR ''/'') ''_/d/b'') @ [''index.html''])
   \<and> resolve (split_char (CHR ''/'') ''_/d/b'')
     (split_char (CHR ''/'') (href (caption_links 1 ''_/d/b'' ! 1))) =
       Some (take 1 (split_char (CHR ''/'') ''_/d/b'') @ [''index.html''])"
  by (rule captions_lead_up) code_simp

text \<open>
  The script that sorts the tables: found from the page of every directory but the top one, whose
  reference leaves the report.
\<close>

lemma sort_script_found:
  "resolve (split_char (CHR ''/'') path) (split_char (CHR ''/'') (sort_jsfile path)) = Some [''sorttable.js'']"
  unfolding sort_jsfile_def by (subst resolve_index) simp_all

lemma sort_script_lost: "resolve [] (split_char (CHR ''/'') (sort_jsfile [])) = None"
  by code_simp

section \<open>A report\<close>

definition sample_html_env :: html_env where
  "sample_html_env = \<lparr>path_exists = (\<lambda>p. False), make_dir = (\<lambda>_. Inr ()), open_out = (\<lambda>_. Inr ()),
     copy_file = (\<lambda>_ _. Inr ()), source_lines = (\<lambda>_. Inr [''x;'']), percent_text = (\<lambda>c e. str_int (100 * c div e) @ ''%''),
     asctime = ''now'', script_dir = ''/croc''\<rparr>"

definition no_report :: html_state where
  "no_report = \<lparr>printed = [], made = [], written = [], copied = []\<rparr>"

theorem every_file_has_page_witness:
  "output_root (CrocHtml sample_html_env ''out'' None) @ ''/'' @ ''_/d/b'' @ ''.html'' \<in> fst ` set (written
     (snd (CrocHtml_Write sample_html_env (CrocHtml sample_html_env ''out'' None) (summed sample_croc sample_options) no_report)))"
proof (rule every_file_has_page [where env = sample_croc and options = sample_options
      and f = "snd (cov_files (collected sample_croc sample_options) ! 1)"])
  let ?w = "CrocHtml_Write sample_html_env (CrocHtml sample_html_env ''out'' None) (summed sample_croc sample_options) no_report"
  have "fst ?w = Inr ()" by code_simp
  then show "?w = (Inr (), snd ?w)" by (metis prod.collapse)
  have "cov_files (collected sample_croc sample_options) ! 1 \<in> set (cov_files (collected sample_croc sample_options))"
    by (rule nth_mem) code_simp
  moreover have "fst (cov_files (collected sample_croc sample_options) ! 1) = ''_/d/b''" by code_simp
  ultimately show "(''_/d/b'', snd (cov_files (collected sample_croc sample_options) ! 1))
      \<in> set (cov_files (collected sample_croc sample_options))"
    by (metis prod.collapse)
qed

end
