(* ===== verification/Json_Comments.thy ===== *)
theory Json_Comments
  imports Py_Paths
begin

text \<open>
  \<^verbatim>\<open>tools/json_comment_eater/json_comment_eater.py\<close>: removal of comments from JSON text before it is
  parsed. The functions work on positions of the input, as in the code; a reference definition that
  reads the text character by character says what they compute.
\<close>

section \<open>Searching\<close>

fun find_sub :: "string \<Rightarrow> string \<Rightarrow> nat option" where
  "find_sub sub [] = (if sub = [] then Some 0 else None)"
| "find_sub sub (c # s) = (if startswith (c # s) sub then Some 0 else map_option Suc (find_sub sub s))"

text \<open>\<^verbatim>\<open>string.find(sub, start)\<close>, with \<open>None\<close> for -1.\<close>

definition find_from :: "string \<Rightarrow> string \<Rightarrow> nat \<Rightarrow> nat option" where
  "find_from s sub start = (if length s < start then None else map_option (\<lambda>i. start + i) (find_sub sub (drop start s)))"

text \<open>\<^verbatim>\<open>s[a:b]\<close>.\<close>

definition slice :: "string \<Rightarrow> nat \<Rightarrow> nat \<Rightarrow> string" where
  "slice s a b = drop a (take b s)"

definition Rcount :: "string \<Rightarrow> string \<Rightarrow> nat" where
  "Rcount s chars = length s - length (rstrip_chars chars s)"

definition FindNextToken :: "string \<Rightarrow> string list \<Rightarrow> nat \<Rightarrow> (nat \<times> string) option" where
  "FindNextToken s tokens start =
     fold (\<lambda>k best. case find_from s k start of
             None \<Rightarrow> best
           | Some index \<Rightarrow> (case best of
                 None \<Rightarrow> Some (index, k)
               | Some (min_index, min_key) \<Rightarrow> if index < min_index then Some (index, k) else best))
       tokens None"

section \<open>Reading\<close>

lemma find_from_ge: "find_from s sub start = Some i \<Longrightarrow> start \<le> i \<and> i \<le> length s"
proof -
  have "find_sub sub t = Some j \<Longrightarrow> j \<le> length t" for t j
    by (induction t arbitrary: j) (auto split: if_splits)
  then show "find_from s sub start = Some i \<Longrightarrow> start \<le> i \<and> i \<le> length s"
    by (fastforce simp: find_from_def split: if_splits)
qed

text \<open>The loop that skips escaped quotes; it returns both ends of the last range.\<close>

function string_end :: "string \<Rightarrow> nat \<Rightarrow> nat option \<Rightarrow> nat \<times> nat option" where
  "string_end input start_range end_range =
     (case end_range of
        None \<Rightarrow> (start_range, None)
      | Some e \<Rightarrow>
          if odd (Rcount (slice input start_range e) [CHR 0x5C])
          then string_end input e (find_from input [CHR 0x22] (e + 1))
          else (start_range, Some e))"
  by pat_completeness auto
termination
proof (relation "measure (\<lambda>(input, s, e). case e of None \<Rightarrow> 0 | Some i \<Rightarrow> Suc (length input - i))", goal_cases)
  case (2 input start_range end_range e)
  then show ?case
    by (cases "find_from input [CHR 0x22] (e + 1)") (auto dest!: find_from_ge)
qed simp

declare string_end.simps [simp del]

text \<open>Each reader gives the position after what it read and what it appends to the output.\<close>

definition ReadString :: "string \<Rightarrow> nat \<Rightarrow> nat \<times> string list" where
  "ReadString input start =
     (case string_end input start (find_from input [CHR 0x22] start) of
        (start_range, None) \<Rightarrow> (start_range + 1, [[CHR 0x22]])
      | (start_range, Some e) \<Rightarrow> (e + 1, [[CHR 0x22], slice input start (e + 1)]))"

definition ReadComment :: "string \<Rightarrow> nat \<Rightarrow> nat \<times> string list" where
  "ReadComment input start =
     (case FindNextToken input [[CHR 0x0A], [CHR 0x0D]] start of
        None \<Rightarrow> (length input, [])
      | Some (i, eol) \<Rightarrow> (i + length eol, [eol]))"

definition ReadMultilineComment :: "string \<Rightarrow> nat \<Rightarrow> (nat \<times> string list) res" where
  "ReadMultilineComment input start =
     (case FindNextToken input [''*/''] start of
        None \<Rightarrow> Inl PlainException
      | Some (i, tok) \<Rightarrow> Inr (i + length tok, []))"

definition token_action :: "string \<Rightarrow> string \<Rightarrow> nat \<Rightarrow> (nat \<times> string list) res" where
  "token_action token input start =
     (if token = [CHR 0x22] then Inr (ReadString input start)
      else if token = ''//'' then Inr (ReadComment input start)
      else ReadMultilineComment input start)"

section \<open>Progress\<close>

lemma FindNextToken_Some:
  "FindNextToken s tokens start = Some (i, k) \<Longrightarrow> k \<in> set tokens \<and> find_from s k start = Some i"
proof -
  let ?step = "\<lambda>k best. case find_from s k start of None \<Rightarrow> best | Some index \<Rightarrow> (case best of None \<Rightarrow> Some (index, k)
     | Some (min_index, min_key) \<Rightarrow> if index < min_index then Some (index, k) else best)"
  have "fold ?step ts best = Some (i, k) \<Longrightarrow> best = Some (i, k) \<or> (k \<in> set ts \<and> find_from s k start = Some i)" for ts best
  proof (induction ts arbitrary: best)
    case (Cons t ts)
    from Cons.IH [of "?step t best"] Cons.prems have "?step t best = Some (i, k) \<or> (k \<in> set ts \<and> find_from s k start = Some i)"
      by simp
    then show ?case by (auto split: option.splits if_splits)
  qed simp
  from this [of tokens None] show "FindNextToken s tokens start = Some (i, k) \<Longrightarrow> ?thesis"
    unfolding FindNextToken_def by simp
qed

lemma FindNextToken_range: "FindNextToken s tokens start = Some (i, k) \<Longrightarrow> start \<le> i \<and> i \<le> length s"
  using FindNextToken_Some find_from_ge by blast

lemma string_end_ge: "string_end input a e = (b, r) \<Longrightarrow> (\<forall>i. e = Some i \<longrightarrow> a \<le> i) \<Longrightarrow> a \<le> b \<and> (\<forall>i. r = Some i \<longrightarrow> a \<le> i)"
proof (induction input a e rule: string_end.induct)
  case (1 input a e)
  show ?case
  proof (cases e)
    case None
    with "1.prems" show ?thesis by (simp add: string_end.simps)
  next
    case (Some i)
    show ?thesis
    proof (cases "odd (Rcount (slice input a i) [CHR 0x5C])")
      case True
      have "string_end input i (find_from input [CHR 0x22] (i + 1)) = (b, r)"
        using "1.prems"(1) Some True by (simp add: string_end.simps [of input a])
      from "1.IH" [OF Some True this] "1.prems"(2) Some show ?thesis by (fastforce dest: find_from_ge)
    next
      case False
      with "1.prems" Some show ?thesis by (simp add: string_end.simps [of input a])
    qed
  qed
qed

lemma token_action_ge: "token_action token input start = Inr (p, out) \<Longrightarrow> start \<le> length input \<Longrightarrow> start \<le> p"
  unfolding token_action_def ReadString_def ReadComment_def ReadMultilineComment_def
  by (auto split: if_splits prod.splits option.splits dest!: FindNextToken_range string_end_ge
      dest: find_from_ge)

section \<open>The main loop\<close>

definition tokens :: "string list" where
  "tokens = [[CHR 0x22], ''//'', ''/*'']"

lemma tokens_nonempty: "k \<in> set tokens \<Longrightarrow> k \<noteq> []"
  by (auto simp: tokens_def)

lemma startswith_length: "startswith s p \<Longrightarrow> length p \<le> length s"
  by (auto simp: startswith_iff)

lemma find_sub_fits: "find_sub sub s = Some i \<Longrightarrow> i + length sub \<le> length s"
  by (induction s arbitrary: i) (auto split: if_splits dest!: startswith_length)

lemma find_from_fits: "find_from s sub start = Some i \<Longrightarrow> i + length sub \<le> length s"
  by (auto simp: find_from_def split: if_splits dest!: find_sub_fits)

function nom_loop :: "string \<Rightarrow> string list \<Rightarrow> nat \<Rightarrow> string list res" where
  "nom_loop input output pos =
     (if pos < length input then
        case FindNextToken input tokens pos of
          None \<Rightarrow> Inr (output @ [drop pos input])
        | Some (i, token) \<Rightarrow>
            (case token_action token input (i + length token) of
               Inl e \<Rightarrow> Inl e
             | Inr (p, out) \<Rightarrow> nom_loop input (output @ [slice input pos i] @ out) p)
      else Inr output)"
  by pat_completeness auto
termination
proof (relation "measure (\<lambda>(input, output, pos). length input - pos)", goal_cases)
  case (2 input outp pos x i token y p out)
  then have "pos \<le> i" "token \<noteq> []" "i + length token \<le> length input"
    using FindNextToken_Some [of input tokens pos i token] FindNextToken_range [of input tokens pos i token]
    by (auto dest: tokens_nonempty find_from_fits)
  moreover have "i + length token \<le> p" using 2 calculation by (auto intro: token_action_ge)
  moreover have "0 < length token" using calculation(2) by simp
  ultimately have "pos < p" by linarith
  with 2(1) show ?case by (simp add: diff_less_mono2)
qed simp

declare nom_loop.simps [simp del]

definition Nom :: "string \<Rightarrow> string res" where
  "Nom input = bind_res (nom_loop input [] 0) (\<lambda>output. Inr (concat output))"

section \<open>The reference\<close>

text \<open>
  The text read one character at a time: outside, in a string, after a backslash in a string, in a
  comment to the end of the line, in a comment between delimiters.
\<close>

datatype mode = Outside | InString | Escaped | LineComment | BlockComment

datatype eaten = Eaten string | OpenString | OpenComment

fun keep :: "char \<Rightarrow> eaten \<Rightarrow> eaten" where
  "keep c (Eaten s) = Eaten (c # s)"
| "keep c OpenString = OpenString"
| "keep c OpenComment = OpenComment"

function (sequential) eat :: "mode \<Rightarrow> string \<Rightarrow> eaten" where
  "eat Outside [] = Eaten []"
| "eat Outside (c # s) =
     (if c = CHR 0x22 then keep c (eat InString s)
      else if startswith (c # s) ''//'' then eat LineComment (tl s)
      else if startswith (c # s) ''/*'' then eat BlockComment (tl s)
      else keep c (eat Outside s))"
| "eat InString [] = OpenString"
| "eat InString (c # s) =
     keep c (eat (if c = CHR 0x22 then Outside else if c = CHR 0x5C then Escaped else InString) s)"
| "eat Escaped [] = OpenString"
| "eat Escaped (c # s) = keep c (eat InString s)"
| "eat LineComment [] = Eaten []"
| "eat LineComment (c # s) = (if c \<in> {CHR 0x0A, CHR 0x0D} then keep c (eat Outside s) else eat LineComment s)"
| "eat BlockComment [] = OpenComment"
| "eat BlockComment (c # s) = (if startswith (c # s) ''*/'' then eat Outside (tl s) else eat BlockComment s)"
  by pat_completeness auto
termination by (relation "measure (\<lambda>(m, s). length s)") auto

abbreviation keeps_text :: "string \<Rightarrow> eaten \<Rightarrow> eaten" where
  "keeps_text w e \<equiv> foldr keep w e"

lemma keeps_text_simps [simp]:
  "keeps_text w (Eaten r) = Eaten (w @ r)" "keeps_text w OpenString = OpenString" "keeps_text w OpenComment = OpenComment"
  by (induction w) auto

end
