(* ===== verification/Json_Eating.thy ===== *)
theory Json_Eating
  imports Json_Comments
begin

text \<open>
  The comment remover computes what the reference says: on text whose strings and comments are
  closed it gives that text without the comments.
\<close>

section \<open>First occurrences\<close>

lemma find_sub_first:
  "find_sub sub s = Some i \<Longrightarrow> startswith (drop i s) sub \<and> (\<forall>j < i. \<not> startswith (drop j s) sub)"
proof (induction s arbitrary: i)
  case (Cons c s)
  show ?case
  proof (cases "startswith (c # s) sub")
    case True
    with Cons.prems show ?thesis by simp
  next
    case False
    with Cons.prems obtain n where n: "find_sub sub s = Some n" "i = Suc n" by auto
    with Cons.IH [OF n(1)] False show ?thesis by (auto simp: less_Suc_eq_0_disj)
  qed
qed (auto simp: startswith_def split: if_splits)

lemma find_sub_none: "find_sub sub s = None \<Longrightarrow> sub \<noteq> [] \<Longrightarrow> \<not> startswith (drop j s) sub"
proof (induction s arbitrary: j)
  case (Cons c s)
  then show ?case by (cases j) (auto split: if_splits)
qed (simp add: startswith_def)

lemma find_from_first:
  assumes "find_from s sub p = Some i"
  shows "startswith (drop i s) sub" and "p \<le> j \<Longrightarrow> j < i \<Longrightarrow> \<not> startswith (drop j s) sub"
proof -
  obtain n where n: "find_sub sub (drop p s) = Some n" "i = p + n"
    using assms by (auto simp: find_from_def split: if_splits)
  from find_sub_first [OF n(1)] n(2) show "startswith (drop i s) sub" by (simp add: add.commute)
  assume "p \<le> j" "j < i"
  then have "j - p < n" "j = p + (j - p)" using n(2) by auto
  with find_sub_first [OF n(1)] show "\<not> startswith (drop j s) sub" by (metis add.commute drop_drop)
qed

lemma find_from_none:
  "find_from s sub p = None \<Longrightarrow> sub \<noteq> [] \<Longrightarrow> p \<le> length s \<Longrightarrow> p \<le> j \<Longrightarrow> \<not> startswith (drop j s) sub"
  using find_sub_none [of sub "drop p s" "j - p"] by (auto simp: find_from_def)

text \<open>The next token: nothing starts before it.\<close>

lemma FindNextToken_least:
  "FindNextToken s ts p = Some (i, k) \<Longrightarrow> k' \<in> set ts \<Longrightarrow> find_from s k' p = Some j \<Longrightarrow> i \<le> j"
  "FindNextToken s ts p = None \<Longrightarrow> k' \<in> set ts \<Longrightarrow> find_from s k' p = None"
proof -
  let ?step = "\<lambda>k best. case find_from s k p of None \<Rightarrow> best | Some index \<Rightarrow> (case best of None \<Rightarrow> Some (index, k)
     | Some (min_index, min_key) \<Rightarrow> if index < min_index then Some (index, k) else best)"
  have "case fold ?step ts best of
      None \<Rightarrow> best = None \<and> (\<forall>k \<in> set ts. find_from s k p = None)
    | Some (i, _) \<Rightarrow> (\<forall>b l. best = Some (b, l) \<longrightarrow> i \<le> b) \<and> (\<forall>k \<in> set ts. \<forall>j. find_from s k p = Some j \<longrightarrow> i \<le> j)" for best
  proof (induction ts arbitrary: best)
    case Nil
    show ?case by (cases best) auto
  next
    case (Cons k ts)
    from Cons.IH [of "?step k best"] show ?case
      by (cases best; cases "find_from s k p") (auto split: option.splits if_splits)
  qed
  from this [of None] show "FindNextToken s ts p = Some (i, k) \<Longrightarrow> k' \<in> set ts \<Longrightarrow> find_from s k' p = Some j \<Longrightarrow> i \<le> j"
    and "FindNextToken s ts p = None \<Longrightarrow> k' \<in> set ts \<Longrightarrow> find_from s k' p = None"
    unfolding FindNextToken_def by auto
qed

lemma FindNextToken_first:
  assumes "FindNextToken s ts p = Some (i, k)" and "[] \<notin> set ts" and "p \<le> length s"
  shows "k \<in> set ts" "p \<le> i" "startswith (drop i s) k"
    and "p \<le> j \<Longrightarrow> j < i \<Longrightarrow> k' \<in> set ts \<Longrightarrow> \<not> startswith (drop j s) k'"
proof -
  from FindNextToken_Some [OF assms(1)] have k: "k \<in> set ts" "find_from s k p = Some i" by simp_all
  then show "k \<in> set ts" "p \<le> i" "startswith (drop i s) k" using find_from_ge find_from_first by blast+
  assume j: "p \<le> j" "j < i" "k' \<in> set ts"
  show "\<not> startswith (drop j s) k'"
  proof (cases "find_from s k' p")
    case None
    with j assms(2,3) show ?thesis by (metis find_from_none)
  next
    case (Some n)
    with FindNextToken_least(1) [OF assms(1) j(3)] j(2) have "j < n" by force
    with find_from_first(2) [OF Some] j(1) show ?thesis by blast
  qed
qed

lemma FindNextToken_none:
  "FindNextToken s ts p = None \<Longrightarrow> [] \<notin> set ts \<Longrightarrow> p \<le> length s \<Longrightarrow> p \<le> j \<Longrightarrow> k' \<in> set ts \<Longrightarrow> \<not> startswith (drop j s) k'"
  by (metis FindNextToken_least(2) find_from_none)

section \<open>Stretches without tokens\<close>

lemma drop_decomp: "startswith (drop i s) k \<Longrightarrow> drop i s = k @ drop (i + length k) s"
  by (metis add.commute append_eq_conv_conj drop_drop startswith_iff)

lemma slice_drop: "a \<le> b \<Longrightarrow> b \<le> length s \<Longrightarrow> slice s a b @ drop b s = drop a s"
  unfolding slice_def by (metis append_take_drop_id drop_append diff_is_0_eq drop0 length_take min.absorb2)

lemma slice_append:
  assumes "a \<le> b" and "b \<le> c" and "c \<le> length s"
  shows "slice s a b @ slice s b c = slice s a c"
proof -
  have "take c s = take b s @ slice s b c"
    unfolding slice_def using assms by (metis append_take_drop_id min.absorb2 take_take min.commute)
  then have "slice s a c = drop a (take b s @ slice s b c)" by (simp add: slice_def)
  also have "\<dots> = drop a (take b s) @ slice s b c" using assms by simp
  finally show ?thesis by (simp add: slice_def)
qed

lemma eat_outside:
  assumes "\<And>j k. j < length w \<Longrightarrow> k \<in> set tokens \<Longrightarrow> \<not> startswith (drop j (w @ r)) k"
  shows "eat Outside (w @ r) = keeps_text w (eat Outside r)"
  using assms
proof (induction w)
  case (Cons c w)
  have "c \<noteq> CHR 0x22" using Cons.prems [of 0 "[CHR 0x22]"] by (auto simp: tokens_def startswith_def)
  moreover have "\<not> startswith (c # w @ r) ''//''" using Cons.prems [of 0 "''//''"] by (simp add: tokens_def)
  moreover have "\<not> startswith (c # w @ r) ''/*''" using Cons.prems [of 0 "''/*''"] by (simp add: tokens_def)
  moreover have "eat Outside (w @ r) = keeps_text w (eat Outside r)"
  proof (rule Cons.IH)
    fix j k
    assume "j < length w" "k \<in> set tokens"
    with Cons.prems [of "Suc j" k] show "\<not> startswith (drop j (w @ r)) k" by simp
  qed
  ultimately show ?case by simp
qed simp

lemma eat_line:
  assumes "\<And>j k. j < length w \<Longrightarrow> k \<in> {[CHR 0x0A], [CHR 0x0D]} \<Longrightarrow> \<not> startswith (drop j (w @ r)) k"
  shows "eat LineComment (w @ r) = eat LineComment r"
  using assms
proof (induction w)
  case (Cons c w)
  have "c \<noteq> CHR 0x0A" "c \<noteq> CHR 0x0D"
    using Cons.prems [of 0 "[CHR 0x0A]"] Cons.prems [of 0 "[CHR 0x0D]"] by (auto simp: startswith_def)
  moreover have "eat LineComment (w @ r) = eat LineComment r"
  proof (rule Cons.IH)
    fix j k
    assume "j < length w" "k \<in> {[CHR 0x0A], [CHR 0x0D]}"
    with Cons.prems [of "Suc j" k] show "\<not> startswith (drop j (w @ r)) k" by simp
  qed
  ultimately show ?case by simp
qed simp

lemma eat_block:
  assumes "\<And>j. j < length w \<Longrightarrow> \<not> startswith (drop j (w @ r)) ''*/''"
  shows "eat BlockComment (w @ r) = eat BlockComment r"
  using assms
proof (induction w)
  case (Cons c w)
  have "\<not> startswith (c # w @ r) ''*/''" using Cons.prems [of 0] by simp
  moreover have "eat BlockComment (w @ r) = eat BlockComment r"
  proof (rule Cons.IH)
    fix j
    assume "j < length w"
    with Cons.prems [of "Suc j"] show "\<not> startswith (drop j (w @ r)) ''*/''" by simp
  qed
  ultimately show ?case by simp
qed simp

section \<open>Strings\<close>

text \<open>Whether a backslash is still open after a text.\<close>

definition escapes :: "bool \<Rightarrow> string \<Rightarrow> bool" where
  "escapes x w = foldl (\<lambda>e c. \<not> e \<and> c = CHR 0x5C) x w"

lemma Rcount_snoc: "Rcount (w @ [c]) [CHR 0x5C] = (if c = CHR 0x5C then Suc (Rcount w [CHR 0x5C]) else 0)"
proof -
  have "length (rstrip_chars [CHR 0x5C] w) \<le> length w" by (rule length_rstrip)
  then show ?thesis by (auto simp: Rcount_def rstrip_chars_def Suc_diff_le)
qed

lemma odd_Rcount: "odd (Rcount w [CHR 0x5C]) \<longleftrightarrow> escapes False w"
proof (induction w rule: rev_induct)
  case Nil
  show ?case by (simp add: Rcount_def rstrip_chars_def escapes_def)
next
  case (snoc c w)
  then show ?case by (auto simp: Rcount_snoc escapes_def)
qed

lemma eat_string_run:
  "CHR 0x22 \<notin> set w \<Longrightarrow>
   eat (if x then Escaped else InString) (w @ r) = keeps_text w (eat (if escapes x w then Escaped else InString) r)"
proof (induction w arbitrary: x)
  case Nil
  show ?case by (simp add: escapes_def)
next
  case (Cons c w)
  have "eat (if x then Escaped else InString) ((c # w) @ r) =
      keep c (eat (if \<not> x \<and> c = CHR 0x5C then Escaped else InString) (w @ r))"
    using Cons.prems by auto
  also have "eat (if \<not> x \<and> c = CHR 0x5C then Escaped else InString) (w @ r) =
      keeps_text w (eat (if escapes (\<not> x \<and> c = CHR 0x5C) w then Escaped else InString) r)"
    by (rule Cons.IH) (use Cons.prems in simp)
  also have "escapes (\<not> x \<and> c = CHR 0x5C) w = escapes x (c # w)" by (simp add: escapes_def)
  finally show ?case by simp
qed

lemma eat_quote:
  assumes "CHR 0x22 \<notin> set w"
  shows "eat InString (w @ CHR 0x22 # r) = keeps_text (w @ [CHR 0x22]) (eat (if odd (Rcount w [CHR 0x5C]) then InString else Outside) r)"
  using eat_string_run [OF assms, of False "CHR 0x22 # r"] by (auto simp: odd_Rcount)

lemma eat_open: "CHR 0x22 \<notin> set w \<Longrightarrow> eat InString w = OpenString"
  using eat_string_run [of w False "[]"] by (simp split: if_splits)

lemma Rcount_quote: "Rcount (CHR 0x22 # w) [CHR 0x5C] = Rcount w [CHR 0x5C]"
proof (induction w rule: rev_induct)
  case Nil
  show ?case by (simp add: Rcount_def rstrip_chars_def)
next
  case (snoc c w)
  then show ?case using Rcount_snoc [of "CHR 0x22 # w" c] by (simp add: Rcount_snoc)
qed

text \<open>The stretch up to the next quote.\<close>

lemma next_quote:
  assumes "find_from input [CHR 0x22] a = Some e"
  shows "a \<le> e" "e < length input" "CHR 0x22 \<notin> set (slice input a e)"
    "drop a input = slice input a e @ CHR 0x22 # drop (Suc e) input"
proof -
  show ae: "a \<le> e" using find_from_ge [OF assms] by simp
  show e: "e < length input" using find_from_fits [OF assms] by simp
  have "startswith (drop e input) [CHR 0x22]" by (rule find_from_first(1) [OF assms])
  then have d: "drop e input = CHR 0x22 # drop (Suc e) input" using drop_decomp [of e input "[CHR 0x22]"] by simp
  then show "drop a input = slice input a e @ CHR 0x22 # drop (Suc e) input"
    using slice_drop [OF ae, of input] e by simp
  show "CHR 0x22 \<notin> set (slice input a e)"
  proof
    assume "CHR 0x22 \<in> set (slice input a e)"
    then obtain n where n: "n < length (slice input a e)" "slice input a e ! n = CHR 0x22" by (auto simp: in_set_conv_nth)
    then have "a + n < e" "input ! (a + n) = CHR 0x22" using e by (auto simp: slice_def)
    then have "startswith (drop (a + n) input) [CHR 0x22]"
      using e by (simp add: startswith_def take_Suc_conv_app_nth hd_drop_conv_nth take_Suc)
    with find_from_first(2) [OF assms, of "a + n"] \<open>a + n < e\<close> show False by simp
  qed
qed

lemma no_quote:
  assumes "find_from input [CHR 0x22] a = None" and "a \<le> length input"
  shows "CHR 0x22 \<notin> set (drop a input)"
proof
  assume "CHR 0x22 \<in> set (drop a input)"
  then obtain n where "n < length (drop a input)" "drop a input ! n = CHR 0x22" by (auto simp: in_set_conv_nth)
  then have "startswith (drop (a + n) input) [CHR 0x22]" using assms(2)
    by (simp add: startswith_def take_Suc hd_drop_conv_nth)
  with find_from_none [OF assms(1) _ assms(2), of "a + n"] show False by simp
qed

lemma string_end_eat:
  assumes "string_end input a e = (b, q)" and "e = find_from input [CHR 0x22] x" and "x \<le> length input"
    and "a = x \<or> (x = Suc a \<and> a < length input \<and> input ! a = CHR 0x22)"
  shows "eat InString (drop x input) =
    (case q of None \<Rightarrow> OpenString | Some i \<Rightarrow> keeps_text (slice input x (Suc i)) (eat Outside (drop (Suc i) input)))
    \<and> (\<forall>i. q = Some i \<longrightarrow> x \<le> i \<and> i < length input)"
  using assms
proof (induction input a e arbitrary: x rule: string_end.induct)
  case (1 input a e)
  show ?case
  proof (cases e)
    case None
    with "1.prems" no_quote [of input x] show ?thesis by (simp add: string_end.simps eat_open)
  next
    case (Some i)
    with "1.prems"(2) have f: "find_from input [CHR 0x22] x = Some i" by simp
    note nq = next_quote [OF f]
    have parity: "Rcount (slice input a i) [CHR 0x5C] = Rcount (slice input x i) [CHR 0x5C]"
    proof (cases "a = x")
      case False
      with "1.prems"(4) have "slice input a i = CHR 0x22 # slice input x i"
        using nq(1,2) by (simp add: slice_def Cons_nth_drop_Suc [symmetric])
      then show ?thesis by (simp add: Rcount_quote)
    qed simp
    have snoc: "slice input x i @ [CHR 0x22] = slice input x (Suc i)"
    proof -
      have "input ! i = CHR 0x22" using find_from_first(1) [OF f] nq(2) by (simp add: startswith_def take_Suc hd_drop_conv_nth)
      then show ?thesis using nq(1,2) by (simp add: slice_def take_Suc_conv_app_nth)
    qed
    note eq = eat_quote [OF nq(3), of "drop (Suc i) input", folded nq(4), unfolded snoc]
    show ?thesis
    proof (cases "odd (Rcount (slice input a i) [CHR 0x5C])")
      case True
      have "string_end input i (find_from input [CHR 0x22] (i + 1)) = (b, q)"
        using "1.prems"(1) Some True by (simp add: string_end.simps [of input a])
      moreover have "input ! i = CHR 0x22"
        using find_from_first(1) [OF f] nq(2) by (simp add: startswith_def take_Suc hd_drop_conv_nth)
      ultimately have IH: "eat InString (drop (Suc i) input) =
          (case q of None \<Rightarrow> OpenString | Some j \<Rightarrow> keeps_text (slice input (Suc i) (Suc j)) (eat Outside (drop (Suc j) input)))
          \<and> (\<forall>j. q = Some j \<longrightarrow> Suc i \<le> j \<and> j < length input)"
        using "1.IH" [OF Some True, of "Suc i"] nq(2) by simp
      have join: "slice input x (Suc i) @ slice input (Suc i) (Suc j) = slice input x (Suc j)" if "Suc i \<le> j" "j < length input" for j
        using that nq(1) by (intro slice_append) auto
      have odd: "odd (Rcount (slice input x i) [CHR 0x5C])" using True parity by simp
      show ?thesis
      proof (cases q)
        case None
        with IH eq odd show ?thesis by simp
      next
        case (Some j)
        with IH eq odd join [of j] nq(1) show ?thesis by (simp flip: foldr_append)
      qed
    next
      case False
      then have "q = Some i" using "1.prems"(1) Some by (simp add: string_end.simps [of input a])
      with False eq parity nq(1,2) show ?thesis by simp
    qed
  qed
qed

section \<open>The readers\<close>

lemma token_readers:
  assumes "startswith (drop i input) k" and "k \<in> set tokens" and "i \<le> length input"
  defines "p \<equiv> i + length k"
  shows "case token_action k input p of
      Inl e \<Rightarrow> e = PlainException \<and> eat Outside (drop i input) = OpenComment
    | Inr (n, out) \<Rightarrow> n \<le> length input \<and> eat Outside (drop i input) = keeps_text (concat out) (eat Outside (drop n input))
        \<or> eat Outside (drop i input) = OpenString"
proof -
  have d: "drop i input = k @ drop p input" unfolding p_def by (rule drop_decomp [OF assms(1)])
  have p: "p \<le> length input" using startswith_length [OF assms(1)] assms(3) unfolding p_def by simp
  consider "k = [CHR 0x22]" | "k = ''//''" | "k = ''/*''" using assms(2) by (auto simp: tokens_def)
  then show ?thesis
  proof cases
    case 1
    obtain b q where q: "string_end input p (find_from input [CHR 0x22] p) = (b, q)"
      by (cases "string_end input p (find_from input [CHR 0x22] p)")
    have e: "eat Outside (drop i input) = keep (CHR 0x22) (eat InString (drop p input))" by (simp add: d 1)
    have s: "eat InString (drop p input) =
        (case q of None \<Rightarrow> OpenString | Some i \<Rightarrow> keeps_text (slice input p (Suc i)) (eat Outside (drop (Suc i) input)))"
      and "\<forall>i. q = Some i \<longrightarrow> p \<le> i \<and> i < length input"
      using string_end_eat [OF q refl p] by simp_all
    then show ?thesis using q e by (cases q) (simp_all add: token_action_def 1 ReadString_def)
  next
    case 2
    have e: "eat Outside (drop i input) = eat LineComment (drop p input)" by (simp add: d 2 startswith_def)
    let ?eol = "[[CHR 0x0A], [CHR 0x0D]]"
    show ?thesis
    proof (cases "FindNextToken input ?eol p")
      case None
      have "eat LineComment (drop p input @ []) = eat LineComment []"
        by (rule eat_line) (use FindNextToken_none [OF None _ p] in \<open>auto simp: add.commute\<close>)
      with e None show ?thesis by (simp add: token_action_def 2 ReadComment_def)
    next
      case (Some f)
      obtain n c where f: "f = (n, c)" by (cases f)
      note first = FindNextToken_first [OF Some [unfolded f] _ p, simplified]
      have n: "n \<le> length input" using FindNextToken_range [OF Some [unfolded f]] by simp
      have dn: "drop n input = c @ drop (n + length c) input" by (rule drop_decomp [OF first(3)])
      have len: "n + length c \<le> length input" using startswith_length [OF first(3)] n by simp
      have "eat LineComment (slice input p n @ drop n input) = eat LineComment (drop n input)"
      proof (rule eat_line)
        fix j k
        assume "j < length (slice input p n)" "k \<in> {[CHR 0x0A], [CHR 0x0D]}"
        then show "\<not> startswith (drop j (slice input p n @ drop n input)) k"
          unfolding slice_drop [OF first(2) n] drop_drop
          using first(4) [of "j + p" k] n by (auto simp: slice_def)
      qed
      also have "\<dots> = keeps_text c (eat Outside (drop (n + length c) input))"
        unfolding dn using first(1) by auto
      finally show ?thesis
        using e Some f len slice_drop [OF first(2) n] by (simp add: token_action_def 2 ReadComment_def)
    qed
  next
    case 3
    have e: "eat Outside (drop i input) = eat BlockComment (drop p input)" by (simp add: d 3 startswith_def)
    show ?thesis
    proof (cases "FindNextToken input [''*/''] p")
      case None
      have "eat BlockComment (drop p input @ []) = eat BlockComment []"
        by (rule eat_block) (use FindNextToken_none [OF None _ p] in \<open>auto simp: add.commute\<close>)
      with e None show ?thesis by (simp add: token_action_def 3 ReadMultilineComment_def)
    next
      case (Some f)
      obtain n c where f: "f = (n, c)" by (cases f)
      note first = FindNextToken_first [OF Some [unfolded f] _ p, simplified]
      have n: "n \<le> length input" using FindNextToken_range [OF Some [unfolded f]] by simp
      have dn: "drop n input = c @ drop (n + length c) input" by (rule drop_decomp [OF first(3)])
      have len: "n + length c \<le> length input" using startswith_length [OF first(3)] n by simp
      have "eat BlockComment (slice input p n @ drop n input) = eat BlockComment (drop n input)"
      proof (rule eat_block)
        fix j
        assume "j < length (slice input p n)"
        then show "\<not> startswith (drop j (slice input p n @ drop n input)) ''*/''"
          unfolding slice_drop [OF first(2) n] drop_drop
          using first(4) [of "j + p"] n by (auto simp: slice_def)
      qed
      also have "\<dots> = eat Outside (drop (n + length c) input)"
        unfolding dn using first(1) by (simp add: startswith_def)
      finally show ?thesis
        using e Some f len slice_drop [OF first(2) n] by (simp add: token_action_def 3 ReadMultilineComment_def)
    qed
  qed
qed

section \<open>The whole text\<close>

lemma nom_loop_eats:
  "pos \<le> length input \<Longrightarrow>
   (case eat Outside (drop pos input) of
      Eaten t \<Rightarrow> \<exists>out'. nom_loop input outp pos = Inr out' \<and> concat out' = concat outp @ t
    | OpenComment \<Rightarrow> nom_loop input outp pos = Inl PlainException
    | OpenString \<Rightarrow> True)"
proof (induction input outp pos rule: nom_loop.induct)
  case (1 input outp pos)
  have ne: "[] \<notin> set tokens" by (simp add: tokens_def)
  show ?case
  proof (cases "pos < length input")
    case False
    then show ?thesis by (simp add: nom_loop.simps)
  next
    case True
    show ?thesis
    proof (cases "FindNextToken input tokens pos")
      case None
      have "eat Outside (drop pos input @ []) = keeps_text (drop pos input) (eat Outside [])"
        by (rule eat_outside) (use FindNextToken_none [OF None ne "1.prems"] in \<open>auto simp: add.commute\<close>)
      then have "eat Outside (drop pos input) = Eaten (drop pos input)" by simp
      with None True show ?thesis by (simp add: nom_loop.simps [of input])
    next
      case (Some f)
      obtain i k where f: "f = (i, k)" by (cases f)
      note first = FindNextToken_first [OF Some [unfolded f] ne "1.prems"]
      have i: "i \<le> length input" using FindNextToken_range [OF Some [unfolded f]] by simp
      have "eat Outside (slice input pos i @ drop i input) = keeps_text (slice input pos i) (eat Outside (drop i input))"
      proof (rule eat_outside)
        fix j k'
        assume "j < length (slice input pos i)" "k' \<in> set tokens"
        then show "\<not> startswith (drop j (slice input pos i @ drop i input)) k'"
          unfolding slice_drop [OF first(2) i] drop_drop
          using first(4) [of "j + pos" k'] i by (auto simp: slice_def)
      qed
      then have e: "eat Outside (drop pos input) = keeps_text (slice input pos i) (eat Outside (drop i input))"
        by (simp add: slice_drop [OF first(2) i])
      note reader = token_readers [OF first(3,1) i]
      show ?thesis
      proof (cases "token_action k input (i + length k)")
        case (Inl x)
        with reader have "x = PlainException" "eat Outside (drop i input) = OpenComment" by simp_all
        with Inl e True Some f show ?thesis by (simp add: nom_loop.simps [of input outp])
      next
        case (Inr y)
        obtain n out where y: "y = (n, out)" by (cases y)
        have step: "nom_loop input outp pos = nom_loop input (outp @ [slice input pos i] @ out) n"
          using Inr y True Some f by (simp add: nom_loop.simps [of input outp])
        show ?thesis
        proof (cases "eat Outside (drop i input) = OpenString")
          case True
          with e show ?thesis by simp
        next
          case False
          with reader Inr y have n: "n \<le> length input"
            "eat Outside (drop i input) = keeps_text (concat out) (eat Outside (drop n input))" by simp_all
          from "1.IH" [OF True Some f [symmetric] Inr y [symmetric] n(1)] e n(2) step show ?thesis
            by (cases "eat Outside (drop n input)") auto
        qed
      qed
    qed
  qed
qed

text \<open>
  C27: on text whose strings and comments are all closed, \<open>Nom\<close> gives the text without its comments:
  what the character by character reading keeps. Text in strings is kept, a comment to the end of a
  line leaves the line break.
\<close>

theorem Nom_removes_comments:
  assumes "eat Outside input = Eaten t"
  shows "Nom input = Inr t"
  using nom_loop_eats [of 0 input "[]"] assms by (auto simp: Nom_def)

theorem Nom_removes_comments_witness:
  "Nom (''a /* b */ '' @ [CHR 0x22] @ ''// c'' @ [CHR 0x5C, CHR 0x22, CHR 0x22] @ ''// d'' @ [CHR 0x0A] @ ''e'') =
     Inr (''a  '' @ [CHR 0x22] @ ''// c'' @ [CHR 0x5C, CHR 0x22, CHR 0x22, CHR 0x0A] @ ''e'')"
  by (rule Nom_removes_comments) code_simp

text \<open>
  A comment that is not closed, after closed strings and comments, is an exception.
\<close>

theorem Nom_open_comment: "eat Outside input = OpenComment \<Longrightarrow> Nom input = Inl PlainException"
  using nom_loop_eats [of 0 input "[]"] by (simp add: Nom_def)

text \<open>The first character of a string that is not closed is lost.\<close>

lemma Nom_open_string: "Nom ([CHR 0x22] @ ''abc'') = Inr ([CHR 0x22] @ ''bc'')"
  by code_simp

end
