(* ===== verification/Deps_Graph.thy ===== *)
theory Deps_Graph
  imports Deps_Builder
begin

text \<open>
  \<^verbatim>\<open>buildtools/checkdeps/graphdeps.py\<close>: the graph of the include rules as text for GraphViz. The
  search of a regular expression is a parameter. A rule tuple is (kind, source, target).
\<close>

section \<open>The grapher\<close>

record deps_grapher =
  gr_builder :: deps_builder
  gr_ignore_temp_rules :: bool
  gr_ignore_specific_rules :: bool
  hide_disallowed_deps :: bool
  out_file :: string
  out_format :: string
  layout_engine :: string
  unflatten_graph :: bool
  incl :: string
  excl :: string
  hilite_fanins :: string
  hilite_fanouts :: string
  gr_deps :: "(char \<times> string \<times> string) list"

type_synonym deps_graph = "(string \<times> (string \<times> char) list) list"

text \<open>
  All directories with rules, as one set of tuples; \<open>None\<close> when the fuel of the walk, one unit for
  each directory, does not reach.
\<close>

definition BuildDepsGraph :: "deps_env \<Rightarrow> nat \<Rightarrow> deps_grapher \<Rightarrow> deps_grapher option res" where
  "BuildDepsGraph env fuel g =
     (case GetAllRulesAndFiles env fuel [] (gr_builder g) of
        (Inl e, _) \<Rightarrow> Inl e
      | (Inr None, _) \<Rightarrow> Inr None
      | (Inr (Some all_rules), b) \<Rightarrow>
          Inr (Some (g\<lparr>gr_builder := b,
            gr_deps := fold (\<lambda>(rules, _) deps.
              fold set_add (AsDependencyTuples rules True (\<not> gr_ignore_specific_rules g)) deps) all_rules (gr_deps g)\<rparr>)))"

section \<open>Nodes and rules\<close>

text \<open>
  \<^verbatim>\<open>while parent_src: ...; parent_src = os.path.dirname(parent_src)\<close>: the paths the loop visits;
  \<open>None\<close> when it does not end, at a path that is its own parent.
\<close>

function parent_chain :: "string \<Rightarrow> string list option" where
  "parent_chain p =
     (if p = [] then Some []
      else if dirname p = p then None
      else map_option (\<lambda>ps. p # ps) (parent_chain (dirname p)))"
  by pat_completeness auto
termination by (relation "measure length") (auto simp: dirname_shorter)

declare parent_chain.simps [simp del]

definition add_node :: "string \<Rightarrow> deps_graph \<Rightarrow> deps_graph" where
  "add_node src graph = dict_setdefault src [] graph"

definition graph_rules :: "deps_graph \<Rightarrow> string \<Rightarrow> (string \<times> char) list" where
  "graph_rules graph src = (case dict_get graph src of Some rs \<Rightarrow> rs | None \<Rightarrow> [])"

definition add_edge :: "string \<Rightarrow> string \<times> char \<Rightarrow> deps_graph \<Rightarrow> deps_graph" where
  "add_edge src r graph = dict_set src (graph_rules graph src @ [r]) graph"

text \<open>The first loop: the graph of the rules with their directories and all directories above.\<close>

fun init_graph ::
    "bool \<Rightarrow> (char \<times> string \<times> string) list \<Rightarrow> deps_graph \<times> string list \<Rightarrow> (deps_graph \<times> string list) option" where
  "init_graph ignore_temp [] st = Some st"
| "init_graph ignore_temp ((kind, src, dst) # deps) (graph, deps_srcs) =
     (if kind = TEMP_ALLOW \<and> ignore_temp then init_graph ignore_temp deps (graph, deps_srcs)
      else case parent_chain (dirname src) of
        None \<Rightarrow> None
      | Some parents \<Rightarrow>
          init_graph ignore_temp deps (fold add_node parents (add_edge src (dst, kind) graph), set_add src deps_srcs))"

text \<open>One rule of the parent, added unless the node has a rule for its target.\<close>

definition inherit_rule :: "string \<times> char \<Rightarrow> (string \<times> char) list \<Rightarrow> (string \<times> char) list" where
  "inherit_rule r own =
     (if (fst r, ALLOW) \<notin> set own \<and> (fst r, TEMP_ALLOW) \<notin> set own \<and> (fst r, DISALLOW) \<notin> set own
      then own @ [r] else own)"

text \<open>The second loop, over the sorted directories that have rules.\<close>

fun propagate :: "string list \<Rightarrow> deps_graph \<Rightarrow> deps_graph res" where
  "propagate [] graph = Inr graph"
| "propagate (src # srcs) graph =
     (if dirname src = [] then propagate srcs graph
      else case dict_get graph (dirname src) of
        None \<Rightarrow> Inl AssertionError
      | Some rules \<Rightarrow>
          propagate srcs (dict_set src (fold inherit_rule rules (graph_rules graph src)) graph))"

section \<open>The drawing\<close>

record node_prop =
  hilite :: "string option"
  degree :: nat

record graph_style =
  style_nodes :: "(string \<times> node_prop) list"
  style_edges :: "string list"

definition on_node :: "string \<Rightarrow> (node_prop \<Rightarrow> node_prop) \<Rightarrow> graph_style \<Rightarrow> graph_style" where
  "on_node n u st = st\<lparr>style_nodes := AList.map_entry n u (style_nodes st)\<rparr>"

definition edge_spec :: "string \<Rightarrow> string \<Rightarrow> string" where
  "edge_spec src dst = src @ ''->'' @ dst"

text \<open>The body of the loop over the rules of a node.\<close>

definition draw_edge ::
    "(string \<Rightarrow> string \<Rightarrow> bool) \<Rightarrow> deps_grapher \<Rightarrow> string \<Rightarrow> string \<times> char \<Rightarrow> graph_style \<Rightarrow> graph_style" where
  "draw_edge re_search g src rule st =
     (case rule of (dst, kind) \<Rightarrow>
      if kind = DISALLOW \<and> hide_disallowed_deps g then st
      else if kind = ALLOW \<and> src = dst then st
      else if \<not> re_search (incl g) (edge_spec src dst) \<or> re_search (excl g) (edge_spec src dst) then st
      else
        let new = \<lparr>hilite = None, degree = 0\<rparr>;
            st = st\<lparr>style_nodes := dict_setdefault dst new (dict_setdefault src new (style_nodes st))\<rparr>;
            fanout = (hilite_fanouts g \<noteq> [] \<and> re_search (hilite_fanouts g) src);
            st = (if fanout
                  then on_node dst (\<lambda>n. n\<lparr>hilite := Some ''lightblue'', degree := degree n + 1\<rparr>)
                         (on_node src (\<lambda>n. n\<lparr>hilite := Some ''lightgreen''\<rparr>) st)
                  else st);
            fanin = (hilite_fanins g \<noteq> [] \<and> re_search (hilite_fanins g) dst);
            st = (if fanin
                  then on_node src (\<lambda>n. n\<lparr>degree := degree n + 1\<rparr>)
                         (on_node dst (\<lambda>n. n\<lparr>hilite := Some ''lightgreen''\<rparr>)
                           (on_node src (\<lambda>n. n\<lparr>hilite := Some ''lightblue''\<rparr>) st))
                  else st);
            edge_weight = 1 + of_bool fanout + of_bool fanin :: nat;
            (edge_style, edge_color) =
              (if kind = ALLOW then (''solid'', if 1 < edge_weight then ''blue'' else ''green'')
               else if kind = TEMP_ALLOW then (''dashed'', if 1 < edge_weight then ''blue'' else ''green'')
               else (''dashed'', ''red''))
        in st\<lparr>style_edges := style_edges st @
             [''    '' @ [CHR 0x22] @ src @ [CHR 0x22] @ '' -> '' @ [CHR 0x22] @ dst @ [CHR 0x22] @ '' [style='' @ edge_style
              @ '',color='' @ edge_color @ '',penwidth='' @ str_nat edge_weight @ ''];'']\<rparr>)"

definition draw_graph :: "(string \<Rightarrow> string \<Rightarrow> bool) \<Rightarrow> deps_grapher \<Rightarrow> deps_graph \<Rightarrow> graph_style" where
  "draw_graph re_search g graph =
     fold (\<lambda>(src, rules). fold (draw_edge re_search g src) rules) graph \<lparr>style_nodes = [], style_edges = []\<rparr>"

definition node_line :: "string \<times> node_prop \<Rightarrow> string" where
  "node_line p =
     (case p of (node, attrs) \<Rightarrow>
      ''    '' @ [CHR 0x22] @ node @ [CHR 0x22] @ '' ['' @
        str_join '','' ((case hilite attrs of Some (c # cs) \<Rightarrow> [''style=filled,fillcolor='' @ c # cs] | _ \<Rightarrow> [])
          @ [''penwidth='' @ str_nat (if degree attrs = 0 then 1 else degree attrs)]) @ ''];'')"

definition graph_text :: "graph_style \<Rightarrow> string" where
  "graph_text st =
     (let nl = [CHR 0x0A] in
      ''digraph DEPS {'' @ nl @ ''    fontsize=8;'' @ nl
      @ str_join nl (sort (map node_line (style_nodes st))) @ nl @ nl
      @ str_join nl (sort (style_edges st)) @ nl @ ''}'' @ nl)"

text \<open>The text written; \<open>None\<close> when the first loop does not end.\<close>

definition DumpDependenciesImpl ::
    "(string \<Rightarrow> string \<Rightarrow> bool) \<Rightarrow> deps_grapher \<Rightarrow> (char \<times> string \<times> string) list \<Rightarrow> string option res" where
  "DumpDependenciesImpl re_search g deps =
     (case init_graph (gr_ignore_temp_rules g) deps ([], []) of
        None \<Rightarrow> Inr None
      | Some (graph, deps_srcs) \<Rightarrow>
          bind_res (propagate (sort deps_srcs) graph) (\<lambda>graph.
            Inr (Some (graph_text (draw_graph re_search g graph)))))"

section \<open>Output and main program\<close>

text \<open>The commands the text is piped through before it reaches the file.\<close>

definition pipe_commands :: "deps_grapher \<Rightarrow> string list" where
  "pipe_commands g =
     (let unflatten = (if unflatten_graph g then [''unflatten -l 2 -c 3''] else []) in
      if out_format g = ''dot'' \<and> layout_engine g = [] then unflatten
      else unflatten @ [''dot -T'' @ out_format g @ (if layout_engine g \<noteq> [] then '' -K'' @ layout_engine g else [])])"

definition DumpDependencies ::
    "deps_env \<Rightarrow> (string \<Rightarrow> string \<Rightarrow> bool) \<Rightarrow> nat \<Rightarrow> deps_grapher \<Rightarrow> (string \<times> string list \<times> string) option res" where
  "DumpDependencies env re_search fuel g =
     bind_res (BuildDepsGraph env fuel g) (\<lambda>g'.
       case g' of
         None \<Rightarrow> Inr None
       | Some g' \<Rightarrow>
           bind_res (DumpDependenciesImpl re_search g' (gr_deps g')) (\<lambda>text.
             Inr (map_option (\<lambda>t. (out_file g', pipe_commands g', t)) text)))"

text \<open>The options after parsing, with \<open>args\<close> what is left of the command line.\<close>

definition graph_main ::
    "deps_env \<Rightarrow> (string \<Rightarrow> string \<Rightarrow> bool) \<Rightarrow> nat \<Rightarrow> string \<Rightarrow> string \<Rightarrow> deps_grapher \<Rightarrow> string list
       \<Rightarrow> (int \<times> (string \<times> string list \<times> string) option) option res" where
  "graph_main env re_search fuel script_path base options args =
     (let file = (if endswith (out_file options) (out_format options) then out_file options
                  else out_file options @ ''.'' @ out_format options) in
      bind_res (DepsBuilder env script_path base False (gr_ignore_temp_rules options) (gr_ignore_specific_rules options)) (\<lambda>b.
        if args \<noteq> [] then Inr (Some (1, None))
        else bind_res (DumpDependencies env re_search fuel (options\<lparr>gr_builder := b, gr_deps := [], out_file := file\<rparr>)) (\<lambda>r.
          Inr (map_option (\<lambda>f. (0, Some f)) r))))"

end
