(* ===== verification/Deps_Inheritance.thy ===== *)
theory Deps_Inheritance
  imports Deps_Graph
begin

text \<open>
  Which rules a node of the dependency graph ends up with: the loop over the sorted directories
  computes the recursive inheritance from the parent directory, and where that inheritance stops.
\<close>

section \<open>Parents come first\<close>

lemma rstrip_prefix: "\<exists>r. s = rstrip_chars cs s @ r"
  unfolding rstrip_chars_def
  by (metis append_take_drop_id dropWhile_eq_drop rev_append rev_rev_ident)

lemma dirname_prefix: "\<exists>r. p = dirname p @ r"
proof -
  have h: "p = path_head p @ basename p" by (simp add: head_basename)
  obtain r where "path_head p = rstrip_chars ''/'' (path_head p) @ r" using rstrip_prefix by blast
  with h have "p = rstrip_chars ''/'' (path_head p) @ (r @ basename p)" by (metis append_assoc)
  with h show ?thesis unfolding dirname_def Let_def by auto
qed

lemma append_le: "(s :: string) \<le> s @ r"
  by (induction s) auto

lemma dirname_le: "dirname p \<le> p"
  by (metis append_le dirname_prefix)

section \<open>The rules a node has of its own\<close>

lemma graph_rules_add_node [simp]: "graph_rules (add_node p graph) s = graph_rules graph s"
  by (auto simp: graph_rules_def add_node_def split: option.splits)

lemma graph_rules_add_nodes [simp]: "graph_rules (fold add_node ps graph) s = graph_rules graph s"
  by (induction ps arbitrary: graph) auto

lemma graph_rules_set [simp]: "graph_rules (dict_set p rs graph) s = (if s = p then rs else graph_rules graph s)"
  by (simp add: graph_rules_def)

lemma add_nodes_present:
  "p \<in> set ps \<or> dict_get graph p \<noteq> None \<Longrightarrow> dict_get (fold add_node ps graph) p \<noteq> None"
proof (induction ps arbitrary: graph)
  case (Cons q ps)
  then show ?case by (auto simp: add_node_def)
qed auto

lemma parent_chain_parent:
  assumes "parent_chain (dirname s) = Some ps" and "dirname s \<noteq> []"
  shows "dirname s \<noteq> s" and "dirname s \<in> set ps"
  using assms by (subst (asm) parent_chain.simps; fastforce split: if_splits)+

text \<open>What the first loop establishes.\<close>

definition graph_ok :: "deps_graph \<times> string list \<Rightarrow> bool" where
  "graph_ok st \<longleftrightarrow> distinct (snd st) \<and> (\<forall>s. s \<notin> set (snd st) \<longrightarrow> graph_rules (fst st) s = [])
     \<and> (\<forall>s \<in> set (snd st). dirname s \<noteq> [] \<longrightarrow> dirname s \<noteq> s \<and> dict_get (fst st) (dirname s) \<noteq> None)"

lemma graph_ok_add:
  assumes "graph_ok (graph, srcs)" and "parent_chain (dirname src) = Some ps"
  shows "graph_ok (fold add_node ps (add_edge src r graph), set_add src srcs)"
proof -
  let ?g = "fold add_node ps (add_edge src r graph)"
  have "dirname s \<noteq> s \<and> dict_get ?g (dirname s) \<noteq> None" if "s \<in> insert src (set srcs)" "dirname s \<noteq> []" for s
  proof (cases "s = src")
    case True
    with parent_chain_parent assms(2) that(2) show ?thesis by (simp add: add_nodes_present)
  next
    case False
    with that assms(1) have "dirname s \<noteq> s" "dict_get graph (dirname s) \<noteq> None" by (auto simp: graph_ok_def)
    then show ?thesis by (simp add: add_nodes_present add_edge_def)
  qed
  then show ?thesis using assms(1) by (auto simp: graph_ok_def add_edge_def)
qed

lemma init_graph_ok: "init_graph t deps st = Some st' \<Longrightarrow> graph_ok st \<Longrightarrow> graph_ok st'"
proof (induction t deps st rule: init_graph.induct)
  case (2 t kind src dst deps graph srcs)
  show ?case
  proof (cases "kind = TEMP_ALLOW \<and> t")
    case True
    with 2 show ?thesis by simp
  next
    case False
    with 2(3) obtain ps where ps: "parent_chain (dirname src) = Some ps" by (auto split: option.splits)
    from 2(2) [OF False ps] 2(3) False ps graph_ok_add [OF 2(4) ps] show ?thesis by simp
  qed
qed simp

section \<open>Inheritance\<close>

text \<open>
  A directory with rules has its own and those of its parent directory for other targets; a directory
  without rules of its own has none.
\<close>

function inherited :: "(string \<Rightarrow> (string \<times> char) list) \<Rightarrow> string list \<Rightarrow> string \<Rightarrow> (string \<times> char) list" where
  "inherited own srcs s =
     (if s \<notin> set srcs \<or> dirname s = [] \<or> dirname s = s then own s
      else fold inherit_rule (inherited own srcs (dirname s)) (own s))"
  by pat_completeness auto
termination by (relation "measure (\<lambda>(own, srcs, s). length s)") (auto simp: dirname_shorter)

declare inherited.simps [simp del]

lemma propagate_inherits:
  assumes "sorted xs" and "distinct xs" and "set xs \<subseteq> set srcs"
    and "\<forall>s \<in> set xs. dirname s \<noteq> [] \<longrightarrow> dirname s \<noteq> s \<and> dict_get graph (dirname s) \<noteq> None"
    and "\<forall>s. graph_rules graph s = (if s \<in> set xs then own s else inherited own srcs s)"
  shows "\<exists>final. propagate xs graph = Inr final \<and> (\<forall>s. graph_rules final s = inherited own srcs s)"
  using assms
proof (induction xs arbitrary: graph)
  case (Cons x xs)
  show ?case
  proof (cases "dirname x = []")
    case True
    then have "inherited own srcs x = own x" by (simp add: inherited.simps [of own srcs x])
    with Cons.prems have "\<forall>s. graph_rules graph s = (if s \<in> set xs then own s else inherited own srcs s)" by auto
    then have "\<exists>final. propagate xs graph = Inr final \<and> (\<forall>s. graph_rules final s = inherited own srcs s)"
      using Cons.prems(1-4) by (intro Cons.IH) auto
    with True show ?thesis by simp
  next
    case False
    with Cons.prems(4) have p: "dirname x \<noteq> x" "dict_get graph (dirname x) \<noteq> None" by auto
    have "dirname x \<notin> set (x # xs)"
      using p(1) dirname_le [of x] Cons.prems(1) by (auto dest: antisym)
    with Cons.prems(5) have "graph_rules graph (dirname x) = inherited own srcs (dirname x)" by metis
    with p(2) have parent: "dict_get graph (dirname x) = Some (inherited own srcs (dirname x))"
      by (auto simp: graph_rules_def)
    have own: "graph_rules graph x = own x" using Cons.prems(5) by simp
    have x: "inherited own srcs x = fold inherit_rule (inherited own srcs (dirname x)) (own x)"
      using Cons.prems(3) False p(1) by (simp add: inherited.simps [of own srcs x])
    let ?g = "dict_set x (inherited own srcs x) graph"
    have "\<exists>final. propagate xs ?g = Inr final \<and> (\<forall>s. graph_rules final s = inherited own srcs s)"
      using Cons.prems by (intro Cons.IH) auto
    then show ?thesis using False parent by (simp add: own x)
  qed
qed simp

lemma propagate_total:
  assumes "init_graph t deps ([], []) = Some (graph, srcs)"
  shows "\<exists>final. propagate (sort srcs) graph = Inr final
    \<and> (\<forall>s. graph_rules final s = inherited (graph_rules graph) srcs s)"
proof -
  have ok: "graph_ok (graph, srcs)"
    using init_graph_ok [OF assms] by (simp add: graph_ok_def graph_rules_def)
  have "inherited (graph_rules graph) srcs s = graph_rules graph s" if "s \<notin> set srcs" for s
    using that by (simp add: inherited.simps [of _ srcs s])
  then show ?thesis using ok by (intro propagate_inherits) (auto simp: graph_ok_def)
qed











text \<open>
  Rules are not passed on across a directory without rules: a node whose parent directory has no
  rule of its own keeps only its own rules, whatever the directories further up say.
\<close>

theorem graph_gap_stops_inheritance:
  assumes "init_graph ignore_temp deps ([], []) = Some (graph, deps_srcs)" and "dirname src \<notin> set deps_srcs"
  shows "\<exists>final. propagate (sort deps_srcs) graph = Inr final \<and> graph_rules final src = graph_rules graph src"
proof -
  obtain final where f: "propagate (sort deps_srcs) graph = Inr final"
    "\<forall>src. graph_rules final src = inherited (graph_rules graph) deps_srcs src"
    using propagate_total [OF assms(1)] by blast
  have "graph_ok (graph, deps_srcs)"
    using init_graph_ok [OF assms(1)] by (simp add: graph_ok_def graph_rules_def)
  then have "inherited (graph_rules graph) deps_srcs (dirname src) = []"
    using assms(2) by (simp add: inherited.simps [of _ _ "dirname src"] graph_ok_def)
  then have "inherited (graph_rules graph) deps_srcs src = graph_rules graph src"
    by (simp add: inherited.simps [of _ _ src])
  with f show ?thesis by simp
qed

theorem graph_gap_stops_inheritance_witness:
  "\<exists>final. propagate (sort [''a'', ''a/b/c'']) [(''a'', [(''x'', DISALLOW)]), (''a/b/c'', [(''y'', ALLOW)]), (''a/b'', [])] = Inr final
    \<and> graph_rules final ''a/b/c'' = graph_rules [(''a'', [(''x'', DISALLOW)]), (''a/b/c'', [(''y'', ALLOW)]), (''a/b'', [])] ''a/b/c''"
  by (rule graph_gap_stops_inheritance [where ignore_temp = True and deps = "[(DISALLOW, ''a'', ''x''), (ALLOW, ''a/b/c'', ''y'')]"])
    code_simp+

end
