(* ===== verification/Py_Format.thy ===== *)
theory Py_Format
  imports Py_Strings
begin

text \<open>
  The operator \<^verbatim>\<open>%\<close> on byte strings, for the two right operands the generators use: the empty tuple
  and a dictionary of strings. A format item has an optional key in parentheses, flags, a width, a
  precision, a length modifier and a conversion character.
\<close>

text \<open>The argument an item without a key would take: the dictionary itself (as text) or a string.\<close>

datatype fmt_arg = DictVal string | StrVal string

record fmt_state =
  fmt_dict :: "(string \<times> string) list option"
  fmt_next :: "fmt_arg option"

definition empty_tuple :: fmt_state where
  "empty_tuple = \<lparr>fmt_dict = None, fmt_next = None\<rparr>"

text \<open>\<open>shown\<close> is the text of the dictionary.\<close>

definition dict_arg :: "(string \<times> string) list \<Rightarrow> string \<Rightarrow> fmt_state" where
  "dict_arg d shown = \<lparr>fmt_dict = Some d, fmt_next = Some (DictVal shown)\<rparr>"

fun paren_key :: "nat \<Rightarrow> string \<Rightarrow> string \<Rightarrow> (string \<times> string) option" where
  "paren_key depth acc [] = None"
| "paren_key depth acc (c # s) =
     (if c = CHR '')'' then if depth = 0 then Some (rev acc, s) else paren_key (depth - 1) (c # acc) s
      else if c = CHR ''('' then paren_key (depth + 1) (c # acc) s
      else paren_key depth (c # acc) s)"

definition fmt_key :: "fmt_state \<Rightarrow> string \<Rightarrow> (fmt_state \<times> string) res" where
  "fmt_key st s =
     (if \<not> startswith s ''('' then Inr (st, s)
      else case fmt_dict st of
        None \<Rightarrow> Inl TypeError
      | Some d \<Rightarrow>
          (case paren_key 0 [] (tl s) of
             None \<Rightarrow> Inl ValueError
           | Some (key, rest) \<Rightarrow>
               (case dict_get d key of
                  None \<Rightarrow> Inl KeyError
                | Some v \<Rightarrow> Inr (st\<lparr>fmt_next := Some (StrVal v)\<rparr>, rest))))"

text \<open>A number or a star; a star needs an integer, which there is none.\<close>

definition fmt_number :: "string \<Rightarrow> (nat \<times> string) res" where
  "fmt_number s =
     (if startswith s ''*'' then Inl TypeError
      else Inr (nat_of_digits (takeWhile is_digit s), dropWhile is_digit s))"

definition fmt_precision :: "string \<Rightarrow> (nat option \<times> string) res" where
  "fmt_precision s =
     (if startswith s ''.'' then bind_res (fmt_number (tl s)) (\<lambda>(n, rest). Inr (Some n, rest))
      else Inr (None, s))"

text \<open>The text of an argument under a conversion.\<close>

definition fmt_text :: "char \<Rightarrow> nat option \<Rightarrow> fmt_arg option \<Rightarrow> string res" where
  "fmt_text conv prec arg =
     (let cut = (case prec of None \<Rightarrow> (\<lambda>t. t) | Some n \<Rightarrow> take n) in
      if conv = CHR ''%'' then Inr ''%''
      else case arg of
        None \<Rightarrow> Inl TypeError
      | Some a \<Rightarrow>
          if conv = CHR ''s'' then Inr (cut (case a of DictVal t \<Rightarrow> t | StrVal t \<Rightarrow> t))
          else if conv = CHR ''r'' then Inr (cut (case a of DictVal t \<Rightarrow> t | StrVal t \<Rightarrow> py_repr t))
          else if conv = CHR ''c'' then (case a of StrVal [c] \<Rightarrow> Inr [c] | _ \<Rightarrow> Inl TypeError)
          else if conv \<in> set ''diouxXeEfFgG'' then Inl TypeError
          else Inl ValueError)"

text \<open>One item, after its percent sign: the text, what is left to take, and the rest of the format.\<close>

definition fmt_item :: "fmt_state \<Rightarrow> string \<Rightarrow> (string \<times> fmt_state \<times> string) res" where
  "fmt_item st s =
     bind_res (fmt_key st s) (\<lambda>(st, s).
     let flags = takeWhile (\<lambda>c. c \<in> set ''-+ #0'') s; s = dropWhile (\<lambda>c. c \<in> set ''-+ #0'') s in
     bind_res (fmt_number s) (\<lambda>(width, s).
     bind_res (fmt_precision s) (\<lambda>(prec, s).
     let s = (if s \<noteq> [] \<and> hd s \<in> set ''hlL'' then tl s else s) in
     if s = [] then Inl ValueError
     else bind_res (fmt_text (hd s) prec (fmt_next st)) (\<lambda>t.
       let pad = replicate (width - length t) (CHR '' '') in
       Inr (if CHR ''-'' \<in> set flags then t @ pad else pad @ t,
            if hd s = CHR ''%'' then st else st\<lparr>fmt_next := None\<rparr>, tl s)))))"

lemma paren_key_shorter: "paren_key n acc s = Some (k, r) \<Longrightarrow> length r \<le> length s"
  by (induction n acc s rule: paren_key.induct) (auto split: if_splits)

lemma fmt_number_shorter: "fmt_number s = Inr (n, r) \<Longrightarrow> length r \<le> length s"
  by (auto simp: fmt_number_def length_dropWhile_le split: if_splits)

lemma fmt_precision_shorter: "fmt_precision s = Inr (n, r) \<Longrightarrow> length r \<le> length s"
  by (cases s) (auto simp: fmt_precision_def bind_res_Inr_iff split: if_splits dest!: fmt_number_shorter)

lemma fmt_key_shorter: "fmt_key st s = Inr (st', r) \<Longrightarrow> length r \<le> length s"
  by (cases s) (auto simp: fmt_key_def split: if_splits option.splits dest!: paren_key_shorter)

lemma fmt_item_shorter:
  assumes "fmt_item st s = Inr (t, st', r)"
  shows "length r \<le> length s"
proof -
  from assms obtain st1 s1 w s2 p s3 where *: "fmt_key st s = Inr (st1, s1)"
      "fmt_number (dropWhile (\<lambda>c. c \<in> set ''-+ #0'') s1) = Inr (w, s2)" "fmt_precision s2 = Inr (p, s3)"
      "length r \<le> length s3"
    unfolding fmt_item_def Let_def by (auto elim!: bind_res_InrE split: if_splits)
  with fmt_key_shorter [OF *(1)] fmt_number_shorter [OF *(2)] fmt_precision_shorter [OF *(3)]
    length_dropWhile_le [of _ s1] show ?thesis by (meson le_trans)
qed

function py_format :: "fmt_state \<Rightarrow> string \<Rightarrow> string res" where
  "py_format st [] = Inr []"
| "py_format st (c # s) =
     (if c \<noteq> CHR ''%'' then bind_res (py_format st s) (\<lambda>t. Inr (c # t))
      else bind_res (fmt_item st s) (\<lambda>(t, st', rest). bind_res (py_format st' rest) (\<lambda>u. Inr (t @ u))))"
  by pat_completeness auto
termination
  by (relation "measure (\<lambda>(st, s). length s)") (auto dest!: fmt_item_shorter)

text \<open>Text whose percent signs are doubled is text that stands for itself.\<close>

lemma fmt_item_percent: "fmt_item st (CHR ''%'' # s) = Inr (''%'', st, s)"
  by (simp add: fmt_item_def fmt_key_def startswith_def fmt_number_def fmt_precision_def fmt_text_def
      is_digit_def nat_of_digits_def Let_def)

lemma py_format_escaped: "py_format st (concat (map (\<lambda>c. if c = CHR ''%'' then ''%%'' else [c]) s)) = Inr s"
  by (induction s) (auto simp: fmt_item_percent)

text \<open>
  A single string as the right operand. What is left over at the end is an error.
\<close>

function format_str :: "fmt_state \<Rightarrow> string \<Rightarrow> string res" where
  "format_str st [] = (if fmt_next st = None then Inr [] else Inl TypeError)"
| "format_str st (c # s) =
     (if c \<noteq> CHR ''%'' then bind_res (format_str st s) (\<lambda>t. Inr (c # t))
      else bind_res (fmt_item st s) (\<lambda>(t, st', rest). bind_res (format_str st' rest) (\<lambda>u. Inr (t @ u))))"
  by pat_completeness auto
termination
  by (relation "measure (\<lambda>(st, s). length s)") (auto dest!: fmt_item_shorter)

definition str_arg :: "string \<Rightarrow> fmt_state" where
  "str_arg s = \<lparr>fmt_dict = None, fmt_next = Some (StrVal s)\<rparr>"

lemma format_str_unused: "CHR ''%'' \<notin> set fmt \<Longrightarrow> format_str (str_arg s) fmt = Inl TypeError"
  by (induction fmt) (auto simp: str_arg_def)

end
