(* ===== verification/Schema_Code.thy ===== *)
theory Schema_Code
  imports Py_Format Py_Paths
begin

text \<open>
  \<^verbatim>\<open>tools/json_schema_compiler/code.py\<close>: blocks of generated code. A method returns the changed
  block; \<open>Concat\<close> also changes the block it is given.
\<close>

section \<open>Lines and blocks\<close>

record code_line =
  line_value :: string
  substitute :: bool

record code_block =
  code_lines :: "code_line list"
  indent_size :: nat
  comment_length :: int
  line_prefixes :: "string list"

definition Line :: "string \<Rightarrow> bool \<Rightarrow> code_line" where
  "Line value subst = \<lparr>line_value = value, substitute = subst\<rparr>"

definition Code :: code_block where
  "Code = \<lparr>code_lines = [], indent_size = 2, comment_length = 80, line_prefixes = []\<rparr>"

abbreviation block_prefix :: "code_block \<Rightarrow> string" where
  "block_prefix c \<equiv> concat (line_prefixes c)"

definition Append :: "string \<Rightarrow> bool \<Rightarrow> nat option \<Rightarrow> bool \<Rightarrow> bool \<Rightarrow> code_block \<Rightarrow> code_block" where
  "Append line subst indent_level new_line strip_right self =
     (let prefix =
        (if line = [] then []
         else case indent_level of
           Some (Suc n) \<Rightarrow> replicate (Suc n) (CHR '' '')
         | _ \<Rightarrow> block_prefix self);
          line = (if strip_right then str_rstrip line else line);
          ls = code_lines self
      in if \<not> new_line \<and> ls \<noteq> []
         then self\<lparr>code_lines := butlast ls @ [(last ls)\<lparr>line_value := line_value (last ls) @ line\<rparr>]\<rparr>
         else self\<lparr>code_lines := ls @ [Line (prefix @ line) subst]\<rparr>)"

text \<open>A line with the other arguments at their defaults.\<close>

abbreviation append_line :: "string \<Rightarrow> code_block \<Rightarrow> code_block" where
  "append_line line \<equiv> Append line True None True True"

definition IsEmpty :: "code_block \<Rightarrow> bool" where
  "IsEmpty self \<longleftrightarrow> code_lines self = []"

text \<open>The loop of \<open>Concat\<close> over the lines of the other block.\<close>

definition interpolate_line :: "code_line \<Rightarrow> code_line res" where
  "interpolate_line l =
     (if substitute l then bind_res (py_format empty_tuple (line_value l)) (\<lambda>v. Inr (l\<lparr>line_value := v\<rparr>)) else Inr l)"

definition Concat :: "code_block \<Rightarrow> bool \<Rightarrow> code_block \<Rightarrow> (code_block \<times> code_block) res" where
  "Concat obj new_line self =
     (if code_lines obj = [] then Inr (self, obj)
      else bind_res (map_res interpolate_line (code_lines obj)) (\<lambda>ls.
        let first_line = hd ls; rest = tl ls;
            self = Append (line_value first_line) (substitute first_line) None new_line True self
        in Inr (fold (\<lambda>l. Append (line_value l) (substitute l) None True True) rest self,
                obj\<lparr>code_lines := rest\<rparr>)))"

definition Cblock :: "code_block \<Rightarrow> code_block \<Rightarrow> (code_block \<times> code_block) res" where
  "Cblock code self =
     (if IsEmpty code then Inr (self, code)
      else bind_res (Concat code True self) (\<lambda>(self, code). Inr (append_line [] self, code)))"

definition Sblock :: "string option \<Rightarrow> string option \<Rightarrow> bool \<Rightarrow> code_block \<Rightarrow> code_block" where
  "Sblock line line_prefix new_line self =
     (let self = (case line of None \<Rightarrow> self | Some l \<Rightarrow> Append l True None new_line True self);
          prefix = (case line_prefix of Some (c # cs) \<Rightarrow> c # cs | _ \<Rightarrow> replicate (indent_size self) (CHR '' ''))
      in self\<lparr>line_prefixes := line_prefixes self @ [prefix]\<rparr>)"

definition Eblock :: "string option \<Rightarrow> code_block \<Rightarrow> code_block res" where
  "Eblock line self =
     (if line_prefixes self = [] then Inl IndexError
      else let self = self\<lparr>line_prefixes := butlast (line_prefixes self)\<rparr>
           in Inr (case line of None \<Rightarrow> self | Some l \<Rightarrow> append_line l self))"

section \<open>Comments\<close>

text \<open>\<^verbatim>\<open>s[0:n]\<close> and \<^verbatim>\<open>s[n:]\<close>, where a negative index counts from the end.\<close>

definition slice_index :: "string \<Rightarrow> int \<Rightarrow> nat" where
  "slice_index s n = (if n < 0 then nat (int (length s) + n) else nat n)"

text \<open>\<^verbatim>\<open>s.rfind(' ', 0, n)\<close>.\<close>

fun rfind_space :: "string \<Rightarrow> nat option" where
  "rfind_space [] = None"
| "rfind_space (c # s) =
     (case rfind_space s of Some i \<Rightarrow> Some (Suc i) | None \<Rightarrow> if c = CHR '' '' then Some 0 else None)"

definition trim_comment :: "string \<Rightarrow> int \<Rightarrow> string \<times> string" where
  "trim_comment comment max_len =
     (if int (length comment) \<le> max_len then (comment, [])
      else case rfind_space (take (slice_index comment (max_len + 1)) comment) of
        Some last_space \<Rightarrow> (take last_space comment, dropWhile str_space (drop (last_space + 1) comment))
      | None \<Rightarrow> (take (slice_index comment max_len) comment,
                 dropWhile str_space (drop (slice_index comment max_len) comment)))"

text \<open>
  The loop over the rest of a comment. \<open>None\<close> when it does not end: what is left of a comment is never
  longer than the comment, and when it is as long it is the same.
\<close>

function comment_loop :: "string \<Rightarrow> nat \<Rightarrow> int \<Rightarrow> string \<Rightarrow> code_block \<Rightarrow> code_block option" where
  "comment_loop comment_prefix wrap_indent max_len comment self =
     (if comment = [] then Some self
      else let (line, rest) = trim_comment comment max_len in
        if length rest < length comment
        then comment_loop comment_prefix wrap_indent max_len rest
               (Append (comment_prefix @ replicate wrap_indent (CHR '' '') @ line) False None True True self)
        else None)"
  by pat_completeness auto
termination by (relation "measure (\<lambda>(_, _, _, comment, _). length comment)") auto

declare comment_loop.simps [simp del]

lemma trim_comment_rest: "length (snd (trim_comment comment max_len)) \<le> length comment"
  by (auto simp: trim_comment_def split: option.split intro: le_trans [OF length_dropWhile_le])

lemma trim_comment_stays:
  "length (snd (trim_comment comment max_len)) = length comment \<Longrightarrow> snd (trim_comment comment max_len) = comment"
proof -
  have keep: "length (dropWhile P (drop n s)) = length s \<Longrightarrow> dropWhile P (drop n s) = s" for P n and s :: string
  proof -
    assume l: "length (dropWhile P (drop n s)) = length s"
    have "length (drop n s) = length s" using length_dropWhile_le [of P "drop n s"] l by simp
    then have "drop n s = s" by (metis drop_all drop0 length_drop list.size(3) diff_zero diff_diff_cancel diff_le_self drop_eq_Nil le_cases length_0_conv)
    with l show ?thesis by (metis dropWhile_eq_drop length_drop drop0 diff_diff_cancel length_takeWhile_le diff_self_eq_0)
  qed
  assume "length (snd (trim_comment comment max_len)) = length comment"
  then show ?thesis by (auto simp: trim_comment_def split: if_splits option.splits intro: keep)
qed

definition Comment :: "string \<Rightarrow> string \<Rightarrow> nat \<Rightarrow> bool \<Rightarrow> code_block \<Rightarrow> code_block option" where
  "Comment comment comment_prefix wrap_indent new_line self =
     (let max_len =
        (if \<not> new_line \<and> code_lines self \<noteq> []
         then comment_length self - int (length (line_value (last (code_lines self))))
         else comment_length self - int (length (block_prefix self)) - int (length comment_prefix));
          (line, rest) = trim_comment comment max_len;
          self = Append (comment_prefix @ line) False None new_line True self
      in comment_loop comment_prefix wrap_indent
           (comment_length self - int (length (block_prefix self)) - int (length comment_prefix) - int wrap_indent)
           rest self)"

section \<open>Substitution and output\<close>

text \<open>\<open>shown\<close> is the text of the dictionary.\<close>

definition substitute_line :: "(string \<times> string) list \<Rightarrow> string \<Rightarrow> code_line \<Rightarrow> code_line res" where
  "substitute_line d shown l =
     (if \<not> substitute l then Inr l
      else if str_contains ''%s'' (line_value l) \<or> str_contains ''%r'' (line_value l) then Inl TypeError
      else bind_res (py_format (dict_arg d shown) (line_value l)) (\<lambda>v. Inr \<lparr>line_value = v, substitute = False\<rparr>))"

definition Substitute :: "(string \<times> string) list \<Rightarrow> string \<Rightarrow> code_block \<Rightarrow> code_block res" where
  "Substitute d shown self =
     bind_res (map_res (substitute_line d shown) (code_lines self)) (\<lambda>ls. Inr (self\<lparr>code_lines := ls\<rparr>))"

definition TrimTrailingNewlines :: "code_block \<Rightarrow> code_block" where
  "TrimTrailingNewlines self =
     self\<lparr>code_lines := rev (dropWhile (\<lambda>l. line_value l = []) (rev (code_lines self)))\<rparr>"

definition Render :: "code_block \<Rightarrow> string" where
  "Render self = str_join [CHR 0x0A] (map line_value (code_lines self))"

end
