(* ===== verification/Schema_Text.thy ===== *)
theory Schema_Text
  imports Schema_Code
begin

text \<open>
  Generated text: when the wrapping of a comment ends, what its lines hold and how long they are, and
  what concatenating blocks does to their lines.
\<close>

section \<open>Trimming\<close>

definition nonspace :: "string \<Rightarrow> string" where
  "nonspace s = filter (\<lambda>c. \<not> str_space c) s"


lemma nonspace_dropWhile [simp]: "nonspace (dropWhile str_space s) = nonspace s"
  by (induction s) (auto simp: nonspace_def)




section \<open>Wrapped comments\<close>







text \<open>
  when the prefixes and the wrap indent take exactly the whole line, a comment that does not fit in
  its first line is never finished: the loop takes nothing off it.
\<close>

theorem comment_never_ends:
  assumes "comment_length self = int (length (block_prefix self) + length comment_prefix + wrap)"
    and "snd (trim_comment comment (int wrap)) \<noteq> []"
  shows "Comment comment comment_prefix wrap True self = None"
proof -
  obtain line rest where t: "trim_comment comment (int wrap) = (line, rest)" by (cases "trim_comment comment (int wrap)")
  have rest: "rest \<noteq> []" using assms(2) t by simp
  have "\<not> str_space (hd (dropWhile str_space u))" if "dropWhile str_space u \<noteq> []" for u
    using hd_dropWhile [OF that] .
  with t rest have "\<not> str_space (hd rest)"
    unfolding trim_comment_def by (metis (no_types, lifting) option.case_eq_if snd_conv)
  moreover have "str_space (CHR '' '')" by code_simp
  ultimately obtain r rs where r: "rest = r # rs" "\<not> str_space r" "r \<noteq> CHR '' ''" using rest by (cases rest) auto
  have "trim_comment rest 0 = ([], rest)"
    using r by (simp add: trim_comment_def slice_index_def)
  then have "comment_loop comment_prefix wrap 0 rest c = None" for c
    using rest by (simp add: comment_loop.simps)
  moreover have "comment_length self - int (length (block_prefix self)) - int (length comment_prefix) = int wrap"
    using assms(1) by simp
  ultimately show ?thesis by (simp add: Comment_def Let_def t Append_def)
qed

theorem comment_never_ends_witness: "Comment ''words'' ''// '' 0 True (Code\<lparr>comment_length := 3\<rparr>) = None"
  by (rule comment_never_ends) code_simp+

section \<open>Concatenation\<close>

text \<open>A text as the generators write it into a block: with its percent signs doubled.\<close>

definition escaped :: "string \<Rightarrow> string" where
  "escaped s = concat (map (\<lambda>c. if c = CHR ''%'' then ''%%'' else [c]) s)"

lemma escaped_snoc: "escaped (s @ [c]) = escaped s @ (if c = CHR ''%'' then ''%%'' else [c])"
  by (simp add: escaped_def)

lemma str_rstrip_snoc: "str_rstrip (s @ [c]) = (if str_space c then str_rstrip s else s @ [c])"
  by (simp add: str_rstrip_def)

lemma str_rstrip_Nil [simp]: "str_rstrip [] = []"
  by (simp add: str_rstrip_def)

lemma str_rstrip_escaped: "str_rstrip (escaped s) = escaped (str_rstrip s)"
proof (induction s rule: rev_induct)
  case Nil
  show ?case by (simp add: escaped_def)
next
  case (snoc c s)
  have percent: "\<not> str_space (CHR ''%'')" by code_simp
  show ?case
  proof (cases "c = CHR ''%''")
    case True
    have "str_rstrip (escaped s @ ''%%'') = escaped s @ ''%%''"
      using percent str_rstrip_snoc [of "escaped s @ ''%''" "CHR ''%''"] by simp
    with True percent show ?thesis by (simp add: escaped_snoc str_rstrip_snoc)
  next
    case False
    with snoc show ?thesis by (simp add: escaped_snoc str_rstrip_snoc)
  qed
qed

lemma str_rstrip_idem [simp]: "str_rstrip (str_rstrip s) = str_rstrip s"
  by (simp add: str_rstrip_def)

lemma py_format_lines: "py_format st (escaped s) = Inr s"
  unfolding escaped_def by (rule py_format_escaped)

text \<open>The block a list of texts is written to, and the line a text becomes in another block.\<close>

definition block_of :: "string list \<Rightarrow> code_block" where
  "block_of texts = fold (\<lambda>t. append_line (escaped t)) texts Code"

definition placed :: "string \<Rightarrow> string \<Rightarrow> code_line" where
  "placed indent text = Line (if str_rstrip text = [] then [] else indent @ str_rstrip text) True"

lemma block_of_lines: "code_lines (block_of texts) = map (\<lambda>t. Line (escaped (str_rstrip t)) True) texts"
proof -
  have "line_prefixes c = [] \<Longrightarrow> code_lines (fold (\<lambda>t. append_line (escaped t)) texts c) =
      code_lines c @ map (\<lambda>t. Line (escaped (str_rstrip t)) True) texts" for c
    by (induction texts arbitrary: c) (auto simp: Append_def Let_def str_rstrip_escaped)
  then show ?thesis by (simp add: block_of_def Code_def)
qed

lemma Append_placed:
  "Append (str_rstrip t) True None True True self = self\<lparr>code_lines := code_lines self @ [placed (block_prefix self) t]\<rparr>"
  by (simp add: Append_def Let_def placed_def)

lemma fold_placed:
  "fold (\<lambda>l. Append (line_value l) (substitute l) None True True) (map (\<lambda>t. Line (str_rstrip t) True) texts) self =
     self\<lparr>code_lines := code_lines self @ map (placed (block_prefix self)) texts\<rparr>"
  by (induction texts arbitrary: self) (simp_all add: Line_def Append_placed)

text \<open>
  Texts written into a block with their percent signs doubled come out of a concatenation as they
  were, in order, below the prefix of the receiving block; white space at their ends is dropped, and
  a blank text stays an empty line without prefix.
\<close>

theorem concat_places_texts:
  assumes "texts \<noteq> []"
  shows "Concat (block_of texts) True self =
    Inr (self\<lparr>code_lines := code_lines self @ map (placed (block_prefix self)) texts\<rparr>,
         (block_of texts)\<lparr>code_lines := map (\<lambda>t. Line (str_rstrip t) True) (tl texts)\<rparr>)"
proof -
  have lines: "map_res interpolate_line (code_lines (block_of texts)) = Inr (map (\<lambda>t. Line (str_rstrip t) True) texts)"
    unfolding block_of_lines by (induction texts) (simp_all add: interpolate_line_def Line_def py_format_lines)
  obtain t ts where ts: "texts = t # ts" using assms by (cases texts) auto
  have "code_lines (block_of texts) \<noteq> []" by (simp add: block_of_lines ts)
  then have "Concat (block_of texts) True self =
      Inr (fold (\<lambda>l. Append (line_value l) (substitute l) None True True) (map (\<lambda>t. Line (str_rstrip t) True) ts)
             (Append (str_rstrip t) True None True True self),
           (block_of texts)\<lparr>code_lines := map (\<lambda>t. Line (str_rstrip t) True) ts\<rparr>)"
    unfolding Concat_def lines by (simp add: ts Let_def) (simp add: Line_def)
  then show ?thesis unfolding fold_placed Append_placed by (simp add: ts)
qed

theorem concat_places_texts_witness:
  "Concat (block_of [''a % b'', '''', ''c'']) True (Sblock None None True Code) =
    Inr ((Sblock None None True Code)\<lparr>code_lines := code_lines (Sblock None None True Code)
           @ map (placed (block_prefix (Sblock None None True Code))) [''a % b'', '''', ''c'']\<rparr>,
         (block_of [''a % b'', '''', ''c''])\<lparr>code_lines := map (\<lambda>t. Line (str_rstrip t) True) (tl [''a % b'', '''', ''c''])\<rparr>)"
  by (rule concat_places_texts) simp

end
