(* ===== verification/Schema_Names.thy ===== *)
theory Schema_Names
  imports Schema_Code
begin

text \<open>
  Names in the JSON schema compiler (\<^verbatim>\<open>tools/json_schema_compiler\<close>): \<^verbatim>\<open>memoize.py\<close>,
  \<^verbatim>\<open>schema_util.py\<close>, \<^verbatim>\<open>cpp_util.py\<close> and the names and enumerations of \<^verbatim>\<open>model.py\<close>.
\<close>

section \<open>Letters\<close>

definition upper_case :: "char \<Rightarrow> bool" where
  "upper_case c \<longleftrightarrow> (of_char c :: nat) \<in> {65..90}"

definition lower_case :: "char \<Rightarrow> bool" where
  "lower_case c \<longleftrightarrow> (of_char c :: nat) \<in> {97..122}"

definition to_lower :: "char \<Rightarrow> char" where
  "to_lower c = (if upper_case c then char_of (of_char c + 32 :: nat) else c)"

definition to_upper :: "char \<Rightarrow> char" where
  "to_upper c = (if lower_case c then char_of (of_char c - 32 :: nat) else c)"

text \<open>\<^verbatim>\<open>s.capitalize()\<close>.\<close>

definition capitalize :: "string \<Rightarrow> string" where
  "capitalize s = (case s of [] \<Rightarrow> [] | c # cs \<Rightarrow> to_upper c # map to_lower cs)"

text \<open>\<^verbatim>\<open>s[0].upper() + s[1:]\<close>; an empty string has no first letter.\<close>

definition upper_first :: "string \<Rightarrow> string res" where
  "upper_first s = (case s of [] \<Rightarrow> Inl IndexError | c # cs \<Rightarrow> Inr (to_upper c # cs))"

section \<open>Memoized functions\<close>

text \<open>A call of the decorated function, on the dictionary of known results.\<close>

definition memo_call :: "('a \<Rightarrow> 'b) \<Rightarrow> 'a \<Rightarrow> ('a \<times> 'b) list \<Rightarrow> 'b option \<times> ('a \<times> 'b) list" where
  "memo_call fn full_args memory =
     (let memory = (if dict_get memory full_args = None then dict_set full_args (fn full_args) memory else memory)
      in (dict_get memory full_args, memory))"

section \<open>Names of the model\<close>

text \<open>The loop over the characters of a name, with the character before the current one.\<close>

fun unix_chars :: "char option \<Rightarrow> string \<Rightarrow> string" where
  "unix_chars prev [] = []"
| "unix_chars prev (c # s) =
     (case prev of
        None \<Rightarrow> []
      | Some p \<Rightarrow> if upper_case c \<and> p \<noteq> CHR ''_'' \<and> (lower_case p \<or> (s \<noteq> [] \<and> lower_case (hd s))) then ''_'' else [])
     @ (if c = CHR ''.'' then ''_'' else [to_lower c]) @ unix_chars (Some c) s"

definition UnixName :: "string \<Rightarrow> string" where
  "UnixName name = unix_chars None name"

definition CamelName :: "string \<Rightarrow> string" where
  "CamelName snake =
     (case split_char (CHR ''_'') snake of [] \<Rightarrow> [] | piece # pieces \<Rightarrow> piece @ concat (map capitalize pieces))"

definition model_StripNamespace :: "string \<Rightarrow> string \<Rightarrow> string" where
  "model_StripNamespace name namespace =
     (if startswith name (namespace @ ''.'') then drop (length (namespace @ ''.'')) name else name)"

datatype property_type =
    ANY | ARRAY | BINARY | BOOLEAN | CHOICES | DOUBLE | ENUM | FUNCTION | INT64 | INTEGER | OBJECT | REF | STRING

definition is_fundamental :: "property_type \<Rightarrow> bool" where
  "is_fundamental t \<longleftrightarrow> t \<in> {BOOLEAN, DOUBLE, INT64, INTEGER, STRING}"

fun property_type_name :: "property_type \<Rightarrow> string" where
  "property_type_name ANY = ''any''"
| "property_type_name ARRAY = ''array''"
| "property_type_name BINARY = ''binary''"
| "property_type_name BOOLEAN = ''boolean''"
| "property_type_name CHOICES = ''choices''"
| "property_type_name DOUBLE = ''double''"
| "property_type_name ENUM = ''enum''"
| "property_type_name FUNCTION = ''function''"
| "property_type_name INT64 = ''int64''"
| "property_type_name INTEGER = ''integer''"
| "property_type_name OBJECT = ''object''"
| "property_type_name REF = ''ref''"
| "property_type_name STRING = ''string''"

section \<open>Schema utilities\<close>

definition CapitalizeFirstLetter :: "string \<Rightarrow> string res" where
  "CapitalizeFirstLetter value = upper_first value"

definition SplitNamespace :: "string \<Rightarrow> string option \<times> string" where
  "SplitNamespace ref =
     (let ws = split_char (CHR ''.'') ref in
      if CHR ''.'' \<in> set ref then (Some (str_join ''.'' (butlast ws)), last ws) else (None, ref))"

definition GetNamespace :: "string \<Rightarrow> string option" where
  "GetNamespace ref = fst (SplitNamespace ref)"

definition StripNamespace :: "string \<Rightarrow> string" where
  "StripNamespace ref = snd (SplitNamespace ref)"

definition JsFunctionNameToClassName :: "string \<Rightarrow> string \<Rightarrow> string res" where
  "JsFunctionNameToClassName namespace_name function_name =
     bind_res (map_res CapitalizeFirstLetter (split_char (CHR ''.'') (namespace_name @ ''.'' @ function_name)))
       (\<lambda>parts. Inr (concat (if hd parts = ''Experimental'' then tl parts else parts)))"

section \<open>C++ utilities\<close>

definition word_char :: "char \<Rightarrow> bool" where
  "word_char c \<longleftrightarrow> is_alpha c \<or> is_digit c \<or> c = CHR ''_''"

text \<open>\<^verbatim>\<open>re.split('\W', s)\<close>.\<close>

definition split_words :: "string \<Rightarrow> string list" where
  "split_words s = split_char (CHR '' '') (map (\<lambda>c. if word_char c then c else CHR '' '') s)"

definition Classname :: "string \<Rightarrow> string res" where
  "Classname s =
     (if s = [] then Inr ''EMPTY_STRING''
      else bind_res (map_res upper_first (split_words s)) (\<lambda>ws. Inr (str_join ''_'' ws)))"

definition GetAsFundamentalValue :: "property_type \<Rightarrow> string \<Rightarrow> string \<Rightarrow> string res" where
  "GetAsFundamentalValue t src dst =
     (let get = (\<lambda>m. Inr (src @ ''->'' @ m @ ''('' @ dst @ '')'')) in
      case t of BOOLEAN \<Rightarrow> get ''GetAsBoolean'' | DOUBLE \<Rightarrow> get ''GetAsDouble''
      | INTEGER \<Rightarrow> get ''GetAsInteger'' | STRING \<Rightarrow> get ''GetAsString'' | _ \<Rightarrow> Inl KeyError)"

definition GetValueType :: "property_type \<Rightarrow> string res" where
  "GetValueType t =
     (case t of ARRAY \<Rightarrow> Inr ''base::Value::TYPE_LIST'' | BINARY \<Rightarrow> Inr ''base::Value::TYPE_BINARY''
      | BOOLEAN \<Rightarrow> Inr ''base::Value::TYPE_BOOLEAN'' | DOUBLE \<Rightarrow> Inr ''base::Value::TYPE_DOUBLE''
      | ENUM \<Rightarrow> Inr ''base::Value::TYPE_STRING'' | FUNCTION \<Rightarrow> Inr ''base::Value::TYPE_DICTIONARY''
      | INTEGER \<Rightarrow> Inr ''base::Value::TYPE_INTEGER'' | OBJECT \<Rightarrow> Inr ''base::Value::TYPE_DICTIONARY''
      | STRING \<Rightarrow> Inr ''base::Value::TYPE_STRING'' | _ \<Rightarrow> Inl KeyError)"

definition GetParameterDeclaration :: "property_type \<Rightarrow> string \<Rightarrow> string \<Rightarrow> string" where
  "GetParameterDeclaration t unix_name cpp_type =
     (if t \<in> {ANY, ARRAY, BINARY, CHOICES, OBJECT, REF, STRING}
      then ''const '' @ cpp_type @ ''& '' @ unix_name
      else cpp_type @ '' '' @ unix_name)"

definition GenerateIfndefName :: "string \<Rightarrow> string" where
  "GenerateIfndefName file_path =
     str_replace ''.'' ''_'' (str_replace ''/'' ''_'' (str_replace [CHR 0x5C] ''_'' (map to_upper (file_path @ ''__''))))"

definition PadForGenerics :: "string \<Rightarrow> string" where
  "PadForGenerics var = (if var \<noteq> [] \<and> last var = CHR ''>'' then var @ '' '' else var)"

text \<open>\<^verbatim>\<open>s.split('::')\<close>.\<close>

fun split_colons :: "string \<Rightarrow> string list" where
  "split_colons (x # y # s) =
     (if x = CHR '':'' \<and> y = CHR '':'' then [] # split_colons s
      else (case split_colons (y # s) of [] \<Rightarrow> [[x]] | w # ws \<Rightarrow> (x # w) # ws))"
| "split_colons s = [s]"

definition OpenNamespace :: "string \<Rightarrow> code_block" where
  "OpenNamespace cpp_namespace =
     fold (\<lambda>component. append_line (''namespace '' @ component @ '' {'')) (split_colons cpp_namespace) Code"

definition CloseNamespace :: "string \<Rightarrow> code_block" where
  "CloseNamespace cpp_namespace =
     fold (\<lambda>component. append_line (''}  // namespace '' @ component)) (rev (split_colons cpp_namespace)) Code"

text \<open>\<^verbatim>\<open>s.split()\<close>: the stretches without white space.\<close>

definition split_space :: "string \<Rightarrow> string list" where
  "split_space s = filter (\<lambda>w. w \<noteq> []) (split_char (CHR '' '') (map (\<lambda>c. if str_space c then CHR '' '' else c) s))"

definition ConstantName :: "string \<Rightarrow> string res" where
  "ConstantName feature_name =
     bind_res (map_res upper_first (split_space (str_replace ''.'' '' '' feature_name))) (\<lambda>ws. Inr (''k'' @ concat ws))"

definition CamelCase :: "string \<Rightarrow> string" where
  "CamelCase unix_name = concat (map capitalize (split_char (CHR ''_'') unix_name))"

definition ClassName :: "string \<Rightarrow> string" where
  "ClassName filepath = CamelCase (basename filepath)"

text \<open>\<open>shown\<close> is the text of the dictionary of substitutions.\<close>

definition GetCppNamespace :: "string \<Rightarrow> string \<Rightarrow> string \<Rightarrow> string res" where
  "GetCppNamespace shown pattern namespace =
     bind_res (py_format (dict_arg [(''namespace'', namespace)] shown) (str_replace ''%%'' ''%'' pattern)) (\<lambda>cpp_namespace.
       if CHR ''%'' \<in> set cpp_namespace then Inl AssertionError else Inr cpp_namespace)"

section \<open>Properties of names\<close>

lemma to_lower_code: "upper_case c \<Longrightarrow> (of_char (to_lower c) :: nat) = of_char c + 32"
  by (simp add: to_lower_def upper_case_def)

lemma to_lower_not_upper: "\<not> upper_case (to_lower c)"
proof (cases "upper_case c")
  case True
  with to_lower_code [OF this] show ?thesis by (simp add: upper_case_def)
qed (simp add: to_lower_def)

lemma to_lower_dot: "c \<noteq> CHR ''.'' \<Longrightarrow> to_lower c \<noteq> CHR ''.''"
proof (cases "upper_case c")
  case True
  have "(of_char (CHR ''.'') :: nat) = 46" by simp
  with to_lower_code [OF True] True show ?thesis by (auto simp: upper_case_def)
qed (simp add: to_lower_def)

lemma unix_chars_plain: "c \<in> set (unix_chars prev s) \<Longrightarrow> \<not> upper_case c \<and> c \<noteq> CHR ''.''"
proof (induction prev s rule: unix_chars.induct)
  case (2 prev x s)
  have "\<not> upper_case (CHR ''_'')" by code_simp
  with 2 show ?case by (auto simp: to_lower_not_upper to_lower_dot split: option.splits if_splits)
qed simp

lemma unix_chars_id: "\<forall>c \<in> set s. \<not> upper_case c \<and> c \<noteq> CHR ''.'' \<Longrightarrow> unix_chars prev s = s"
  by (induction s arbitrary: prev) (auto simp: to_lower_def split: option.split)

text \<open>
  a unix name has no capital letter and no dot, and taking the unix name of a unix name changes
  nothing.
\<close>

theorem UnixName_normal:
  "{c \<in> set (UnixName name). upper_case c \<or> c = CHR ''.''} = {} \<and> UnixName (UnixName name) = UnixName name"
  using unix_chars_plain [of _ None name] unix_chars_id [of "unix_chars None name" None] by (auto simp: UnixName_def)

interpretation memoized: memo_table "memo_call fn" "\<lambda>memory. \<forall>k v. dict_get memory k = Some v \<longrightarrow> v = fn k" "\<lambda>k. Some (fn k)"
  by unfold_locales (auto simp: memo_call_def Let_def)

text \<open>
  a memoized function returns what the function returns, on every sequence of calls.
\<close>

theorem memoize_transparent: "fst (call_all (memo_call fn) calls []) = map (\<lambda>x. Some (fn x)) calls"
  by (rule memoized.calls) simp

end
