(* ===== verification/Schema_Model.thy ===== *)
theory Schema_Model
  imports Schema_Names
begin

text \<open>
  \<^verbatim>\<open>tools/json_schema_compiler/model.py\<close>: the objects that the compiler makes of the JSON definition
  of an API. A link from an object to its parent is kept as far as the code looks at it: whether the
  parent is the namespace.
\<close>

section \<open>JSON values\<close>

datatype json = JNull | JBool bool | JInt int | JStr string | JList "json list" | JDict "(string \<times> json) list"

type_synonym json_dict = "(string \<times> json) list"

text \<open>\<^verbatim>\<open>bool(j)\<close>.\<close>

fun json_true :: "json \<Rightarrow> bool" where
  "json_true JNull = False"
| "json_true (JBool b) = b"
| "json_true (JInt i) = (i \<noteq> 0)"
| "json_true (JStr s) = (s \<noteq> [])"
| "json_true (JList xs) = (xs \<noteq> [])"
| "json_true (JDict d) = (d \<noteq> [])"

text \<open>The object behind \<^verbatim>\<open>j.get(...)\<close> or \<^verbatim>\<open>j.items()\<close>.\<close>

definition as_dict :: "json \<Rightarrow> json_dict res" where
  "as_dict j = (case j of JDict d \<Rightarrow> Inr d | _ \<Rightarrow> Inl AttributeError)"

text \<open>\<^verbatim>\<open>j[key]\<close>.\<close>

definition json_item :: "json \<Rightarrow> string \<Rightarrow> json res" where
  "json_item j key =
     (case j of JDict d \<Rightarrow> (case dict_get d key of Some v \<Rightarrow> Inr v | None \<Rightarrow> Inl KeyError) | _ \<Rightarrow> Inl TypeError)"

text \<open>\<^verbatim>\<open>key in j\<close>.\<close>

definition json_contains :: "json \<Rightarrow> string \<Rightarrow> bool res" where
  "json_contains j key =
     (case j of JDict d \<Rightarrow> Inr (dict_get d key \<noteq> None) | JList xs \<Rightarrow> Inr (JStr key \<in> set xs)
      | JStr s \<Rightarrow> Inr (str_contains key s) | _ \<Rightarrow> Inl TypeError)"

text \<open>What \<^verbatim>\<open>for x in j\<close> iterates over; a missing field is an empty list.\<close>

definition as_list :: "json option \<Rightarrow> json list res" where
  "as_list j =
     (case j of None \<Rightarrow> Inr []
      | Some (JList xs) \<Rightarrow> Inr xs
      | Some (JDict d) \<Rightarrow> Inr (map (\<lambda>(k, _). JStr k) d)
      | Some (JStr s) \<Rightarrow> Inr (map (\<lambda>c. JStr [c]) s)
      | Some _ \<Rightarrow> Inl TypeError)"

definition as_str :: "py_error \<Rightarrow> json \<Rightarrow> string res" where
  "as_str e j = (case j of JStr s \<Rightarrow> Inr s | _ \<Rightarrow> Inl e)"

fun json_size :: "json \<Rightarrow> nat" where
  "json_size (JList xs) = Suc (sum_list (map json_size xs))"
| "json_size (JDict d) = Suc (sum_list (map (\<lambda>(k, v). json_size v) d))"
| "json_size _ = 0"

section \<open>The objects\<close>

datatype origin = Origin (from_client: bool) (from_json: bool)

definition new_origin :: "bool \<Rightarrow> bool \<Rightarrow> origin res" where
  "new_origin client json = (if \<not> client \<and> \<not> json then Inl ValueError else Inr (Origin client json))"

datatype platform = CHROMEOS | CHROMEOS_TOUCH | LINUX | MAC | WIN

record enum_value =
  enum_name :: json
  enum_description :: "json option"

record function_options =
  fn_description :: "json option"
  fn_deprecated :: "json option"
  fn_optional :: json
  fn_nocompile :: "json option"
  fn_nodefine :: "json option"
  conditions :: json
  actions :: json
  supports_listeners :: json
  supports_rules :: json
  supports_dom :: json

record property_info =
  pi_description :: "json option"
  pi_optional :: "json option"
  pi_instance_of :: "json option"
  pi_deprecated :: "json option"
  pi_value :: "json option"

datatype model_type =
  Type (type_name: string) (simple_name: string) (type_unix_name: string) (type_description: "json option")
    (type_origin: origin) (instance_of: "json option") (type_functions: "(string \<times> model_function) list")
    (type_events: "(string \<times> model_function) list") (type_properties: "(string \<times> model_property) list")
    (type_kind: type_kind)
and type_kind =
    ArrayOf model_type | RefTo json | EnumOf "enum_value list" "json option" | Plain property_type
  | ChoiceOf "model_type list" | ObjectOf "model_type option" | FunctionOf model_function
and model_function =
  Function (function_name: string) (function_simple_name: string) (platforms: "platform list option")
    (filters: "model_property list") (params: "model_property list") (callback: "model_function option")
    (returns: "model_type option") (function_options: function_options)
and model_property =
  Property (property_name: string) (private_unix_name: string) (unix_name_used: bool) (property_origin: origin)
    (property_simple_name: string) (property_info: property_info) (property_model_type: model_type)

fun kind_property_type :: "type_kind \<Rightarrow> property_type" where
  "kind_property_type (ArrayOf _) = ARRAY"
| "kind_property_type (RefTo _) = REF"
| "kind_property_type (EnumOf _ _) = ENUM"
| "kind_property_type (Plain t) = t"
| "kind_property_type (ChoiceOf _) = CHOICES"
| "kind_property_type (ObjectOf _) = OBJECT"
| "kind_property_type (FunctionOf _) = FUNCTION"

text \<open>What is looked up in the namespace; \<open>shown\<close> is the text of a list or a dictionary.\<close>

record naming =
  ns_name :: string
  allow_inline_enums :: bool
  shown :: "json \<Rightarrow> string"

section \<open>Parts of a definition\<close>

definition EnumValue :: "json \<Rightarrow> enum_value res" where
  "EnumValue j =
     (case j of
        JDict d \<Rightarrow> bind_res (json_item j ''name'') (\<lambda>n. Inr \<lparr>enum_name = n, enum_description = dict_get d ''description''\<rparr>)
      | _ \<Rightarrow> Inr \<lparr>enum_name = j, enum_description = None\<rparr>)"

definition platform_of :: "json \<Rightarrow> platform option" where
  "platform_of j =
     (if j = JStr ''chromeos'' then Some CHROMEOS else if j = JStr ''chromeos_touch'' then Some CHROMEOS_TOUCH
      else if j = JStr ''linux'' then Some LINUX else if j = JStr ''mac'' then Some MAC
      else if j = JStr ''win'' then Some WIN else None)"

definition GetPlatforms :: "json_dict \<Rightarrow> platform list option res" where
  "GetPlatforms d =
     (case dict_get d ''platforms'' of
        None \<Rightarrow> Inr None
      | Some j \<Rightarrow>
          if j = JNull then Inr None
          else if \<not> json_true j then Inl ValueError
          else bind_res (as_list (Some j)) (\<lambda>names. Inr (Some (List.map_filter platform_of names))))"

definition field_or :: "json_dict \<Rightarrow> string \<Rightarrow> json \<Rightarrow> json" where
  "field_or d key dflt = (case dict_get d key of Some v \<Rightarrow> v | None \<Rightarrow> dflt)"

definition get_function_options :: "json_dict \<Rightarrow> function_options res" where
  "get_function_options d =
     bind_res (as_dict (field_or d ''options'' (JDict []))) (\<lambda>options.
       Inr \<lparr>fn_description = dict_get d ''description'', fn_deprecated = dict_get d ''deprecated'',
            fn_optional = field_or d ''optional'' (JBool False), fn_nocompile = dict_get d ''nocompile'',
            fn_nodefine = dict_get d ''nodefine'', conditions = field_or options ''conditions'' (JList []),
            actions = field_or options ''actions'' (JList []),
            supports_listeners = field_or options ''supportsListeners'' (JBool True),
            supports_rules = field_or options ''supportsRules'' (JBool False),
            supports_dom = field_or options ''supportsDom'' (JBool False)\<rparr>)"

text \<open>
  The value of a property, and the JSON definition with the type that was left out: what the
  constructor of a property does before it makes the type.
\<close>

definition property_value :: "json_dict \<Rightarrow> (json option \<times> json_dict) res" where
  "property_value d =
     (let allowed = (dict_get d ''$ref'' = None \<and>
            (dict_get d ''type'' = None \<or> dict_get d ''type'' = Some (JStr ''integer'')
             \<or> dict_get d ''type'' = Some (JStr ''string''))) in
      case dict_get d ''value'' of
        None \<Rightarrow> Inr (None, d)
      | Some v \<Rightarrow>
          if \<not> allowed then Inr (None, d)
          else if dict_get d ''type'' \<noteq> None then Inr (Some v, d)
          else case v of
            JInt _ \<Rightarrow> Inr (Some v, dict_set ''type'' (JStr ''integer'') d)
          | JBool _ \<Rightarrow> Inr (Some v, dict_set ''type'' (JStr ''integer'') d)
          | JStr _ \<Rightarrow> Inr (Some v, dict_set ''type'' (JStr ''string'') d)
          | _ \<Rightarrow> Inl ParseException)"

text \<open>
  The parameters that become properties, in the order in which the loop makes them, and the last
  callback. An exception among them is the one of \<^verbatim>\<open>param.get\<close>.
\<close>

fun param_steps :: "json option \<Rightarrow> json list \<Rightarrow> json res list \<times> json option" where
  "param_steps callback_param [] = ([], callback_param)"
| "param_steps callback_param (p # ps) =
     (case p of
        JDict d \<Rightarrow>
          if dict_get d ''type'' = Some (JStr ''function'')
          then (case param_steps (Some p) ps of (steps, cb) \<Rightarrow>
                  ((case callback_param of None \<Rightarrow> [] | Some q \<Rightarrow> [Inr q]) @ steps, cb))
          else (case param_steps callback_param ps of (steps, cb) \<Rightarrow> (Inr p # steps, cb))
      | _ \<Rightarrow> ([Inl AttributeError], None))"

text \<open>The name of a choice; the text of the value where \<^verbatim>\<open>'%ss' % name\<close> is taken.\<close>

definition json_text :: "naming \<Rightarrow> json \<Rightarrow> string" where
  "json_text ns j =
     (case j of JNull \<Rightarrow> ''None'' | JBool b \<Rightarrow> (if b then ''True'' else ''False'') | JInt i \<Rightarrow> str_int i | JStr s \<Rightarrow> s
      | _ \<Rightarrow> shown ns j)"

lemma json_item_smaller: "json_item j key = Inr v \<Longrightarrow> json_size v < json_size j"
proof -
  assume "json_item j key = Inr v"
  then obtain d where d: "j = JDict d" "dict_get d key = Some v"
    by (auto simp: json_item_def split: json.splits option.splits)
  from map_of_SomeD [OF this(2)] have "json_size v \<le> sum_list (map (\<lambda>(k, v). json_size v) d)"
    by (intro member_le_sum_list) (force, simp)
  with d(1) show ?thesis by simp
qed

function generate_type_name :: "naming \<Rightarrow> json \<Rightarrow> json res" where
  "generate_type_name ns j =
     bind_res (json_contains j ''items'') (\<lambda>items.
       if items
       then bind_res (json_item j ''items'') (\<lambda>i. bind_res (generate_type_name ns i) (\<lambda>n. Inr (JStr (json_text ns n @ ''s''))))
       else bind_res (json_contains j ''$ref'') (\<lambda>ref.
         if ref then json_item j ''$ref''
         else bind_res (json_contains j ''type'') (\<lambda>t. if t then json_item j ''type'' else Inr JNull)))"
  by pat_completeness auto
termination by (relation "measure (\<lambda>(ns, j). json_size j)") (auto dest: json_item_smaller)

declare generate_type_name.simps [simp del]

definition choice_name :: "naming \<Rightarrow> nat \<Rightarrow> json \<Rightarrow> string res" where
  "choice_name ns i choice =
     bind_res (generate_type_name ns choice) (\<lambda>n.
       if json_true n then as_str AttributeError n else Inr (''choice'' @ str_nat i))"

section \<open>Collections of definitions\<close>

text \<open>
  The definitions in a list field, each with the name at \<open>key\<close>; a name that is not a string raises
  \<open>e\<close> in the constructor. The collection is ordered; a later definition replaces an earlier one.
\<close>

definition each_named ::
    "py_error \<Rightarrow> string \<Rightarrow> string \<Rightarrow> (string \<Rightarrow> json \<Rightarrow> 'a res) \<Rightarrow> json_dict \<Rightarrow> (string \<times> 'a) list res" where
  "each_named e field key mk d =
     bind_res (as_list (dict_get d field)) (map_res (\<lambda>j.
       bind_res (json_item j key) (\<lambda>n. bind_res (as_str e n) (\<lambda>n. bind_res (mk n j) (\<lambda>x. Inr (n, x))))))"

definition ordered :: "('k \<times> 'v) list \<Rightarrow> ('k \<times> 'v) list" where
  "ordered ps = fold (\<lambda>(k, v). dict_set k v) ps []"

definition each_property :: "(string \<Rightarrow> json \<Rightarrow> 'a res) \<Rightarrow> json_dict \<Rightarrow> (string \<times> 'a) list res" where
  "each_property mk d =
     bind_res (as_dict (field_or d ''properties'' (JDict []))) (map_res (\<lambda>(n, j). bind_res (mk n j) (\<lambda>x. Inr (n, x))))"

definition each_param :: "(string \<Rightarrow> json \<Rightarrow> 'a res) \<Rightarrow> json_dict \<Rightarrow> 'a list res" where
  "each_param mk d =
     bind_res (as_list (dict_get d ''parameters'')) (\<lambda>ps.
       map_res (\<lambda>step. bind_res step (\<lambda>p. bind_res (json_item p ''name'') (\<lambda>n. bind_res (as_str TypeError n) (\<lambda>n. mk n p))))
         (fst (param_steps None ps)))"

definition callback_param :: "json_dict \<Rightarrow> json option" where
  "callback_param d = (case as_list (dict_get d ''parameters'') of Inl _ \<Rightarrow> None | Inr ps \<Rightarrow> snd (param_steps None ps))"

definition each_choice :: "naming \<Rightarrow> (string \<Rightarrow> json \<Rightarrow> 'a res) \<Rightarrow> json_dict \<Rightarrow> 'a list res" where
  "each_choice ns mk d =
     bind_res (as_list (dict_get d ''choices'')) (\<lambda>cs.
       map_res (\<lambda>(i, c). bind_res (choice_name ns i c) (\<lambda>n. mk n c)) (enumerate 0 cs))"

lemma dict_value_smaller: "dict_get d key = Some v \<Longrightarrow> json_size v < json_size (JDict d)"
  using json_item_smaller [of "JDict d" key v] by (simp add: json_item_def)

lemma as_list_smaller:
  assumes "as_list (dict_get d field) = Inr js" and "j \<in> set js"
  shows "json_size j < json_size (JDict d)"
proof (cases "dict_get d field")
  case (Some v)
  have "json_size j \<le> json_size v"
  proof (cases v)
    case (JList xs)
    with assms Some have "j \<in> set xs" by (simp add: as_list_def)
    then have "json_size j \<le> sum_list (map json_size xs)" by (intro member_le_sum_list) (force, simp)
    with JList show ?thesis by simp
  qed (use assms Some in \<open>auto simp: as_list_def\<close>)
  with dict_value_smaller [OF Some] show ?thesis by simp
qed (use assms in \<open>simp add: as_list_def\<close>)

lemma param_steps_mem:
  "Inr p \<in> set (fst (param_steps cb ps)) \<or> snd (param_steps cb ps) = Some p \<Longrightarrow> p \<in> set ps \<or> cb = Some p"
proof (induction cb ps rule: param_steps.induct)
  case (2 cb q ps)
  show ?case
  proof (cases q)
    case (JDict d)
    with 2 show ?thesis by (auto split: if_splits prod.splits option.splits)
  qed (use 2(3) in auto)
qed auto

lemma each_named_cong [fundef_cong]:
  assumes "d = d'" and "\<And>n j. json_size j < json_size (JDict d') \<Longrightarrow> mk n j = mk' n j"
  shows "each_named e field key mk d = each_named e field key mk' d'"
  unfolding each_named_def assms(1)
  by (intro bind_res_cong map_res_cong refl) (auto intro!: bind_res_cong assms(2) as_list_smaller)

lemma property_json_smaller:
  assumes "as_dict (field_or d ''properties'' (JDict [])) = Inr ps" and "(n, j) \<in> set ps"
  shows "json_size j < json_size (JDict d)"
proof -
  from assms have v: "dict_get d ''properties'' = Some (JDict ps)"
    by (auto simp: as_dict_def field_or_def split: option.splits json.splits)
  have "json_size j \<le> sum_list (map (\<lambda>(k, v). json_size v) ps)" using assms(2) by (intro member_le_sum_list) (force, simp)
  with dict_value_smaller [OF v] show ?thesis by simp
qed

lemma each_property_cong [fundef_cong]:
  assumes "d = d'" and "\<And>n j. json_size j < json_size (JDict d') \<Longrightarrow> mk n j = mk' n j"
  shows "each_property mk d = each_property mk' d'"
  unfolding each_property_def assms(1)
  by (intro bind_res_cong map_res_cong refl) (auto intro!: bind_res_cong assms(2) property_json_smaller)

lemma each_param_cong [fundef_cong]:
  assumes "d = d'" and "\<And>n j. json_size j < json_size (JDict d') \<Longrightarrow> mk n j = mk' n j"
  shows "each_param mk d = each_param mk' d'"
  unfolding each_param_def assms(1)
  by (intro bind_res_cong map_res_cong refl)
    (auto intro!: bind_res_cong assms(2) as_list_smaller dest!: param_steps_mem [OF disjI1])

lemma callback_param_smaller: "callback_param d = Some p \<Longrightarrow> json_size p < json_size (JDict d)"
proof -
  assume "callback_param d = Some p"
  then obtain ps where ps: "as_list (dict_get d ''parameters'') = Inr ps" "snd (param_steps None ps) = Some p"
    by (auto simp: callback_param_def split: sum.splits)
  then have "p \<in> set ps" using param_steps_mem [of p None ps] by simp
  with ps(1) show ?thesis by (rule as_list_smaller)
qed

lemma each_choice_cong [fundef_cong]:
  assumes "d = d'" and "\<And>n j. json_size j < json_size (JDict d') \<Longrightarrow> mk n j = mk' n j"
  shows "each_choice ns mk d = each_choice ns mk' d'"
  unfolding each_choice_def assms(1)
  by (intro bind_res_cong map_res_cong refl)
    (auto intro!: bind_res_cong assms(2) as_list_smaller dest!: in_set_enumerate_eq [THEN iffD1])

lemma property_value_size: "property_value d = Inr (v, d') \<Longrightarrow> json_size (JDict d') = json_size (JDict d)"
proof -
  have "map_of d k = None \<Longrightarrow> sum_list (map (\<lambda>(k, v). json_size v) (dict_set k (JStr s) d)) = sum_list (map (\<lambda>(k, v). json_size v) d)" for k s
    by (induction d) auto
  then show "property_value d = Inr (v, d') \<Longrightarrow> ?thesis"
    by (auto simp: property_value_def Let_def split: option.splits if_splits json.splits)
qed

section \<open>Types, functions and properties\<close>

definition simple_kind :: "json option \<Rightarrow> property_type option" where
  "simple_kind t =
     (if t = Some (JStr ''any'') then Some ANY
      else if t = Some (JStr ''binary'') then Some BINARY
      else if t = Some (JStr ''boolean'') then Some BOOLEAN
      else if t = Some (JStr ''integer'') then Some INTEGER
      else if t = Some (JStr ''double'') \<or> t = Some (JStr ''number'') then Some DOUBLE
      else if t = Some (JStr ''string'') then Some STRING
      else None)"

definition model_measure ::
    "(naming \<times> bool \<times> string \<times> json \<times> origin) + (naming \<times> string \<times> json \<times> origin) + (naming \<times> bool \<times> string \<times> json \<times> origin) \<Rightarrow> nat" where
  "model_measure x =
     (case x of Inl (_, _, _, j, _) \<Rightarrow> 3 * json_size j + 1
      | Inr (Inl (_, _, j, _)) \<Rightarrow> 3 * json_size j
      | Inr (Inr (_, _, _, j, _)) \<Rightarrow> 3 * json_size j + 2)"

lemma as_dict_Inr: "as_dict j = Inr d \<longleftrightarrow> j = JDict d"
  by (auto simp: as_dict_def split: json.splits)

function new_type :: "naming \<Rightarrow> bool \<Rightarrow> string \<Rightarrow> json \<Rightarrow> origin \<Rightarrow> model_type res"
  and new_function :: "naming \<Rightarrow> string \<Rightarrow> json \<Rightarrow> origin \<Rightarrow> model_function res"
  and new_property :: "naming \<Rightarrow> bool \<Rightarrow> string \<Rightarrow> json \<Rightarrow> origin \<Rightarrow> model_property res" where
  "new_type ns parent_is_namespace name j org =
     bind_res (as_dict j) (\<lambda>d.
     bind_res (each_named AttributeError ''functions'' ''name'' (\<lambda>n fj. new_function ns n fj (Origin False True)) d) (\<lambda>fs.
     bind_res (each_named AttributeError ''events'' ''name'' (\<lambda>n fj. new_function ns n fj (Origin True False)) d) (\<lambda>es.
     bind_res (each_property (\<lambda>n pj. new_property ns False n pj org) d) (\<lambda>ps.
     bind_res
       (if dict_get d ''type'' = Some (JStr ''array'')
        then bind_res (json_item (JDict d) ''items'') (\<lambda>i.
             bind_res (new_type ns False (name @ ''Type'') i org) (\<lambda>t. Inr (ArrayOf t)))
        else if dict_get d ''$ref'' \<noteq> None then Inr (RefTo (field_or d ''$ref'' JNull))
        else if dict_get d ''enum'' \<noteq> None \<and> dict_get d ''type'' = Some (JStr ''string'')
        then if \<not> allow_inline_enums ns \<and> \<not> parent_is_namespace then Inl ParseException
             else bind_res (as_list (dict_get d ''enum'')) (\<lambda>vs.
                  bind_res (map_res EnumValue vs) (\<lambda>es. Inr (EnumOf es (dict_get d ''cpp_enum_prefix_override''))))
        else if simple_kind (dict_get d ''type'') \<noteq> None then Inr (Plain (the (simple_kind (dict_get d ''type''))))
        else if dict_get d ''choices'' \<noteq> None
        then bind_res (each_choice ns (\<lambda>n cj. new_type ns False n cj org) d) (\<lambda>cs. Inr (ChoiceOf cs))
        else if dict_get d ''type'' = Some (JStr ''object'')
        then if list_all (\<lambda>k. dict_get d k = None)
                  [''isInstanceOf'', ''properties'', ''additionalProperties'', ''functions'', ''events'']
             then Inl ParseException
             else if field_or d ''additionalProperties'' JNull = JNull then Inr (ObjectOf None)
             else bind_res (json_item (JDict d) ''additionalProperties'') (\<lambda>a.
                  bind_res (new_type ns False ''additionalProperties'' a org) (\<lambda>t. Inr (ObjectOf (Some t))))
        else if dict_get d ''type'' = Some (JStr ''function'')
        then bind_res (as_str AttributeError (field_or d ''name'' (JStr name))) (\<lambda>function_name.
             bind_res (new_function ns function_name (JDict d) org) (\<lambda>f. Inr (FunctionOf f)))
        else Inl ParseException) (\<lambda>kind.
     Inr (Type name (model_StripNamespace name (ns_name ns)) (UnixName name) (dict_get d ''description'') org
            (dict_get d ''isInstanceOf'') (ordered fs) (ordered es) (ordered ps) kind))))))"
| "new_function ns name j org =
     bind_res (as_dict j) (\<lambda>d.
     bind_res (GetPlatforms d) (\<lambda>platforms.
     bind_res (get_function_options d) (\<lambda>options.
     bind_res (each_named TypeError ''filters'' ''name'' (\<lambda>n pj. new_property ns False n pj org) d) (\<lambda>filters.
     bind_res (each_param (\<lambda>n pj. new_property ns False n pj org) d) (\<lambda>params.
     bind_res (case callback_param d of
                 None \<Rightarrow> Inr None
               | Some p \<Rightarrow>
                   bind_res (json_item p ''name'') (\<lambda>n.
                   bind_res (as_str AttributeError n) (\<lambda>n.
                   bind_res (new_function ns n p (Origin True False)) (\<lambda>f. Inr (Some f))))) (\<lambda>callback.
     bind_res (if dict_get d ''returns'' = None then Inr None
               else bind_res (json_item (JDict d) ''returns'') (\<lambda>r.
                    bind_res (new_type ns False (name @ ''ReturnType'') r org) (\<lambda>t. Inr (Some t)))) (\<lambda>returns.
     Inr (Function name (model_StripNamespace name (ns_name ns)) platforms (map snd filters) params callback returns
            options))))))))"
| "new_property ns parent_is_namespace name j org =
     bind_res (as_dict j) (\<lambda>d.
     bind_res (property_value d) (\<lambda>(value, d').
     bind_res (new_type ns parent_is_namespace name (JDict d') org) (\<lambda>t.
     Inr (Property name (UnixName name) False org (model_StripNamespace name (ns_name ns))
            \<lparr>pi_description = dict_get d ''description'', pi_optional = dict_get d ''optional'',
             pi_instance_of = dict_get d ''isInstanceOf'', pi_deprecated = dict_get d ''deprecated'', pi_value = value\<rparr> t))))"
  by pat_completeness auto
termination
  by (relation "measure model_measure")
    (auto simp: model_measure_def as_dict_Inr simp del: json_size.simps
      dest!: json_item_smaller callback_param_smaller property_value_size)

declare new_type.simps [simp del] new_function.simps [simp del] new_property.simps [simp del]

text \<open>The equations by the form of the definition, for evaluation.\<close>

lemma new_type_not_dict:
  "new_type ns par name JNull org = Inl AttributeError"
  "new_type ns par name (JBool b) org = Inl AttributeError"
  "new_type ns par name (JInt i) org = Inl AttributeError"
  "new_type ns par name (JStr s) org = Inl AttributeError"
  "new_type ns par name (JList xs) org = Inl AttributeError"
  by (subst new_type.simps, simp add: as_dict_def)+

lemma new_function_not_dict:
  "new_function ns name JNull org = Inl AttributeError"
  "new_function ns name (JBool b) org = Inl AttributeError"
  "new_function ns name (JInt i) org = Inl AttributeError"
  "new_function ns name (JStr s) org = Inl AttributeError"
  "new_function ns name (JList xs) org = Inl AttributeError"
  by (subst new_function.simps, simp add: as_dict_def)+

lemma new_property_not_dict:
  "new_property ns par name JNull org = Inl AttributeError"
  "new_property ns par name (JBool b) org = Inl AttributeError"
  "new_property ns par name (JInt i) org = Inl AttributeError"
  "new_property ns par name (JStr s) org = Inl AttributeError"
  "new_property ns par name (JList xs) org = Inl AttributeError"
  by (subst new_property.simps, simp add: as_dict_def)+

lemma generate_type_name_not_dict:
  "generate_type_name ns JNull = Inl TypeError"
  "generate_type_name ns (JBool b) = Inl TypeError"
  "generate_type_name ns (JInt i) = Inl TypeError"
  "generate_type_name ns (JStr s) =
     (if str_contains ''items'' s \<or> str_contains ''$ref'' s \<or> str_contains ''type'' s then Inl TypeError else Inr JNull)"
  "generate_type_name ns (JList xs) =
     (if JStr ''items'' \<in> set xs \<or> JStr ''$ref'' \<in> set xs \<or> JStr ''type'' \<in> set xs then Inl TypeError else Inr JNull)"
  by (subst generate_type_name.simps, simp add: json_contains_def json_item_def)+

lemmas new_type_code [code] =
  new_type.simps [of ns par name "JDict d" for ns par name d, unfolded as_dict_def json.case bind_res_simps]
  new_type_not_dict

lemmas new_function_code [code] =
  new_function.simps [of ns name "JDict d" for ns name d, unfolded as_dict_def json.case bind_res_simps]
  new_function_not_dict

lemmas new_property_code [code] =
  new_property.simps [of ns par name "JDict d" for ns par name d, unfolded as_dict_def json.case bind_res_simps]
  new_property_not_dict

lemmas generate_type_name_code [code] =
  generate_type_name.simps [of ns "JDict d" for ns d] generate_type_name_not_dict

end
