(* ===== verification/Schema_Namespace.thy ===== *)
theory Schema_Namespace
  imports Schema_Model Json_Comments
begin

text \<open>
  Namespaces, features and the names of properties (\<^verbatim>\<open>model.py\<close>), the files that define a namespace
  (\<^verbatim>\<open>schema_loader.py\<close>, \<^verbatim>\<open>cpp_namespace_environment.py\<close>) and the editing of a definition
  (\<^verbatim>\<open>json_schema.py\<close>) in \<^verbatim>\<open>tools/json_schema_compiler\<close>.
\<close>

section \<open>Namespaces\<close>

record namespace =
  namespace_name :: string
  namespace_description :: json
  namespace_deprecated :: "json option"
  namespace_unix_name :: string
  source_file :: string
  source_file_dir :: string
  source_file_filename :: string
  short_filename :: string
  namespace_inline_enums :: bool
  namespace_platforms :: "platform list option"
  namespace_types :: "(string \<times> model_type) list"
  namespace_functions :: "(string \<times> model_function) list"
  namespace_events :: "(string \<times> model_function) list"
  namespace_properties :: "(string \<times> model_property) list"
  compiler_options :: json
  environment :: "string option"
  documentation_options :: json

text \<open>
  \<open>env_pattern\<close> is the pattern of the \<^verbatim>\<open>CppNamespaceEnvironment\<close>. The warning about a missing
  description is printed; the description is then empty.
\<close>

definition Namespace ::
    "(json \<Rightarrow> string) \<Rightarrow> json \<Rightarrow> string \<Rightarrow> bool \<Rightarrow> string option \<Rightarrow> bool \<Rightarrow> namespace res" where
  "Namespace text_of j src include_compiler_options env_pattern inline_enums =
     bind_res (json_item j ''namespace'') (\<lambda>name.
     bind_res (as_dict j) (\<lambda>d.
     bind_res (as_str TypeError name) (\<lambda>name.
     let ns = \<lparr>ns_name = name, allow_inline_enums = inline_enums, shown = text_of\<rparr>;
         toplevel_origin = Origin True True
     in
     bind_res (GetPlatforms d) (\<lambda>plats.
     bind_res (each_named AttributeError ''types'' ''id'' (\<lambda>n tj. new_type ns True n tj toplevel_origin) d) (\<lambda>ts.
     bind_res (each_named AttributeError ''functions'' ''name'' (\<lambda>n fj. new_function ns n fj (Origin False True)) d) (\<lambda>fs.
     bind_res (each_named AttributeError ''events'' ''name'' (\<lambda>n fj. new_function ns n fj (Origin True False)) d) (\<lambda>es.
     bind_res (each_property (\<lambda>n pj. new_property ns True n pj toplevel_origin) d) (\<lambda>ps.
     Inr \<lparr>namespace_name = name, namespace_description = field_or d ''description'' (JStr []),
          namespace_deprecated = dict_get d ''deprecated'', namespace_unix_name = UnixName name,
          source_file = src, source_file_dir = dirname src, source_file_filename = basename src,
          short_filename = hd (split_char (CHR ''.'') (basename src)),
          namespace_inline_enums = inline_enums, namespace_platforms = plats,
          namespace_types = ordered ts, namespace_functions = ordered fs, namespace_events = ordered es,
          namespace_properties = ordered ps,
          compiler_options =
            (if include_compiler_options then field_or d ''compiler_options'' (JDict []) else JDict []),
          environment = env_pattern,
          documentation_options = field_or d ''documentation_options'' (JDict [])\<rparr>))))))))"

record api_model =
  model_inline_enums :: bool
  namespaces :: "(string \<times> namespace) list"

definition Model :: "bool \<Rightarrow> api_model" where
  "Model inline_enums = \<lparr>model_inline_enums = inline_enums, namespaces = []\<rparr>"

definition AddNamespace ::
    "(json \<Rightarrow> string) \<Rightarrow> json \<Rightarrow> string \<Rightarrow> bool \<Rightarrow> string option \<Rightarrow> (api_model, namespace) st" where
  "AddNamespace text_of j src include_compiler_options env_pattern =
     bind_st (gets_st model_inline_enums) (\<lambda>inline_enums.
     bind_st (lift_res (Namespace text_of j src include_compiler_options env_pattern inline_enums)) (\<lambda>ns.
     bind_st (modify_st (\<lambda>m. m\<lparr>namespaces := dict_set (namespace_name ns) ns (namespaces m)\<rparr>)) (\<lambda>_.
     return_st ns)))"

section \<open>Features\<close>

record simple_feature =
  feature_name :: string
  feature_unix_name :: string
  channel :: json
  extension_types :: json
  whitelist :: "json option"

datatype feature =
    Simple simple_feature
  | Complex string string "simple_feature list"

definition SimpleFeature :: "string \<Rightarrow> json \<Rightarrow> simple_feature res" where
  "SimpleFeature name feature_def =
     bind_res (json_item feature_def ''channel'') (\<lambda>c.
     bind_res (json_item feature_def ''extension_types'') (\<lambda>e.
     bind_res (as_dict feature_def) (\<lambda>d.
     Inr \<lparr>feature_name = name, feature_unix_name = UnixName name, channel = c, extension_types = e,
          whitelist = dict_get d ''whitelist''\<rparr>)))"

definition CreateFeature :: "string \<Rightarrow> json \<Rightarrow> feature res" where
  "CreateFeature name model =
     (case model of
        JDict d \<Rightarrow> bind_res (SimpleFeature name model) (\<lambda>f. Inr (Simple f))
      | _ \<Rightarrow> bind_res (as_list (Some model)) (\<lambda>children.
             bind_res (map_res (SimpleFeature name) children) (\<lambda>fs. Inr (Complex name (UnixName name) fs))))"

section \<open>The unix name of a property\<close>

definition GetUnixName :: "(model_property, string) st" where
  "GetUnixName =
     (\<lambda>p. case p of Property name unix_name used org simple info t \<Rightarrow>
        if unix_name = [] then (Inl AttributeError, p)
        else (Inr unix_name, Property name unix_name True org simple info t))"

definition SetUnixName :: "string \<Rightarrow> (model_property, unit) st" where
  "SetUnixName new_name =
     (\<lambda>p. case p of Property name unix_name used org simple info t \<Rightarrow>
        if new_name = unix_name then (Inr (), p)
        else if used then (Inl AttributeError, p)
        else (Inr (), Property name new_name used org simple info t))"

section \<open>Editing a definition\<close>

definition ShouldDelete :: "string option \<Rightarrow> (json_dict \<Rightarrow> bool) option \<Rightarrow> json \<Rightarrow> bool" where
  "ShouldDelete delete_key matcher thing =
     (case thing of
        JDict d \<Rightarrow> (case delete_key of Some k \<Rightarrow> dict_get d k \<noteq> None | None \<Rightarrow> False)
                   \<or> (case matcher of Some f \<Rightarrow> f d | None \<Rightarrow> False)
      | _ \<Rightarrow> False)"

fun delete_nodes :: "(json \<Rightarrow> bool) \<Rightarrow> json \<Rightarrow> json" where
  "delete_nodes should (JDict d) = JDict (map (\<lambda>(k, v). (k, delete_nodes should v)) (filter (\<lambda>(k, v). \<not> should v) d))"
| "delete_nodes should (JList xs) = JList (map (delete_nodes should) (filter (\<lambda>x. \<not> should x) xs))"
| "delete_nodes should j = j"

definition DeleteNodes :: "json \<Rightarrow> string option \<Rightarrow> (json_dict \<Rightarrow> bool) option \<Rightarrow> json res" where
  "DeleteNodes item delete_key matcher =
     (if (delete_key \<noteq> None) \<noteq> (matcher \<noteq> None)
      then Inr (delete_nodes (ShouldDelete delete_key matcher) item) else Inl AssertionError)"

section \<open>Loading\<close>

text \<open>
  The file system, the JSON reader of the standard library and the IDL reader (\<^verbatim>\<open>idl_schema.Load\<close>);
  \<open>json_shown\<close> is the text of a list or a dictionary.
\<close>

record schema_env =
  file_exists :: "string \<Rightarrow> bool"
  read_file :: "string \<Rightarrow> string res"
  json_loads :: "string \<Rightarrow> json res"
  idl_load :: "string \<Rightarrow> json res"
  json_shown :: "json \<Rightarrow> string"

definition json_Parse :: "schema_env \<Rightarrow> string \<Rightarrow> json res" where
  "json_Parse env json_str = bind_res (Nom json_str) (json_loads env)"

definition json_Load :: "schema_env \<Rightarrow> string \<Rightarrow> json res" where
  "json_Load env filename = bind_res (read_file env filename) (json_Parse env)"

definition CachedLoad :: "schema_env \<Rightarrow> string \<Rightarrow> ((string \<times> json) list, json) st" where
  "CachedLoad env filename = cached_st (json_Load env) filename"

text \<open>The names of files, the shortest first.\<close>

fun namespace_files :: "string option \<Rightarrow> string list \<Rightarrow> string list" where
  "namespace_files name [] = []"
| "namespace_files name (sub # subs) =
     (let name = (case name of Some b \<Rightarrow> UnixName (sub @ ''.'' @ b) | None \<Rightarrow> UnixName sub)
      in [name @ ''.json'', name @ ''.idl''] @ namespace_files (Some name) subs)"

definition GenerateFilenames :: "string \<Rightarrow> string list" where
  "GenerateFilenames full_namespace = namespace_files None (rev (split_char (CHR ''.'') full_namespace))"

record schema_loader =
  root_dir :: string
  include_rules :: "(string \<times> string) list"

definition SchemaLoader :: "string \<Rightarrow> string \<Rightarrow> (string \<times> string) list \<Rightarrow> string \<Rightarrow> schema_loader" where
  "SchemaLoader root path rules cpp_namespace_pattern =
     \<lparr>root_dir = root, include_rules = (path, cpp_namespace_pattern) # rules\<rparr>"

definition LoadSchema :: "schema_env \<Rightarrow> schema_loader \<Rightarrow> string \<Rightarrow> json res" where
  "LoadSchema env self schema =
     (let schema_extension = path_extension schema; schema_path = path_join (root_dir self) schema in
      if schema_extension = ''.json'' then json_Load env schema_path
      else if schema_extension = ''.idl'' then idl_load env schema_path
      else Inl SystemExit)"

text \<open>\<^verbatim>\<open>j[0]\<close>.\<close>

definition json_first :: "json \<Rightarrow> json res" where
  "json_first j =
     (case j of
        JList xs \<Rightarrow> (case xs of [] \<Rightarrow> Inl IndexError | x # _ \<Rightarrow> Inr x)
      | JStr s \<Rightarrow> (case s of [] \<Rightarrow> Inl IndexError | c # _ \<Rightarrow> Inr (JStr [c]))
      | JDict _ \<Rightarrow> Inl KeyError
      | _ \<Rightarrow> Inl TypeError)"

text \<open>The first file that is there, in the order of the rules and then of the names.\<close>

definition candidates :: "schema_loader \<Rightarrow> string \<Rightarrow> (string \<times> string) list" where
  "candidates self full_namespace =
     concat (map (\<lambda>(path, cpp_namespace).
       map (\<lambda>filename. (path_join path filename, cpp_namespace)) (rev (GenerateFilenames full_namespace))) (include_rules self))"

definition ResolveNamespace :: "schema_env \<Rightarrow> schema_loader \<Rightarrow> string \<Rightarrow> namespace option res" where
  "ResolveNamespace env self full_namespace =
     (case find (\<lambda>(filepath, _). file_exists env (path_join (root_dir self) filepath)) (candidates self full_namespace) of
        None \<Rightarrow> Inr None
      | Some (filepath, cpp_namespace) \<Rightarrow>
          bind_res (bind_res (LoadSchema env self filepath) json_first) (\<lambda>j.
          bind_res (fst (AddNamespace (json_shown env) j filepath False
                          (if cpp_namespace = [] then None else Some cpp_namespace) (Model True))) (\<lambda>ns.
          Inr (Some ns))))"

definition ResolveType :: "schema_env \<Rightarrow> schema_loader \<Rightarrow> string \<Rightarrow> namespace \<Rightarrow> namespace option res" where
  "ResolveType env self full_name default_namespace =
     (case SplitNamespace full_name of
        (None, _) \<Rightarrow> Inr (if dict_get (namespace_types default_namespace) full_name = None then None else Some default_namespace)
      | (Some full_namespace, short_name) \<Rightarrow>
          bind_res (ResolveNamespace env self full_namespace) (\<lambda>found.
            case found of
              Some ns \<Rightarrow> Inr (if dict_get (namespace_types ns) short_name = None then None else Some ns)
            | None \<Rightarrow> Inr None))"

end
