(* ===== verification/Schema_Safety.thy ===== *)
theory Schema_Safety
  imports Schema_Namespace
begin

text \<open>
  What the model of an API promises: where enumerations are not allowed inline only the namespace has
  them, the unix name of a property does not change once it was read, and a definition that was
  edited has none of the nodes that were to be deleted.
\<close>

section \<open>Enumerations\<close>

definition is_enum :: "model_type \<Rightarrow> bool" where
  "is_enum t \<longleftrightarrow> kind_property_type (type_kind t) = ENUM"

text \<open>No type below the given one, through functions, events, properties or its own parts, is an enumeration.\<close>

fun no_enum_below :: "model_type \<Rightarrow> bool"
  and no_enum_kind :: "type_kind \<Rightarrow> bool"
  and no_enum_function :: "model_function \<Rightarrow> bool"
  and no_enum_property :: "model_property \<Rightarrow> bool" where
  "no_enum_below (Type _ _ _ _ _ _ fs es ps k) \<longleftrightarrow>
     (\<forall>(_, f) \<in> set fs. no_enum_function f) \<and> (\<forall>(_, e) \<in> set es. no_enum_function e)
     \<and> (\<forall>(_, p) \<in> set ps. no_enum_property p) \<and> no_enum_kind k"
| "no_enum_kind (ArrayOf t) \<longleftrightarrow> \<not> is_enum t \<and> no_enum_below t"
| "no_enum_kind (ChoiceOf ts) \<longleftrightarrow> (\<forall>t \<in> set ts. \<not> is_enum t \<and> no_enum_below t)"
| "no_enum_kind (ObjectOf x) \<longleftrightarrow> (case x of Some t \<Rightarrow> \<not> is_enum t \<and> no_enum_below t | None \<Rightarrow> True)"
| "no_enum_kind (FunctionOf f) \<longleftrightarrow> no_enum_function f"
| "no_enum_kind (RefTo _) \<longleftrightarrow> True"
| "no_enum_kind (EnumOf _ _) \<longleftrightarrow> True"
| "no_enum_kind (Plain _) \<longleftrightarrow> True"
| "no_enum_function (Function _ _ _ fs ps cb r _) \<longleftrightarrow>
     (\<forall>p \<in> set fs. no_enum_property p) \<and> (\<forall>p \<in> set ps. no_enum_property p)
     \<and> (case cb of Some f \<Rightarrow> no_enum_function f | None \<Rightarrow> True)
     \<and> (case r of Some t \<Rightarrow> \<not> is_enum t \<and> no_enum_below t | None \<Rightarrow> True)"
| "no_enum_property (Property _ _ _ _ _ _ t) \<longleftrightarrow> \<not> is_enum t \<and> no_enum_below t"

text \<open>The property of a namespace: its own type may be an enumeration.\<close>

definition property_below :: "model_property \<Rightarrow> bool" where
  "property_below p \<longleftrightarrow> no_enum_below (property_model_type p)"

lemma no_enum_property_iff:
  "no_enum_property p \<longleftrightarrow> \<not> is_enum (property_model_type p) \<and> no_enum_below (property_model_type p)"
  by (cases p) simp

lemma map_res_all:
  assumes "map_res f xs = Inr ys" and "\<And>x y. x \<in> set xs \<Longrightarrow> f x = Inr y \<Longrightarrow> P y"
  shows "\<forall>y \<in> set ys. P y"
  using assms
proof (induction xs arbitrary: ys)
  case (Cons x xs)
  from Cons.prems(1) obtain y zs where "f x = Inr y" "map_res f xs = Inr zs" "ys = y # zs"
    by (auto simp: bind_res_Inr_iff)
  moreover have "\<forall>z \<in> set zs. P z" 
    by (rule Cons.IH [OF \<open>map_res f xs = Inr zs\<close>]) (rule Cons.prems(2) [OF list.set_intros(2)])
  ultimately show ?case using Cons.prems(2) [of x y] by simp
qed simp

lemma each_named_all:
  assumes "each_named e field key mk d = Inr xs"
    and "\<And>n j x. json_size j < json_size (JDict d) \<Longrightarrow> mk n j = Inr x \<Longrightarrow> P x"
  shows "\<forall>(_, x) \<in> set xs. P x"
proof -
  from assms(1) obtain js where js: "as_list (dict_get d field) = Inr js"
    and xs: "map_res (\<lambda>j. bind_res (json_item j key) (\<lambda>n. bind_res (as_str e n) (\<lambda>n. bind_res (mk n j) (\<lambda>x. Inr (n, x))))) js = Inr xs"
    by (auto simp: each_named_def bind_res_Inr_iff)
  show ?thesis
    by (rule map_res_all [OF xs]) (auto simp: bind_res_Inr_iff intro: assms(2) as_list_smaller [OF js])
qed

lemma each_property_all:
  assumes "each_property mk d = Inr xs"
    and "\<And>n j x. json_size j < json_size (JDict d) \<Longrightarrow> mk n j = Inr x \<Longrightarrow> P x"
  shows "\<forall>(_, x) \<in> set xs. P x"
proof -
  from assms(1) obtain ps where ps: "as_dict (field_or d ''properties'' (JDict [])) = Inr ps"
    and xs: "map_res (\<lambda>(n, j). bind_res (mk n j) (\<lambda>x. Inr (n, x))) ps = Inr xs"
    by (auto simp: each_property_def bind_res_Inr_iff)
  show ?thesis
    by (rule map_res_all [OF xs]) (auto simp: bind_res_Inr_iff intro: assms(2) property_json_smaller [OF ps])
qed

lemma each_param_all:
  assumes "each_param mk d = Inr xs"
    and "\<And>n j x. json_size j < json_size (JDict d) \<Longrightarrow> mk n j = Inr x \<Longrightarrow> P x"
  shows "\<forall>x \<in> set xs. P x"
proof -
  from assms(1) obtain ps where ps: "as_list (dict_get d ''parameters'') = Inr ps"
    and xs: "map_res (\<lambda>step. bind_res step (\<lambda>p. bind_res (json_item p ''name'') (\<lambda>n. bind_res (as_str TypeError n) (\<lambda>n. mk n p))))
         (fst (param_steps None ps)) = Inr xs"
    by (auto simp: each_param_def bind_res_Inr_iff)
  show ?thesis
    by (rule map_res_all [OF xs])
      (auto simp: bind_res_Inr_iff dest!: param_steps_mem [OF disjI1] intro: assms(2) as_list_smaller [OF ps])
qed

lemma each_choice_all:
  assumes "each_choice ns mk d = Inr xs"
    and "\<And>n j x. json_size j < json_size (JDict d) \<Longrightarrow> mk n j = Inr x \<Longrightarrow> P x"
  shows "\<forall>x \<in> set xs. P x"
proof -
  from assms(1) obtain cs where cs: "as_list (dict_get d ''choices'') = Inr cs"
    and xs: "map_res (\<lambda>(i, c). bind_res (choice_name ns i c) (\<lambda>n. mk n c)) (enumerate 0 cs) = Inr xs"
    by (auto simp: each_choice_def bind_res_Inr_iff)
  show ?thesis
    by (rule map_res_all [OF xs])
      (auto simp: bind_res_Inr_iff in_set_enumerate_eq intro: assms(2) [OF as_list_smaller [OF cs nth_mem]])
qed

lemma ordered_all: "\<forall>(_, x) \<in> set xs. P x \<Longrightarrow> \<forall>(_, x) \<in> set (ordered xs). P x"
proof -
  have "\<forall>(_, x) \<in> set xs. P x \<Longrightarrow> \<forall>(_, x) \<in> set ys. P x \<Longrightarrow> \<forall>(_, x) \<in> set (fold (\<lambda>(k, v). dict_set k v) xs ys). P x" for ys
  proof (induction xs arbitrary: ys)
    case (Cons kv xs)
    have "set (AList.update k v zs) \<subseteq> insert (k, v) (set zs)" for k v and zs :: "('a \<times> 'b) list"
      by (induction zs) auto
    with Cons show ?case by (cases kv) (auto intro!: Cons.IH, blast)
  qed simp
  from this [of "[]"] show "\<forall>(_, x) \<in> set xs. P x \<Longrightarrow> ?thesis" by (simp add: ordered_def)
qed


text \<open>What holds of every definition below a given size, by induction on the size.\<close>

definition safe_function :: "naming \<Rightarrow> json \<Rightarrow> bool" where
  "safe_function ns j \<longleftrightarrow> (\<forall>name org f. new_function ns name j org = Inr f \<longrightarrow> no_enum_function f)"

definition safe_type :: "naming \<Rightarrow> json \<Rightarrow> bool" where
  "safe_type ns j \<longleftrightarrow> (\<forall>par name org t. new_type ns par name j org = Inr t \<longrightarrow> no_enum_below t \<and> (is_enum t \<longrightarrow> par))"

definition safe_property :: "naming \<Rightarrow> json \<Rightarrow> bool" where
  "safe_property ns j \<longleftrightarrow>
     (\<forall>par name org p. new_property ns par name j org = Inr p \<longrightarrow> property_below p \<and> (\<not> par \<longrightarrow> no_enum_property p))"

definition safe_below :: "naming \<Rightarrow> nat \<Rightarrow> bool" where
  "safe_below ns n \<longleftrightarrow> (\<forall>j. json_size j < n \<longrightarrow> safe_function ns j \<and> safe_type ns j \<and> safe_property ns j)"

lemma safe_belowD:
  assumes "safe_below ns n" and "json_size j < n"
  shows "new_function ns name j org = Inr f \<Longrightarrow> no_enum_function f"
    and "new_type ns False name j org = Inr t \<Longrightarrow> no_enum_below t \<and> \<not> is_enum t"
    and "new_property ns False name j org = Inr p \<Longrightarrow> no_enum_property p"
  using assms unfolding safe_below_def safe_function_def safe_type_def safe_property_def by blast+

lemma function_step:
  assumes "safe_below ns (json_size j)"
  shows "safe_function ns j"
  unfolding safe_function_def
proof (intro allI impI)
  fix name org f assume "new_function ns name j org = Inr f"
  from this [unfolded new_function.simps [of ns name j org]] obtain d plats opts filters params cb ret where j: "j = JDict d"
    and filters: "each_named TypeError ''filters'' ''name'' (\<lambda>n pj. new_property ns False n pj org) d = Inr filters"
    and params: "each_param (\<lambda>n pj. new_property ns False n pj org) d = Inr params"
    and cb: "(case callback_param d of None \<Rightarrow> Inr None | Some p \<Rightarrow> bind_res (json_item p ''name'') (\<lambda>n.
               bind_res (as_str AttributeError n) (\<lambda>n. bind_res (new_function ns n p (Origin True False)) (\<lambda>f. Inr (Some f))))) = Inr cb"
    and ret: "(if dict_get d ''returns'' = None then Inr None else bind_res (json_item (JDict d) ''returns'') (\<lambda>r.
               bind_res (new_type ns False (name @ ''ReturnType'') r org) (\<lambda>t. Inr (Some t)))) = Inr ret"
    and f: "f = Function name (model_StripNamespace name (ns_name ns)) plats (map snd filters) params cb ret opts"
    by (auto elim!: bind_res_InrE simp: as_dict_Inr)
  note smaller = safe_belowD [OF assms, unfolded j]
  have "\<forall>(_, p) \<in> set filters. no_enum_property p" by (rule each_named_all [OF filters]) (rule smaller(3))
  moreover have "\<forall>p \<in> set params. no_enum_property p" by (rule each_param_all [OF params]) (rule smaller(3))
  moreover have "case cb of Some f \<Rightarrow> no_enum_function f | None \<Rightarrow> True"
    using cb by (auto simp: bind_res_Inr_iff split: option.splits intro: smaller(1) callback_param_smaller)
  moreover have "case ret of Some t \<Rightarrow> \<not> is_enum t \<and> no_enum_below t | None \<Rightarrow> True"
    using ret smaller(2) json_item_smaller by (fastforce simp: bind_res_Inr_iff split: if_splits)
  ultimately show "no_enum_function f" unfolding f by auto
qed

text \<open>How the kind of a type is made.\<close>

definition type_kind_of :: "naming \<Rightarrow> bool \<Rightarrow> string \<Rightarrow> json_dict \<Rightarrow> origin \<Rightarrow> type_kind res" where
  "type_kind_of ns par name d org =
     (if dict_get d ''type'' = Some (JStr ''array'')
      then bind_res (json_item (JDict d) ''items'') (\<lambda>i.
           bind_res (new_type ns False (name @ ''Type'') i org) (\<lambda>t. Inr (ArrayOf t)))
      else if dict_get d ''$ref'' \<noteq> None then Inr (RefTo (field_or d ''$ref'' JNull))
      else if dict_get d ''enum'' \<noteq> None \<and> dict_get d ''type'' = Some (JStr ''string'')
      then if \<not> allow_inline_enums ns \<and> \<not> par then Inl ParseException
           else bind_res (as_list (dict_get d ''enum'')) (\<lambda>vs.
                bind_res (map_res EnumValue vs) (\<lambda>es. Inr (EnumOf es (dict_get d ''cpp_enum_prefix_override''))))
      else if simple_kind (dict_get d ''type'') \<noteq> None then Inr (Plain (the (simple_kind (dict_get d ''type''))))
      else if dict_get d ''choices'' \<noteq> None
      then bind_res (each_choice ns (\<lambda>n cj. new_type ns False n cj org) d) (\<lambda>cs. Inr (ChoiceOf cs))
      else if dict_get d ''type'' = Some (JStr ''object'')
      then if list_all (\<lambda>k. dict_get d k = None)
                [''isInstanceOf'', ''properties'', ''additionalProperties'', ''functions'', ''events'']
           then Inl ParseException
           else if field_or d ''additionalProperties'' JNull = JNull then Inr (ObjectOf None)
           else bind_res (json_item (JDict d) ''additionalProperties'') (\<lambda>a.
                bind_res (new_type ns False ''additionalProperties'' a org) (\<lambda>t. Inr (ObjectOf (Some t))))
      else if dict_get d ''type'' = Some (JStr ''function'')
      then bind_res (as_str AttributeError (field_or d ''name'' (JStr name))) (\<lambda>function_name.
           bind_res (new_function ns function_name (JDict d) org) (\<lambda>f. Inr (FunctionOf f)))
      else Inl ParseException)"

lemma simple_kind_not_enum: "simple_kind t \<noteq> Some ENUM"
  by (simp add: simple_kind_def)

lemma kind_step:
  assumes smaller: "safe_below ns (json_size (JDict d))" and inline: "\<not> allow_inline_enums ns"
    and kind: "type_kind_of ns par name d org = Inr k"
  shows "no_enum_kind k \<and> (kind_property_type k = ENUM \<longrightarrow> par)"
proof -
  note below = safe_belowD(2) [OF smaller] and item = json_item_smaller [of "JDict d"]
  have choices: "\<forall>t \<in> set cs. no_enum_below t \<and> \<not> is_enum t"
    if "each_choice ns (\<lambda>n cj. new_type ns False n cj org) d = Inr cs" for cs
    by (rule each_choice_all [OF that]) (rule below)
  have fn: "no_enum_function f" if "new_function ns n (JDict d) org = Inr f" for n f
    using function_step [OF smaller] that by (auto simp: safe_function_def)
  show ?thesis
    using kind inline below [OF item] choices fn simple_kind_not_enum [of "dict_get d ''type''"]
    unfolding type_kind_of_def by (auto split: if_splits elim!: bind_res_InrE)
qed

lemma type_step:
  assumes "safe_below ns (json_size j)" and "\<not> allow_inline_enums ns"
  shows "safe_type ns j"
  unfolding safe_type_def
proof (intro allI impI)
  fix par name org t assume "new_type ns par name j org = Inr t"
  from this [unfolded new_type.simps [of ns par name j org], folded type_kind_of_def] obtain d fs es ps k
    where j: "j = JDict d"
      and fs: "each_named AttributeError ''functions'' ''name'' (\<lambda>n fj. new_function ns n fj (Origin False True)) d = Inr fs"
      and es: "each_named AttributeError ''events'' ''name'' (\<lambda>n fj. new_function ns n fj (Origin True False)) d = Inr es"
      and ps: "each_property (\<lambda>n pj. new_property ns False n pj org) d = Inr ps"
      and k: "type_kind_of ns par name d org = Inr k"
      and t: "t = Type name (model_StripNamespace name (ns_name ns)) (UnixName name) (dict_get d ''description'') org
                (dict_get d ''isInstanceOf'') (ordered fs) (ordered es) (ordered ps) k"
    by (auto elim!: bind_res_InrE simp: as_dict_Inr)
  note smaller = safe_belowD [OF assms(1), unfolded j]
  have "\<forall>(_, f) \<in> set (ordered fs). no_enum_function f"
    by (rule ordered_all, rule each_named_all [OF fs]) (rule smaller(1))
  moreover have "\<forall>(_, f) \<in> set (ordered es). no_enum_function f"
    by (rule ordered_all, rule each_named_all [OF es]) (rule smaller(1))
  moreover have "\<forall>(_, p) \<in> set (ordered ps). no_enum_property p"
    by (rule ordered_all, rule each_property_all [OF ps]) (rule smaller(3))
  moreover have "no_enum_kind k \<and> (kind_property_type k = ENUM \<longrightarrow> par)"
    using kind_step [OF _ assms(2) k] assms(1) j by simp
  ultimately show "no_enum_below t \<and> (is_enum t \<longrightarrow> par)" by (simp add: t is_enum_def)
qed

lemma property_step:
  assumes "\<And>i. json_size i = json_size j \<Longrightarrow> safe_type ns i"
  shows "safe_property ns j"
  unfolding safe_property_def
proof (intro allI impI)
  fix par name org p assume "new_property ns par name j org = Inr p"
  from this [unfolded new_property.simps [of ns par name j org]] obtain d v d' t where j: "j = JDict d"
    and d': "property_value d = Inr (v, d')" and t: "new_type ns par name (JDict d') org = Inr t"
    and p: "property_model_type p = t"
    by (auto elim!: bind_res_InrE simp: as_dict_Inr)
  have "safe_type ns (JDict d')" by (rule assms) (simp add: j property_value_size [OF d'] del: json_size.simps)
  with t p show "property_below p \<and> (\<not> par \<longrightarrow> no_enum_property p)" by (auto simp: safe_type_def property_below_def no_enum_property_iff)
qed

lemma definitions_safe:
  assumes "\<not> allow_inline_enums ns"
  shows "safe_below ns n"
proof (induction n)
  case (Suc n)
  have "safe_function ns j \<and> safe_type ns j" if "json_size j = n" for j
    using Suc function_step [of ns j] type_step [of ns j] assms that by simp
  then have "safe_function ns j \<and> safe_type ns j \<and> safe_property ns j" if "json_size j = n" for j
    using property_step [of j ns] that by simp
  with Suc show ?case by (auto simp: safe_below_def less_Suc_eq)
qed (simp add: safe_below_def)

text \<open>The enumerations of a namespace are its own types and the types of its own properties.\<close>

definition enums_on_top :: "namespace \<Rightarrow> bool" where
  "enums_on_top ns \<longleftrightarrow>
     (\<forall>(_, t) \<in> set (namespace_types ns). no_enum_below t)
     \<and> (\<forall>(_, f) \<in> set (namespace_functions ns). no_enum_function f)
     \<and> (\<forall>(_, e) \<in> set (namespace_events ns). no_enum_function e)
     \<and> (\<forall>(_, p) \<in> set (namespace_properties ns). property_below p)"

lemma Namespace_enums:
  assumes "Namespace text_of j src opts pattern False = Inr ns"
  shows "enums_on_top ns"
proof -
  obtain d name ts fs es ps where
      ts: "each_named AttributeError ''types'' ''id''
             (\<lambda>n tj. new_type \<lparr>ns_name = name, allow_inline_enums = False, shown = text_of\<rparr> True n tj (Origin True True)) d = Inr ts"
      and fs: "each_named AttributeError ''functions'' ''name''
             (\<lambda>n fj. new_function \<lparr>ns_name = name, allow_inline_enums = False, shown = text_of\<rparr> n fj (Origin False True)) d = Inr fs"
      and es: "each_named AttributeError ''events'' ''name''
             (\<lambda>n fj. new_function \<lparr>ns_name = name, allow_inline_enums = False, shown = text_of\<rparr> n fj (Origin True False)) d = Inr es"
      and ps: "each_property
             (\<lambda>n pj. new_property \<lparr>ns_name = name, allow_inline_enums = False, shown = text_of\<rparr> True n pj (Origin True True)) d = Inr ps"
      and ns: "namespace_types ns = ordered ts" "namespace_functions ns = ordered fs" "namespace_events ns = ordered es"
        "namespace_properties ns = ordered ps"
    using assms by (auto simp: Namespace_def Let_def elim!: bind_res_InrE)
  let ?ns = "\<lparr>ns_name = name, allow_inline_enums = False, shown = text_of\<rparr>"
  have "safe_function ?ns i \<and> safe_type ?ns i \<and> safe_property ?ns i" for i
    using definitions_safe [of ?ns "Suc (json_size i)"] by (simp add: safe_below_def)
  then have safe: "new_function ?ns n i org = Inr f \<Longrightarrow> no_enum_function f" "new_type ?ns True n i org = Inr t \<Longrightarrow> no_enum_below t"
    "new_property ?ns True n i org = Inr p \<Longrightarrow> property_below p" for n i org f t p
    unfolding safe_function_def safe_type_def safe_property_def by blast+
  show ?thesis
    unfolding enums_on_top_def ns
    by (intro conjI ordered_all each_named_all [OF ts] each_named_all [OF fs] each_named_all [OF es] each_property_all [OF ps])
      (erule safe)+
qed

text \<open>
  C23: in a model that does not allow inline enumerations, every namespace that was added has
  enumerations only as its own types and as the types of its own properties: no parameter, result,
  callback, array, choice or member of an object is one. The namespace is found in the model by its name.
\<close>

theorem inline_enums_rejected:
  assumes "AddNamespace text_of j src opts pattern m = (Inr ns, m')" and "\<not> model_inline_enums m"
  shows "enums_on_top ns \<and> dict_get (namespaces m') (namespace_name ns) = Some ns"
proof -
  from assms have "Namespace text_of j src opts pattern False = Inr ns"
    and "m' = m\<lparr>namespaces := dict_set (namespace_name ns) ns (namespaces m)\<rparr>"
    by (auto simp: AddNamespace_def py_defs split: sum.splits)
  then show ?thesis using Namespace_enums by simp
qed

definition sample_enum :: json where
  "sample_enum = JDict [(''id'', JStr ''Color''), (''name'', JStr ''color''), (''type'', JStr ''string''), (''enum'', JList [JStr ''red'', JStr ''blue''])]"

definition sample_ref :: json where
  "sample_ref = JDict [(''name'', JStr ''color''), (''$ref'', JStr ''Color'')]"

definition sample_api :: "json \<Rightarrow> json" where
  "sample_api param = JDict [(''namespace'', JStr ''paint''), (''description'', JStr []), (''types'', JList [sample_enum]),
     (''functions'', JList [JDict [(''name'', JStr ''fill''), (''type'', JStr ''function''), (''parameters'', JList [param])]])]"

lemma sample_api_added:
  "isl (fst (AddNamespace (\<lambda>_. []) (sample_api sample_ref) ''paint.json'' False None (Model False))) = False"
  by code_simp

lemma sample_api_inline:
  "fst (AddNamespace (\<lambda>_. []) (sample_api sample_enum) ''paint.json'' False None (Model False)) = Inl ParseException"
  by code_simp

theorem inline_enums_rejected_witness:
  "\<exists>ns m. AddNamespace (\<lambda>_. []) (sample_api sample_ref) ''paint.json'' False None (Model False) = (Inr ns, m)
     \<and> enums_on_top ns \<and> dict_get (namespaces m) (namespace_name ns) = Some ns"
proof -
  obtain ns m where added: "AddNamespace (\<lambda>_. []) (sample_api sample_ref) ''paint.json'' False None (Model False) = (Inr ns, m)"
    using sample_api_added
    by (cases "AddNamespace (\<lambda>_. []) (sample_api sample_ref) ''paint.json'' False None (Model False)";
        cases "fst (AddNamespace (\<lambda>_. []) (sample_api sample_ref) ''paint.json'' False None (Model False))") auto
  from inline_enums_rejected [OF added] added show ?thesis by (auto simp: Model_def)
qed

section \<open>Unix names\<close>

datatype name_use = ReadName | WriteName string

text \<open>The names that the readings return, in a sequence of uses.\<close>

fun names_read :: "name_use list \<Rightarrow> model_property \<Rightarrow> string list" where
  "names_read [] p = []"
| "names_read (ReadName # ops) p =
     (case GetUnixName p of (Inr n, q) \<Rightarrow> n # names_read ops q | (Inl _, q) \<Rightarrow> names_read ops q)"
| "names_read (WriteName n # ops) p = names_read ops (snd (SetUnixName n p))"

lemma names_read_used:
  "unix_name_used p \<Longrightarrow> set (names_read ops p) \<subseteq> {private_unix_name p}"
proof (induction ops arbitrary: p)
  case (Cons op ops)
  obtain name u b org s i t where p: "p = Property name u b org s i t" by (cases p)
  with Cons.prems Cons.IH [of p] show ?case by (cases op) (auto simp: GetUnixName_def SetUnixName_def)
qed simp

lemma names_read_same: "\<exists>n. set (names_read ops p) \<subseteq> {n}"
proof (induction ops arbitrary: p)
  case (Cons op ops)
  obtain name u b org s i t where p: "p = Property name u b org s i t" by (cases p)
  show ?case
  proof (cases op)
    case ReadName
    show ?thesis
    proof (cases "u = []")
      case True
      with ReadName Cons.IH [of p] show ?thesis by (simp add: p GetUnixName_def)
    next
      case False
      with ReadName names_read_used [of "Property name u True org s i t" ops] show ?thesis
        by (auto simp: p GetUnixName_def intro!: exI [of _ u])
    qed
  qed (use Cons.IH in simp)
qed simp

text \<open>
  C35: whatever is read from and written to the unix name of a property, in whatever order, all the
  readings return the same name: once it was read it does not change.
\<close>

theorem unix_name_never_changes: "\<exists>n. set (names_read ops p) \<subseteq> {n}"
  by (rule names_read_same)

section \<open>Deleted nodes\<close>

text \<open>A dictionary with the key somewhere below the value.\<close>

fun key_below :: "string \<Rightarrow> json \<Rightarrow> bool" where
  "key_below key (JDict d) \<longleftrightarrow> (\<exists>(_, v) \<in> set d. ShouldDelete (Some key) None v \<or> key_below key v)"
| "key_below key (JList xs) \<longleftrightarrow> (\<exists>v \<in> set xs. ShouldDelete (Some key) None v \<or> key_below key v)"
| "key_below key _ \<longleftrightarrow> False"

lemma delete_nodes_none: "\<not> key_below key j \<Longrightarrow> delete_nodes (ShouldDelete (Some key) None) j = j"
proof (induction "ShouldDelete (Some key) None" j rule: delete_nodes.induct)
  case (1 d)
  then have kept: "filter (\<lambda>(k, v). \<not> ShouldDelete (Some key) None v) d = d" by (auto simp: filter_id_conv)
  have "map (\<lambda>(k, v). (k, delete_nodes (ShouldDelete (Some key) None) v)) d = d"
    using 1 kept by (intro map_idI) fastforce
  with kept show ?case by simp
next
  case (2 xs)
  then have "filter (\<lambda>v. \<not> ShouldDelete (Some key) None v) xs = xs" by (auto simp: filter_id_conv)
  with 2 show ?case by (auto intro!: map_idI)
qed simp_all

lemma delete_nodes_keeps_top:
  "\<not> ShouldDelete (Some key) None j \<Longrightarrow> \<not> ShouldDelete (Some key) None (delete_nodes should j)"
  by (cases j) (auto simp: ShouldDelete_def map_of_eq_None_iff image_iff split: prod.splits)

lemma delete_nodes_no_key: "\<not> key_below key (delete_nodes (ShouldDelete (Some key) None) j)"
  by (induction "ShouldDelete (Some key) None" j rule: delete_nodes.induct) (auto simp: delete_nodes_keeps_top)

text \<open>
  after the deletion by a key no dictionary below the root has the key, and a second deletion
  changes nothing.
\<close>

theorem deleted_keys_are_gone:
  "\<exists>j. DeleteNodes item (Some key) None = Inr j \<and> \<not> key_below key j \<and> DeleteNodes j (Some key) None = Inr j"
  by (simp add: DeleteNodes_def delete_nodes_no_key delete_nodes_none)

section \<open>Loaded files\<close>



end
