(* ===== verification/Schema_Cpp_Types.thy ===== *)
theory Schema_Cpp_Types
  imports Schema_Namespace
begin

text \<open>
  \<^verbatim>\<open>tools/json_schema_compiler/cpp_type_generator.py\<close>: the C++ types of the types of an API, what a
  namespace depends on, and the constants of its properties.
\<close>

section \<open>Runs\<close>

text \<open>
  What a generator does: it returns, raises or, where it writes a comment in too narrow a block, does
  not end.
\<close>

datatype stop = Raised py_error | Forever

type_synonym 'a run = "stop + 'a"

definition bind_run :: "'a run \<Rightarrow> ('a \<Rightarrow> 'b run) \<Rightarrow> 'b run" where
  "bind_run r f = (case r of Inl e \<Rightarrow> Inl e | Inr x \<Rightarrow> f x)"

definition run_res :: "'a res \<Rightarrow> 'a run" where
  "run_res r = (case r of Inl e \<Rightarrow> Inl (Raised e) | Inr x \<Rightarrow> Inr x)"

definition run_opt :: "'a option \<Rightarrow> 'a run" where
  "run_opt r = (case r of None \<Rightarrow> Inl Forever | Some x \<Rightarrow> Inr x)"

lemma run_simps [simp]:
  "bind_run (Inl e) f = Inl e" "bind_run (Inr x) f = f x"
  "run_res (Inl e') = Inl (Raised e')" "run_res (Inr x) = Inr x"
  "run_opt None = Inl Forever" "run_opt (Some x) = Inr x"
  by (simp_all add: bind_run_def run_res_def run_opt_def)

lemma run_Inr_iff:
  "bind_run r f = Inr y \<longleftrightarrow> (\<exists>x. r = Inr x \<and> f x = Inr y)"
  "run_res s = Inr y \<longleftrightarrow> s = Inr y"
  "run_opt q = Inr y \<longleftrightarrow> q = Some y"
  by (cases r; cases s; cases q; simp)+

lemma bind_run_InrE:
  assumes "bind_run r f = Inr y"
  obtains x where "r = Inr x" and "f x = Inr y"
  using assms by (auto simp: run_Inr_iff)

lemma bind_run_cong [fundef_cong]:
  "r = r' \<Longrightarrow> (\<And>x. r' = Inr x \<Longrightarrow> f x = f' x) \<Longrightarrow> bind_run r f = bind_run r' f'"
  by (cases r') auto

fun fold_run :: "('a \<Rightarrow> 's \<Rightarrow> 's run) \<Rightarrow> 'a list \<Rightarrow> 's \<Rightarrow> 's run" where
  "fold_run f [] s = Inr s"
| "fold_run f (x # xs) s = bind_run (f x s) (fold_run f xs)"

lemma fold_run_cong [fundef_cong]:
  "xs = ys \<Longrightarrow> s = t \<Longrightarrow> (\<And>x s. x \<in> set ys \<Longrightarrow> f x s = g x s) \<Longrightarrow> fold_run f xs s = fold_run g ys t"
proof (induction xs arbitrary: ys s t)
  case (Cons x xs)
  have "f x t = g x t" using Cons.prems by auto
  moreover have "fold_run f xs u = fold_run g xs u" for u using Cons.prems by (intro Cons.IH) auto
  moreover have "fold_run f xs = fold_run g xs" using calculation(2) by (rule ext)
  ultimately show ?case using Cons.prems(1,2) by auto
qed simp

lemma fold_run_invariant:
  assumes "fold_run f xs s = Inr t" and "P s" and "\<And>x s t. f x s = Inr t \<Longrightarrow> P s \<Longrightarrow> P t"
  shows "P t"
  using assms(1,2) by (induction xs arbitrary: s) (auto simp: run_Inr_iff intro: assms(3))

section \<open>The generator\<close>

text \<open>
  The namespace that a type belongs to. The generator compares namespaces by identity: a name without
  a dot is looked up in the namespace of the generator itself, a name with a dot in a namespace that
  the loader makes anew each time. \<open>call_limit\<close> is the number of nested calls of the recursive methods that the
  interpreter allows.
\<close>

datatype type_owner = DefaultNs | LoadedNs namespace

type_synonym owned_type = "type_owner \<times> model_type"

record cpp_generator =
  default_namespace :: namespace
  gen_env :: schema_env
  gen_loader :: schema_loader
  call_limit :: nat

definition owner_namespace :: "cpp_generator \<Rightarrow> type_owner \<Rightarrow> namespace" where
  "owner_namespace gen ow = (case ow of DefaultNs \<Rightarrow> default_namespace gen | LoadedNs ns \<Rightarrow> ns)"

text \<open>Without a default namespace the first one of the model is taken.\<close>

definition CppTypeGenerator :: "api_model \<Rightarrow> schema_env \<Rightarrow> schema_loader \<Rightarrow> nat \<Rightarrow> namespace option \<Rightarrow> cpp_generator res" where
  "CppTypeGenerator model env loader limit given =
     (let gen = (\<lambda>ns. \<lparr>default_namespace = ns, gen_env = env, gen_loader = loader, call_limit = limit\<rparr>) in
      case given of
        Some ns \<Rightarrow> Inr (gen ns)
      | None \<Rightarrow> (case namespaces model of [] \<Rightarrow> Inl IndexError | (_, ns) # _ \<Rightarrow> Inr (gen ns)))"

definition FindType :: "cpp_generator \<Rightarrow> json \<Rightarrow> owned_type res" where
  "FindType gen ref =
     bind_res (as_str AttributeError ref) (\<lambda>full_name.
     bind_res (ResolveType (gen_env gen) (gen_loader gen) full_name (default_namespace gen)) (\<lambda>found.
       case found of
         None \<Rightarrow> Inl KeyError
       | Some ns \<Rightarrow>
           (case dict_get (namespace_types ns) (StripNamespace full_name) of
              None \<Rightarrow> Inl KeyError
            | Some t \<Rightarrow> Inr (if GetNamespace full_name = None then DefaultNs else LoadedNs ns, t))))"

fun follow_ref :: "nat \<Rightarrow> cpp_generator \<Rightarrow> owned_type \<Rightarrow> owned_type res" where
  "follow_ref 0 gen t = Inl RuntimeError"
| "follow_ref (Suc n) gen t =
     (case type_kind (snd t) of
        RefTo ref \<Rightarrow> bind_res (FindType gen ref) (follow_ref n gen)
      | _ \<Rightarrow> Inr t)"

definition FollowRef :: "cpp_generator \<Rightarrow> owned_type \<Rightarrow> owned_type res" where
  "FollowRef gen t = follow_ref (call_limit gen) gen t"

definition GetEnumNoneValue :: "cpp_generator \<Rightarrow> owned_type \<Rightarrow> string res" where
  "GetEnumNoneValue gen t =
     bind_res (FollowRef gen t) (\<lambda>(_, t). Inr (map to_upper (type_unix_name t) @ ''_NONE''))"

definition GetEnumLastValue :: "cpp_generator \<Rightarrow> owned_type \<Rightarrow> string res" where
  "GetEnumLastValue gen t =
     bind_res (FollowRef gen t) (\<lambda>(_, t). Inr (map to_upper (type_unix_name t) @ ''_LAST''))"

text \<open>Only an enumeration has the field \<^verbatim>\<open>cpp_enum_prefix_override\<close>.\<close>

definition prefix_override :: "model_type \<Rightarrow> json option res" where
  "prefix_override t = (case type_kind t of EnumOf _ override \<Rightarrow> Inr override | _ \<Rightarrow> Inl AttributeError)"

definition GetEnumValue :: "cpp_generator \<Rightarrow> owned_type \<Rightarrow> enum_value \<Rightarrow> string res" where
  "GetEnumValue gen t ev =
     bind_res (as_str AttributeError (enum_name ev)) (\<lambda>name.
     bind_res (Classname (map to_upper name)) (\<lambda>value.
     bind_res (prefix_override (snd t)) (\<lambda>override.
     bind_res
       (case override of
          Some j \<Rightarrow> if json_true j then as_str AttributeError j
                    else bind_res (FollowRef gen t) (\<lambda>(_, t). Inr (type_unix_name t))
        | None \<Rightarrow> bind_res (FollowRef gen t) (\<lambda>(_, t). Inr (type_unix_name t))) (\<lambda>pre.
     let value = map to_upper pre @ ''_'' @ value in
     Inr (if startswith value ''OS_'' then value @ ''_'' else value)))))"

text \<open>The C++ namespace of a namespace with an environment.\<close>

definition cpp_namespace_of :: "cpp_generator \<Rightarrow> namespace \<Rightarrow> string res" where
  "cpp_namespace_of gen ns =
     (case environment ns of
        None \<Rightarrow> Inl AttributeError
      | Some pattern \<Rightarrow>
          GetCppNamespace (json_shown (gen_env gen) (JDict [(''namespace'', JStr (namespace_unix_name ns))])) pattern
            (namespace_unix_name ns))"

definition class_type :: "cpp_generator \<Rightarrow> owned_type \<Rightarrow> string res" where
  "class_type gen t =
     (case fst t of
        DefaultNs \<Rightarrow> Classname (type_name (snd t))
      | LoadedNs ns \<Rightarrow>
          bind_res (cpp_namespace_of gen ns) (\<lambda>cpp_namespace.
          bind_res (Classname (type_name (snd t))) (\<lambda>name. Inr (cpp_namespace @ ''::'' @ name))))"

definition plain_cpp_type :: "property_type \<Rightarrow> string res" where
  "plain_cpp_type t =
     (case t of BOOLEAN \<Rightarrow> Inr ''bool'' | INTEGER \<Rightarrow> Inr ''int'' | INT64 \<Rightarrow> Inr ''int64_t'' | DOUBLE \<Rightarrow> Inr ''double''
      | STRING \<Rightarrow> Inr ''std::string'' | ANY \<Rightarrow> Inr ''base::Value'' | FUNCTION \<Rightarrow> Inr ''base::DictionaryValue''
      | BINARY \<Rightarrow> Inr ''std::vector<char>'' | _ \<Rightarrow> Inl NotImplementedError)"

definition wrap_pointer :: "bool \<Rightarrow> bool \<Rightarrow> string \<Rightarrow> string" where
  "wrap_pointer is_ptr is_in_container cpp_type =
     (if is_ptr \<or> (is_in_container \<and> cpp_type \<in> {''base::Value'', ''base::DictionaryValue''})
      then ''std::unique_ptr<'' @ PadForGenerics cpp_type @ ''>'' else cpp_type)"

fun get_cpp_type :: "nat \<Rightarrow> cpp_generator \<Rightarrow> bool \<Rightarrow> bool \<Rightarrow> owned_type \<Rightarrow> string res" where
  "get_cpp_type 0 gen is_ptr is_in_container t = Inl RuntimeError"
| "get_cpp_type (Suc n) gen is_ptr is_in_container t =
     bind_res
       (case type_kind (snd t) of
          RefTo ref \<Rightarrow> bind_res (FindType gen ref) (get_cpp_type n gen False False)
        | EnumOf _ _ \<Rightarrow> class_type gen t
        | ObjectOf _ \<Rightarrow> class_type gen t
        | ChoiceOf _ \<Rightarrow> class_type gen t
        | ArrayOf item \<Rightarrow>
            bind_res (get_cpp_type n gen False True (fst t, item)) (\<lambda>item_cpp_type.
              Inr (''std::vector<'' @ PadForGenerics item_cpp_type @ ''>''))
        | FunctionOf _ \<Rightarrow> plain_cpp_type FUNCTION
        | Plain p \<Rightarrow> plain_cpp_type p) (\<lambda>cpp_type.
     bind_res (follow_ref n gen t) (\<lambda>(_, target).
       Inr (if kind_property_type (type_kind target) = ENUM then cpp_type
            else wrap_pointer is_ptr is_in_container cpp_type)))"

definition GetCppType :: "cpp_generator \<Rightarrow> bool \<Rightarrow> bool \<Rightarrow> owned_type \<Rightarrow> string res" where
  "GetCppType gen is_ptr is_in_container t = get_cpp_type (call_limit gen) gen is_ptr is_in_container t"

definition IsCopyable :: "cpp_generator \<Rightarrow> owned_type \<Rightarrow> bool res" where
  "IsCopyable gen t =
     bind_res (FollowRef gen t) (\<lambda>(_, t). Inr (kind_property_type (type_kind t) \<notin> {ANY, ARRAY, OBJECT, CHOICES}))"

section \<open>Dependencies\<close>

record type_dependency =
  dep_type :: owned_type
  dep_hard :: bool

definition GetSortKey :: "cpp_generator \<Rightarrow> type_dependency \<Rightarrow> string" where
  "GetSortKey gen dep =
     namespace_name (owner_namespace gen (fst (dep_type dep))) @ ''.'' @ type_name (snd (dep_type dep))"

text \<open>\<^verbatim>\<open>not p.optional\<close>.\<close>

definition required :: "model_property \<Rightarrow> bool" where
  "required p \<longleftrightarrow> (case pi_optional (property_info p) of None \<Rightarrow> True | Some j \<Rightarrow> \<not> json_true j)"

lemma property_type_smaller: "(k, p) \<in> set ps \<Longrightarrow> size (property_model_type p) < size_list (size_prod (\<lambda>x. 0) size) ps"
proof -
  assume "(k, p) \<in> set ps"
  then have "size p \<le> size_list (size_prod (\<lambda>x. 0) size) ps" by (rule size_list_estimation') simp
  moreover have "size (property_model_type p) < size p" by (cases p) simp
  ultimately show ?thesis by simp
qed

text \<open>The dependencies are a set of objects: the same type may be there several times.\<close>

function type_dependencies :: "cpp_generator \<Rightarrow> type_owner \<Rightarrow> model_type \<Rightarrow> bool \<Rightarrow> type_dependency list res" where
  "type_dependencies gen ow (Type n s u d og i fs es ps k) hard =
     (case k of
        RefTo ref \<Rightarrow> bind_res (FindType gen ref) (\<lambda>t. Inr [\<lparr>dep_type = t, dep_hard = hard\<rparr>])
      | ArrayOf item \<Rightarrow> type_dependencies gen ow item hard
      | ChoiceOf choices \<Rightarrow>
          bind_res (map_res (\<lambda>t. bind_res (IsCopyable gen (ow, t)) (type_dependencies gen ow t)) choices) (\<lambda>dss. Inr (concat dss))
      | ObjectOf _ \<Rightarrow>
          bind_res (map_res (\<lambda>(_, p). type_dependencies gen ow (property_model_type p) (required p)) ps) (\<lambda>dss. Inr (concat dss))
      | _ \<Rightarrow> Inr [])"
  by pat_completeness auto
termination
proof (relation "measure (\<lambda>(_, _, t, _). size t)", goal_cases)
  case (3 gen ow n s u d og i fs es ps k hard x1 x)
  then show ?case using size_list_estimation' [of x x1 "size x" size] by auto
next
  case 4
  then show ?case by (auto dest!: property_type_smaller)
qed auto

definition params_dependencies :: "cpp_generator \<Rightarrow> model_property list \<Rightarrow> type_dependency list res" where
  "params_dependencies gen ps =
     bind_res (map_res (\<lambda>p. type_dependencies gen DefaultNs (property_model_type p) (required p)) ps) (\<lambda>dss. Inr (concat dss))"

definition function_dependencies :: "cpp_generator \<Rightarrow> model_function \<Rightarrow> type_dependency list res" where
  "function_dependencies gen f =
     bind_res (params_dependencies gen (params f)) (\<lambda>ds.
     bind_res (case callback f of None \<Rightarrow> Inr [] | Some cb \<Rightarrow> params_dependencies gen (params cb)) (\<lambda>cds. Inr (ds @ cds)))"

text \<open>
  The foreign namespaces with their dependencies, sorted by name. A loaded namespace is a key of its
  own, so every dependency stands alone.
\<close>

definition NamespaceTypeDependencies :: "cpp_generator \<Rightarrow> (namespace \<times> type_dependency list) list res" where
  "NamespaceTypeDependencies gen =
     (let ns = default_namespace gen in
      bind_res (map_res (\<lambda>(_, f). function_dependencies gen f) (namespace_functions ns)) (\<lambda>fds.
      bind_res (map_res (\<lambda>(_, t). params_dependencies gen (map snd (type_properties t))) (namespace_types ns)) (\<lambda>tds.
      bind_res (map_res (\<lambda>(_, e). params_dependencies gen (params e)) (namespace_events ns)) (\<lambda>eds.
      Inr (List.map_filter
             (\<lambda>dep. case fst (dep_type dep) of DefaultNs \<Rightarrow> None | LoadedNs ns \<Rightarrow> Some (ns, [dep]))
             (sort_key (GetSortKey gen) (concat (fds @ tds @ eds))))))))"

definition declare_forward :: "cpp_generator \<Rightarrow> namespace \<times> type_dependency list \<Rightarrow> code_block \<Rightarrow> code_block res" where
  "declare_forward gen nd c =
     (let deps = filter (\<lambda>dep. \<not> dep_hard dep \<and> kind_property_type (type_kind (snd (dep_type dep))) \<in> {CHOICES, OBJECT}) (snd nd) in
      if deps = [] then Inr c
      else bind_res (cpp_namespace_of gen (fst nd)) (\<lambda>cpp_namespace.
           bind_res (Concat (OpenNamespace cpp_namespace) True c) (\<lambda>(c, _).
           let c = fold (\<lambda>dep. append_line (''struct '' @ type_name (snd (dep_type dep)) @ '';'')) deps c in
           bind_res (Concat (CloseNamespace cpp_namespace) True c) (\<lambda>(c, _). Inr c))))"

definition GenerateForwardDeclarations :: "cpp_generator \<Rightarrow> code_block res" where
  "GenerateForwardDeclarations gen =
     bind_res (NamespaceTypeDependencies gen) (\<lambda>nds. fold_res (declare_forward gen) nds Code)"

definition include_lines :: "bool \<Rightarrow> namespace \<times> type_dependency list \<Rightarrow> string list" where
  "include_lines include_soft nd =
     map (\<lambda>_. ''#include '' @ [CHR 0x22] @ source_file_dir (fst nd) @ ''/'' @ namespace_unix_name (fst nd) @ ''.h'' @ [CHR 0x22])
       (filter (\<lambda>dep. dep_hard dep \<or> include_soft) (snd nd))"

definition GenerateIncludes :: "cpp_generator \<Rightarrow> bool \<Rightarrow> code_block res" where
  "GenerateIncludes gen include_soft =
     bind_res (NamespaceTypeDependencies gen) (\<lambda>nds.
       Inr (fold append_line (concat (map (include_lines include_soft) nds)) Code))"

section \<open>Constants\<close>

text \<open>\<^verbatim>\<open>c.Comment(description)\<close>: only a string has a text to be split.\<close>

definition comment_on :: "json option \<Rightarrow> code_block \<Rightarrow> code_block run" where
  "comment_on descr c =
     (case descr of
        Some (JStr s) \<Rightarrow> run_opt (Comment s ''// '' 0 True c)
      | _ \<Rightarrow> Inl (Raised TypeError))"

text \<open>The line of a constant; the value is taken as text.\<close>

definition value_line :: "cpp_generator \<Rightarrow> string \<Rightarrow> model_property \<Rightarrow> json \<Rightarrow> string res" where
  "value_line gen line p v =
     bind_res (GetCppType gen False False (DefaultNs, property_model_type p)) (\<lambda>cpp_type.
       let cpp_value = (if cpp_type = ''std::string'' then [CHR 0x22] @ cpp_type @ [CHR 0x22]
                        else json_text \<lparr>ns_name = [], allow_inline_enums = True, shown = json_shown (gen_env gen)\<rparr> v);
           d = [(''type'', cpp_type), (''name'', property_name p), (''value'', cpp_value)]
       in py_format (dict_arg d (json_shown (gen_env gen) (JDict (map (\<lambda>(k, t). (k, JStr t)) d)))) line)"

lemma size_type_properties: "(k, p) \<in> set (type_properties t) \<Longrightarrow> size p < size t"
proof -
  assume p: "(k, p) \<in> set (type_properties t)"
  then have "size p \<le> size_list (size_prod (\<lambda>x. 0) size) (type_properties t)" by (rule size_list_estimation') simp
  then show ?thesis by (cases t) simp
qed

definition has_value :: "model_property \<Rightarrow> json option" where
  "has_value p = (case pi_value (property_info p) of Some v \<Rightarrow> if v = JNull then None else Some v | None \<Rightarrow> None)"

text \<open>The code of a property, or nothing where neither it nor a property below it has a value.\<close>

function GeneratePropertyValues :: "cpp_generator \<Rightarrow> string \<Rightarrow> bool \<Rightarrow> model_property \<Rightarrow> code_block option run" where
  "GeneratePropertyValues gen line nodoc (Property n u b og s info t) =
     bind_run (if nodoc then Inr Code else comment_on (pi_description info) Code) (\<lambda>c.
       case has_value (Property n u b og s info t) of
         Some v \<Rightarrow>
           bind_run (run_res (value_line gen line (Property n u b og s info t) v)) (\<lambda>l. Inr (Some (append_line l c)))
       | None \<Rightarrow>
           bind_run
             (fold_run
               (\<lambda>(_, child) (has_child_code, c).
                  bind_run (GeneratePropertyValues gen line nodoc child) (\<lambda>code.
                    case code of
                      None \<Rightarrow> Inr (has_child_code, c)
                    | Some child_code \<Rightarrow> bind_run (run_res (Concat child_code True c)) (\<lambda>(c, _). Inr (True, c))))
               (type_properties t)
               (False, Sblock (Some (''namespace '' @ n @ '' {'')) None True c)) (\<lambda>(has_child_code, c).
           bind_run (run_res (Eblock (Some (''}  // namespace '' @ n)) c)) (\<lambda>c.
             Inr (if has_child_code then Some c else None))))"
  by pat_completeness auto
termination
  by (relation "measure (\<lambda>(_, _, _, p). size p)") (auto dest!: size_type_properties)

end
