(* ===== verification/Schema_Cpp_Refs.thy ===== *)
theory Schema_Cpp_Refs
  imports Schema_Cpp_Types
begin

text \<open>
  The C++ types of references, references that never end, and the constants of string properties.
\<close>

section \<open>References\<close>

text \<open>The type before it is wrapped into a pointer.\<close>

definition bare_cpp_type :: "nat \<Rightarrow> cpp_generator \<Rightarrow> owned_type \<Rightarrow> string res" where
  "bare_cpp_type n gen t =
     (case type_kind (snd t) of
        RefTo ref \<Rightarrow> bind_res (FindType gen ref) (get_cpp_type n gen False False)
      | EnumOf _ _ \<Rightarrow> class_type gen t
      | ObjectOf _ \<Rightarrow> class_type gen t
      | ChoiceOf _ \<Rightarrow> class_type gen t
      | ArrayOf item \<Rightarrow>
          bind_res (get_cpp_type n gen False True (fst t, item)) (\<lambda>item_cpp_type.
            Inr (''std::vector<'' @ PadForGenerics item_cpp_type @ ''>''))
      | FunctionOf _ \<Rightarrow> plain_cpp_type FUNCTION
      | Plain p \<Rightarrow> plain_cpp_type p)"

lemma get_cpp_type_Suc:
  "get_cpp_type (Suc n) gen is_ptr cont t =
     bind_res (bare_cpp_type n gen t) (\<lambda>s. bind_res (follow_ref n gen t) (\<lambda>(_, target).
       Inr (if kind_property_type (type_kind target) = ENUM then s else wrap_pointer is_ptr cont s)))"
  by (simp add: bare_cpp_type_def)

declare get_cpp_type.simps(2) [simp del]

lemma wrap_pointer_none [simp]: "wrap_pointer False False s = s"
  by (simp add: wrap_pointer_def)

lemma follow_ref_more: "follow_ref n gen t = Inr t' \<Longrightarrow> n \<le> m \<Longrightarrow> follow_ref m gen t = Inr t'"
proof (induction n arbitrary: m t)
  case (Suc n)
  then obtain k where "m = Suc k" by (cases m) auto
  with Suc show ?case by (cases "type_kind (snd t)") (auto simp: bind_res_Inr_iff)
qed simp

lemma get_cpp_type_more:
  "get_cpp_type n gen is_ptr cont t = Inr s \<Longrightarrow> n \<le> m \<Longrightarrow> get_cpp_type m gen is_ptr cont t = Inr s"
proof (induction n arbitrary: m is_ptr cont t s)
  case (Suc n)
  obtain k where k: "m = Suc k" "n \<le> k" using Suc.prems(2) by (cases m) simp_all
  from Suc.prems(1) obtain b x where b: "bare_cpp_type n gen t = Inr b" and x: "follow_ref n gen t = Inr x"
    and s: "s = (if kind_property_type (type_kind (snd x)) = ENUM then b else wrap_pointer is_ptr cont b)"
    unfolding get_cpp_type_Suc by (auto simp: bind_res_Inr_iff)
  have "bare_cpp_type k gen t = Inr b"
    using b by (cases "type_kind (snd t)") (auto simp: bare_cpp_type_def bind_res_Inr_iff intro: Suc.IH [OF _ k(2)])
  with follow_ref_more [OF x k(2)] s show ?case by (simp add: k(1) get_cpp_type_Suc split: prod.split)
qed simp

lemma bare_of_get:
  assumes "get_cpp_type (Suc n) gen False False t = Inr s"
  shows "bare_cpp_type n gen t = Inr s"
  using assms unfolding get_cpp_type_Suc by (auto simp: bind_res_Inr_iff)

lemma bare_more: "bare_cpp_type n gen t = Inr s \<Longrightarrow> n \<le> k \<Longrightarrow> bare_cpp_type k gen t = Inr s"
  by (cases "type_kind (snd t)") (auto simp: bare_cpp_type_def bind_res_Inr_iff intro: get_cpp_type_more)

lemma bare_of_reference:
  assumes "follow_ref n gen t = Inr t'" and "get_cpp_type m gen False False t' = Inr s"
  shows "bare_cpp_type (n + m) gen t = Inr s"
  using assms(1)
proof (induction n arbitrary: t)
  case (Suc n)
  obtain m' where m: "m = Suc m'" using assms(2) by (cases m) auto
  show ?case
  proof (cases "\<exists>ref. type_kind (snd t) = RefTo ref")
    case True
    then obtain ref u where t: "type_kind (snd t) = RefTo ref" "FindType gen ref = Inr u" "follow_ref n gen u = Inr t'"
      using Suc.prems by (auto simp: bind_res_Inr_iff)
    have "follow_ref (n + m) gen u = Inr t'" by (rule follow_ref_more [OF t(3)]) simp
    with Suc.IH [OF t(3)] have "get_cpp_type (Suc n + m) gen False False u = Inr s"
      by (cases t') (simp add: get_cpp_type_Suc)
    with t(1,2) show ?thesis by (simp add: bare_cpp_type_def)
  next
    case False
    then have "t' = t" using Suc.prems by (cases "type_kind (snd t)") auto
    then have "bare_cpp_type m' gen t = Inr s" using assms(2) bare_of_get m by simp
    then show ?thesis by (rule bare_more) (simp add: m)
  qed
qed simp

text \<open>
  C24: the C++ type of a chain of references is the C++ type of the type at its end, wrapped at most
  once; an enumeration at the end is not wrapped, however it is used. Every limit on nested calls that
  is large enough for both gives this result.
\<close>

theorem referenced_cpp_type:
  assumes "follow_ref n gen t = Inr t'" and "get_cpp_type m gen False False t' = Inr s" and "n + m < limit"
  shows "get_cpp_type limit gen is_ptr cont t =
     Inr (if kind_property_type (type_kind (snd t')) = ENUM then s else wrap_pointer is_ptr cont s)"
proof -
  obtain k where k: "limit = Suc k" "n + m \<le> k" using assms(3) by (cases limit) auto
  have "bare_cpp_type k gen t = Inr s" using bare_of_reference [OF assms(1,2)] k(2) by (rule bare_more)
  moreover have "follow_ref k gen t = Inr t'" using assms(1) k(2) by (auto intro: follow_ref_more)
  ultimately show ?thesis by (cases t') (simp add: k(1) get_cpp_type_Suc)
qed

definition ref_type :: "string \<Rightarrow> string \<Rightarrow> model_type" where
  "ref_type name target = Type name name name None (Origin True True) None [] [] [] (RefTo (JStr target))"

definition plain_type :: "string \<Rightarrow> type_kind \<Rightarrow> model_type" where
  "plain_type name kind = Type name name name None (Origin True True) None [] [] [] kind"

definition sample_namespace :: namespace where
  "sample_namespace =
     \<lparr>namespace_name = ''paint'', namespace_description = JStr [], namespace_deprecated = None, namespace_unix_name = ''paint'',
      source_file = ''paint.json'', source_file_dir = [], source_file_filename = ''paint.json'', short_filename = ''paint'',
      namespace_inline_enums = True, namespace_platforms = None,
      namespace_types = [(''Color'', plain_type ''Color'' (EnumOf [] None)), (''Paint'', ref_type ''Paint'' ''Color''),
        (''Loop'', ref_type ''Loop'' ''Loop'')],
      namespace_functions = [], namespace_events = [], namespace_properties = [], compiler_options = JDict [],
      environment = Some ''%(namespace)s'', documentation_options = JDict []\<rparr>"

definition sample_schema_env :: schema_env where
  "sample_schema_env = \<lparr>file_exists = (\<lambda>_. False), read_file = (\<lambda>_. Inl OSError), json_loads = (\<lambda>_. Inr JNull),
     idl_load = (\<lambda>_. Inr JNull), json_shown = (\<lambda>_. [])\<rparr>"

definition sample_gen :: cpp_generator where
  "sample_gen = \<lparr>default_namespace = sample_namespace, gen_env = sample_schema_env,
     gen_loader = SchemaLoader [] [] [] ''%(namespace)s'', call_limit = 100\<rparr>"

theorem referenced_cpp_type_witness:
  "get_cpp_type 7 sample_gen True False (DefaultNs, ref_type ''x'' ''Paint'') = Inr ''Color''"
proof -
  have "follow_ref 3 sample_gen (DefaultNs, ref_type ''x'' ''Paint'') = Inr (DefaultNs, plain_type ''Color'' (EnumOf [] None))"
    by code_simp
  moreover have "get_cpp_type 2 sample_gen False False (DefaultNs, plain_type ''Color'' (EnumOf [] None)) = Inr ''Color''"
    by code_simp
  ultimately have "get_cpp_type 7 sample_gen True False (DefaultNs, ref_type ''x'' ''Paint'') =
      Inr (if kind_property_type (type_kind (snd (DefaultNs, plain_type ''Color'' (EnumOf [] None)))) = ENUM
           then ''Color'' else wrap_pointer True False ''Color'')"
    by (rule referenced_cpp_type) simp
  then show ?thesis by (simp add: plain_type_def)
qed

section \<open>References without an end\<close>

lemma follow_ref_cycle:
  assumes "FindType gen ref = Inr t" and "type_kind (snd t) = RefTo ref"
  shows "follow_ref n gen t = Inl RuntimeError"
  using assms by (induction n) simp_all

lemma get_cpp_type_cycle:
  assumes "FindType gen ref = Inr t" and "type_kind (snd t) = RefTo ref"
  shows "get_cpp_type n gen is_ptr cont t = Inl RuntimeError"
  using assms by (induction n arbitrary: is_ptr cont) (simp_all add: get_cpp_type_Suc bare_cpp_type_def)

text \<open>
  a type that the namespace defines as a reference to itself is accepted by the model, and its
  C++ type is looked for until the interpreter stops: the generator raises \<open>RuntimeError\<close> for every
  limit, and so does every other use that follows the reference.
\<close>

theorem self_reference_recurses:
  assumes "dict_get (namespace_types (default_namespace gen)) name = Some t" and "CHR ''.'' \<notin> set name"
    and "type_kind t = RefTo (JStr name)"
  shows "GetCppType gen is_ptr cont (DefaultNs, t) = Inl RuntimeError
    \<and> FollowRef gen (DefaultNs, t) = Inl RuntimeError \<and> IsCopyable gen (DefaultNs, t) = Inl RuntimeError"
proof -
  have "FindType gen (JStr name) = Inr (DefaultNs, t)"
    using assms(1,2) by (simp add: FindType_def as_str_def ResolveType_def SplitNamespace_def StripNamespace_def GetNamespace_def Let_def)
  then show ?thesis
    using assms(3) by (simp add: GetCppType_def FollowRef_def IsCopyable_def get_cpp_type_cycle follow_ref_cycle)
qed

theorem self_reference_recurses_witness:
  "GetCppType sample_gen True False (DefaultNs, ref_type ''Loop'' ''Loop'') = Inl RuntimeError
    \<and> FollowRef sample_gen (DefaultNs, ref_type ''Loop'' ''Loop'') = Inl RuntimeError
    \<and> IsCopyable sample_gen (DefaultNs, ref_type ''Loop'' ''Loop'') = Inl RuntimeError"
  by (rule self_reference_recurses [where name = "''Loop''"]) code_simp+

section \<open>Constants\<close>

definition const_line :: string where
  "const_line = ''const %(type)s %(name)s = %(value)s;''"

lemma const_line_format:
  "py_format (dict_arg [(''type'', t), (''name'', n), (''value'', v)] txt) const_line =
     Inr (''const '' @ t @ '' '' @ n @ '' = '' @ v @ '';'')"
  by (simp add: const_line_def dict_arg_def fmt_item_def fmt_key_def startswith_def fmt_number_def
      fmt_precision_def fmt_text_def is_digit_def nat_of_digits_def Let_def)

text \<open>
  C37: the definition that is generated for a property with a string as its value does not depend on
  the value: every such constant is the text \<^verbatim>\<open>"std::string"\<close>.
\<close>

theorem string_constant_loses_value:
  assumes "type_kind (property_model_type p) = Plain STRING" and "has_value p = Some v" and "1 < call_limit gen"
  shows "\<exists>c. GeneratePropertyValues gen const_line True p = Inr (Some c)
    \<and> Render c = ''const std::string '' @ property_name p @ '' = '' @ [CHR 0x22] @ ''std::string'' @ [CHR 0x22] @ '';''"
proof -
  obtain k where k: "call_limit gen = Suc (Suc k)" using less_imp_Suc_add [OF assms(3)] by auto
  have "GetCppType gen False False (DefaultNs, property_model_type p) = Inr ''std::string''"
    using assms(1) by (simp add: GetCppType_def k get_cpp_type_Suc bare_cpp_type_def plain_cpp_type_def)
  then have "value_line gen const_line p v =
      Inr (''const std::string '' @ property_name p @ '' = '' @ [CHR 0x22] @ ''std::string'' @ [CHR 0x22] @ '';'')"
    by (simp add: value_line_def Let_def const_line_format)
  then show ?thesis
    using assms(2) by (cases p) (simp add: Render_def Append_def Code_def Line_def Let_def str_rstrip_def str_space_def)
qed

definition sample_constant :: "json \<Rightarrow> model_property" where
  "sample_constant v = Property ''NAME'' ''name'' False (Origin True True) ''NAME''
     \<lparr>pi_description = None, pi_optional = None, pi_instance_of = None, pi_deprecated = None, pi_value = Some v\<rparr>
     (plain_type ''NAME'' (Plain STRING))"

theorem string_constant_loses_value_witness:
  "\<exists>c. GeneratePropertyValues sample_gen const_line True (sample_constant (JStr ''red'')) = Inr (Some c)
    \<and> Render c = ''const std::string '' @ property_name (sample_constant (JStr ''red'')) @ '' = '' @ [CHR 0x22] @ ''std::string'' @ [CHR 0x22] @ '';''"
  by (rule string_constant_loses_value) code_simp+

text \<open>A property without a description has no header: there is nothing to make a comment of.\<close>

lemma header_needs_description:
  "pi_description (property_info p) = None \<Longrightarrow> GeneratePropertyValues gen line False p = Inl (Raised TypeError)"
  by (cases p) (simp add: comment_on_def)

end
