(* ===== verification/Schema_Chain.thy ===== *)
theory Schema_Chain
  imports Schema_Namespace
begin

text \<open>
  What the generators of files share: chains of calls on a code block, the texts at the top of a
  generated file and names of files.
\<close>

section \<open>Chains of methods\<close>

text \<open>A chain of calls on a block of code; each call is a function of the block and may raise.\<close>

type_synonym code_step = "code_block \<Rightarrow> code_block res"

definition chain :: "code_step list \<Rightarrow> code_step" where
  "chain = fold_res (\<lambda>step. step)"

definition line :: "string \<Rightarrow> code_step" where
  "line l = (\<lambda>c. Inr (append_line l c))"

abbreviation blank :: code_step where
  "blank \<equiv> line []"

text \<open>A line with \<^verbatim>\<open>indent_level=0\<close>.\<close>

definition line_at_0 :: "string \<Rightarrow> code_step" where
  "line_at_0 l = (\<lambda>c. Inr (Append l True (Some 0) True True c))"

definition put :: "code_block res \<Rightarrow> code_step" where
  "put b = (\<lambda>c. bind_res b (\<lambda>b. bind_res (Concat b True c) (\<lambda>(c, _). Inr c)))"

definition put_block :: "code_block res \<Rightarrow> code_step" where
  "put_block b = (\<lambda>c. bind_res b (\<lambda>b. bind_res (Cblock b c) (\<lambda>(c, _). Inr c)))"

definition opened :: "string option \<Rightarrow> code_step" where
  "opened l = (\<lambda>c. Inr (Sblock l None True c))"

definition closed :: "string option \<Rightarrow> code_step" where
  "closed l = Eblock l"

lemma chain_simps [simp]:
  "chain [] c = Inr c"
  "chain (step # steps) c = bind_res (step c) (chain steps)"
  by (simp_all add: chain_def)

lemma chain_append: "chain (xs @ ys) c = bind_res (chain xs c) (chain ys)"
  by (simp add: chain_def fold_res_append)

section \<open>Texts\<close>

text \<open>\<open>year\<close> is the year in which the compiler runs.\<close>

definition CHROMIUM_LICENSE :: "string \<Rightarrow> string" where
  "CHROMIUM_LICENSE year =
     ''// Copyright (c) '' @ year @ '' The Chromium Authors. All rights reserved.'' @ [CHR 0x0A]
     @ ''// Use of this source code is governed by a BSD-style license that can be'' @ [CHR 0x0A]
     @ ''// found in the LICENSE file.''"

definition generated_message :: "string \<Rightarrow> string \<Rightarrow> string" where
  "generated_message what source =
     ''// GENERATED FROM THE '' @ what @ '' IN'' @ [CHR 0x0A] @ ''//   '' @ source @ [CHR 0x0A] @ ''// DO NOT EDIT.'' @ [CHR 0x0A]"

text \<open>\<^verbatim>\<open>os.path.splitext(p)[0]\<close>.\<close>

definition path_stem :: "string \<Rightarrow> string" where
  "path_stem p = take (length p - length (path_extension p)) p"

end
