(* ===== verification/Schema_Features.thy ===== *)
theory Schema_Features
  imports Schema_Chain
begin

text \<open>
  The compiler of feature files in \<^verbatim>\<open>tools/json_schema_compiler\<close>: \<^verbatim>\<open>features_h_generator.py\<close>,
  \<^verbatim>\<open>features_cc_generator.py\<close>, \<^verbatim>\<open>features_compiler.py\<close>.
\<close>

section \<open>Features\<close>

fun any_feature_name :: "feature \<Rightarrow> string" where
  "any_feature_name (Simple f) = feature_name f"
| "any_feature_name (Complex n u fs) = n"

section \<open>The header\<close>

definition GenerateEnumConstants :: "feature list \<Rightarrow> code_block res" where
  "GenerateEnumConstants features =
     bind_res (map_res (\<lambda>f. ConstantName (any_feature_name f)) features) (\<lambda>names.
       chain ([opened None, line ''kUnknown,''] @ map (\<lambda>n. line (n @ '','')) names @ [line ''kEnumBoundary'']) Code)"

definition GeneratePublicBody :: "feature list \<Rightarrow> string \<Rightarrow> code_block res" where
  "GeneratePublicBody features class_name =
     chain [line (class_name @ ''();''), blank, line ''enum ID {'', put (GenerateEnumConstants features), closed (Some ''};''),
       blank, line ''const char* ToString(ID id) const;'', line ''ID FromString(const std::string& id) const;'', blank] Code"

definition GeneratePrivateBody :: "string \<Rightarrow> code_block res" where
  "GeneratePrivateBody class_name = chain [line (''std::map<std::string, '' @ class_name @ ''::ID> features_;'')] Code"

text \<open>
  What the compiler passes as the namespace is a string, which has no field \<^verbatim>\<open>source_file\<close>; the
  generator reads that field for the name of the header and takes the namespace as a string elsewhere.
\<close>

datatype namespace_arg = NamespaceText string | NamespaceObject namespace

fun arg_source_file :: "namespace_arg \<Rightarrow> string res" where
  "arg_source_file (NamespaceText _) = Inl AttributeError"
| "arg_source_file (NamespaceObject ns) = Inr (source_file ns)"

text \<open>\<^verbatim>\<open>namespace.split('::')\<close> in the functions for opening and closing namespaces.\<close>

fun arg_text :: "namespace_arg \<Rightarrow> string res" where
  "arg_text (NamespaceText s) = Inr s"
| "arg_text (NamespaceObject _) = Inl AttributeError"

definition features_h_Generate :: "string \<Rightarrow> feature list \<Rightarrow> string \<Rightarrow> namespace_arg \<Rightarrow> code_block res" where
  "features_h_Generate year features src ns =
     (let class_name = ClassName (path_stem src) in
      bind_res (chain [line (CHROMIUM_LICENSE year), blank, line (generated_message ''FEATURE DEFINITIONS'' src), blank] Code) (\<lambda>c.
      bind_res (arg_source_file ns) (\<lambda>ns_file.
      let ifndef_name = GenerateIfndefName (path_stem ns_file @ ''.h'') in
      chain [line (''#ifndef '' @ ifndef_name), line (''#define '' @ ifndef_name), blank,
        line ''#include <map>'', line ''#include <string>'', blank,
        put (bind_res (arg_text ns) (\<lambda>n. Inr (OpenNamespace n))), blank,
        line (''class '' @ class_name @ '' {''), line '' public:'', opened None, put (GeneratePublicBody features class_name), closed None,
        line '' private:'', opened None, put (GeneratePrivateBody class_name), closed (Some ''};''), blank,
        put_block (bind_res (arg_text ns) (\<lambda>n. Inr (CloseNamespace n))),
        line (''#endif  // '' @ ifndef_name), blank] c)))"

section \<open>The source\<close>

definition features_cc_Generate :: "string \<Rightarrow> feature list \<Rightarrow> string \<Rightarrow> namespace_arg \<Rightarrow> code_block res" where
  "features_cc_Generate year features src ns =
     (let class_name = ClassName (path_stem src); names = map any_feature_name features in
      chain
        ([line (CHROMIUM_LICENSE year), blank, line (generated_message ''FEATURE DEFINITIONS'' src), blank,
          line ''#include <string>'', blank, line (''#include '' @ [CHR 0x22] @ path_stem src @ ''.h'' @ [CHR 0x22]), blank,
          line (''#include '' @ [CHR 0x22] @ ''base/logging.h'' @ [CHR 0x22]), blank,
          put (bind_res (arg_text ns) (\<lambda>n. Inr (OpenNamespace n))), blank,
          line (class_name @ ''::'' @ class_name @ ''() {''), opened None]
         @ map (\<lambda>n c. bind_res (ConstantName n) (\<lambda>k. line (''features_['' @ [CHR 0x22] @ n @ [CHR 0x22] @ ''] = '' @ k @ '';'') c)) names
         @ [closed None, line ''}'', blank,
            line (''const char* '' @ class_name @ ''::ToString('' @ class_name @ ''::ID id) const {''), opened None,
            line ''switch (id) {'', opened None]
         @ map (\<lambda>n c. bind_res (ConstantName n) (\<lambda>k. line (''case '' @ k @ '': return '' @ [CHR 0x22] @ n @ [CHR 0x22] @ '';'') c)) names
         @ [line ''case kUnknown: break;'', line ''case kEnumBoundary: break;'', closed None, line ''}'', line ''NOTREACHED();'',
            line (''return '' @ [CHR 0x22, CHR 0x22] @ '';''), closed None, line ''}'', blank,
            line (class_name @ ''::ID '' @ class_name @ ''::FromString(const std::string& id) const {''), opened None,
            (\<lambda>c. bind_res (format_str (str_arg class_name) ''const auto& it = features_.find(id);'') (\<lambda>l. line l c)),
            line ''return (it == features_.end()) ? kUnknown : it->second;'', closed None, line ''}'', blank,
            put_block (bind_res (arg_text ns) (\<lambda>n. Inr (CloseNamespace n)))]) Code)"

section \<open>The compiler\<close>

text \<open>
  The result is the files written (none without a destination directory) and the text the program
  prints otherwise; \<open>cwd\<close> is the working directory. The loader gets no pattern.
\<close>

fun written :: "string \<Rightarrow> string \<Rightarrow> (string \<times> string) list \<Rightarrow> (string \<times> string) list" where
  "written destdir relative files = (if destdir = [] then [] else map (\<lambda>(f, code). (path_join (path_join destdir relative) f, code)) files)"

definition GenerateFeatures ::
  "schema_env \<Rightarrow> string \<Rightarrow> string \<Rightarrow> string \<Rightarrow> string \<Rightarrow> string \<Rightarrow> string \<Rightarrow> ((string \<times> string) list \<times> string) res" where
  "GenerateFeatures env cwd year filename root destdir ns =
     (let schema = normpath filename; schema_filename = path_stem schema in
      bind_res (relpath cwd schema root) (\<lambda>rel_schema.
      let loader = SchemaLoader (dirname rel_schema) (dirname schema) [] [] in
      bind_res (bind_res (LoadSchema env loader schema) as_dict) (\<lambda>defs.
      bind_res (map_res (\<lambda>(n, j). CreateFeature n j) defs) (\<lambda>features.
      bind_res (relpath cwd (normpath (dirname schema)) root) (\<lambda>rel.
      let full_path = path_join rel schema in
      bind_res (features_cc_Generate year features full_path (NamespaceText ns)) (\<lambda>cc.
      bind_res (features_h_Generate year features full_path (NamespaceText ns)) (\<lambda>h.
      let files = [(schema_filename @ ''.cc'', Render cc), (schema_filename @ ''.h'', Render h)] in
      Inr (written destdir rel files,
           str_join [CHR 0x0A] (concat (map (\<lambda>(f, code). [f, [], code, []]) files))))))))))"

section \<open>No file is generated\<close>

lemma bind_res_raises: "(\<And>x. m = Inr x \<Longrightarrow> \<exists>e. f x = Inl e) \<Longrightarrow> \<exists>e. bind_res m f = Inl e"
  by (cases m) simp_all

lemma chain_raises:
  assumes "step \<in> set steps" and "\<And>c. \<exists>e. step c = Inl e"
  shows "\<exists>e. chain steps c = Inl e"
  using assms(1)
proof (induction steps arbitrary: c)
  case (Cons s steps)
  show ?case
  proof (cases "s c")
    case (Inr d)
    with Cons assms(2) [of c] show ?thesis by auto
  qed simp
qed simp

lemma features_cc_raises: "\<exists>e. features_cc_Generate year features src ns = Inl e"
  unfolding features_cc_Generate_def Let_def
  by (rule chain_raises [where step = "\<lambda>c. bind_res (format_str (str_arg (ClassName (path_stem src))) ''const auto& it = features_.find(id);'') (\<lambda>l. line l c)"])
     (simp_all add: format_str_unused str_arg_def)

lemma features_cc_never: "features_cc_Generate year features src ns = Inr c \<Longrightarrow> False"
  using features_cc_raises [of year features src ns] by simp

lemma features_h_raises: "\<exists>e. features_h_Generate year features src ns = Inl e"
proof (cases ns)
  case (NamespaceText s)
  then show ?thesis by (simp add: features_h_Generate_def line_def)
next
  case (NamespaceObject n)
  then show ?thesis by (simp add: features_h_Generate_def Let_def line_def put_def)
qed

text \<open>
  C40: the compiler of feature files generates nothing: on every input, with every file system and
  for every namespace, it raises, so it writes no file. The source raises at a line that formats a
  text without a place for its argument; a header raises for a namespace given as text because it
  reads a field of it, and for an object because it splits it.
\<close>

theorem features_never_generated:
  "(\<exists>e. GenerateFeatures env cwd year filename root destdir ns = Inl e)
   \<and> (\<exists>e. features_cc_Generate year features src arg = Inl e) \<and> (\<exists>e. features_h_Generate year features src arg = Inl e)"
proof (intro conjI)
  show "\<exists>e. GenerateFeatures env cwd year filename root destdir ns = Inl e"
    unfolding GenerateFeatures_def Let_def
    by (intro bind_res_raises) (auto simp: bind_res_def split: sum.splits dest: features_cc_never)
qed (rule features_cc_raises features_h_raises)+

end
