(* ===== verification/Schema_Bundle.thy ===== *)
theory Schema_Bundle
  imports Schema_Chain
begin

text \<open>
  \<^verbatim>\<open>tools/json_schema_compiler/cpp_bundle_generator.py\<close>: the files that a bundle of namespaces has in
  common, the registration of all functions and the schemas as C++ strings.
\<close>

section \<open>The bundle\<close>

fun RemoveDescriptions :: "json \<Rightarrow> json" where
  "RemoveDescriptions (JDict d) =
     JDict (map (\<lambda>(k, v). (k, RemoveDescriptions v))
       (filter (\<lambda>(k, v). \<not> (k = ''description'' \<and> (case v of JStr _ \<Rightarrow> True | _ \<Rightarrow> False))) d))"
| "RemoveDescriptions (JList xs) = JList (map RemoveDescriptions xs)"
| "RemoveDescriptions j = j"

text \<open>\<^verbatim>\<open>s.rsplit('::', 1)[0]\<close>: the text before the last pair of colons.\<close>

definition before_last_colons :: "string \<Rightarrow> string" where
  "before_last_colons s =
     (case filter (\<lambda>i. startswith (drop i s) ''::'') [0..<length s] of [] \<Rightarrow> s | is \<Rightarrow> take (last is) s)"

record cpp_bundle =
  bundle_root :: string
  bundle_model :: api_model
  api_defs :: "json list"
  bundle_cpp_namespace :: string
  bundle_name :: string
  bundle_source_dir :: string
  impl_dir :: string

definition CppBundleGenerator :: "string \<Rightarrow> api_model \<Rightarrow> json list \<Rightarrow> string \<Rightarrow> string \<Rightarrow> string \<Rightarrow> string \<Rightarrow> cpp_bundle" where
  "CppBundleGenerator root model apis cpp_namespace_pattern name source_dir impl =
     \<lparr>bundle_root = root, bundle_model = model, api_defs = apis,
      bundle_cpp_namespace = before_last_colons cpp_namespace_pattern, bundle_name = name,
      bundle_source_dir = source_dir, impl_dir = impl\<rparr>"

definition GenerateHeader :: "string \<Rightarrow> cpp_bundle \<Rightarrow> string \<Rightarrow> code_block res \<Rightarrow> code_block res" where
  "GenerateHeader year b file_base body_code =
     (let ifndef_name = GenerateIfndefName (bundle_source_dir b @ ''/'' @ file_base @ ''.h'') in
      chain [line (CHROMIUM_LICENSE year), blank, line (generated_message ''API DEFINITIONS'' (bundle_source_dir b)), blank,
        line (''#ifndef '' @ ifndef_name), line (''#define '' @ ifndef_name), blank,
        put body_code, blank, line (''#endif  // '' @ ifndef_name), blank] Code)"

fun platform_ifdef :: "platform \<Rightarrow> string res" where
  "platform_ifdef CHROMEOS = Inr ''defined(OS_CHROMEOS)''"
| "platform_ifdef LINUX = Inr ''(defined(OS_LINUX) && !defined(OS_CHROMEOS))''"
| "platform_ifdef MAC = Inr ''defined(OS_MACOSX)''"
| "platform_ifdef WIN = Inr ''defined(OS_WIN)''"
| "platform_ifdef CHROMEOS_TOUCH = Inl ValueError"

definition GetPlatformIfdefs :: "platform list option \<Rightarrow> string option res" where
  "GetPlatformIfdefs ps =
     (case ps of
        None \<Rightarrow> Inr None
      | Some ps \<Rightarrow> bind_res (map_res platform_ifdef ps) (\<lambda>is. Inr (Some (str_join '' || '' is))))"

text \<open>Steps between the lines of a condition, if there is one.\<close>

definition within_ifdefs :: "string option \<Rightarrow> code_step list \<Rightarrow> code_step list" where
  "within_ifdefs ifdefs steps =
     (case ifdefs of
        None \<Rightarrow> steps
      | Some i \<Rightarrow> line_at_0 (''#if '' @ i) # steps @ [line_at_0 (''#endif  // '' @ i)])"

definition GenerateRegisterFunctions :: "string \<Rightarrow> model_function \<Rightarrow> code_block res" where
  "GenerateRegisterFunctions ns_text f =
     bind_res (GetPlatformIfdefs (platforms f)) (\<lambda>function_ifdefs.
     bind_res (JsFunctionNameToClassName ns_text (function_name f)) (\<lambda>name.
     chain (within_ifdefs function_ifdefs [line (''registry->RegisterFunction<'' @ name @ ''Function>();'')]) Code))"

definition is_nocompile :: "model_function \<Rightarrow> bool" where
  "is_nocompile f = (case fn_nocompile (function_options f) of Some j \<Rightarrow> json_true j | None \<Rightarrow> False)"

definition compiled :: "(string \<times> model_function) list \<Rightarrow> model_function list" where
  "compiled fs = filter (\<lambda>f. \<not> is_nocompile f) (map snd fs)"

text \<open>The steps for one namespace; its condition is known before the first of them.\<close>

definition register_namespace :: "namespace \<Rightarrow> code_step" where
  "register_namespace ns c =
     bind_res (GetPlatformIfdefs (namespace_platforms ns)) (\<lambda>namespace_ifdefs.
     chain (within_ifdefs namespace_ifdefs
       (map (\<lambda>f. put (GenerateRegisterFunctions (namespace_name ns) f)) (compiled (namespace_functions ns))
        @ concat (map (\<lambda>(_, t). map (\<lambda>f. put
              (bind_res (JsFunctionNameToClassName (namespace_name ns) (type_name t)) (\<lambda>n. GenerateRegisterFunctions n f)))
            (compiled (type_functions t))) (namespace_types ns)))) c)"

definition GenerateBundleClass :: "cpp_bundle \<Rightarrow> string \<Rightarrow> string" where
  "GenerateBundleClass b class_name = bundle_name b @ class_name"

definition GenerateFunctionRegistryRegisterAll :: "cpp_bundle \<Rightarrow> code_block res" where
  "GenerateFunctionRegistryRegisterAll b =
     chain ([line ''// static'',
        opened (Some (''void '' @ GenerateBundleClass b ''GeneratedFunctionRegistry''
          @ ''::RegisterAll(ExtensionFunctionRegistry* registry) {''))]
      @ map (\<lambda>(_, ns). register_namespace ns) (namespaces (bundle_model b))
      @ [closed (Some ''}'')]) Code"

section \<open>The files of the registration\<close>

definition api_h_Generate :: "string \<Rightarrow> cpp_bundle \<Rightarrow> code_block res" where
  "api_h_Generate year b =
     GenerateHeader year b ''generated_api''
       (chain [line ''#include <string>'', blank, line ''class ExtensionFunctionRegistry;'', blank,
          put (Inr (OpenNamespace (bundle_cpp_namespace b))), blank,
          line (''class '' @ GenerateBundleClass b ''GeneratedFunctionRegistry'' @ '' {''),
          opened (Some '' public:''), line ''static void RegisterAll(ExtensionFunctionRegistry* registry);'',
          closed (Some ''};''), blank, put (Inr (CloseNamespace (bundle_cpp_namespace b)))] Code)"

text \<open>The header that implements a namespace; \<open>None\<close> when a namespace names none and there is none.\<close>

definition implementation_header :: "(string \<Rightarrow> bool) \<Rightarrow> cpp_bundle \<Rightarrow> namespace \<Rightarrow> string option res" where
  "implementation_header exists b ns =
     (let name = str_replace ''experimental_'' [] (namespace_unix_name ns);
          usual = impl_dir b @ ''/'' @ name @ ''/'' @ name @ ''_api.h'' in
      bind_res (as_dict (compiler_options ns)) (\<lambda>opts.
      bind_res (case dict_get opts ''implemented_in'' of Some j \<Rightarrow> as_str AttributeError j | None \<Rightarrow> Inr usual) (\<lambda>header.
      if exists (path_join (bundle_root b) (normpath header)) then Inr (Some header)
      else if dict_get opts ''implemented_in'' \<noteq> None then Inl ValueError else Inr None)))"

definition include_namespace :: "(string \<Rightarrow> bool) \<Rightarrow> cpp_bundle \<Rightarrow> namespace \<Rightarrow> code_step" where
  "include_namespace exists b ns c =
     bind_res (implementation_header exists b ns) (\<lambda>header.
       case header of
         None \<Rightarrow> Inr c
       | Some h \<Rightarrow> bind_res (GetPlatformIfdefs (namespace_platforms ns)) (\<lambda>ifdefs.
           chain (within_ifdefs ifdefs [line (''#include '' @ [CHR 0x22] @ h @ [CHR 0x22])]) c))"

definition api_cc_Generate :: "(string \<Rightarrow> bool) \<Rightarrow> string \<Rightarrow> cpp_bundle \<Rightarrow> code_block res" where
  "api_cc_Generate exists year b =
     chain ([line (CHROMIUM_LICENSE year), blank,
         line (''#include '' @ [CHR 0x22] @ path_join (impl_dir b) ''generated_api_registration.h'' @ [CHR 0x22]), blank]
       @ map (\<lambda>(_, ns). include_namespace exists b ns) (namespaces (bundle_model b))
       @ [blank, line (''#include '' @ [CHR 0x22] @ ''extensions/browser/extension_function_registry.h'' @ [CHR 0x22]), blank,
          put (Inr (OpenNamespace (bundle_cpp_namespace b))), blank,
          put (GenerateFunctionRegistryRegisterAll b), blank,
          put (Inr (CloseNamespace (bundle_cpp_namespace b))), blank]) Code"

section \<open>The files of the schemas\<close>

definition schemas_h_Generate :: "string \<Rightarrow> cpp_bundle \<Rightarrow> code_block res" where
  "schemas_h_Generate year b =
     GenerateHeader year b ''generated_schemas''
       (chain [line ''#include <map>'', line ''#include <string>'', blank,
          line (''#include '' @ [CHR 0x22] @ ''base/strings/string_piece.h'' @ [CHR 0x22]), blank,
          put (Inr (OpenNamespace (bundle_cpp_namespace b))), blank,
          line (''class '' @ GenerateBundleClass b ''GeneratedSchemas'' @ '' {''),
          opened (Some '' public:''), line ''// Determines if schema named |name| is generated.'',
          line ''static bool IsGenerated(std::string name);'', blank,
          line ''// Gets the API schema named |name|.'',
          line ''static base::StringPiece Get(const std::string& name);'',
          closed (Some ''};''), blank, put (Inr (CloseNamespace (bundle_cpp_namespace b)))] Code)"

text \<open>\<^verbatim>\<open>re.sub('_[a-z]', lambda m: m.group(0)[1].upper(), s)\<close>.\<close>

fun camel_underscores :: "string \<Rightarrow> string" where
  "camel_underscores (a # c # s) =
     (if a = CHR ''_'' \<and> lower_case c then to_upper c # camel_underscores s else a # camel_underscores (c # s))"
| "camel_underscores s = s"

definition FormatNameAsConstant :: "string \<Rightarrow> string res" where
  "FormatNameAsConstant name =
     bind_res (upper_first name) (\<lambda>name. Inr (CHR ''k'' # camel_underscores (str_replace ''.'' ''_'' name)))"

text \<open>\<^verbatim>\<open>json.dumps(j, separators=(',', ':'))\<close>.\<close>

definition hex_char :: "nat \<Rightarrow> char" where
  "hex_char n = char_of (if n < 10 then 48 + n else 87 + n)"

definition json_char :: "char \<Rightarrow> string" where
  "json_char c =
     (let n = of_char c :: nat in
      if c = CHR 0x22 then [CHR 0x5C, CHR 0x22] else if c = CHR 0x5C then [CHR 0x5C, CHR 0x5C]
      else if n = 10 then [CHR 0x5C, CHR ''n''] else if n = 13 then [CHR 0x5C, CHR ''r'']
      else if n = 9 then [CHR 0x5C, CHR ''t''] else if n = 12 then [CHR 0x5C, CHR ''f'']
      else if n = 8 then [CHR 0x5C, CHR ''b'']
      else if 32 \<le> n \<and> n \<le> 126 then [c]
      else [CHR 0x5C, CHR ''u'', CHR ''0'', CHR ''0'', hex_char (n div 16), hex_char (n mod 16)])"

definition json_string :: "string \<Rightarrow> string" where
  "json_string s = [CHR 0x22] @ concat (map json_char s) @ [CHR 0x22]"

fun json_dumps :: "json \<Rightarrow> string" where
  "json_dumps JNull = ''null''"
| "json_dumps (JBool b) = (if b then ''true'' else ''false'')"
| "json_dumps (JInt i) = str_int i"
| "json_dumps (JStr s) = json_string s"
| "json_dumps (JList xs) = ''['' @ str_join '','' (map json_dumps xs) @ '']''"
| "json_dumps (JDict d) = ''{'' @ str_join '','' (map (\<lambda>(k, v). json_string k @ '':'' @ json_dumps v) d) @ ''}''"

definition max_length :: nat where
  "max_length = 8192"

function segments :: "string \<Rightarrow> string list" where
  "segments s = (if s = [] then [] else take max_length s # segments (drop max_length s))"
  by pat_completeness auto
termination by (relation "measure length") (auto simp: max_length_def)

declare segments.simps [simp del]

definition escape_segment :: "string \<Rightarrow> string" where
  "escape_segment s = str_replace [CHR 0x22] [CHR 0x5C, CHR 0x22] (str_replace [CHR 0x5C] [CHR 0x5C, CHR 0x5C] s)"

definition schema_literal :: "json \<Rightarrow> string" where
  "schema_literal api =
     [CHR 0x22] @ str_join [CHR 0x22, CHR '' '', CHR 0x22]
       (map escape_segment (segments (json_dumps (JList [RemoveDescriptions api])))) @ [CHR 0x22]"

definition api_namespace :: "cpp_bundle \<Rightarrow> json \<Rightarrow> namespace res" where
  "api_namespace b api =
     bind_res (as_dict api) (\<lambda>d.
       case dict_get d ''namespace'' of
         Some (JStr n) \<Rightarrow> (case dict_get (namespaces (bundle_model b)) n of Some ns \<Rightarrow> Inr ns | None \<Rightarrow> Inl KeyError)
       | Some (JList _) \<Rightarrow> Inl TypeError
       | Some (JDict _) \<Rightarrow> Inl TypeError
       | _ \<Rightarrow> Inl KeyError)"

definition schema_constant :: "cpp_bundle \<Rightarrow> json \<Rightarrow> code_step" where
  "schema_constant b api c =
     bind_res (api_namespace b api) (\<lambda>ns.
     bind_res (FormatNameAsConstant (namespace_name ns)) (\<lambda>k.
     line (''const char '' @ k @ ''[] = '' @ schema_literal api @ '';'') c))"

definition schema_entry :: "cpp_bundle \<Rightarrow> json \<Rightarrow> code_step" where
  "schema_entry b api c =
     bind_res (api_namespace b api) (\<lambda>ns.
     bind_res (FormatNameAsConstant (namespace_name ns)) (\<lambda>k.
     line (''schemas['' @ [CHR 0x22] @ namespace_name ns @ [CHR 0x22] @ ''] = '' @ k @ '';'') c))"

definition schemas_cc_Generate :: "string \<Rightarrow> cpp_bundle \<Rightarrow> code_block res" where
  "schemas_cc_Generate year b =
     chain ([line (CHROMIUM_LICENSE year), blank,
         line (''#include '' @ [CHR 0x22] @ path_join (bundle_source_dir b) ''generated_schemas.h'' @ [CHR 0x22]), blank,
         line (''#include '' @ [CHR 0x22] @ ''base/lazy_instance.h'' @ [CHR 0x22]), blank, line ''namespace {'']
       @ map (schema_constant b) (api_defs b)
       @ [blank, opened (Some ''struct Static {''), opened (Some ''Static() {'')]
       @ map (schema_entry b) (api_defs b)
       @ [closed (Some ''}''), blank, line ''std::map<std::string, const char*> schemas;'', closed (Some ''};''), blank,
          line ''base::LazyInstance<Static> g_lazy_instance;'', blank, line ''}  // namespace'', blank,
          put (Inr (OpenNamespace (bundle_cpp_namespace b))), blank,
          line ''// static'',
          opened (Some (''base::StringPiece '' @ GenerateBundleClass b ''GeneratedSchemas'' @ ''::Get(const std::string& name) {'')),
          line (''return IsGenerated(name) ? g_lazy_instance.Get().schemas[name] : '' @ [CHR 0x22, CHR 0x22] @ '';''),
          closed (Some ''}''), blank, line ''// static'',
          opened (Some (''bool '' @ GenerateBundleClass b ''GeneratedSchemas'' @ ''::IsGenerated(std::string name) {'')),
          line ''return g_lazy_instance.Get().schemas.count(name) > 0;'',
          closed (Some ''}''), blank,
          put (Inr (CloseNamespace (bundle_cpp_namespace b))), blank]) Code"

end
