(* ===== verification/Schema_Registry.thy ===== *)
theory Schema_Registry
  imports Schema_Bundle Schema_Text
begin

text \<open>
  Properties of the files of a bundle: the schemas come out of their C++ strings as they went in,
  and the registration names every function that is compiled.
\<close>

section \<open>Schemas as C++ strings\<close>

text \<open>A C++ reader of adjacent string literals, with the two escapes the generator writes.\<close>

fun read_chars :: "string \<Rightarrow> (string \<times> string) option" where
  "read_chars [] = None"
| "read_chars (c # s) =
     (if c = CHR 0x22 then Some ([], s)
      else if c = CHR 0x5C
      then (case s of d # t \<Rightarrow> if d = CHR 0x22 \<or> d = CHR 0x5C then map_option (apfst (Cons d)) (read_chars t) else None | [] \<Rightarrow> None)
      else if c = CHR 0x0A then None else map_option (apfst (Cons c)) (read_chars s))"

lemma read_chars_shorter: "read_chars s = Some (t, r) \<Longrightarrow> length r < length s"
proof (induction s arbitrary: t rule: read_chars.induct)
  case (2 c s)
  consider "c = CHR 0x22" | "c = CHR 0x5C" | "c \<noteq> CHR 0x22" "c \<noteq> CHR 0x5C" by blast
  then show ?case
  proof cases
    case 2
    with "2.prems" obtain d u t' where s: "s = d # u" "d = CHR 0x22 \<or> d = CHR 0x5C" "read_chars u = Some (t', r)"
      by (auto split: list.splits if_splits)
    have "length r < length u" by (rule "2.IH"(1) [of d u t']) (use 2 s in simp_all)
    with s show ?thesis by simp
  next
    case 3
    with "2.prems" obtain t' where s: "c \<noteq> CHR 0x0A" "read_chars s = Some (t', r)" by (auto split: if_splits)
    have "length r < length s" by (rule "2.IH"(2) [of t']) (use 3 s in simp_all)
    then show ?thesis by simp
  qed (use "2.prems" in simp)
qed simp

function read_literals :: "string \<Rightarrow> string option" where
  "read_literals s =
     (case dropWhile (\<lambda>c. c = CHR '' '') s of
        [] \<Rightarrow> Some []
      | c # r \<Rightarrow>
          if c \<noteq> CHR 0x22 then None
          else case read_chars r of None \<Rightarrow> None | Some (t, rest) \<Rightarrow> map_option (append t) (read_literals rest))"
  by pat_completeness auto
termination
proof (relation "measure length")
  fix s c r and x :: "string \<times> string" and t rest
  assume "dropWhile (\<lambda>c. c = CHR '' '') s = c # r" "read_chars r = Some x" "(t, rest) = x"
  then have "length rest < length r" and "length (c # r) \<le> length s"
    using read_chars_shorter length_dropWhile_le [of "\<lambda>c. c = CHR '' ''" s] by auto
  then show "(rest, s) \<in> measure length" by simp
qed simp

declare read_literals.simps [simp del]

definition escape_char :: "char \<Rightarrow> string" where
  "escape_char c = (if c = CHR 0x22 \<or> c = CHR 0x5C then [CHR 0x5C, c] else [c])"

lemma escape_segment_chars: "escape_segment s = concat (map escape_char s)"
  unfolding escape_segment_def str_replace_char by (induction s) (auto simp: escape_char_def)

lemma read_chars_escaped: "CHR 0x0A \<notin> set s \<Longrightarrow> read_chars (escape_segment s @ CHR 0x22 # r) = Some (s, r)"
  by (induction s) (auto simp: escape_segment_chars escape_char_def)

lemma read_literals_join:
  assumes "\<forall>s \<in> set ss. CHR 0x0A \<notin> set s" and "ss \<noteq> []"
  shows "read_literals (CHR 0x22 # str_join [CHR 0x22, CHR '' '', CHR 0x22] (map escape_segment ss) @ [CHR 0x22]) = Some (concat ss)"
  using assms
proof (induction ss rule: induct_list012)
  case (2 s)
  have "read_literals [] = Some []" by (subst read_literals.simps) simp
  with 2 read_chars_escaped [of s "[]"] show ?case by (subst read_literals.simps) simp
next
  case (3 s t ss)
  have skip: "read_literals (CHR '' '' # u) = read_literals u" for u
    by (subst (1 2) read_literals.simps) simp
  from 3 have "CHR 0x0A \<notin> set s" by simp
  with 3 read_chars_escaped [of s] show ?case by (subst read_literals.simps) (simp add: skip)
qed simp

lemma concat_segments: "concat (segments s) = s"
  by (induction s rule: segments.induct) (subst segments.simps, simp)

lemma str_join_set: "set (str_join sep xs) \<subseteq> set sep \<union> \<Union> (set ` set xs)"
  by (induction sep xs rule: str_join.induct) auto

lemma json_string_one_line: "CHR 0x0A \<notin> set (json_string s)"
proof -
  have hex: "hex_char n \<noteq> CHR 0x0A" if "n < 16" for n
  proof -
    have "(of_char (hex_char n) :: nat) \<noteq> 10" using that by (simp add: hex_char_def)
    then show ?thesis by auto
  qed
  have "CHR 0x0A \<notin> set (json_char c)" for c
  proof -
    have n: "(of_char c :: nat) div 16 < 16" "(of_char c :: nat) mod 16 < 16" by (simp_all add: less_mult_imp_div_less)
    show ?thesis using hex [OF n(1)] hex [OF n(2)] by (auto simp: json_char_def Let_def)
  qed
  then show ?thesis by (auto simp: json_string_def)
qed

lemma json_dumps_one_line: "CHR 0x0A \<notin> set (json_dumps j)"
proof (induction j rule: json_dumps.induct)
  case (3 i)
  have "\<not> is_digit (CHR 0x0A)" by code_simp
  with str_nat_digits show ?case by (auto simp: str_int_def)
next
  case (5 xs)
  then show ?case using str_join_set [of "'',''" "map json_dumps xs"] by auto
next
  case (6 d)
  then show ?case
    using str_join_set [of "'',''" "map (\<lambda>(k, v). json_string k @ '':'' @ json_dumps v) d"] json_string_one_line by fastforce
qed (use json_string_one_line in auto)

text \<open>
  C26: whatever the definition of an API is and however long its text, the string constant that is
  generated for it reads as the JSON text of the definition without descriptions: quotes and
  backslashes are escaped, no line ends inside, and the pieces it is cut into come together again.
\<close>

theorem bundled_schema_reads_back:
  "read_literals (schema_literal api) = Some (json_dumps (JList [RemoveDescriptions api]))"
proof -
  let ?text = "json_dumps (JList [RemoveDescriptions api])"
  have "CHR 0x0A \<notin> set ?text" by (rule json_dumps_one_line)
  then have lines: "\<forall>s \<in> set (segments ?text). CHR 0x0A \<notin> set s"
    using concat_segments [of ?text] by (metis UN_I set_concat)
  have "segments ?text \<noteq> []" by (subst segments.simps) simp
  from read_literals_join [OF lines this] show ?thesis by (simp add: schema_literal_def concat_segments del: json_dumps.simps)
qed

section \<open>Steps that write lines\<close>

text \<open>
  A step that adds lines below the prefix of a block, or raises. \<open>plain_line\<close> is a line that a
  concatenation leaves as it is.
\<close>

definition emits :: "code_step \<Rightarrow> string list res \<Rightarrow> bool" where
  "emits step m \<longleftrightarrow>
     (\<forall>c. step c = bind_res m (\<lambda>ls. Inr (c\<lparr>code_lines := code_lines c @ map (\<lambda>l. Line (block_prefix c @ l) True) ls\<rparr>)))"


named_theorems emitted



lemma emits_Nil [emitted]: "emits (chain []) (Inr [])"
  by (simp add: emits_def)






section \<open>Registration\<close>







lemma ends_of_lines [simp]:
  "\<not> str_space (CHR ''#'')" "\<not> str_space (CHR '';'')" "\<not> str_space (CHR ''{'')" "\<not> str_space (CHR ''}'')"
  "\<not> str_space (CHR ''c'')"
  by code_simp+























end
