(* ===== verification/Grit_Data_Pack.thy ===== *)
theory Grit_Data_Pack
  imports Py_Struct Py_Paths
begin

text \<open>
  \<^verbatim>\<open>tools/grit/grit/format/data_pack.py\<close>: packs of resources. A pack is a header (version, number of
  entries, encoding), an index of identifiers and offsets with one entry more than there are
  resources, and the resources one after the other.
\<close>

section \<open>Writing\<close>

definition PACK_FILE_VERSION :: int where
  "PACK_FILE_VERSION = 4"

definition HEADER_LENGTH :: nat where
  "HEADER_LENGTH = 2 * 4 + 1"

definition pack_BINARY :: int where
  "pack_BINARY = 0"

definition pack_UTF8 :: int where
  "pack_UTF8 = 1"

record data_pack =
  resources :: "(int \<times> bytes) list"
  pack_encoding :: int

definition kIndexEntrySize :: nat where
  "kIndexEntrySize = 2 + 4"

definition index_entry :: "int \<Rightarrow> int \<Rightarrow> bytes res" where
  "index_entry i offset = struct_pack [F_H, F_I] [PInt i, PInt offset]"

definition pack_header :: "int \<Rightarrow> int \<Rightarrow> int \<Rightarrow> bytes res" where
  "pack_header version num_entries encoding =
     struct_pack [F_I, F_I, F_B] [PInt version, PInt num_entries, PInt encoding]"

text \<open>The entries of the index, ended by the one that has the end of the last resource.\<close>

fun write_index :: "(int \<times> bytes) list \<Rightarrow> int \<Rightarrow> bytes res" where
  "write_index [] data_offset = index_entry 0 data_offset"
| "write_index ((i, d) # rs) data_offset =
     bind_res (index_entry i data_offset) (\<lambda>e.
     bind_res (write_index rs (data_offset + int (length d))) (\<lambda>es. Inr (e @ es)))"

text \<open>The resources in the order of their identifiers.\<close>

definition sorted_resources :: "(int \<times> bytes) list \<Rightarrow> (int \<times> bytes) list" where
  "sorted_resources rs = sort_key fst rs"

definition WriteDataPackToString :: "(int \<times> bytes) list \<Rightarrow> int \<Rightarrow> bytes res" where
  "WriteDataPackToString rs encoding =
     (let items = sorted_resources rs; index_length = (length items + 1) * (2 + 4) in
      bind_res (pack_header PACK_FILE_VERSION (int (length items)) encoding) (\<lambda>header.
      bind_res (write_index items (int (HEADER_LENGTH + index_length))) (\<lambda>index.
      Inr (header @ index @ concat (map snd items)))))"

section \<open>Reading\<close>

definition read_entry :: "bytes \<Rightarrow> (int \<times> int) res" where
  "read_entry data =
     bind_res (struct_unpack [F_H, F_I] (take kIndexEntrySize data)) (\<lambda>vs.
       case vs of [PInt i, PInt offset] \<Rightarrow> Inr (i, offset) | _ \<Rightarrow> Inl ValueError)"

definition read_header :: "bytes \<Rightarrow> (int \<times> int \<times> int) res" where
  "read_header data =
     bind_res (struct_unpack [F_I, F_I, F_B] (take HEADER_LENGTH data)) (\<lambda>vs.
       case vs of [PInt version, PInt num_entries, PInt encoding] \<Rightarrow> Inr (version, num_entries, encoding)
       | _ \<Rightarrow> Inl ValueError)"

text \<open>\<^verbatim>\<open>original_data[offset:next_offset]\<close>; offsets are not negative.\<close>

definition data_slice :: "bytes \<Rightarrow> int \<Rightarrow> int \<Rightarrow> bytes" where
  "data_slice data a b = take (nat b - nat a) (drop (nat a) data)"

fun read_entries :: "bytes \<Rightarrow> nat \<Rightarrow> bytes \<Rightarrow> (int \<times> bytes) list \<Rightarrow> (int \<times> bytes) list res" where
  "read_entries original_data 0 data rs = Inr rs"
| "read_entries original_data (Suc n) data rs =
     bind_res (read_entry data) (\<lambda>(i, offset).
     let data = drop kIndexEntrySize data in
     bind_res (read_entry data) (\<lambda>(next_id, next_offset).
     read_entries original_data n data (dict_set i (data_slice original_data offset next_offset) rs)))"

text \<open>The pack in the bytes of a file.\<close>

definition ReadDataPack :: "bytes \<Rightarrow> data_pack res" where
  "ReadDataPack data =
     bind_res (read_header data) (\<lambda>(version, num_entries, encoding).
       if version \<noteq> PACK_FILE_VERSION then Inl WrongFileVersion
       else if num_entries = 0 then Inr \<lparr>resources = [], pack_encoding = encoding\<rparr>
       else bind_res (read_entries data (nat num_entries) (drop HEADER_LENGTH data) []) (\<lambda>rs.
         Inr \<lparr>resources = rs, pack_encoding = encoding\<rparr>))"

section \<open>Combining packs\<close>

text \<open>An empty white list is false in the code, as no white list is.\<close>

definition kept_resources :: "int list option \<Rightarrow> (int \<times> bytes) list \<Rightarrow> (int \<times> bytes) list" where
  "kept_resources whitelist rs =
     (case whitelist of
        Some (w # ws) \<Rightarrow> filter (\<lambda>(key, _). key \<in> set (w # ws)) rs
      | _ \<Rightarrow> rs)"

definition next_encoding :: "int option \<Rightarrow> int \<Rightarrow> int option res" where
  "next_encoding encoding new =
     (if encoding = None \<or> encoding = Some pack_BINARY then Inr (Some new)
      else if new \<noteq> pack_BINARY \<and> Some new \<noteq> encoding then Inl KeyError
      else Inr encoding)"

definition add_pack ::
    "int list option \<Rightarrow> data_pack \<Rightarrow> (int \<times> bytes) list \<times> int option \<Rightarrow> ((int \<times> bytes) list \<times> int option) res" where
  "add_pack whitelist content st =
     (case st of (rs, encoding) \<Rightarrow>
      if \<exists>key \<in> set (map fst (resources content)). key \<in> set (map fst rs) then Inl KeyError
      else bind_res (next_encoding encoding (pack_encoding content)) (\<lambda>encoding.
        Inr (dict_update rs (kept_resources whitelist (resources content)), encoding)))"

definition RePackFromDataPackStrings :: "data_pack list \<Rightarrow> int list option \<Rightarrow> data_pack res" where
  "RePackFromDataPackStrings inputs whitelist =
     bind_res (fold_res (add_pack whitelist) inputs ([], None)) (\<lambda>(rs, encoding).
       Inr \<lparr>resources = rs, pack_encoding = (case encoding of None \<Rightarrow> pack_BINARY | Some e \<Rightarrow> e)\<rparr>)"

text \<open>
  The combination of files: \<open>read_bytes\<close> and \<open>read_text\<close> are the files in binary and in text mode,
  \<open>to_int\<close> is \<^verbatim>\<open>int(s)\<close>. The result is what is written to the output file.
\<close>

definition read_whitelist :: "(string \<Rightarrow> string res) \<Rightarrow> (string \<Rightarrow> int res) \<Rightarrow> string \<Rightarrow> int list res" where
  "read_whitelist read_text to_int whitelist_file =
     bind_res (read_text whitelist_file) (\<lambda>t. map_res to_int (split_char (CHR 0x0A) (str_strip t)))"

definition RePack ::
    "(string \<Rightarrow> bytes res) \<Rightarrow> (string \<Rightarrow> string res) \<Rightarrow> (string \<Rightarrow> int res) \<Rightarrow> string list \<Rightarrow> string option \<Rightarrow> bytes res" where
  "RePack read_bytes read_text to_int input_files whitelist_file =
     bind_res (map_res (\<lambda>f. bind_res (read_bytes f) ReadDataPack) input_files) (\<lambda>packs.
     bind_res (case whitelist_file of
                 Some (c # cs) \<Rightarrow> bind_res (read_whitelist read_text to_int (c # cs)) (\<lambda>w. Inr (Some w))
               | _ \<Rightarrow> Inr None) (\<lambda>whitelist.
     bind_res (RePackFromDataPackStrings packs whitelist) (\<lambda>p.
     WriteDataPackToString (resources p) (pack_encoding p))))"

text \<open>
  A pack of the resources of a tree: \<open>pairs\<close> are the identifiers and values of its active nodes,
  which a node may leave without a value.
\<close>

definition data_pack_Format :: "(int \<times> bytes option) list \<Rightarrow> bytes res" where
  "data_pack_Format pairs =
     WriteDataPackToString
       (fold (\<lambda>(i, value) data. case value of None \<Rightarrow> data | Some v \<Rightarrow> dict_set i v data) pairs []) pack_UTF8"

end
