(* ===== verification/Grit_Packs.thy ===== *)
theory Grit_Packs
  imports Grit_Data_Pack "HOL-Library.Multiset"
begin

text \<open>What is written into a data pack is read back, and what a combination of packs has.\<close>

section \<open>The index\<close>

lemma index_entry_bytes:
  assumes "0 \<le> i" "i < 65536" "0 \<le> offset" "offset < 4294967296"
  shows "index_entry i offset = Inr (le_pack 2 i @ le_pack 4 offset)"
  using assms by (simp add: index_entry_def pack_uint_def del: le_pack.simps)

lemma index_entry_range: "index_entry i offset = Inr e \<Longrightarrow> 0 \<le> offset \<and> length e = 6"
  by (auto simp: index_entry_def pack_uint_def bind_res_Inr_iff split: if_splits simp del: le_pack.simps)

lemma read_entry_index: "index_entry i offset = Inr e \<Longrightarrow> read_entry (e @ rest) = Inr (i, offset)"
  using struct_unpack_pack [of "[F_H, F_I]" "[PInt i, PInt offset]" e] index_entry_range [of i offset e]
  by (simp add: read_entry_def index_entry_def kIndexEntrySize_def)

lemma write_index_first: "write_index rs offset = Inr es \<Longrightarrow> \<exists>i. read_entry (es @ rest) = Inr (i, offset)"
  by (cases rs) (auto simp: bind_res_Inr_iff read_entry_index)

lemma write_index_length: "write_index rs offset = Inr es \<Longrightarrow> length es = 6 * (length rs + 1)"
proof (induction rs arbitrary: offset es)
  case (Cons x rs)
  then show ?case by (cases x) (auto simp: bind_res_Inr_iff dest!: index_entry_range)
qed (auto dest: index_entry_range)

lemma read_entries_index:
  assumes "write_index rs offset = Inr es" and "drop (nat offset) original = concat (map snd rs) @ tail"
  shows "read_entries original (length rs) (es @ rest) acc = Inr (dict_update acc rs)"
  using assms
proof (induction rs offset arbitrary: es acc rule: write_index.induct)
  case (2 i d rs offset)
  then obtain e es' where e: "index_entry i offset = Inr e"
    and es': "write_index rs (offset + int (length d)) = Inr es'" and es: "es = e @ es'"
    by (auto simp: bind_res_Inr_iff)
  have offset: "0 \<le> offset" "length e = 6" using index_entry_range [OF e] by simp_all
  obtain j where next_entry: "read_entry (es' @ rest) = Inr (j, offset + int (length d))"
    using write_index_first [OF es'] by blast
  have slice: "data_slice original offset (offset + int (length d)) = d"
    using 2(3) offset(1) by (simp add: data_slice_def nat_add_distrib)
  have "nat (offset + int (length d)) = length d + nat offset" using offset(1) by simp
  then have "drop (nat (offset + int (length d))) original = concat (map snd rs) @ tail"
    using 2(3) by (simp flip: drop_drop)
  from 2(1) [OF e es' this] show ?case
    using read_entry_index [OF e] next_entry slice offset(2)
    by (simp add: es kIndexEntrySize_def dict_update_def)
qed (simp add: dict_update_def)

lemma write_index_total:
  assumes "\<forall>(i, _) \<in> set rs. 0 \<le> i \<and> i < 65536" and "0 \<le> offset"
    and "offset + int (length (concat (map snd rs))) < 4294967296"
  shows "\<exists>es. write_index rs offset = Inr es"
  using assms
proof (induction rs arbitrary: offset)
  case (Cons x rs)
  obtain i d where x: "x = (i, d)" by (cases x)
  have "\<exists>es. write_index rs (offset + int (length d)) = Inr es" using Cons.prems by (intro Cons.IH) (auto simp: x)
  moreover have "index_entry i offset = Inr (le_pack 2 i @ le_pack 4 offset)"
    using Cons.prems by (intro index_entry_bytes) (auto simp: x)
  ultimately show ?case by (auto simp: x simp del: le_pack.simps)
qed (simp add: index_entry_bytes del: le_pack.simps)

section \<open>Packs\<close>

lemma read_header_bytes: "pack_header v n enc = Inr h \<Longrightarrow> length h = 9 \<and> read_header (h @ rest) = Inr (v, n, enc)"
  using struct_unpack_pack [of "[F_I, F_I, F_B]" "[PInt v, PInt n, PInt enc]" h]
    struct_pack_length [of "[F_I, F_I, F_B]" "[PInt v, PInt n, PInt enc]" h]
  by (simp add: read_header_def pack_header_def HEADER_LENGTH_def)

lemma dict_update_fresh: "distinct (map fst (d @ rs)) \<Longrightarrow> dict_update d rs = d @ rs"
proof (induction rs arbitrary: d)
  case (Cons e rs)
  obtain k v where e: "e = (k, v)" by (cases e)
  have "k \<notin> fst ` set d" using Cons.prems by (auto simp: e)
  then have "dict_set k v d = d @ [(k, v)]" by (rule dict_set_fresh)
  with Cons.IH [of "d @ [(k, v)]"] Cons.prems show ?case by (simp add: e dict_update_def)
qed (simp add: dict_update_def)

lemma sorted_resources_distinct: "distinct (map fst rs) \<Longrightarrow> distinct (map fst (sorted_resources rs))"
  by (simp add: sorted_resources_def distinct_map inj_on_def)

lemma sorted_resources_get: "distinct (map fst rs) \<Longrightarrow> dict_get (sorted_resources rs) = dict_get rs"
  using map_of_inject_set [of "sorted_resources rs" rs] sorted_resources_distinct [of rs]
  by (simp add: sorted_resources_def)

lemma read_written:
  assumes "WriteDataPackToString rs enc = Inr bs" and "distinct (map fst rs)"
  shows "ReadDataPack bs = Inr \<lparr>resources = sorted_resources rs, pack_encoding = enc\<rparr>"
proof -
  let ?items = "sorted_resources rs" and ?n = "length (sorted_resources rs)"
  from assms(1) obtain h es where h: "pack_header PACK_FILE_VERSION (int ?n) enc = Inr h"
    and es: "write_index ?items (int (HEADER_LENGTH + (?n + 1) * 6)) = Inr es"
    and bs: "bs = h @ es @ concat (map snd ?items)"
    by (auto simp: WriteDataPackToString_def Let_def bind_res_Inr_iff)
  have lengths: "length h = 9" "length es = 6 * (?n + 1)"
    using read_header_bytes [OF h] write_index_length [OF es] by simp_all
  have "drop (nat (int (HEADER_LENGTH + (?n + 1) * 6))) bs = concat (map snd ?items) @ []"
    by (simp add: bs lengths HEADER_LENGTH_def)
  from read_entries_index [OF es this, of "concat (map snd ?items)" "[]"]
  have "read_entries bs ?n (drop HEADER_LENGTH bs) [] = Inr ?items"
    using dict_update_fresh [of "[]" ?items] sorted_resources_distinct [OF assms(2)]
    by (simp add: bs lengths(1) HEADER_LENGTH_def)
  then show ?thesis
    using read_header_bytes [OF h, of "es @ concat (map snd ?items)"] by (simp add: ReadDataPack_def bs)
qed

lemma write_total:
  assumes "\<forall>(i, _) \<in> set rs. 0 \<le> i \<and> i < 65536" and "0 \<le> enc" "enc < 256"
    and "15 + 6 * length rs + length (concat (map snd rs)) < 4294967296"
  shows "\<exists>bs. WriteDataPackToString rs enc = Inr bs"
proof -
  let ?items = "sorted_resources rs"
  have len: "length ?items = length rs" by (simp add: sorted_resources_def)
  have "mset (map (length \<circ> snd) ?items) = mset (map (length \<circ> snd) rs)"
    by (simp add: sorted_resources_def)
  then have "sum_list (map (length \<circ> snd) ?items) = sum_list (map (length \<circ> snd) rs)"
    by (metis sum_mset_sum_list)
  then have total: "length (concat (map snd ?items)) = length (concat (map snd rs))"
    by (simp add: length_concat)
  have "\<exists>es. write_index ?items (int (HEADER_LENGTH + (length ?items + 1) * 6)) = Inr es"
    using assms(1,4) by (intro write_index_total) (auto simp: sorted_resources_def total [unfolded sorted_resources_def] HEADER_LENGTH_def)
  moreover have "\<exists>h. pack_header PACK_FILE_VERSION (int (length ?items)) enc = Inr h"
    using assms(2,3,4) by (simp add: pack_header_def pack_uint_def PACK_FILE_VERSION_def len del: le_pack.simps)
  ultimately show ?thesis by (auto simp: WriteDataPackToString_def Let_def)
qed

text \<open>
  C11: resources with identifiers of 16 bits, an encoding of 8 bits and a total size below four
  gigabytes can be written, and reading the bytes gives a pack with the same resources and the same
  encoding.
\<close>

theorem data_pack_roundtrip:
  assumes "distinct (map fst rs)" and "\<forall>(i, _) \<in> set rs. 0 \<le> i \<and> i < 65536" and "0 \<le> enc" "enc < 256"
    and "15 + 6 * length rs + length (concat (map snd rs)) < 4294967296"
  shows "\<exists>bs p. WriteDataPackToString rs enc = Inr bs \<and> ReadDataPack bs = Inr p
    \<and> dict_get (resources p) = dict_get rs \<and> pack_encoding p = enc"
proof -
  obtain bs where bs: "WriteDataPackToString rs enc = Inr bs" using write_total [OF assms(2-5)] by blast
  from read_written [OF bs assms(1)] sorted_resources_get [OF assms(1)] bs show ?thesis by auto
qed

theorem data_pack_roundtrip_witness:
  "\<exists>bs p. WriteDataPackToString [(7, [1, 2, 3]), (4, [])] 1 = Inr bs \<and> ReadDataPack bs = Inr p
    \<and> dict_get (resources p) = dict_get [(7, [1, 2, 3]), (4, [])] \<and> pack_encoding p = 1"
  by (rule data_pack_roundtrip) simp_all

section \<open>Combinations\<close>

definition keeps_key :: "int list option \<Rightarrow> int \<Rightarrow> bool" where
  "keeps_key whitelist k \<longleftrightarrow> (case whitelist of Some (w # ws) \<Rightarrow> k \<in> set (w # ws) | _ \<Rightarrow> True)"

lemma kept_resources_get:
  "dict_get (kept_resources whitelist rs) k = (if keeps_key whitelist k then dict_get rs k else None)"
  by (induction rs) (auto simp: kept_resources_def keeps_key_def split: option.splits list.splits)

lemma kept_resources_distinct: "distinct (map fst rs) \<Longrightarrow> distinct (map fst (kept_resources whitelist rs))"
  by (auto simp: kept_resources_def split: option.splits list.splits intro: distinct_map_filter)

lemma dict_update_get:
  assumes "distinct (map fst other)"
  shows "dict_get (dict_update d other) k = (case dict_get other k of Some v \<Rightarrow> Some v | None \<Rightarrow> dict_get d k)"
proof -
  have "dict_get (rev other) = dict_get other"
    using assms by (intro map_of_inject_set [THEN iffD2]) (simp_all add: rev_map [symmetric])
  then show ?thesis by (simp add: dict_get_update)
qed

text \<open>The state of the loop after some of the packs.\<close>

definition combined :: "int list option \<Rightarrow> data_pack list \<Rightarrow> (int \<times> bytes) list \<times> int option \<Rightarrow> bool" where
  "combined whitelist packs st \<longleftrightarrow>
     (\<forall>k v. dict_get (fst st) k = Some v \<longleftrightarrow>
        keeps_key whitelist k \<and> (\<exists>c \<in> set packs. dict_get (resources c) k = Some v))
     \<and> (snd st = None \<longleftrightarrow> packs = [])
     \<and> (\<forall>c \<in> set packs. pack_encoding c = pack_BINARY \<or> Some (pack_encoding c) = snd st)"

lemma add_pack_combined:
  assumes "combined whitelist packs st" and "add_pack whitelist c st = Inr st'" and "distinct (map fst (resources c))"
  shows "combined whitelist (packs @ [c]) st'"
proof -
  obtain rs e where st: "st = (rs, e)" by (cases st)
  from assms(2) obtain e' where fresh: "\<forall>k \<in> fst ` set (resources c). k \<notin> fst ` set rs"
    and e': "next_encoding e (pack_encoding c) = Inr e'"
    and st': "st' = (dict_update rs (kept_resources whitelist (resources c)), e')"
    by (auto simp: add_pack_def st bind_res_Inr_iff split: if_splits)
  have get: "dict_get (fst st') k =
      (case if keeps_key whitelist k then dict_get (resources c) k else None of Some v \<Rightarrow> Some v | None \<Rightarrow> dict_get rs k)" for k
    by (simp add: st' dict_update_get kept_resources_distinct [OF assms(3)] kept_resources_get)
  have only: "dict_get rs k = None" if "dict_get (resources c) k = Some v" for k v
    using fresh map_of_SomeD [OF that] by (force simp: map_of_eq_None_iff)
  have "dict_get (fst st') k = Some v \<longleftrightarrow>
      keeps_key whitelist k \<and> (\<exists>c' \<in> set (packs @ [c]). dict_get (resources c') k = Some v)" for k v
  proof -
    have old: "dict_get rs k = Some v \<longleftrightarrow> keeps_key whitelist k \<and> (\<exists>c' \<in> set packs. dict_get (resources c') k = Some v)"
      using assms(1) by (simp add: combined_def st)
    show ?thesis
      using old only [of k] by (cases "dict_get (resources c) k"; cases "keeps_key whitelist k") (auto simp: get)
  qed
  moreover have "e' \<noteq> None" "pack_encoding c = pack_BINARY \<or> Some (pack_encoding c) = e'"
    "e = None \<or> e = Some pack_BINARY \<or> e' = e"
    using e' by (auto simp: next_encoding_def split: if_splits)
  ultimately show ?thesis using assms(1) by (auto simp: combined_def st st')
qed

lemma fold_combined:
  "fold_res (add_pack whitelist) packs ([], None) = Inr st \<Longrightarrow> \<forall>c \<in> set packs. distinct (map fst (resources c)) \<Longrightarrow>
   combined whitelist packs st"
proof (induction packs arbitrary: st rule: rev_induct)
  case (snoc c packs)
  then obtain st0 where "fold_res (add_pack whitelist) packs ([], None) = Inr st0" "add_pack whitelist c st0 = Inr st"
    by (auto simp: fold_res_append bind_res_Inr_iff)
  with snoc show ?case by (auto intro: add_pack_combined)
qed (simp add: combined_def)

text \<open>
  A combination of packs has exactly the resources of the packs that the white list keeps (all of
  them without a white list or with an empty one), each with the bytes it has in its pack; and every
  pack has the encoding of the combination or is binary.
\<close>

theorem repack_combines:
  assumes "RePackFromDataPackStrings packs whitelist = Inr p" and "\<forall>c \<in> set packs. distinct (map fst (resources c))"
  shows "(dict_get (resources p) k = Some v \<longleftrightarrow>
      keeps_key whitelist k \<and> (\<exists>c \<in> set packs. dict_get (resources c) k = Some v))
    \<and> pack_encoding ` set packs \<subseteq> {pack_BINARY, pack_encoding p}"
proof -
  from assms(1) obtain rs e where "fold_res (add_pack whitelist) packs ([], None) = Inr (rs, e)"
    and p: "p = \<lparr>resources = rs, pack_encoding = (case e of None \<Rightarrow> pack_BINARY | Some e \<Rightarrow> e)\<rparr>"
    by (auto simp: RePackFromDataPackStrings_def bind_res_Inr_iff)
  from fold_combined [OF this(1) assms(2)] show ?thesis
    by (auto simp: combined_def p split: option.splits)
qed

text \<open>A key in two packs ends the combination.\<close>

lemma repack_duplicate:
  "dict_get (resources a) k \<noteq> None \<Longrightarrow> dict_get (resources b) k \<noteq> None \<Longrightarrow> distinct (map fst (resources a)) \<Longrightarrow>
   RePackFromDataPackStrings [a, b] None = Inl KeyError"
proof -
  assume "dict_get (resources a) k \<noteq> None" "dict_get (resources b) k \<noteq> None" and d: "distinct (map fst (resources a))"
  then have "k \<in> set (map fst (resources a))" "k \<in> set (map fst (resources b))" by (auto simp: map_of_eq_None_iff)
  then have "\<exists>key \<in> set (map fst (resources b)). key \<in> set (map fst (resources a))" by blast
  moreover have "dict_update [] (resources a) = resources a" using dict_update_fresh [of "[]"] d by simp
  ultimately show ?thesis
    by (simp add: RePackFromDataPackStrings_def add_pack_def next_encoding_def kept_resources_def)
qed

section \<open>Files\<close>

lemma add_pack_distinct:
  "add_pack whitelist c st = Inr st' \<Longrightarrow> distinct (map fst (fst st)) \<Longrightarrow> distinct (map fst (fst st'))"
  by (auto simp: add_pack_def bind_res_Inr_iff dict_update_distinct split: prod.splits if_splits)

lemma fold_pack_distinct:
  "fold_res (add_pack whitelist) packs st = Inr st' \<Longrightarrow> distinct (map fst (fst st)) \<Longrightarrow> distinct (map fst (fst st'))"
  by (induction packs arbitrary: st) (auto simp: bind_res_Inr_iff dest: add_pack_distinct)

lemma repack_distinct: "RePackFromDataPackStrings packs whitelist = Inr p \<Longrightarrow> distinct (map fst (resources p))"
  by (auto simp: RePackFromDataPackStrings_def bind_res_Inr_iff dest!: fold_pack_distinct)

text \<open>
  C13: when files that were written as data packs are combined without a white list, the bytes
  written read back as a pack with the resources of all the files and nothing else.
\<close>

theorem repacked_files:
  assumes "\<And>f. f \<in> set files \<Longrightarrow> distinct (map fst (content f)) \<and> read_bytes f = WriteDataPackToString (content f) (enc f)"
    and "RePack read_bytes read_text to_int files None = Inr out"
  shows "\<exists>p. ReadDataPack out = Inr p
    \<and> (dict_get (resources p) k = Some v \<longleftrightarrow> (\<exists>f \<in> set files. dict_get (content f) k = Some v))"
proof -
  let ?pack = "\<lambda>f. \<lparr>resources = sorted_resources (content f), pack_encoding = enc f\<rparr>"
  from assms(2) obtain packs q where packs: "map_res (\<lambda>f. bind_res (read_bytes f) ReadDataPack) files = Inr packs"
    and q: "RePackFromDataPackStrings packs None = Inr q" and out: "WriteDataPackToString (resources q) (pack_encoding q) = Inr out"
    by (auto simp: RePack_def bind_res_Inr_iff)
  have each: "bind_res (read_bytes f) ReadDataPack = Inr (?pack f)"
    if "f \<in> set files" and "bind_res (read_bytes f) ReadDataPack = Inr y" for f y
    using assms(1) [OF that(1)] that(2) read_written [of "content f" "enc f"] by (cases "WriteDataPackToString (content f) (enc f)") auto
  have "list_all2 (\<lambda>f y. f \<in> set files \<and> bind_res (read_bytes f) ReadDataPack = Inr y) files packs"
    using packs [unfolded map_res_Inr_iff] by (simp add: list_all2_conv_all_nth)
  then have "list_all2 (\<lambda>f y. y = ?pack f) files packs" by (rule list_all2_mono) (use each in auto)
  then have ps: "packs = map ?pack files" by (simp add: list_all2_conv_all_nth list_eq_iff_nth_eq)
  have "\<forall>c \<in> set packs. distinct (map fst (resources c))" using assms(1) by (auto simp: ps sorted_resources_distinct)
  from repack_combines [OF q this, of k v]
  have "dict_get (resources q) k = Some v \<longleftrightarrow> (\<exists>f \<in> set files. dict_get (content f) k = Some v)"
    using assms(1) by (auto simp: keeps_key_def ps sorted_resources_get)
  then show ?thesis using read_written [OF out repack_distinct [OF q]] sorted_resources_get [OF repack_distinct [OF q]] by simp
qed

definition sample_content :: "string \<Rightarrow> (int \<times> bytes) list" where
  "sample_content f = [(if f = ''a'' then 1 else 2, [5])]"

theorem repacked_files_witness:
  "\<exists>out p. RePack (\<lambda>f. WriteDataPackToString (sample_content f) 0) (\<lambda>_. Inl OSError) (\<lambda>_. Inl ValueError) [''a'', ''b''] None = Inr out
    \<and> ReadDataPack out = Inr p
    \<and> (dict_get (resources p) 2 = Some [5] \<longleftrightarrow> (\<exists>f \<in> set [''a'', ''b'']. dict_get (sample_content f) 2 = Some [5]))"
proof -
  let ?r = "RePack (\<lambda>f. WriteDataPackToString (sample_content f) 0) (\<lambda>_. Inl OSError) (\<lambda>_. Inl ValueError) [''a'', ''b''] None"
  have "isl ?r = False" by code_simp
  then obtain out where out: "?r = Inr out" by (cases ?r) auto
  have "\<exists>p. ReadDataPack out = Inr p
      \<and> (dict_get (resources p) 2 = Some [5] \<longleftrightarrow> (\<exists>f \<in> set [''a'', ''b'']. dict_get (sample_content f) 2 = Some [5]))"
    by (rule repacked_files [OF _ out]) (simp add: sample_content_def)
  with out show ?thesis by blast
qed

end
