(* ===== verification/Grit_Ids.thy ===== *)
theory Grit_Ids
  imports Py_Paths
begin

text \<open>
  Resource identifiers in GRIT (\<^verbatim>\<open>tools/grit/grit\<close>): the tree of nodes as far as identifiers need it
  (\<^verbatim>\<open>node/base.py\<close>, \<^verbatim>\<open>node/misc.py\<close>), fingerprints (\<^verbatim>\<open>extern/FP.py\<close>) and the header with the numbers
  of all identifiers (\<^verbatim>\<open>format/rc_header.py\<close>).
\<close>

section \<open>Nodes\<close>

datatype node_kind =
    GroupingNode | IncludeNode | MessageNode | StructureNode | IdentifierNode | IfNode | ThenNode | ElseNode | OtherNode

type_synonym node_attrs = "(string \<times> string) list"

text \<open>
  \<open>gathered_ids\<close> are the identifiers that a message with an offset or a structure with a gatherer
  gives instead of its name; \<open>marked_skip\<close> is the mark of the white list.
\<close>

datatype grit_node =
  Node (node_kind: node_kind) (node_name: string) (attrs: node_attrs) (gathered_ids: "string list option") (marked_skip: bool)
    (children: "grit_node list")

fun Preorder :: "grit_node \<Rightarrow> grit_node list" where
  "Preorder (Node k n a g m cs) = Node k n a g m cs # concat (map Preorder cs)"

definition unmarked_children :: "grit_node \<Rightarrow> grit_node list" where
  "unmarked_children node = filter (\<lambda>c. \<not> marked_skip c) (children node)"

definition if_then_else :: "grit_node \<Rightarrow> bool" where
  "if_then_else node \<longleftrightarrow> (\<exists>c \<in> set (children node). node_kind c \<in> {ThenNode, ElseNode})"

text \<open>What the parser checks of an \<^verbatim>\<open><if>\<close>.\<close>

definition IfNode_EndParsing :: "grit_node \<Rightarrow> bool res" where
  "IfNode_EndParsing node =
     (if if_then_else node
      then if map node_kind (children node) = [ThenNode, ElseNode] then Inr True else Inl PlainException
      else Inr False)"

text \<open>\<open>cond\<close> is the value of the expression of an \<^verbatim>\<open><if>\<close>.\<close>

definition ActiveChildren :: "(string \<Rightarrow> bool) \<Rightarrow> grit_node \<Rightarrow> grit_node list" where
  "ActiveChildren cond node =
     (if node_kind node = IfNode
      then let c = cond (case dict_get (attrs node) ''expr'' of Some e \<Rightarrow> e | None \<Rightarrow> []) in
        if if_then_else node
        then (case drop (if c then 0 else 1) (children node) of b # _ \<Rightarrow> unmarked_children b | [] \<Rightarrow> [])
        else if c then unmarked_children node else []
      else unmarked_children node)"

lemma size_children: "c \<in> set (children node) \<Longrightarrow> size c < size node"
  by (cases node) (auto simp: less_Suc_eq_le intro: trans_le_add1 size_list_estimation' [of _ _ _ size])

lemma ActiveChildren_below:
  assumes "c \<in> set (ActiveChildren cond node)"
  shows "c \<in> set (children node) \<or> (\<exists>b \<in> set (children node). c \<in> set (children b))"
proof (cases "node_kind node = IfNode \<and> if_then_else node")
  case True
  with assms obtain n b bs where b: "b # bs = drop n (children node)" "c \<in> set (unmarked_children b)"
    by (auto simp: ActiveChildren_def Let_def split: list.splits)
  then have "b \<in> set (children node)" using in_set_dropD [of b n "children node"] by (simp flip: b(1))
  with b(2) show ?thesis by (auto simp: unmarked_children_def)
qed (use assms in \<open>auto simp: ActiveChildren_def Let_def unmarked_children_def split: if_splits\<close>)

lemma size_ActiveChildren: "c \<in> set (ActiveChildren cond node) \<Longrightarrow> size c < size node"
  using ActiveChildren_below [of c cond node] size_children by (meson less_trans)

function ActiveDescendants :: "(string \<Rightarrow> bool) \<Rightarrow> grit_node \<Rightarrow> grit_node list" where
  "ActiveDescendants cond node = node # concat (map (ActiveDescendants cond) (ActiveChildren cond node))"
  by pat_completeness auto
termination by (relation "measure (\<lambda>(_, node). size node)") (auto dest: size_ActiveChildren)

declare ActiveDescendants.simps [simp del]

definition GetTextualIds :: "grit_node \<Rightarrow> string list" where
  "GetTextualIds node =
     (case gathered_ids node of
        Some ids \<Rightarrow> ids
      | None \<Rightarrow> (case dict_get (attrs node) ''name'' of Some n \<Rightarrow> [n] | None \<Rightarrow> []))"

text \<open>\<open>None\<close> for nodes that have no such method and for identifiers without the attribute.\<close>

definition GetId :: "grit_node \<Rightarrow> string option" where
  "GetId node = (if node_kind node = IdentifierNode then dict_get (attrs node) ''id'' else None)"

section \<open>Numbers and fingerprints\<close>

text \<open>\<^verbatim>\<open>long(s)\<close>: white space around, a sign in front and the letter L behind are accepted.\<close>

definition py_long :: "string \<Rightarrow> int res" where
  "py_long s =
     (let t = str_strip s;
          t' = (if t \<noteq> [] \<and> hd t \<in> {CHR ''+'', CHR ''-''} then tl t else t);
          ds = (if t' \<noteq> [] \<and> last t' \<in> {CHR ''L'', CHR ''l''} then butlast t' else t')
      in if ds = [] \<or> (\<exists>c \<in> set ds. \<not> is_digit c) then Inl ValueError
         else Inr (if hd t = CHR ''-'' then - int (nat_of_digits ds) else int (nat_of_digits ds)))"

definition hex_value :: "char \<Rightarrow> nat" where
  "hex_value c = (let n = of_char c in if n \<le> 57 then n - 48 else n - 87)"

text \<open>\<open>md5_hex\<close> is the digest of a string, 32 hexadecimal digits in small letters.\<close>

definition UnsignedFingerPrint :: "(string \<Rightarrow> string) \<Rightarrow> string \<Rightarrow> int" where
  "UnsignedFingerPrint md5_hex s = foldl (\<lambda>n c. 16 * n + int (hex_value c)) 0 (take 16 (md5_hex s))"

definition FingerPrint :: "(string \<Rightarrow> string) \<Rightarrow> string \<Rightarrow> int" where
  "FingerPrint md5_hex s =
     (let fp = UnsignedFingerPrint md5_hex s in
      if fp AND 0x8000000000000000 \<noteq> 0 then - ((NOT fp AND 0xFFFFFFFFFFFFFFFF) + 1) else fp)"

section \<open>System identifiers\<close>

definition KNOWN_SYSTEM_IDENTIFIERS :: "string list" where
  "KNOWN_SYSTEM_IDENTIFIERS =
    [''IDOK'', ''IDCANCEL'', ''IDC_STATIC'', ''IDYES'', ''IDNO'',
     ''ID_FILE_NEW'', ''ID_FILE_OPEN'', ''ID_FILE_CLOSE'', ''ID_FILE_SAVE'',
     ''ID_FILE_SAVE_AS'', ''ID_FILE_PAGE_SETUP'', ''ID_FILE_PRINT_SETUP'',
     ''ID_FILE_PRINT'', ''ID_FILE_PRINT_DIRECT'', ''ID_FILE_PRINT_PREVIEW'',
     ''ID_FILE_UPDATE'', ''ID_FILE_SAVE_COPY_AS'', ''ID_FILE_SEND_MAIL'',
     ''ID_FILE_MRU_FIRST'', ''ID_FILE_MRU_LAST'',
     ''ID_EDIT_CLEAR'', ''ID_EDIT_CLEAR_ALL'', ''ID_EDIT_COPY'',
     ''ID_EDIT_CUT'', ''ID_EDIT_FIND'', ''ID_EDIT_PASTE'', ''ID_EDIT_PASTE_LINK'',
     ''ID_EDIT_PASTE_SPECIAL'', ''ID_EDIT_REPEAT'', ''ID_EDIT_REPLACE'',
     ''ID_EDIT_SELECT_ALL'', ''ID_EDIT_UNDO'', ''ID_EDIT_REDO'',
     ''VS_VERSION_INFO'', ''IDRETRY'',
     ''ID_APP_ABOUT'', ''ID_APP_EXIT'',
     ''ID_NEXT_PANE'', ''ID_PREV_PANE'',
     ''ID_WINDOW_NEW'', ''ID_WINDOW_ARRANGE'', ''ID_WINDOW_CASCADE'',
     ''ID_WINDOW_TILE_HORZ'', ''ID_WINDOW_TILE_VERT'', ''ID_WINDOW_SPLIT'',
     ''ATL_IDS_SCSIZE'', ''ATL_IDS_SCMOVE'', ''ATL_IDS_SCMINIMIZE'',
     ''ATL_IDS_SCMAXIMIZE'', ''ATL_IDS_SCNEXTWINDOW'', ''ATL_IDS_SCPREVWINDOW'',
     ''ATL_IDS_SCCLOSE'', ''ATL_IDS_SCRESTORE'', ''ATL_IDS_SCTASKLIST'',
     ''ATL_IDS_MDICHILD'', ''ATL_IDS_IDLEMESSAGE'', ''ATL_IDS_MRU_FILE'']"

definition SetupSystemIdentifiers :: "string list \<Rightarrow> string list \<Rightarrow> string list" where
  "SetupSystemIdentifiers ids known = fold set_add ids known"

definition id_char :: "char \<Rightarrow> bool" where
  "id_char c \<longleftrightarrow> is_alpha c \<or> is_digit c \<or> c = CHR ''_''"

text \<open>
  \<^verbatim>\<open>SYSTEM_IDENTIFIERS.match(tid)\<close> for the expression that has each identifier as a whole word: one of them
  starts the string and no letter, digit or underscore follows it.
\<close>

definition is_system_identifier :: "string list \<Rightarrow> string \<Rightarrow> bool" where
  "is_system_identifier known tid \<longleftrightarrow>
     (\<exists>i \<in> set known. startswith tid i \<and> (drop (length i) tid = [] \<or> \<not> id_char (hd (drop (length i) tid))))"

section \<open>The numbers of the identifiers\<close>

text \<open>
  The variables of \<^verbatim>\<open>_ComputeIds\<close>; \<open>id_owners\<close> stands for \<^verbatim>\<open>ids\<close> and \<^verbatim>\<open>id_reasons\<close>, which have the same
  keys (the reasons are texts for messages).
\<close>

record id_state =
  tids :: "(string \<times> int) list"
  id_owners :: "(int \<times> string) list"
  id_group :: "node_attrs option"
  last_id :: "int option"

definition first_id_of :: "node_attrs option \<Rightarrow> string" where
  "first_id_of g =
     (case g of None \<Rightarrow> [] | Some a \<Rightarrow> (case dict_get a ''first_id'' of Some f \<Rightarrow> f | None \<Rightarrow> []))"

text \<open>A number, or the identifier of one that is known.\<close>

definition long_or_tid :: "(string \<times> int) list \<Rightarrow> string \<Rightarrow> int res" where
  "long_or_tid known t =
     (case py_long t of
        Inr n \<Rightarrow> Inr n
      | Inl _ \<Rightarrow> (case dict_get known t of Some n \<Rightarrow> Inr n | None \<Rightarrow> Inl KeyError))"

text \<open>The first number of a group, or the one after the last.\<close>

definition sequential_id :: "(string \<Rightarrow> string) \<Rightarrow> string \<Rightarrow> id_state \<Rightarrow> (int \<times> int option) res" where
  "sequential_id md5_hex tid st =
     (case last_id st of
        None \<Rightarrow>
          if first_id_of (id_group st) \<noteq> []
          then bind_res (py_long (first_id_of (id_group st))) (\<lambda>i. Inr (i, Some i))
          else let i = UnsignedFingerPrint md5_hex tid mod (0x7FFF - 101) + 101 in Inr (i, Some i)
      | Some n \<Rightarrow> Inr (n + 1, Some (n + 1)))"

text \<open>The number of an identifier and the last number that was given in sequence.\<close>

definition choose_id :: "(string \<Rightarrow> string) \<Rightarrow> grit_node \<Rightarrow> string \<Rightarrow> id_state \<Rightarrow> (int \<times> int option) res" where
  "choose_id md5_hex item tid st =
     (case GetId item of
        Some (c # cs) \<Rightarrow> bind_res (py_long (c # cs)) (\<lambda>i. Inr (i, last_id st))
      | _ \<Rightarrow>
        (case dict_get (attrs item) ''offset'' of
           Some offset_text \<Rightarrow>
             if first_id_of (id_group st) \<noteq> []
             then bind_res (long_or_tid (tids st) offset_text) (\<lambda>offset_id.
                  bind_res (long_or_tid (tids st) (first_id_of (id_group st))) (\<lambda>parent_id.
                  Inr (parent_id + offset_id, last_id st)))
             else sequential_id md5_hex tid st
         | None \<Rightarrow> sequential_id md5_hex tid st))"

definition assign_id :: "(string \<Rightarrow> string) \<Rightarrow> string list \<Rightarrow> grit_node \<Rightarrow> string \<Rightarrow> id_state \<Rightarrow> id_state res" where
  "assign_id md5_hex known item tid st =
     (if is_system_identifier known tid then Inr st
      else if dict_get (tids st) tid \<noteq> None then Inr st
      else bind_res (choose_id md5_hex item tid st) (\<lambda>(i, last).
        if dict_get (id_owners st) i \<noteq> None \<and> dict_get (attrs item) ''offset'' = None then Inl IdRangeOverlap
        else Inr (st\<lparr>tids := dict_set tid i (tids st), id_owners := dict_set i tid (id_owners st), last_id := last\<rparr>)))"

definition compute_item :: "(string \<Rightarrow> string) \<Rightarrow> string list \<Rightarrow> grit_node \<Rightarrow> id_state \<Rightarrow> id_state res" where
  "compute_item md5_hex known item st =
     (if node_kind item = GroupingNode then Inr (st\<lparr>id_group := Some (attrs item), last_id := None\<rparr>)
      else if GetTextualIds item \<noteq> [] \<and> node_kind item \<notin> {IncludeNode, MessageNode, IdentifierNode, StructureNode}
      then Inl AssertionError
      else if dict_get (attrs item) ''generateid'' = Some ''false'' then Inr st
      else fold_res (assign_id md5_hex known item) (GetTextualIds item) st)"

definition id_start :: id_state where
  "id_start = \<lparr>tids = [], id_owners = [], id_group = None, last_id = None\<rparr>"

definition ComputeIds :: "(string \<Rightarrow> string) \<Rightarrow> string list \<Rightarrow> grit_node \<Rightarrow> (string \<times> int) list res" where
  "ComputeIds md5_hex known root =
     bind_res (fold_res (compute_item md5_hex known) (Preorder root) id_start) (\<lambda>st. Inr (tids st))"

text \<open>The numbers are computed once for each tree.\<close>

definition GetIds :: "(string \<Rightarrow> string) \<Rightarrow> string list \<Rightarrow> grit_node \<Rightarrow> ((grit_node \<times> (string \<times> int) list) list, (string \<times> int) list) st" where
  "GetIds md5_hex known root = cached_st (ComputeIds md5_hex known) root"

section \<open>The header\<close>

text \<open>The lines of the nodes of one loop, with the identifiers that were seen; \<open>line\<close> is the format.\<close>

definition define_line :: "(string \<times> int) list \<Rightarrow> (string \<Rightarrow> int \<Rightarrow> string) \<Rightarrow> string \<Rightarrow> string list \<times> string list \<Rightarrow> string list \<times> string list" where
  "define_line known line tid acc =
     (case (acc, dict_get known tid) of
        ((seen, ls), Some n) \<Rightarrow> if tid \<in> set seen then acc else (seen @ [tid], ls @ [line tid n])
      | (_, None) \<Rightarrow> acc)"

definition node_defines :: "(string \<times> int) list \<Rightarrow> (string \<Rightarrow> int \<Rightarrow> string) \<Rightarrow> grit_node list \<Rightarrow> string list \<times> string list \<Rightarrow> string list \<times> string list" where
  "node_defines known line nodes acc = fold (define_line known line) (concat (map GetTextualIds nodes)) acc"

definition default_line :: "string \<Rightarrow> int \<Rightarrow> string" where
  "default_line tid n = ''#define '' @ tid @ '' '' @ str_int n @ [CHR 0x0A]"

definition FormatDefines ::
    "(string \<Rightarrow> bool) \<Rightarrow> (string \<times> int) list \<Rightarrow> bool \<Rightarrow> (string \<Rightarrow> int \<Rightarrow> string) option \<Rightarrow> grit_node \<Rightarrow> string list" where
  "FormatDefines cond known output_all_resource_defines rc_header_format root =
     (let line = (case rc_header_format of None \<Rightarrow> default_line | Some f \<Rightarrow> f);
          items = (if output_all_resource_defines then Preorder root else ActiveDescendants cond root);
          acc = node_defines known line (filter (\<lambda>n. node_kind n \<noteq> MessageNode) items) ([], []);
          acc = node_defines known line (filter (\<lambda>n. node_kind n = MessageNode) (ActiveDescendants cond root)) acc
      in snd acc)"

text \<open>The whole header; \<open>emit_lines\<close> are the texts that the output nodes prepend.\<close>

definition rc_header_Format ::
    "(string \<Rightarrow> bool) \<Rightarrow> (string \<Rightarrow> string) \<Rightarrow> string list \<Rightarrow> string list \<Rightarrow> bool \<Rightarrow> (string \<Rightarrow> int \<Rightarrow> string) option \<Rightarrow> grit_node
      \<Rightarrow> string list res" where
  "rc_header_Format cond md5_hex known emit_lines output_all rc_header_format root =
     bind_res (ComputeIds md5_hex known root) (\<lambda>ids.
       let nl = [CHR 0x0A] in
       Inr ([''// This file is automatically generated by GRIT. Do not edit.'' @ nl @ nl @ ''#pragma once'' @ nl]
         @ map (\<lambda>l. l @ nl) (if emit_lines \<noteq> [] then emit_lines else [''#include <atlres.h>'', []])
         @ FormatDefines cond ids output_all rc_header_format root))"

end
