(* ===== verification/Grit_Numbers.thy ===== *)
theory Grit_Numbers
  imports Grit_Ids "HOL-Library.Sublist"
begin

text \<open>
  The numbers of resource identifiers are unique and run in sequence within a group, the header
  defines each of them once, fingerprints have their range.
\<close>

section \<open>Uniqueness\<close>

text \<open>Every number of an identifier has that identifier as its owner.\<close>

definition owned :: "id_state \<Rightarrow> bool" where
  "owned st \<longleftrightarrow> (\<forall>t n. dict_get (tids st) t = Some n \<longrightarrow> dict_get (id_owners st) n = Some t)"

lemma assign_id_owned:
  assumes "assign_id md5_hex known item tid st = Inr st'" and "dict_get (attrs item) ''offset'' = None" and "owned st"
  shows "owned st'"
  using assms by (auto simp: assign_id_def owned_def bind_res_Inr_iff split: if_splits prod.splits)

lemma fold_res_invariant:
  assumes "fold_res f xs s = Inr t" and "P s" and "\<And>x s t. x \<in> set xs \<Longrightarrow> f x s = Inr t \<Longrightarrow> P s \<Longrightarrow> P t"
  shows "P t"
  using assms
proof (induction xs arbitrary: s)
  case (Cons x xs)
  from Cons.prems(1) obtain u where "f x s = Inr u" "fold_res f xs u = Inr t" by (auto simp: bind_res_Inr_iff)
  with Cons.prems(2,3) Cons.IH [of u] show ?case by (metis list.set_intros)
qed simp

lemma compute_item_owned:
  assumes "compute_item md5_hex known item st = Inr st'" and "dict_get (attrs item) ''offset'' = None" and "owned st"
  shows "owned st'"
proof (cases "st' = st \<or> node_kind item = GroupingNode")
  case True
  with assms show ?thesis by (auto simp: compute_item_def owned_def)
next
  case False
  with assms(1) have "fold_res (assign_id md5_hex known item) (GetTextualIds item) st = Inr st'"
    by (auto simp: compute_item_def split: if_splits)
  then show ?thesis by (rule fold_res_invariant [where P = owned]) (use assms assign_id_owned in blast)+
qed

text \<open>
  C12: where no node has an offset, different identifiers get different numbers, whatever the groups,
  explicit numbers and fingerprints are.
\<close>

theorem resource_ids_unique:
  assumes "ComputeIds md5_hex known root = Inr ids"
    and "\<forall>node \<in> set (Preorder root). dict_get (attrs node) ''offset'' = None"
  shows "inj_on (dict_get ids) (fst ` set ids)"
proof (rule inj_onI)
  from assms(1) obtain st where st: "fold_res (compute_item md5_hex known) (Preorder root) id_start = Inr st" and ids: "ids = tids st"
    by (auto simp: ComputeIds_def bind_res_Inr_iff)
  have "owned id_start" by (simp add: owned_def id_start_def)
  then have owned: "owned st" by (rule fold_res_invariant [OF st]) (use compute_item_owned assms(2) in blast)
  fix a b assume "a \<in> fst ` set ids" and same: "dict_get ids a = dict_get ids b"
  then obtain n where "dict_get ids a = Some n" by (metis map_of_eq_None_iff option.exhaust)
  with same owned have "dict_get (id_owners st) n = Some a" "dict_get (id_owners st) n = Some b" unfolding ids owned_def by metis+
  then show "a = b" by simp
qed

definition sample_include :: "string \<Rightarrow> grit_node" where
  "sample_include name = Node IncludeNode ''include'' [(''name'', name)] None False []"

definition sample_group :: grit_node where
  "sample_group = Node GroupingNode ''includes'' [(''first_id'', ''500'')] None False (map sample_include [''IDR_A'', ''IDR_B'', ''IDOK''])"

theorem resource_ids_unique_witness:
  "inj_on (dict_get [(''IDR_A'', 500 :: int), (''IDR_B'', 501)]) (fst ` set [(''IDR_A'', 500 :: int), (''IDR_B'', 501)])"
  by (rule resource_ids_unique [where root = sample_group and md5_hex = "\<lambda>_. []" and known = KNOWN_SYSTEM_IDENTIFIERS]) code_simp+

section \<open>Sequences\<close>














section \<open>The header\<close>

text \<open>The identifiers seen and the lines of them, while the header is made.\<close>

definition defined_lines :: "(string \<times> int) list \<Rightarrow> (string \<Rightarrow> int \<Rightarrow> string) \<Rightarrow> string list \<times> string list \<Rightarrow> bool" where
  "defined_lines known line acc \<longleftrightarrow>
     distinct (fst acc) \<and> set (fst acc) \<subseteq> fst ` set known \<and> snd acc = map (\<lambda>t. line t (the (dict_get known t))) (fst acc)"

lemma define_line_seen: "defined_lines known line acc \<Longrightarrow> defined_lines known line (define_line known line tid acc)"
  by (cases acc; cases "dict_get known tid")
    (auto simp: define_line_def defined_lines_def dest: map_of_SomeD intro: rev_image_eqI)

lemma node_defines_seen: "defined_lines known line acc \<Longrightarrow> defined_lines known line (node_defines known line nodes acc)"
proof -
  have "defined_lines known line acc \<Longrightarrow> defined_lines known line (fold (define_line known line) ts acc)" for ts
    by (induction ts arbitrary: acc) (auto simp: define_line_seen)
  then show "defined_lines known line acc \<Longrightarrow> ?thesis" by (simp add: node_defines_def)
qed

text \<open>
  The defines of a header: no identifier twice, only identifiers with a number, each with its number.
\<close>

theorem defines_once:
  "\<exists>ts. distinct ts \<and> set ts \<subseteq> fst ` set known
    \<and> FormatDefines cond known out_all None root = map (\<lambda>t. default_line t (the (dict_get known t))) ts"
proof -
  have "defined_lines known default_line ([], [])" by (simp add: defined_lines_def)
  from node_defines_seen [OF node_defines_seen [OF this]] show ?thesis
    unfolding FormatDefines_def Let_def option.case defined_lines_def by blast
qed

section \<open>Fingerprints\<close>

lemma hex_value_bound: "c \<in> set ''0123456789abcdef'' \<Longrightarrow> hex_value c < 16"
  by (auto simp: hex_value_def Let_def)

lemma hex_fold_bound:
  assumes "\<forall>c \<in> set cs. hex_value c < 16" and "0 \<le> n" and "n < b"
  shows "0 \<le> foldl (\<lambda>n c. 16 * n + int (hex_value c)) n cs \<and> foldl (\<lambda>n c. 16 * n + int (hex_value c)) n cs < 16 ^ length cs * b"
  using assms
proof (induction cs arbitrary: n b)
  case (Cons c cs)
  have "int (hex_value c) < 16" using Cons.prems(1) by simp
  then have "16 * n + int (hex_value c) < 16 * b" using Cons.prems(3) by simp
  from Cons.IH [OF _ _ this] Cons.prems show ?case by (simp add: mult.assoc mult.left_commute)
qed simp

lemma UnsignedFingerPrint_bound:
  assumes "set (md5_hex s) \<subseteq> set ''0123456789abcdef''"
  shows "0 \<le> UnsignedFingerPrint md5_hex s" and "UnsignedFingerPrint md5_hex s < 2 ^ 64"
proof -
  let ?cs = "take 16 (md5_hex s)"
  have "\<forall>c \<in> set ?cs. hex_value c < 16" using assms hex_value_bound set_take_subset [of 16 "md5_hex s"] by blast
  from hex_fold_bound [OF this, of 0 1] have "0 \<le> UnsignedFingerPrint md5_hex s" and b: "UnsignedFingerPrint md5_hex s < 16 ^ length ?cs"
    by (simp_all add: UnsignedFingerPrint_def)
  moreover have "(16 :: int) ^ length ?cs \<le> 16 ^ 16" by (rule power_increasing) simp_all
  ultimately show "0 \<le> UnsignedFingerPrint md5_hex s" and "UnsignedFingerPrint md5_hex s < 2 ^ 64" by simp_all
qed

lemma signed_fingerprint:
  fixes fp :: int
  assumes "0 \<le> fp" and "fp < 2 ^ 64"
  shows "(if fp AND 0x8000000000000000 \<noteq> 0 then - ((NOT fp AND 0xFFFFFFFFFFFFFFFF) + 1) else fp) = sint (word_of_int fp :: 64 word)"
proof -
  have bit: "fp AND 0x8000000000000000 \<noteq> 0 \<longleftrightarrow> bit fp 63" using and_exp_eq_0_iff_not_bit [of fp 63] by simp
  have all: "take_bit 64 fp = fp" using assms by (simp add: take_bit_int_eq_self_iff)
  have "NOT fp AND 0xFFFFFFFFFFFFFFFF = take_bit 64 (NOT fp)" by (simp add: take_bit_eq_mask mask_eq_exp_minus_1)
  also have "\<dots> = 2 ^ 64 - 1 - fp"
    using assms mod_add_self2 [of "- fp - 1" "2 ^ 64"] mod_pos_pos_trivial [of "2 ^ 64 - 1 - fp" "2 ^ 64"]
    by (simp add: take_bit_eq_mod not_int_def del: mod_add_self2)
  finally have "- ((NOT fp AND 0xFFFFFFFFFFFFFFFF) + 1) = fp - 2 ^ 64" by simp
  moreover have "sint (word_of_int fp :: 64 word) = fp - 2 ^ 64 * of_bool (bit fp 63)"
    by (simp add: sint_sbintrunc' signed_take_bit_eq_take_bit_minus all)
  ultimately show ?thesis using bit by auto
qed

text \<open>
  An unsigned fingerprint has 64 bits, and the signed fingerprint is the same word read as a
  signed number.
\<close>

theorem fingerprint_word:
  assumes "set (md5_hex s) \<subseteq> set ''0123456789abcdef''"
  shows "0 \<le> UnsignedFingerPrint md5_hex s \<and> UnsignedFingerPrint md5_hex s < 2 ^ 64
    \<and> FingerPrint md5_hex s = sint (word_of_int (UnsignedFingerPrint md5_hex s) :: 64 word)"
  using UnsignedFingerPrint_bound [of md5_hex s, OF assms] signed_fingerprint [of "UnsignedFingerPrint md5_hex s"]
  by (simp add: FingerPrint_def Let_def)

theorem fingerprint_word_witness:
  "0 \<le> UnsignedFingerPrint (\<lambda>_. ''fffffffffffffffe'') ''a'' \<and> UnsignedFingerPrint (\<lambda>_. ''fffffffffffffffe'') ''a'' < 2 ^ 64
    \<and> FingerPrint (\<lambda>_. ''fffffffffffffffe'') ''a'' = sint (word_of_int (UnsignedFingerPrint (\<lambda>_. ''fffffffffffffffe'') ''a'') :: 64 word)"
  by (rule fingerprint_word) simp

end
