(* ===== verification/Grit_First_Ids.thy ===== *)
theory Grit_First_Ids
  imports Grit_Numbers
begin

text \<open>
  The first numbers of the groups of a resource file, from a file of numbers (\<^verbatim>\<open>node/misc.py\<close>), and the
  text of an XML element (\<^verbatim>\<open>util.py\<close>) in \<^verbatim>\<open>tools/grit/grit\<close>.
\<close>

section \<open>The file of first numbers\<close>

text \<open>
  For each resource file and kind of group the numbers that its groups take, in order; the entry
  \<^verbatim>\<open>SRCDIR\<close> is a path. \<open>read_ids\<close> is the value of the file, after \<^verbatim>\<open>eval\<close>.
\<close>

type_synonym first_ids = "(string \<times> (string \<times> int list) list) list"

record ids_file =
  SRCDIR :: "string option"
  id_table :: first_ids

definition var_char :: "char \<Rightarrow> bool" where
  "var_char c \<longleftrightarrow> is_alpha c \<or> c = CHR ''_''"

text \<open>One variable \<^verbatim>\<open><(NAME)\<close> at the start of a text: its name and the text after it.\<close>

definition match_variable :: "string \<Rightarrow> (string \<times> string) option" where
  "match_variable s =
     (if startswith s ''<('' then
        let name = takeWhile var_char (drop 2 s); rest = dropWhile var_char (drop 2 s) in
        if name \<noteq> [] \<and> startswith rest '')'' then Some (name, tl rest) else None
      else None)"

lemma match_variable_shorter: "match_variable s = Some (n, r) \<Longrightarrow> length r < length s"
proof -
  assume m: "match_variable s = Some (n, r)"
  then have "startswith s ''<(''" and r: "r = tl (dropWhile var_char (drop 2 s))"
    by (auto simp: match_variable_def Let_def split: if_splits)
  then have "2 \<le> length s" by (auto simp: startswith_def dest: arg_cong [where f = length])
  then show ?thesis using length_dropWhile_le [of var_char "drop 2 s"] by (simp add: r)
qed

definition ReplaceVariable :: "(string \<times> string) list \<Rightarrow> string \<Rightarrow> string" where
  "ReplaceVariable defines name = (case dict_get defines name of Some v \<Rightarrow> v | None \<Rightarrow> [])"

function sub_variables :: "(string \<times> string) list \<Rightarrow> string \<Rightarrow> string" where
  "sub_variables defines s =
     (case match_variable s of
        Some (name, rest) \<Rightarrow> ReplaceVariable defines name @ sub_variables defines rest
      | None \<Rightarrow> (case s of [] \<Rightarrow> [] | c # t \<Rightarrow> c # sub_variables defines t))"
  by pat_completeness auto
termination by (relation "measure (\<lambda>(_, s). length s)") (auto dest: match_variable_shorter)

declare sub_variables.simps [simp del]

definition backslash_to_slash :: "string \<Rightarrow> string" where
  "backslash_to_slash s = map (\<lambda>c. if c = CHR 0x5C then CHR ''/'' else c) s"

text \<open>The name of a file below the source directory, or its last part elsewhere; \<open>full\<close> is its absolute path.\<close>

definition name_below :: "string \<Rightarrow> string \<Rightarrow> string \<Rightarrow> string" where
  "name_below src_root_dir full elsewhere =
     (if take (length src_root_dir) full \<noteq> src_root_dir then basename elsewhere
      else backslash_to_slash (drop (length src_root_dir + 1) full))"

definition renamed :: "string \<Rightarrow> (string \<times> string) list \<Rightarrow> string \<Rightarrow> string \<Rightarrow> (string \<times> string) option" where
  "renamed cwd defines src_root_dir grd_filename =
     (let new = sub_variables defines grd_filename; full = abspath cwd new in
      if new = grd_filename then None else Some (grd_filename, name_below src_root_dir full full))"

definition rename_entry :: "string \<times> string \<Rightarrow> first_ids \<Rightarrow> first_ids res" where
  "rename_entry r table =
     (case dict_get table (fst r) of
        Some v \<Rightarrow> Inr (dict_del (fst r) (dict_set (snd r) v table))
      | None \<Rightarrow> Inl KeyError)"

definition ReadFirstIdsFromFile ::
    "string \<Rightarrow> (string \<Rightarrow> ids_file res) \<Rightarrow> string \<Rightarrow> (string \<times> string) list \<Rightarrow> (string \<times> first_ids) res" where
  "ReadFirstIdsFromFile cwd read_ids filename defines =
     bind_res (read_ids filename) (\<lambda>f.
     case SRCDIR f of
       None \<Rightarrow> Inl KeyError
     | Some srcdir \<Rightarrow>
         let src_root_dir = abspath cwd (path_join (dirname filename) srcdir) in
         bind_res (fold_res rename_entry (List.map_filter (renamed cwd defines src_root_dir) (map fst (id_table f))) (id_table f))
           (\<lambda>table. Inr (src_root_dir, table)))"

section \<open>Assignment\<close>

text \<open>The first number for a group, taken from the front of its list.\<close>

definition take_first_id :: "string \<Rightarrow> grit_node \<Rightarrow> first_ids \<Rightarrow> (grit_node \<times> first_ids) res" where
  "take_first_id filename node table =
     (case dict_get (attrs node) ''first_id'' of
        None \<Rightarrow> Inl KeyError
      | Some f \<Rightarrow>
          if f \<noteq> [] then Inl PlainException
          else case dict_get table filename of
            None \<Rightarrow> Inl KeyError
          | Some groups \<Rightarrow>
              (case dict_get groups (node_name node) of
                 None \<Rightarrow> Inl KeyError
               | Some [] \<Rightarrow> Inl PlainException
               | Some (i # is) \<Rightarrow>
                   Inr (Node (node_kind node) (node_name node) (dict_set ''first_id'' (str_int i) (attrs node)) (gathered_ids node)
                          (marked_skip node) (children node),
                        dict_set filename (dict_set (node_name node) is groups) table)))"

fun assign_first_ids :: "string \<Rightarrow> grit_node \<Rightarrow> first_ids \<Rightarrow> (grit_node \<times> first_ids) res"
  and assign_children :: "string \<Rightarrow> grit_node list \<Rightarrow> first_ids \<Rightarrow> (grit_node list \<times> first_ids) res" where
  "assign_first_ids filename (Node k n a g m cs) table =
     bind_res (if k = GroupingNode then take_first_id filename (Node k n a g m cs) table
               else Inr (Node k n a g m cs, table)) (\<lambda>(node, table).
     bind_res (assign_children filename cs table) (\<lambda>(cs, table).
     Inr (Node (node_kind node) (node_name node) (attrs node) (gathered_ids node) (marked_skip node) cs, table)))"
| "assign_children filename [] table = Inr ([], table)"
| "assign_children filename (c # cs) table =
     bind_res (assign_first_ids filename c table) (\<lambda>(c, table).
     bind_res (assign_children filename cs table) (\<lambda>(cs, table). Inr (c # cs, table)))"

text \<open>
  \<open>first_ids_filename\<close> is the file that the root node names, if any; a stream has no file name and
  nothing is assigned to it.
\<close>

definition AssignFirstIds ::
    "string \<Rightarrow> (string \<Rightarrow> ids_file res) \<Rightarrow> string option \<Rightarrow> string option \<Rightarrow> (string \<times> string) list \<Rightarrow> grit_node \<Rightarrow> grit_node res" where
  "AssignFirstIds cwd read_ids first_ids_filename filename defines root =
     (case (filename, first_ids_filename) of
        (Some f, Some (c # cs)) \<Rightarrow>
          bind_res (ReadFirstIdsFromFile cwd read_ids (c # cs) defines) (\<lambda>(src_root_dir, table).
          bind_res (assign_first_ids (name_below src_root_dir (abspath cwd f) f) root table) (\<lambda>(root, _). Inr root))
      | _ \<Rightarrow> Inr root)"

section \<open>Text of an element\<close>

text \<open>\<^verbatim>\<open>s.count(t)\<close>, without overlaps.\<close>

function str_count :: "string \<Rightarrow> string \<Rightarrow> nat" where
  "str_count t s =
     (if t = [] then Suc (length s)
      else case s of [] \<Rightarrow> 0
        | c # r \<Rightarrow> if startswith s t then Suc (str_count t (drop (length t) s)) else str_count t r)"
  by pat_completeness auto
termination by (relation "measure (\<lambda>(_, s). length s)") auto

declare str_count.simps [simp del]

text \<open>\<^verbatim>\<open>saxutils.escape\<close>.\<close>

definition xml_escape :: "string \<Rightarrow> string" where
  "xml_escape s =
     concat (map (\<lambda>c. if c = CHR ''&'' then ''&amp;'' else if c = CHR ''>'' then ''&gt;'' else if c = CHR ''<'' then ''&lt;'' else [c]) s)"

definition EncodeCdata :: "string \<Rightarrow> string" where
  "EncodeCdata cdata =
     (if 1 < str_count ''<'' cdata \<or> (1 < str_count ''>'' cdata \<and> str_count '']]>'' cdata = 0)
      then ''<![CDATA['' @ cdata @ '']]>'' else xml_escape cdata)"

section \<open>Reading the text back\<close>

text \<open>An XML reader: a section ends at the first \<^verbatim>\<open>]]>\<close>, elsewhere the three entities stand for characters.\<close>

fun until_end :: "string \<Rightarrow> (string \<times> string) option" where
  "until_end [] = None"
| "until_end (c # s) =
     (if startswith (c # s) '']]>'' then Some ([], drop 3 (c # s)) else map_option (\<lambda>(a, b). (c # a, b)) (until_end s))"

lemma startswith_nonempty: "startswith s (c # t) \<Longrightarrow> s \<noteq> []"
  by (auto simp: startswith_def)

function xml_unescape :: "string \<Rightarrow> string" where
  "xml_unescape s =
     (if startswith s ''&amp;'' then CHR ''&'' # xml_unescape (drop 5 s)
      else if startswith s ''&gt;'' then CHR ''>'' # xml_unescape (drop 4 s)
      else if startswith s ''&lt;'' then CHR ''<'' # xml_unescape (drop 4 s)
      else case s of [] \<Rightarrow> [] | c # r \<Rightarrow> c # xml_unescape r)"
  by pat_completeness auto
termination by (relation "measure length") (auto dest: startswith_nonempty)

declare xml_unescape.simps [simp del]

definition read_element :: "string \<Rightarrow> string option" where
  "read_element s =
     (if startswith s ''<![CDATA['' then
        (case until_end (drop 9 s) of Some (t, []) \<Rightarrow> Some t | _ \<Rightarrow> None)
      else if CHR ''<'' \<in> set s then None else Some (xml_unescape s))"

lemma until_end_append: "str_count '']]>'' s = 0 \<Longrightarrow> until_end (s @ '']]>'') = Some (s, [])"
proof (induction s)
  case (Cons c s)
  have no: "\<not> startswith (c # s) '']]>''" "str_count '']]>'' s = 0"
    using Cons.prems by (subst (asm) str_count.simps, simp split: if_splits)+
  have "\<not> startswith ((c # s) @ '']]>'') '']]>''"
  proof (cases s)
    case (Cons d t)
    then show ?thesis using no(1) by (cases t) (auto simp: startswith_def)
  qed (simp add: startswith_def)
  with Cons.IH [OF no(2)] show ?case by simp
qed (simp add: startswith_def)

lemma str_count_short: "length s < length t \<Longrightarrow> str_count t s = 0"
proof (induction s)
  case (Cons c s)
  then have "\<not> startswith (c # s) t" by (auto simp: startswith_def dest: arg_cong [where f = length])
  with Cons show ?case by (subst str_count.simps) auto
qed (subst str_count.simps, auto)

lemma until_end_early: "str_count '']]>'' s \<noteq> 0 \<Longrightarrow> \<exists>a b. until_end (s @ u) = Some (a, b @ u)"
proof (induction s)
  case (Cons c s)
  show ?case
  proof (cases "startswith (c # s) '']]>''")
    case True
    then have "startswith ((c # s) @ u) '']]>''" and "3 \<le> length (c # s)"
      by (auto simp: startswith_def dest: arg_cong [where f = length])
    then show ?thesis by (auto simp: numeral_3_eq_3)
  next
    case False
    with Cons.prems have "str_count '']]>'' s \<noteq> 0" by (subst (asm) str_count.simps) simp
    with Cons.IH obtain a b where ab: "until_end (s @ u) = Some (a, b @ u)" by blast
    show ?thesis
    proof (cases "startswith ((c # s) @ u) '']]>''")
      case True
      with False have "length s < 2" by (cases s; cases "tl s") (auto simp: startswith_def)
      then have "str_count '']]>'' s = 0" by (intro str_count_short) simp
      with \<open>str_count '']]>'' s \<noteq> 0\<close> show ?thesis by simp
    qed (use ab in auto)
  qed
qed (simp add: str_count.simps)

lemma xml_unescape_char: "c \<noteq> CHR ''&'' \<Longrightarrow> xml_unescape (c # s) = c # xml_unescape s"
  by (subst xml_unescape.simps) (simp add: startswith_def)

lemma xml_unescape_entity:
  "xml_unescape (''&amp;'' @ s) = CHR ''&'' # xml_unescape s"
  "xml_unescape (''&gt;'' @ s) = CHR ''>'' # xml_unescape s"
  "xml_unescape (''&lt;'' @ s) = CHR ''<'' # xml_unescape s"
  by (subst xml_unescape.simps, simp add: startswith_def)+

lemma xml_unescape_escape: "xml_unescape (xml_escape s) = s"
proof (induction s)
  case Nil
  show ?case by (subst xml_unescape.simps) (simp add: xml_escape_def startswith_def)
next
  case (Cons c s)
  then show ?case
    using xml_unescape_entity [of "xml_escape s"] xml_unescape_char [of c "xml_escape s"] by (simp add: xml_escape_def)
qed

lemma xml_escape_plain: "CHR ''<'' \<notin> set (xml_escape s)"
  by (induction s) (auto simp: xml_escape_def)

text \<open>
  C39: the text of an element reads back from its encoded form, unless it has more than one \<^verbatim>\<open><\<close>
  together with a \<^verbatim>\<open>]]>\<close>; and such a text, which is put into a section as well, does not.
\<close>

theorem cdata_reads_back:
  "read_element (EncodeCdata s) = Some s \<longleftrightarrow> str_count ''<'' s \<le> 1 \<or> str_count '']]>'' s = 0"
proof (cases "1 < str_count ''<'' s \<or> (1 < str_count ''>'' s \<and> str_count '']]>'' s = 0)")
  case True
  then have cdata: "read_element (EncodeCdata s) = (case until_end (s @ '']]>'') of Some (t, []) \<Rightarrow> Some t | _ \<Rightarrow> None)"
    by (simp add: EncodeCdata_def read_element_def startswith_def)
  show ?thesis
  proof (cases "str_count '']]>'' s = 0")
    case True
    with cdata until_end_append [OF this] show ?thesis by simp
  next
    case False
    then obtain a b where "until_end (s @ '']]>'') = Some (a, b @ '']]>'')" using until_end_early by blast
    with cdata have "read_element (EncodeCdata s) = None" by (cases b) simp_all
    with True False show ?thesis by simp
  qed
next
  case False
  have "\<not> startswith (xml_escape s) ''<![CDATA[''"
    using xml_escape_plain [of s] by (cases "xml_escape s") (auto simp: startswith_def)
  with False show ?thesis
    using xml_escape_plain [of s] by (auto simp: EncodeCdata_def read_element_def xml_unescape_escape)
qed

end
